(* ===== verification/Nexwatch_Prelude.thy ===== *)
theory Nexwatch_Prelude
  imports Complex_Main "HOL-Library.Word" "HOL-Library.Multiset"
begin

text \<open>
  Shared vocabulary of the development: Go's \<open>time.Time\<close> and \<open>time.Duration\<close> (nanoseconds,
  with the saturation of \<open>Time.Sub\<close> and the wrap-around of \<open>int64\<close> multiplication), byte strings
  with the ASCII part of package \<open>strings\<close>, the dynamically typed values (\<open>any\<close>) that the
  JSON and MessagePack decoders produce, and generic lemmas on lists and maps that the component
  theories share through the collections declared here.

  Conventions. A \<open>time.Time\<close> is the number of nanoseconds since Go's zero time, so the zero
  time is \<open>0\<close> and \<open>IsZero\<close> is a test for \<open>0\<close>. A \<open>float64\<close> is a rational number: every finite
  float is one, comparisons agree, and the rounding of sums and quotients is not modelled. A Go
  string is a list of bytes; case mapping and white space are those of ASCII.
\<close>

named_theorems time_simps "definitions of the clock arithmetic"
named_theorems str_simps "definitions of the string functions"

section \<open>Time and durations\<close>

type_synonym time = int
type_synonym duration = int

definition millisecond :: duration where [time_simps]: "millisecond = 1000000"
definition second :: duration where [time_simps]: "second = 1000000000"
definition minute :: duration where [time_simps]: "minute = 60000000000"
definition hour :: duration where [time_simps]: "hour = 3600000000000"
definition day :: duration where [time_simps]: "day = 86400000000000"

definition max_int64 :: int where [time_simps]: "max_int64 = 9223372036854775807"
definition min_int64 :: int where [time_simps]: "min_int64 = -9223372036854775808"

text \<open>\<open>Time.Sub\<close> saturates at the largest and smallest duration.\<close>

definition t_sub :: "time \<Rightarrow> time \<Rightarrow> duration" where
  "t_sub a b = max min_int64 (min max_int64 (a - b))"

text \<open>Two's complement wrap-around of a 64-bit result.\<close>

definition wrap64 :: "int \<Rightarrow> int" where
  "wrap64 x = (x + 9223372036854775808) mod 18446744073709551616 - 9223372036854775808"

text \<open>The conversion \<open>int(f)\<close> of a float truncates towards zero.\<close>

definition trunc_rat :: "rat \<Rightarrow> int" where
  "trunc_rat x = (if x < 0 then - \<lfloor>- x\<rfloor> else \<lfloor>x\<rfloor>)"

text \<open>\<open>time.Duration(f) * time.Second\<close> for a float \<open>f\<close>.\<close>

definition secs_of_float :: "rat \<Rightarrow> duration" where
  "secs_of_float f = wrap64 (trunc_rat f * second)"

text \<open>
  The timestamp format the hub stores, \<open>2006-01-02 15:04:05.000Z\<close>, keeps milliseconds; reading
  the field back gives the truncated instant.
\<close>

definition fmt_ts :: "time \<Rightarrow> time" where
  "fmt_ts t = t div millisecond * millisecond"

lemma t_sub_exact:
  "min_int64 \<le> a - b \<Longrightarrow> a - b \<le> max_int64 \<Longrightarrow> t_sub a b = a - b"
  by (simp add: t_sub_def)

lemma t_sub_mono: "a \<le> a' \<Longrightarrow> t_sub a b \<le> t_sub a' b"
  by (auto simp: t_sub_def)

lemma t_sub_le_iff: "d \<le> max_int64 \<Longrightarrow> min_int64 < d \<Longrightarrow> d \<le> t_sub a b \<longleftrightarrow> d \<le> a - b"
  by (auto simp: t_sub_def)

lemma wrap64_id: "min_int64 \<le> x \<Longrightarrow> x \<le> max_int64 \<Longrightarrow> wrap64 x = x"
  by (simp add: wrap64_def min_int64_def max_int64_def)

lemma wrap64_range: "min_int64 \<le> wrap64 x \<and> wrap64 x \<le> max_int64"
proof -
  have "0 \<le> (x + 9223372036854775808) mod 18446744073709551616"
    and "(x + 9223372036854775808) mod 18446744073709551616 < 18446744073709551616"
    by simp_all
  then show ?thesis by (simp add: wrap64_def min_int64_def max_int64_def)
qed

lemma fmt_ts_le: "fmt_ts t \<le> t"
  by (simp add: fmt_ts_def millisecond_def minus_mult_div_eq_mod [symmetric]
      flip: minus_mod_eq_div_mult)

lemma fmt_ts_gt: "t - millisecond < fmt_ts t"
proof -
  have "t mod 1000000 < 1000000" by simp
  then show ?thesis
    by (simp add: fmt_ts_def millisecond_def flip: minus_mod_eq_div_mult)
qed

lemma fmt_ts_idem [simp]: "fmt_ts (fmt_ts t) = fmt_ts t"
  by (simp add: fmt_ts_def millisecond_def)

lemma fmt_ts_mono: "s \<le> t \<Longrightarrow> fmt_ts s \<le> fmt_ts t"
  by (simp add: fmt_ts_def millisecond_def zdiv_mono1)

lemma fmt_ts_pos: "millisecond \<le> t \<Longrightarrow> 0 < fmt_ts t"
  using fmt_ts_mono [of millisecond t] by (simp add: fmt_ts_def millisecond_def)

section \<open>Byte strings\<close>

abbreviation char_code :: "char \<Rightarrow> nat" where
  "char_code c \<equiv> of_char c"

definition lower_char :: "char \<Rightarrow> char" where
  "lower_char c = (if 65 \<le> char_code c \<and> char_code c \<le> 90 then char_of (char_code c + 32) else c)"

definition upper_char :: "char \<Rightarrow> char" where
  "upper_char c = (if 97 \<le> char_code c \<and> char_code c \<le> 122 then char_of (char_code c - 32) else c)"

definition to_lower :: "string \<Rightarrow> string" where
  "to_lower s = map lower_char s"

text \<open>The white space of \<open>unicode.IsSpace\<close> in the ASCII range.\<close>

definition is_space :: "char \<Rightarrow> bool" where
  "is_space c \<longleftrightarrow> char_code c \<in> {9, 10, 11, 12, 13, 32}"

definition trim_space :: "string \<Rightarrow> string" where
  "trim_space s = rev (dropWhile is_space (rev (dropWhile is_space s)))"

definition trim_right :: "string \<Rightarrow> char \<Rightarrow> string" where
  "trim_right s c = rev (dropWhile (\<lambda>x. x = c) (rev s))"

definition has_prefix :: "string \<Rightarrow> string \<Rightarrow> bool" where
  "has_prefix s p \<longleftrightarrow> take (length p) s = p"

definition has_suffix :: "string \<Rightarrow> string \<Rightarrow> bool" where
  "has_suffix s p \<longleftrightarrow> has_prefix (rev s) (rev p)"

definition trim_prefix :: "string \<Rightarrow> string \<Rightarrow> string" where
  "trim_prefix s p = (if has_prefix s p then drop (length p) s else s)"

definition equal_fold :: "string \<Rightarrow> string \<Rightarrow> bool" where
  "equal_fold s t \<longleftrightarrow> to_lower s = to_lower t"

text \<open>\<open>strings.Contains(s, sub)\<close>: some suffix of \<open>s\<close> starts with \<open>sub\<close>.\<close>

fun str_contains :: "string \<Rightarrow> string \<Rightarrow> bool" where
  "str_contains [] sub = (sub = [])"
| "str_contains (c # s) sub = (has_prefix (c # s) sub \<or> str_contains s sub)"

text \<open>\<open>strings.IndexByte\<close> / \<open>bytes.IndexByte\<close>: the first position of a byte, if any.\<close>

fun index_byte :: "string \<Rightarrow> char \<Rightarrow> nat option" where
  "index_byte [] c = None"
| "index_byte (x # xs) c = (if x = c then Some 0 else map_option Suc (index_byte xs c))"

text \<open>\<open>strings.Fields\<close>: the maximal runs of non-space bytes.\<close>

function fields :: "string \<Rightarrow> string list" where
  "fields s = (case dropWhile is_space s of [] \<Rightarrow> []
     | c # r \<Rightarrow> (c # takeWhile (\<lambda>x. \<not> is_space x) r) # fields (dropWhile (\<lambda>x. \<not> is_space x) r))"
  by pat_completeness auto
termination
proof (relation "measure length", goal_cases)
  case (2 s c r)
  have "length (dropWhile (\<lambda>x. \<not> is_space x) r) \<le> length r" by (rule length_dropWhile_le)
  moreover have "length (c # r) \<le> length s" by (metis 2 length_dropWhile_le)
  ultimately show ?case by simp
qed simp

declare fields.simps [simp del]

text \<open>\<open>strings.Split(s, sep)\<close> for a one-byte separator.\<close>

fun split_byte :: "char \<Rightarrow> string \<Rightarrow> string list" where
  "split_byte c [] = [[]]"
| "split_byte c (x # xs) = (if x = c then [] # split_byte c xs
     else (case split_byte c xs of [] \<Rightarrow> [[x]] | w # ws \<Rightarrow> (x # w) # ws))"

text \<open>\<open>strings.ToUpper\<close>, a newline, and \<open>strings.ReplaceAll\<close> for a one-byte pattern.\<close>

definition to_upper :: "string \<Rightarrow> string" where
  "to_upper s = map upper_char s"

definition nl :: string where "nl = [CHR 0x0A]"

definition replace_byte :: "char \<Rightarrow> string \<Rightarrow> string \<Rightarrow> string" where
  "replace_byte c r s = concat (map (\<lambda>x. if x = c then r else [x]) s)"

text \<open>
  The lines of \<open>bufio.Scanner\<close>: without the carriage return at their end, without an empty last
  line, and up to the first line of 64 KiB, where the scanner stops.
\<close>

definition drop_cr :: "string \<Rightarrow> string" where
  "drop_cr l = (if l \<noteq> [] \<and> last l = CHR 0x0D then butlast l else l)"

definition scan_lines :: "string \<Rightarrow> string list" where
  "scan_lines data =
     (let ls = split_byte CHR 0x0A data
      in map drop_cr (takeWhile (\<lambda>l. length l < 65536) (if last ls = [] then butlast ls else ls)))"

text \<open>\<open>strings.Join\<close>.\<close>

fun str_join :: "string \<Rightarrow> string list \<Rightarrow> string" where
  "str_join sep [] = []"
| "str_join sep [x] = x"
| "str_join sep (x # y # ys) = x @ sep @ str_join sep (y # ys)"

lemma has_prefix_append [simp]: "has_prefix (p @ s) p"
  by (simp add: has_prefix_def)

lemma has_prefix_iff: "has_prefix s p \<longleftrightarrow> (\<exists>r. s = p @ r)"
  by (metis append_eq_conv_conj append_take_drop_id has_prefix_def)

lemma has_prefix_Nil [simp]: "has_prefix s []"
  by (simp add: has_prefix_def)

lemma has_suffix_iff: "has_suffix s p \<longleftrightarrow> (\<exists>r. s = r @ p)"
  unfolding has_suffix_def has_prefix_iff by (metis rev_append rev_rev_ident)

lemma str_contains_iff: "str_contains s sub \<longleftrightarrow> (\<exists>l r. s = l @ sub @ r)"
proof (induction s)
  case Nil
  then show ?case by auto
next
  case (Cons c s)
  have "(\<exists>l r. c # s = l @ sub @ r) \<longleftrightarrow> (\<exists>r. c # s = sub @ r) \<or> (\<exists>l r. s = l @ sub @ r)"
    by (metis append_Cons append_Nil list.exhaust list.inject)
  with Cons show ?case by (simp add: has_prefix_iff)
qed

lemma index_byte_None_iff [simp]: "index_byte s c = None \<longleftrightarrow> c \<notin> set s"
  by (induction s) auto

lemma index_byte_SomeD:
  "index_byte s c = Some i \<Longrightarrow> i < length s \<and> s ! i = c \<and> c \<notin> set (take i s)"
  by (induction s arbitrary: i) (auto split: if_splits)

lemma index_byte_append:
  "c \<notin> set p \<Longrightarrow> index_byte (p @ c # r) c = Some (length p)"
  by (induction p) auto

lemma split_byte_ne [simp]: "split_byte c s \<noteq> []"
  by (induction s) (auto split: list.splits)

lemma length_trim_space: "length (trim_space s) \<le> length s"
  by (metis length_dropWhile_le length_rev le_trans trim_space_def)

lemma set_fields: "w \<in> set (fields s) \<Longrightarrow> w \<noteq> [] \<and> (\<forall>c \<in> set w. \<not> is_space c)"
proof (induction s rule: fields.induct)
  case (1 s)
  show ?case
  proof (cases "dropWhile is_space s")
    case Nil
    then have "fields s = []" by (subst fields.simps) (simp only: list.case)
    with "1.prems" show ?thesis by simp
  next
    case (Cons c r)
    let ?w = "c # takeWhile (\<lambda>x. \<not> is_space x) r"
    let ?rest = "fields (dropWhile (\<lambda>x. \<not> is_space x) r)"
    have "fields s = ?w # ?rest" by (subst fields.simps) (simp only: Cons list.case)
    with "1.prems" consider "w = ?w" | "w \<in> set ?rest" by (simp only: set_simps(2)) blast
    then show ?thesis
    proof cases
      case 1
      have "\<not> is_space c" using Cons by (metis dropWhile_eq_Cons_conv)
      then show ?thesis by (simp only: 1) (auto dest: set_takeWhileD)
    next
      case 2
      then show ?thesis by (rule "1.IH" [OF Cons])
    qed
  qed
qed

section \<open>Formatting numbers\<close>

text \<open>
  \<open>%d\<close> and \<open>%.<d>f\<close> of package \<open>fmt\<close>: a fixed number of decimals, rounded to the nearest with
  ties to even (Go rounds the exact value of the float).
\<close>

fun dec_digits :: "nat \<Rightarrow> string" where
  "dec_digits n = (if n < 10 then [char_of (48 + n)] else dec_digits (n div 10) @ [char_of (48 + n mod 10)])"

declare dec_digits.simps [simp del]

definition fmt_d :: "int \<Rightarrow> string" where
  "fmt_d i = (if i < 0 then ''-'' @ dec_digits (nat (- i)) else dec_digits (nat i))"

definition round_half_even :: "rat \<Rightarrow> int" where
  "round_half_even x =
     (let f = \<lfloor>x\<rfloor>; d = x - of_int f in
      if d < 1 / 2 then f else if 1 / 2 < d then f + 1 else if even f then f else f + 1)"

definition fmt_f :: "nat \<Rightarrow> rat \<Rightarrow> string" where
  "fmt_f d x =
     (let n = nat (round_half_even (\<bar>x\<bar> * 10 ^ d));
          ip = dec_digits (n div 10 ^ d); fp = dec_digits (n mod 10 ^ d)
      in (if x < 0 then ''-'' else []) @ ip @
         (if d = 0 then [] else CHR ''.'' # replicate (d - length fp) CHR ''0'' @ fp))"

section \<open>Dynamically typed values\<close>

text \<open>
  The values behind Go's \<open>any\<close> once JSON or MessagePack has decoded them. A sized integer other
  than \<open>int\<close>, \<open>int64\<close> and \<open>uint64\<close> (MessagePack's \<open>int8\<close> and so on) is \<open>ASmallInt\<close>; a
  \<open>json.Number\<close> is given by the outcome of its \<open>Float64\<close> method.
\<close>

datatype any =
    ANil
  | ABool bool
  | AFloat64 rat
  | AFloat32 rat
  | AInt int
  | AInt64 int
  | AUint64 int
  | ASmallInt int
  | ANumber "rat option"
  | AStr string
  | AArr "any list"
  | AObj "(string \<times> any) list"

type_synonym obj = "(string \<times> any) list"

text \<open>\<open>data[key]\<close> on a \<open>map[string]any\<close>: \<open>nil\<close> for a missing key.\<close>

definition aget :: "obj \<Rightarrow> string \<Rightarrow> any" where
  "aget m k = (case map_of m k of None \<Rightarrow> ANil | Some v \<Rightarrow> v)"

text \<open>The type assertions \<open>v.(string)\<close>, \<open>v.(bool)\<close>, \<open>v.([]any)\<close>, \<open>v.(map[string]any)\<close>.\<close>

fun as_string :: "any \<Rightarrow> string option" where
  "as_string (AStr s) = Some s"
| "as_string _ = None"

fun as_bool :: "any \<Rightarrow> bool option" where
  "as_bool (ABool b) = Some b"
| "as_bool _ = None"

fun as_arr :: "any \<Rightarrow> any list option" where
  "as_arr (AArr xs) = Some xs"
| "as_arr _ = None"

fun as_obj :: "any \<Rightarrow> obj option" where
  "as_obj (AObj m) = Some m"
| "as_obj _ = None"

text \<open>\<open>s, _ := v.(string)\<close>: the zero value when the assertion fails.\<close>

definition str_of :: "any \<Rightarrow> string" where
  "str_of v = (case as_string v of Some s \<Rightarrow> s | None \<Rightarrow> [])"

section \<open>Lists and maps\<close>

lemma map_of_filter_key: "map_of (filter (\<lambda>(k', v). k' \<noteq> k) xs) k' = (if k' = k then None else map_of xs k')"
  by (induction xs) auto

lemma distinct_same_key:
  assumes "distinct (map f xs)" and same: "\<And>a b. a \<in> set xs \<Longrightarrow> b \<in> set xs \<Longrightarrow> f a = f b"
  shows "length xs \<le> 1"
proof (rule ccontr)
  assume "\<not> length xs \<le> 1"
  then obtain x y zs where "xs = x # y # zs" by (metis One_nat_def Suc_length_conv le_Suc_eq length_0_conv neq_Nil_conv not_less_eq_eq le0)
  with assms(1) same [of x y] show False by simp
qed

lemma length_filter_Suc_le: "x \<in> set xs \<Longrightarrow> \<not> P x \<Longrightarrow> length (filter P xs) < length xs"
  by (rule length_filter_less)

lemma card_int_interval: "card {a..<b::int} = nat (b - a)"
  by simp

end
