(* ===== verification/Record_Table.thy ===== *)
theory Record_Table
  imports Nexwatch_Prelude
begin

text \<open>
  The database seen through the four calls of \<open>core.App\<close> that the hub makes on a collection:
  \<open>FindRecordById\<close>, \<open>Save\<close>, \<open>FindRecordsByFilter\<close> and \<open>Delete\<close>. PocketBase is not part of the
  repository, so a collection is a parameter: a record of operations on an unknown database state,
  and the documented behaviour the hub relies on is the locale \<open>record_table\<close>. Any other call may fail
  (a failing \<open>Save\<close> or \<open>Delete\<close> leaves the rows as they were), with one limit: \<open>t_find\<close> is a
  function of the rows, so a \<open>FindRecordById\<close> that fails for a row that exists is not expressed
  (the hub takes that error for a missing row). The last section gives an in-memory
  table whose faults follow an arbitrary schedule and shows that it obeys the contract; witnesses
  run the components on it.
\<close>

section \<open>The interface\<close>

record ('db, 'r) table =
  t_find :: "'db \<Rightarrow> string \<Rightarrow> 'r option"
  t_save :: "'db \<Rightarrow> 'r \<Rightarrow> 'db \<times> string option"
  t_all  :: "'db \<Rightarrow> ('r \<Rightarrow> bool) \<Rightarrow> 'r list option"
  t_del  :: "'db \<Rightarrow> string \<Rightarrow> 'db \<times> bool"

text \<open>
  \<open>ident\<close> and \<open>set_ident\<close> read and write the record id. A record that has none (\<open>core.NewRecord\<close>)
  gets a fresh one from \<open>Save\<close>.
\<close>

locale record_table =
  fixes T :: "('db, 'r) table" and ident :: "'r \<Rightarrow> string" and set_ident :: "string \<Rightarrow> 'r \<Rightarrow> 'r"
  assumes ident_set [simp]: "ident (set_ident i r) = i"
    and set_same [simp]: "set_ident (ident r) r = r"
    and find_ident: "t_find T db i = Some r \<Longrightarrow> ident r = i"
    and find_empty [simp]: "t_find T db [] = None"
    and save_find: "t_save T db r = (db', Some i) \<Longrightarrow> t_find T db' = (t_find T db)(i \<mapsto> set_ident i r)"
    and save_id: "t_save T db r = (db', Some i) \<Longrightarrow> ident r \<noteq> [] \<Longrightarrow> i = ident r"
    and save_fresh: "t_save T db r = (db', Some i) \<Longrightarrow> ident r = [] \<Longrightarrow> i \<noteq> [] \<and> t_find T db i = None"
    and save_err: "t_save T db r = (db', None) \<Longrightarrow> t_find T db' = t_find T db"
    and all_set: "t_all T db P = Some rs \<Longrightarrow> set rs = {r. t_find T db (ident r) = Some r \<and> P r}"
    and all_distinct: "t_all T db P = Some rs \<Longrightarrow> distinct (map ident rs)"
    and del_find: "t_del T db i = (db', True) \<Longrightarrow> t_find T db' = (t_find T db)(i := None)"
    and del_err: "t_del T db i = (db', False) \<Longrightarrow> t_find T db' = t_find T db"
begin

lemma save_existing:
  assumes "t_find T db i = Some r0" and "ident r = i" and "t_save T db r = (db', Some j)"
  shows "j = i \<and> t_find T db' = (t_find T db)(i \<mapsto> r)"
proof -
  from assms(1) have "i \<noteq> []" by auto
  with assms(2,3) have "j = i" using save_id by blast
  with save_find [OF assms(3)] assms(2) show ?thesis by (metis set_same)
qed

lemma save_update:
  assumes "t_save T db r = (db', Some j)" and "ident r \<noteq> []"
  shows "t_find T db' = (t_find T db)(ident r \<mapsto> r)"
  using save_id [OF assms] save_find [OF assms(1)] by simp

lemma save_new:
  assumes "t_save T db r = (db', Some i)" and "ident r = []"
  shows "i \<noteq> [] \<and> t_find T db i = None \<and> t_find T db' = (t_find T db)(i \<mapsto> set_ident i r)"
  using save_fresh [OF assms] save_find [OF assms(1)] by simp

lemma all_memD: "t_all T db P = Some rs \<Longrightarrow> r \<in> set rs \<Longrightarrow> t_find T db (ident r) = Some r \<and> P r"
  using all_set by blast

lemma all_memI: "t_all T db P = Some rs \<Longrightarrow> t_find T db i = Some r \<Longrightarrow> P r \<Longrightarrow> r \<in> set rs"
  using all_set find_ident by blast

lemma save_nonempty: "t_save T db r = (db', Some i) \<Longrightarrow> i \<noteq> []"
  by (metis save_fresh save_id)

lemma del_dom: "t_del T db i = (db', b) \<Longrightarrow> dom (t_find T db') \<subseteq> dom (t_find T db)"
  by (cases b) (auto dest!: del_find del_err split: if_splits)

end

text \<open>Every save goes through: a hypothesis of the properties about the absence of faults.\<close>

definition saves_succeed :: "('db, 'r) table \<Rightarrow> bool" where
  "saves_succeed T \<longleftrightarrow> (\<forall>db r. snd (t_save T db r) \<noteq> None)"

lemma saves_succeedD: "saves_succeed T \<Longrightarrow> snd (t_save T db r) \<noteq> None"
  by (simp only: saves_succeed_def) blast

section \<open>An in-memory table\<close>

text \<open>
  Rows with distinct non-empty ids, and a schedule of faults: each \<open>Save\<close>, \<open>Delete\<close> consumes the
  head of the schedule and fails when it is \<open>True\<close>; an exhausted schedule never fails.
\<close>

record 'r mem =
  m_rows :: "(string \<times> 'r) list"
  m_faults :: "bool list"

definition mem_fresh :: "(string \<times> 'r) list \<Rightarrow> string" where
  "mem_fresh rows = replicate (Suc (fold (\<lambda>(i, _) n. max (length i) n) rows 0)) CHR ''r''"

definition mem_find :: "(string \<Rightarrow> 'r \<Rightarrow> 'r) \<Rightarrow> 'r mem \<Rightarrow> string \<Rightarrow> 'r option" where
  "mem_find set_ident db i =
     (if i = [] then None else map_option (set_ident i) (map_of (m_rows db) i))"

definition mem_save :: "('r \<Rightarrow> string) \<Rightarrow> 'r mem \<Rightarrow> 'r \<Rightarrow> 'r mem \<times> string option" where
  "mem_save ident db r =
     (let fs = tl (m_faults db) in
      if m_faults db \<noteq> [] \<and> hd (m_faults db) then (db\<lparr>m_faults := fs\<rparr>, None)
      else let i = (if ident r = [] then mem_fresh (m_rows db) else ident r)
           in (db\<lparr>m_rows := (i, r) # filter (\<lambda>(j, _). j \<noteq> i) (m_rows db), m_faults := fs\<rparr>, Some i))"

definition mem_all :: "('r \<Rightarrow> string) \<Rightarrow> (string \<Rightarrow> 'r \<Rightarrow> 'r) \<Rightarrow> 'r mem \<Rightarrow> ('r \<Rightarrow> bool) \<Rightarrow> 'r list option" where
  "mem_all ident set_ident db P =
     Some (filter P (List.map_filter (mem_find set_ident db) (remdups (map fst (m_rows db)))))"

definition mem_del :: "'r mem \<Rightarrow> string \<Rightarrow> 'r mem \<times> bool" where
  "mem_del db i =
     (let fs = tl (m_faults db) in
      if m_faults db \<noteq> [] \<and> hd (m_faults db) then (db\<lparr>m_faults := fs\<rparr>, False)
      else (db\<lparr>m_rows := filter (\<lambda>(j, _). j \<noteq> i) (m_rows db), m_faults := fs\<rparr>, True))"

definition mem_table :: "('r \<Rightarrow> string) \<Rightarrow> (string \<Rightarrow> 'r \<Rightarrow> 'r) \<Rightarrow> ('r mem, 'r) table" where
  "mem_table ident set_ident =
     \<lparr>t_find = mem_find set_ident, t_save = mem_save ident,
      t_all = mem_all ident set_ident, t_del = mem_del\<rparr>"

lemmas mem_defs = mem_table_def mem_find_def mem_save_def mem_all_def mem_del_def mem_fresh_def

lemma fold_max_ge:
  "n \<le> fold (\<lambda>(i, _) n. max (length i) n) rows (n::nat) \<and>
   (\<forall>(i, r) \<in> set rows. length i \<le> fold (\<lambda>(i, _) n. max (length i) n) rows n)"
proof (induction rows arbitrary: n)
  case (Cons p rows)
  obtain i r where p: "p = (i, r)" by (cases p)
  show ?case using Cons.IH [of "max (length i) n"] by (auto simp: p)
qed simp

lemma mem_fresh_notin: "map_of rows (mem_fresh rows) = None"
proof -
  have "length i < length (mem_fresh rows)" if "(i, r) \<in> set rows" for i r
    using fold_max_ge [of 0 rows] that by (fastforce simp: mem_fresh_def)
  then show ?thesis by (fastforce simp: map_of_eq_None_iff)
qed

lemma mem_fresh_ne [simp]: "mem_fresh rows \<noteq> []"
  by (simp add: mem_fresh_def)

lemma mem_table_contract:
  assumes "\<And>i r. ident (set_ident i r) = i" and "\<And>r. set_ident (ident r) r = r"
    and "\<And>i j r. set_ident i (set_ident j r) = set_ident i r"
  shows "record_table (mem_table ident set_ident) ident set_ident"
proof (unfold_locales, goal_cases)
  case (5 db r db' i)
  then show ?case
    by (auto simp: mem_table_def mem_save_def mem_find_def map_of_filter_key Let_def fun_eq_iff
        split: if_splits)
next
  case (9 db P rs)
  then have rs: "rs = filter P (List.map_filter (mem_find set_ident db) (remdups (map fst (m_rows db))))"
    by (simp add: mem_table_def mem_all_def)
  have "mem_find set_ident db i = Some r \<Longrightarrow> ident r = i \<and> i \<in> fst ` set (m_rows db)" for i r
    using assms(1) by (auto simp: mem_find_def split: if_splits dest: map_of_SomeD intro: rev_image_eqI)
  then show ?case by (force simp: rs mem_table_def map_filter_def)
next
  case (10 db P rs)
  then have rs: "rs = filter P (List.map_filter (mem_find set_ident db) (remdups (map fst (m_rows db))))"
    by (simp add: mem_table_def mem_all_def)
  have id: "mem_find set_ident db i = Some r \<Longrightarrow> ident r = i" for i r
    using assms(1) by (auto simp: mem_find_def split: if_splits)
  have "distinct (map ident (List.map_filter (mem_find set_ident db) is))"
    and "ident ` set (List.map_filter (mem_find set_ident db) is) \<subseteq> set is" if "distinct is" for "is"
    using that by (induction "is") (auto simp: map_filter_simps id split: option.splits)
  then show ?case by (auto simp: rs distinct_map intro: inj_on_subset)
qed (use assms mem_fresh_notin in
  \<open>auto simp: mem_defs map_of_filter_key Let_def fun_eq_iff split: if_splits\<close>)

text \<open>The same table when no call fails, and when no deletion goes through.\<close>

definition sure_table :: "('r \<Rightarrow> string) \<Rightarrow> (string \<Rightarrow> 'r \<Rightarrow> 'r) \<Rightarrow> ('r mem, 'r) table" where
  "sure_table ident set_ident = (mem_table ident set_ident)
     \<lparr>t_save := (\<lambda>db r. mem_save ident (db\<lparr>m_faults := []\<rparr>) r),
      t_del := (\<lambda>db i. mem_del (db\<lparr>m_faults := []\<rparr>) i)\<rparr>"

definition stuck_table :: "('r \<Rightarrow> string) \<Rightarrow> (string \<Rightarrow> 'r \<Rightarrow> 'r) \<Rightarrow> ('r mem, 'r) table" where
  "stuck_table ident set_ident = (mem_table ident set_ident)\<lparr>t_del := (\<lambda>db i. (db, False))\<rparr>"

lemma find_faults: "t_find (mem_table ident si) (db\<lparr>m_faults := fs\<rparr>) = t_find (mem_table ident si) db"
  by (rule ext) (simp add: mem_defs)

lemma sure_sel:
  "t_find (sure_table ident si) = t_find (mem_table ident si)" "t_all (sure_table ident si) = t_all (mem_table ident si)"
  "t_save (sure_table ident si) db r = t_save (mem_table ident si) (db\<lparr>m_faults := []\<rparr>) r"
  "t_del (sure_table ident si) db i = t_del (mem_table ident si) (db\<lparr>m_faults := []\<rparr>) i"
  by (simp_all add: sure_table_def mem_table_def)

lemma sure_table_contract:
  assumes rt: "record_table (mem_table ident si) ident si"
  shows "record_table (sure_table ident si) ident si"
proof (rule record_table.intro, goal_cases)
  case (5 db r db' i)
  with record_table.save_find [OF rt, of "db\<lparr>m_faults := []\<rparr>" r db' i] show ?case by (simp only: sure_sel find_faults)
next
  case (6 db r db' i)
  from record_table.save_id [OF rt 6(1) [unfolded sure_sel] 6(2)] show ?case by (simp add: sure_sel find_faults)
next
  case (7 db r db' i)
  from record_table.save_fresh [OF rt 7(1) [unfolded sure_sel] 7(2)] show ?case by (simp add: sure_sel find_faults)
next
  case (8 db r db')
  with record_table.save_err [OF rt, of "db\<lparr>m_faults := []\<rparr>" r db'] show ?case by (simp only: sure_sel find_faults)
next
  case (11 db i db')
  with record_table.del_find [OF rt, of "db\<lparr>m_faults := []\<rparr>" i db'] show ?case by (simp only: sure_sel find_faults)
next
  case (12 db i db')
  with record_table.del_err [OF rt, of "db\<lparr>m_faults := []\<rparr>" i db'] show ?case by (simp only: sure_sel find_faults)
qed (use record_table.ident_set [OF rt] record_table.set_same [OF rt] record_table.find_ident [OF rt]
  record_table.find_empty [OF rt] record_table.all_set [OF rt] record_table.all_distinct [OF rt] in
  \<open>simp_all only: sure_sel\<close>)

lemma stuck_sel:
  "t_find (stuck_table ident si) = t_find (mem_table ident si)" "t_all (stuck_table ident si) = t_all (mem_table ident si)"
  "t_save (stuck_table ident si) = t_save (mem_table ident si)" "t_del (stuck_table ident si) db i = (db, False)"
  by (simp_all add: stuck_table_def)

lemma stuck_table_contract:
  assumes rt: "record_table (mem_table ident si) ident si"
  shows "record_table (stuck_table ident si) ident si"
proof (rule record_table.intro, unfold stuck_sel, goal_cases)
  case 1 then show ?case by (rule record_table.ident_set [OF rt])
next
  case 2 then show ?case by (rule record_table.set_same [OF rt])
next
  case 3 then show ?case by (rule record_table.find_ident [OF rt])
next
  case 4 then show ?case by (rule record_table.find_empty [OF rt])
next
  case 5 then show ?case by (rule record_table.save_find [OF rt])
next
  case 6 then show ?case by (rule record_table.save_id [OF rt])
next
  case 7 then show ?case by (rule record_table.save_fresh [OF rt])
next
  case 8 then show ?case by (rule record_table.save_err [OF rt])
next
  case 9 then show ?case by (rule record_table.all_set [OF rt])
next
  case 10 then show ?case by (rule record_table.all_distinct [OF rt])
qed simp_all

lemma sure_save_ok: "snd (t_save (sure_table ident si) db r) \<noteq> None"
  by (simp add: sure_sel mem_table_def mem_save_def Let_def)

lemma sure_saves: "saves_succeed (sure_table ident si)"
  unfolding saves_succeed_def by (intro allI) (rule sure_save_ok)

lemma sure_del_ok: "snd (t_del (sure_table ident si) db i)"
  by (simp add: sure_sel mem_table_def mem_del_def Let_def)

lemma mem_all_ok: "t_all (sure_table ident si) db P \<noteq> None" "t_all (stuck_table ident si) db P \<noteq> None"
  "t_all (mem_table ident si) db P \<noteq> None"
  by (simp_all add: sure_table_def stuck_table_def mem_table_def mem_all_def)

end
