(* ===== verification/Hub_Records.thy ===== *)
theory Hub_Records
  imports Record_Table
begin

text \<open>
  The rows of the hub's collections, one record per collection of
  \<open>internal/hub/migrations\<close>, with the fields the modelled code reads or writes. A date field is a
  \<open>time\<close> (\<open>0\<close> when unset, for which \<open>GetString\<close> is the empty string), a number field a rational,
  a JSON list of strings a string list.
\<close>

record agent =
  ag_id :: string
  ag_hostname :: string
  ag_os :: string
  ag_ip :: string
  ag_version :: string
  ag_status :: string
  ag_last_seen :: time
  ag_token_hash :: string
  ag_tags :: "string list"
  ag_arch :: string
  ag_platform :: string
  ag_update_status :: string
  ag_update_error :: string
  ag_update_target_version :: string
  ag_update_requested_at :: time
  ag_update_requested_by :: string
  ag_dropped_messages :: rat
  ag_logs_lines_total :: rat

record rule =
  r_id :: string
  r_name :: string
  r_metric_type :: string
  r_condition :: string
  r_threshold :: rat
  r_duration :: rat
  r_severity :: string
  r_agent_id :: string
  r_check_id :: string
  r_enabled :: bool
  r_target :: string
  r_target_tags :: "string list"
  r_notification_channels :: "string list"
  r_escalation_channels :: "string list"
  r_escalation_after :: rat

record alert =
  al_id :: string
  al_rule_id :: string
  al_agent_id :: string
  al_check_id :: string
  al_status :: string
  al_value :: rat
  al_message :: string
  al_fired_at :: time
  al_resolved_at :: time
  al_silenced :: bool
  al_acknowledged_at :: time
  al_acknowledged_by :: string
  al_escalated_at :: time

record check =
  ck_id :: string
  ck_name :: string
  ck_type :: string
  ck_target :: string
  ck_interval_seconds :: int
  ck_timeout_seconds :: int
  ck_method :: string
  ck_expected_status :: int
  ck_tls_expiry_warn_days :: int
  ck_failures_before_down :: int
  ck_enabled :: bool
  ck_tags :: "string list"

record check_result =
  cr_id :: string
  cr_check_id :: string
  cr_status :: string
  cr_latency_ms :: rat
  cr_status_code :: int
  cr_error :: string
  cr_tls_expires_at :: time
  cr_checked_at :: time

record silence =
  si_id :: string
  si_agent_id :: string
  si_tags :: "string list"
  si_check_ids :: "string list"
  si_starts_at :: time
  si_ends_at :: time

text \<open>
  The \<open>data\<close> field of a metric is the outcome of decoding it: \<open>None\<close> when it is not a JSON object.
\<close>

record metric =
  mt_id :: string
  mt_agent_id :: string
  mt_type :: string
  mt_data :: "obj option"
  mt_timestamp :: time
  mt_resolution :: string

record logrow =
  lg_id :: string
  lg_agent_id :: string
  lg_ts :: time
  lg_source :: string
  lg_unit :: string
  lg_level :: string
  lg_message :: string
  lg_fields :: "(string \<times> string) list"

record channel =
  ch_id :: string
  ch_name :: string
  ch_type :: string
  ch_enabled :: bool
  ch_config :: string

text \<open>
  \<open>core.NewRecord(collection)\<close>: a record without id whose fields have the zero value of their type.
\<close>

definition new_alert :: alert where
  "new_alert = \<lparr>al_id = [], al_rule_id = [], al_agent_id = [], al_check_id = [], al_status = [],
     al_value = 0, al_message = [], al_fired_at = 0, al_resolved_at = 0, al_silenced = False,
     al_acknowledged_at = 0, al_acknowledged_by = [], al_escalated_at = 0\<rparr>"

definition new_check_result :: check_result where
  "new_check_result = \<lparr>cr_id = [], cr_check_id = [], cr_status = [], cr_latency_ms = 0,
     cr_status_code = 0, cr_error = [], cr_tls_expires_at = 0, cr_checked_at = 0\<rparr>"

definition set_al_id :: "string \<Rightarrow> alert \<Rightarrow> alert" where
  "set_al_id i a = a\<lparr>al_id := i\<rparr>"

definition set_ag_id :: "string \<Rightarrow> agent \<Rightarrow> agent" where
  "set_ag_id i a = a\<lparr>ag_id := i\<rparr>"

definition set_cr_id :: "string \<Rightarrow> check_result \<Rightarrow> check_result" where
  "set_cr_id i r = r\<lparr>cr_id := i\<rparr>"

definition set_lg_id :: "string \<Rightarrow> logrow \<Rightarrow> logrow" where
  "set_lg_id i r = r\<lparr>lg_id := i\<rparr>"

definition set_mt_id :: "string \<Rightarrow> metric \<Rightarrow> metric" where
  "set_mt_id i r = r\<lparr>mt_id := i\<rparr>"

text \<open>The in-memory tables of these collections obey the contract.\<close>

abbreviation mem_alerts :: "(alert mem, alert) table" where
  "mem_alerts \<equiv> mem_table al_id set_al_id"

abbreviation mem_agents :: "(agent mem, agent) table" where
  "mem_agents \<equiv> mem_table ag_id set_ag_id"

abbreviation mem_check_results :: "(check_result mem, check_result) table" where
  "mem_check_results \<equiv> mem_table cr_id set_cr_id"

abbreviation mem_logs :: "(logrow mem, logrow) table" where
  "mem_logs \<equiv> mem_table lg_id set_lg_id"

abbreviation mem_metrics :: "(metric mem, metric) table" where
  "mem_metrics \<equiv> mem_table mt_id set_mt_id"

interpretation alerts: record_table mem_alerts al_id set_al_id
  by (rule mem_table_contract) (simp_all add: set_al_id_def)

interpretation agents: record_table mem_agents ag_id set_ag_id
  by (rule mem_table_contract) (simp_all add: set_ag_id_def)

interpretation check_results: record_table mem_check_results cr_id set_cr_id
  by (rule mem_table_contract) (simp_all add: set_cr_id_def)

interpretation logs: record_table mem_logs lg_id set_lg_id
  by (rule mem_table_contract) (simp_all add: set_lg_id_def)

interpretation metrics: record_table mem_metrics mt_id set_mt_id
  by (rule mem_table_contract) (simp_all add: set_mt_id_def)

end
