(* ===== verification/Alert_Eval.thy ===== *)
theory Alert_Eval
  imports Hub_Records
begin

text \<open>
  The reading half of \<open>internal/hub/alerts/engine.go\<close>: which subjects a rule applies to
  (\<open>matchesTargets\<close>), which silences cover them, and what each kind of rule measures. Every
  function here only reads the database, so what it sees is a \<open>hub_view\<close>: the rows (or the error,
  \<open>None\<close>) that each query of the current evaluation returns. The regular expression engine,
  PocketBase's \<open>~\<close> filter, Go's \<open>%q\<close> and the rendering of a stored date are parameters of the view.
\<close>

section \<open>What one evaluation reads\<close>

record hub_view =
  v_now :: time
  v_find_rule :: "string \<Rightarrow> rule option"
  v_find_agent :: "string \<Rightarrow> agent option"
  v_find_check :: "string \<Rightarrow> check option"
  v_rules :: "rule list option"
  v_agents :: "agent list option"
  v_checks :: "check list option"
  v_check_results :: "check_result list option"
  v_silences :: "silence list option"
  v_metrics :: "metric list option"
  v_logs :: "logrow list option"
  v_like :: "string \<Rightarrow> string \<Rightarrow> bool"
  v_regexp :: "string \<Rightarrow> (string \<Rightarrow> bool) option"
  v_quote :: "string \<Rightarrow> string"
  v_show_date :: "time \<Rightarrow> string"

text \<open>\<open>FindRecordsByFilter\<close> with a filter, no sort order and a limit.\<close>

definition query :: "('r \<Rightarrow> bool) \<Rightarrow> nat \<Rightarrow> 'r list option \<Rightarrow> 'r list option" where
  "query P n rows = map_option (\<lambda>rs. take n (filter P rs)) rows"

section \<open>Targets and silences\<close>

definition isCheckMetricType :: "string \<Rightarrow> bool" where
  "isCheckMetricType metricType \<longleftrightarrow> metricType = ''check_down'' \<or> metricType = ''cert_expiry''"

definition stringSlicesIntersect :: "string list \<Rightarrow> string list \<Rightarrow> bool" where
  "stringSlicesIntersect a b = list_ex (\<lambda>x. list_ex (\<lambda>y. x = y) b) a"

definition matchesTargets :: "agent \<Rightarrow> rule \<Rightarrow> bool" where
  "matchesTargets agent rule =
     (if r_agent_id rule \<noteq> [] then ag_id agent = r_agent_id rule
      else if r_target_tags rule = [] then True
      else stringSlicesIntersect (r_target_tags rule) (ag_tags agent))"

definition SilenceMatchesAgent :: "agent \<Rightarrow> silence \<Rightarrow> bool" where
  "SilenceMatchesAgent agent s =
     (if si_agent_id s = [] \<and> si_tags s = [] \<and> si_check_ids s = [] then True
      else if si_agent_id s \<noteq> [] \<and> si_agent_id s = ag_id agent then True
      else if si_tags s \<noteq> [] \<and> stringSlicesIntersect (si_tags s) (ag_tags agent) then True
      else False)"

definition SilenceMatchesCheck :: "check \<Rightarrow> silence \<Rightarrow> bool" where
  "SilenceMatchesCheck check s =
     (if si_agent_id s = [] \<and> si_tags s = [] \<and> si_check_ids s = [] then True
      else if list_ex (\<lambda>i. i = ck_id check) (si_check_ids s) then True
      else if si_tags s \<noteq> [] \<and> stringSlicesIntersect (si_tags s) (ck_tags check) then True
      else False)"

fun isSilenced :: "agent \<Rightarrow> silence list \<Rightarrow> time \<Rightarrow> bool" where
  "isSilenced agent [] now = False"
| "isSilenced agent (s # ss) now =
     (if now < si_starts_at s \<or> \<not> now < si_ends_at s then isSilenced agent ss now
      else if SilenceMatchesAgent agent s then True
      else isSilenced agent ss now)"

fun isCheckSilenced :: "check \<Rightarrow> silence list \<Rightarrow> time \<Rightarrow> bool" where
  "isCheckSilenced check [] now = False"
| "isCheckSilenced check (s # ss) now =
     (if now < si_starts_at s \<or> \<not> now < si_ends_at s then isCheckSilenced check ss now
      else if SilenceMatchesCheck check s then True
      else isCheckSilenced check ss now)"

definition activeSilences :: "hub_view \<Rightarrow> silence list option" where
  "activeSilences v = query (\<lambda>s. fmt_ts (v_now v) < si_ends_at s) 500 (v_silences v)"

lemma stringSlicesIntersect_iff: "stringSlicesIntersect a b \<longleftrightarrow> set a \<inter> set b \<noteq> {}"
  by (auto simp: stringSlicesIntersect_def list_ex_iff)

text \<open>The window of a silence and the loops over silences, in one formula each.\<close>

definition silence_covers_now :: "silence \<Rightarrow> time \<Rightarrow> bool" where
  "silence_covers_now s now \<longleftrightarrow> si_starts_at s \<le> now \<and> now < si_ends_at s"

lemma isSilenced_iff:
  "isSilenced agent ss now \<longleftrightarrow> (\<exists>s \<in> set ss. silence_covers_now s now \<and> SilenceMatchesAgent agent s)"
  by (induction ss) (auto simp: silence_covers_now_def)

lemma isCheckSilenced_iff:
  "isCheckSilenced check ss now \<longleftrightarrow> (\<exists>s \<in> set ss. silence_covers_now s now \<and> SilenceMatchesCheck check s)"
  by (induction ss) (auto simp: silence_covers_now_def)

text \<open>The query's coarse filter loses no active silence while the table fits its limit.\<close>

lemma activeSilences_complete:
  assumes "v_silences v = Some rows" and "length rows \<le> 500"
  shows "\<exists>ss. activeSilences v = Some ss \<and> set ss \<subseteq> set rows \<and>
           (\<forall>s \<in> set rows. silence_covers_now s (v_now v) \<longrightarrow> s \<in> set ss)"
proof -
  have "length (filter (\<lambda>s. fmt_ts (v_now v) < si_ends_at s) rows) \<le> 500"
    using assms(2) length_filter_le [of _ rows] le_trans by blast
  then show ?thesis
    using assms(1) fmt_ts_le [of "v_now v"]
    by (force simp: activeSilences_def query_def silence_covers_now_def)
qed

section \<open>Metric values\<close>

fun toFloat64 :: "any \<Rightarrow> rat option" where
  "toFloat64 (AFloat64 n) = Some n"
| "toFloat64 (AFloat32 n) = Some n"
| "toFloat64 (AInt n) = Some (of_int n)"
| "toFloat64 (AInt64 n) = Some (of_int n)"
| "toFloat64 (AUint64 n) = Some (of_int n)"
| "toFloat64 (ANumber f) = f"
| "toFloat64 _ = None"

text \<open>\<open>f, _ := toFloat64(v)\<close>: zero when the conversion fails.\<close>

definition float_or_zero :: "any \<Rightarrow> rat" where
  "float_or_zero v = (case toFloat64 v of Some f \<Rightarrow> f | None \<Rightarrow> 0)"

definition checkCondition :: "rat \<Rightarrow> string \<Rightarrow> rat \<Rightarrow> bool" where
  "checkCondition value condition threshold =
     (if condition = ''gt'' then value > threshold
      else if condition = ''lt'' then value < threshold
      else if condition = ''eq'' then value = threshold
      else False)"

text \<open>The newest matching row: sort order \<open>-timestamp\<close>, limit 1.\<close>

definition latestMetricData :: "hub_view \<Rightarrow> string \<Rightarrow> string \<Rightarrow> obj option" where
  "latestMetricData v agentID metricType =
     (case map_option (\<lambda>ms. take 1 (sort_key (\<lambda>m. - mt_timestamp m)
              (filter (\<lambda>m. mt_agent_id m = agentID \<and> mt_type m = metricType) ms))) (v_metrics v) of
        None \<Rightarrow> None
      | Some [] \<Rightarrow> None
      | Some (m # _) \<Rightarrow> mt_data m)"

definition float_field2 :: "obj \<Rightarrow> string \<Rightarrow> string \<Rightarrow> rat option" where
  "float_field2 data k1 k2 =
     (case toFloat64 (aget data k1) of Some f \<Rightarrow> Some f | None \<Rightarrow> toFloat64 (aget data k2))"

definition getLatestMetricValue :: "hub_view \<Rightarrow> string \<Rightarrow> string \<Rightarrow> rat option" where
  "getLatestMetricValue v agentID metricType =
     (case latestMetricData v agentID metricType of
        None \<Rightarrow> None
      | Some data \<Rightarrow>
          if metricType = ''cpu'' then float_field2 data ''total_percent'' ''percent''
          else if metricType = ''memory'' then float_field2 data ''used_percent'' ''percent''
          else if metricType = ''disk'' then float_field2 data ''used_percent'' ''percent''
          else if metricType = ''network'' then float_field2 data ''bytes_recv'' ''bytes_sent''
          else float_field2 data ''value'' ''percent'')"

section \<open>The rule types\<close>

text \<open>
  Each evaluator returns \<open>None\<close> for the code's \<open>ok = false\<close> (skip this cycle) and otherwise the
  measured value and whether it breaches.
\<close>

type_synonym measurement = "(rat \<times> bool) option"

definition agentOfflineHeartbeatTimeout :: duration where
  "agentOfflineHeartbeatTimeout = 90 * second"

definition evalAgentOffline :: "agent \<Rightarrow> time \<Rightarrow> measurement" where
  "evalAgentOffline agent now =
     (if ag_status agent = ''offline'' then Some (1, True)
      else if ag_last_seen agent = 0 \<or> agentOfflineHeartbeatTimeout \<le> t_sub now (ag_last_seen agent)
      then Some (1, True)
      else Some (0, False))"

fun process_listed :: "string \<Rightarrow> any list \<Rightarrow> bool" where
  "process_listed lowerTarget [] = False"
| "process_listed lowerTarget (p # ps) =
     (case as_obj p of
        None \<Rightarrow> process_listed lowerTarget ps
      | Some proc \<Rightarrow>
          if str_contains (to_lower (str_of (aget proc ''name''))) lowerTarget \<or>
             str_contains (to_lower (str_of (aget proc ''cmdline''))) lowerTarget
          then True else process_listed lowerTarget ps)"

definition evalProcessDown :: "hub_view \<Rightarrow> string \<Rightarrow> string \<Rightarrow> measurement" where
  "evalProcessDown v agentID target =
     (case latestMetricData v agentID ''processes'' of
        None \<Rightarrow> None
      | Some data \<Rightarrow>
          if process_listed (to_lower target)
               (case as_arr (aget data ''processes'') of Some ps \<Rightarrow> ps | None \<Rightarrow> [])
          then Some (1, False) else Some (0, True))"

definition isFailedServiceState :: "string \<Rightarrow> bool" where
  "isFailedServiceState s \<longleftrightarrow> to_lower (trim_space s) \<in> {''failed'', ''inactive'', ''dead''}"

fun service_verdict :: "string \<Rightarrow> any list \<Rightarrow> rat \<times> bool" where
  "service_verdict target [] = (0, True)"
| "service_verdict target (s # ss) =
     (case as_obj s of
        None \<Rightarrow> service_verdict target ss
      | Some svc \<Rightarrow>
          if \<not> equal_fold (str_of (aget svc ''name'')) target then service_verdict target ss
          else if isFailedServiceState (str_of (aget svc ''active'')) \<or>
                  isFailedServiceState (str_of (aget svc ''sub''))
          then (0, True) else (1, False))"

definition evalServiceFailed :: "hub_view \<Rightarrow> string \<Rightarrow> string \<Rightarrow> measurement" where
  "evalServiceFailed v agentID target =
     (case latestMetricData v agentID ''services'' of
        None \<Rightarrow> None
      | Some data \<Rightarrow> Some (service_verdict target
          (case as_arr (aget data ''services'') of Some ss \<Rightarrow> ss | None \<Rightarrow> [])))"

definition evalCveCount :: "hub_view \<Rightarrow> string \<Rightarrow> string \<Rightarrow> string \<Rightarrow> rat \<Rightarrow> measurement" where
  "evalCveCount v agentID target condition threshold =
     (case latestMetricData v agentID ''cve_scan'' of
        None \<Rightarrow> None
      | Some data \<Rightarrow>
          if as_bool (aget data ''available'') \<noteq> Some True then None
          else (case as_obj (aget data ''totals'') of
             None \<Rightarrow> None
           | Some totals \<Rightarrow>
               let critical = float_or_zero (aget totals ''critical'');
                   value = (if equal_fold (trim_space target) ''critical'' then critical
                            else critical + float_or_zero (aget totals ''high''))
               in Some (value, checkCondition value condition threshold)))"

definition logMatchScanCap :: nat where "logMatchScanCap = 5000"

text \<open>
  \<open>None\<close>: the target is not delimited by slashes; \<open>Some None\<close>: it is, but does not compile.
\<close>

definition parseLogMatchRegex :: "hub_view \<Rightarrow> string \<Rightarrow> (string \<Rightarrow> bool) option option" where
  "parseLogMatchRegex v target =
     (if length target < 2 \<or> \<not> has_prefix target ''/'' \<or> \<not> has_suffix target ''/'' then None
      else Some (v_regexp v (take (length target - 2) (drop 1 target))))"

definition evalLogMatch :: "hub_view \<Rightarrow> string \<Rightarrow> string \<Rightarrow> rat \<Rightarrow> duration \<Rightarrow> measurement" where
  "evalLogMatch v agentID target threshold window =
     (let target = trim_space target;
          since = fmt_ts (v_now v - window)
      in if target = [] then None
         else (case parseLogMatchRegex v target of
            Some None \<Rightarrow> None
          | Some (Some pattern) \<Rightarrow>
              (case query (\<lambda>r. lg_agent_id r = agentID \<and> since \<le> lg_ts r) logMatchScanCap (v_logs v) of
                 None \<Rightarrow> None
               | Some records \<Rightarrow>
                   let value = rat_of_nat (length (filter (\<lambda>r. pattern (lg_message r)) records))
                   in Some (value, threshold \<le> value))
          | None \<Rightarrow>
              (case query (\<lambda>r. lg_agent_id r = agentID \<and> since \<le> lg_ts r \<and> v_like v (lg_message r) target)
                      logMatchScanCap (v_logs v) of
                 None \<Rightarrow> None
               | Some records \<Rightarrow>
                   let value = rat_of_nat (length records) in Some (value, threshold \<le> value))))"

definition latestCheckResult :: "hub_view \<Rightarrow> string \<Rightarrow> check_result option" where
  "latestCheckResult v checkID =
     (case map_option (\<lambda>rs. take 1 (sort_key (\<lambda>r. - cr_checked_at r)
              (filter (\<lambda>r. cr_check_id r = checkID) rs))) (v_check_results v) of
        None \<Rightarrow> None
      | Some [] \<Rightarrow> None
      | Some (r # _) \<Rightarrow> Some r)"

definition evalCheckDown :: "hub_view \<Rightarrow> string \<Rightarrow> measurement" where
  "evalCheckDown v checkID =
     (case latestCheckResult v checkID of
        None \<Rightarrow> None
      | Some result \<Rightarrow> if cr_status result = ''down'' then Some (1, True) else Some (0, False))"

definition evalCertExpiry :: "hub_view \<Rightarrow> string \<Rightarrow> rat \<Rightarrow> measurement" where
  "evalCertExpiry v checkID warnDays =
     (case latestCheckResult v checkID of
        None \<Rightarrow> None
      | Some result \<Rightarrow>
          if cr_tls_expires_at result = 0 then None
          else let daysLeft = of_int (t_sub (v_now v) (cr_tls_expires_at result)) / of_int hour / (- 24)
               in Some (daysLeft, daysLeft \<le> warnDays))"

section \<open>What a rule observes\<close>

text \<open>
  The loops of \<open>evaluateRule\<close> and \<open>evaluateCheckRule\<close> call \<open>updateState\<close> once per targeted
  subject; an \<open>observation\<close> is the argument list of one such call.
\<close>

record observation =
  o_rule :: rule
  o_subject :: string
  o_breaching :: bool
  o_value :: rat
  o_severity :: string
  o_duration :: duration
  o_silenced :: bool

definition rule_candidates :: "hub_view \<Rightarrow> rule \<Rightarrow> agent list" where
  "rule_candidates v rule =
     (if r_agent_id rule \<noteq> [] then
        (case v_find_agent v (r_agent_id rule) of None \<Rightarrow> [] | Some agent \<Rightarrow> [agent])
      else case query (\<lambda>a. r_metric_type rule = ''agent_offline'' \<or> ag_status a = ''online'') 200 (v_agents v) of
             None \<Rightarrow> [] | Some agents \<Rightarrow> agents)"

definition measure_agent :: "hub_view \<Rightarrow> rule \<Rightarrow> agent \<Rightarrow> measurement" where
  "measure_agent v rule agent =
     (let metricType = r_metric_type rule; target = r_target rule; aid = ag_id agent in
      if metricType = ''agent_offline'' then evalAgentOffline agent (v_now v)
      else if metricType = ''process_down'' then evalProcessDown v aid target
      else if metricType = ''service_failed'' then evalServiceFailed v aid target
      else if metricType = ''cve_count'' then evalCveCount v aid target (r_condition rule) (r_threshold rule)
      else if metricType = ''log_match'' then
        evalLogMatch v aid target (r_threshold rule) (secs_of_float (r_duration rule))
      else map_option (\<lambda>value. (value, checkCondition value (r_condition rule) (r_threshold rule)))
             (getLatestMetricValue v aid metricType))"

definition observe_agent :: "hub_view \<Rightarrow> rule \<Rightarrow> silence list \<Rightarrow> agent \<Rightarrow> observation option" where
  "observe_agent v rule silences agent =
     (if \<not> matchesTargets agent rule then None
      else case measure_agent v rule agent of
         None \<Rightarrow> None
       | Some (value, breaching) \<Rightarrow> Some
           \<lparr>o_rule = rule, o_subject = ag_id agent, o_breaching = breaching, o_value = value,
            o_severity = r_severity rule, o_duration = secs_of_float (r_duration rule),
            o_silenced = isSilenced agent silences (v_now v)\<rparr>)"

definition observe_check :: "hub_view \<Rightarrow> rule \<Rightarrow> silence list \<Rightarrow> check \<Rightarrow> observation option" where
  "observe_check v rule silences check =
     (case (if r_metric_type rule = ''check_down'' then evalCheckDown v (ck_id check)
            else if r_metric_type rule = ''cert_expiry'' then evalCertExpiry v (ck_id check) (r_threshold rule)
            else None) of
        None \<Rightarrow> None
      | Some (value, breaching) \<Rightarrow> Some
          \<lparr>o_rule = rule, o_subject = ck_id check, o_breaching = breaching, o_value = value,
           o_severity = r_severity rule, o_duration = secs_of_float (r_duration rule),
           o_silenced = isCheckSilenced check silences (v_now v)\<rparr>)"

definition evaluateRule :: "hub_view \<Rightarrow> rule \<Rightarrow> silence list \<Rightarrow> observation list" where
  "evaluateRule v rule silences = List.map_filter (observe_agent v rule silences) (rule_candidates v rule)"

definition evaluateCheckRule :: "hub_view \<Rightarrow> rule \<Rightarrow> silence list \<Rightarrow> observation list" where
  "evaluateCheckRule v rule silences =
     List.map_filter (observe_check v rule silences)
       (if r_check_id rule \<noteq> [] then
          (case v_find_check v (r_check_id rule) of None \<Rightarrow> [] | Some check \<Rightarrow> [check])
        else case query ck_enabled 500 (v_checks v) of None \<Rightarrow> [] | Some checks \<Rightarrow> checks)"

end
