(* ===== verification/Alert_Engine.thy ===== *)
theory Alert_Engine
  imports Alert_Eval
begin

text \<open>
  The alert state machine of \<open>internal/hub/alerts/engine.go\<close>: per rule and subject a
  \<open>ruleAgentState\<close>, driven by \<open>updateState\<close> once per evaluation, with the calls that create, refresh,
  resolve and escalate the rows of the \<open>alerts\<close> collection, and \<open>seedState\<close>, which rebuilds the
  states after a restart. The collection is a \<open>table\<close> parameter whose \<open>Save\<close> may fail; the calls of
  the notify and escalate callbacks are recorded in order in \<open>en_out\<close>. The engine's mutex makes each
  \<open>updateState\<close> one step. The clock is read once per step.
\<close>

section \<open>State\<close>

datatype AlertState = StateOK | StateWarning | StateCritical | StateResolved

fun AlertState_String :: "AlertState \<Rightarrow> string" where
  "AlertState_String StateOK = ''ok''"
| "AlertState_String StateWarning = ''warning''"
| "AlertState_String StateCritical = ''critical''"
| "AlertState_String StateResolved = ''resolved''"

type_synonym ruleAgentKey = "string \<times> string"

record ruleAgentState =
  rs_state :: AlertState
  rs_fired :: bool
  rs_first_breach_at :: time
  rs_fired_at :: time
  rs_last_notified_at :: time
  rs_active_alert_id :: string
  rs_silenced :: bool

definition ok_state :: ruleAgentState where
  "ok_state = \<lparr>rs_state = StateOK, rs_fired = False, rs_first_breach_at = 0, rs_fired_at = 0,
     rs_last_notified_at = 0, rs_active_alert_id = [], rs_silenced = False\<rparr>"

datatype sent = Notify alert rule | Escalate alert rule

record 'db engine =
  en_states :: "ruleAgentKey \<Rightarrow> ruleAgentState option"
  en_db :: 'db
  en_out :: "sent list"

record 'db engine_cfg =
  ec_alerts :: "('db, alert) table"
  ec_collection :: "'db \<Rightarrow> bool"
  ec_notify :: bool
  ec_escalate :: bool
  ec_cooldown :: duration

definition NewEngine :: "'db \<Rightarrow> 'db engine" where
  "NewEngine db = \<lparr>en_states = (\<lambda>_. None), en_db = db, en_out = []\<rparr>"

section \<open>Messages\<close>

definition getCheckNameTarget :: "hub_view \<Rightarrow> string \<Rightarrow> string \<times> string" where
  "getCheckNameTarget v checkID =
     (case v_find_check v checkID of
        None \<Rightarrow> (checkID, [])
      | Some c \<Rightarrow> ((if ck_name c = [] then checkID else ck_name c), ck_target c))"

definition getAgentHostname :: "hub_view \<Rightarrow> string \<Rightarrow> string" where
  "getAgentHostname v agentID =
     (case v_find_agent v agentID of
        None \<Rightarrow> agentID
      | Some a \<Rightarrow> if ag_hostname a = [] then agentID else ag_hostname a)"

definition getAgentTags :: "hub_view \<Rightarrow> string \<Rightarrow> string list" where
  "getAgentTags v agentID = (case v_find_agent v agentID of None \<Rightarrow> [] | Some a \<Rightarrow> ag_tags a)"

definition agentLastSeen :: "hub_view \<Rightarrow> string \<Rightarrow> string" where
  "agentLastSeen v agentID =
     (case v_find_agent v agentID of
        None \<Rightarrow> ''an unknown time''
      | Some a \<Rightarrow> if ag_last_seen a = 0 then ''an unknown time'' else v_show_date v (ag_last_seen a))"

definition buildMessage :: "hub_view \<Rightarrow> rule \<Rightarrow> string \<Rightarrow> rat \<Rightarrow> string \<Rightarrow> string" where
  "buildMessage v rule subjectID value severity =
     (let metricType = r_metric_type rule; sev = ''['' @ severity @ ''] '' in
      if metricType = ''check_down'' then
        (let (name, target) = getCheckNameTarget v subjectID
         in sev @ ''check_down: '' @ name @ '' ('' @ target @ '') is down'')
      else if metricType = ''cert_expiry'' then
        (let (name, target) = getCheckNameTarget v subjectID
         in sev @ ''cert_expiry: '' @ name @ '' ('' @ target @ '') certificate expires in '' @
            fmt_f 0 value @ '' day(s)'')
      else
        let agentName = getAgentHostname v subjectID;
            target = r_target rule;
            base =
              (if metricType = ''agent_offline'' then
                 sev @ ''agent offline: '' @ agentName @ '' has not been seen since '' @ agentLastSeen v subjectID
               else if metricType = ''process_down'' then
                 sev @ ''process_down on '' @ agentName @ '': process '' @ v_quote v target @
                 '' not found in the latest snapshot''
               else if metricType = ''service_failed'' then
                 sev @ ''service_failed on '' @ agentName @ '': service '' @ v_quote v target @
                 '' is failed/inactive''
               else if metricType = ''cve_count'' then
                 sev @ ''cve_count on '' @ agentName @ '': '' @
                 (if equal_fold (trim_space target) ''critical'' then ''critical'' else ''critical+high'') @
                 '' CVE count is '' @ fmt_f 0 value
               else if metricType = ''log_match'' then
                 sev @ ''log_match on '' @ agentName @ '': '' @ fmt_f 0 value @ '' log line(s) matched '' @
                 v_quote v target @ '' (threshold '' @ fmt_f 0 (r_threshold rule) @ '')''
               else
                 sev @ metricType @ '' on '' @ agentName @ '': '' @ metricType @ '' '' @
                 (if r_condition rule = ''lt'' then ''<''
                  else if r_condition rule = ''eq'' then ''='' else ''>'') @ '' '' @
                 fmt_f 1 (r_threshold rule) @ '' (current: '' @ fmt_f 1 value @ '')'');
            tags = getAgentTags v subjectID
        in if tags \<noteq> [] then base @ '' [tags: '' @ str_join '', '' tags @ '']'' else base)"

section \<open>Writing alerts\<close>

definition dispatch :: "'db engine_cfg \<Rightarrow> 'db engine \<Rightarrow> alert \<Rightarrow> rule \<Rightarrow> 'db engine" where
  "dispatch cfg e alert rule =
     (if ec_notify cfg then e\<lparr>en_out := en_out e @ [Notify alert rule]\<rparr> else e)"

definition fireAlert ::
  "'db engine_cfg \<Rightarrow> hub_view \<Rightarrow> 'db engine \<Rightarrow> rule \<Rightarrow> string \<Rightarrow> rat \<Rightarrow> string \<Rightarrow> bool \<Rightarrow> 'db engine \<times> string" where
  "fireAlert cfg v e rule subjectID value severity silenced =
     (if \<not> ec_collection cfg (en_db e) then (e, [])
      else
        let record = new_alert
              \<lparr>al_rule_id := r_id rule,
               al_check_id := (if isCheckMetricType (r_metric_type rule) then subjectID else []),
               al_agent_id := (if isCheckMetricType (r_metric_type rule) then [] else subjectID),
               al_status := ''firing'', al_value := value,
               al_message := buildMessage v rule subjectID value severity,
               al_fired_at := fmt_ts (v_now v), al_silenced := silenced\<rparr>
        in case t_save (ec_alerts cfg) (en_db e) record of
             (db', None) \<Rightarrow> (e\<lparr>en_db := db'\<rparr>, [])
           | (db', Some i) \<Rightarrow>
               let e' = e\<lparr>en_db := db'\<rparr>; saved = set_al_id i record
               in (if silenced then e' else dispatch cfg e' saved rule, i))"

definition refreshFiringAlert ::
  "'db engine_cfg \<Rightarrow> hub_view \<Rightarrow> 'db engine \<Rightarrow> string \<Rightarrow> rule \<Rightarrow> string \<Rightarrow> rat \<Rightarrow> string \<Rightarrow> bool
   \<Rightarrow> 'db engine \<times> alert option" where
  "refreshFiringAlert cfg v e alertID rule subjectID value severity silenced =
     (case t_find (ec_alerts cfg) (en_db e) alertID of
        None \<Rightarrow> (e, None)
      | Some record0 \<Rightarrow>
          let record = record0\<lparr>al_value := value,
                al_message := buildMessage v rule subjectID value severity, al_silenced := silenced\<rparr>
          in case t_save (ec_alerts cfg) (en_db e) record of
               (db', None) \<Rightarrow> (e\<lparr>en_db := db'\<rparr>, None)
             | (db', Some _) \<Rightarrow> (e\<lparr>en_db := db'\<rparr>, Some record))"

definition resolveAlert :: "'db engine_cfg \<Rightarrow> hub_view \<Rightarrow> 'db engine \<Rightarrow> string \<Rightarrow> rule \<Rightarrow> 'db engine" where
  "resolveAlert cfg v e alertID rule =
     (case t_find (ec_alerts cfg) (en_db e) alertID of
        None \<Rightarrow> e
      | Some record0 \<Rightarrow>
          let record = record0\<lparr>al_status := ''resolved'', al_resolved_at := fmt_ts (v_now v)\<rparr>
          in case t_save (ec_alerts cfg) (en_db e) record of
               (db', None) \<Rightarrow> e\<lparr>en_db := db'\<rparr>
             | (db', Some _) \<Rightarrow> dispatch cfg (e\<lparr>en_db := db'\<rparr>) record rule)"

definition renotify :: "'db engine_cfg \<Rightarrow> 'db engine \<Rightarrow> alert \<Rightarrow> rule \<Rightarrow> 'db engine" where
  "renotify cfg e record rule = dispatch cfg e record rule"

definition maybeEscalate ::
  "'db engine_cfg \<Rightarrow> 'db engine \<Rightarrow> rule \<Rightarrow> alert \<Rightarrow> ruleAgentState \<Rightarrow> time \<Rightarrow> 'db engine" where
  "maybeEscalate cfg e rule record state now =
     (if r_escalation_after rule \<le> 0 then e
      else if al_escalated_at record \<noteq> 0 then e
      else if t_sub now (rs_fired_at state) < secs_of_float (r_escalation_after rule) then e
      else
        let record' = record\<lparr>al_escalated_at := fmt_ts now\<rparr>
        in case t_save (ec_alerts cfg) (en_db e) record' of
             (db', None) \<Rightarrow> e\<lparr>en_db := db'\<rparr>
           | (db', Some _) \<Rightarrow>
               (if ec_escalate cfg
                then e\<lparr>en_db := db', en_out := en_out e @ [Escalate record' rule]\<rparr>
                else e\<lparr>en_db := db'\<rparr>))"

section \<open>The state machine\<close>

definition put_state :: "'db engine \<Rightarrow> ruleAgentKey \<Rightarrow> ruleAgentState \<Rightarrow> 'db engine" where
  "put_state e key st = e\<lparr>en_states := (en_states e)(key \<mapsto> st)\<rparr>"

definition state_of :: "'db engine \<Rightarrow> ruleAgentKey \<Rightarrow> ruleAgentState" where
  "state_of e key = (case en_states e key of None \<Rightarrow> ok_state | Some st \<Rightarrow> st)"

definition obs_key :: "observation \<Rightarrow> ruleAgentKey" where
  "obs_key ob = (r_id (o_rule ob), o_subject ob)"

text \<open>The four branches of \<open>updateState\<close>, in the order the code takes them.\<close>

definition stop_breach ::
  "'db engine_cfg \<Rightarrow> hub_view \<Rightarrow> 'db engine \<Rightarrow> observation \<Rightarrow> ruleAgentState \<Rightarrow> 'db engine" where
  "stop_breach cfg v e ob st =
     (if rs_state st = StateWarning \<or> rs_state st = StateCritical then
        put_state (if rs_active_alert_id st \<noteq> [] then resolveAlert cfg v e (rs_active_alert_id st) (o_rule ob)
                   else e) (obs_key ob) ok_state
      else e)"

definition start_breach :: "hub_view \<Rightarrow> 'db engine \<Rightarrow> observation \<Rightarrow> ruleAgentState \<Rightarrow> 'db engine" where
  "start_breach v e ob st =
     put_state e (obs_key ob)
       (st\<lparr>rs_first_breach_at := v_now v, rs_state := StateWarning, rs_fired := False, rs_silenced := False\<rparr>)"

definition pending_breach ::
  "'db engine_cfg \<Rightarrow> hub_view \<Rightarrow> 'db engine \<Rightarrow> observation \<Rightarrow> ruleAgentState \<Rightarrow> 'db engine" where
  "pending_breach cfg v e ob st =
     (if t_sub (v_now v) (rs_first_breach_at st) < o_duration ob then e
      else
        let st1 = st\<lparr>rs_state := (if o_severity ob = ''warning'' then StateWarning else StateCritical)\<rparr>;
            (e1, alertID) = fireAlert cfg v e (o_rule ob) (o_subject ob) (o_value ob) (o_severity ob) (o_silenced ob)
        in put_state e1 (obs_key ob)
             (if alertID \<noteq> [] then
                st1\<lparr>rs_active_alert_id := alertID, rs_fired := True, rs_fired_at := v_now v,
                    rs_silenced := o_silenced ob,
                    rs_last_notified_at := (if o_silenced ob then rs_last_notified_at st else v_now v)\<rparr>
              else st1))"

definition keep_firing ::
  "'db engine_cfg \<Rightarrow> hub_view \<Rightarrow> 'db engine \<Rightarrow> observation \<Rightarrow> ruleAgentState \<Rightarrow> 'db engine" where
  "keep_firing cfg v e ob st =
     (if rs_active_alert_id st = [] then e
      else case refreshFiringAlert cfg v e (rs_active_alert_id st) (o_rule ob) (o_subject ob)
                  (o_value ob) (o_severity ob) (o_silenced ob) of
         (e1, None) \<Rightarrow> e1
       | (e1, Some record) \<Rightarrow>
           if o_silenced ob then put_state e1 (obs_key ob) (st\<lparr>rs_silenced := True\<rparr>)
           else
             let st1 = st\<lparr>rs_silenced := False\<rparr> in
             if al_acknowledged_at record \<noteq> 0 then put_state e1 (obs_key ob) st1
             else
               let renot = rs_silenced st \<or> rs_last_notified_at st1 = 0 \<or>
                           ec_cooldown cfg \<le> t_sub (v_now v) (rs_last_notified_at st1);
                   e2 = (if renot then renotify cfg e1 record (o_rule ob) else e1);
                   st2 = (if renot then st1\<lparr>rs_last_notified_at := v_now v\<rparr> else st1)
               in maybeEscalate cfg (put_state e2 (obs_key ob) st2) (o_rule ob) record st2 (v_now v))"

definition updateState :: "'db engine_cfg \<Rightarrow> hub_view \<Rightarrow> 'db engine \<Rightarrow> observation \<Rightarrow> 'db engine" where
  "updateState cfg v e0 ob =
     (let st = state_of e0 (obs_key ob);
          e = put_state e0 (obs_key ob) st
      in if \<not> o_breaching ob then stop_breach cfg v e ob st
         else if rs_state st = StateOK \<or> rs_state st = StateResolved then start_breach v e ob st
         else if \<not> rs_fired st then pending_breach cfg v e ob st
         else keep_firing cfg v e ob st)"

text \<open>One evaluation cycle over every enabled rule, and the restart.\<close>

definition evaluate :: "'db engine_cfg \<Rightarrow> hub_view \<Rightarrow> 'db engine \<Rightarrow> 'db engine" where
  "evaluate cfg v e =
     (case query r_enabled 500 (v_rules v) of
        None \<Rightarrow> e
      | Some rules \<Rightarrow>
          let silences = (case activeSilences v of None \<Rightarrow> [] | Some ss \<Rightarrow> ss);
              obs = concat (map (\<lambda>rule. if isCheckMetricType (r_metric_type rule)
                        then evaluateCheckRule v rule silences else evaluateRule v rule silences) rules)
          in fold (\<lambda>ob e. updateState cfg v e ob) obs e)"

definition alert_subject :: "alert \<Rightarrow> string" where
  "alert_subject a = (if al_agent_id a = [] then al_check_id a else al_agent_id a)"

definition seed_one :: "hub_view \<Rightarrow> alert \<Rightarrow> 'db engine \<Rightarrow> 'db engine" where
  "seed_one v alert e =
     (if al_rule_id alert = [] \<or> alert_subject alert = [] then e
      else put_state e (al_rule_id alert, alert_subject alert)
        \<lparr>rs_state = (case v_find_rule v (al_rule_id alert) of
             None \<Rightarrow> StateCritical
           | Some rule \<Rightarrow> if r_severity rule = ''warning'' then StateWarning else StateCritical),
         rs_fired = True, rs_first_breach_at = al_fired_at alert, rs_fired_at = al_fired_at alert,
         rs_last_notified_at = (if al_silenced alert then 0 else al_fired_at alert),
         rs_active_alert_id = al_id alert, rs_silenced = al_silenced alert\<rparr>)"

definition seedState :: "'db engine_cfg \<Rightarrow> hub_view \<Rightarrow> 'db engine \<Rightarrow> 'db engine" where
  "seedState cfg v e =
     (case t_all (ec_alerts cfg) (en_db e) (\<lambda>a. al_status a = ''firing'') of
        None \<Rightarrow> e
      | Some firing \<Rightarrow> fold (seed_one v) (take 1000 firing) e)"

text \<open>A run of evaluations: each step with what it reads and observes.\<close>

definition run_updates :: "'db engine_cfg \<Rightarrow> (hub_view \<times> observation) list \<Rightarrow> 'db engine \<Rightarrow> 'db engine" where
  "run_updates cfg steps e = fold (\<lambda>(v, ob) e. updateState cfg v e ob) steps e"

lemmas branch_defs = stop_breach_def start_breach_def pending_breach_def keep_firing_def
lemmas write_defs = fireAlert_def refreshFiringAlert_def resolveAlert_def renotify_def dispatch_def
  maybeEscalate_def

end
