(* ===== verification/Alert_Safety.thy ===== *)
theory Alert_Safety
  imports Alert_Engine
begin

text \<open>
  What the alert engine guarantees. The lemmas are proved once in the locale \<open>alert_engine\<close>, for any
  \<open>alerts\<close> collection that honours the contract of \<open>Record_Table\<close>, and interpreted on the in-memory
  table. Groups: the effect of each write on rows and callbacks; the well-formedness invariant of the
  state map; ownership of firing rows (at most one per rule and subject); the notification rules
  (grace period, silence, acknowledgement, cooldown, single escalation).
\<close>

section \<open>Effects of the writes\<close>

locale alert_engine =
  record_table "ec_alerts cfg" al_id set_al_id for cfg :: "'db engine_cfg"

text \<open>The configuration over the in-memory table.\<close>

definition mem_cfg :: "bool \<Rightarrow> bool \<Rightarrow> duration \<Rightarrow> alert mem engine_cfg" where
  "mem_cfg notify escalate cooldown =
     \<lparr>ec_alerts = mem_alerts, ec_collection = (\<lambda>_. True), ec_notify = notify,
      ec_escalate = escalate, ec_cooldown = cooldown\<rparr>"

interpretation mem_engine: alert_engine "mem_cfg n esc cd" for n esc cd
  by (simp add: alert_engine_def mem_cfg_def alerts.record_table_axioms)

abbreviation rows :: "'db engine_cfg \<Rightarrow> 'db engine \<Rightarrow> string \<Rightarrow> alert option" where
  "rows cfg e \<equiv> t_find (ec_alerts cfg) (en_db e)"

definition alert_key :: "alert \<Rightarrow> ruleAgentKey" where
  "alert_key a = (al_rule_id a, alert_subject a)"

lemma put_state_sel [simp]:
  "en_states (put_state e k st) = (en_states e)(k \<mapsto> st)"
  "en_db (put_state e k st) = en_db e" "en_out (put_state e k st) = en_out e"
  by (simp_all add: put_state_def)

lemma dispatch_sel [simp]:
  "en_states (dispatch cfg e a r) = en_states e" "en_db (dispatch cfg e a r) = en_db e"
  "en_out (dispatch cfg e a r) = en_out e @ (if ec_notify cfg then [Notify a r] else [])"
  by (simp_all add: dispatch_def)

context alert_engine
begin

lemma fireAlert_effect:
  assumes "fireAlert cfg v e rule subject val sev sil = (e', i)"
  shows "en_states e' = en_states e \<and>
    (i = [] \<and> rows cfg e' = rows cfg e \<and> en_out e' = en_out e \<or>
     i \<noteq> [] \<and> rows cfg e i = None \<and>
     (\<exists>a. rows cfg e' = (rows cfg e)(i \<mapsto> a) \<and> al_id a = i \<and> alert_key a = (r_id rule, subject) \<and>
          al_status a = ''firing'' \<and> al_escalated_at a = 0 \<and> al_acknowledged_at a = 0 \<and>
          al_message a = buildMessage v rule subject val sev \<and>
          en_out e' = en_out e @ (if sil \<or> \<not> ec_notify cfg then [] else [Notify a rule])))"
  using assms
  by (auto simp: fireAlert_def new_alert_def alert_key_def alert_subject_def set_al_id_def Let_def
      split: if_splits prod.splits option.splits
      dest!: save_err save_new)

lemma refresh_effect:
  assumes "refreshFiringAlert cfg v e i rule subject val sev sil = (e', r)"
  shows "en_states e' = en_states e \<and> en_out e' = en_out e \<and>
    (case r of None \<Rightarrow> rows cfg e' = rows cfg e
     | Some a \<Rightarrow> \<exists>a0. rows cfg e i = Some a0 \<and> rows cfg e' = (rows cfg e)(i \<mapsto> a) \<and>
         a = a0\<lparr>al_value := val, al_message := buildMessage v rule subject val sev, al_silenced := sil\<rparr>)"
proof (cases "rows cfg e i")
  case None
  with assms show ?thesis by (simp add: refreshFiringAlert_def)
next
  case (Some a0)
  then have "al_id a0 = i" and "i \<noteq> []" by (auto dest: find_ident)
  with Some assms show ?thesis
    by (auto simp: refreshFiringAlert_def Let_def split: prod.splits option.splits
        dest!: save_err save_update)
qed

lemma resolve_effect:
  "en_states (resolveAlert cfg v e i rule) = en_states e \<and>
   (rows cfg (resolveAlert cfg v e i rule) = rows cfg e \<and> en_out (resolveAlert cfg v e i rule) = en_out e \<or>
    (\<exists>a0. rows cfg e i = Some a0 \<and>
       (let a = a0\<lparr>al_status := ''resolved'', al_resolved_at := fmt_ts (v_now v)\<rparr> in
        rows cfg (resolveAlert cfg v e i rule) = (rows cfg e)(i \<mapsto> a) \<and>
        en_out (resolveAlert cfg v e i rule) = en_out e @ (if ec_notify cfg then [Notify a rule] else []))))"
proof (cases "rows cfg e i")
  case None
  then show ?thesis by (simp add: resolveAlert_def)
next
  case (Some a0)
  then have "al_id a0 = i" and "i \<noteq> []" by (auto dest: find_ident)
  with Some show ?thesis
    by (auto simp: resolveAlert_def Let_def split: prod.splits option.splits
        dest!: save_err save_update)
qed

lemma resolve_done:
  assumes "rows cfg e i = Some a0"
    and "\<And>db r. al_status r = ''resolved'' \<Longrightarrow> snd (t_save (ec_alerts cfg) db r) \<noteq> None"
  shows "rows cfg (resolveAlert cfg v e i rule) =
    (rows cfg e)(i \<mapsto> a0\<lparr>al_status := ''resolved'', al_resolved_at := fmt_ts (v_now v)\<rparr>)"
proof -
  let ?a = "a0\<lparr>al_status := ''resolved'', al_resolved_at := fmt_ts (v_now v)\<rparr>"
  obtain db' j where s: "t_save (ec_alerts cfg) (en_db e) ?a = (db', Some j)"
    using assms(2) [of ?a "en_db e"] by (cases "t_save (ec_alerts cfg) (en_db e) ?a") auto
  have "al_id ?a = i" using find_ident [OF assms(1)] by simp
  from save_existing [OF assms(1) this s] s assms(1) show ?thesis
    by (simp add: resolveAlert_def Let_def)
qed

lemma escalate_effect:
  assumes "rows cfg e i = Some record" and "al_id record = i"
  shows "en_states (maybeEscalate cfg e rule record st now) = en_states e \<and>
   (rows cfg (maybeEscalate cfg e rule record st now) = rows cfg e \<and>
    en_out (maybeEscalate cfg e rule record st now) = en_out e \<or>
    al_escalated_at record = 0 \<and> 0 < r_escalation_after rule \<and>
    secs_of_float (r_escalation_after rule) \<le> t_sub now (rs_fired_at st) \<and>
    (let a = record\<lparr>al_escalated_at := fmt_ts now\<rparr> in
     rows cfg (maybeEscalate cfg e rule record st now) = (rows cfg e)(i \<mapsto> a) \<and>
     en_out (maybeEscalate cfg e rule record st now) = en_out e @ (if ec_escalate cfg then [Escalate a rule] else [])))"
proof -
  from assms have "i \<noteq> []" by auto
  with assms show ?thesis
    by (auto simp: maybeEscalate_def Let_def split: prod.splits option.splits
        dest!: save_err save_update)
qed

end

section \<open>The state map\<close>

text \<open>
  A tracked subject has fired exactly when it holds the id of an alert row, only a warning or
  critical state can have fired, and \<open>StateResolved\<close> never occurs.
\<close>

definition st_inv :: "ruleAgentState \<Rightarrow> bool" where
  "st_inv st \<longleftrightarrow> (rs_fired st \<longleftrightarrow> rs_active_alert_id st \<noteq> []) \<and>
     (rs_fired st \<longrightarrow> rs_state st \<noteq> StateOK) \<and> rs_state st \<noteq> StateResolved"

definition wf_states :: "'db engine \<Rightarrow> bool" where
  "wf_states e \<longleftrightarrow> (\<forall>k. st_inv (state_of e k))"

lemma wf_statesD: "wf_states e \<Longrightarrow> st_inv (state_of e k)"
  by (simp only: wf_states_def)

lemma st_inv_ok [simp]: "st_inv ok_state"
  by (simp add: st_inv_def ok_state_def)

lemma state_of_put [simp]: "state_of (put_state e k st) k' = (if k' = k then st else state_of e k')"
  by (simp add: state_of_def put_state_def)

lemma state_of_cong: "en_states e = en_states e' \<Longrightarrow> state_of e = state_of e'"
  by (rule ext) (simp add: state_of_def)

lemma wf_states_put: "wf_states e \<Longrightarrow> st_inv st \<Longrightarrow> wf_states (put_state e k st)"
  by (simp add: wf_states_def)

lemma fireAlert_states: "fireAlert cfg v e r sb x sev sil = (e', i) \<Longrightarrow> en_states e' = en_states e"
  by (auto simp: fireAlert_def Let_def split: if_splits prod.splits option.splits)

lemma refresh_states: "refreshFiringAlert cfg v e i r sb x sev sil = (e', a) \<Longrightarrow> en_states e' = en_states e"
  by (auto simp: refreshFiringAlert_def Let_def split: if_splits prod.splits option.splits)

lemma resolve_states: "en_states (resolveAlert cfg v e i r) = en_states e"
  by (auto simp: resolveAlert_def Let_def split: prod.splits option.splits)

lemma escalate_states: "en_states (maybeEscalate cfg e r a st now) = en_states e"
  by (auto simp: maybeEscalate_def Let_def split: prod.splits option.splits)

lemmas frame_states = fireAlert_states refresh_states resolve_states escalate_states

text \<open>What each branch does to the state of its own subject, and that it touches no other.\<close>

lemma stop_states:
  "en_states (stop_breach cfg v e ob st) =
     (if rs_state st = StateWarning \<or> rs_state st = StateCritical
      then (en_states e)(obs_key ob \<mapsto> ok_state) else en_states e)"
  by (simp add: stop_breach_def resolve_states)

lemma start_states:
  "en_states (start_breach v e ob st) = (en_states e)(obs_key ob \<mapsto>
     st\<lparr>rs_first_breach_at := v_now v, rs_state := StateWarning, rs_fired := False, rs_silenced := False\<rparr>)"
  by (simp add: start_breach_def)

lemma pending_states:
  assumes "fireAlert cfg v e (o_rule ob) (o_subject ob) (o_value ob) (o_severity ob) (o_silenced ob) = (e1, i)"
  shows "en_states (pending_breach cfg v e ob st) =
     (if t_sub (v_now v) (rs_first_breach_at st) < o_duration ob then en_states e
      else (en_states e)(obs_key ob \<mapsto>
        (let st1 = st\<lparr>rs_state := (if o_severity ob = ''warning'' then StateWarning else StateCritical)\<rparr>
         in if i \<noteq> [] then
              st1\<lparr>rs_active_alert_id := i, rs_fired := True, rs_fired_at := v_now v, rs_silenced := o_silenced ob,
                  rs_last_notified_at := (if o_silenced ob then rs_last_notified_at st else v_now v)\<rparr>
            else st1)))"
  using fireAlert_states [OF assms] assms by (simp add: pending_breach_def Let_def)

definition keep_state :: "'db engine_cfg \<Rightarrow> hub_view \<Rightarrow> observation \<Rightarrow> ruleAgentState \<Rightarrow> alert \<Rightarrow> ruleAgentState" where
  "keep_state cfg v ob st a =
     st\<lparr>rs_silenced := o_silenced ob,
        rs_last_notified_at :=
          (if \<not> o_silenced ob \<and> al_acknowledged_at a = 0 \<and>
              (rs_silenced st \<or> rs_last_notified_at st = 0 \<or>
               ec_cooldown cfg \<le> t_sub (v_now v) (rs_last_notified_at st))
           then v_now v else rs_last_notified_at st)\<rparr>"

lemma keep_states_Some:
  assumes "refreshFiringAlert cfg v e (rs_active_alert_id st) (o_rule ob) (o_subject ob)
      (o_value ob) (o_severity ob) (o_silenced ob) = (e1, Some a)" and "rs_active_alert_id st \<noteq> []"
  shows "en_states (keep_firing cfg v e ob st) = (en_states e)(obs_key ob \<mapsto> keep_state cfg v ob st a)"
  using assms refresh_states [OF assms(1)]
  by (cases st) (simp add: keep_firing_def keep_state_def Let_def escalate_states renotify_def)

lemma keep_states:
  "en_states (keep_firing cfg v e ob st) = en_states e \<or>
   (\<exists>a. en_states (keep_firing cfg v e ob st) = (en_states e)(obs_key ob \<mapsto> keep_state cfg v ob st a))"
proof (cases "rs_active_alert_id st = []")
  case False
  obtain e1 r where r: "refreshFiringAlert cfg v e (rs_active_alert_id st) (o_rule ob) (o_subject ob)
      (o_value ob) (o_severity ob) (o_silenced ob) = (e1, r)"
    by (cases "refreshFiringAlert cfg v e (rs_active_alert_id st) (o_rule ob) (o_subject ob)
      (o_value ob) (o_severity ob) (o_silenced ob)")
  show ?thesis
  proof (cases r)
    case None
    with r False show ?thesis by (simp add: keep_firing_def refresh_states [OF r])
  next
    case (Some a)
    with r False show ?thesis using keep_states_Some by blast
  qed
qed (simp add: keep_firing_def)

lemma state_of_upd: "en_states e' = (en_states e)(k \<mapsto> st) \<Longrightarrow> state_of e' k' = (if k' = k then st else state_of e k')"
  by (simp add: state_of_def)

lemma keep_state_sel [simp]:
  "rs_fired (keep_state cfg v ob st a) = rs_fired st"
  "rs_state (keep_state cfg v ob st a) = rs_state st"
  "rs_active_alert_id (keep_state cfg v ob st a) = rs_active_alert_id st"
  "rs_first_breach_at (keep_state cfg v ob st a) = rs_first_breach_at st"
  "rs_fired_at (keep_state cfg v ob st a) = rs_fired_at st"
  "rs_silenced (keep_state cfg v ob st a) = o_silenced ob"
  by (simp_all add: keep_state_def)

lemma keep_state_of:
  "state_of (keep_firing cfg v e ob st) = state_of e \<or>
   (\<exists>a. state_of (keep_firing cfg v e ob st) = (state_of e)(obs_key ob := keep_state cfg v ob st a))"
  using keep_states [of cfg v e ob st]
proof (elim disjE exE)
  fix a
  assume "en_states (keep_firing cfg v e ob st) = (en_states e)(obs_key ob \<mapsto> keep_state cfg v ob st a)"
  from state_of_upd [OF this] show ?thesis by (intro disjI2 exI [of _ a] ext) simp
qed (blast dest: state_of_cong)

text \<open>A step is one of its four branches; this is the case split the proofs below share.\<close>

lemma updateState_cases:
  fixes cfg v e ob
  defines "st \<equiv> state_of e (obs_key ob)"
  defines "e0 \<equiv> put_state e (obs_key ob) st"
  obtains
    (stop) "\<not> o_breaching ob" and "updateState cfg v e ob = stop_breach cfg v e0 ob st"
  | (start) "o_breaching ob" and "rs_state st = StateOK \<or> rs_state st = StateResolved"
      and "updateState cfg v e ob = start_breach v e0 ob st"
  | (pending) "o_breaching ob" and "rs_state st = StateWarning \<or> rs_state st = StateCritical" and "\<not> rs_fired st"
      and "updateState cfg v e ob = pending_breach cfg v e0 ob st"
  | (firing) "o_breaching ob" and "rs_state st = StateWarning \<or> rs_state st = StateCritical" and "rs_fired st"
      and "updateState cfg v e ob = keep_firing cfg v e0 ob st"
  unfolding updateState_def Let_def st_def e0_def
  by (cases "rs_state (state_of e (obs_key ob))") (auto split: if_splits)

lemma put_state_of: "state_of (put_state e k (state_of e k)) = state_of e"
  by (rule ext) simp

lemma updateState_other:
  assumes "k \<noteq> obs_key ob"
  shows "state_of (updateState cfg v e ob) k = state_of e k"
proof (cases rule: updateState_cases [of ob cfg v e])
  case stop
  then show ?thesis using assms by (simp add: state_of_def stop_states)
next
  case start
  then show ?thesis using assms by (simp add: state_of_def start_states)
next
  case pending
  then show ?thesis using assms
    by (cases "fireAlert cfg v (put_state e (obs_key ob) (state_of e (obs_key ob))) (o_rule ob)
          (o_subject ob) (o_value ob) (o_severity ob) (o_silenced ob)")
       (simp add: state_of_def pending_states)
next
  case firing
  then show ?thesis using assms
      keep_states [of cfg v "put_state e (obs_key ob) (state_of e (obs_key ob))" ob "state_of e (obs_key ob)"]
    by (auto simp: state_of_def)
qed

lemma updateState_own:
  assumes inv: "st_inv (state_of e (obs_key ob))"
  shows "st_inv (state_of (updateState cfg v e ob) (obs_key ob))"
proof (cases rule: updateState_cases [of ob cfg v e])
  case stop
  with inv show ?thesis by (auto simp: state_of_def stop_states)
next
  case start
  with inv show ?thesis by (auto simp: state_of_upd [OF start_states] st_inv_def)
next
  case pending
  then show ?thesis using inv
    by (cases "fireAlert cfg v (put_state e (obs_key ob) (state_of e (obs_key ob))) (o_rule ob)
          (o_subject ob) (o_value ob) (o_severity ob) (o_silenced ob)")
       (auto simp: state_of_def pending_states st_inv_def Let_def)
next
  case firing
  then show ?thesis using inv
      keep_states [of cfg v "put_state e (obs_key ob) (state_of e (obs_key ob))" ob "state_of e (obs_key ob)"]
    by (auto simp: state_of_def st_inv_def keep_state_def)
qed

lemma updateState_wf: "wf_states e \<Longrightarrow> wf_states (updateState cfg v e ob)"
  unfolding wf_states_def
  by (metis updateState_other updateState_own)

lemma seed_one_wf: "wf_states e \<Longrightarrow> al_id a \<noteq> [] \<Longrightarrow> wf_states (seed_one v a e)"
  by (auto simp: seed_one_def st_inv_def intro!: wf_states_put split: option.splits)

lemma NewEngine_wf [simp]: "wf_states (NewEngine db)"
  by (simp add: wf_states_def NewEngine_def state_of_def)

section \<open>Rows and callbacks of a step that keeps firing\<close>

definition refreshed :: "hub_view \<Rightarrow> observation \<Rightarrow> alert \<Rightarrow> alert" where
  "refreshed v ob a = a\<lparr>al_value := o_value ob,
     al_message := buildMessage v (o_rule ob) (o_subject ob) (o_value ob) (o_severity ob),
     al_silenced := o_silenced ob\<rparr>"

definition renotifies :: "'db engine_cfg \<Rightarrow> hub_view \<Rightarrow> observation \<Rightarrow> ruleAgentState \<Rightarrow> alert \<Rightarrow> bool" where
  "renotifies cfg v ob st a \<longleftrightarrow> \<not> o_silenced ob \<and> al_acknowledged_at a = 0 \<and>
     (rs_silenced st \<or> rs_last_notified_at st = 0 \<or> ec_cooldown cfg \<le> t_sub (v_now v) (rs_last_notified_at st))"

definition may_escalate :: "hub_view \<Rightarrow> observation \<Rightarrow> ruleAgentState \<Rightarrow> alert \<Rightarrow> bool" where
  "may_escalate v ob st a \<longleftrightarrow> \<not> o_silenced ob \<and> al_acknowledged_at a = 0 \<and> al_escalated_at a = 0 \<and>
     0 < r_escalation_after (o_rule ob) \<and>
     secs_of_float (r_escalation_after (o_rule ob)) \<le> t_sub (v_now v) (rs_fired_at st)"

lemma refreshed_sel [simp]:
  "al_id (refreshed v ob a) = al_id a" "al_status (refreshed v ob a) = al_status a"
  "al_acknowledged_at (refreshed v ob a) = al_acknowledged_at a"
  "al_escalated_at (refreshed v ob a) = al_escalated_at a"
  "alert_key (refreshed v ob a) = alert_key a"
  by (simp_all add: refreshed_def alert_key_def alert_subject_def)

lemma alert_key_upd [simp]:
  "alert_key (a\<lparr>al_escalated_at := t\<rparr>) = alert_key a" "alert_key (a\<lparr>al_status := s\<rparr>) = alert_key a"
  "alert_key (a\<lparr>al_resolved_at := t\<rparr>) = alert_key a" "alert_key (a\<lparr>al_acknowledged_at := t\<rparr>) = alert_key a"
  "alert_key (a\<lparr>al_acknowledged_by := s\<rparr>) = alert_key a"
  by (simp_all add: alert_key_def alert_subject_def)

context alert_engine
begin

lemma keep_effect:
  assumes act: "rs_active_alert_id st = i" "i \<noteq> []"
  shows "rows cfg (keep_firing cfg v e ob st) = rows cfg e \<and> en_out (keep_firing cfg v e ob st) = en_out e \<or>
    (\<exists>a0 esc. rows cfg e i = Some a0 \<and> (esc \<longrightarrow> may_escalate v ob st a0) \<and>
      (let a = refreshed v ob a0; a' = (if esc then a\<lparr>al_escalated_at := fmt_ts (v_now v)\<rparr> else a) in
       rows cfg (keep_firing cfg v e ob st) = (rows cfg e)(i \<mapsto> a') \<and>
       en_out (keep_firing cfg v e ob st) = en_out e @
         (if renotifies cfg v ob st a0 \<and> ec_notify cfg then [Notify a (o_rule ob)] else []) @
         (if esc \<and> ec_escalate cfg then [Escalate a' (o_rule ob)] else [])))"
proof -
  obtain e1 r where r: "refreshFiringAlert cfg v e i (o_rule ob) (o_subject ob)
      (o_value ob) (o_severity ob) (o_silenced ob) = (e1, r)"
    by (cases "refreshFiringAlert cfg v e i (o_rule ob) (o_subject ob)
      (o_value ob) (o_severity ob) (o_silenced ob)")
  note eff = refresh_effect [OF r]
  show ?thesis
  proof (cases r)
    case None
    with r eff act show ?thesis by (simp add: keep_firing_def)
  next
    case (Some a)
    with eff obtain a0 where a0: "rows cfg e i = Some a0" and rows1: "rows cfg e1 = (rows cfg e)(i \<mapsto> a)"
      and a: "a = refreshed v ob a0" and out1: "en_out e1 = en_out e"
      by (auto simp: refreshed_def)
    show ?thesis
    proof (cases "o_silenced ob \<or> al_acknowledged_at a0 \<noteq> 0")
      case True
      then have "rows cfg (keep_firing cfg v e ob st) = (rows cfg e)(i \<mapsto> a)"
        and "en_out (keep_firing cfg v e ob st) = en_out e" and "\<not> renotifies cfg v ob st a0"
        using r Some act rows1 out1 by (auto simp: keep_firing_def a Let_def renotifies_def)
      with a0 show ?thesis by (auto simp: a intro!: disjI2 exI [of _ False])
    next
      case False
      let ?re = "renotifies cfg v ob st a0"
      define e2 where "e2 = put_state (if ?re then renotify cfg e1 a (o_rule ob) else e1) (obs_key ob)
        (keep_state cfg v ob st a0)"
      have rows2: "rows cfg e2 i = Some a" "rows cfg e2 = (rows cfg e)(i \<mapsto> a)"
        and out2: "en_out e2 = en_out e @ (if ?re \<and> ec_notify cfg then [Notify a (o_rule ob)] else [])"
        using rows1 out1 by (auto simp: e2_def renotify_def)
      have keep: "keep_firing cfg v e ob st =
          maybeEscalate cfg e2 (o_rule ob) a (keep_state cfg v ob st a0) (v_now v)"
        using r Some False act
        by (cases st) (auto simp: keep_firing_def a Let_def e2_def keep_state_def renotifies_def)
      have "al_id a = i" using find_ident [OF a0] by (simp add: a)
      from escalate_effect [OF rows2(1) this, of "o_rule ob" "keep_state cfg v ob st a0" "v_now v"]
      consider "rows cfg (keep_firing cfg v e ob st) = rows cfg e2" "en_out (keep_firing cfg v e ob st) = en_out e2"
        | "may_escalate v ob st a0"
          "rows cfg (keep_firing cfg v e ob st) = (rows cfg e2)(i \<mapsto> a\<lparr>al_escalated_at := fmt_ts (v_now v)\<rparr>)"
          "en_out (keep_firing cfg v e ob st) = en_out e2 @
            (if ec_escalate cfg then [Escalate (a\<lparr>al_escalated_at := fmt_ts (v_now v)\<rparr>) (o_rule ob)] else [])"
        using False by (auto simp: keep may_escalate_def Let_def a keep_state_def)
      then show ?thesis
      proof cases
        case 1
        then show ?thesis using a0 rows2 out2 by (auto simp: a intro!: disjI2 exI [of _ False])
      next
        case 2
        then show ?thesis using a0 rows2 out2 by (auto simp: a intro!: disjI2 exI [of _ True])
      qed
    qed
  qed
qed

end

end
