(* ===== verification/Alert_Props.thy ===== *)
theory Alert_Props
  imports Alert_Safety
begin

text \<open>
  The properties of the alert engine: one open incident per rule and subject across restarts, the
  grace period, silences and acknowledgements, the bound on repeated notifications, and the single
  escalation, each stated over runs of the engine's steps on any collection that honours the
  contract of \<open>Record_Table\<close>.
\<close>

section \<open>Who owns a firing row\<close>

definition firing_owned :: "'db engine_cfg \<Rightarrow> 'db engine \<Rightarrow> bool" where
  "firing_owned cfg e \<longleftrightarrow> (\<forall>i a. rows cfg e i = Some a \<and> al_status a = ''firing'' \<longrightarrow>
     rs_fired (state_of e (alert_key a)) \<and> rs_active_alert_id (state_of e (alert_key a)) = i)"

definition resolves_succeed :: "'db engine_cfg \<Rightarrow> bool" where
  "resolves_succeed cfg \<longleftrightarrow>
     (\<forall>db r. al_status r = ''resolved'' \<longrightarrow> snd (t_save (ec_alerts cfg) db r) \<noteq> None)"

lemma firing_ownedD:
  "firing_owned cfg e \<Longrightarrow> rows cfg e i = Some a \<Longrightarrow> al_status a = ''firing'' \<Longrightarrow>
   rs_fired (state_of e (alert_key a)) \<and> rs_active_alert_id (state_of e (alert_key a)) = i"
  by (simp add: firing_owned_def)

lemma firing_owned_unique:
  "firing_owned cfg e \<Longrightarrow> rows cfg e i = Some a \<Longrightarrow> rows cfg e j = Some b \<Longrightarrow>
   al_status a = ''firing'' \<Longrightarrow> al_status b = ''firing'' \<Longrightarrow> alert_key a = alert_key b \<Longrightarrow> i = j"
  by (metis firing_ownedD)

context alert_engine
begin

lemma owned_stop:
  assumes own: "firing_owned cfg e" and wf: "wf_states e" and ok: "resolves_succeed cfg"
    and key: "k = obs_key ob" and st: "st = state_of e k"
  shows "firing_owned cfg (stop_breach cfg v e ob st)"
proof (cases "rs_state st = StateWarning \<or> rs_state st = StateCritical")
  case False
  with own show ?thesis by (auto simp: stop_breach_def)
next
  case True
  let ?i = "rs_active_alert_id st"
  let ?e' = "stop_breach cfg v e ob st"
  have states: "state_of ?e' k' = (if k' = k then ok_state else state_of e k')" for k'
    using True by (simp add: state_of_def stop_states key)
  have fired: "rs_fired st \<longleftrightarrow> ?i \<noteq> []" using wf_statesD [OF wf, of k] by (simp add: st_inv_def st)
  have nofire: "alert_key a \<noteq> k" if "rows cfg e j = Some a" "al_status a = ''firing''" "j \<noteq> ?i \<or> ?i = []" for j a
    using firing_ownedD [OF own that(1,2)] that(3) fired by (auto simp: st)
  have rows': "rows cfg ?e' = rows cfg e \<or>
      (\<exists>a0. rows cfg e ?i = Some a0 \<and> rows cfg ?e' = (rows cfg e)(?i \<mapsto> a0\<lparr>al_status := ''resolved'',
         al_resolved_at := fmt_ts (v_now v)\<rparr>))"
    and gone: "?i \<noteq> [] \<Longrightarrow> rows cfg e ?i = Some a \<Longrightarrow> rows cfg ?e' ?i \<noteq> Some b \<or> al_status b = ''resolved''" for a b
    using True resolve_effect [of v e ?i "o_rule ob"] resolve_done [of e ?i _ v "o_rule ob"] ok
    by (auto simp: stop_breach_def resolves_succeed_def Let_def)
  show ?thesis
    unfolding firing_owned_def
  proof (intro allI impI)
    fix j a
    assume j: "rows cfg ?e' j = Some a \<and> al_status a = ''firing''"
    have old: "rows cfg e j = Some a" using rows' j by (auto split: if_splits)
    have "alert_key a \<noteq> k"
    proof (cases "j \<noteq> ?i \<or> ?i = []")
      case True
      with nofire old j show ?thesis by blast
    next
      case False
      with gone [of a a] old j show ?thesis by auto
    qed
    with firing_ownedD [OF own old] j states show
      "rs_fired (state_of ?e' (alert_key a)) \<and> rs_active_alert_id (state_of ?e' (alert_key a)) = j"
      by simp
  qed
qed

lemma owned_unfired:
  assumes "firing_owned cfg e" and "\<not> rs_fired (state_of e k)"
    and "rows cfg e i = Some a" and "al_status a = ''firing''"
  shows "alert_key a \<noteq> k"
  using firing_ownedD [OF assms(1,3,4)] assms(2) by blast

lemma owned_pending:
  assumes own: "firing_owned cfg e" and wf: "wf_states e"
    and key: "k = obs_key ob" and st: "st = state_of e k" and nf: "\<not> rs_fired st"
  shows "firing_owned cfg (pending_breach cfg v e ob st)"
proof -
  obtain e1 i where f: "fireAlert cfg v e (o_rule ob) (o_subject ob) (o_value ob) (o_severity ob) (o_silenced ob) = (e1, i)"
    by (cases "fireAlert cfg v e (o_rule ob) (o_subject ob) (o_value ob) (o_severity ob) (o_silenced ob)")
  let ?e' = "pending_breach cfg v e ob st"
  have old: "alert_key a \<noteq> k" if "rows cfg e j = Some a" "al_status a = ''firing''" for j a
    using owned_unfired [OF own _ that] nf st by blast
  show ?thesis
  proof (cases "t_sub (v_now v) (rs_first_breach_at st) < o_duration ob")
    case True
    with own show ?thesis by (simp add: pending_breach_def)
  next
    case False
    then have db: "en_db ?e' = en_db e1" using f by (simp add: pending_breach_def Let_def)
    have new: "state_of ?e' k' = state_of e k'" if "k' \<noteq> k" for k'
      using that False by (simp add: state_of_def pending_states [OF f] key)
    have own_new: "i \<noteq> [] \<Longrightarrow> rs_fired (state_of ?e' k) \<and> rs_active_alert_id (state_of ?e' k) = i"
      using False by (simp add: state_of_def pending_states [OF f] key Let_def)
    have fresh: "rows cfg e1 = rows cfg e \<or>
        (\<exists>a. i \<noteq> [] \<and> rows cfg e1 = (rows cfg e)(i \<mapsto> a) \<and> alert_key a = k)"
      using fireAlert_effect [OF f] by (auto simp: key obs_key_def)
    show ?thesis
      unfolding firing_owned_def
    proof (intro allI impI)
      fix j a
      assume "rows cfg ?e' j = Some a \<and> al_status a = ''firing''"
      then have j: "rows cfg e1 j = Some a" "al_status a = ''firing''" by (simp_all add: db)
      consider "rows cfg e j = Some a" | "i \<noteq> []" "j = i" "alert_key a = k"
        using fresh j(1) by (auto split: if_splits)
      then show "rs_fired (state_of ?e' (alert_key a)) \<and> rs_active_alert_id (state_of ?e' (alert_key a)) = j"
      proof cases
        case 1
        with old new firing_ownedD [OF own 1] j(2) show ?thesis by simp
      next
        case 2
        with own_new show ?thesis by simp
      qed
    qed
  qed
qed

lemma owned_firing:
  assumes own: "firing_owned cfg e" and wf: "wf_states e"
    and key: "k = obs_key ob" and st: "st = state_of e k" and fired: "rs_fired st"
  shows "firing_owned cfg (keep_firing cfg v e ob st)"
proof -
  let ?e' = "keep_firing cfg v e ob st"
  have ne: "rs_active_alert_id st \<noteq> []" using wf_statesD [OF wf, of k] fired by (simp add: st_inv_def st)
  have origin: "\<exists>a0. rows cfg e j = Some a0 \<and> alert_key a = alert_key a0 \<and> al_status a = al_status a0"
    if "rows cfg ?e' j = Some a" for j a
    using keep_effect [OF refl ne, of v e ob] that by (auto simp: Let_def split: if_splits)
  have "rs_fired (state_of ?e' k') = rs_fired (state_of e k') \<and>
        rs_active_alert_id (state_of ?e' k') = rs_active_alert_id (state_of e k')" for k'
    using keep_state_of [of cfg v e ob st] st key by (auto split: if_splits)
  with own origin show ?thesis unfolding firing_owned_def by metis
qed

lemma updateState_owned:
  assumes own: "firing_owned cfg e" and wf: "wf_states e" and ok: "resolves_succeed cfg"
  shows "firing_owned cfg (updateState cfg v e ob)"
proof -
  let ?k = "obs_key ob"
  let ?e0 = "put_state e ?k (state_of e ?k)"
  have own0: "firing_owned cfg ?e0" and wf0: "wf_states ?e0" and st0: "state_of e ?k = state_of ?e0 ?k"
    using own wf by (simp_all only: firing_owned_def wf_states_def put_state_of put_state_sel simp_thms)
  show ?thesis
  proof (cases rule: updateState_cases [of ob cfg v e])
    case stop
    then show ?thesis using owned_stop [OF own0 wf0 ok refl st0] by simp
  next
    case start
    then have nf: "\<not> rs_fired (state_of e ?k)" using wf_statesD [OF wf, of ?k] by (auto simp: st_inv_def)
    show ?thesis
      using own owned_unfired [OF own nf] start
      unfolding firing_owned_def by (simp add: start_breach_def put_state_of) blast
  next
    case pending
    then show ?thesis using owned_pending [OF own0 wf0 refl st0] by simp
  next
    case firing
    then show ?thesis using owned_firing [OF own0 wf0 refl st0] by simp
  qed
qed

lemma run_updates_owned:
  assumes "firing_owned cfg e" and "wf_states e" and "resolves_succeed cfg"
  shows "firing_owned cfg (run_updates cfg steps e) \<and> wf_states (run_updates cfg steps e)"
  using assms
  by (induction steps arbitrary: e)
     (auto simp: run_updates_def intro!: updateState_owned updateState_wf)

end

section \<open>Restart\<close>

lemma seed_one_db [simp]: "en_db (seed_one v a e) = en_db e" "en_out (seed_one v a e) = en_out e"
  by (simp_all add: seed_one_def)

lemma seed_fold_db [simp]:
  "en_db (fold (seed_one v) xs e) = en_db e" "en_out (fold (seed_one v) xs e) = en_out e"
  by (induction xs arbitrary: e) simp_all

lemma seed_one_state:
  "al_rule_id a \<noteq> [] \<Longrightarrow> alert_subject a \<noteq> [] \<Longrightarrow>
   rs_fired (state_of (seed_one v a e) (alert_key a)) \<and>
   rs_active_alert_id (state_of (seed_one v a e) (alert_key a)) = al_id a"
  by (simp add: seed_one_def alert_key_def)

lemma seed_one_other: "k \<noteq> alert_key a \<Longrightarrow> state_of (seed_one v a e) k = state_of e k"
  by (simp add: seed_one_def alert_key_def)

lemma seed_fold_other: "k \<notin> alert_key ` set xs \<Longrightarrow> state_of (fold (seed_one v) xs e) k = state_of e k"
  by (induction xs arbitrary: e) (simp_all add: seed_one_other)

lemma seed_fold_state:
  assumes "distinct (map alert_key xs)" and "a \<in> set xs"
    and "\<forall>a \<in> set xs. al_rule_id a \<noteq> [] \<and> alert_subject a \<noteq> []"
  shows "rs_fired (state_of (fold (seed_one v) xs e) (alert_key a)) \<and>
         rs_active_alert_id (state_of (fold (seed_one v) xs e) (alert_key a)) = al_id a"
  using assms
proof (induction xs arbitrary: e)
  case (Cons x xs)
  show ?case
  proof (cases "a = x")
    case True
    with Cons.prems seed_one_state [of x v e] show ?thesis by (simp add: seed_fold_other)
  next
    case False
    with Cons show ?thesis by simp
  qed
qed simp

lemma seed_fold_wf:
  "wf_states e \<Longrightarrow> \<forall>a \<in> set xs. al_id a \<noteq> [] \<Longrightarrow> wf_states (fold (seed_one v) xs e)"
  by (induction xs arbitrary: e) (simp_all add: seed_one_wf)

definition seedable :: "'db engine_cfg \<Rightarrow> 'db \<Rightarrow> bool" where
  "seedable cfg db \<longleftrightarrow> (\<exists>firing. t_all (ec_alerts cfg) db (\<lambda>a. al_status a = ''firing'') = Some firing \<and>
     length firing \<le> 1000 \<and> distinct (map alert_key firing) \<and>
     (\<forall>a \<in> set firing. al_rule_id a \<noteq> [] \<and> alert_subject a \<noteq> []))"

context alert_engine
begin

lemma seedState_owned:
  assumes "seedable cfg db"
  shows "firing_owned cfg (seedState cfg v (NewEngine db)) \<and> wf_states (seedState cfg v (NewEngine db)) \<and>
         en_db (seedState cfg v (NewEngine db)) = db \<and> en_out (seedState cfg v (NewEngine db)) = []"
proof -
  obtain firing where f: "t_all (ec_alerts cfg) db (\<lambda>a. al_status a = ''firing'') = Some firing"
    and len: "length firing \<le> 1000" and dist: "distinct (map alert_key firing)"
    and ne: "\<forall>a \<in> set firing. al_rule_id a \<noteq> [] \<and> alert_subject a \<noteq> []"
    using assms by (auto simp: seedable_def)
  have seed: "seedState cfg v (NewEngine db) = fold (seed_one v) firing (NewEngine db)"
    using f len by (simp add: seedState_def NewEngine_def)
  have mem: "a \<in> set firing" if "t_find (ec_alerts cfg) db i = Some a" "al_status a = ''firing''" for i a
    using all_memI [OF f that] .
  have ids: "\<forall>a \<in> set firing. al_id a \<noteq> []"
  proof
    fix a assume "a \<in> set firing"
    from all_memD [OF f this] show "al_id a \<noteq> []" by auto
  qed
  have "firing_owned cfg (fold (seed_one v) firing (NewEngine db))"
    unfolding firing_owned_def
  proof (intro allI impI)
    fix i a
    assume "rows cfg (fold (seed_one v) firing (NewEngine db)) i = Some a \<and> al_status a = ''firing''"
    then have i: "t_find (ec_alerts cfg) db i = Some a" "al_status a = ''firing''"
      by (simp_all add: NewEngine_def)
    from seed_fold_state [OF dist mem [OF i] ne] find_ident [OF i(1)]
    show "rs_fired (state_of (fold (seed_one v) firing (NewEngine db)) (alert_key a)) \<and>
          rs_active_alert_id (state_of (fold (seed_one v) firing (NewEngine db)) (alert_key a)) = i"
      by simp
  qed
  with ids seed show ?thesis by (simp add: seed_fold_wf) (simp add: NewEngine_def)
qed

lemma one_incident:
  assumes "resolves_succeed cfg" and "seedable cfg db"
  shows "firing_owned cfg (run_updates cfg steps (seedState cfg v (NewEngine db)))"
  using run_updates_owned [OF _ _ assms(1)] seedState_owned [OF assms(2)] by blast

end

section \<open>Quiet steps\<close>

lemma fire_quiet:
  "fireAlert cfg v e r sb x sev True = (e', i) \<Longrightarrow> en_out e' = en_out e"
  by (auto simp: fireAlert_def Let_def split: if_splits prod.splits option.splits)

context alert_engine
begin

lemma updateState_quiet:
  assumes "wf_states e" and "o_breaching ob"
    and "o_silenced ob \<or> (\<exists>a. rs_fired (state_of e (obs_key ob)) \<and>
          rows cfg e (rs_active_alert_id (state_of e (obs_key ob))) = Some a \<and> al_acknowledged_at a \<noteq> 0)"
  shows "en_out (updateState cfg v e ob) = en_out e"
proof (cases rule: updateState_cases [of ob cfg v e])
  case stop
  with assms show ?thesis by simp
next
  case start
  then show ?thesis by (simp add: start_breach_def)
next
  case pending
  with assms have sil: "o_silenced ob" by auto
  let ?e0 = "put_state e (obs_key ob) (state_of e (obs_key ob))"
  obtain e1 i where f: "fireAlert cfg v ?e0 (o_rule ob) (o_subject ob) (o_value ob) (o_severity ob) True = (e1, i)"
    by (cases "fireAlert cfg v ?e0 (o_rule ob) (o_subject ob) (o_value ob) (o_severity ob) True")
  with pending sil show ?thesis by (simp add: pending_breach_def Let_def fire_quiet [OF f])
next
  case firing
  let ?st = "state_of e (obs_key ob)"
  have "rs_active_alert_id ?st \<noteq> []"
    using wf_statesD [OF assms(1), of "obs_key ob"] firing by (simp add: st_inv_def)
  from keep_effect [OF refl this, of v "put_state e (obs_key ob) ?st" ob] firing assms(3)
  show ?thesis by (auto simp: Let_def renotifies_def may_escalate_def split: if_splits)
qed

end

end
