(* ===== verification/Alert_Tracking.thy ===== *)
theory Alert_Tracking
  imports Alert_Props
begin

text \<open>
  What one step of the alert engine can reach: a tracked engine knows the row of every fired subject,
  and a step changes rows and sends callbacks of its own rule and subject only.
\<close>

section \<open>Tracked engines\<close>

fun sent_alert :: "sent \<Rightarrow> alert" where
  "sent_alert (Notify a r) = a"
| "sent_alert (Escalate a r) = a"

fun sent_rule :: "sent \<Rightarrow> rule" where
  "sent_rule (Notify a r) = r"
| "sent_rule (Escalate a r) = r"

fun is_escalate :: "sent \<Rightarrow> bool" where
  "is_escalate (Escalate a r) = True"
| "is_escalate (Notify a r) = False"

definition tracked :: "'db engine_cfg \<Rightarrow> 'db engine \<Rightarrow> bool" where
  "tracked cfg e \<longleftrightarrow> wf_states e \<and> (\<forall>k. rs_fired (state_of e k) \<longrightarrow>
     (\<exists>a. rows cfg e (rs_active_alert_id (state_of e k)) = Some a \<and> alert_key a = k))"

lemma trackedD: "tracked cfg e \<Longrightarrow> rs_fired (state_of e k) \<Longrightarrow>
    \<exists>a. rows cfg e (rs_active_alert_id (state_of e k)) = Some a \<and> alert_key a = k"
  unfolding tracked_def by blast

lemma tracked_wf: "tracked cfg e \<Longrightarrow> wf_states e"
  by (simp add: tracked_def)

lemma tracked_New [simp]: "tracked cfg (NewEngine db)"
  by (simp add: tracked_def) (simp add: NewEngine_def state_of_def ok_state_def)

text \<open>
  One row of the collection written, and the callbacks sent: all about the key \<open>k\<close>. Rows keep
  their key and their escalation mark; an escalation marks a row that was not marked.
\<close>

definition row_step :: "time \<Rightarrow> ruleAgentKey \<Rightarrow> (string \<Rightarrow> alert option) \<Rightarrow> (string \<Rightarrow> alert option) \<Rightarrow> sent list \<Rightarrow> bool" where
  "row_step t k old new out \<longleftrightarrow>
     new = old \<and> out = [] \<or>
     (\<exists>i a. new = old(i \<mapsto> a) \<and> al_id a = i \<and> alert_key a = k \<and>
        (\<forall>a0. old i = Some a0 \<longrightarrow> alert_key a0 = k \<and> (al_escalated_at a0 \<noteq> 0 \<longrightarrow> al_escalated_at a = al_escalated_at a0)) \<and>
        (\<forall>s \<in> set out. alert_key (sent_alert s) = k \<and> al_id (sent_alert s) = i) \<and>
        length (filter is_escalate out) \<le> 1 \<and>
        (\<forall>s \<in> set out. is_escalate s \<longrightarrow> sent_alert s = a \<and> al_escalated_at a = t \<and>
           \<not> al_silenced a \<and> al_acknowledged_at a = 0 \<and> 0 < r_escalation_after (sent_rule s) \<and>
           (\<exists>a0. old i = Some a0 \<and> al_escalated_at a0 = 0)))"

lemma row_step_new: "row_step t k old new out \<Longrightarrow> new i = Some a \<Longrightarrow> old i \<noteq> Some a \<Longrightarrow> alert_key a = k"
  unfolding row_step_def by (metis fun_upd_apply option.inject)

lemma row_step_other: "row_step t k old new out \<Longrightarrow> old i = Some a \<Longrightarrow> alert_key a \<noteq> k \<Longrightarrow> new i = Some a"
  unfolding row_step_def by (metis fun_upd_apply)

lemma row_step_out: "row_step t k old new out \<Longrightarrow> s \<in> set out \<Longrightarrow> alert_key (sent_alert s) = k"
  unfolding row_step_def by (metis empty_iff list.set(1))

lemma refreshed_silenced [simp]: "al_silenced (refreshed v ob a) = o_silenced ob"
  by (simp add: refreshed_def)

lemma pending_own:
  assumes f: "fireAlert cfg v e (o_rule ob) (o_subject ob) (o_value ob) (o_severity ob) (o_silenced ob) = (e1, i)"
  shows "state_of (pending_breach cfg v e ob st) (obs_key ob) =
     (if t_sub (v_now v) (rs_first_breach_at st) < o_duration ob then state_of e (obs_key ob)
      else (let st1 = st\<lparr>rs_state := (if o_severity ob = ''warning'' then StateWarning else StateCritical)\<rparr>
         in if i \<noteq> [] then
              st1\<lparr>rs_active_alert_id := i, rs_fired := True, rs_fired_at := v_now v, rs_silenced := o_silenced ob,
                  rs_last_notified_at := (if o_silenced ob then rs_last_notified_at st else v_now v)\<rparr>
            else st1))"
  using fireAlert_states [OF f] f by (simp add: pending_breach_def Let_def)

context alert_engine
begin

lemma row_same: "row_step t k old old []"
  by (simp add: row_step_def)

lemma row_new:
  "new = old(i \<mapsto> a) \<Longrightarrow> al_id a = i \<Longrightarrow> alert_key a = k \<Longrightarrow> old i = None \<Longrightarrow>
   \<forall>s \<in> set out. s = Notify a r \<Longrightarrow> length out \<le> 1 \<Longrightarrow> row_step t k old new out"
  by (fastforce simp: row_step_def intro: le_trans [OF length_filter_le])

lemma row_upd:
  "new = old(i \<mapsto> a) \<Longrightarrow> old i = Some a0 \<Longrightarrow> al_id a = i \<Longrightarrow> alert_key a = k \<Longrightarrow> alert_key a0 = k \<Longrightarrow>
   (al_escalated_at a0 \<noteq> 0 \<longrightarrow> al_escalated_at a = al_escalated_at a0) \<Longrightarrow>
   \<forall>s \<in> set out. alert_key (sent_alert s) = k \<and> al_id (sent_alert s) = i \<and>
     (is_escalate s \<longrightarrow> sent_alert s = a \<and> al_escalated_at a0 = 0 \<and> al_escalated_at a = t \<and>
       \<not> al_silenced a \<and> al_acknowledged_at a = 0 \<and> 0 < r_escalation_after (sent_rule s)) \<Longrightarrow>
   length (filter is_escalate out) \<le> 1 \<Longrightarrow> row_step t k old new out"
  unfolding row_step_def by (rule disjI2, rule exI [of _ i], rule exI [of _ a]) auto

lemma stop_step:
  assumes "tracked cfg e" and "st = state_of e k" and "k = obs_key ob"
  shows "\<exists>out. en_out (stop_breach cfg v e ob st) = en_out e @ out \<and>
    row_step (fmt_ts (v_now v)) k (rows cfg e) (rows cfg (stop_breach cfg v e ob st)) out"
proof (cases "(rs_state st = StateWarning \<or> rs_state st = StateCritical) \<and> rs_active_alert_id st \<noteq> []")
  case True
  then have fired: "rs_fired st" using wf_statesD [OF tracked_wf [OF assms(1)], of k] assms(2) by (simp add: st_inv_def)
  then obtain a where a: "rows cfg e (rs_active_alert_id st) = Some a" "alert_key a = k"
    using trackedD [OF assms(1)] assms(2) by blast
  moreover have "al_id a = rs_active_alert_id st" using find_ident [OF a(1)] .
  moreover have "stop_breach cfg v e ob st =
      put_state (resolveAlert cfg v e (rs_active_alert_id st) (o_rule ob)) (obs_key ob) ok_state"
    using True by (simp add: stop_breach_def)
  ultimately show ?thesis
    using resolve_effect [of v e "rs_active_alert_id st" "o_rule ob"]
    by (auto simp: Let_def row_same intro!: row_upd)
next
  case False
  then show ?thesis by (auto simp: stop_breach_def row_step_def)
qed

lemma pending_step:
  assumes "k = obs_key ob"
  shows "\<exists>out. en_out (pending_breach cfg v e ob st) = en_out e @ out \<and>
    row_step (fmt_ts (v_now v)) k (rows cfg e) (rows cfg (pending_breach cfg v e ob st)) out"
proof (cases "t_sub (v_now v) (rs_first_breach_at st) < o_duration ob")
  case True
  then show ?thesis by (simp add: pending_breach_def row_same)
next
  case False
  obtain e1 i where f: "fireAlert cfg v e (o_rule ob) (o_subject ob) (o_value ob) (o_severity ob) (o_silenced ob) = (e1, i)"
    by (cases "fireAlert cfg v e (o_rule ob) (o_subject ob) (o_value ob) (o_severity ob) (o_silenced ob)")
  have "en_out (pending_breach cfg v e ob st) = en_out e1" "rows cfg (pending_breach cfg v e ob st) = rows cfg e1"
    using f False by (simp_all add: pending_breach_def Let_def)
  with fireAlert_effect [OF f] assms show ?thesis
    by (auto simp: row_same obs_key_def intro!: row_new)
qed

lemma firing_step:
  assumes "tracked cfg e" and "st = state_of e k" and "k = obs_key ob" and "rs_fired st"
  shows "\<exists>out. en_out (keep_firing cfg v e ob st) = en_out e @ out \<and>
    row_step (fmt_ts (v_now v)) k (rows cfg e) (rows cfg (keep_firing cfg v e ob st)) out"
proof -
  have "rs_active_alert_id st \<noteq> []"
    using wf_statesD [OF tracked_wf [OF assms(1)], of k] assms(2,4) by (simp add: st_inv_def)
  note eff = keep_effect [OF refl this, of v e ob]
  obtain a where a: "rows cfg e (rs_active_alert_id st) = Some a" "alert_key a = k"
    using trackedD [OF assms(1)] assms(2,4) by blast
  have "al_id a = rs_active_alert_id st" using find_ident [OF a(1)] .
  with eff a show ?thesis
    by (elim disjE exE conjE)
       (auto simp: row_same Let_def may_escalate_def intro!: row_upd)
qed

lemma updateState_step:
  assumes tr: "tracked cfg e"
  shows "\<exists>out. en_out (updateState cfg v e ob) = en_out e @ out \<and>
    row_step (fmt_ts (v_now v)) (obs_key ob) (rows cfg e) (rows cfg (updateState cfg v e ob)) out"
proof -
  let ?k = "obs_key ob"
  let ?e0 = "put_state e ?k (state_of e ?k)"
  have tr0: "tracked cfg ?e0" and st0: "state_of e ?k = state_of ?e0 ?k"
    using tr by (simp_all only: tracked_def wf_states_def put_state_of put_state_sel) blast
  show ?thesis
  proof (cases rule: updateState_cases [of ob cfg v e])
    case stop
    then show ?thesis using stop_step [OF tr0 st0 refl, of v] by simp
  next
    case start
    then show ?thesis by (simp add: start_breach_def row_same)
  next
    case pending
    then show ?thesis using pending_step [OF refl, of v ?e0 ob "state_of e ?k"] by simp
  next
    case firing
    then show ?thesis using firing_step [OF tr0 st0 refl, of v] by simp
  qed
qed

lemma updateState_tracked:
  assumes tr: "tracked cfg e"
  shows "tracked cfg (updateState cfg v e ob)"
  unfolding tracked_def
proof (intro conjI allI impI)
  show "wf_states (updateState cfg v e ob)" by (rule updateState_wf [OF tracked_wf [OF tr]])
next
  fix k assume fired: "rs_fired (state_of (updateState cfg v e ob) k)"
  obtain out where step: "row_step (fmt_ts (v_now v)) (obs_key ob) (rows cfg e) (rows cfg (updateState cfg v e ob)) out"
    using updateState_step [OF tr] by blast
  have keep: "\<exists>a. rows cfg (updateState cfg v e ob) i = Some a \<and> alert_key a = k"
    if "rows cfg e i = Some a" "alert_key a = k" for i a
    using step that by (auto simp: row_step_def)
  show "\<exists>a. rows cfg (updateState cfg v e ob) (rs_active_alert_id (state_of (updateState cfg v e ob) k)) = Some a
      \<and> alert_key a = k"
  proof (cases "k = obs_key ob")
    case False
    with fired keep trackedD [OF tr] show ?thesis by (metis updateState_other)
  next
    case k: True
    let ?e0 = "put_state e (obs_key ob) (state_of e (obs_key ob))"
    show ?thesis
    proof (cases rule: updateState_cases [of ob cfg v e])
      case stop
      with fired have "rs_fired (state_of e k)" and "\<not> (rs_state (state_of e k) = StateWarning \<or> rs_state (state_of e k) = StateCritical)"
        by (auto simp: k state_of_def stop_states ok_state_def split: if_splits)
      with wf_statesD [OF tracked_wf [OF tr], of k] show ?thesis
        by (cases "rs_state (state_of e k)") (auto simp: st_inv_def)
    next
      case start
      with fired show ?thesis by (simp add: k state_of_upd [OF start_states])
    next
      case firing
      have "rs_active_alert_id (state_of (updateState cfg v e ob) k) = rs_active_alert_id (state_of e k)"
        using keep_state_of [of cfg v ?e0 ob "state_of e (obs_key ob)"] firing by (auto simp: k)
      moreover have "rs_fired (state_of e k)" using firing k by simp
      ultimately show ?thesis using keep trackedD [OF tr] by metis
    next
      case pending
      obtain e1 i where f: "fireAlert cfg v ?e0 (o_rule ob) (o_subject ob) (o_value ob) (o_severity ob) (o_silenced ob) = (e1, i)"
        by (cases "fireAlert cfg v ?e0 (o_rule ob) (o_subject ob) (o_value ob) (o_severity ob) (o_silenced ob)")
      have due: "\<not> t_sub (v_now v) (rs_first_breach_at (state_of e k)) < o_duration ob"
        and ne: "i \<noteq> []" and act: "rs_active_alert_id (state_of (updateState cfg v e ob) k) = i"
        using fired pending pending_own [OF f, of "state_of e k"] by (auto simp: k Let_def split: if_splits)
      have "rows cfg (updateState cfg v e ob) = rows cfg e1"
        using pending due f by (simp add: k pending_breach_def Let_def)
      with fireAlert_effect [OF f] ne act show ?thesis by (auto simp: k obs_key_def)
    qed
  qed
qed

lemma run_tracked: "tracked cfg e \<Longrightarrow> tracked cfg (run_updates cfg steps e)"
  by (induction steps arbitrary: e) (auto simp: run_updates_def intro!: updateState_tracked)

lemma seedState_tracked: "tracked cfg (seedState cfg v (NewEngine db))"
proof (cases "t_all (ec_alerts cfg) db (\<lambda>a. al_status a = ''firing'')")
  case None
  then show ?thesis by (simp add: seedState_def) (simp add: NewEngine_def tracked_New [unfolded NewEngine_def])
next
  case (Some firing)
  have one: "tracked cfg (seed_one v a e)" if "tracked cfg e" "rows cfg e (al_id a) = Some a" for a e
    using that
    by (auto simp: tracked_def seed_one_wf seed_one_def alert_key_def split: option.splits
        intro!: wf_states_put, auto simp: st_inv_def)
  have "tracked cfg (fold (seed_one v) xs e)" if "tracked cfg e" "\<forall>a \<in> set xs. rows cfg e (al_id a) = Some a" for xs e
    using that by (induction xs arbitrary: e) (simp_all add: one)
  moreover have "\<forall>a \<in> set (take 1000 firing). rows cfg (NewEngine db) (al_id a) = Some a"
    using all_memD [OF Some] by (auto simp: NewEngine_def dest: in_set_takeD)
  ultimately show ?thesis using Some by (simp add: seedState_def NewEngine_def [of db] tracked_New [unfolded NewEngine_def])
qed

end

end
