(* ===== verification/Authz.thy ===== *)
theory Authz
  imports Nexwatch_Prelude
begin

text \<open>
  Roles and the role check of the custom API (\<open>internal/hub/api/authz.go\<close>): \<open>Role\<close> with its order,
  \<open>ParseRole\<close>, \<open>RoleOf\<close> and the \<open>RequireRole\<close> middleware, and the outcome of a handler.
\<close>

section \<open>Roles\<close>

datatype Role = RoleViewer | RoleOperator | RoleAdmin

fun Role_iota :: "Role \<Rightarrow> nat" where
  "Role_iota RoleViewer = 0" | "Role_iota RoleOperator = 1" | "Role_iota RoleAdmin = 2"

instantiation Role :: linorder
begin

definition less_eq_Role :: "Role \<Rightarrow> Role \<Rightarrow> bool" where
  "less_eq_Role a b \<longleftrightarrow> Role_iota a \<le> Role_iota b"

definition less_Role :: "Role \<Rightarrow> Role \<Rightarrow> bool" where
  "less_Role a b \<longleftrightarrow> Role_iota a < Role_iota b"

instance
proof
  fix a b :: Role
  show "a \<le> b \<Longrightarrow> b \<le> a \<Longrightarrow> a = b" by (cases a; cases b; simp add: less_eq_Role_def)
qed (auto simp: less_eq_Role_def less_Role_def)

end

fun Role_String :: "Role \<Rightarrow> string" where
  "Role_String RoleAdmin = ''admin''"
| "Role_String RoleOperator = ''operator''"
| "Role_String RoleViewer = ''viewer''"

definition ParseRole :: "string \<Rightarrow> Role" where
  "ParseRole s = (if s = ''admin'' then RoleAdmin else if s = ''operator'' then RoleOperator else RoleViewer)"

text \<open>An auth record: its collection, whether PocketBase calls it a superuser, and the fields read.\<close>

record auth =
  au_id :: string
  au_collection :: string
  au_superuser :: bool
  au_role :: string
  au_email :: string

definition RoleOfRecord :: "auth option \<Rightarrow> Role" where
  "RoleOfRecord record =
     (case record of
        None \<Rightarrow> RoleViewer
      | Some r \<Rightarrow>
          if au_superuser r then RoleAdmin
          else if au_collection r = ''users'' then ParseRole (au_role r)
          else RoleViewer)"

text \<open>The request event is absent, or carries an optional auth record.\<close>

definition RoleOf :: "auth option option \<Rightarrow> Role" where
  "RoleOf e = (case e of None \<Rightarrow> RoleViewer | Some None \<Rightarrow> RoleViewer | Some (Some a) \<Rightarrow> RoleOfRecord (Some a))"

section \<open>Handlers\<close>

text \<open>
  What a handler does to the client: the statuses written, in order, whether it returned an error,
  whether it panicked, and the audit entries (action, target id) it recorded.
\<close>

record http_out =
  hx_status :: "int list"
  hx_err :: bool
  hx_panic :: bool
  hx_audit :: "(string \<times> string) list"

definition reply :: "bool \<Rightarrow> int \<Rightarrow> http_out" where
  "reply write_err code = \<lparr>hx_status = [code], hx_err = write_err, hx_panic = False, hx_audit = []\<rparr>"

definition RequireRole :: "Role \<Rightarrow> auth option \<Rightarrow> 'db \<Rightarrow> ('db \<Rightarrow> 'db \<times> http_out) \<Rightarrow> 'db \<times> http_out" where
  "RequireRole min_role auth db nxt =
     (if RoleOf (Some auth) < min_role
      then (db, \<lparr>hx_status = [403], hx_err = True, hx_panic = False, hx_audit = []\<rparr>)
      else nxt db)"

lemma ParseRole_String [simp]: "ParseRole (Role_String r) = r"
  by (cases r) (simp_all add: ParseRole_def)

lemma RoleOf_above_viewer:
  "RoleViewer < RoleOf e \<Longrightarrow> \<exists>a. e = Some (Some a) \<and>
     (au_superuser a \<or> au_collection a = ''users'' \<and> au_role a \<in> {''operator'', ''admin''})"
  by (auto simp: RoleOf_def RoleOfRecord_def ParseRole_def less_Role_def split: option.splits if_splits)

end
