(* ===== verification/Alert_Routes.thy ===== *)
theory Alert_Routes
  imports Authz Alert_Eval
begin

text \<open>
  The operator's side of the alerts (\<open>internal/hub/api/alerts_routes.go\<close>): acknowledging and
  un-acknowledging an alert row, and the view of the active silences with what they cover.
  \<open>e.JSON\<close> writes a response and returns the error of writing it (\<open>write_err\<close>).
\<close>

section \<open>Acknowledgement\<close>

definition findAlertOrNotFound ::
  "bool \<Rightarrow> ('db, alert) table \<Rightarrow> 'db \<Rightarrow> string \<Rightarrow> alert option \<times> bool \<times> int list" where
  "findAlertOrNotFound write_err T db alertID =
     (if alertID = [] then (None, write_err, [400])
      else case t_find T db alertID of
        None \<Rightarrow> (None, write_err, [404])
      | Some alert \<Rightarrow> (Some alert, False, []))"

definition ack_by :: "auth option \<Rightarrow> string" where
  "ack_by auth =
     (case auth of
        None \<Rightarrow> []
      | Some a \<Rightarrow> if au_email a \<noteq> [] then au_id a @ '' ('' @ au_email a @ '')'' else au_id a)"

definition handleAckAlert ::
  "bool \<Rightarrow> ('db, alert) table \<Rightarrow> 'db \<Rightarrow> string \<Rightarrow> auth option \<Rightarrow> time \<Rightarrow> 'db \<times> http_out" where
  "handleAckAlert write_err T db alertID auth now =
     (case findAlertOrNotFound write_err T db alertID of
        (_, True, codes) \<Rightarrow> (db, \<lparr>hx_status = codes, hx_err = True, hx_panic = False, hx_audit = []\<rparr>)
      | (None, False, codes) \<Rightarrow> (db, \<lparr>hx_status = codes, hx_err = False, hx_panic = True, hx_audit = []\<rparr>)
      | (Some alert0, False, codes) \<Rightarrow>
          let alert = alert0\<lparr>al_acknowledged_at := fmt_ts now, al_acknowledged_by := ack_by auth\<rparr>
          in case t_save T db alert of
               (db', None) \<Rightarrow> (db', reply write_err 500)
             | (db', Some _) \<Rightarrow> (db', reply write_err 200\<lparr>hx_audit := [(''alert.ack'', al_id alert)]\<rparr>))"

definition handleUnackAlert ::
  "bool \<Rightarrow> ('db, alert) table \<Rightarrow> 'db \<Rightarrow> string \<Rightarrow> 'db \<times> http_out" where
  "handleUnackAlert write_err T db alertID =
     (case findAlertOrNotFound write_err T db alertID of
        (_, True, codes) \<Rightarrow> (db, \<lparr>hx_status = codes, hx_err = True, hx_panic = False, hx_audit = []\<rparr>)
      | (None, False, codes) \<Rightarrow> (db, \<lparr>hx_status = codes, hx_err = False, hx_panic = True, hx_audit = []\<rparr>)
      | (Some alert0, False, codes) \<Rightarrow>
          let alert = alert0\<lparr>al_acknowledged_at := 0, al_acknowledged_by := []\<rparr>
          in case t_save T db alert of
               (db', None) \<Rightarrow> (db', reply write_err 500)
             | (db', Some _) \<Rightarrow> (db', reply write_err 200\<lparr>hx_audit := [(''alert.unack'', al_id alert)]\<rparr>))"

text \<open>The two routes, behind \<open>RequireRole(RoleOperator)\<close>.\<close>

definition ack_route where
  "ack_route write_err T db alertID auth now =
     RequireRole RoleOperator auth db (\<lambda>db. handleAckAlert write_err T db alertID auth now)"

definition unack_route where
  "unack_route write_err T db alertID auth =
     RequireRole RoleOperator auth db (\<lambda>db. handleUnackAlert write_err T db alertID)"

section \<open>Active silences\<close>

text \<open>
  Each active silence with the ids of the agents and checks it covers; \<open>order\<close> stands for the sort
  by descending start that the query asks of PocketBase.
\<close>

definition handleActiveSilences ::
  "(silence list \<Rightarrow> silence list) \<Rightarrow> hub_view \<Rightarrow> (silence \<times> string list \<times> string list) list option" where
  "handleActiveSilences order v =
     (let now = fmt_ts (v_now v) in
      case map_option (\<lambda>rs. take 200 (order (filter (\<lambda>s. si_starts_at s \<le> now \<and> now < si_ends_at s) rs)))
        (v_silences v) of
        None \<Rightarrow> None
      | Some silences \<Rightarrow>
          (case query (\<lambda>a. ag_id a \<noteq> []) 500 (v_agents v) of
             None \<Rightarrow> None
           | Some agents \<Rightarrow>
               (case query (\<lambda>c. ck_id c \<noteq> []) 500 (v_checks v) of
                  None \<Rightarrow> None
                | Some checks \<Rightarrow>
                    Some (map (\<lambda>s. (s, map ag_id (filter (\<lambda>a. SilenceMatchesAgent a s) agents),
                                       map ck_id (filter (\<lambda>c. SilenceMatchesCheck c s) checks))) silences))))"

section \<open>What an acknowledgement changes\<close>

context record_table
begin

lemma find_write:
  assumes "t_find T db i = Some r0" and "t_save T db r = (db', res)" and "ident r = i"
  shows "t_find T db' = t_find T db \<or> t_find T db' = (t_find T db)(i \<mapsto> r)"
proof (cases res)
  case None
  with assms(2) save_err show ?thesis by blast
next
  case (Some j)
  with assms save_existing [of db i r0 r db' j] show ?thesis by blast
qed

end

text \<open>Only the acknowledgement fields of the addressed row can change.\<close>

definition ack_only :: "(string \<Rightarrow> alert option) \<Rightarrow> (string \<Rightarrow> alert option) \<Rightarrow> bool" where
  "ack_only old new \<longleftrightarrow> new = old \<or>
     (\<exists>i a t who. old i = Some a \<and>
        new = old(i \<mapsto> a\<lparr>al_acknowledged_at := t, al_acknowledged_by := who\<rparr>))"

lemma ack_only_write:
  assumes T: "record_table T al_id set_al_id" and a: "t_find T db i = Some a"
    and s: "t_save T db (a\<lparr>al_acknowledged_at := t, al_acknowledged_by := who\<rparr>) = (db', res)"
  shows "ack_only (t_find T db) (t_find T db')"
proof -
  have "al_id (a\<lparr>al_acknowledged_at := t, al_acknowledged_by := who\<rparr>) = i"
    using record_table.find_ident [OF T a] by simp
  from record_table.find_write [OF T a s this] a show ?thesis unfolding ack_only_def by blast
qed

lemma ack_route_effect:
  assumes "record_table T al_id set_al_id" and "ack_route we T db i auth now = (db', out)"
  shows "ack_only (t_find T db) (t_find T db')"
  using assms(2)
  by (auto simp: ack_route_def RequireRole_def handleAckAlert_def findAlertOrNotFound_def Let_def ack_only_def [of x x for x]
      split: if_splits option.splits prod.splits bool.splits intro: ack_only_write [OF assms(1)])

lemma unack_route_effect:
  assumes "record_table T al_id set_al_id" and "unack_route we T db i auth = (db', out)"
  shows "ack_only (t_find T db) (t_find T db')"
  using assms(2)
  by (auto simp: unack_route_def RequireRole_def handleUnackAlert_def findAlertOrNotFound_def Let_def ack_only_def [of x x for x]
      split: if_splits option.splits prod.splits bool.splits intro: ack_only_write [OF assms(1)])

end
