(* ===== verification/Alert_Life.thy ===== *)
theory Alert_Life
  imports Alert_Tracking Alert_Routes
begin

text \<open>
  The life of the alerts collection under the engine, the operators and restarts, as a step relation,
  and the properties of the alert engine stated over it and over runs of the engine.
\<close>

section \<open>The life of the collection\<close>

text \<open>
  \<open>seedState\<close> reads at most 1000 firing rows, and none when its query fails; \<open>loads_firing\<close> says that
  it gets them all. The boolean of \<open>hub_life\<close> records whether that was so at every start: the steps
  themselves are taken whether or not it was.
\<close>

definition loads_firing :: "'db engine_cfg \<Rightarrow> 'db \<Rightarrow> bool" where
  "loads_firing cfg db \<longleftrightarrow>
     (case t_all (ec_alerts cfg) db (\<lambda>a. al_status a = ''firing'') of
        None \<Rightarrow> False | Some firing \<Rightarrow> length firing \<le> 1000)"

inductive hub_life :: "'db engine_cfg \<Rightarrow> bool \<Rightarrow> 'db engine \<Rightarrow> bool" for cfg where
  boot: "hub_life cfg (seedable cfg db) (seedState cfg v (NewEngine db))"
| evaluation: "hub_life cfg loaded e \<Longrightarrow> r_id (o_rule ob) \<noteq> [] \<Longrightarrow> o_subject ob \<noteq> [] \<Longrightarrow>
    hub_life cfg loaded (updateState cfg v e ob)"
| acknowledge: "hub_life cfg loaded e \<Longrightarrow> ack_route we (ec_alerts cfg) (en_db e) i auth now = (db', out) \<Longrightarrow>
    hub_life cfg loaded (e\<lparr>en_db := db'\<rparr>)"
| unacknowledge: "hub_life cfg loaded e \<Longrightarrow> unack_route we (ec_alerts cfg) (en_db e) i auth = (db', out) \<Longrightarrow>
    hub_life cfg loaded (e\<lparr>en_db := db'\<rparr>)"
| restart: "hub_life cfg loaded e \<Longrightarrow>
    hub_life cfg (loaded \<and> loads_firing cfg (en_db e)) (seedState cfg v (NewEngine (en_db e)))"

text \<open>What holds in every reachable state.\<close>

definition sound :: "'db engine_cfg \<Rightarrow> 'db engine \<Rightarrow> bool" where
  "sound cfg e \<longleftrightarrow> tracked cfg e \<and> firing_owned cfg e \<and>
     (\<forall>i a. rows cfg e i = Some a \<longrightarrow> al_status a = ''firing'' \<longrightarrow> al_rule_id a \<noteq> [] \<and> alert_subject a \<noteq> [])"

lemma alert_key_ack [simp]: "alert_key (a\<lparr>al_acknowledged_at := t, al_acknowledged_by := w\<rparr>) = alert_key a"
  by (simp add: alert_key_def alert_subject_def)

lemma alert_subject_ack [simp]:
  "alert_subject (a\<lparr>al_acknowledged_at := t, al_acknowledged_by := w\<rparr>) = alert_subject a"
  by (simp add: alert_subject_def)

lemma state_of_db [simp]: "state_of (e\<lparr>en_db := db\<rparr>) = state_of e"
  by (rule ext) (simp add: state_of_def)

lemma sound_ack:
  assumes "sound cfg e" and "ack_only (rows cfg e) (rows cfg (e\<lparr>en_db := db\<rparr>))"
  shows "sound cfg (e\<lparr>en_db := db\<rparr>)"
proof -
  have old_row: "\<exists>b. rows cfg e i = Some b \<and> alert_key b = alert_key a \<and> al_status b = al_status a \<and>
      al_rule_id b = al_rule_id a \<and> alert_subject b = alert_subject a"
    if "rows cfg (e\<lparr>en_db := db\<rparr>) i = Some a" for i a
    using assms(2) that by (fastforce simp: ack_only_def split: if_splits)
  have new_row: "\<exists>b. rows cfg (e\<lparr>en_db := db\<rparr>) i = Some b \<and> alert_key b = alert_key a"
    if "rows cfg e i = Some a" for i a
    using assms(2) that by (fastforce simp: ack_only_def split: if_splits)
  have "tracked cfg (e\<lparr>en_db := db\<rparr>)"
    using assms(1) new_row unfolding sound_def tracked_def wf_states_def state_of_db by metis
  moreover have "firing_owned cfg (e\<lparr>en_db := db\<rparr>)"
    using assms(1) old_row unfolding sound_def firing_owned_def state_of_db by metis
  ultimately show ?thesis using assms(1) old_row unfolding sound_def by metis
qed

context alert_engine
begin

lemma sound_boot: "seedable cfg db \<Longrightarrow> sound cfg (seedState cfg v (NewEngine db))"
  using seedState_owned seedState_tracked all_memI
  by (fastforce simp: sound_def seedable_def)

lemma sound_update:
  assumes e: "sound cfg e" and ok: "resolves_succeed cfg" and "r_id (o_rule ob) \<noteq> []" "o_subject ob \<noteq> []"
  shows "sound cfg (updateState cfg v e ob)"
proof -
  have tr: "tracked cfg e" and own: "firing_owned cfg e" using e by (simp_all add: sound_def)
  obtain out where step: "row_step (fmt_ts (v_now v)) (obs_key ob) (rows cfg e) (rows cfg (updateState cfg v e ob)) out"
    using updateState_step [OF tr] by blast
  have "al_rule_id a \<noteq> [] \<and> alert_subject a \<noteq> []"
    if "rows cfg (updateState cfg v e ob) i = Some a" "al_status a = ''firing''" for i a
  proof (cases "rows cfg e i = Some a")
    case True
    with e that(2) show ?thesis unfolding sound_def by blast
  next
    case False
    from row_step_new [OF step that(1) this] have "alert_key a = obs_key ob" .
    with assms(3,4) show ?thesis by (simp add: alert_key_def obs_key_def)
  qed
  with updateState_tracked [OF tr] updateState_owned [OF own tracked_wf [OF tr] ok] show ?thesis
    unfolding sound_def by blast
qed

lemma sound_seedable:
  assumes e: "sound cfg e" and all: "t_all (ec_alerts cfg) (en_db e) (\<lambda>a. al_status a = ''firing'') = Some firing"
    and len: "length firing \<le> 1000"
  shows "seedable cfg (en_db e)"
proof -
  have mem: "rows cfg e (al_id a) = Some a \<and> al_status a = ''firing''" if "a \<in> set firing" for a
    using all_memD [OF all that] .
  have own: "firing_owned cfg e" using e by (simp only: sound_def)
  have "al_id a = al_id b" if "a \<in> set firing" "b \<in> set firing" "alert_key a = alert_key b" for a b
    using firing_owned_unique [OF own] mem [OF that(1)] mem [OF that(2)] that(3) by blast
  then have "inj_on alert_key (set firing)"
    using mem by (intro inj_onI) (metis option.inject)
  then have "distinct (map alert_key firing)"
    using all_distinct [OF all] by (simp add: distinct_map)
  moreover have "\<forall>a \<in> set firing. al_rule_id a \<noteq> [] \<and> alert_subject a \<noteq> []"
    using e mem unfolding sound_def by blast
  ultimately show ?thesis using all len unfolding seedable_def by blast
qed

lemma hub_life_sound:
  assumes "hub_life cfg loaded e" and "resolves_succeed cfg" and "loaded"
  shows "sound cfg e"
  using assms(1,3)
proof (induction rule: hub_life.induct)
  case (boot db v)
  then show ?case by (rule sound_boot)
next
  case (evaluation loaded e ob v)
  then show ?case by (intro sound_update assms(2))
next
  case (acknowledge loaded e we i auth now db' out)
  then show ?case using sound_ack ack_route_effect [OF record_table_axioms acknowledge.hyps(2)] by fastforce
next
  case (unacknowledge loaded e we i auth db' out)
  then show ?case using sound_ack unack_route_effect [OF record_table_axioms unacknowledge.hyps(2)] by fastforce
next
  case (restart loaded e v)
  then obtain firing where "t_all (ec_alerts cfg) (en_db e) (\<lambda>a. al_status a = ''firing'') = Some firing"
      "length firing \<le> 1000"
    by (auto simp: loads_firing_def split: option.splits)
  with restart show ?case by (blast intro: sound_boot sound_seedable)
qed

end

end
