(* ===== verification/Alert_Timing.thy ===== *)
theory Alert_Timing
  imports Alert_Life
begin

text \<open>
  Runs of the engine over time: an incident needs a breach that lasted for the rule's duration, the
  notifications of one incident keep the cooldown apart, and an alert is escalated once.
\<close>

lemma run_snoc: "run_updates cfg (steps @ [(v, ob)]) e = updateState cfg v (run_updates cfg steps e) ob"
  by (simp add: run_updates_def)

lemma run_Cons: "run_updates cfg ((v, ob) # steps) e = run_updates cfg steps (updateState cfg v e ob)"
  by (simp add: run_updates_def)

section \<open>Grace period\<close>

text \<open>The key has an incident: its state fired, or a row or a callback mentions it.\<close>

definition known :: "'db engine_cfg \<Rightarrow> 'db engine \<Rightarrow> ruleAgentKey \<Rightarrow> bool" where
  "known cfg e k \<longleftrightarrow> rs_fired (state_of e k) \<or> (\<exists>i a. rows cfg e i = Some a \<and> alert_key a = k) \<or>
     (\<exists>s \<in> set (en_out e). alert_key (sent_alert s) = k)"

definition only_breaches :: "ruleAgentKey \<Rightarrow> (hub_view \<times> observation) list \<Rightarrow> bool" where
  "only_breaches k steps \<longleftrightarrow> (\<forall>(v, ob) \<in> set steps. obs_key ob = k \<longrightarrow> o_breaching ob)"

definition graced :: "ruleAgentKey \<Rightarrow> (hub_view \<times> observation) list \<Rightarrow> bool" where
  "graced k steps \<longleftrightarrow> (\<exists>pre v0 ob0 mid v1 ob1 post.
     steps = pre @ (v0, ob0) # mid @ (v1, ob1) # post \<and> obs_key ob0 = k \<and> obs_key ob1 = k \<and>
     only_breaches k ((v0, ob0) # mid @ [(v1, ob1)]) \<and> o_duration ob1 \<le> t_sub (v_now v1) (v_now v0))"

definition waiting :: "ruleAgentKey \<Rightarrow> (hub_view \<times> observation) list \<Rightarrow> time \<Rightarrow> bool" where
  "waiting k steps t \<longleftrightarrow> (\<exists>pre v0 ob0 mid. steps = pre @ (v0, ob0) # mid \<and> obs_key ob0 = k \<and>
     only_breaches k ((v0, ob0) # mid) \<and> t = v_now v0)"

lemma graced_snoc: "graced k steps \<Longrightarrow> graced k (steps @ [x])"
  unfolding graced_def by (elim exE conjE) (rule exI, rule exI, rule exI, rule exI, rule exI, rule exI, rule exI, auto)

lemma waiting_snoc: "waiting k steps t \<Longrightarrow> (obs_key ob = k \<Longrightarrow> o_breaching ob) \<Longrightarrow> waiting k (steps @ [(v, ob)]) t"
  unfolding waiting_def only_breaches_def
  by (elim exE conjE) (rule exI, rule exI, rule exI, rule exI, auto)

lemma waiting_new: "obs_key ob = k \<Longrightarrow> o_breaching ob \<Longrightarrow> waiting k (steps @ [(v, ob)]) (v_now v)"
  unfolding waiting_def only_breaches_def by force

lemma waiting_due:
  "waiting k steps t \<Longrightarrow> obs_key ob = k \<Longrightarrow> o_breaching ob \<Longrightarrow> o_duration ob \<le> t_sub (v_now v) t \<Longrightarrow>
   graced k (steps @ [(v, ob)])"
  unfolding waiting_def graced_def only_breaches_def
  by (elim exE conjE) (rule exI, rule exI, rule exI, rule exI, rule exI, rule exI, rule exI [of _ "[]"], auto)

context alert_engine
begin

lemma not_known_unfired: "wf_states e \<Longrightarrow> \<not> known cfg e k \<Longrightarrow>
    \<not> rs_fired (state_of e k) \<and> rs_active_alert_id (state_of e k) = []"
  using wf_statesD [of e k] by (auto simp: known_def st_inv_def)

lemma known_other:
  assumes "tracked cfg e" and "obs_key ob \<noteq> k" and "\<not> known cfg e k"
  shows "\<not> known cfg (updateState cfg v e ob) k"
proof -
  obtain out where out: "en_out (updateState cfg v e ob) = en_out e @ out"
    and step: "row_step (fmt_ts (v_now v)) (obs_key ob) (rows cfg e) (rows cfg (updateState cfg v e ob)) out"
    using updateState_step [OF assms(1)] by blast
  have "\<not> rs_fired (state_of (updateState cfg v e ob) k)"
    using assms(2,3) updateState_other [of k ob cfg v e] by (auto simp: known_def)
  moreover have "alert_key a \<noteq> k" if "rows cfg (updateState cfg v e ob) i = Some a" for i a
    using row_step_new [OF step that] assms(2,3) unfolding known_def by metis
  moreover have "alert_key (sent_alert s) \<noteq> k" if "s \<in> set (en_out (updateState cfg v e ob))" for s
    using row_step_out [OF step] that assms(2,3) unfolding known_def out by auto
  ultimately show ?thesis unfolding known_def by blast
qed

lemma known_same:
  "rows cfg e' = rows cfg e \<Longrightarrow> en_out e' = en_out e \<Longrightarrow> \<not> rs_fired (state_of e' k) \<Longrightarrow>
   \<not> known cfg e k \<Longrightarrow> \<not> known cfg e' k"
  unfolding known_def by auto

lemma grace_step:
  fixes v ob
  assumes tr: "tracked cfg e" and nk: "\<not> known cfg e k"
    and wait: "rs_state (state_of e k) = StateWarning \<or> rs_state (state_of e k) = StateCritical \<Longrightarrow>
      waiting k steps (rs_first_breach_at (state_of e k))"
  defines "e' \<equiv> updateState cfg v e ob"
  shows "graced k (steps @ [(v, ob)]) \<or> \<not> known cfg e' k \<and>
    (rs_state (state_of e' k) = StateWarning \<or> rs_state (state_of e' k) = StateCritical \<longrightarrow>
     waiting k (steps @ [(v, ob)]) (rs_first_breach_at (state_of e' k)))"
proof (cases "obs_key ob = k")
  case False
  with known_other [OF tr False nk] wait waiting_snoc show ?thesis
    unfolding e'_def by (metis updateState_other)
next
  case k: True
  note un = not_known_unfired [OF tracked_wf [OF tr] nk]
  let ?e0 = "put_state e (obs_key ob) (state_of e (obs_key ob))"
  show ?thesis
  proof (cases rule: updateState_cases [of ob cfg v e])
    case stop
    then have st: "e' = put_state ?e0 k ok_state \<or>
        e' = ?e0 \<and> rs_state (state_of e k) \<noteq> StateWarning \<and> rs_state (state_of e k) \<noteq> StateCritical"
      using un by (auto simp: e'_def stop_breach_def k)
    then have "rows cfg e' = rows cfg e \<and> en_out e' = en_out e \<and> \<not> rs_fired (state_of e' k) \<and>
        rs_state (state_of e' k) \<noteq> StateWarning \<and> rs_state (state_of e' k) \<noteq> StateCritical"
      using un k by (auto simp: ok_state_def)
    with known_same [of e' e k] nk show ?thesis by blast
  next
    case start
    then have st: "e' = put_state ?e0 k ((state_of e k)\<lparr>rs_first_breach_at := v_now v, rs_state := StateWarning,
        rs_fired := False, rs_silenced := False\<rparr>)"
      by (simp add: e'_def start_breach_def k)
    with known_same [of e' e k] nk waiting_new [OF k start(1), of steps v] show ?thesis by simp
  next
    case pending
    then have w: "waiting k steps (rs_first_breach_at (state_of e k))" using wait k by simp
    show ?thesis
    proof (cases "t_sub (v_now v) (rs_first_breach_at (state_of e k)) < o_duration ob")
      case True
      then have "e' = ?e0" using pending by (simp add: e'_def pending_breach_def k)
      then show ?thesis using known_same [of e' e k] nk un waiting_snoc [OF w, of ob v] pending k by simp
    next
      case False
      with waiting_due [OF w k pending(1), of v] show ?thesis by simp
    qed
  next
    case firing
    with un k show ?thesis by simp
  qed
qed

lemma run_grace:
  assumes tr: "tracked cfg e" and ok: "state_of e k = ok_state" and nk: "\<not> known cfg e k"
  shows "graced k steps \<or> \<not> known cfg (run_updates cfg steps e) k \<and>
    (rs_state (state_of (run_updates cfg steps e) k) = StateWarning \<or>
     rs_state (state_of (run_updates cfg steps e) k) = StateCritical \<longrightarrow>
     waiting k steps (rs_first_breach_at (state_of (run_updates cfg steps e) k)))"
proof (induction steps rule: rev_induct)
  case Nil
  then show ?case using ok nk by (simp add: run_updates_def ok_state_def)
next
  case (snoc x steps)
  obtain v ob where x: "x = (v, ob)" by (cases x)
  show ?case
  proof (cases "graced k steps")
    case True
    then show ?thesis using graced_snoc by blast
  next
    case False
    with snoc.IH have "\<not> known cfg (run_updates cfg steps e) k" and
      "rs_state (state_of (run_updates cfg steps e) k) = StateWarning \<or>
       rs_state (state_of (run_updates cfg steps e) k) = StateCritical \<Longrightarrow>
       waiting k steps (rs_first_breach_at (state_of (run_updates cfg steps e) k))" by blast+
    from grace_step [OF run_tracked [OF tr] this] show ?thesis by (simp add: x run_snoc)
  qed
qed

end

section \<open>Spacing of notifications\<close>

definition notices :: "ruleAgentKey \<Rightarrow> sent list \<Rightarrow> int" where
  "notices k out = int (length (filter (\<lambda>s. \<not> is_escalate s \<and> alert_key (sent_alert s) = k) out))"

lemma notices_simps [simp]:
  "notices k [] = 0" "notices k (xs @ ys) = notices k xs + notices k ys"
  "notices k [Notify a r] = (if alert_key a = k then 1 else 0)" "notices k [Escalate a r] = 0"
  "notices k (Escalate a r # xs) = notices k xs"
  "notices k (Notify a r # xs) = (if alert_key a = k then 1 else 0) + notices k xs"
  by (simp_all add: notices_def)

definition steady :: "ruleAgentKey \<Rightarrow> time \<Rightarrow> hub_view \<times> observation \<Rightarrow> bool" where
  "steady k T = (\<lambda>(v, ob). v_now v \<noteq> 0 \<and> v_now v \<le> T \<and> (obs_key ob = k \<longrightarrow> o_breaching ob \<and> \<not> o_silenced ob))"

definition live_incident :: "ruleAgentState \<Rightarrow> time \<Rightarrow> bool" where
  "live_incident st T \<longleftrightarrow> rs_fired st \<and> \<not> rs_silenced st \<and> rs_last_notified_at st \<noteq> 0 \<and> rs_last_notified_at st \<le> T"

context alert_engine
begin

lemma keep_joint:
  assumes act: "rs_active_alert_id st = i" "i \<noteq> []"
  shows "state_of (keep_firing cfg v e ob st) = state_of e \<and> en_out (keep_firing cfg v e ob st) = en_out e \<or>
    (\<exists>a0 new. rows cfg e i = Some a0 \<and>
      state_of (keep_firing cfg v e ob st) = (state_of e)(obs_key ob := keep_state cfg v ob st a0) \<and>
      en_out (keep_firing cfg v e ob st) = en_out e @ new \<and>
      (\<forall>k. notices k new \<le> (if renotifies cfg v ob st a0 then 1 else 0)))"
proof -
  obtain e1 r where r: "refreshFiringAlert cfg v e (rs_active_alert_id st) (o_rule ob) (o_subject ob)
      (o_value ob) (o_severity ob) (o_silenced ob) = (e1, r)"
    by (cases "refreshFiringAlert cfg v e (rs_active_alert_id st) (o_rule ob) (o_subject ob)
      (o_value ob) (o_severity ob) (o_silenced ob)")
  show ?thesis
  proof (cases r)
    case None
    with r act have "keep_firing cfg v e ob st = e1" by (simp add: keep_firing_def)
    with refresh_effect [OF r] state_of_cong [of e1 e] show ?thesis by simp
  next
    case (Some a)
    with refresh_effect [OF r] act obtain a0 where a0: "rows cfg e i = Some a0"
      and ack: "al_acknowledged_at a = al_acknowledged_at a0" by auto
    have "keep_state cfg v ob st a = keep_state cfg v ob st a0" by (simp add: keep_state_def ack)
    with keep_states_Some [of cfg v e st ob e1 a] r Some act
    have "en_states (keep_firing cfg v e ob st) = (en_states e)(obs_key ob \<mapsto> keep_state cfg v ob st a0)" by simp
    from state_of_upd [OF this]
    have st: "state_of (keep_firing cfg v e ob st) = (state_of e)(obs_key ob := keep_state cfg v ob st a0)"
      by (intro ext) simp
    have "\<exists>new. en_out (keep_firing cfg v e ob st) = en_out e @ new \<and>
        (\<forall>k. notices k new \<le> (if renotifies cfg v ob st a0 then 1 else 0))"
      using keep_effect [OF act, of v e ob] a0 by (auto simp: Let_def)
    with a0 st show ?thesis by blast
  qed
qed

lemma spacing_step:
  fixes v ob
  assumes tr: "tracked cfg e" and cd: "0 < ec_cooldown cfg" "ec_cooldown cfg \<le> max_int64"
    and st: "live_incident (state_of e k) T" and s: "steady k T (v, ob)"
  defines "e' \<equiv> updateState cfg v e ob"
  shows "live_incident (state_of e' k) T \<and>
    (notices k (en_out e') - notices k (en_out e)) * ec_cooldown cfg
      \<le> rs_last_notified_at (state_of e' k) - rs_last_notified_at (state_of e k)"
proof (cases "obs_key ob = k")
  case False
  obtain out where out: "en_out e' = en_out e @ out"
    and step: "row_step (fmt_ts (v_now v)) (obs_key ob) (rows cfg e) (rows cfg e') out"
    using updateState_step [OF tr] unfolding e'_def by blast
  have "filter (\<lambda>s. \<not> is_escalate s \<and> alert_key (sent_alert s) = k) out = []"
    using row_step_out [OF step] False by (auto simp: filter_empty_conv)
  then have "notices k out = 0" by (simp add: notices_def)
  then show ?thesis using st out updateState_other [of k ob cfg v e] False by (simp add: e'_def)
next
  case k: True
  let ?st = "state_of e k"
  let ?e0 = "put_state e k ?st"
  have br: "o_breaching ob" "\<not> o_silenced ob" "v_now v \<noteq> 0" "v_now v \<le> T" and fired: "rs_fired ?st"
    and sil: "\<not> rs_silenced ?st" and last: "rs_last_notified_at ?st \<noteq> 0"
    using s st k by (auto simp: steady_def live_incident_def)
  have wf: "st_inv ?st" using tracked_wf [OF tr] by (rule wf_statesD)
  have e': "e' = keep_firing cfg v ?e0 ob ?st"
  proof (cases rule: updateState_cases [of ob cfg v e])
    case start
    with fired wf k show ?thesis by (auto simp: st_inv_def)
  qed (use br fired k in \<open>simp_all add: e'_def\<close>)
  have act: "rs_active_alert_id ?st \<noteq> []" using wf fired by (simp add: st_inv_def)
  show ?thesis
  proof (cases "state_of e' = state_of ?e0 \<and> en_out e' = en_out ?e0")
    case True
    then show ?thesis using st by simp
  next
    case False
    with keep_joint [OF refl act, of v ?e0 ob] obtain a0 new where
      j: "state_of e' = (state_of ?e0)(obs_key ob := keep_state cfg v ob ?st a0)" "en_out e' = en_out ?e0 @ new"
      and all: "\<forall>k. notices k new \<le> (if renotifies cfg v ob ?st a0 then 1 else 0)"
      unfolding e' by blast
    have st': "state_of e' k = keep_state cfg v ob ?st a0" and out: "en_out e' = en_out e @ new"
      using j by (simp_all add: k)
    have n: "notices k new \<le> (if renotifies cfg v ob ?st a0 then 1 else 0)" using all by blast
    show ?thesis
    proof (cases "renotifies cfg v ob ?st a0")
      case True
      then have "ec_cooldown cfg \<le> t_sub (v_now v) (rs_last_notified_at ?st)"
        and l': "rs_last_notified_at (state_of e' k) = v_now v"
        using sil last by (auto simp: renotifies_def st' keep_state_def)
      then have "ec_cooldown cfg \<le> v_now v - rs_last_notified_at ?st"
        using t_sub_le_iff [of "ec_cooldown cfg"] cd by (simp add: min_int64_def)
      moreover have "notices k new * ec_cooldown cfg \<le> ec_cooldown cfg"
        using n True cd by (simp add: mult_le_cancel_right1)
      ultimately show ?thesis using out l' br st by (simp add: live_incident_def st')
    next
      case False
      then have "rs_last_notified_at (state_of e' k) = rs_last_notified_at ?st"
        using br by (auto simp: renotifies_def st' keep_state_def)
      moreover have "notices k new * ec_cooldown cfg \<le> 0"
        using n False cd by (simp add: mult_le_0_iff)
      ultimately show ?thesis using out br st by (simp add: live_incident_def st')
    qed
  qed
qed

lemma run_spacing:
  assumes "tracked cfg e" and "0 < ec_cooldown cfg" and "ec_cooldown cfg \<le> max_int64"
    and "live_incident (state_of e k) T" and "\<forall>s \<in> set steps. steady k T s"
  shows "live_incident (state_of (run_updates cfg steps e) k) T \<and>
    (notices k (en_out (run_updates cfg steps e)) - notices k (en_out e)) * ec_cooldown cfg
      \<le> rs_last_notified_at (state_of (run_updates cfg steps e) k) - rs_last_notified_at (state_of e k)"
  using assms
proof (induction steps arbitrary: e)
  case Nil
  then show ?case by (simp add: run_updates_def)
next
  case (Cons x steps)
  obtain v ob where x: "x = (v, ob)" by (cases x)
  let ?e = "updateState cfg v e ob"
  note one = spacing_step [OF Cons.prems(1-4), of v ob] and tr = updateState_tracked [OF Cons.prems(1), of v ob]
  from Cons.IH [OF tr Cons.prems(2,3)] one Cons.prems(5)
  show ?case by (simp add: x run_Cons algebra_simps)
qed

end

section \<open>Escalations\<close>

definition escalations :: "sent list \<Rightarrow> sent list" where
  "escalations out = filter is_escalate out"

definition marked :: "'db engine_cfg \<Rightarrow> 'db engine \<Rightarrow> bool" where
  "marked cfg e \<longleftrightarrow> distinct (map (\<lambda>s. al_id (sent_alert s)) (escalations (en_out e))) \<and>
     (\<forall>s \<in> set (escalations (en_out e)).
        (\<exists>a. rows cfg e (al_id (sent_alert s)) = Some a \<and> al_escalated_at a \<noteq> 0) \<and>
        0 < r_escalation_after (sent_rule s) \<and> al_acknowledged_at (sent_alert s) = 0 \<and>
        \<not> al_silenced (sent_alert s))"

context alert_engine
begin

lemma marked_step:
  assumes m: "marked cfg e" and out: "en_out e' = en_out e @ out" and t: "t \<noteq> 0"
    and step: "row_step t k (rows cfg e) (rows cfg e') out"
  shows "marked cfg e'"
proof -
  have keep: "\<exists>a. rows cfg e' i = Some a \<and> al_escalated_at a \<noteq> 0"
    if "rows cfg e i = Some a0" "al_escalated_at a0 \<noteq> 0" for i a0
    using step that unfolding row_step_def by (metis fun_upd_apply option.inject)
  show ?thesis
  proof (cases "escalations out")
    case Nil
    with m keep show ?thesis unfolding marked_def by (auto simp: out escalations_def)
  next
    case (Cons s ss)
    then have "s \<in> set (filter is_escalate out)" by (simp add: escalations_def)
    then have "s \<in> set out" "is_escalate s" by auto
    with step obtain i a a0 where new: "rows cfg e' = (rows cfg e)(i \<mapsto> a)" and s: "sent_alert s = a"
      and old: "rows cfg e i = Some a0" "al_escalated_at a0 = 0" and one: "length (escalations out) \<le> 1"
      and a: "al_id a = i" "al_escalated_at a = t" "\<not> al_silenced a" "al_acknowledged_at a = 0"
        "0 < r_escalation_after (sent_rule s)"
      unfolding row_step_def escalations_def by force
    have es: "escalations (en_out e') = escalations (en_out e) @ [s]"
      using one Cons by (simp add: out escalations_def)
    have "al_id (sent_alert s') \<noteq> i" if "s' \<in> set (escalations (en_out e))" for s'
      using m that old unfolding marked_def by force
    with m keep new s a t show ?thesis unfolding marked_def es by (auto 0 3) metis
  qed
qed

lemma run_marked:
  assumes "tracked cfg e" and "marked cfg e" and "\<forall>(v, ob) \<in> set steps. fmt_ts (v_now v) \<noteq> 0"
  shows "marked cfg (run_updates cfg steps e)"
  using assms
proof (induction steps arbitrary: e)
  case (Cons x steps)
  obtain v ob where x: "x = (v, ob)" by (cases x)
  obtain out where "en_out (updateState cfg v e ob) = en_out e @ out"
    and "row_step (fmt_ts (v_now v)) (obs_key ob) (rows cfg e) (rows cfg (updateState cfg v e ob)) out"
    using updateState_step [OF Cons.prems(1)] by blast
  from marked_step [OF Cons.prems(2) this(1) _ this(2)] Cons.prems(3)
  have "marked cfg (updateState cfg v e ob)" by (simp add: x)
  from Cons.IH [OF updateState_tracked [OF Cons.prems(1)] this] Cons.prems(3) show ?case by (simp add: x run_Cons)
qed (simp add: run_updates_def)

end

end
