(* ===== verification/Alert_Claims.thy ===== *)
theory Alert_Claims
  imports Alert_Timing
begin

text \<open>
  The properties of the alert engine and of the acknowledgement routes, each with an evaluation on
  the in-memory table.
\<close>

section \<open>A collection whose writes succeed, and sample inputs\<close>

abbreviation sure_alerts :: "(alert mem, alert) table" where
  "sure_alerts \<equiv> sure_table al_id set_al_id"

definition sure_cfg :: "duration \<Rightarrow> alert mem engine_cfg" where
  "sure_cfg cooldown = (mem_cfg True True cooldown)\<lparr>ec_alerts := sure_alerts\<rparr>"

interpretation sure: record_table sure_alerts al_id set_al_id
  by (rule sure_table_contract [OF alerts.record_table_axioms])

interpretation sure_engine: alert_engine "sure_cfg cd" for cd
  by (simp add: alert_engine_def sure_cfg_def sure.record_table_axioms)

lemma mem_engine_ok: "alert_engine (mem_cfg n esc cd)"
  by (rule mem_engine.alert_engine_axioms)

lemma sure_engine_ok: "alert_engine (sure_cfg cd)"
  by (rule sure_engine.alert_engine_axioms)

lemma sure_resolves: "resolves_succeed (sure_cfg cd)"
  by (simp add: resolves_succeed_def sure_cfg_def sure_save_ok del: not_None_eq)

definition sample_view :: "time \<Rightarrow> hub_view" where
  "sample_view t = \<lparr>v_now = t, v_find_rule = (\<lambda>_. None), v_find_agent = (\<lambda>_. None), v_find_check = (\<lambda>_. None),
     v_rules = Some [], v_agents = Some [], v_checks = Some [], v_check_results = Some [], v_silences = Some [],
     v_metrics = Some [], v_logs = Some [], v_like = (\<lambda>_ _. True), v_regexp = (\<lambda>_. None),
     v_quote = (\<lambda>s. s), v_show_date = (\<lambda>_. [])\<rparr>"

definition sample_rule :: rule where
  "sample_rule = \<lparr>r_id = ''r1'', r_name = ''web'', r_metric_type = ''check_down'', r_condition = [], r_threshold = 0,
     r_duration = 60, r_severity = ''critical'', r_agent_id = [], r_check_id = ''c1'', r_enabled = True,
     r_target = [], r_target_tags = [], r_notification_channels = [], r_escalation_channels = [],
     r_escalation_after = 60\<rparr>"

definition sample_ob :: "bool \<Rightarrow> bool \<Rightarrow> observation" where
  "sample_ob breaching silenced = \<lparr>o_rule = sample_rule, o_subject = ''c1'', o_breaching = breaching, o_value = 1,
     o_severity = ''critical'', o_duration = minute, o_silenced = silenced\<rparr>"

definition sample_db :: "bool list \<Rightarrow> alert mem" where
  "sample_db faults = \<lparr>m_rows = [], m_faults = faults\<rparr>"

text \<open>One observation per entry: the minute it is taken at, whether it breaches, whether it is silenced.\<close>

definition sample_steps :: "(int \<times> bool \<times> bool) list \<Rightarrow> (hub_view \<times> observation) list" where
  "sample_steps xs = map (\<lambda>(t, b, s). (sample_view (t * minute), sample_ob b s)) xs"

lemmas sample_defs = sample_view_def sample_rule_def sample_ob_def sample_db_def sample_steps_def

lemma hub_life_run:
  assumes "hub_life cfg loaded e" and "list_all (\<lambda>(v, ob). r_id (o_rule ob) \<noteq> [] \<and> o_subject ob \<noteq> []) steps"
  shows "hub_life cfg loaded (run_updates cfg steps e)"
  using assms
  by (induction steps arbitrary: e) (auto simp: run_updates_def intro: hub_life.evaluation)

context alert_engine
begin

lemma fireAlert_saved:
  assumes f: "fireAlert cfg v e rule subject val sev sil = (e', i)" and "ec_collection cfg (en_db e)"
    and ok: "\<And>r. snd (t_save (ec_alerts cfg) (en_db e) r) \<noteq> None"
  shows "i \<noteq> []"
proof -
  have "\<exists>r db'. t_save (ec_alerts cfg) (en_db e) r = (db', None) \<or> t_save (ec_alerts cfg) (en_db e) r = (db', Some i)"
    using f assms(2) by (auto simp: fireAlert_def Let_def split: prod.splits option.splits)
  then show ?thesis using ok save_nonempty by (metis snd_conv)
qed

end

section \<open>One open incident\<close>

text \<open>C1: In every state the hub can reach by evaluations, acknowledgements and restarts, the alerts
  collection holds at most one firing row for a rule and subject, whatever creations, refreshes,
  escalations and acknowledgements fail to be saved, provided the saves that resolve a row succeed and
  every start of the hub has read all the firing rows: its query succeeded and found at most 1000.\<close>

theorem at_most_one_open_incident:
  assumes "alert_engine cfg" and "resolves_succeed cfg" and "hub_life cfg True e"
    and "t_all (ec_alerts cfg) (en_db e) (\<lambda>a. al_status a = ''firing'' \<and> alert_key a = k) = Some opened"
  shows "length opened \<le> 1"
proof -
  note rt = assms(1) [unfolded alert_engine_def]
  note mem = record_table.all_memD [OF rt assms(4)]
  have own: "firing_owned cfg e"
    using alert_engine.hub_life_sound [OF assms(1,3,2)] by (simp only: sound_def)
  have "distinct (map al_id opened)" by (rule record_table.all_distinct [OF rt assms(4)])
  moreover have "al_id a = al_id b" if "a \<in> set opened" "b \<in> set opened" for a b
    using firing_owned_unique [OF own] mem [OF that(1)] mem [OF that(2)] by metis
  ultimately show ?thesis by (rule distinct_same_key)
qed

definition sample_life :: "(int \<times> bool \<times> bool) list \<Rightarrow> alert mem engine" where
  "sample_life xs = run_updates (sure_cfg minute) (sample_steps xs)
     (seedState (sure_cfg minute) (sample_view 0) (NewEngine (sample_db [])))"

lemma sample_life_ok: "hub_life (sure_cfg minute) True (sample_life xs)"
  unfolding sample_life_def
proof (rule hub_life_run)
  have "seedable (sure_cfg minute) (sample_db [])"
    by (simp add: seedable_def sure_cfg_def sure_sel mem_table_def mem_all_def sample_db_def)
  then show "hub_life (sure_cfg minute) True (seedState (sure_cfg minute) (sample_view 0) (NewEngine (sample_db [])))"
    using hub_life.boot [of "sure_cfg minute" "sample_db []" "sample_view 0"] by simp
qed (auto simp: sample_steps_def list_all_iff sample_ob_def sample_rule_def)

theorem at_most_one_open_incident_witness:
  "\<exists>opened. t_all sure_alerts (en_db (sample_life [(1, True, False), (2, True, False), (3, False, False), (4, True, False), (6, True, False)]))
      (\<lambda>a. al_status a = ''firing'' \<and> alert_key a = (''r1'', ''c1'')) = Some opened \<and> length opened = 1 \<and> length opened \<le> 1"
proof -
  let ?e = "sample_life [(1, True, False), (2, True, False), (3, False, False), (4, True, False), (6, True, False)]"
  let ?q = "t_all sure_alerts (en_db ?e) (\<lambda>a. al_status a = ''firing'' \<and> alert_key a = (''r1'', ''c1''))"
  have "map_option length ?q = Some 1" by code_simp
  then obtain opened where q: "?q = Some opened" and n: "length opened = 1" by auto
  have "t_all (ec_alerts (sure_cfg minute)) (en_db ?e) (\<lambda>a. al_status a = ''firing'' \<and> alert_key a = (''r1'', ''c1'')) = Some opened"
    using q by (simp add: sure_cfg_def)
  from at_most_one_open_incident [OF sure_engine_ok sure_resolves sample_life_ok this] q n show ?thesis by blast
qed

text \<open>A start that cannot read the firing rows forgets them: the incident of the row that is still
  open is opened again by the next lasting breach.\<close>

definition unread_cfg :: "alert mem engine_cfg" where
  "unread_cfg = (sure_cfg minute)\<lparr>ec_alerts := sure_alerts\<lparr>t_all := (\<lambda>_ _. None)\<rparr>\<rparr>"

lemma unread_restart_duplicates:
  "(let before = run_updates unread_cfg (sample_steps [(1, True, False), (2, True, False)]) (NewEngine (sample_db []));
        again = seedState unread_cfg (sample_view (3 * minute)) (NewEngine (en_db before))
    in map (\<lambda>(i, a). (al_status a, alert_key a))
         (m_rows (en_db (run_updates unread_cfg (sample_steps [(4, True, False), (5, True, False)]) again)))) =
   [(''firing'', ''r1'', ''c1''), (''firing'', ''r1'', ''c1'')]"
  by code_simp

text \<open>A breach that has lasted opens an incident, if its row can be saved.\<close>

lemma due_breach:
  assumes "alert_engine cfg" and "ec_collection cfg (en_db e)"
    and "\<And>r. snd (t_save (ec_alerts cfg) (en_db e) r) \<noteq> None"
    and "o_breaching ob" and "\<not> rs_fired (state_of e (obs_key ob))"
    and "rs_state (state_of e (obs_key ob)) = StateWarning \<or> rs_state (state_of e (obs_key ob)) = StateCritical"
    and "o_duration ob \<le> t_sub (v_now v) (rs_first_breach_at (state_of e (obs_key ob)))"
  shows "\<exists>i a. rows cfg e i = None \<and> rows cfg (updateState cfg v e ob) = (rows cfg e)(i \<mapsto> a) \<and>
    al_status a = ''firing'' \<and> alert_key a = obs_key ob \<and>
    al_message a = buildMessage v (o_rule ob) (o_subject ob) (o_value ob) (o_severity ob) \<and>
    rs_active_alert_id (state_of (updateState cfg v e ob) (obs_key ob)) = i \<and>
    en_out (updateState cfg v e ob) =
      en_out e @ (if o_silenced ob \<or> \<not> ec_notify cfg then [] else [Notify a (o_rule ob)])"
proof -
  let ?k = "obs_key ob"
  let ?e0 = "put_state e ?k (state_of e ?k)"
  obtain e1 i where f: "fireAlert cfg v ?e0 (o_rule ob) (o_subject ob) (o_value ob) (o_severity ob) (o_silenced ob) = (e1, i)"
    by (cases "fireAlert cfg v ?e0 (o_rule ob) (o_subject ob) (o_value ob) (o_severity ob) (o_silenced ob)")
  have ne: "i \<noteq> []" using alert_engine.fireAlert_saved [OF assms(1) f] assms(2,3) by simp
  have upd: "updateState cfg v e ob = pending_breach cfg v ?e0 ob (state_of e ?k)"
    using assms(4-6) by (auto simp: updateState_def Let_def)
  have "rs_active_alert_id (state_of (updateState cfg v e ob) ?k) = i"
    using pending_own [OF f, of "state_of e ?k"] ne assms(7) by (simp add: upd)
  moreover have "rows cfg (updateState cfg v e ob) = rows cfg e1" "en_out (updateState cfg v e ob) = en_out e1"
    using assms(7) f by (simp_all add: upd pending_breach_def Let_def)
  moreover obtain a where "rows cfg e i = None" "rows cfg e1 = (rows cfg e)(i \<mapsto> a)"
      "alert_key a = (r_id (o_rule ob), o_subject ob)" "al_status a = ''firing''"
      "al_message a = buildMessage v (o_rule ob) (o_subject ob) (o_value ob) (o_severity ob)"
      "en_out e1 = en_out e @ (if o_silenced ob \<or> \<not> ec_notify cfg then [] else [Notify a (o_rule ob)])"
    using alert_engine.fireAlert_effect [OF assms(1) f] ne by auto
  ultimately show ?thesis
    by (intro exI [of _ i] exI [of _ a]) (simp add: obs_key_def)
qed

text \<open>The first breach after a reset only starts the clock.\<close>

lemma first_breach:
  assumes "state_of e (obs_key ob) = ok_state" and "o_breaching ob"
  shows "en_db (updateState cfg v e ob) = en_db e \<and> \<not> rs_fired (state_of (updateState cfg v e ob) (obs_key ob)) \<and>
    rs_state (state_of (updateState cfg v e ob) (obs_key ob)) = StateWarning \<and>
    rs_first_breach_at (state_of (updateState cfg v e ob) (obs_key ob)) = v_now v"
  using assms by (simp add: updateState_def start_breach_def put_state_def state_of_def ok_state_def)

text \<open>C2: When the save that resolves an incident fails, the engine forgets the incident all the same:
  the row stays firing, nobody is told and the state is reset. The next breach that lasts for the rule's
  duration then opens a second firing row for the same rule and subject, if that row can be saved.\<close>

theorem failed_resolve_orphans_row:
  assumes "alert_engine cfg" and "tracked cfg e" and "rs_fired (state_of e (obs_key ob))"
    and "\<not> o_breaching ob"
    and "rows cfg e (rs_active_alert_id (state_of e (obs_key ob))) = Some a" and "al_status a = ''firing''"
    and "snd (t_save (ec_alerts cfg) (en_db e)
      (a\<lparr>al_status := ''resolved'', al_resolved_at := fmt_ts (v_now v)\<rparr>)) = None"
    and "obs_key ob1 = obs_key ob" and "obs_key ob2 = obs_key ob" and "o_breaching ob1" and "o_breaching ob2"
    and "o_duration ob2 \<le> t_sub (v_now v2) (v_now v1)"
    and "ec_collection cfg (en_db (updateState cfg v e ob))"
    and "\<And>r. snd (t_save (ec_alerts cfg) (en_db (updateState cfg v e ob)) r) \<noteq> None"
  shows "rows cfg (updateState cfg v e ob) = rows cfg e \<and> en_out (updateState cfg v e ob) = en_out e \<and>
    state_of (updateState cfg v e ob) (obs_key ob) = ok_state \<and>
    (\<exists>i j b. i \<noteq> j \<and>
       rows cfg (run_updates cfg [(v, ob), (v1, ob1), (v2, ob2)] e) i = Some a \<and>
       rows cfg (run_updates cfg [(v, ob), (v1, ob1), (v2, ob2)] e) j = Some b \<and>
       al_status b = ''firing'' \<and> alert_key a = obs_key ob \<and> alert_key b = obs_key ob)"
proof -
  let ?st = "state_of e (obs_key ob)" and ?a = "a\<lparr>al_status := ''resolved'', al_resolved_at := fmt_ts (v_now v)\<rparr>"
  let ?e1 = "updateState cfg v e ob" and ?e2 = "updateState cfg v1 (updateState cfg v e ob) ob1"
  obtain db' where s: "t_save (ec_alerts cfg) (en_db e) ?a = (db', None)"
    using assms(7) by (cases "t_save (ec_alerts cfg) (en_db e) ?a") auto
  have inv: "st_inv ?st" using tracked_wf [OF assms(2)] by (rule wf_statesD)
  then have "rs_state ?st = StateWarning \<or> rs_state ?st = StateCritical" "rs_active_alert_id ?st \<noteq> []"
    using assms(3) by (cases "rs_state ?st"; simp add: st_inv_def)+
  then have reset: "rows cfg ?e1 = rows cfg e \<and> en_out ?e1 = en_out e \<and> state_of ?e1 (obs_key ob) = ok_state"
    using assms(4,5) s record_table.save_err [OF assms(1) [unfolded alert_engine_def] s]
    by (simp add: updateState_def stop_breach_def resolveAlert_def Let_def)
  have clock: "en_db ?e2 = en_db ?e1" "\<not> rs_fired (state_of ?e2 (obs_key ob2))"
      "rs_state (state_of ?e2 (obs_key ob2)) = StateWarning" "rs_first_breach_at (state_of ?e2 (obs_key ob2)) = v_now v1"
    using first_breach [of ?e1 ob1 cfg v1] reset assms(8-10) by simp_all
  obtain j b where j: "rows cfg ?e2 j = None" "rows cfg (updateState cfg v2 ?e2 ob2) = (rows cfg ?e2)(j \<mapsto> b)"
      "al_status b = ''firing''" "alert_key b = obs_key ob2"
    using due_breach [OF assms(1), of ?e2 ob2 v2] clock assms(11-14) by auto
  have same: "rows cfg ?e2 = rows cfg e" using clock(1) reset by simp
  have "alert_key a = obs_key ob" using trackedD [OF assms(2,3)] assms(5) by simp
  then show ?thesis using reset j same assms(5,9)
    by (intro conjI exI [of _ "rs_active_alert_id ?st"] exI [of _ j] exI [of _ b]) (auto simp: run_updates_def)
qed

theorem failed_resolve_orphans_row_witness:
  "\<exists>i j a b. i \<noteq> j \<and>
     rows (mem_cfg True True minute) (run_updates (mem_cfg True True minute)
       (sample_steps [(3, False, False), (4, True, False), (6, True, False)])
       (run_updates (mem_cfg True True minute) (sample_steps [(1, True, False), (2, True, False)])
         (NewEngine (sample_db [False, True])))) i = Some a \<and>
     rows (mem_cfg True True minute) (run_updates (mem_cfg True True minute)
       (sample_steps [(3, False, False), (4, True, False), (6, True, False)])
       (run_updates (mem_cfg True True minute) (sample_steps [(1, True, False), (2, True, False)])
         (NewEngine (sample_db [False, True])))) j = Some b \<and>
     alert_key a = (''r1'', ''c1'') \<and> al_status b = ''firing'' \<and> alert_key b = (''r1'', ''c1'')"
proof -
  let ?c = "mem_cfg True True minute"
  let ?e = "run_updates ?c (sample_steps [(1, True, False), (2, True, False)]) (NewEngine (sample_db [False, True]))"
  let ?off = "sample_ob False False" and ?on = "sample_ob True False"
  have key: "obs_key ?off = (''r1'', ''c1'')" "obs_key ?on = obs_key ?off" by code_simp+
  have tr: "tracked ?c ?e" by (rule mem_engine.run_tracked) simp
  have fired: "rs_fired (state_of ?e (obs_key ?off))" by code_simp
  have br: "\<not> o_breaching ?off" "o_breaching ?on" by (simp_all add: sample_ob_def)
  obtain a where a: "rows ?c ?e (rs_active_alert_id (state_of ?e (obs_key ?off))) = Some a"
    using trackedD [OF tr fired] by blast
  have "map_option al_status (rows ?c ?e (rs_active_alert_id (state_of ?e (obs_key ?off)))) = Some ''firing''" by code_simp
  with a have st: "al_status a = ''firing''" by simp
  have "m_faults (en_db ?e) = [True]" by code_simp
  then have s: "snd (t_save (ec_alerts ?c) (en_db ?e) b) = None" for b
    by (simp add: mem_cfg_def mem_table_def mem_save_def)
  have "m_faults (en_db (updateState ?c (sample_view (3 * minute)) ?e ?off)) = []" by code_simp
  then have ok: "snd (t_save (ec_alerts ?c) (en_db (updateState ?c (sample_view (3 * minute)) ?e ?off)) b) \<noteq> None" for b
    by (simp add: mem_cfg_def mem_table_def mem_save_def Let_def)
  have col: "ec_collection ?c (en_db (updateState ?c (sample_view (3 * minute)) ?e ?off))" by (simp add: mem_cfg_def)
  have due: "o_duration ?on \<le> t_sub (v_now (sample_view (6 * minute))) (v_now (sample_view (4 * minute)))" by code_simp
  have steps: "sample_steps [(3, False, False), (4, True, False), (6, True, False)] =
      [(sample_view (3 * minute), ?off), (sample_view (4 * minute), ?on), (sample_view (6 * minute), ?on)]"
    by (simp add: sample_steps_def)
  show ?thesis
    using failed_resolve_orphans_row [OF mem_engine_ok tr fired br(1) a st s key(2) key(2) br(2) br(2) due col ok] key(1)
    unfolding steps by auto
qed

section \<open>When an incident opens\<close>

text \<open>C3: No row, state or callback about a rule and subject appears before the condition held at every
  evaluation over a stretch of the run at least as long as the rule's duration.\<close>

theorem no_alert_before_grace_period:
  assumes "alert_engine cfg" and "tracked cfg e" and "state_of e k = ok_state" and "\<not> known cfg e k"
    and "known cfg (run_updates cfg steps e) k"
  shows "graced k steps"
  using alert_engine.run_grace [OF assms(1-4), of steps] assms(5) by blast

theorem no_alert_before_grace_period_witness:
  "graced (''r1'', ''c1'') (sample_steps [(1, False, False), (2, True, False), (3, True, False)])"
proof (rule no_alert_before_grace_period [OF mem_engine_ok])
  let ?c = "mem_cfg True True minute" and ?e = "NewEngine (sample_db [])"
  show "tracked ?c ?e" by simp
  show "state_of ?e (''r1'', ''c1'') = ok_state" by (simp add: state_of_def NewEngine_def)
  show "\<not> known ?c ?e (''r1'', ''c1'')"
    by (simp add: known_def NewEngine_def state_of_def ok_state_def mem_cfg_def mem_defs sample_db_def)
  have "rs_fired (state_of (run_updates ?c (sample_steps [(1, False, False), (2, True, False), (3, True, False)]) ?e)
      (''r1'', ''c1''))" by code_simp
  then show "known ?c (run_updates ?c (sample_steps [(1, False, False), (2, True, False), (3, True, False)]) ?e)
      (''r1'', ''c1'')" by (simp add: known_def)
qed

text \<open>C4: When a breach has lasted for the rule's duration and the row can be saved, the step opens
  the incident: a new firing row with the message built for it, and one notification unless a silence
  covers the subject.\<close>

theorem due_breach_opens_incident:
  assumes "alert_engine cfg" and "ec_collection cfg (en_db e)"
    and "\<And>r. snd (t_save (ec_alerts cfg) (en_db e) r) \<noteq> None"
    and "o_breaching ob" and "\<not> rs_fired (state_of e (obs_key ob))"
    and "rs_state (state_of e (obs_key ob)) = StateWarning \<or> rs_state (state_of e (obs_key ob)) = StateCritical"
    and "o_duration ob \<le> t_sub (v_now v) (rs_first_breach_at (state_of e (obs_key ob)))"
  shows "\<exists>i a. rows cfg e i = None \<and> rows cfg (updateState cfg v e ob) = (rows cfg e)(i \<mapsto> a) \<and>
    al_status a = ''firing'' \<and> alert_key a = obs_key ob \<and>
    al_message a = buildMessage v (o_rule ob) (o_subject ob) (o_value ob) (o_severity ob) \<and>
    rs_active_alert_id (state_of (updateState cfg v e ob) (obs_key ob)) = i \<and>
    en_out (updateState cfg v e ob) =
      en_out e @ (if o_silenced ob \<or> \<not> ec_notify cfg then [] else [Notify a (o_rule ob)])"
  by (rule due_breach [OF assms])

theorem due_breach_opens_incident_witness:
  "\<exists>i a. rows (sure_cfg minute) (updateState (sure_cfg minute) (sample_view (2 * minute))
      (run_updates (sure_cfg minute) (sample_steps [(1, True, False)]) (NewEngine (sample_db [])))
      (sample_ob True False)) i = Some a \<and> al_message a = ''[critical] check_down: c1 () is down''"
proof -
  let ?c = "sure_cfg minute"
  let ?e = "run_updates ?c (sample_steps [(1, True, False)]) (NewEngine (sample_db []))"
  let ?ob = "sample_ob True False" and ?v = "sample_view (2 * minute)"
  have "ec_collection ?c (en_db ?e)" by (simp add: sure_cfg_def mem_cfg_def)
  moreover have "snd (t_save (ec_alerts ?c) (en_db ?e) r) \<noteq> None" for r
    using sure_save_ok by (simp add: sure_cfg_def)
  moreover have "o_breaching ?ob" "\<not> rs_fired (state_of ?e (obs_key ?ob))"
      "rs_state (state_of ?e (obs_key ?ob)) = StateWarning \<or> rs_state (state_of ?e (obs_key ?ob)) = StateCritical"
      "o_duration ?ob \<le> t_sub (v_now ?v) (rs_first_breach_at (state_of ?e (obs_key ?ob)))"
    by code_simp+
  ultimately obtain i a where "rows ?c (updateState ?c ?v ?e ?ob) = (rows ?c ?e)(i \<mapsto> a)"
      "al_message a = buildMessage ?v (o_rule ?ob) (o_subject ?ob) (o_value ?ob) (o_severity ?ob)"
    using due_breach_opens_incident [OF sure_engine_ok, where e = ?e and ob = ?ob and v = ?v] by metis
  moreover have "buildMessage ?v (o_rule ?ob) (o_subject ?ob) (o_value ?ob) (o_severity ?ob) =
      ''[critical] check_down: c1 () is down''" by code_simp
  ultimately show ?thesis by (intro exI [of _ i] exI [of _ a]) simp
qed

text \<open>C5: When the condition clears and the row can be saved, the incident ends: its row is resolved
  at that time, one resolution notification goes out, and the subject is back in the OK state.\<close>

theorem cleared_breach_resolves:
  assumes "alert_engine cfg" and "tracked cfg e" and "resolves_succeed cfg"
    and "rs_fired (state_of e (obs_key ob))" and "\<not> o_breaching ob"
  shows "\<exists>i a. rows cfg e i = Some a \<and> alert_key a = obs_key ob \<and>
    (let a' = a\<lparr>al_status := ''resolved'', al_resolved_at := fmt_ts (v_now v)\<rparr> in
     rows cfg (updateState cfg v e ob) = (rows cfg e)(i \<mapsto> a') \<and>
     en_out (updateState cfg v e ob) = en_out e @ (if ec_notify cfg then [Notify a' (o_rule ob)] else [])) \<and>
    state_of (updateState cfg v e ob) (obs_key ob) = ok_state"
proof -
  let ?st = "state_of e (obs_key ob)"
  let ?i = "rs_active_alert_id ?st"
  obtain a where a: "rows cfg e ?i = Some a" "alert_key a = obs_key ob" using trackedD [OF assms(2,4)] by blast
  have "st_inv ?st" using tracked_wf [OF assms(2)] by (rule wf_statesD)
  then have st: "rs_state ?st = StateWarning \<or> rs_state ?st = StateCritical" "?i \<noteq> []"
    using assms(4) by (cases "rs_state ?st"; simp add: st_inv_def)+
  let ?a = "a\<lparr>al_status := ''resolved'', al_resolved_at := fmt_ts (v_now v)\<rparr>"
  obtain db' j where s: "t_save (ec_alerts cfg) (en_db e) ?a = (db', Some j)"
    using assms(3) [unfolded resolves_succeed_def, rule_format, of ?a "en_db e"]
    by (cases "t_save (ec_alerts cfg) (en_db e) ?a") auto
  have "al_id ?a = ?i" using record_table.find_ident [OF assms(1) [unfolded alert_engine_def] a(1)] by simp
  note saved = record_table.save_existing [OF assms(1) [unfolded alert_engine_def] a(1) this s]
  have "updateState cfg v e ob =
      put_state (dispatch cfg ((put_state e (obs_key ob) ?st)\<lparr>en_db := db'\<rparr>) ?a (o_rule ob)) (obs_key ob) ok_state"
    using assms(5) st a(1) s by (simp add: updateState_def stop_breach_def resolveAlert_def Let_def)
  then show ?thesis using a saved
    by (intro exI [of _ ?i] exI [of _ a]) (simp add: Let_def)
qed

theorem cleared_breach_resolves_witness:
  "state_of (updateState (sure_cfg minute) (sample_view (3 * minute)) (sample_life [(1, True, False), (2, True, False)])
     (sample_ob False False)) (''r1'', ''c1'') = ok_state"
proof -
  let ?e = "sample_life [(1, True, False), (2, True, False)]"
  have key: "obs_key (sample_ob False False) = (''r1'', ''c1'')" by code_simp
  have "tracked (sure_cfg minute) ?e"
    unfolding sample_life_def by (intro sure_engine.run_tracked sure_engine.seedState_tracked)
  moreover have "rs_fired (state_of ?e (''r1'', ''c1''))" by code_simp
  moreover have "\<not> o_breaching (sample_ob False False)" by code_simp
  ultimately show ?thesis
    using cleared_breach_resolves [OF sure_engine_ok _ sure_resolves, where e = ?e and ob = "sample_ob False False"
        and v = "sample_view (3 * minute)"]
    by (auto simp: key)
qed

section \<open>What is sent\<close>

text \<open>C6: While an incident keeps breaching unsilenced, the notifications of its rule and subject keep
  the cooldown apart: over a run that ends by time T, their number times the cooldown is at most the time
  since the last notification before the run.\<close>

theorem notifications_keep_cooldown:
  assumes "alert_engine cfg" and "tracked cfg e" and "0 < ec_cooldown cfg" and "ec_cooldown cfg \<le> max_int64"
    and "live_incident (state_of e k) T" and "\<forall>s \<in> set steps. steady k T s"
  shows "(notices k (en_out (run_updates cfg steps e)) - notices k (en_out e)) * ec_cooldown cfg
      \<le> T - rs_last_notified_at (state_of e k)"
  using alert_engine.run_spacing [OF assms] by (simp add: live_incident_def)

theorem notifications_keep_cooldown_witness:
  "(let cfg = sure_cfg (5 * minute); e = run_updates cfg (sample_steps [(1, True, False), (2, True, False)]) (NewEngine (sample_db []));
        e' = run_updates cfg (sample_steps [(4, True, False), (8, True, False), (10, True, False), (13, True, False)]) e
    in notices (''r1'', ''c1'') (en_out e) = 1 \<and> notices (''r1'', ''c1'') (en_out e') = 3 \<and>
       (3 - 1) * (5 * minute) \<le> 13 * minute - rs_last_notified_at (state_of e (''r1'', ''c1'')))"
proof -
  let ?c = "sure_cfg (5 * minute)" and ?k = "(''r1'', ''c1'')"
  let ?e = "run_updates ?c (sample_steps [(1, True, False), (2, True, False)]) (NewEngine (sample_db []))"
  let ?ss = "sample_steps [(4, True, False), (8, True, False), (10, True, False), (13, True, False)]"
  have n: "notices ?k (en_out ?e) = 1" "notices ?k (en_out (run_updates ?c ?ss ?e)) = 3" by code_simp+
  have "tracked ?c ?e" by (rule sure_engine.run_tracked) simp
  moreover have cd: "ec_cooldown ?c = 5 * minute" by (simp add: sure_cfg_def mem_cfg_def)
  moreover have "live_incident (state_of ?e ?k) (13 * minute)" "list_all (steady ?k (13 * minute)) ?ss" by code_simp+
  ultimately have "(notices ?k (en_out (run_updates ?c ?ss ?e)) - notices ?k (en_out ?e)) * ec_cooldown ?c
      \<le> 13 * minute - rs_last_notified_at (state_of ?e ?k)"
    by (intro notifications_keep_cooldown [OF sure_engine_ok]) (simp_all add: time_simps list_all_iff)
  then show ?thesis using n cd by (simp add: Let_def)
qed

text \<open>C7: Over any run from an engine that has sent nothing, each alert is escalated at most once, and
  only under a rule with an escalation delay, while it is neither acknowledged nor silenced.\<close>

theorem escalated_at_most_once:
  assumes "alert_engine cfg" and "tracked cfg e" and "en_out e = []"
    and "\<forall>(v, ob) \<in> set steps. fmt_ts (v_now v) \<noteq> 0"
  shows "distinct (map (\<lambda>s. al_id (sent_alert s)) (escalations (en_out (run_updates cfg steps e)))) \<and>
    (\<forall>s \<in> set (escalations (en_out (run_updates cfg steps e))). 0 < r_escalation_after (sent_rule s) \<and>
      al_acknowledged_at (sent_alert s) = 0 \<and> \<not> al_silenced (sent_alert s))"
proof -
  have "marked cfg e" by (simp add: marked_def assms(3) escalations_def)
  from alert_engine.run_marked [OF assms(1,2) this assms(4)] show ?thesis unfolding marked_def by blast
qed

theorem escalated_at_most_once_witness:
  "(let out = en_out (run_updates (sure_cfg minute) (sample_steps (map (\<lambda>t. (t, True, False)) [1, 2, 3, 4, 5]))
       (NewEngine (sample_db [])))
    in length (escalations out) = 1 \<and> distinct (map (\<lambda>s. al_id (sent_alert s)) (escalations out)))"
proof -
  let ?ss = "sample_steps (map (\<lambda>t. (t, True, False)) [1, 2, 3, 4, 5])" and ?e = "NewEngine (sample_db [])"
  have "length (escalations (en_out (run_updates (sure_cfg minute) ?ss ?e))) = 1" by code_simp
  moreover have "list_all (\<lambda>(v, ob). fmt_ts (v_now v) \<noteq> 0) ?ss" by code_simp
  then have "\<forall>(v, ob) \<in> set ?ss. fmt_ts (v_now v) \<noteq> 0" by (simp only: list_all_iff)
  ultimately show ?thesis
    using escalated_at_most_once [OF sure_engine_ok tracked_New, where db1 = "sample_db []" and steps = ?ss]
    unfolding Let_def by (simp add: NewEngine_def)
qed

text \<open>C8: A step about a silenced subject, or about an incident an operator acknowledged, sends nothing
  as long as the condition keeps breaching.\<close>

theorem silenced_or_acknowledged_is_quiet:
  assumes "alert_engine cfg" and "tracked cfg e" and "o_breaching ob"
    and "o_silenced ob \<or> (\<exists>a. rs_fired (state_of e (obs_key ob)) \<and>
          rows cfg e (rs_active_alert_id (state_of e (obs_key ob))) = Some a \<and> al_acknowledged_at a \<noteq> 0)"
  shows "en_out (updateState cfg v e ob) = en_out e"
  by (rule alert_engine.updateState_quiet [OF assms(1) tracked_wf [OF assms(2)] assms(3,4)])

theorem silenced_or_acknowledged_is_quiet_witness:
  "en_out (updateState (sure_cfg minute) (sample_view (9 * minute))
     (sample_life [(1, True, False), (2, True, False)]) (sample_ob True True)) =
   en_out (sample_life [(1, True, False), (2, True, False)])"
proof (rule silenced_or_acknowledged_is_quiet [OF sure_engine_ok])
  show "tracked (sure_cfg minute) (sample_life [(1, True, False), (2, True, False)])"
    unfolding sample_life_def by (intro sure_engine.run_tracked sure_engine.seedState_tracked)
qed (simp_all add: sample_ob_def)

text \<open>C9: A step changes nothing of any other rule and subject: their states and their rows stay as
  they were, and every callback it makes is about its own rule and subject.\<close>

theorem incidents_are_isolated:
  assumes "alert_engine cfg" and "tracked cfg e" and "k \<noteq> obs_key ob"
  shows "state_of (updateState cfg v e ob) k = state_of e k \<and>
    (\<forall>a. (\<exists>i. rows cfg e i = Some a \<and> alert_key a = k) \<longleftrightarrow>
         (\<exists>i. rows cfg (updateState cfg v e ob) i = Some a \<and> alert_key a = k)) \<and>
    (\<exists>out. en_out (updateState cfg v e ob) = en_out e @ out \<and>
      (\<forall>s \<in> set out. alert_key (sent_alert s) = obs_key ob))"
proof -
  obtain out where out: "en_out (updateState cfg v e ob) = en_out e @ out"
    and step: "row_step (fmt_ts (v_now v)) (obs_key ob) (rows cfg e) (rows cfg (updateState cfg v e ob)) out"
    using alert_engine.updateState_step [OF assms(1,2)] by blast
  have "rows cfg e i = Some a \<longleftrightarrow> rows cfg (updateState cfg v e ob) i = Some a" if "alert_key a = k" for i a
    using row_step_new [OF step, of i a] row_step_other [OF step, of i a] that assms(3) by metis
  with out row_step_out [OF step] updateState_other [OF assms(3), of cfg v e] show ?thesis by metis
qed

theorem incidents_are_isolated_witness:
  "state_of (updateState (sure_cfg minute) (sample_view (3 * minute)) (sample_life [(1, True, False), (2, True, False)])
      ((sample_ob True False)\<lparr>o_subject := ''c2''\<rparr>)) (''r1'', ''c1'') =
   state_of (sample_life [(1, True, False), (2, True, False)]) (''r1'', ''c1'') \<and>
   rs_fired (state_of (sample_life [(1, True, False), (2, True, False)]) (''r1'', ''c1''))"
proof -
  let ?e = "sample_life [(1, True, False), (2, True, False)]"
  have "tracked (sure_cfg minute) ?e"
    unfolding sample_life_def by (intro sure_engine.run_tracked sure_engine.seedState_tracked)
  moreover have "rs_fired (state_of ?e (''r1'', ''c1''))" by code_simp
  moreover have "(''r1'', ''c1'') \<noteq> obs_key ((sample_ob True False)\<lparr>o_subject := ''c2''\<rparr>)"
    by (simp add: obs_key_def sample_ob_def)
  ultimately show ?thesis using incidents_are_isolated [OF sure_engine_ok] by blast
qed

section \<open>Silences and acknowledgements\<close>

text \<open>What a rule observes of a targeted agent or check is silenced exactly when some silence
  covers this moment and matches it, as long as the hub has at most 500 silences.\<close>

theorem observations_know_silences:
  assumes "v_silences v = Some ss" and "length ss \<le> 500" and "activeSilences v = Some active"
    and "observe_agent v rule active agent = Some ob" and "observe_check v crule active check = Some cob"
  shows "(o_silenced ob \<longleftrightarrow> (\<exists>s \<in> set ss. silence_covers_now s (v_now v) \<and> SilenceMatchesAgent agent s)) \<and>
    (o_silenced cob \<longleftrightarrow> (\<exists>s \<in> set ss. silence_covers_now s (v_now v) \<and> SilenceMatchesCheck check s))"
proof -
  have "o_silenced ob \<longleftrightarrow> isSilenced agent active (v_now v)"
    using assms(4) by (auto simp: observe_agent_def split: if_splits option.splits)
  moreover have "o_silenced cob \<longleftrightarrow> isCheckSilenced check active (v_now v)"
    using assms(5) by (auto simp: observe_check_def split: option.splits)
  ultimately show ?thesis
    using activeSilences_complete [OF assms(1,2)] assms(3) unfolding isSilenced_iff isCheckSilenced_iff by fastforce
qed

definition sample_silence :: silence where
  "sample_silence = \<lparr>si_id = ''s1'', si_agent_id = [], si_tags = [''db''], si_check_ids = [''c1''],
     si_starts_at = minute, si_ends_at = hour\<rparr>"

definition sample_agent :: agent where
  "sample_agent = \<lparr>ag_id = ''a1'', ag_hostname = ''db1'', ag_os = ''linux'', ag_ip = [], ag_version = ''1.0'',
     ag_status = ''online'', ag_last_seen = minute, ag_token_hash = [], ag_tags = [''db''], ag_arch = [],
     ag_platform = [], ag_update_status = [], ag_update_error = [], ag_update_target_version = [],
     ag_update_requested_at = 0, ag_update_requested_by = [], ag_dropped_messages = 0, ag_logs_lines_total = 0\<rparr>"

definition sample_check :: check where
  "sample_check = \<lparr>ck_id = ''c1'', ck_name = ''web'', ck_type = ''http'', ck_target = ''https://x'',
     ck_interval_seconds = 60, ck_timeout_seconds = 10, ck_method = ''GET'', ck_expected_status = 200,
     ck_tls_expiry_warn_days = 0, ck_failures_before_down = 1, ck_enabled = True, ck_tags = []\<rparr>"

definition quiet_view :: hub_view where
  "quiet_view = (sample_view (10 * minute))\<lparr>v_silences := Some [sample_silence],
     v_check_results := Some [new_check_result\<lparr>cr_check_id := ''c1'', cr_status := ''down'', cr_checked_at := minute\<rparr>]\<rparr>"

theorem observations_know_silences_witness:
  "\<exists>ob cob. observe_agent quiet_view (sample_rule\<lparr>r_metric_type := ''agent_offline''\<rparr>) [sample_silence] sample_agent = Some ob \<and>
     observe_check quiet_view sample_rule [sample_silence] sample_check = Some cob \<and> o_silenced ob \<and> o_silenced cob"
proof -
  let ?r = "sample_rule\<lparr>r_metric_type := ''agent_offline''\<rparr>"
  have "v_silences quiet_view = Some [sample_silence]" by (simp add: quiet_view_def)
  moreover have "activeSilences quiet_view = Some [sample_silence]"
    by (simp add: activeSilences_def query_def quiet_view_def sample_view_def sample_silence_def fmt_ts_def time_simps)
  moreover have "observe_agent quiet_view ?r [sample_silence] sample_agent \<noteq> None" by code_simp
  then obtain ob where "observe_agent quiet_view ?r [sample_silence] sample_agent = Some ob" by blast
  moreover have "observe_check quiet_view sample_rule [sample_silence] sample_check \<noteq> None" by code_simp
  then obtain cob where "observe_check quiet_view sample_rule [sample_silence] sample_check = Some cob" by blast
  moreover have "silence_covers_now sample_silence (v_now quiet_view)" "SilenceMatchesAgent sample_agent sample_silence"
    "SilenceMatchesCheck sample_check sample_silence" by code_simp+
  ultimately show ?thesis using observations_know_silences [of quiet_view "[sample_silence]"] by fastforce
qed

text \<open>Acknowledging takes a user of role operator or above; it changes only the acknowledgement of
  the addressed row, and for an id without a row the handler writes its 404 and then dereferences the
  missing record.\<close>

theorem acknowledgement_route:
  assumes "record_table T al_id set_al_id" and "ack_route write_err T db i auth now = (db', out)"
  shows "(RoleOf (Some auth) < RoleOperator \<longrightarrow> db' = db \<and> hx_status out = [403]) \<and>
    ack_only (t_find T db) (t_find T db') \<and>
    (RoleOperator \<le> RoleOf (Some auth) \<and> i \<noteq> [] \<and> t_find T db i = None \<longrightarrow>
       hx_status out = [404] \<and> hx_panic out = (\<not> write_err))"
  using ack_route_effect [OF assms] assms(2)
  by (cases write_err) (auto simp: ack_route_def RequireRole_def handleAckAlert_def findAlertOrNotFound_def dest!: leD
      split: if_splits)

theorem acknowledgement_route_witness:
  "hx_panic (snd (ack_route False mem_alerts (sample_db []) ''gone''
     (Some \<lparr>au_id = ''u'', au_collection = ''users'', au_superuser = False, au_role = ''admin'', au_email = []\<rparr>) minute))"
proof -
  let ?auth = "Some \<lparr>au_id = ''u'', au_collection = ''users'', au_superuser = False, au_role = ''admin'', au_email = []\<rparr>"
  obtain db' out where r: "ack_route False mem_alerts (sample_db []) ''gone'' ?auth minute = (db', out)"
    by (cases "ack_route False mem_alerts (sample_db []) ''gone'' ?auth minute")
  have "RoleOperator \<le> RoleOf (Some ?auth)" by code_simp
  moreover have "t_find mem_alerts (sample_db []) ''gone'' = None" by code_simp
  ultimately show ?thesis using acknowledgement_route [OF alerts.record_table_axioms r] r by simp
qed

end
