(* ===== verification/Uptime.thy ===== *)
theory Uptime
  imports Nexwatch_Prelude
begin

text \<open>
  The interval arithmetic of \<open>internal/hub/uptime/uptime.go\<close>. \<open>sort.Slice\<close> is not stable, so
  \<open>Merge\<close> takes the sorting function as a parameter and the lemmas hold for every one that returns
  a permutation of its argument ordered by start. An interval covers the instants from its start up
  to, but not including, its end; the specification is the set of covered instants.
\<close>

section \<open>The code\<close>

record Interval =
  iv_start :: time
  iv_end :: time

fun merge_loop :: "Interval \<Rightarrow> Interval list \<Rightarrow> Interval list" where
  "merge_loop prev [] = [prev]"
| "merge_loop prev (cur # rest) =
     (if \<not> iv_end prev < iv_start cur then
        merge_loop (if iv_end prev < iv_end cur then prev\<lparr>iv_end := iv_end cur\<rparr> else prev) rest
      else prev # merge_loop cur rest)"

definition Merge :: "(Interval list \<Rightarrow> Interval list) \<Rightarrow> Interval list \<Rightarrow> Interval list" where
  "Merge sort_slice intervals =
     (if intervals = [] then []
      else case sort_slice intervals of [] \<Rightarrow> [] | first # rest \<Rightarrow> merge_loop first rest)"

definition sorts_by_start :: "(Interval list \<Rightarrow> Interval list) \<Rightarrow> bool" where
  "sorts_by_start f \<longleftrightarrow> (\<forall>xs. mset (f xs) = mset xs \<and> sorted (map iv_start (f xs)))"

text \<open>\<open>Duration.Seconds\<close>.\<close>

definition seconds :: "duration \<Rightarrow> rat" where
  "seconds d = of_int d / of_int second"

definition clip_start :: "time \<Rightarrow> Interval \<Rightarrow> time" where
  "clip_start ws iv = (if iv_start iv < ws then ws else iv_start iv)"

definition clip_end :: "time \<Rightarrow> Interval \<Rightarrow> time" where
  "clip_end we iv = (if we < iv_end iv then we else iv_end iv)"

definition down_seconds :: "time \<Rightarrow> time \<Rightarrow> Interval \<Rightarrow> rat" where
  "down_seconds ws we iv =
     (if clip_start ws iv < clip_end we iv then seconds (t_sub (clip_end we iv) (clip_start ws iv)) else 0)"

definition UptimePercent :: "Interval list \<Rightarrow> time \<Rightarrow> time \<Rightarrow> rat" where
  "UptimePercent merged windowStart windowEnd =
     (let span = seconds (t_sub windowEnd windowStart) in
      if span \<le> 0 then 100
      else
        let downtime = fold (\<lambda>iv d. d + down_seconds windowStart windowEnd iv) merged 0;
            pct = 100 * (span - downtime) / span
        in if pct < 0 then 0 else if pct > 100 then 100 else pct)"

section \<open>What is covered\<close>

definition covers :: "Interval \<Rightarrow> time set" where
  "covers iv = {iv_start iv..<iv_end iv}"

definition covered :: "Interval list \<Rightarrow> time set" where
  "covered ivs = (\<Union>iv \<in> set ivs. covers iv)"

lemma covered_simps [simp]: "covered [] = {}" "covered (iv # ivs) = covers iv \<union> covered ivs"
  by (auto simp: covered_def)

text \<open>Consecutive merged intervals leave a gap: each starts after every earlier one has ended.\<close>

definition apart :: "Interval list \<Rightarrow> bool" where
  "apart ivs \<longleftrightarrow> sorted_wrt (\<lambda>a b. iv_start a \<le> iv_start b \<and> iv_end a < iv_start b) ivs"

lemma merge_loop_start:
  "iv \<in> set (merge_loop prev rest) \<Longrightarrow> sorted (map iv_start (prev # rest)) \<Longrightarrow> iv_start prev \<le> iv_start iv"
proof (induction prev rest rule: merge_loop.induct)
  case (2 prev cur rest)
  then show ?case by (cases "iv_end prev < iv_start cur") (auto split: if_splits)
qed simp

lemma merge_loop_apart:
  "sorted (map iv_start (prev # rest)) \<Longrightarrow> apart (merge_loop prev rest)"
proof (induction prev rest rule: merge_loop.induct)
  case (1 prev)
  then show ?case by (simp add: apart_def)
next
  case (2 prev cur rest)
  show ?case
  proof (cases "iv_end prev < iv_start cur")
    case False
    with 2 show ?thesis by auto
  next
    case True
    have "iv_start cur \<le> iv_start iv" if "iv \<in> set (merge_loop cur rest)" for iv
      using merge_loop_start [OF that] 2(3) by simp
    with True 2 show ?thesis by (fastforce simp: apart_def)
  qed
qed

lemma merge_loop_covered:
  "sorted (map iv_start (prev # rest)) \<Longrightarrow> covered (merge_loop prev rest) = covers prev \<union> covered rest"
proof (induction prev rest rule: merge_loop.induct)
  case (2 prev cur rest)
  show ?case
  proof (cases "iv_end prev < iv_start cur")
    case True
    with 2 show ?thesis by simp
  next
    case False
    let ?l = "if iv_end prev < iv_end cur then prev\<lparr>iv_end := iv_end cur\<rparr> else prev"
    have "covers ?l = covers prev \<union> covers cur"
      using False 2(3) by (auto simp: covers_def)
    moreover have "covered (merge_loop ?l rest) = covers ?l \<union> covered rest"
      using False 2 by auto
    ultimately show ?thesis using False by auto
  qed
qed simp

lemma Merge_cases:
  assumes "sorts_by_start sort_slice" and "ivs \<noteq> []"
  obtains first rest where "sort_slice ivs = first # rest" and "sorted (map iv_start (first # rest))"
    and "covered ivs = covers first \<union> covered rest"
proof -
  have s: "mset (sort_slice ivs) = mset ivs" "sorted (map iv_start (sort_slice ivs))"
    using assms(1) by (simp_all add: sorts_by_start_def)
  then have set: "set (sort_slice ivs) = set ivs" by (metis set_mset_mset)
  with assms(2) obtain first rest where fr: "sort_slice ivs = first # rest" by (cases "sort_slice ivs") auto
  moreover have "covered ivs = covers first \<union> covered rest"
    using set unfolding fr covered_def by (metis Union_image_insert list.simps(15))
  ultimately show thesis using that s(2) by simp
qed

lemma Merge_apart: "sorts_by_start f \<Longrightarrow> apart (Merge f ivs)"
proof (cases "ivs = []")
  case False
  assume "sorts_by_start f"
  from Merge_cases [OF this False] merge_loop_apart False show ?thesis by (metis Merge_def list.case(2))
qed (simp add: Merge_def apart_def)

lemma Merge_covered: "sorts_by_start f \<Longrightarrow> covered (Merge f ivs) = covered ivs"
proof (cases "ivs = []")
  case False
  assume "sorts_by_start f"
  from Merge_cases [OF this False] merge_loop_covered False show ?thesis by (metis Merge_def list.case(2))
qed (simp add: Merge_def)

section \<open>Downtime as a measure\<close>

lemma fold_down: "fold (\<lambda>iv d. d + f iv) ivs (x::rat) = x + (\<Sum>iv\<leftarrow>ivs. f iv)"
  by (induction ivs arbitrary: x) (simp_all add: algebra_simps)

lemma seconds_nonneg: "0 \<le> d \<Longrightarrow> 0 \<le> seconds d"
  by (simp add: seconds_def time_simps)

lemma t_sub_window: "ws \<le> a \<Longrightarrow> a \<le> b \<Longrightarrow> b \<le> we \<Longrightarrow> we - ws \<le> max_int64 \<Longrightarrow> t_sub b a = b - a"
  by (simp add: t_sub_def min_int64_def max_def min_def)

lemma down_measure:
  assumes "we - ws \<le> max_int64"
  shows "down_seconds ws we iv = seconds (int (card (covers iv \<inter> {ws..<we})))"
proof -
  have "covers iv \<inter> {ws..<we} = {clip_start ws iv..<clip_end we iv}"
    by (auto simp: covers_def clip_start_def clip_end_def)
  moreover have "t_sub (clip_end we iv) (clip_start ws iv) = clip_end we iv - clip_start ws iv"
    if "clip_start ws iv < clip_end we iv"
    using that by (intro t_sub_window [OF _ _ _ assms]) (auto simp: clip_start_def clip_end_def split: if_splits)
  ultimately show ?thesis by (auto simp: down_seconds_def seconds_def)
qed

lemma apart_measure:
  assumes "we - ws \<le> max_int64" and "apart ivs"
  shows "(\<Sum>iv\<leftarrow>ivs. down_seconds ws we iv) = seconds (int (card (covered ivs \<inter> {ws..<we})))"
  using assms(2)
proof (induction ivs)
  case (Cons iv ivs)
  have disj: "covers iv \<inter> {ws..<we} \<inter> (covered ivs \<inter> {ws..<we}) = {}"
    using Cons.prems by (fastforce simp: apart_def covered_def covers_def)
  have "card (covered (iv # ivs) \<inter> {ws..<we}) = card (covers iv \<inter> {ws..<we}) + card (covered ivs \<inter> {ws..<we})"
    using card_Un_disjoint [OF _ _ disj] by (simp add: Int_Un_distrib2)
  with Cons show ?case
    by (simp add: down_measure [OF assms(1)] apart_def seconds_def add_divide_distrib)
qed (simp add: seconds_def)

lemma share_scaled:
  fixes x :: rat
  assumes "0 < x" and "0 < s" and "d + u = x"
  shows "100 * (x / s - d / s) / (x / s) = 100 * u / x"
proof -
  have "x / s - d / s = u / s" using assms(3) by (simp add: diff_divide_distrib [symmetric])
  then show ?thesis using assms(1,2) by simp
qed

lemma uptime_measure:
  assumes "apart ivs" and "ws < we" and "we - ws \<le> max_int64"
  shows "UptimePercent ivs ws we =
    100 * of_nat (card ({ws..<we} - covered ivs)) / of_int (we - ws)"
proof -
  let ?up = "card ({ws..<we} - covered ivs)" and ?dn = "card (covered ivs \<inter> {ws..<we})"
  have "?dn + ?up = card {ws..<we}"
    using card_Diff_subset_Int [of "{ws..<we}" "covered ivs"] card_mono [of "{ws..<we}" "{ws..<we} \<inter> covered ivs"]
    by (simp add: Int_commute)
  then have "int (?dn + ?up) = we - ws" using assms(2) by simp
  then have sum: "of_nat ?dn + of_nat ?up = (of_int (we - ws) :: rat)"
    by (metis of_int_of_nat_eq of_nat_add)
  have span: "seconds (t_sub we ws) = of_int (we - ws) / of_int second" "0 < seconds (t_sub we ws)"
    using assms(2) t_sub_window [of ws ws we we] assms(3) by (simp_all add: seconds_def time_simps)
  have "100 * (seconds (t_sub we ws) - seconds (int ?dn)) / seconds (t_sub we ws) =
      100 * of_nat ?up / of_int (we - ws)"
    using share_scaled [OF _ _ sum, of "of_int second"] assms(2)
    unfolding span(1) by (simp add: seconds_def second_def)
  moreover have "0 \<le> 100 * of_nat ?up / (of_int (we - ws) :: rat)" "100 * of_nat ?up / (of_int (we - ws) :: rat) \<le> 100"
    using sum assms(2) by (simp_all add: field_simps)
  ultimately show ?thesis
    using span(2) by (simp add: UptimePercent_def Let_def fold_down apart_measure [OF assms(3,1)])
qed

section \<open>Properties\<close>

text \<open>Merging neither loses nor adds a covered instant, and the merged intervals are in order
  with a gap between any two, whatever order the sort gives to intervals with the same start.\<close>

theorem Merge_normal_form:
  assumes "sorts_by_start sort_slice"
  shows "covered (Merge sort_slice ivs) = covered ivs \<and> apart (Merge sort_slice ivs)"
  using Merge_covered [OF assms] Merge_apart [OF assms] by blast

lemma sort_key_sorts: "sorts_by_start (sort_key iv_start)"
  by (simp add: sorts_by_start_def)

definition iv :: "time \<Rightarrow> time \<Rightarrow> Interval" where
  "iv a b = \<lparr>iv_start = a, iv_end = b\<rparr>"

theorem Merge_normal_form_witness:
  "Merge (sort_key iv_start) [iv 5 9, iv 1 4, iv 3 6, iv 12 15] = [iv 1 9, iv 12 15] \<and>
   covered [iv 1 9, iv 12 15] = covered [iv 5 9, iv 1 4, iv 3 6, iv 12 15]"
proof -
  have m: "Merge (sort_key iv_start) [iv 5 9, iv 1 4, iv 3 6, iv 12 15] = [iv 1 9, iv 12 15]" by code_simp
  from Merge_normal_form [OF sort_key_sorts, of "[iv 5 9, iv 1 4, iv 3 6, iv 12 15]"] m show ?thesis by simp
qed

text \<open>C10: The uptime of a window is exactly the share of its instants that no interval covers, and so
  overlapping alerts are never counted twice.\<close>

theorem uptime_is_uncovered_share:
  assumes "sorts_by_start sort_slice" and "ws < we" and "we - ws \<le> max_int64"
  shows "UptimePercent (Merge sort_slice ivs) ws we =
    100 * of_nat (card ({ws..<we} - covered ivs)) / of_int (we - ws)"
  using uptime_measure [OF Merge_apart [OF assms(1)] assms(2,3)] Merge_covered [OF assms(1)] by simp

theorem uptime_is_uncovered_share_witness:
  "UptimePercent (Merge (sort_key iv_start) [iv 2 8, iv 4 6, iv 18 30]) 0 20 = 60 \<and>
   100 * of_nat (card ({0..<20} - covered [iv 2 8, iv 4 6, iv 18 30])) / of_int (20 - 0) = (60 :: rat)"
proof -
  have "UptimePercent (Merge (sort_key iv_start) [iv 2 8, iv 4 6, iv 18 30]) 0 20 = 60" by code_simp
  moreover have "(20::int) - 0 \<le> max_int64" by (simp add: max_int64_def)
  ultimately show ?thesis
    using uptime_is_uncovered_share [OF sort_key_sorts, of 0 20 "[iv 2 8, iv 4 6, iv 18 30]"] by simp
qed

end
