(* ===== verification/Settings.thy ===== *)
theory Settings
  imports Record_Table
begin

text \<open>
  The key/value settings of the hub (\<open>internal/hub/api/settings.go\<close>, and the copies of its integer
  reader in the checks, logs and audit packages): a collection of keys with a JSON text. The JSON
  decoder and encoder are parameters. \<open>days_ago\<close> is the cutoff arithmetic the retention jobs share.
\<close>

section \<open>Reading\<close>

record setting =
  st_id :: string
  st_key :: string
  st_value :: string

text \<open>\<open>FindFirstRecordByFilter\<close> on the key: the first row the store yields for it.\<close>

definition find_setting :: "setting list \<Rightarrow> string \<Rightarrow> setting option" where
  "find_setting db key = find (\<lambda>s. st_key s = key) db"

definition getSettingValue :: "(string \<Rightarrow> any option) \<Rightarrow> setting list \<Rightarrow> string \<Rightarrow> any option" where
  "getSettingValue json db key =
     (case find_setting db key of None \<Rightarrow> None | Some record \<Rightarrow> json (st_value record))"

definition settingBool :: "(string \<Rightarrow> any option) \<Rightarrow> setting list \<Rightarrow> string \<Rightarrow> bool \<Rightarrow> bool" where
  "settingBool json db key def_value =
     (case getSettingValue json db key of
        None \<Rightarrow> def_value
      | Some v \<Rightarrow> (case as_bool v of None \<Rightarrow> def_value | Some b \<Rightarrow> b))"

definition settingString :: "(string \<Rightarrow> any option) \<Rightarrow> setting list \<Rightarrow> string \<Rightarrow> string \<Rightarrow> string" where
  "settingString json db key def_value =
     (case getSettingValue json db key of
        None \<Rightarrow> def_value
      | Some v \<Rightarrow> (case as_string v of None \<Rightarrow> def_value | Some s \<Rightarrow> if s = [] then def_value else s))"

text \<open>\<open>strconv.Atoi\<close>: an optional sign and decimal digits that fit an \<open>int\<close>.\<close>

definition digit_val :: "char \<Rightarrow> nat" where
  "digit_val c = of_char c - 48"

definition is_digit :: "char \<Rightarrow> bool" where
  "is_digit c \<longleftrightarrow> 48 \<le> (of_char c :: nat) \<and> (of_char c :: nat) \<le> 57"

definition digits_val :: "string \<Rightarrow> nat" where
  "digits_val ds = fold (\<lambda>c n. 10 * n + digit_val c) ds 0"

definition atoi :: "string \<Rightarrow> int option" where
  "atoi s =
     (let (neg, ds) = (case s of c # cs \<Rightarrow> if c = CHR ''-'' then (True, cs) else if c = CHR ''+'' then (False, cs)
                                           else (False, s)
                        | [] \<Rightarrow> (False, []));
          n = (if neg then - int (digits_val ds) else int (digits_val ds))
      in if ds = [] \<or> \<not> list_all is_digit ds then None
         else if n < min_int64 \<or> max_int64 < n then None else Some n)"

text \<open>The switch on the decoded value; the numeric case truncates.\<close>

definition positive_int :: "any \<Rightarrow> int option" where
  "positive_int v =
     (case v of
        AFloat64 n \<Rightarrow> if 0 < n then Some (trunc_rat n) else None
      | AStr s \<Rightarrow> (case atoi s of None \<Rightarrow> None | Some k \<Rightarrow> if 0 < k then Some k else None)
      | _ \<Rightarrow> None)"

definition settingInt :: "(string \<Rightarrow> any option) \<Rightarrow> setting list \<Rightarrow> string \<Rightarrow> int \<Rightarrow> int" where
  "settingInt json db key def_value =
     (case getSettingValue json db key of
        None \<Rightarrow> def_value
      | Some v \<Rightarrow> (case positive_int v of None \<Rightarrow> def_value | Some n \<Rightarrow> n))"

definition settingRaw :: "setting list \<Rightarrow> string \<Rightarrow> string option" where
  "settingRaw db key = map_option st_value (find_setting db key)"

section \<open>Writing\<close>

text \<open>The upsert; \<open>encode\<close> may fail, and so may the lookup of the collection and the save (\<open>ok\<close>).\<close>

definition setSettingValue ::
  "('v \<Rightarrow> string option) \<Rightarrow> bool \<Rightarrow> bool \<Rightarrow> string \<Rightarrow> setting list \<Rightarrow> string \<Rightarrow> 'v \<Rightarrow> setting list \<times> bool" where
  "setSettingValue encode has_collection saves new_id db key value =
     (case encode value of
        None \<Rightarrow> (db, False)
      | Some encoded \<Rightarrow>
          (case find_setting db key of
             None \<Rightarrow>
               if \<not> has_collection then (db, False)
               else if saves then (db @ [\<lparr>st_id = new_id, st_key = key, st_value = encoded\<rparr>], True)
               else (db, False)
           | Some record \<Rightarrow>
               if saves
               then (map (\<lambda>s. if st_id s = st_id record then record\<lparr>st_value := encoded\<rparr> else s) db, True)
               else (db, False)))"

section \<open>Cutoffs\<close>

text \<open>\<open>now.Add(-time.Duration(days) * 24 * time.Hour)\<close>, the products wrapping at 64 bits.\<close>

definition days_ago :: "time \<Rightarrow> int \<Rightarrow> time" where
  "days_ago now days = now + wrap64 (wrap64 (- days * 24) * hour)"

lemma days_ago_small:
  assumes "0 \<le> days" and "days \<le> 106751"
  shows "days_ago now days = now - days * day"
proof -
  have "wrap64 (- days * 24) = - days * 24" using assms by (intro wrap64_id) (simp_all add: time_simps)
  moreover have "wrap64 (- days * 24 * hour) = - days * 24 * hour"
    using assms by (intro wrap64_id) (simp_all add: time_simps)
  ultimately show ?thesis by (simp add: days_ago_def time_simps)
qed

lemma mod_below: "- m \<le> x \<Longrightarrow> x < 0 \<Longrightarrow> x mod m = x + m" for x m :: int
  using mod_add_self2 [of x m] mod_pos_pos_trivial [of "x + m" m] by simp

lemma days_ago_far:
  assumes "106752 \<le> days" and "days \<le> 213503"
  shows "now + millisecond \<le> days_ago now days"
proof -
  have "wrap64 (- days * 24) = - days * 24" using assms by (intro wrap64_id) (simp_all add: time_simps)
  moreover have "wrap64 (- days * 24 * hour) = - days * 24 * hour + 18446744073709551616"
    using mod_below [of 18446744073709551616 "- days * 24 * hour + 9223372036854775808"] assms
    by (simp add: wrap64_def time_simps)
  ultimately show ?thesis using assms by (simp add: days_ago_def time_simps)
qed

lemma digit_chars: "is_digit (char_of (48 + n)) \<and> digit_val (char_of (48 + n)) = n" if "n < 10" for n :: nat
  using that by (simp add: is_digit_def digit_val_def)

lemma digits_val_snoc: "digits_val (ds @ [c]) = 10 * digits_val ds + digit_val c"
  by (simp add: digits_val_def)

lemma dec_digits_read: "list_all is_digit (dec_digits n) \<and> digits_val (dec_digits n) = n \<and> dec_digits n \<noteq> []"
proof (induction n rule: dec_digits.induct)
  case (1 n)
  show ?case
  proof (cases "n < 10")
    case True
    then show ?thesis using digit_chars [OF True] by (simp add: dec_digits.simps [of n] digits_val_def)
  next
    case False
    then show ?thesis using 1 [OF False] digit_chars [of "n mod 10"]
      by (simp add: dec_digits.simps [of n] digits_val_snoc)
  qed
qed

lemma digit_not_sign: "is_digit c \<Longrightarrow> c \<noteq> CHR ''-'' \<and> c \<noteq> CHR ''+''"
  by (auto simp: is_digit_def)

lemma atoi_fmt_d: "min_int64 \<le> i \<Longrightarrow> i \<le> max_int64 \<Longrightarrow> atoi (fmt_d i) = Some i"
proof -
  assume i: "min_int64 \<le> i" "i \<le> max_int64"
  note d = dec_digits_read [of "nat i"] dec_digits_read [of "nat (- i)"]
  obtain c cs where c: "dec_digits (nat i) = c # cs" using d(1) by (cases "dec_digits (nat i)") auto
  then have "c \<noteq> CHR ''-''" "c \<noteq> CHR ''+''" using d(1) digit_not_sign by auto
  with c d i show ?thesis by (cases "i < 0") (auto simp: atoi_def fmt_d_def Let_def)
qed

end
