(* ===== verification/Retention.thy ===== *)
theory Retention
  imports Settings Hub_Records
begin

text \<open>
  The retention jobs of the hub: the purge loops of \<open>internal/hub/checks/retention.go\<close>,
  \<open>internal/hub/logs/retention.go\<close>, \<open>internal/hub/audit/retention.go\<close> and of the metrics
  downsampler, and the hard cap on log rows. The loops are the same program over different
  collections; \<open>purge_loop\<close> is that program, for any collection with the contract of
  \<open>Record_Table\<close>. A loop that never returns is the value \<open>None\<close>.
\<close>

section \<open>The purge loop\<close>

definition delete_all :: "('db, 'r) table \<Rightarrow> string list \<Rightarrow> 'db \<Rightarrow> 'db" where
  "delete_all T ids db = fold (\<lambda>i db. fst (t_del T db i)) ids db"

partial_function (option) purge_loop ::
  "('db, 'r) table \<Rightarrow> ('r \<Rightarrow> string) \<Rightarrow> nat \<Rightarrow> ('r \<Rightarrow> bool) \<Rightarrow> 'db \<Rightarrow> 'db option" where
  "purge_loop T ident batch P db =
     (case t_all T db P of
        None \<Rightarrow> Some db
      | Some found \<Rightarrow>
          (if found = [] then Some db
           else if length (take batch found) < batch
             then Some (delete_all T (map ident (take batch found)) db)
             else purge_loop T ident batch P (delete_all T (map ident (take batch found)) db)))"

text \<open>The setting readers of the three packages.\<close>

definition resolveIntSetting :: "(string \<Rightarrow> any option) \<Rightarrow> setting list \<Rightarrow> string \<Rightarrow> int \<Rightarrow> int" where
  "resolveIntSetting json db key fallback =
     (case find_setting db key of
        None \<Rightarrow> fallback
      | Some record \<Rightarrow>
          (case json (st_value record) of
             None \<Rightarrow> fallback
           | Some v \<Rightarrow> (case positive_int v of None \<Rightarrow> fallback | Some n \<Rightarrow> n)))"

definition logs_retention_days :: "(string \<Rightarrow> any option) \<Rightarrow> setting list \<Rightarrow> int" where
  "logs_retention_days json db = resolveIntSetting json db ''logs_retention_days'' 3"

definition resolveMaxRows :: "(string \<Rightarrow> any option) \<Rightarrow> setting list \<Rightarrow> int" where
  "resolveMaxRows json db = resolveIntSetting json db ''logs_max_rows'' 2000000"

definition checks_retention_days :: "(string \<Rightarrow> any option) \<Rightarrow> setting list \<Rightarrow> int" where
  "checks_retention_days json db = resolveIntSetting json db ''check_results_retention_days'' 7"

definition audit_retention_days :: "(string \<Rightarrow> any option) \<Rightarrow> setting list \<Rightarrow> int" where
  "audit_retention_days json db = resolveIntSetting json db ''audit_retention_days'' 180"

section \<open>The jobs\<close>

definition logs_PurgeOld ::
  "('db, logrow) table \<Rightarrow> (string \<Rightarrow> any option) \<Rightarrow> setting list \<Rightarrow> time \<Rightarrow> 'db \<Rightarrow> 'db option" where
  "logs_PurgeOld T json settings now db =
     (let cutoff = fmt_ts (days_ago now (logs_retention_days json settings))
      in purge_loop T lg_id 500 (\<lambda>r. lg_ts r < cutoff) db)"

definition purgeOldResults ::
  "('db, check_result) table \<Rightarrow> (string \<Rightarrow> any option) \<Rightarrow> setting list \<Rightarrow> time \<Rightarrow> 'db \<Rightarrow> 'db option" where
  "purgeOldResults T json settings now db =
     (let cutoff = fmt_ts (days_ago now (checks_retention_days json settings))
      in purge_loop T cr_id 200 (\<lambda>r. cr_checked_at r < cutoff) db)"

record audit_row =
  ad_id :: string
  ad_action :: string
  ad_created :: time

definition audit_PurgeOld ::
  "('db, audit_row) table \<Rightarrow> (string \<Rightarrow> any option) \<Rightarrow> setting list \<Rightarrow> time \<Rightarrow> 'db \<Rightarrow> 'db" where
  "audit_PurgeOld T json settings now db =
     (let cutoff = fmt_ts (days_ago now (audit_retention_days json settings)) in
      case t_all T db (\<lambda>r. ad_created r < cutoff) of
        None \<Rightarrow> db
      | Some found \<Rightarrow> delete_all T (map ad_id (take 5000 found)) db)"

definition purgeByFilter :: "('db, metric) table \<Rightarrow> (metric \<Rightarrow> bool) \<Rightarrow> 'db \<Rightarrow> 'db option" where
  "purgeByFilter T P db = purge_loop T mt_id 200 P db"

text \<open>The metric part of \<open>purgeOldData\<close>: one resolution after the other, each with its own age.\<close>

definition older :: "string \<Rightarrow> time \<Rightarrow> metric \<Rightarrow> bool" where
  "older res cutoff m \<longleftrightarrow> mt_resolution m = res \<and> mt_timestamp m < fmt_ts cutoff"

definition purgeOldMetrics :: "('db, metric) table \<Rightarrow> int \<Rightarrow> time \<Rightarrow> 'db \<Rightarrow> 'db option" where
  "purgeOldMetrics T retentionDays now db0 =
     Option.bind (purgeByFilter T (older ''raw'' (now - 48 * hour)) db0) (\<lambda>db1.
     Option.bind (purgeByFilter T (older ''1m'' (now - 7 * 24 * hour)) db1) (\<lambda>db2.
     Option.bind (purgeByFilter T (older ''5m'' (now - 14 * 24 * hour)) db2) (\<lambda>db3.
     purgeByFilter T (older ''1h'' (days_ago now retentionDays)) db3)))"

text \<open>\<open>NewDownsampler\<close> replaces a non-positive retention.\<close>

definition NewDownsampler :: "int \<Rightarrow> int" where
  "NewDownsampler retentionDays = (if retentionDays \<le> 0 then 30 else retentionDays)"

text \<open>
  The cap on log rows; \<open>order\<close> is PocketBase's sort by ascending \<open>ts\<close>. The loop counts failed
  deletions as done, so it ends whatever fails.
\<close>

function enforce_loop ::
  "(logrow list \<Rightarrow> logrow list) \<Rightarrow> ('db, logrow) table \<Rightarrow> int \<Rightarrow> int \<Rightarrow> 'db \<Rightarrow> 'db" where
  "enforce_loop order T excess deleted db =
     (if excess \<le> deleted then db
      else
        case t_all T db (\<lambda>r. lg_id r \<noteq> []) of
          None \<Rightarrow> db
        | Some found \<Rightarrow>
            (let limit = min 500 (excess - deleted);
                 records = take (nat limit) (order found)
             in if records = [] then db
                else enforce_loop order T excess (deleted + int (length records))
                       (delete_all T (map lg_id records) db)))"
  by pat_completeness auto

termination
  by (relation "measure (\<lambda>(order, T, excess, deleted, db). nat (excess - deleted))") auto

declare enforce_loop.simps [simp del]

definition EnforceMaxRows ::
  "(logrow list \<Rightarrow> logrow list) \<Rightarrow> ('db, logrow) table \<Rightarrow> (string \<Rightarrow> any option) \<Rightarrow> setting list \<Rightarrow> 'db \<Rightarrow> 'db" where
  "EnforceMaxRows order T json settings db =
     (let maxRows = resolveMaxRows json settings in
      case t_all T db (\<lambda>_. True) of
        None \<Rightarrow> db
      | Some rows \<Rightarrow>
          (let total = int (length rows) in
           if total \<le> maxRows then db else enforce_loop order T (total - maxRows) 0 db))"

section \<open>The loop under the contract\<close>

definition dels_succeed :: "('db, 'r) table \<Rightarrow> bool" where
  "dels_succeed T \<longleftrightarrow> (\<forall>db i. snd (t_del T db i))"

definition dels_fail :: "('db, 'r) table \<Rightarrow> bool" where
  "dels_fail T \<longleftrightarrow> (\<forall>db i. \<not> snd (t_del T db i))"

definition queries_succeed :: "('db, 'r) table \<Rightarrow> bool" where
  "queries_succeed T \<longleftrightarrow> (\<forall>db P. t_all T db P \<noteq> None)"

definition matching :: "('db, 'r) table \<Rightarrow> ('r \<Rightarrow> bool) \<Rightarrow> 'db \<Rightarrow> 'r set" where
  "matching T P db = {r. \<exists>i. t_find T db i = Some r \<and> P r}"

context record_table
begin

lemma delete_all_ok:
  "dels_succeed T \<Longrightarrow> t_find T (delete_all T ids db) = (\<lambda>i. if i \<in> set ids then None else t_find T db i)"
proof (induction ids arbitrary: db)
  case (Cons j ids)
  have "t_del T db j = (fst (t_del T db j), True)" using Cons.prems by (metis dels_succeed_def prod.collapse)
  from del_find [OF this] Cons show ?case by (auto simp: delete_all_def)
qed (simp add: delete_all_def)

lemma delete_all_fail: "dels_fail T \<Longrightarrow> t_find T (delete_all T ids db) = t_find T db"
proof (induction ids arbitrary: db)
  case (Cons j ids)
  have "t_del T db j = (fst (t_del T db j), False)" using Cons.prems by (metis dels_fail_def prod.collapse)
  from del_err [OF this] Cons show ?case by (simp add: delete_all_def)
qed (simp add: delete_all_def)

lemma all_matching: "t_all T db P = Some found \<Longrightarrow> set found = matching T P db \<and> length found = card (matching T P db)"
proof -
  assume a: "t_all T db P = Some found"
  have "set found = matching T P db"
    using all_set [OF a] find_ident by (auto simp: matching_def)
  moreover have "distinct found" using all_distinct [OF a] by (simp add: distinct_map)
  ultimately show ?thesis by (metis distinct_card)
qed

lemma delete_rows:
  assumes "dels_succeed T" and mem: "\<And>r. r \<in> set rs \<Longrightarrow> t_find T db (ident r) = Some r"
  shows "t_find T (delete_all T (map ident rs) db) i = Some r \<longleftrightarrow> t_find T db i = Some r \<and> r \<notin> set rs"
proof -
  have "i \<in> ident ` set rs \<longleftrightarrow> r \<in> set rs" if "t_find T db i = Some r"
    using that mem find_ident by (metis imageE image_eqI option.inject)
  then show ?thesis by (auto simp: delete_all_ok [OF assms(1)])
qed

lemma delete_matching:
  assumes "dels_succeed T" and "t_all T db P = Some found"
  shows "t_all T (delete_all T (map ident (take n found)) db) P = Some found' \<Longrightarrow> length found' = length found - n"
    and "t_find T (delete_all T (map ident (take n found)) db) i = Some r \<longleftrightarrow>
         t_find T db i = Some r \<and> r \<notin> set (take n found)"
proof -
  let ?db = "delete_all T (map ident (take n found)) db"
  have mem: "t_find T db (ident r) = Some r" if "r \<in> set (take n found)" for r
    using all_memD [OF assms(2)] in_set_takeD [OF that] by blast
  have find: "t_find T ?db i = Some r \<longleftrightarrow> t_find T db i = Some r \<and> r \<notin> set (take n found)" for i r
    by (rule delete_rows [OF assms(1) mem])
  then show "t_find T ?db i = Some r \<longleftrightarrow> t_find T db i = Some r \<and> r \<notin> set (take n found)" .
  assume f: "t_all T ?db P = Some found'"
  have "matching T P ?db = set found - set (take n found)"
    using all_matching [OF assms(2)] find unfolding matching_def by blast
  also have "\<dots> = set (drop n found)"
    using all_distinct [OF assms(2)] set_take_disj_set_drop_if_distinct [of found n n]
    by (metis Diff_triv Un_Diff append_take_drop_id distinct_map inf_commute set_append Diff_cancel Un_empty_left order_refl)
  finally have "card (matching T P ?db) = card (set (drop n found))" by simp
  also have "\<dots> = length (drop n found)" using all_distinct [OF assms(2)] by (simp add: distinct_map distinct_card)
  finally show "length found' = length found - n" using all_matching [OF f] by simp
qed

lemma purge_loop_ok:
  assumes "dels_succeed T" and "0 < n"
  shows "\<exists>db'. purge_loop T ident n P db = Some db' \<and>
    (\<forall>i r. \<not> P r \<longrightarrow> (t_find T db' i = Some r \<longleftrightarrow> t_find T db i = Some r)) \<and>
    (\<forall>i r. t_find T db' i = Some r \<longrightarrow> t_find T db i = Some r) \<and>
    (queries_succeed T \<longrightarrow> matching T P db' = {})"
proof (induction "case t_all T db P of None \<Rightarrow> 0 | Some found \<Rightarrow> length found" arbitrary: db rule: less_induct)
  case less
  show ?case
  proof (cases "t_all T db P")
    case None
    then show ?thesis by (subst purge_loop.simps) (auto simp: queries_succeed_def, metis option.distinct(1))
  next
    case (Some found)
    let ?db = "delete_all T (map ident (take n found)) db"
    note del = delete_matching [OF assms(1) Some, of n]
    have P: "P r" if "r \<in> set (take n found)" for r
      using all_memD [OF Some in_set_takeD [OF that]] by blast
    consider "found = []" | "found \<noteq> []" "length found < n" | "n \<le> length found" using not_less by blast
    then show ?thesis
    proof cases
      case 1
      with Some all_matching [OF Some] show ?thesis by (subst purge_loop.simps) auto
    next
      case 2
      then have "matching T P ?db = {}"
        using all_matching [OF Some] del(2) unfolding matching_def by auto
      moreover have "purge_loop T ident n P db = Some ?db" using 2 Some by (subst purge_loop.simps) simp
      moreover have "t_find T ?db i = Some r \<longleftrightarrow> t_find T db i = Some r" if "\<not> P r" for i r
        using that del(2) P by blast
      ultimately show ?thesis using del(2) by (intro exI [of _ ?db]) blast
    next
      case 3
      then have ne: "found \<noteq> []" using assms(2) by auto
      then have step: "purge_loop T ident n P db = purge_loop T ident n P ?db"
        using 3 Some by (subst purge_loop.simps) simp
      have "(case t_all T ?db P of None \<Rightarrow> 0 | Some found \<Rightarrow> length found) <
            (case t_all T db P of None \<Rightarrow> 0 | Some found \<Rightarrow> length found)"
        using Some del(1) ne assms(2) by (cases "t_all T ?db P") auto
      from less [OF this] obtain db' where run: "purge_loop T ident n P ?db = Some db'"
        and r: "\<forall>i r. \<not> P r \<longrightarrow> (t_find T db' i = Some r \<longleftrightarrow> t_find T ?db i = Some r)"
          "\<forall>i r. t_find T db' i = Some r \<longrightarrow> t_find T ?db i = Some r"
          "queries_succeed T \<longrightarrow> matching T P db' = {}" by blast
      have eq: "t_find T ?db i = Some r \<longleftrightarrow> t_find T db i = Some r" if "\<not> P r" for i r
        using that del(2) P by blast
      have "\<forall>i r. \<not> P r \<longrightarrow> (t_find T db' i = Some r \<longleftrightarrow> t_find T db i = Some r)"
        using r(1) eq by simp
      moreover have "\<forall>i r. t_find T db' i = Some r \<longrightarrow> t_find T db i = Some r"
        using r(2) del(2) by simp
      ultimately show ?thesis using r(3) run step by auto
    qed
  qed
qed

text \<open>When nothing can be deleted, a full batch comes back for ever.\<close>

lemma spin_step:
  assumes fails: "dels_fail T" "queries_succeed T" "0 < n"
    and IH: "\<And>db y. loop db = Some (y :: 'db) \<Longrightarrow> card (matching T P db) < n"
    and body: "(case t_all T db P of None \<Rightarrow> Some db
        | Some found \<Rightarrow> if found = [] then Some db
            else if length (take n found) < n then Some (delete_all T (map ident (take n found)) db)
            else loop (delete_all T (map ident (take n found)) db)) = Some z"
  shows "card (matching T P db) < n"
proof -
  obtain found where found: "t_all T db P = Some found" using fails(2) by (auto simp: queries_succeed_def)
  have "matching T P (delete_all T (map ident (take n found)) db) = matching T P db"
    using delete_all_fail [OF fails(1)] by (simp add: matching_def)
  then show ?thesis
    using body found IH [of "delete_all T (map ident (take n found)) db" z] all_matching [OF found] fails(3)
    by (auto split: if_splits)
qed

lemma purge_loop_spins:
  assumes "dels_fail T" and "queries_succeed T" and "0 < n" and "n \<le> card (matching T P db)"
  shows "purge_loop T ident n P db = None"
proof (rule ccontr)
  assume "purge_loop T ident n P db \<noteq> None"
  then obtain y where y: "purge_loop T ident n P db = Some y" by blast
  have "fst x = (((T, ident), n), P) \<longrightarrow> card (matching T P (snd x)) < n" if "x = ((((T, ident), n), P), db)" for x
    unfolding that
    by (rule purge_loop.raw_induct [where Pa = "\<lambda>x y. fst x = (((T, ident), n), P) \<longrightarrow> card (matching T P (snd x)) < n", OF _ y])
       (clarsimp, rule spin_step [OF assms(1-3)], auto)
  with assms(4) show False by simp
qed

end

section \<open>The cap on log rows\<close>

definition orders_by_ts :: "(logrow list \<Rightarrow> logrow list) \<Rightarrow> bool" where
  "orders_by_ts order \<longleftrightarrow> (\<forall>xs. mset (order xs) = mset xs \<and> sorted (map lg_ts (order xs)))"

text \<open>\<open>new\<close> keeps the newest rows of \<open>old\<close>.\<close>

definition keeps_newest :: "logrow set \<Rightarrow> logrow set \<Rightarrow> bool" where
  "keeps_newest old new \<longleftrightarrow> new \<subseteq> old \<and> (\<forall>d \<in> old - new. \<forall>k \<in> new. lg_ts d \<le> lg_ts k)"

lemma keeps_newest_trans: "keeps_newest a b \<Longrightarrow> keeps_newest b c \<Longrightarrow> keeps_newest a c"
  unfolding keeps_newest_def by blast

lemma sorted_take_le:
  assumes "sorted (map f xs)" and "x \<in> set (take n xs)" and "y \<in> set (drop n xs)"
  shows "f x \<le> f y"
proof -
  have "sorted (map f (take n xs) @ map f (drop n xs))" using assms(1) by (metis append_take_drop_id map_append)
  with assms(2,3) show ?thesis by (auto simp: sorted_append)
qed

lemma set_take_drop: "distinct xs \<Longrightarrow> set xs - set (take n xs) = set (drop n xs)"
  using set_take_disj_set_drop_if_distinct [of xs n n] set_append [of "take n xs" "drop n xs"] by auto

lemma drop_keeps_newest:
  assumes "distinct xs" and "sorted (map lg_ts xs)"
  shows "keeps_newest (set xs) (set (drop n xs))"
  unfolding keeps_newest_def
proof (intro conjI ballI)
  fix d k
  assume "d \<in> set xs - set (drop n xs)" and k: "k \<in> set (drop n xs)"
  then have "d \<in> set (take n xs)" using set_take_drop [OF assms(1), of n] by blast
  then show "lg_ts d \<le> lg_ts k" using sorted_take_le [OF assms(2) _ k] by blast
qed (rule set_drop_subset)

lemma enforce_loop_spec:
  assumes rt: "record_table T lg_id sid" and ok: "dels_succeed T" "queries_succeed T" and ord: "orders_by_ts order"
    and "excess - deleted \<le> int (card (matching T (\<lambda>_. True) db))"
  shows "keeps_newest (matching T (\<lambda>_. True) db) (matching T (\<lambda>_. True) (enforce_loop order T excess deleted db)) \<and>
    int (card (matching T (\<lambda>_. True) (enforce_loop order T excess deleted db))) =
      int (card (matching T (\<lambda>_. True) db)) - max 0 (excess - deleted)"
  using assms(5)
proof (induction "nat (excess - deleted)" arbitrary: deleted db rule: less_induct)
  case less
  let ?all = "\<lambda>db. matching T (\<lambda>_. True) db"
  show ?case
  proof (cases "excess \<le> deleted")
    case True
    then show ?thesis by (simp add: enforce_loop.simps keeps_newest_def)
  next
    case False
    obtain found where found: "t_all T db (\<lambda>r. lg_id r \<noteq> []) = Some found"
      using ok(2) by (auto simp: queries_succeed_def)
    have "matching T (\<lambda>r. lg_id r \<noteq> []) db = ?all db"
      using record_table.find_ident [OF rt] record_table.find_empty [OF rt] by (fastforce simp: matching_def)
    then have R: "set found = ?all db" "length found = card (?all db)"
      using record_table.all_matching [OF rt found] by simp_all
    define lim where "lim = nat (min 500 (excess - deleted))"
    let ?recs = "take lim (order found)"
    let ?db = "delete_all T (map lg_id ?recs) db"
    have o: "mset (order found) = mset found" "sorted (map lg_ts (order found))"
      using ord by (simp_all add: orders_by_ts_def)
    then have os: "set (order found) = ?all db" "length (order found) = card (?all db)"
      using R by (metis set_mset_mset, metis size_mset)
    have dist: "distinct (order found)"
      using record_table.all_distinct [OF rt found] o(1) by (metis distinct_map mset_eq_imp_distinct_iff)
    have len: "length ?recs = lim" using less.prems False os(2) by (simp add: lim_def)
    have pos: "0 < lim" "int lim \<le> excess - deleted" using False by (simp_all add: lim_def)
    have "matching T (\<lambda>_. True) ?db = ?all db - set ?recs"
    proof -
      have "t_find T db (lg_id r) = Some r" if "r \<in> set ?recs" for r
        using in_set_takeD [OF that] os(1) record_table.find_ident [OF rt] by (fastforce simp: matching_def)
      from record_table.delete_rows [OF rt ok(1) this] show ?thesis by (auto simp: matching_def)
    qed
    then have R': "?all ?db = set (drop lim (order found))"
      using set_take_drop [OF dist, of lim] os(1) by simp
    have kept: "keeps_newest (?all db) (?all ?db)"
      unfolding R' os(1) [symmetric] by (rule drop_keeps_newest [OF dist o(2)])
    have "length ?recs + length (drop lim (order found)) = length (order found)"
      by (metis append_take_drop_id length_append)
    then have card: "int (card (?all ?db)) = int (card (?all db)) - int lim"
      unfolding R' using dist os(2) len by (simp only: distinct_card distinct_drop)
    have step: "enforce_loop order T excess deleted db = enforce_loop order T excess (deleted + int lim) ?db"
      using False found len pos(1)
    proof -
      have ne: "?recs \<noteq> []" using len pos(1) by (metis length_0_conv less_irrefl)
      have "enforce_loop order T excess deleted db = enforce_loop order T excess (deleted + int (length ?recs)) ?db"
        using False found ne by (subst enforce_loop.simps) (simp add: Let_def lim_def)
      then show ?thesis by (simp only: len)
    qed
    have "nat (excess - (deleted + int lim)) < nat (excess - deleted)" using pos by simp
    moreover have "excess - (deleted + int lim) \<le> int (card (?all ?db))" using less.prems card by simp
    ultimately show ?thesis
      using less.hyps keeps_newest_trans [OF kept] card pos unfolding step by fastforce
  qed
qed

section \<open>Properties\<close>

definition row_at :: "string \<Rightarrow> time \<Rightarrow> logrow" where
  "row_at i t = \<lparr>lg_id = i, lg_agent_id = [], lg_ts = t, lg_source = [], lg_unit = [], lg_level = ''info'',
     lg_message = [], lg_fields = []\<rparr>"

definition logs_db :: "logrow list \<Rightarrow> logrow mem" where
  "logs_db rs = \<lparr>m_rows = map (\<lambda>r. (lg_id r, r)) rs, m_faults = []\<rparr>"

abbreviation sure_logs :: "(logrow mem, logrow) table" where
  "sure_logs \<equiv> sure_table lg_id set_lg_id"

lemma sure_logs_ok: "record_table sure_logs lg_id set_lg_id" "dels_succeed sure_logs" "queries_succeed sure_logs"
  using sure_table_contract [OF logs.record_table_axioms] sure_del_ok mem_all_ok(1)
  unfolding dels_succeed_def queries_succeed_def by blast+

text \<open>C11: With a retention of 1 to 106751 days the purge of the logs always returns, and if its queries
  and deletions work it leaves exactly the rows that are not older than the retention.\<close>

theorem logs_PurgeOld_exact:
  assumes "record_table T lg_id sid" and "dels_succeed T" and "queries_succeed T"
    and "1 \<le> logs_retention_days json settings" and "logs_retention_days json settings \<le> 106751"
  shows "\<exists>db'. logs_PurgeOld T json settings now db = Some db' \<and>
    (\<forall>i r. t_find T db' i = Some r \<longleftrightarrow>
       t_find T db i = Some r \<and> fmt_ts (now - logs_retention_days json settings * day) \<le> lg_ts r)"
proof -
  let ?c = "fmt_ts (now - logs_retention_days json settings * day)"
  have "logs_PurgeOld T json settings now db = purge_loop T lg_id 500 (\<lambda>r. lg_ts r < ?c) db"
    using assms(4,5) by (simp add: logs_PurgeOld_def Let_def days_ago_small)
  then show ?thesis
    using record_table.purge_loop_ok [OF assms(1,2), of 500 "\<lambda>r. lg_ts r < ?c" db] assms(3)
    unfolding matching_def by (simp add: not_less) (metis not_less)
qed

theorem logs_PurgeOld_exact_witness:
  "\<exists>db'. logs_PurgeOld sure_logs (\<lambda>_. None) [] (10 * day)
       (logs_db [row_at ''a'' (6 * day), row_at ''b'' (7 * day), row_at ''c'' (9 * day)]) = Some db' \<and>
     t_find sure_logs db' ''a'' = None \<and> t_find sure_logs db' ''b'' = Some (row_at ''b'' (7 * day))"
proof -
  let ?db = "logs_db [row_at ''a'' (6 * day), row_at ''b'' (7 * day), row_at ''c'' (9 * day)]"
  have days: "logs_retention_days (\<lambda>_. None) [] = 3" by code_simp
  then obtain db' where run: "logs_PurgeOld sure_logs (\<lambda>_. None) [] (10 * day) ?db = Some db'"
    and f: "\<forall>i r. t_find sure_logs db' i = Some r \<longleftrightarrow> t_find sure_logs ?db i = Some r \<and> fmt_ts (10 * day - 3 * day) \<le> lg_ts r"
    using logs_PurgeOld_exact [OF sure_logs_ok, of "\<lambda>_. None" "[]" "10 * day" ?db] by auto
  have a: "t_find sure_logs ?db ''a'' = Some (row_at ''a'' (6 * day))" "\<not> fmt_ts (10 * day - 3 * day) \<le> lg_ts (row_at ''a'' (6 * day))"
    and b: "t_find sure_logs ?db ''b'' = Some (row_at ''b'' (7 * day))" "fmt_ts (10 * day - 3 * day) \<le> lg_ts (row_at ''b'' (7 * day))"
    by code_simp+
  have "t_find sure_logs db' ''a'' \<noteq> Some r" for r using f [rule_format, of "''a''" r] a by auto
  then have "t_find sure_logs db' ''a'' = None" by (cases "t_find sure_logs db' ''a''") auto
  with run f b show ?thesis by blast
qed

text \<open>A retention of 106752 to 213503 days, meant to keep everything for centuries, overflows the
  64-bit duration: the cutoff lies in the future and the purge deletes every log row stored so far.\<close>

theorem huge_retention_deletes_everything:
  assumes "record_table T lg_id sid" and "dels_succeed T" and "queries_succeed T"
    and "106752 \<le> logs_retention_days json settings" and "logs_retention_days json settings \<le> 213503"
  shows "\<exists>db'. logs_PurgeOld T json settings now db = Some db' \<and>
    (\<forall>i r. t_find T db' i = Some r \<longrightarrow> t_find T db i = Some r \<and> fmt_ts now < lg_ts r)"
proof -
  let ?c = "days_ago now (logs_retention_days json settings)"
  have run: "logs_PurgeOld T json settings now db = purge_loop T lg_id 500 (\<lambda>r. lg_ts r < fmt_ts ?c) db"
    by (simp add: logs_PurgeOld_def Let_def)
  obtain db' where "purge_loop T lg_id 500 (\<lambda>r. lg_ts r < fmt_ts ?c) db = Some db'"
    and none: "matching T (\<lambda>r. lg_ts r < fmt_ts ?c) db' = {}"
    and sub: "\<forall>i r. t_find T db' i = Some r \<longrightarrow> t_find T db i = Some r"
    using record_table.purge_loop_ok [OF assms(1,2), of 500 "\<lambda>r. lg_ts r < fmt_ts ?c" db] assms(3) by auto
  moreover have "fmt_ts now < fmt_ts ?c"
  proof -
    have "now + millisecond \<le> ?c"
      using assms(4,5) days_ago_far [OF assms(4,5), of now] by simp
    then show ?thesis using fmt_ts_mono [of "now + millisecond" ?c] by (simp add: fmt_ts_def millisecond_def)
  qed
  ultimately show ?thesis unfolding run matching_def by fastforce
qed

theorem huge_retention_deletes_everything_witness:
  "\<exists>db'. logs_PurgeOld sure_logs (\<lambda>_. Some (AStr ''150000'')) [\<lparr>st_id = ''s'', st_key = ''logs_retention_days'', st_value = []\<rparr>]
       (10 * day) (logs_db [row_at ''c'' (9 * day)]) = Some db' \<and> t_find sure_logs db' ''c'' = None"
proof -
  let ?s = "[\<lparr>st_id = ''s'', st_key = ''logs_retention_days'', st_value = []\<rparr>]" and ?j = "\<lambda>_. Some (AStr ''150000'')"
  let ?db = "logs_db [row_at ''c'' (9 * day)]"
  have days: "logs_retention_days ?j ?s = 150000"
    by (simp add: logs_retention_days_def resolveIntSetting_def find_setting_def positive_int_def atoi_def
        is_digit_def digits_val_def digit_val_def time_simps)
  have "106752 \<le> logs_retention_days ?j ?s" "logs_retention_days ?j ?s \<le> 213503" unfolding days by simp_all
  from huge_retention_deletes_everything [OF sure_logs_ok this, of "10 * day" ?db]
  obtain db' where run: "logs_PurgeOld sure_logs ?j ?s (10 * day) ?db = Some db'"
    and f: "\<forall>i r. t_find sure_logs db' i = Some r \<longrightarrow> t_find sure_logs ?db i = Some r \<and> fmt_ts (10 * day) < lg_ts r"
    by blast
  have c: "t_find sure_logs ?db ''c'' = Some (row_at ''c'' (9 * day))" "\<not> fmt_ts (10 * day) < lg_ts (row_at ''c'' (9 * day))"
    by code_simp+
  have "t_find sure_logs db' ''c'' \<noteq> Some r" for r
    using f [rule_format, of "''c''" r] c by auto
  with run show ?thesis by (cases "t_find sure_logs db' ''c''") auto
qed

text \<open>C12: When deletions fail and a full batch of expired check results is there, the hourly purge of
  the check results never returns: it fetches and fails on the same batch for ever.\<close>

theorem purge_never_returns:
  assumes "record_table T cr_id sid" and "dels_fail T" and "queries_succeed T"
    and "200 \<le> card (matching T (\<lambda>r. cr_checked_at r < fmt_ts (days_ago now (checks_retention_days json settings))) db)"
  shows "purgeOldResults T json settings now db = None"
  using record_table.purge_loop_spins [OF assms(1-3) _ assms(4)] by (simp add: purgeOldResults_def Let_def)

definition old_results :: "check_result mem" where
  "old_results = \<lparr>m_rows = map (\<lambda>n. (replicate (Suc n) CHR ''x'', new_check_result)) [0..<200], m_faults = []\<rparr>"

theorem purge_never_returns_witness:
  "purgeOldResults (stuck_table cr_id set_cr_id) (\<lambda>_. None) [] (10 * day) old_results = None"
proof (rule purge_never_returns)
  let ?T = "stuck_table cr_id set_cr_id"
  show rt: "record_table ?T cr_id set_cr_id" by (rule stuck_table_contract [OF check_results.record_table_axioms])
  show "dels_fail ?T" by (simp add: dels_fail_def stuck_sel)
  show q: "queries_succeed ?T" using mem_all_ok(2) unfolding queries_succeed_def by blast
  let ?P = "\<lambda>r. cr_checked_at r < fmt_ts (days_ago (10 * day) (checks_retention_days (\<lambda>_. None) []))"
  have P: "?P (new_check_result\<lparr>cr_id := i\<rparr>)" for i
  proof -
    have "fmt_ts (days_ago (10 * day) (checks_retention_days (\<lambda>_. None) [])) = 3 * day" by code_simp
    then show ?thesis by (simp add: new_check_result_def time_simps)
  qed
  let ?f = "\<lambda>n. new_check_result\<lparr>cr_id := replicate (Suc n) CHR ''x''\<rparr>"
  have find: "t_find ?T old_results (replicate (Suc n) CHR ''x'') = Some (?f n)" if "n < 200" for n
  proof -
    have "distinct (map fst (m_rows old_results))"
      by (simp add: old_results_def comp_def distinct_map inj_on_def)
    moreover have "(replicate (Suc n) CHR ''x'', new_check_result) \<in> set (m_rows old_results)"
      using that by (auto simp: old_results_def)
    ultimately have "map_of (m_rows old_results) (replicate (Suc n) CHR ''x'') = Some new_check_result"
      by (rule map_of_is_SomeI)
    then show ?thesis by (simp add: stuck_sel mem_table_def mem_find_def set_cr_id_def)
  qed
  have sub: "?f ` {..<200} \<subseteq> matching ?T ?P old_results" using find P by (auto simp: matching_def)
  obtain found where "t_all ?T old_results ?P = Some found" using q by (auto simp: queries_succeed_def)
  then have "finite (matching ?T ?P old_results)" using record_table.all_matching [OF rt] by (metis List.finite_set)
  have "inj_on ?f {..<200}"
  proof (rule inj_onI)
    fix m n
    assume "?f m = ?f n"
    from arg_cong [OF this, of cr_id] show "m = n" by simp
  qed
  then have "card (?f ` {..<200}) = 200" by (simp add: card_image)
  with card_mono [OF \<open>finite _\<close> sub] show "200 \<le> card (matching ?T ?P old_results)" by simp
qed

text \<open>Enforcing the row cap ends whatever fails; when its calls succeed it leaves exactly the cap,
  or all rows if there were fewer, and no deleted row is newer than a kept one.\<close>

theorem EnforceMaxRows_keeps_newest:
  assumes "record_table T lg_id sid" and "dels_succeed T" and "queries_succeed T" and "orders_by_ts order"
    and "0 \<le> resolveMaxRows json settings"
  shows "keeps_newest (matching T (\<lambda>_. True) db) (matching T (\<lambda>_. True) (EnforceMaxRows order T json settings db)) \<and>
    int (card (matching T (\<lambda>_. True) (EnforceMaxRows order T json settings db))) =
      min (int (card (matching T (\<lambda>_. True) db))) (resolveMaxRows json settings)"
proof -
  obtain rows where rows: "t_all T db (\<lambda>_. True) = Some rows" using assms(3) by (auto simp: queries_succeed_def)
  then have n: "length rows = card (matching T (\<lambda>_. True) db)"
    using record_table.all_matching [OF assms(1)] by blast
  show ?thesis
  proof (cases "int (length rows) \<le> resolveMaxRows json settings")
    case True
    with rows n show ?thesis by (simp add: EnforceMaxRows_def keeps_newest_def)
  next
    case False
    with enforce_loop_spec [OF assms(1-4), of "int (length rows) - resolveMaxRows json settings" 0 db] rows n assms(5)
    show ?thesis by (simp add: EnforceMaxRows_def Let_def)
  qed
qed

theorem EnforceMaxRows_keeps_newest_witness:
  "int (card (matching sure_logs (\<lambda>_. True) (EnforceMaxRows (sort_key lg_ts) sure_logs (\<lambda>_. Some (AFloat64 2))
     [\<lparr>st_id = ''s'', st_key = ''logs_max_rows'', st_value = []\<rparr>]
     (logs_db [row_at ''a'' 5, row_at ''b'' 1, row_at ''c'' 9])))) = 2"
proof -
  let ?s = "[\<lparr>st_id = ''s'', st_key = ''logs_max_rows'', st_value = []\<rparr>]" and ?j = "\<lambda>_. Some (AFloat64 2)"
  let ?db = "logs_db [row_at ''a'' 5, row_at ''b'' 1, row_at ''c'' 9]"
  have mx: "resolveMaxRows ?j ?s = 2" by code_simp
  have "map_option length (t_all sure_logs ?db (\<lambda>_. True)) = Some 3" by code_simp
  then obtain rows where "t_all sure_logs ?db (\<lambda>_. True) = Some rows" "length rows = 3" by auto
  then have "card (matching sure_logs (\<lambda>_. True) ?db) = 3" using record_table.all_matching [OF sure_logs_ok(1)] by metis
  moreover have "orders_by_ts (sort_key lg_ts)" by (simp add: orders_by_ts_def)
  ultimately show ?thesis
    using EnforceMaxRows_keeps_newest [OF sure_logs_ok, of "sort_key lg_ts" ?j ?s ?db] mx by simp
qed

end
