(* ===== verification/Checks.thy ===== *)
theory Checks
  imports Hub_Records
begin

text \<open>
  Black-box checks (\<open>internal/hub/checks\<close>): the defaults of a check's fields, the three probers, the
  debouncing of failures, one probe attempt with its row and snapshot (\<open>RunOnce\<close>), and the runners
  that the scheduler starts and stops. What a probe sees of the network (the response of the HTTP
  client, the outcome of a dial or of ping) and the random number of the jitter are parameters. A
  runner goroutine is a token in \<open>sc_loops\<close>, marked when its context is cancelled; \<open>sc_pending\<close> holds
  the tokens that a caller has taken out of the map of runners and is about to cancel.
\<close>

section \<open>Defaults\<close>

definition intervalSeconds :: "check \<Rightarrow> int" where
  "intervalSeconds check = (let v = ck_interval_seconds check in if v < 10 then 60 else v)"

definition timeoutDuration :: "check \<Rightarrow> duration" where
  "timeoutDuration check =
     (let v = (if ck_timeout_seconds check \<le> 0 then 5 else ck_timeout_seconds check) in wrap64 (v * second))"

definition httpMethod :: "check \<Rightarrow> string" where
  "httpMethod check = (let m = ck_method check in if m \<noteq> ''GET'' \<and> m \<noteq> ''HEAD'' then ''GET'' else m)"

definition expectedStatus :: "check \<Rightarrow> int" where
  "expectedStatus check = (let v = ck_expected_status check in if v \<le> 0 then 200 else v)"

definition failuresBeforeDown :: "check \<Rightarrow> int" where
  "failuresBeforeDown check = (let v = ck_failures_before_down check in if v < 1 then 2 else v)"

definition TLSExpiryWarnDays :: "check \<Rightarrow> int" where
  "TLSExpiryWarnDays check = (let v = ck_tls_expiry_warn_days check in if v \<le> 0 then 14 else v)"

definition jitter :: "rat \<Rightarrow> duration \<Rightarrow> duration" where
  "jitter rand d =
     (if d \<le> 0 then d
      else let delta = of_int d / 10 in
           if delta \<le> 0 then d else d + trunc_rat (rand * 2 * delta - delta))"

section \<open>Probes\<close>

record probeResult =
  pr_success :: bool
  pr_latency_ms :: rat
  pr_status_code :: int
  pr_error :: string
  pr_tls_expires_at :: time

definition msFloat :: "duration \<Rightarrow> rat" where
  "msFloat d = of_int d / of_int millisecond"

text \<open>What \<open>client.Do\<close> returns: an error, or status, leaf certificate expiry and body.\<close>

record http_response =
  hr_status :: int
  hr_not_after :: "time option"
  hr_body :: string

record http_net =
  hn_request_err :: "string option"
  hn_result :: "string + http_response"
  hn_latency :: duration

text \<open>
  \<open>fmt_status\<close> renders the mismatch message; the body is read up to one mebibyte. \<open>needle\<close> is the
  field \<open>expected_body_contains\<close>.
\<close>

definition maxHTTPBodyReadBytes :: nat where
  "maxHTTPBodyReadBytes = 2 ^ 20"

definition execHTTP :: "http_net \<Rightarrow> string \<Rightarrow> check \<Rightarrow> probeResult" where
  "execHTTP net needle check =
     (case hn_request_err net of
        Some err \<Rightarrow> \<lparr>pr_success = False, pr_latency_ms = 0, pr_status_code = 0,
                      pr_error = ''invalid target: '' @ err, pr_tls_expires_at = 0\<rparr>
      | None \<Rightarrow>
          (case hn_result net of
             Inl err \<Rightarrow> \<lparr>pr_success = False, pr_latency_ms = msFloat (hn_latency net), pr_status_code = 0,
                          pr_error = err, pr_tls_expires_at = 0\<rparr>
           | Inr resp \<Rightarrow>
               (let want = expectedStatus check;
                    success = (hr_status resp = want);
                    errMsg = (if success then [] else ''unexpected status code '' @ fmt_d (hr_status resp) @
                                '' (expected '' @ fmt_d want @ '')'');
                    missing = (success \<and> needle \<noteq> [] \<and>
                               \<not> str_contains (take maxHTTPBodyReadBytes (hr_body resp)) needle)
                in \<lparr>pr_success = (success \<and> \<not> missing), pr_latency_ms = msFloat (hn_latency net),
                    pr_status_code = hr_status resp,
                    pr_error = (if missing then ''response body did not contain the expected text'' else errMsg),
                    pr_tls_expires_at = (case hr_not_after resp of None \<Rightarrow> 0 | Some t \<Rightarrow> t)\<rparr>)))"

definition execTCP :: "string option \<Rightarrow> duration \<Rightarrow> probeResult" where
  "execTCP dial_err latency =
     (case dial_err of
        Some err \<Rightarrow> \<lparr>pr_success = False, pr_latency_ms = msFloat latency, pr_status_code = 0,
                      pr_error = err, pr_tls_expires_at = 0\<rparr>
      | None \<Rightarrow> \<lparr>pr_success = True, pr_latency_ms = msFloat latency, pr_status_code = 0,
                  pr_error = [], pr_tls_expires_at = 0\<rparr>)"

text \<open>The character class \<open>[A-Za-z0-9.:_-]\<close>, and ping's arguments.\<close>

definition ping_char :: "char \<Rightarrow> bool" where
  "ping_char c \<longleftrightarrow> (let n = (of_char c :: nat) in
     (65 \<le> n \<and> n \<le> 90) \<or> (97 \<le> n \<and> n \<le> 122) \<or> (48 \<le> n \<and> n \<le> 57) \<or> c \<in> set ''.:_-'')"

definition validatePingTarget :: "string \<Rightarrow> bool" where
  "validatePingTarget target \<longleftrightarrow> target \<noteq> [] \<and> list_all ping_char target"

definition ping_args :: "string \<Rightarrow> string \<Rightarrow> duration \<Rightarrow> string list option" where
  "ping_args goos target timeout =
     (if \<not> validatePingTarget target then None
      else let timeoutSec = max 1 ((timeout + second div 2) div second)
           in Some [''-c'', ''1'', (if goos = ''darwin'' then ''-t'' else ''-W''), fmt_d timeoutSec, target])"

definition execICMP :: "string option \<Rightarrow> duration \<Rightarrow> probeResult" where
  "execICMP ping_err latency = execTCP ping_err latency"

text \<open>The dispatch on the type of the check, over what each prober sees.\<close>

record network =
  nw_http :: http_net
  nw_needle :: string
  nw_dial :: "string option"
  nw_ping :: "string option"
  nw_latency :: duration
  nw_quote :: "string \<Rightarrow> string"

definition execute :: "network \<Rightarrow> check \<Rightarrow> probeResult" where
  "execute net check =
     (if ck_type check = ''http'' then execHTTP (nw_http net) (nw_needle net) check
      else if ck_type check = ''tcp'' then execTCP (nw_dial net) (nw_latency net)
      else if ck_type check = ''icmp'' then execICMP (nw_ping net) (nw_latency net)
      else \<lparr>pr_success = False, pr_latency_ms = 0, pr_status_code = 0,
            pr_error = ''unknown check type '' @ nw_quote net (ck_type check), pr_tls_expires_at = 0\<rparr>)"

section \<open>Debouncing\<close>

definition nextDebouncedState :: "string \<Rightarrow> int \<Rightarrow> bool \<Rightarrow> int \<Rightarrow> string \<times> int" where
  "nextDebouncedState prevStatus prevConsecutiveFails success failuresBeforeDown0 =
     (let failuresBeforeDown = (if failuresBeforeDown0 < 1 then 1 else failuresBeforeDown0) in
      if success then (''up'', 0)
      else
        let consecutiveFails = prevConsecutiveFails + 1 in
        if failuresBeforeDown \<le> consecutiveFails then (''down'', consecutiveFails)
        else if prevStatus = [] then (''up'', consecutiveFails)
        else (prevStatus, consecutiveFails))"

section \<open>The scheduler\<close>

record Snapshot =
  sn_status :: string
  sn_latency_ms :: rat
  sn_status_code :: int
  sn_error :: string
  sn_tls_expires_at :: time
  sn_last_checked_at :: time

record 'db scheduler =
  sc_cancels :: "string \<Rightarrow> nat option"
  sc_loops :: "(nat \<times> string \<times> bool) list"
  sc_pending :: "nat list"
  sc_next :: nat
  sc_fails :: "string \<Rightarrow> int"
  sc_latest :: "string \<Rightarrow> Snapshot option"
  sc_db :: 'db

definition NewScheduler :: "'db \<Rightarrow> 'db scheduler" where
  "NewScheduler db = \<lparr>sc_cancels = (\<lambda>_. None), sc_loops = [], sc_pending = [], sc_next = 0, sc_fails = (\<lambda>_. 0),
     sc_latest = (\<lambda>_. None), sc_db = db\<rparr>"

text \<open>\<open>s.latest[checkID].Status\<close>: empty when the check has never run.\<close>

definition latest_status :: "'db scheduler \<Rightarrow> string \<Rightarrow> string" where
  "latest_status s checkID = (case sc_latest s checkID of None \<Rightarrow> [] | Some snap \<Rightarrow> sn_status snap)"

definition debounce :: "'db scheduler \<Rightarrow> string \<Rightarrow> bool \<Rightarrow> int \<Rightarrow> 'db scheduler \<times> string" where
  "debounce s checkID success failures =
     (let (status, fails) = nextDebouncedState (latest_status s checkID) (sc_fails s checkID) success failures
      in (s\<lparr>sc_fails := (sc_fails s)(checkID := fails)\<rparr>, status))"

definition check_row :: "string \<Rightarrow> string \<Rightarrow> probeResult \<Rightarrow> time \<Rightarrow> check_result" where
  "check_row checkID status result now =
     new_check_result\<lparr>cr_check_id := checkID, cr_status := status, cr_latency_ms := pr_latency_ms result,
       cr_status_code := pr_status_code result, cr_error := pr_error result,
       cr_tls_expires_at := fmt_ts (pr_tls_expires_at result), cr_checked_at := fmt_ts now\<rparr>"

text \<open>The result is the saved row, or \<open>None\<close> when \<open>RunOnce\<close> returns an error.\<close>

definition RunOnce ::
  "('db, check_result) table \<Rightarrow> (string \<Rightarrow> check option) \<Rightarrow> network \<Rightarrow> time \<Rightarrow> string \<Rightarrow> 'db scheduler
   \<Rightarrow> 'db scheduler \<times> check_result option" where
  "RunOnce T find_check net now checkID s =
     (case find_check checkID of
        None \<Rightarrow> (s, None)
      | Some check \<Rightarrow>
          (let result = execute net check;
               (s1, status) = debounce s checkID (pr_success result) (failuresBeforeDown check);
               record = check_row checkID status result now
           in case t_save T (sc_db s1) record of
                (db', None) \<Rightarrow> (s1\<lparr>sc_db := db'\<rparr>, None)
              | (db', Some i) \<Rightarrow>
                  (s1\<lparr>sc_db := db', sc_latest := (sc_latest s1)(checkID \<mapsto>
                     \<lparr>sn_status = status, sn_latency_ms = pr_latency_ms result,
                      sn_status_code = pr_status_code result, sn_error = pr_error result,
                      sn_tls_expires_at = pr_tls_expires_at result, sn_last_checked_at = now\<rparr>)\<rparr>,
                   Some (record\<lparr>cr_id := i\<rparr>))))"

section \<open>Runners\<close>

definition startRunner :: "string \<Rightarrow> 'db scheduler \<Rightarrow> 'db scheduler" where
  "startRunner checkID s =
     (if sc_cancels s checkID \<noteq> None then s
      else s\<lparr>sc_cancels := (sc_cancels s)(checkID \<mapsto> sc_next s),
             sc_loops := (sc_next s, checkID, False) # sc_loops s, sc_next := sc_next s + 1\<rparr>)"

definition cancel_token :: "nat \<Rightarrow> (nat \<times> string \<times> bool) list \<Rightarrow> (nat \<times> string \<times> bool) list" where
  "cancel_token n loops = map (\<lambda>(k, c, x). (k, c, x \<or> k = n)) loops"

text \<open>
  \<open>stopRunner\<close> takes the runner out of the map under the mutex and calls its \<open>cancel\<close> after unlocking,
  so other goroutines can run in between: \<open>unregister\<close> and \<open>callCancel\<close> are its two atomic steps.
\<close>

definition unregister :: "string \<Rightarrow> 'db scheduler \<Rightarrow> 'db scheduler" where
  "unregister checkID s =
     (case sc_cancels s checkID of
        None \<Rightarrow> s
      | Some n \<Rightarrow> s\<lparr>sc_cancels := (sc_cancels s)(checkID := None), sc_pending := n # sc_pending s\<rparr>)"

definition callCancel :: "nat \<Rightarrow> 'db scheduler \<Rightarrow> 'db scheduler" where
  "callCancel n s =
     (if n \<in> set (sc_pending s)
      then s\<lparr>sc_pending := removeAll n (sc_pending s), sc_loops := cancel_token n (sc_loops s)\<rparr> else s)"

definition stopRunner :: "string \<Rightarrow> 'db scheduler \<Rightarrow> 'db scheduler" where
  "stopRunner checkID s =
     (case sc_cancels s checkID of
        None \<Rightarrow> s
      | Some n \<Rightarrow> callCancel n (unregister checkID s))"

definition reloadOne :: "(string \<Rightarrow> (check \<times> bool) option) \<Rightarrow> string \<Rightarrow> 'db scheduler \<Rightarrow> 'db scheduler" where
  "reloadOne find_check checkID s =
     (let s1 = stopRunner checkID s in
      case find_check checkID of
        None \<Rightarrow> s1
      | Some (check, enabled) \<Rightarrow> if enabled then startRunner checkID s1 else s1)"

definition reloadAll :: "string list option \<Rightarrow> 'db scheduler \<Rightarrow> 'db scheduler" where
  "reloadAll enabled s = (case enabled of None \<Rightarrow> s | Some ids \<Rightarrow> fold startRunner (take 1000 ids) s)"

text \<open>\<open>Stop\<close>, likewise: the map is emptied under the mutex, then the collected functions are called.\<close>

definition registered :: "'db scheduler \<Rightarrow> nat list" where
  "registered s = map fst (filter (\<lambda>(k, c, x). sc_cancels s c = Some k) (sc_loops s))"

definition unregisterAll :: "'db scheduler \<Rightarrow> 'db scheduler" where
  "unregisterAll s = s\<lparr>sc_cancels := (\<lambda>_. None), sc_pending := registered s @ sc_pending s\<rparr>"

definition Stop :: "'db scheduler \<Rightarrow> 'db scheduler" where
  "Stop s = fold callCancel (registered s) (unregisterAll s)"

text \<open>
  One turn of \<open>runLoop\<close> of the goroutine with token \<open>n\<close>: it ends when its check cannot be read or its
  context is cancelled, and probes otherwise (\<open>tick\<close>: the timer fired first).
\<close>

definition end_loop :: "nat \<Rightarrow> 'db scheduler \<Rightarrow> 'db scheduler" where
  "end_loop n s = s\<lparr>sc_loops := filter (\<lambda>(k, c, x). k \<noteq> n) (sc_loops s)\<rparr>"

definition runLoop_turn ::
  "('db, check_result) table \<Rightarrow> (string \<Rightarrow> check option) \<Rightarrow> network \<Rightarrow> time \<Rightarrow> bool \<Rightarrow> nat \<Rightarrow> 'db scheduler
   \<Rightarrow> 'db scheduler" where
  "runLoop_turn T find_check net now tick n s =
     (case find (\<lambda>(k, c, x). k = n) (sc_loops s) of
        None \<Rightarrow> s
      | Some (_, checkID, cancelled) \<Rightarrow>
          (case find_check checkID of
             None \<Rightarrow> end_loop n s
           | Some _ \<Rightarrow>
               if tick then fst (RunOnce T find_check net now checkID s)
               else if cancelled then end_loop n s else s))"

end
