(* ===== verification/Check_Routes.thy ===== *)
theory Check_Routes
  imports Checks Authz
begin

text \<open>
  The check routes (\<open>internal/hub/api/checks_routes.go\<close>): the summary with its fallback from the
  in-memory snapshot to the last saved row, the on-demand run, and the downsampled series; then the
  properties of the checks component.
\<close>

section \<open>The routes\<close>

text \<open>\<open>math.Round(v*100)/100\<close>: to the nearest, half away from zero.\<close>

definition roundTo2 :: "rat \<Rightarrow> rat" where
  "roundTo2 v = of_int (if v < 0 then - \<lfloor>- v * 100 + 1 / 2\<rfloor> else \<lfloor>v * 100 + 1 / 2\<rfloor>) / 100"

text \<open>\<open>newest\<close> stands for PocketBase's sort by descending \<open>checked_at\<close>, \<open>oldest\<close> for the ascending one.\<close>

definition latestCheckResultRecord ::
  "(check_result list \<Rightarrow> check_result list) \<Rightarrow> check_result list option \<Rightarrow> string \<Rightarrow> check_result option" where
  "latestCheckResultRecord newest rows checkID =
     (case rows of
        None \<Rightarrow> None
      | Some rs \<Rightarrow> (case take 1 (newest (filter (\<lambda>r. cr_check_id r = checkID) rs)) of [] \<Rightarrow> None | r # _ \<Rightarrow> Some r))"

definition computeUptime :: "check_result list option \<Rightarrow> string \<Rightarrow> time \<Rightarrow> duration \<Rightarrow> rat" where
  "computeUptime rows checkID now window =
     (let since = fmt_ts (now - window) in
      case map_option (\<lambda>rs. take 20000 (filter (\<lambda>r. cr_check_id r = checkID \<and> since \<le> cr_checked_at r) rs)) rows of
        None \<Rightarrow> 0
      | Some records \<Rightarrow>
          if records = [] then 0
          else roundTo2 (of_nat (length (filter (\<lambda>r. cr_status r = ''up'') records)) / of_nat (length records) * 100))"

record checkSummaryEntry =
  ce_id :: string
  ce_status :: string
  ce_latency_ms :: rat
  ce_last_checked_at :: time
  ce_tls_expires_at :: time
  ce_cert_expiring_soon :: bool
  ce_uptime_24h :: rat
  ce_uptime_7d :: rat
  ce_enabled :: bool

definition check_summary_entry ::
  "(check_result list \<Rightarrow> check_result list) \<Rightarrow> check_result list option \<Rightarrow> (string \<Rightarrow> Snapshot option) \<Rightarrow> time
   \<Rightarrow> check \<Rightarrow> checkSummaryEntry" where
  "check_summary_entry newest rows snapshot now c =
     (let (status, latency, checked, tls) =
        (case snapshot (ck_id c) of
           Some snap \<Rightarrow> (sn_status snap, roundTo2 (sn_latency_ms snap), sn_last_checked_at snap, sn_tls_expires_at snap)
         | None \<Rightarrow>
             (case latestCheckResultRecord newest rows (ck_id c) of
                None \<Rightarrow> ([], 0, 0, 0)
              | Some r \<Rightarrow> (cr_status r, roundTo2 (cr_latency_ms r), cr_checked_at r, cr_tls_expires_at r)))
      in \<lparr>ce_id = ck_id c, ce_status = status, ce_latency_ms = latency, ce_last_checked_at = checked,
          ce_tls_expires_at = tls,
          ce_cert_expiring_soon = (tls \<noteq> 0 \<and>
             of_int (t_sub tls now) / of_int hour / 24 \<le> (of_int (TLSExpiryWarnDays c) :: rat)),
          ce_uptime_24h = computeUptime rows (ck_id c) now (24 * hour),
          ce_uptime_7d = computeUptime rows (ck_id c) now (7 * 24 * hour),
          ce_enabled = ck_enabled c\<rparr>)"

definition handleChecksSummary ::
  "(check_result list \<Rightarrow> check_result list) \<Rightarrow> check list option \<Rightarrow> check_result list option
   \<Rightarrow> (string \<Rightarrow> Snapshot option) \<Rightarrow> time \<Rightarrow> checkSummaryEntry list option" where
  "handleChecksSummary newest checks rows snapshot now =
     map_option (\<lambda>cs. map (check_summary_entry newest rows snapshot now) (take 1000 cs)) checks"

text \<open>The on-demand run behind \<open>RequireRole(RoleOperator)\<close>.\<close>

definition handleRunCheck ::
  "bool \<Rightarrow> ('db, check_result) table \<Rightarrow> (string \<Rightarrow> check option) \<Rightarrow> network \<Rightarrow> time \<Rightarrow> auth option \<Rightarrow> string
   \<Rightarrow> 'db scheduler \<Rightarrow> 'db scheduler \<times> http_out" where
  "handleRunCheck write_err T find_check net now auth checkID s =
     RequireRole RoleOperator auth s (\<lambda>s.
       if checkID = [] then (s, reply write_err 400)
       else case find_check checkID of
         None \<Rightarrow> (s, reply write_err 404)
       | Some _ \<Rightarrow>
           (case RunOnce T find_check net now checkID s of
              (s', None) \<Rightarrow> (s', reply write_err 500\<lparr>hx_audit := [(''check.run'', checkID)]\<rparr>)
            | (s', Some _) \<Rightarrow> (s', reply write_err 200\<lparr>hx_audit := [(''check.run'', checkID)]\<rparr>)))"

text \<open>The series: every \<open>step\<close>-th point once there are more than \<open>maxPoints\<close>.\<close>

function every_nth :: "nat \<Rightarrow> 'a list \<Rightarrow> 'a list" where
  "every_nth step xs = (if xs = [] then [] else hd xs # every_nth step (drop (max 1 step) xs))"
  by pat_completeness auto

termination
  by (relation "measure (\<lambda>(step, xs). length xs)") auto

declare every_nth.simps [simp del]

definition maxPoints :: nat where
  "maxPoints = 500"

definition sample_points :: "'a list \<Rightarrow> 'a list" where
  "sample_points points =
     (if maxPoints < length points then
        (let step = length points div maxPoints; step = (if step < 1 then 1 else step)
         in every_nth step points)
      else points)"

definition handleCheckResults ::
  "(check_result list \<Rightarrow> check_result list) \<Rightarrow> (string \<Rightarrow> check option) \<Rightarrow> check_result list option \<Rightarrow> string \<Rightarrow> string
   \<Rightarrow> time \<Rightarrow> int + (time \<times> rat \<times> string) list" where
  "handleCheckResults oldest find_check rows checkID range_param now =
     (if checkID = [] then Inl 400
      else if find_check checkID = None then Inl 404
      else
        let window = (if range_param = ''7d'' then 7 * 24 * hour else 24 * hour);
            since = fmt_ts (now - window)
        in case rows of
             None \<Rightarrow> Inl 500
           | Some rs \<Rightarrow>
               Inr (sample_points (map (\<lambda>r. (cr_checked_at r, roundTo2 (cr_latency_ms r), cr_status r))
                 (take 20000 (oldest (filter (\<lambda>r. cr_check_id r = checkID \<and> since \<le> cr_checked_at r) rs))))))"

section \<open>Runs of probes\<close>

definition run_probes ::
  "('db, check_result) table \<Rightarrow> (string \<Rightarrow> check option) \<Rightarrow> (network \<times> time \<times> string) list \<Rightarrow> 'db scheduler
   \<Rightarrow> 'db scheduler" where
  "run_probes T find_check probes s =
     fold (\<lambda>(net, now, c) s. fst (RunOnce T find_check net now c s)) probes s"

definition outcomes :: "check \<Rightarrow> string \<Rightarrow> (network \<times> time \<times> string) list \<Rightarrow> bool list" where
  "outcomes check c probes = map (\<lambda>(net, _, _). pr_success (execute net check)) (filter (\<lambda>(_, _, d). d = c) probes)"

text \<open>The failures since the last success.\<close>

definition trailing :: "bool list \<Rightarrow> int" where
  "trailing bs = int (length (takeWhile Not (rev bs)))"

definition verdict :: "check \<Rightarrow> bool list \<Rightarrow> string" where
  "verdict check bs = (if failuresBeforeDown check \<le> trailing bs then ''down'' else ''up'')"

lemma trailing_snoc [simp]: "trailing (bs @ [b]) = (if b then 0 else trailing bs + 1)"
  by (simp add: trailing_def)

lemma trailing_Nil [simp]: "trailing [] = 0"
  by (simp add: trailing_def)

lemma failures_pos: "1 \<le> failuresBeforeDown check"
  by (simp add: failuresBeforeDown_def Let_def)

definition probe_inv :: "check \<Rightarrow> string \<Rightarrow> bool list \<Rightarrow> 'db scheduler \<Rightarrow> bool" where
  "probe_inv check c bs s \<longleftrightarrow> sc_fails s c = trailing bs \<and> latest_status s c = (if bs = [] then [] else verdict check bs)"

lemma RunOnce_cases:
  assumes "find_check c = Some check" and "saves_succeed T"
  obtains db' i where
    "RunOnce T find_check net now c s =
      (let status = fst (nextDebouncedState (latest_status s c) (sc_fails s c) (pr_success (execute net check)) (failuresBeforeDown check));
           result = execute net check in
       (s\<lparr>sc_fails := (sc_fails s)(c := snd (nextDebouncedState (latest_status s c) (sc_fails s c) (pr_success (execute net check)) (failuresBeforeDown check))),
          sc_db := db',
          sc_latest := (sc_latest s)(c \<mapsto> \<lparr>sn_status = status, sn_latency_ms = pr_latency_ms result,
             sn_status_code = pr_status_code result, sn_error = pr_error result,
             sn_tls_expires_at = pr_tls_expires_at result, sn_last_checked_at = now\<rparr>)\<rparr>,
        Some (check_row c status result now\<lparr>cr_id := i\<rparr>)))"
proof -
  let ?nd = "nextDebouncedState (latest_status s c) (sc_fails s c) (pr_success (execute net check)) (failuresBeforeDown check)"
  obtain db' i where "t_save T (sc_db s) (check_row c (fst ?nd) (execute net check) now) = (db', Some i)"
    using saves_succeedD [OF assms(2), of "sc_db s" "check_row c (fst ?nd) (execute net check) now"]
    by (cases "t_save T (sc_db s) (check_row c (fst ?nd) (execute net check) now)") auto
  then show thesis
    by (intro that [of db' i]) (simp add: RunOnce_def assms(1) debounce_def Let_def split_beta)
qed

lemma debounce_verdict:
  assumes "probe_inv check c bs s"
  shows "nextDebouncedState (latest_status s c) (sc_fails s c) b (failuresBeforeDown check) =
    (verdict check (bs @ [b]), trailing (bs @ [b]))"
  using assms failures_pos [of check]
  by (auto simp: probe_inv_def nextDebouncedState_def verdict_def Let_def)

lemma RunOnce_other: "d \<noteq> c \<Longrightarrow> sc_fails (fst (RunOnce T fc net now d s)) c = sc_fails s c \<and>
    latest_status (fst (RunOnce T fc net now d s)) c = latest_status s c"
  by (auto simp: RunOnce_def debounce_def latest_status_def Let_def split_beta
      split: option.splits prod.splits)

lemma outcomes_snoc [simp]:
  "outcomes check c (probes @ [(net, now, d)]) =
     outcomes check c probes @ (if d = c then [pr_success (execute net check)] else [])"
  by (simp add: outcomes_def)

lemma run_probes_snoc:
  "run_probes T fc (probes @ [(net, now, d)]) s = fst (RunOnce T fc net now d (run_probes T fc probes s))"
  by (simp add: run_probes_def)

lemma latest_upd [simp]:
  "latest_status (s\<lparr>sc_fails := f, sc_db := d, sc_latest := m(c \<mapsto> snap)\<rparr>) c = sn_status snap"
  by (simp add: latest_status_def)

lemma probe_step:
  assumes "find_check c = Some check" and "saves_succeed T" and "probe_inv check c bs s"
  shows "probe_inv check c (bs @ [pr_success (execute net check)]) (fst (RunOnce T find_check net now c s)) \<and>
    (\<exists>row. snd (RunOnce T find_check net now c s) = Some row \<and> cr_check_id row = c \<and>
       cr_status row = verdict check (bs @ [pr_success (execute net check)]))"
  by (rule RunOnce_cases [where find_check = find_check and c = c, OF assms(1,2), of net now s])
     (simp add: debounce_verdict [OF assms(3)] probe_inv_def Let_def check_row_def)

lemma run_probe_inv:
  assumes "find_check c = Some check" and "saves_succeed T"
  shows "probe_inv check c (outcomes check c probes) (run_probes T find_check probes (NewScheduler db))"
proof (induction probes rule: rev_induct)
  case Nil
  then show ?case by (simp add: probe_inv_def outcomes_def run_probes_def NewScheduler_def latest_status_def)
next
  case (snoc x probes)
  obtain net now d where x: "x = (net, now, d)" by (cases x)
  show ?case
  proof (cases "d = c")
    case False
    with snoc show ?thesis by (simp add: probe_inv_def x run_probes_snoc RunOnce_other [OF False])
  next
    case True
    from probe_step [where find_check = find_check and c = c, OF assms snoc] True show ?thesis by (simp add: x run_probes_snoc)
  qed
qed

section \<open>Runners\<close>

text \<open>
  Every interleaving of the goroutines at the mutex: the hooks and \<open>Start\<close> register and unregister
  runners, a caller that unregistered a runner cancels it at some later moment, runners take turns, and
  the run-now route probes. \<open>reloadOne\<close>, \<open>stopRunner\<close> and \<open>Stop\<close> are runs of these steps.
\<close>

inductive runs :: "'db scheduler \<Rightarrow> bool" where
  new: "runs (NewScheduler db)"
| start: "runs s \<Longrightarrow> runs (startRunner c s)"
| unregister: "runs s \<Longrightarrow> runs (unregister c s)"
| unregisterAll: "runs s \<Longrightarrow> runs (unregisterAll s)"
| cancel: "runs s \<Longrightarrow> runs (callCancel n s)"
| turn: "runs s \<Longrightarrow> runs (runLoop_turn T fd net now tick n s)"
| probe: "runs s \<Longrightarrow> runs (fst (RunOnce T fd net now c s))"

lemma runs_start_fold: "runs s \<Longrightarrow> runs (fold startRunner cs s)"
  by (induction cs arbitrary: s) (auto intro: runs.start)

lemma runs_cancel_fold: "runs s \<Longrightarrow> runs (fold callCancel ns s)"
  by (induction ns arbitrary: s) (auto intro: runs.cancel)

lemma runs_stop: "runs s \<Longrightarrow> runs (stopRunner c s)"
  by (auto simp: stopRunner_def split: option.splits intro: runs.unregister runs.cancel)

lemma runs_composed:
  assumes "runs s"
  shows "runs (reloadAll ids s)" and "runs (reloadOne fc c s)" and "runs (stopRunner c s)" and "runs (Stop s)"
  using assms
  by (auto simp: reloadAll_def reloadOne_def Stop_def Let_def split: option.splits
      intro: runs_stop runs_start_fold runs_cancel_fold runs.start runs.unregisterAll)

text \<open>
  Tokens are fresh and used once; a live runner is the registered one of its check, or its cancellation
  is pending.
\<close>

definition runner_inv :: "'db scheduler \<Rightarrow> bool" where
  "runner_inv s \<longleftrightarrow> distinct (map fst (sc_loops s)) \<and> (\<forall>(k, c, x) \<in> set (sc_loops s). k < sc_next s) \<and>
     (\<forall>c k. sc_cancels s c = Some k \<longrightarrow> k < sc_next s) \<and>
     (\<forall>(k, c, x) \<in> set (sc_loops s). \<not> x \<longrightarrow> sc_cancels s c = Some k \<or> k \<in> set (sc_pending s))"

lemma runner_invD:
  assumes "runner_inv s" and "(k, c, False) \<in> set (sc_loops s)"
  shows "sc_cancels s c = Some k \<or> k \<in> set (sc_pending s)"
proof -
  have "\<forall>y \<in> set (sc_loops s). case y of (k, c, x) \<Rightarrow> \<not> x \<longrightarrow> sc_cancels s c = Some k \<or> k \<in> set (sc_pending s)"
    using assms(1) unfolding runner_inv_def by (elim conjE)
  from bspec [OF this assms(2)] show ?thesis by simp
qed

lemma runner_invI:
  assumes "distinct (map fst (sc_loops s))" and "\<And>k c x. (k, c, x) \<in> set (sc_loops s) \<Longrightarrow> k < sc_next s"
    and "\<And>c k. sc_cancels s c = Some k \<Longrightarrow> k < sc_next s"
    and "\<And>k c. (k, c, False) \<in> set (sc_loops s) \<Longrightarrow> sc_cancels s c = Some k \<or> k \<in> set (sc_pending s)"
  shows "runner_inv s"
  unfolding runner_inv_def
proof (intro conjI)
  show "\<forall>(k, c, x) \<in> set (sc_loops s). k < sc_next s" using assms(2) by auto
  show "\<forall>(k, c, x) \<in> set (sc_loops s). \<not> x \<longrightarrow> sc_cancels s c = Some k \<or> k \<in> set (sc_pending s)"
    by (auto dest: assms(4))
qed (use assms(1,3) in auto)

lemma runner_bounds:
  assumes "runner_inv s"
  shows "distinct (map fst (sc_loops s))" and "(k, c, x) \<in> set (sc_loops s) \<Longrightarrow> k < sc_next s"
    and "sc_cancels s c = Some k \<Longrightarrow> k < sc_next s"
  using assms unfolding runner_inv_def by blast+

lemma start_inv:
  assumes "runner_inv s"
  shows "runner_inv (startRunner c s)"
proof (cases "sc_cancels s c")
  case None
  note b = runner_bounds [OF assms]
  show ?thesis
  proof (rule runner_invI)
    show "distinct (map fst (sc_loops (startRunner c s)))" using None b(1,2) by (fastforce simp: startRunner_def)
    show "k < sc_next (startRunner c s)" if "(k, d, x) \<in> set (sc_loops (startRunner c s))" for k d x
      using that None b(2) by (fastforce simp: startRunner_def less_Suc_eq)
    show "k < sc_next (startRunner c s)" if "sc_cancels (startRunner c s) d = Some k" for d k
      using that None b(3) [of d k] by (auto simp: startRunner_def split: if_splits)
    show "sc_cancels (startRunner c s) d = Some k \<or> k \<in> set (sc_pending (startRunner c s))"
      if "(k, d, False) \<in> set (sc_loops (startRunner c s))" for k d
      using that None runner_invD [OF assms, of k d] by (auto simp: startRunner_def)
  qed
qed (use assms in \<open>simp add: startRunner_def\<close>)

lemma fst_cancel [simp]: "map fst (cancel_token n loops) = map fst loops"
  by (simp add: cancel_token_def comp_def split_beta)

lemma unregister_inv:
  assumes "runner_inv s"
  shows "runner_inv (unregister c s)"
proof (cases "sc_cancels s c")
  case (Some n)
  show ?thesis
  proof (rule runner_invI)
    fix k d
    assume "(k, d, False) \<in> set (sc_loops (unregister c s))"
    with Some show "sc_cancels (unregister c s) d = Some k \<or> k \<in> set (sc_pending (unregister c s))"
      using runner_invD [OF assms, of k d] by (cases "d = c") (auto simp: unregister_def)
  qed (use Some runner_bounds [OF assms] in \<open>auto simp: unregister_def split: if_splits\<close>)
qed (use assms in \<open>simp add: unregister_def\<close>)

lemma cancel_token_mem:
  "(k, c, False) \<in> set (cancel_token n loops) \<longleftrightarrow> (k, c, False) \<in> set loops \<and> k \<noteq> n"
  "(k, c, x) \<in> set (cancel_token n loops) \<Longrightarrow> \<exists>y. (k, c, y) \<in> set loops"
  by (induction loops) (auto simp: cancel_token_def)

lemma cancel_inv:
  assumes "runner_inv s"
  shows "runner_inv (callCancel n s)"
proof (cases "n \<in> set (sc_pending s)")
  case True
  show ?thesis
  proof (rule runner_invI)
    show "k < sc_next (callCancel n s)" if "(k, c, x) \<in> set (sc_loops (callCancel n s))" for k c x
      using that True runner_bounds(2) [OF assms] cancel_token_mem(2) by (fastforce simp: callCancel_def)
    show "sc_cancels (callCancel n s) c = Some k \<or> k \<in> set (sc_pending (callCancel n s))"
      if "(k, c, False) \<in> set (sc_loops (callCancel n s))" for k c
      using that True runner_invD [OF assms, of k c] by (auto simp: callCancel_def cancel_token_mem(1))
  qed (use True runner_bounds [OF assms] in \<open>auto simp: callCancel_def\<close>)
qed (simp add: callCancel_def assms)

lemma unregisterAll_inv:
  assumes "runner_inv s"
  shows "runner_inv (unregisterAll s)"
proof (rule runner_invI)
  fix k c
  assume "(k, c, False) \<in> set (sc_loops (unregisterAll s))"
  then have "k \<in> set (sc_pending s) \<or> k \<in> set (registered s)"
    using runner_invD [OF assms, of k c] by (force simp: unregisterAll_def registered_def)
  then show "sc_cancels (unregisterAll s) c = Some k \<or> k \<in> set (sc_pending (unregisterAll s))"
    by (auto simp: unregisterAll_def)
qed (use runner_bounds [OF assms] in \<open>auto simp: unregisterAll_def\<close>)

lemma end_inv: "runner_inv s \<Longrightarrow> runner_inv (end_loop n s)"
  by (auto simp: runner_inv_def end_loop_def distinct_map intro: inj_on_subset)

lemma probe_keeps: "sc_loops (fst (RunOnce T fd net now c s)) = sc_loops s \<and>
    sc_cancels (fst (RunOnce T fd net now c s)) = sc_cancels s \<and> sc_next (fst (RunOnce T fd net now c s)) = sc_next s \<and>
    sc_pending (fst (RunOnce T fd net now c s)) = sc_pending s"
  by (auto simp: RunOnce_def debounce_def Let_def split_beta split: option.splits prod.splits)

lemma probe_runner_inv: "runner_inv s \<Longrightarrow> runner_inv (fst (RunOnce T fd net now c s))"
  by (simp add: runner_inv_def probe_keeps)

lemma runs_inv: "runs s \<Longrightarrow> runner_inv s"
proof (induction rule: runs.induct)
  case (new db)
  then show ?case by (simp add: runner_inv_def NewScheduler_def)
next
  case (turn s T fd net now tick n)
  then show ?case
    by (auto simp: runLoop_turn_def split: option.splits intro: end_inv probe_runner_inv)
qed (auto intro: start_inv unregister_inv unregisterAll_inv cancel_inv probe_runner_inv)

section \<open>Properties\<close>

text \<open>As long as results can be saved, the status a probe stores and publishes is ''down'' exactly
  when the failures since the check's last success, this probe included, have reached its
  \<open>failures_before_down\<close>; probes of other checks do not count.\<close>

theorem status_counts_trailing_failures:
  assumes "find_check c = Some check" and "saves_succeed T"
  shows "\<exists>row. snd (RunOnce T find_check net now c (run_probes T find_check probes (NewScheduler db))) = Some row \<and>
    cr_check_id row = c \<and>
    cr_status row = (if failuresBeforeDown check \<le> trailing (outcomes check c (probes @ [(net, now, c)]))
                     then ''down'' else ''up'') \<and>
    latest_status (fst (RunOnce T find_check net now c (run_probes T find_check probes (NewScheduler db)))) c =
      cr_status row"
proof -
  let ?r = "RunOnce T find_check net now c (run_probes T find_check probes (NewScheduler db))"
  let ?bs = "outcomes check c (probes @ [(net, now, c)])"
  have "probe_inv check c ?bs (fst ?r) \<and>
      (\<exists>row. snd ?r = Some row \<and> cr_check_id row = c \<and> cr_status row = verdict check ?bs)"
    using probe_step [where find_check = find_check and c = c, OF assms
        run_probe_inv [where find_check = find_check and c = c, OF assms],
        where net = net and now = now] by simp
  moreover have "?bs \<noteq> []" by simp
  ultimately show ?thesis by (auto simp: probe_inv_def verdict_def simp del: outcomes_snoc)
qed

definition sample_net :: "bool \<Rightarrow> network" where
  "sample_net ok = \<lparr>nw_http = \<lparr>hn_request_err = None, hn_result = Inl ''refused'', hn_latency = 0\<rparr>, nw_needle = [],
     nw_dial = (if ok then None else Some ''refused''), nw_ping = None, nw_latency = millisecond, nw_quote = (\<lambda>s. s)\<rparr>"

definition tcp_check :: check where
  "tcp_check = \<lparr>ck_id = ''c1'', ck_name = ''db'', ck_type = ''tcp'', ck_target = ''h:1'', ck_interval_seconds = 60,
     ck_timeout_seconds = 5, ck_method = [], ck_expected_status = 0, ck_tls_expiry_warn_days = 0,
     ck_failures_before_down = 2, ck_enabled = True, ck_tags = []\<rparr>"

theorem status_counts_trailing_failures_witness:
  "map_option cr_status (snd (RunOnce (sure_table cr_id set_cr_id) (\<lambda>_. Some tcp_check) (sample_net False) 9 ''c1''
     (run_probes (sure_table cr_id set_cr_id) (\<lambda>_. Some tcp_check)
        [(sample_net True, 1, ''c1''), (sample_net False, 2, ''c1''), (sample_net True, 3, ''c2'')]
        (NewScheduler \<lparr>m_rows = [], m_faults = []\<rparr>)))) = Some ''down''"
proof -
  let ?p = "[(sample_net True, 1, ''c1''), (sample_net False, 2, ''c1''), (sample_net True, 3, ''c2'')]"
  have "failuresBeforeDown tcp_check \<le> trailing (outcomes tcp_check ''c1'' (?p @ [(sample_net False, 9, ''c1'')]))"
    by code_simp
  then show ?thesis
    using status_counts_trailing_failures [where find_check = "\<lambda>_. Some tcp_check" and c = "''c1''" and check = tcp_check
        and net = "sample_net False" and now = 9 and probes = ?p and db = "\<lparr>m_rows = [], m_faults = []\<rparr>",
        OF refl sure_saves [of cr_id set_cr_id]]
    by auto
qed

text \<open>C13: However checks are created, edited, deleted and probed, with the goroutines interleaved at the
  mutex, all runners of a check that are not cancelled but one have been taken out of the map by a caller
  that is about to cancel them; so at most one runner of a check is live whenever no such call is under way.\<close>

theorem at_most_one_runner:
  assumes "runs s"
  shows "length (filter (\<lambda>(k, d, cancelled). d = c \<and> \<not> cancelled \<and> k \<notin> set (sc_pending s)) (sc_loops s)) \<le> 1 \<and>
    (sc_pending s = [] \<longrightarrow> length (filter (\<lambda>(k, d, cancelled). d = c \<and> \<not> cancelled) (sc_loops s)) \<le> 1)"
proof -
  let ?live = "filter (\<lambda>(k, d, cancelled). d = c \<and> \<not> cancelled \<and> k \<notin> set (sc_pending s)) (sc_loops s)"
  have inv: "runner_inv s" by (rule runs_inv [OF assms])
  have one: "length ?live \<le> 1"
  proof (rule distinct_same_key)
    show "distinct (map fst ?live)" using inv by (simp add: runner_inv_def distinct_map_filter)
    fix a b
    assume "a \<in> set ?live" "b \<in> set ?live"
    then have "(fst a, c, False) \<in> set (sc_loops s)" "(fst b, c, False) \<in> set (sc_loops s)"
        "fst a \<notin> set (sc_pending s)" "fst b \<notin> set (sc_pending s)" by auto
    then have "sc_cancels s c = Some (fst a)" "sc_cancels s c = Some (fst b)"
      using runner_invD [OF inv] by blast+
    then show "fst a = fst b" by simp
  qed
  then show ?thesis by auto
qed

theorem at_most_one_runner_witness:
  "length (filter (\<lambda>(k, d, cancelled). d = ''c1'' \<and> \<not> cancelled)
     (sc_loops (reloadOne (\<lambda>_. Some (tcp_check, True)) ''c1'' (reloadAll (Some [''c1'', ''c1'']) (NewScheduler ()))))) = 1"
proof -
  let ?s = "reloadOne (\<lambda>_. Some (tcp_check, True)) ''c1'' (reloadAll (Some [''c1'', ''c1'']) (NewScheduler ()))"
  have "runs ?s" by (intro runs_composed runs.new)
  moreover have "sc_pending ?s = []" by code_simp
  moreover have "filter (\<lambda>(k, d, cancelled). d = ''c1'' \<and> \<not> cancelled) (sc_loops ?s) \<noteq> []" by code_simp
  then have "1 \<le> length (filter (\<lambda>(k, d, cancelled). d = ''c1'' \<and> \<not> cancelled) (sc_loops ?s))"
    by (cases "filter (\<lambda>(k, d, cancelled). d = ''c1'' \<and> \<not> cancelled) (sc_loops ?s)") simp_all
  ultimately show ?thesis using at_most_one_runner [of ?s "''c1''"] by (intro antisym) blast+
qed

text \<open>Two edits of one check at the same time: the second reload runs entirely between the unlock and the
  \<open>cancel\<close> of the first, and for that moment both the old and the new runner of the check are live.\<close>

lemma two_runners_for_a_moment:
  "let s = startRunner ''c1'' (unregister ''c1'' (startRunner ''c1'' (NewScheduler ())))
   in runs s \<and> filter (\<lambda>(k, d, cancelled). d = ''c1'' \<and> \<not> cancelled) (sc_loops s) = [(1, ''c1'', False), (0, ''c1'', False)]"
  unfolding Let_def
proof
  show "runs (startRunner ''c1'' (unregister ''c1'' (startRunner ''c1'' (NewScheduler ()))))" by (intro runs.intros)
qed code_simp

text \<open>A runner that fails to read its check once, for whatever reason, ends for good: the check is
  still registered as running, so neither starting it again nor reloading all checks runs it.\<close>

theorem unreadable_check_stops_for_good:
  assumes "runs s" and "sc_pending s = []" and "(n, c, False) \<in> set (sc_loops s)" and "find_check c = None"
  shows "\<not> (\<exists>k. (k, c, False) \<in> set (sc_loops (reloadAll ids (runLoop_turn T find_check net now tick n s))))"
proof -
  have inv: "runner_inv s" by (rule runs_inv [OF assms(1)])
  have live_registered: "sc_cancels s d = Some k" if "(k, d, False) \<in> set (sc_loops s)" for k d
    using runner_invD [OF inv that] assms(2) by simp
  have "find (\<lambda>(k, c, x). k = n) (sc_loops s) = Some (n, c, False)"
  proof -
    obtain k d x where f: "find (\<lambda>(k, c, x). k = n) (sc_loops s) = Some (k, d, x)"
      using assms(3) by (cases "find (\<lambda>(k, c, x). k = n) (sc_loops s)") (auto simp: find_None_iff)
    then have "k = n" "(k, d, x) \<in> set (sc_loops s)" by (auto simp: find_Some_iff) (metis nth_mem)
    moreover have "inj_on fst (set (sc_loops s))" using inv by (simp add: runner_inv_def distinct_map)
    ultimately have "(k, d, x) = (n, c, False)" using assms(3) by (metis fst_conv inj_onD)
    with f show ?thesis by simp
  qed
  then have turn: "runLoop_turn T find_check net now tick n s = end_loop n s"
    using assms(4) by (simp add: runLoop_turn_def)
  have reg: "sc_cancels s c = Some n" by (rule live_registered [OF assms(3)])
  have none: "(k, c, False) \<notin> set (sc_loops (end_loop n s)) \<and> sc_cancels (end_loop n s) c = Some n" for k
  proof -
    have "k = n" if "(k, c, False) \<in> set (sc_loops s)"
      using live_registered [OF that] reg by simp
    with reg show ?thesis by (auto simp: end_loop_def)
  qed
  have more: "(k, c, False) \<notin> set (sc_loops (fold startRunner cs s')) \<and> sc_cancels (fold startRunner cs s') c = Some n"
    if "(k, c, False) \<notin> set (sc_loops s') \<and> sc_cancels s' c = Some n" for k cs s'
    using that
  proof (induction cs arbitrary: s')
    case (Cons d cs)
    have "(k, c, False) \<notin> set (sc_loops (startRunner d s')) \<and> sc_cancels (startRunner d s') c = Some n"
      using Cons.prems by (cases "d = c") (simp_all add: startRunner_def)
    from Cons.IH [OF this] show ?case by simp
  qed simp
  show ?thesis
  proof (cases ids)
    case None
    with none show ?thesis by (simp add: turn reloadAll_def)
  next
    case (Some l)
    with more [OF none] show ?thesis unfolding turn reloadAll_def by simp
  qed
qed

theorem unreadable_check_stops_for_good_witness:
  "\<not> (\<exists>k. (k, ''c1'', False) \<in> set (sc_loops (reloadAll (Some [''c1''])
      (runLoop_turn (sure_table cr_id set_cr_id) (\<lambda>_. None) (sample_net True) 5 False 0
        (reloadAll (Some [''c1'']) (NewScheduler \<lparr>m_rows = [], m_faults = []\<rparr>))))))"
proof (rule unreadable_check_stops_for_good)
  show "runs (reloadAll (Some [''c1'']) (NewScheduler \<lparr>m_rows = [], m_faults = []\<rparr>))" by (intro runs_composed runs.new)
  show "sc_pending (reloadAll (Some [''c1'']) (NewScheduler \<lparr>m_rows = [], m_faults = []\<rparr>)) = []" by code_simp
  show "(0, ''c1'', False) \<in> set (sc_loops (reloadAll (Some [''c1'']) (NewScheduler \<lparr>m_rows = [], m_faults = []\<rparr>)))"
    by code_simp
qed simp

text \<open>The downsampled series keeps every point up to 999 points, although the route announces at most
  500; from 1000 points on it returns at most 750.\<close>

lemma length_every_nth:
  "0 < step \<Longrightarrow> step * length (every_nth step xs) < length xs + step"
proof (induction step xs rule: every_nth.induct)
  case (1 step xs)
  show ?case
  proof (cases "xs = []")
    case True
    with 1 show ?thesis by (simp add: every_nth.simps)
  next
    case False
    have len: "length (every_nth step xs) = Suc (length (every_nth step (drop step xs)))"
      using False 1(2) by (subst every_nth.simps) (simp add: max_def)
    have IH: "step * length (every_nth step (drop step xs)) < length (drop step xs) + step"
      using 1(1) False 1(2) by (simp add: max_def split: if_splits)
    show ?thesis
    proof (cases "step \<le> length xs")
      case True
      with IH show ?thesis by (simp add: len)
    next
      case short: False
      then have "every_nth step (drop step xs) = []" by (subst every_nth.simps) simp
      with False show ?thesis by (simp add: len)
    qed
  qed
qed

lemma every_nth_1: "every_nth 1 xs = xs"
  by (induction xs) (simp_all add: every_nth.simps [of "Suc 0"])

theorem sampled_series_size:
  "(length points < 1000 \<longrightarrow> sample_points points = points) \<and>
   (1000 \<le> length points \<longrightarrow> length (sample_points points) \<le> 750)"
proof (intro conjI impI)
  assume "length points < 1000"
  then have "maxPoints < length points \<Longrightarrow> length points div maxPoints = 1"
    by (simp add: maxPoints_def div_nat_eqI)
  then show "sample_points points = points" using every_nth_1 [of points] by (simp add: sample_points_def)
next
  assume n: "1000 \<le> length points"
  define q where "q = length points div 500"
  have q: "2 \<le> q" "length points < 500 * q + 500"
    using n dividend_less_times_div [of 500 "length points"] by (auto simp: q_def)
  have "q * length (every_nth q points) < length points + q" using q(1) by (intro length_every_nth) simp
  also have "\<dots> < 500 * q + 500 + q" using q(2) by simp
  also have "\<dots> \<le> q * 751" using q(1) by simp
  finally have "length (every_nth q points) \<le> 750" using q(1) by simp
  then show "length (sample_points points) \<le> 750"
    using n q(1) by (simp add: sample_points_def maxPoints_def q_def Let_def)
qed

theorem sampled_series_size_witness:
  "length (sample_points (replicate 999 ())) = 999 \<and> length (sample_points (replicate 1000 ())) \<le> 750"
  using sampled_series_size [of "replicate 999 ()"] sampled_series_size [of "replicate 1000 ()"] by simp

end
