(* ===== verification/Public_Status.thy ===== *)
theory Public_Status
  imports Uptime Settings Checks
begin

text \<open>
  The public status page (\<open>internal/hub/api/public_status.go\<close>): its item list, the status and the
  uptime figures of checks and agents, the worst-of banner, and the per-address rate limiter. All
  times are UTC, so a calendar day is a number of 24-hour days and \<open>Format("2006-01-02")\<close> is the
  day number \<open>t div day\<close>. The sort order of a query is a parameter.
\<close>

section \<open>Rate limiter\<close>

record ipRateLimiter =
  rl_hits :: "string \<Rightarrow> time list option"
  rl_calls :: nat

definition newIPRateLimiter :: ipRateLimiter where
  "newIPRateLimiter = \<lparr>rl_hits = (\<lambda>_. None), rl_calls = 0\<rparr>"

definition hits_of :: "ipRateLimiter \<Rightarrow> string \<Rightarrow> time list" where
  "hits_of l ip = (case rl_hits l ip of None \<Rightarrow> [] | Some ts \<Rightarrow> ts)"

definition Allow :: "string \<Rightarrow> int \<Rightarrow> duration \<Rightarrow> time \<Rightarrow> ipRateLimiter \<Rightarrow> ipRateLimiter \<times> bool" where
  "Allow ip limit window now l =
     (let cutoff = now - window;
          recent = filter (\<lambda>t. cutoff < t) (hits_of l ip);
          allowed = (int (length recent) < limit);
          hits = (rl_hits l)(ip \<mapsto> recent @ [now]);
          calls = rl_calls l + 1;
          hits' = (if calls mod 1000 = 0
                   then (\<lambda>k. case hits k of None \<Rightarrow> None
                             | Some ts \<Rightarrow> if ts = [] \<or> last ts < cutoff then None else Some ts)
                   else hits)
      in (\<lparr>rl_hits = hits', rl_calls = calls\<rparr>, allowed))"

text \<open>\<open>clientIP\<close>: \<open>net.SplitHostPort\<close> is a parameter.\<close>

definition clientIP :: "(string \<Rightarrow> string option) \<Rightarrow> string \<Rightarrow> string" where
  "clientIP split_host_port remote_addr =
     (case split_host_port remote_addr of None \<Rightarrow> remote_addr | Some host \<Rightarrow> host)"

section \<open>Items\<close>

record item_config =
  ic_type :: string
  ic_id :: string
  ic_label :: string

record daily =
  dy_date :: int
  dy_uptime :: rat
  dy_incidents :: nat

record status_item =
  it_type :: string
  it_label :: string
  it_status :: string
  it_uptime_24h :: rat
  it_uptime_7d :: rat
  it_uptime_30d :: rat
  it_latency_ms :: "rat option"
  it_daily :: "daily list"
  it_last_incident_at :: time

definition status_rank :: "string \<Rightarrow> nat" where
  "status_rank s =
     (if s = ''unknown'' then 1 else if s = ''degraded'' then 2 else if s = ''down'' then 3 else 0)"

definition overallStatus :: "status_item list \<Rightarrow> string" where
  "overallStatus items =
     (if items = [] then ''unknown''
      else fold (\<lambda>it worst. if status_rank worst < status_rank (it_status it) then it_status it else worst)
             items ''operational'')"

definition round2 :: "rat \<Rightarrow> rat" where
  "round2 v = of_int (trunc_rat (v * 100 + 1 / 2)) / 100"

definition pctOrFull :: "nat \<Rightarrow> nat \<Rightarrow> rat" where
  "pctOrFull up n = (if n = 0 then 100 else round2 (100 * of_nat up / of_nat n))"

definition capitalize :: "string \<Rightarrow> string" where
  "capitalize s = (case s of [] \<Rightarrow> [] | c # cs \<Rightarrow> upper_char c # cs)"

definition date_of :: "time \<Rightarrow> int" where
  "date_of t = t div day"

text \<open>The loop over the results of a check, with its counters.\<close>

record bucket =
  bk_up :: nat
  bk_total :: nat
  bk_incidents :: nat

record tally =
  ty_up24 :: nat   ty_tot24 :: nat
  ty_up7 :: nat    ty_tot7 :: nat
  ty_up30 :: nat   ty_tot30 :: nat
  ty_buckets :: "int \<Rightarrow> bucket option"
  ty_last_status :: string
  ty_last_incident :: time

definition add_window :: "bool \<Rightarrow> bool \<Rightarrow> nat \<times> nat \<Rightarrow> nat \<times> nat" where
  "add_window inside up ut = (if inside then (if up then fst ut + 1 else fst ut, snd ut + 1) else ut)"

definition bump_bucket :: "bool \<Rightarrow> bool \<Rightarrow> bucket \<Rightarrow> bucket" where
  "bump_bucket up fresh acc =
     acc\<lparr>bk_total := bk_total acc + 1, bk_up := (if up then bk_up acc + 1 else bk_up acc),
         bk_incidents := (if \<not> up \<and> fresh then bk_incidents acc + 1 else bk_incidents acc)\<rparr>"

definition tally_result :: "int \<Rightarrow> time \<Rightarrow> check_result \<Rightarrow> tally \<Rightarrow> tally" where
  "tally_result showDays now r ty =
     (let ts = cr_checked_at r; up = (cr_status r = ''up'');
          w24 = add_window (now - 24 * hour \<le> ts) up (ty_up24 ty, ty_tot24 ty);
          w7 = add_window (now - 7 * day \<le> ts) up (ty_up7 ty, ty_tot7 ty);
          w30 = add_window (now - 30 * day \<le> ts) up (ty_up30 ty, ty_tot30 ty);
          inside = (now - showDays * day \<le> ts);
          buckets = (if inside
            then (case ty_buckets ty (date_of ts) of
                    None \<Rightarrow> ty_buckets ty
                  | Some acc \<Rightarrow> (ty_buckets ty)(date_of ts \<mapsto> bump_bucket up (ty_last_status ty \<noteq> ''down'') acc))
            else ty_buckets ty)
      in \<lparr>ty_up24 = fst w24, ty_tot24 = snd w24, ty_up7 = fst w7, ty_tot7 = snd w7,
          ty_up30 = fst w30, ty_tot30 = snd w30, ty_buckets = buckets, ty_last_status = cr_status r,
          ty_last_incident = (if up then ty_last_incident ty else ts)\<rparr>)"

definition status_days :: "int \<Rightarrow> time \<Rightarrow> int list" where
  "status_days showDays now = map (\<lambda>d. date_of (now - showDays * day + int d * day)) [0..<nat showDays]"

definition start_tally :: "int \<Rightarrow> time \<Rightarrow> tally" where
  "start_tally showDays now =
     \<lparr>ty_up24 = 0, ty_tot24 = 0, ty_up7 = 0, ty_tot7 = 0, ty_up30 = 0, ty_tot30 = 0,
      ty_buckets = (\<lambda>d. if d \<in> set (status_days showDays now)
                        then Some \<lparr>bk_up = 0, bk_total = 0, bk_incidents = 0\<rparr> else None),
      ty_last_status = [], ty_last_incident = 0\<rparr>"

definition day_row :: "tally \<Rightarrow> int \<Rightarrow> daily" where
  "day_row ty d =
     (case ty_buckets ty d of
        None \<Rightarrow> \<lparr>dy_date = d, dy_uptime = 100, dy_incidents = 0\<rparr>
      | Some acc \<Rightarrow> \<lparr>dy_date = d,
          dy_uptime = (if 0 < bk_total acc then round2 (100 * of_nat (bk_up acc) / of_nat (bk_total acc)) else 100),
          dy_incidents = bk_incidents acc\<rparr>)"

type_synonym figures = "rat \<times> rat \<times> rat \<times> daily list \<times> time"

definition computeCheckMetrics ::
  "(check_result list \<Rightarrow> check_result list) \<Rightarrow> check_result list option \<Rightarrow> string \<Rightarrow> int \<Rightarrow> time \<Rightarrow> figures" where
  "computeCheckMetrics ascending rows checkID showDays now =
     (let windowDays = max showDays 30;
          since = fmt_ts (now - windowDays * day);
          results = (case rows of
             None \<Rightarrow> []
           | Some rs \<Rightarrow> take 20000 (ascending (filter (\<lambda>r. cr_check_id r = checkID \<and> since \<le> cr_checked_at r) rs)));
          ty = fold (tally_result showDays now) results (start_tally showDays now)
      in (pctOrFull (ty_up24 ty) (ty_tot24 ty), pctOrFull (ty_up7 ty) (ty_tot7 ty),
          pctOrFull (ty_up30 ty) (ty_tot30 ty), map (day_row ty) (status_days showDays now), ty_last_incident ty))"

text \<open>An alert as a downtime interval, open until \<open>now\<close>; \<open>None\<close> when it ended before the window.\<close>

definition alert_interval :: "time \<Rightarrow> time \<Rightarrow> alert \<Rightarrow> Interval option" where
  "alert_interval since now a =
     (let fired = al_fired_at a;
          end0 = (if al_resolved_at a \<noteq> 0 then al_resolved_at a else now);
          end1 = (if end0 < fired then fired else end0)
      in if end1 < since then None else Some \<lparr>iv_start = fired, iv_end = end1\<rparr>)"

definition computeAgentMetrics ::
  "(Interval list \<Rightarrow> Interval list) \<Rightarrow> (alert list \<Rightarrow> alert list) \<Rightarrow> alert list option \<Rightarrow> string \<Rightarrow> int \<Rightarrow> time
   \<Rightarrow> figures" where
  "computeAgentMetrics sort_slice ascending rows agentID showDays now =
     (let windowDays = max showDays 30;
          since = now - windowDays * day;
          alerts = (case rows of
             None \<Rightarrow> []
           | Some rs \<Rightarrow> take 5000 (ascending (filter (\<lambda>a. al_agent_id a = agentID \<and> al_fired_at a \<le> fmt_ts now) rs)));
          intervals = List.map_filter (alert_interval since now) alerts;
          merged = Merge sort_slice intervals;
          up = (\<lambda>a b. round2 (UptimePercent merged a b));
          day_of = (\<lambda>d. let dayStart = now - showDays * day + int d * day;
                            dayEnd = min now (dayStart + day)
                        in \<lparr>dy_date = date_of dayStart,
                            dy_uptime = (if dayStart < dayEnd then up dayStart dayEnd else 100),
                            dy_incidents = length (filter (\<lambda>iv. date_of (iv_start iv) = date_of dayStart) intervals)\<rparr>)
      in (up (now - 24 * hour) now, up (now - 7 * day) now, up (now - 30 * day) now,
          map day_of [0..<nat showDays],
          fold (\<lambda>iv t. if t < iv_start iv then iv_start iv else t) intervals 0))"

section \<open>The page\<close>

definition check_item_status :: "check \<Rightarrow> Snapshot option \<Rightarrow> time \<Rightarrow> string" where
  "check_item_status check snap now =
     (case snap of
        None \<Rightarrow> ''unknown''
      | Some s \<Rightarrow>
          if sn_status s = ''down'' then ''down''
          else if 0 < ck_tls_expiry_warn_days check \<and> sn_tls_expires_at s \<noteq> 0 \<and>
                  t_sub (sn_tls_expires_at s) now \<le> wrap64 (wrap64 (ck_tls_expiry_warn_days check * 24) * hour)
               then ''degraded''
          else ''operational'')"

definition agent_item_status :: "agent \<Rightarrow> string" where
  "agent_item_status a =
     (if ag_status a = ''online'' then ''operational''
      else if ag_status a = ''offline'' then ''down'' else ''unknown'')"

definition make_item :: "string \<Rightarrow> string \<Rightarrow> string \<Rightarrow> rat option \<Rightarrow> figures \<Rightarrow> status_item" where
  "make_item ty label status latency fig =
     (case fig of (u24, u7, u30, days, lst) \<Rightarrow>
        \<lparr>it_type = ty, it_label = label, it_status = status, it_uptime_24h = u24, it_uptime_7d = u7,
         it_uptime_30d = u30, it_latency_ms = latency, it_daily = days, it_last_incident_at = lst\<rparr>)"

record status_view =
  pv_find_check :: "string \<Rightarrow> check option"
  pv_find_agent :: "string \<Rightarrow> agent option"
  pv_snapshot :: "string \<Rightarrow> Snapshot option"
  pv_results :: "check_result list option"
  pv_alerts :: "alert list option"
  pv_sort_results :: "check_result list \<Rightarrow> check_result list"
  pv_sort_alerts :: "alert list \<Rightarrow> alert list"
  pv_sort_intervals :: "Interval list \<Rightarrow> Interval list"

definition buildCheckStatusItem :: "status_view \<Rightarrow> item_config \<Rightarrow> int \<Rightarrow> time \<Rightarrow> status_item option" where
  "buildCheckStatusItem pv cfg showDays now =
     (case pv_find_check pv (ic_id cfg) of
        None \<Rightarrow> None
      | Some check \<Rightarrow>
          (let snap = pv_snapshot pv (ic_id cfg) in
           Some (make_item ''check'' (ic_label cfg) (check_item_status check snap now)
             (case snap of None \<Rightarrow> None
                | Some s \<Rightarrow> if sn_status s = ''down'' then None else Some (sn_latency_ms s))
             (computeCheckMetrics (pv_sort_results pv) (pv_results pv) (ic_id cfg) showDays now))))"

definition buildAgentStatusItem :: "status_view \<Rightarrow> item_config \<Rightarrow> int \<Rightarrow> time \<Rightarrow> status_item option" where
  "buildAgentStatusItem pv cfg showDays now =
     (case pv_find_agent pv (ic_id cfg) of
        None \<Rightarrow> None
      | Some agent \<Rightarrow>
          Some (make_item ''agent'' (ic_label cfg) (agent_item_status agent) None
            (computeAgentMetrics (pv_sort_intervals pv) (pv_sort_alerts pv) (pv_alerts pv) (ic_id cfg) showDays now)))"

definition status_page_item :: "status_view \<Rightarrow> int \<Rightarrow> time \<Rightarrow> nat \<times> item_config \<Rightarrow> status_item option" where
  "status_page_item pv showDays now = (\<lambda>(i, cfg).
     map_option (\<lambda>item. if it_label item = []
         then item\<lparr>it_label := capitalize (ic_type cfg) @ '' '' @ fmt_d (int i + 1)\<rparr> else item)
       (if ic_type cfg = ''check'' then buildCheckStatusItem pv cfg showDays now
        else if ic_type cfg = ''agent'' then buildAgentStatusItem pv cfg showDays now
        else None))"

text \<open>The settings: the JSON decoder, and the one into the list of items (\<open>nil\<close> on an error).\<close>

definition show_days :: "int \<Rightarrow> int" where
  "show_days n = (let n1 = (if n < 1 then 1 else n) in if 90 < n1 then 90 else n1)"

definition handlePublicStatus ::
  "(string \<Rightarrow> any option) \<Rightarrow> (string \<Rightarrow> item_config list) \<Rightarrow> setting list \<Rightarrow> status_view \<Rightarrow> string \<Rightarrow> time
   \<Rightarrow> ipRateLimiter \<Rightarrow> ipRateLimiter \<times> (int + (string \<times> string \<times> string \<times> status_item list))" where
  "handlePublicStatus json json_items settings pv ip now l =
     (case Allow ip 60 minute now l of
        (l', False) \<Rightarrow> (l', Inl 429)
      | (l', True) \<Rightarrow>
          if \<not> settingBool json settings ''status_page_enabled'' False then (l', Inl 404)
          else
            let showDays = show_days (settingInt json settings ''status_page_show_uptime_days'' 30);
                configs = (case settingRaw settings ''status_page_items'' of None \<Rightarrow> [] | Some raw \<Rightarrow> json_items raw);
                items = List.map_filter (status_page_item pv showDays now) (List.enumerate 0 configs)
            in (l', Inr (settingString json settings ''status_page_title'' ''Service status'',
                         settingString json settings ''status_page_description'' [],
                         overallStatus items, items)))"

section \<open>The limiter is exact\<close>

definition attempts :: "string \<Rightarrow> (string \<times> time) list \<Rightarrow> time list" where
  "attempts ip calls = map snd (filter (\<lambda>(k, _). k = ip) calls)"

definition run_limiter :: "int \<Rightarrow> duration \<Rightarrow> (string \<times> time) list \<Rightarrow> ipRateLimiter" where
  "run_limiter limit window calls =
     fold (\<lambda>(ip, now) l. fst (Allow ip limit window now l)) calls newIPRateLimiter"

text \<open>
  The invariant: of the attempts of an address, the limiter still holds every one that is younger
  than the window, in order.
\<close>

definition holds_recent :: "duration \<Rightarrow> time \<Rightarrow> (string \<times> time) list \<Rightarrow> ipRateLimiter \<Rightarrow> bool" where
  "holds_recent window now calls l \<longleftrightarrow> (\<forall>ip.
     filter (\<lambda>t. now - window < t) (hits_of l ip) = filter (\<lambda>t. now - window < t) (attempts ip calls))"

lemma filter_later: "c \<le> c' \<Longrightarrow> filter (\<lambda>t. c < t) xs = filter (\<lambda>t. c < t) ys \<Longrightarrow>
    filter (\<lambda>t. c' < t) xs = filter (\<lambda>t. c' < t) (ys :: int list)"
proof -
  assume le: "c \<le> c'" and eq: "filter (\<lambda>t. c < t) xs = filter (\<lambda>t. c < t) ys"
  have "filter (\<lambda>t. c' < t) zs = filter (\<lambda>t. c' < t) (filter (\<lambda>t. c < t) zs)" for zs :: "int list"
    using le by (auto simp: filter_filter intro!: filter_cong)
  then show ?thesis using eq by metis
qed

lemma holds_recent_later: "holds_recent w now calls l \<Longrightarrow> now \<le> now' \<Longrightarrow> holds_recent w now' calls l"
  unfolding holds_recent_def by (metis diff_right_mono filter_later)

lemma last_filter_empty:
  assumes "sorted ts" and "ts = [] \<or> last ts < c"
  shows "filter (\<lambda>t. c < t) ts = ([] :: int list)"
proof (cases "ts = []")
  case False
  then obtain us where us: "ts = us @ [last ts]" by (metis append_butlast_last_id)
  then have "\<forall>t \<in> set ts. t \<le> last ts" using assms(1) by (metis Un_iff order_refl set_append sorted_append sorted_wrt1 list.set_intros(1) set_ConsD empty_iff list.set(1))
  with assms(2) False show ?thesis by (fastforce simp: filter_empty_conv)
qed simp

definition limiter_inv :: "duration \<Rightarrow> time \<Rightarrow> (string \<times> time) list \<Rightarrow> ipRateLimiter \<Rightarrow> bool" where
  "limiter_inv window now calls l \<longleftrightarrow> holds_recent window now calls l \<and>
     (\<forall>ip. sorted (hits_of l ip) \<and> (\<forall>t \<in> set (hits_of l ip). t \<le> now))"

lemma hits_Allow:
  "hits_of (fst (Allow ip limit w now l)) k =
    (let ts = (if k = ip then filter (\<lambda>t. now - w < t) (hits_of l ip) @ [now] else hits_of l k) in
     if (rl_calls l + 1) mod 1000 = 0 \<and> (ts = [] \<or> last ts < now - w) then [] else ts)"
  by (auto simp: Allow_def hits_of_def Let_def split: option.splits)

lemma Allow_inv:
  assumes inv: "limiter_inv w now calls l" and le: "now \<le> now'" and w: "0 < w"
  shows "limiter_inv w now' (calls @ [(ip, now')]) (fst (Allow ip limit w now' l))"
proof -
  have inv': "filter (\<lambda>t. now' - w < t) (hits_of l k) = filter (\<lambda>t. now' - w < t) (attempts k calls)" for k
    using holds_recent_later [OF _ le, of w calls l] inv unfolding limiter_inv_def holds_recent_def by blast
  have sorted: "sorted (hits_of l k)" "t \<in> set (hits_of l k) \<Longrightarrow> t \<le> now'" for k t
    using inv le unfolding limiter_inv_def by force+
  have att: "attempts k (calls @ [(ip, now')]) = attempts k calls @ (if k = ip then [now'] else [])" for k
    by (simp add: attempts_def)
  define ts where "ts k = (if k = ip then filter (\<lambda>t. now' - w < t) (hits_of l ip) @ [now'] else hits_of l k)" for k
  have ts: "sorted (ts k)" "\<forall>t \<in> set (ts k). t \<le> now'" for k
    using sorted by (auto simp: ts_def sorted_append sorted_wrt_filter)
  have ts3: "filter (\<lambda>t. now' - w < t) (ts k) = filter (\<lambda>t. now' - w < t) (attempts k (calls @ [(ip, now')]))" for k
    using inv' by (simp add: ts_def att)
  have new: "hits_of (fst (Allow ip limit w now' l)) k =
      (if (rl_calls l + 1) mod 1000 = 0 \<and> (ts k = [] \<or> last (ts k) < now' - w) then [] else ts k)" for k
    by (simp only: hits_Allow ts_def Let_def)
  have "filter (\<lambda>t. now' - w < t) (hits_of (fst (Allow ip limit w now' l)) k) =
      filter (\<lambda>t. now' - w < t) (attempts k (calls @ [(ip, now')]))" for k
    using ts3 [of k] last_filter_empty [OF ts(1) [of k], of "now' - w"] by (auto simp: new)
  then show ?thesis using ts unfolding limiter_inv_def holds_recent_def by (simp add: new)
qed

lemma run_limiter_inv:
  assumes "0 < w" and "sorted (map snd calls)" and "\<forall>(k, t) \<in> set calls. t \<le> now"
  shows "limiter_inv w now calls (run_limiter limit w calls)"
  using assms(2,3)
proof (induction calls arbitrary: now rule: rev_induct)
  case Nil
  then show ?case
    by (simp add: limiter_inv_def holds_recent_def run_limiter_def newIPRateLimiter_def hits_of_def attempts_def)
next
  case (snoc x calls)
  obtain ip t where x: "x = (ip, t)" by (cases x)
  have "limiter_inv w t calls (run_limiter limit w calls)"
  proof (rule snoc.IH)
    show "sorted (map snd calls)" using snoc.prems(1) by (simp add: sorted_append)
    show "\<forall>(k, s) \<in> set calls. s \<le> t" using snoc.prems(1) by (auto simp: x sorted_append)
  qed
  from Allow_inv [OF this order_refl assms(1), of ip limit]
  have inv: "limiter_inv w t (calls @ [x]) (run_limiter limit w (calls @ [x]))"
    by (simp add: run_limiter_def x)
  moreover have "t \<le> now" using snoc.prems by (simp add: x)
  ultimately show ?case using holds_recent_later unfolding limiter_inv_def by (meson order_trans)
qed

text \<open>C14: A request is let through exactly when its address made fewer than the limit of attempts, allowed
  or not, in the preceding window, whatever other addresses do and whenever the map is swept.\<close>

theorem rate_limiter_exact:
  assumes "0 < window" and "sorted (map snd calls)" and "\<forall>(k, t) \<in> set calls. t \<le> now"
  shows "snd (Allow ip limit window now (run_limiter limit window calls)) \<longleftrightarrow>
    int (length (filter (\<lambda>t. now - window < t) (attempts ip calls))) < limit"
  using run_limiter_inv [OF assms, of limit]
  by (simp add: limiter_inv_def holds_recent_def Allow_def Let_def)

theorem rate_limiter_exact_witness:
  "\<not> snd (Allow ''a'' 2 100 150 (run_limiter 2 100 [(''a'', 10), (''a'', 60), (''b'', 70), (''a'', 90)])) \<and>
   snd (Allow ''a'' 2 100 170 (run_limiter 2 100 [(''a'', 10), (''a'', 60), (''b'', 70), (''a'', 90)]))"
  using rate_limiter_exact [of 100 "[(''a'', 10), (''a'', 60), (''b'', 70), (''a'', 90)]" 150 "''a''" 2]
    rate_limiter_exact [of 100 "[(''a'', 10), (''a'', 60), (''b'', 70), (''a'', 90)]" 170 "''a''" 2]
  by (simp add: attempts_def)

section \<open>The figures\<close>

definition worse :: "status_item \<Rightarrow> string \<Rightarrow> string" where
  "worse it worst = (if status_rank worst < status_rank (it_status it) then it_status it else worst)"

lemma overall_fold:
  "status_rank w \<le> status_rank (fold worse items w) \<and>
   (\<forall>it \<in> set items. status_rank (it_status it) \<le> status_rank (fold worse items w)) \<and>
   (fold worse items w = w \<or> (\<exists>it \<in> set items. fold worse items w = it_status it))"
proof (induction items arbitrary: w)
  case (Cons it items)
  have "status_rank w \<le> status_rank (worse it w)" "status_rank (it_status it) \<le> status_rank (worse it w)"
    "worse it w = w \<or> worse it w = it_status it" by (simp_all add: worse_def)
  with Cons.IH [of "worse it w"] show ?case by (auto intro: order_trans)
qed simp

lemma overallStatus_fold: "overallStatus items = (if items = [] then ''unknown'' else fold worse items ''operational'')"
  unfolding overallStatus_def worse_def by simp

text \<open>The banner shows a worst status among the items: no item ranks above it, and it is the status
  of an item unless every item ranks as operational.\<close>

theorem banner_is_worst_item:
  assumes "items \<noteq> []"
  shows "(\<forall>it \<in> set items. status_rank (it_status it) \<le> status_rank (overallStatus items)) \<and>
    (overallStatus items = ''operational'' \<or> (\<exists>it \<in> set items. overallStatus items = it_status it))"
  using overall_fold [of "''operational''" items] assms by (simp add: overallStatus_fold)

definition sample_item :: "string \<Rightarrow> status_item" where
  "sample_item st = make_item ''check'' ''x'' st None (100, 100, 100, [], 0)"

theorem banner_is_worst_item_witness:
  "overallStatus [sample_item ''operational'', sample_item ''degraded'', sample_item ''unknown''] = ''degraded'' \<and>
   (\<forall>it \<in> set [sample_item ''operational'', sample_item ''degraded'', sample_item ''unknown''].
      status_rank (it_status it) \<le> 2)"
proof -
  let ?xs = "[sample_item ''operational'', sample_item ''degraded'', sample_item ''unknown'']"
  have o: "overallStatus ?xs = ''degraded''" by code_simp
  moreover have "status_rank ''degraded'' = 2" by code_simp
  ultimately show ?thesis using banner_is_worst_item [of ?xs] by fastforce
qed

lemma status_days_less: "d \<in> set (status_days showDays now) \<Longrightarrow> d < date_of now"
proof -
  assume "d \<in> set (status_days showDays now)"
  then obtain k where k: "k < nat showDays" and d: "d = date_of (now - showDays * day + int k * day)"
    by (auto simp: status_days_def)
  have "now - showDays * day + int k * day = now + (int k - showDays) * day" by (simp add: algebra_simps)
  then have "d = date_of now + (int k - showDays)" by (simp add: d date_of_def day_def)
  with k show ?thesis by linarith
qed

text \<open>The daily bar of a check shows the days before today, never today: a result of the current UTC
  day changes no day of it, although it counts in the 24-hour figure.\<close>

theorem today_is_not_shown:
  assumes "date_of (cr_checked_at r) = date_of now"
  shows "map (day_row (tally_result showDays now r ty)) (status_days showDays now) =
    map (day_row ty) (status_days showDays now)"
proof (rule map_cong [OF refl])
  fix d
  assume "d \<in> set (status_days showDays now)"
  then have "d \<noteq> date_of (cr_checked_at r)" using status_days_less assms by fastforce
  then show "day_row (tally_result showDays now r ty) d = day_row ty d"
    by (simp add: tally_result_def Let_def day_row_def split: option.splits)
qed

theorem today_is_not_shown_witness:
  "map (day_row (tally_result 7 (10 * day + hour) (new_check_result\<lparr>cr_status := ''down'', cr_checked_at := 10 * day + minute\<rparr>)
      (start_tally 7 (10 * day + hour)))) (status_days 7 (10 * day + hour)) =
   map (day_row (start_tally 7 (10 * day + hour))) [3, 4, 5, 6, 7, 8, 9]"
proof -
  have "status_days 7 (10 * day + hour) = [3, 4, 5, 6, 7, 8, 9]" by code_simp
  moreover have "date_of (cr_checked_at (new_check_result\<lparr>cr_status := ''down'', cr_checked_at := 10 * day + minute\<rparr>)) =
      date_of (10 * day + hour)" by code_simp
  ultimately show ?thesis using today_is_not_shown by metis
qed

end
