(* ===== verification/Downsampling.thy ===== *)
theory Downsampling
  imports Retention Alert_Eval
begin

text \<open>
  Metric aggregation (\<open>internal/hub/metrics/downsampler.go\<close>): the averaging of the data of a bucket,
  one downsampling pass over a batch of rows, and the three passes of a cycle. PocketBase's sort by
  timestamp and Go's iteration order over the map of buckets are parameters (\<open>order\<close>, \<open>iter\<close>). JSON
  objects are association lists with distinct keys.
\<close>

section \<open>Averages\<close>

record avg_state =
  av_sums :: "string \<Rightarrow> rat"
  av_counts :: "string \<Rightarrow> nat"
  av_strings :: "string \<Rightarrow> string option"
  av_keys :: "string list"

definition avg_start :: avg_state where
  "avg_start = \<lparr>av_sums = (\<lambda>_. 0), av_counts = (\<lambda>_. 0), av_strings = (\<lambda>_. None), av_keys = []\<rparr>"

definition avg_entry :: "string \<times> any \<Rightarrow> avg_state \<Rightarrow> avg_state" where
  "avg_entry = (\<lambda>(k, v) st.
     let st = st\<lparr>av_keys := List.insert k (av_keys st)\<rparr> in
     (case toFloat64 v of
        Some f \<Rightarrow> st\<lparr>av_sums := (av_sums st)(k := av_sums st k + f), av_counts := (av_counts st)(k := av_counts st k + 1)\<rparr>
      | None \<Rightarrow>
          (case as_string v of
             Some s \<Rightarrow> st\<lparr>av_strings := (av_strings st)(k \<mapsto> s)\<rparr>
           | None \<Rightarrow> st)))"

definition avg_value :: "avg_state \<Rightarrow> string \<Rightarrow> any option" where
  "avg_value st k =
     (if 0 < av_counts st k then Some (AFloat64 (av_sums st k / of_nat (av_counts st k)))
      else map_option AStr (av_strings st k))"

definition averageMaps :: "obj list \<Rightarrow> obj" where
  "averageMaps dataMaps =
     (let st = fold (\<lambda>data st. fold avg_entry data st) dataMaps avg_start
      in List.map_filter (\<lambda>k. map_option (Pair k) (avg_value st k)) (av_keys st))"

definition averageData :: "metric list \<Rightarrow> obj" where
  "averageData records =
     (let result = averageMaps (List.map_filter mt_data records)
      in filter (\<lambda>(k, _). k \<noteq> ''_samples'') result @ [(''_samples'', AInt (int (length records)))])"

section \<open>One pass\<close>

type_synonym bucketKey = "string \<times> string \<times> time"

text \<open>\<open>ts.Truncate(d)\<close> rounds down to a multiple of \<open>d\<close> since the zero time.\<close>

definition truncate_time :: "time \<Rightarrow> duration \<Rightarrow> time" where
  "truncate_time t d = (if d \<le> 0 then t else t div d * d)"

definition bucket_key :: "duration \<Rightarrow> metric \<Rightarrow> bucketKey" where
  "bucket_key d r = (mt_agent_id r, mt_type r, truncate_time (mt_timestamp r) d)"

definition aggregate_row :: "string \<Rightarrow> bucketKey \<Rightarrow> metric list \<Rightarrow> metric" where
  "aggregate_row targetRes key recs =
     (case key of (agent, mtype, bucket) \<Rightarrow>
       \<lparr>mt_id = [], mt_agent_id = agent, mt_type = mtype, mt_data = Some (averageData recs),
        mt_timestamp = fmt_ts bucket, mt_resolution = targetRes\<rparr>)"

definition aggregate_of :: "string \<Rightarrow> bucketKey \<Rightarrow> metric \<Rightarrow> bool" where
  "aggregate_of targetRes key r =
     (case key of (agent, mtype, bucket) \<Rightarrow>
       mt_agent_id r = agent \<and> mt_type r = mtype \<and> mt_resolution r = targetRes \<and> mt_timestamp r = fmt_ts bucket)"

definition process_bucket ::
  "('db, metric) table \<Rightarrow> string \<Rightarrow> (bucketKey \<Rightarrow> metric list) \<Rightarrow> bucketKey \<Rightarrow> 'db \<Rightarrow> 'db" where
  "process_bucket T targetRes buckets key db =
     (let recs = buckets key;
          existing = (case t_all T db (aggregate_of targetRes key) of None \<Rightarrow> [] | Some xs \<Rightarrow> take 1 xs)
      in if recs = [] then db
         else if existing \<noteq> [] then delete_all T (map mt_id recs) db
         else case t_save T db (aggregate_row targetRes key recs) of
                (db', None) \<Rightarrow> db'
              | (db', Some _) \<Rightarrow> delete_all T (map mt_id recs) db')"

definition batch_of ::
  "(metric list \<Rightarrow> metric list) \<Rightarrow> ('db, metric) table \<Rightarrow> string \<Rightarrow> time \<Rightarrow> 'db \<Rightarrow> metric list" where
  "batch_of order T sourceRes cutoff db =
     (case t_all T db (\<lambda>r. mt_resolution r = sourceRes \<and> mt_timestamp r < fmt_ts cutoff) of
        None \<Rightarrow> []
      | Some rs \<Rightarrow> take 500 (order rs))"

definition downsample ::
  "(metric list \<Rightarrow> metric list) \<Rightarrow> (bucketKey list \<Rightarrow> bucketKey list) \<Rightarrow> ('db, metric) table
   \<Rightarrow> string \<Rightarrow> string \<Rightarrow> duration \<Rightarrow> time \<Rightarrow> 'db \<Rightarrow> 'db" where
  "downsample order iter T sourceRes targetRes bucketDuration cutoff db =
     (let records = batch_of order T sourceRes cutoff db;
          buckets = (\<lambda>key. filter (\<lambda>r. bucket_key bucketDuration r = key) records)
      in fold (process_bucket T targetRes buckets) (iter (remdups (map (bucket_key bucketDuration) records))) db)"

definition aggregateMetrics ::
  "(metric list \<Rightarrow> metric list) \<Rightarrow> (bucketKey list \<Rightarrow> bucketKey list) \<Rightarrow> ('db, metric) table \<Rightarrow> time \<Rightarrow> 'db \<Rightarrow> 'db" where
  "aggregateMetrics order iter T now db =
     (let db1 = downsample order iter T ''raw'' ''1m'' minute (now - 5 * minute) db;
          db2 = downsample order iter T ''1m'' ''5m'' (5 * minute) (now - 30 * minute) db1
      in downsample order iter T ''5m'' ''1h'' hour (now - 6 * hour) db2)"

section \<open>The average is the mean\<close>

definition numbers_at :: "string \<Rightarrow> obj list \<Rightarrow> rat list" where
  "numbers_at k ds = List.map_filter (\<lambda>d. Option.bind (map_of d k) toFloat64) ds"

definition strings_at :: "string \<Rightarrow> obj list \<Rightarrow> string list" where
  "strings_at k ds = List.map_filter (\<lambda>d. Option.bind (map_of d k) as_string) ds"

definition last_option :: "'a list \<Rightarrow> 'a option" where
  "last_option xs = (if xs = [] then None else Some (last xs))"

definition avg_inv :: "obj list \<Rightarrow> avg_state \<Rightarrow> bool" where
  "avg_inv ds st \<longleftrightarrow> (\<forall>k. av_sums st k = sum_list (numbers_at k ds) \<and> av_counts st k = length (numbers_at k ds) \<and>
     av_strings st k = last_option (strings_at k ds)) \<and> distinct (av_keys st) \<and>
     set (av_keys st) = (\<Union>d \<in> set ds. fst ` set d)"

lemma at_snoc [simp]:
  "numbers_at k (ds @ [d]) = numbers_at k ds @ (case Option.bind (map_of d k) toFloat64 of None \<Rightarrow> [] | Some f \<Rightarrow> [f])"
  "strings_at k (ds @ [d]) = strings_at k ds @ (case Option.bind (map_of d k) as_string of None \<Rightarrow> [] | Some s \<Rightarrow> [s])"
  by (simp_all add: numbers_at_def strings_at_def map_filter_def split: option.splits)

lemma at_Nil [simp]: "numbers_at k [] = []" "strings_at k [] = []"
  by (simp_all add: numbers_at_def strings_at_def map_filter_def)

lemma last_option_simps [simp]: "last_option [] = None" "last_option (xs @ [x]) = Some x"
  by (simp_all add: last_option_def)

lemma string_not_float: "as_string v = Some s \<Longrightarrow> toFloat64 v = None"
  by (cases v) auto

lemma avg_entry_sel:
  "av_keys (avg_entry (k, v) st) = List.insert k (av_keys st)"
  "av_sums (avg_entry (k, v) st) j = av_sums st j + (if j = k then case toFloat64 v of None \<Rightarrow> 0 | Some f \<Rightarrow> f else 0)"
  "av_counts (avg_entry (k, v) st) j = av_counts st j + (if j = k \<and> toFloat64 v \<noteq> None then 1 else 0)"
  "av_strings (avg_entry (k, v) st) j =
     (if j = k \<and> toFloat64 v = None \<and> as_string v \<noteq> None then as_string v else av_strings st j)"
  by (simp_all add: avg_entry_def Let_def split: option.splits)

text \<open>The inner loop over the entries of one object, whose keys are distinct.\<close>

lemma avg_entries:
  assumes "avg_inv (ds @ [done]) st" and "distinct (map fst (done @ data))"
  shows "avg_inv (ds @ [done @ data]) (fold avg_entry data st)"
  using assms
proof (induction data arbitrary: "done" st)
  case (Cons e data)
  obtain k v where e: "e = (k, v)" by (cases e)
  have new: "map_of done k = None" using Cons.prems(2) by (auto simp: e map_of_eq_None_iff)
  have old_keys: "distinct (av_keys st)" "set (av_keys st) = (\<Union>d \<in> set (ds @ [done]). fst ` set d)"
    using Cons.prems(1) by (simp_all only: avg_inv_def)
  have at: "av_sums st j = sum_list (numbers_at j (ds @ [done]))" "av_counts st j = length (numbers_at j (ds @ [done]))"
    "av_strings st j = last_option (strings_at j (ds @ [done]))" for j
    using Cons.prems(1) by (simp_all only: avg_inv_def)
  have "avg_inv (ds @ [done @ [e]]) (avg_entry e st)"
    unfolding avg_inv_def
  proof (intro conjI allI)
    fix j
    have other: "map_of (done @ [(k, v)]) j = map_of done j" if "j \<noteq> k"
      using that by (simp add: e map_add_def split: option.splits)
    have cur: "map_of (done @ [(k, v)]) k = Some v" using new by (simp add: e map_add_def)
    show "av_sums (avg_entry e st) j = sum_list (numbers_at j (ds @ [done @ [e]]))"
      by (cases "j = k") (simp_all del: map_of_append add: other cur new at avg_entry_sel e split: option.splits)
    show "av_counts (avg_entry e st) j = length (numbers_at j (ds @ [done @ [e]]))"
      by (cases "j = k") (simp_all del: map_of_append add: other cur new at avg_entry_sel e split: option.splits)
    show "av_strings (avg_entry e st) j = last_option (strings_at j (ds @ [done @ [e]]))"
      by (cases "j = k") (simp_all del: map_of_append add: other cur new at avg_entry_sel e string_not_float split: option.splits)
  next
    show "distinct (av_keys (avg_entry e st))" using old_keys(1) by (simp add: e avg_entry_sel)
    show "set (av_keys (avg_entry e st)) = (\<Union>d \<in> set (ds @ [done @ [e]]). fst ` set d)"
      by (simp add: e avg_entry_sel old_keys(2))
  qed
  then have step: "avg_inv (ds @ [done @ [e]]) (avg_entry e st)" .
  from Cons.IH [OF step] Cons.prems(2) show ?case by simp
qed simp

lemma avg_objects:
  assumes "\<forall>d \<in> set ds. distinct (map fst d)"
  shows "avg_inv ds (fold (\<lambda>data st. fold avg_entry data st) ds avg_start)"
  using assms
proof (induction ds rule: rev_induct)
  case Nil
  then show ?case by (simp add: avg_inv_def avg_start_def)
next
  case (snoc d ds)
  then have "avg_inv ds (fold (\<lambda>data st. fold avg_entry data st) ds avg_start)" by simp
  then have "avg_inv (ds @ [[]]) (fold (\<lambda>data st. fold avg_entry data st) ds avg_start)"
    by (simp add: avg_inv_def)
  from avg_entries [OF this] snoc.prems show ?case by simp
qed

lemma averageMaps_spec:
  assumes "\<forall>d \<in> set ds. distinct (map fst d)"
  shows "map_of (averageMaps ds) k =
    (if numbers_at k ds \<noteq> [] then Some (AFloat64 (sum_list (numbers_at k ds) / of_nat (length (numbers_at k ds))))
     else map_option AStr (last_option (strings_at k ds)))"
proof -
  define st where "st = fold (\<lambda>data st. fold avg_entry data st) ds avg_start"
  have inv: "avg_inv ds st" unfolding st_def by (rule avg_objects [OF assms])
  have "map_of (List.map_filter (\<lambda>k. map_option (Pair k) (f k)) ks) k = (if k \<in> set ks then f k else None)"
    for f :: "string \<Rightarrow> any option" and ks
    by (induction ks) (auto simp: map_filter_simps split: option.splits)
  then have m: "map_of (averageMaps ds) k = (if k \<in> set (av_keys st) then avg_value st k else None)"
    by (simp add: averageMaps_def st_def Let_def)
  have none: "numbers_at k ds = [] \<and> strings_at k ds = []" if "k \<notin> set (av_keys st)"
  proof -
    have "map_of d k = None" if "d \<in> set ds" for d
      using \<open>k \<notin> set (av_keys st)\<close> inv that by (auto simp: avg_inv_def map_of_eq_None_iff)
    then show ?thesis by (auto simp: numbers_at_def strings_at_def map_filter_def filter_empty_conv)
  qed
  show ?thesis using m none inv by (auto simp: avg_inv_def avg_value_def)
qed

text \<open>the data of an aggregate is the field-wise mean of the numeric values of its source rows
  (rows that lack the field, or whose data is not an object, do not count), the last string where a
  field is never numeric, and the number of source rows under \<open>_samples\<close>.\<close>

theorem aggregate_is_mean:
  assumes "\<forall>d \<in> set (List.map_filter mt_data records). distinct (map fst d)"
  shows "map_of (averageData records) k =
    (let ds = List.map_filter mt_data records; ns = numbers_at k ds in
     if k = ''_samples'' then Some (AInt (int (length records)))
     else if ns \<noteq> [] then Some (AFloat64 (sum_list ns / of_nat (length ns)))
     else map_option AStr (last_option (strings_at k ds)))"
proof -
  have split: "map_of (filter (\<lambda>(k, _). k \<noteq> s) m @ [(s, x)]) k = (if k = s then Some x else map_of m k)"
    for m :: obj and s x
    by (simp add: map_add_def map_of_filter_key split: option.splits)
  show ?thesis by (simp only: averageData_def Let_def split averageMaps_spec [OF assms])
qed

definition two_rows :: "metric list" where
  "two_rows =
     [\<lparr>mt_id = ''a'', mt_agent_id = ''h'', mt_type = ''cpu'', mt_data = Some [(''used'', AFloat64 10), (''fs'', AStr ''/'')],
        mt_timestamp = 5 * minute, mt_resolution = ''raw''\<rparr>,
      \<lparr>mt_id = ''b'', mt_agent_id = ''h'', mt_type = ''cpu'', mt_data = Some [(''used'', AInt 20)],
        mt_timestamp = 5 * minute + second, mt_resolution = ''raw''\<rparr>]"

theorem aggregate_is_mean_witness:
  "map_of (averageData two_rows) ''used'' = Some (AFloat64 15)"
  using aggregate_is_mean [of two_rows "''used''"]
  by (simp add: two_rows_def map_filter_def numbers_at_def Let_def)

section \<open>What a pass leaves\<close>

text \<open>
  \<open>pass_inv\<close>: after the buckets \<open>K\<close> of the batch \<open>B\<close> have been processed, starting from \<open>db0\<close>.
\<close>

definition pass_inv ::
  "('db, metric) table \<Rightarrow> string \<Rightarrow> duration \<Rightarrow> metric list \<Rightarrow> 'db \<Rightarrow> bucketKey set \<Rightarrow> 'db \<Rightarrow> bool" where
  "pass_inv T tgt d B db0 K db \<longleftrightarrow>
     (\<forall>r \<in> set B. bucket_key d r \<notin> K \<longrightarrow> t_find T db (mt_id r) = Some r) \<and>
     (\<forall>r \<in> set B. bucket_key d r \<in> K \<longrightarrow> t_find T db (mt_id r) \<noteq> Some r) \<and>
     (\<forall>i r. t_find T db0 i = Some r \<and> r \<notin> set B \<longrightarrow> t_find T db i = Some r) \<and>
     (\<forall>i r. t_find T db i = Some r \<longrightarrow> t_find T db0 i = Some r \<or>
        (\<exists>key \<in> K. r = set_mt_id i (aggregate_row tgt key (filter (\<lambda>r. bucket_key d r = key) B)))) \<and>
     (\<forall>key \<in> K. \<exists>i r. t_find T db i = Some r \<and> aggregate_of tgt key r)"

lemma pass_invD:
  assumes "pass_inv T tgt d B db0 K db"
  shows "r \<in> set B \<Longrightarrow> bucket_key d r \<notin> K \<Longrightarrow> t_find T db (mt_id r) = Some r"
    and "r \<in> set B \<Longrightarrow> bucket_key d r \<in> K \<Longrightarrow> t_find T db (mt_id r) \<noteq> Some r"
    and "t_find T db0 i = Some r \<Longrightarrow> r \<notin> set B \<Longrightarrow> t_find T db i = Some r"
    and "t_find T db i = Some r \<Longrightarrow> t_find T db0 i = Some r \<or>
        (\<exists>key \<in> K. r = set_mt_id i (aggregate_row tgt key (filter (\<lambda>r. bucket_key d r = key) B)))"
    and "key \<in> K \<Longrightarrow> \<exists>i r. t_find T db i = Some r \<and> aggregate_of tgt key r"
  using assms unfolding pass_inv_def by blast+

lemma aggregate_rowD:
  "aggregate_of tgt key (set_mt_id i (aggregate_row tgt key recs))"
  "mt_resolution (set_mt_id i (aggregate_row tgt key recs)) = tgt"
  by (cases key; simp add: aggregate_of_def aggregate_row_def set_mt_id_def)+

lemma aggregate_of_res: "aggregate_of tgt key r \<Longrightarrow> mt_resolution r = tgt"
  by (cases key) (simp add: aggregate_of_def)

lemma aggregate_row_id [simp]: "mt_id (aggregate_row tgt key recs) = []"
  by (cases key) (simp add: aggregate_row_def)

text \<open>Deleting the rows of one bucket, in a state that holds an aggregate for it.\<close>

lemma pass_delete:
  assumes rt: "record_table T mt_id set_mt_id" and dels: "dels_succeed T"
    and inv: "pass_inv T tgt d B db0 K db" and key: "key \<notin> K"
    and res: "\<And>r. r \<in> set B \<Longrightarrow> mt_resolution r \<noteq> tgt"
    and old: "\<And>r. r \<in> set B \<Longrightarrow> bucket_key d r \<notin> K \<Longrightarrow> t_find T db1 (mt_id r) = Some r"
    and gone: "\<And>r. r \<in> set B \<Longrightarrow> bucket_key d r \<in> K \<Longrightarrow> t_find T db1 (mt_id r) \<noteq> Some r"
    and keep: "\<And>i r. t_find T db i = Some r \<Longrightarrow> t_find T db1 i = Some r"
    and new: "\<And>i r. t_find T db1 i = Some r \<Longrightarrow> t_find T db i = Some r \<or>
      r = set_mt_id i (aggregate_row tgt key (filter (\<lambda>r. bucket_key d r = key) B))"
    and agg: "\<exists>i r. t_find T db1 i = Some r \<and> aggregate_of tgt key r"
  shows "pass_inv T tgt d B db0 (insert key K)
    (delete_all T (map mt_id (filter (\<lambda>r. bucket_key d r = key) B)) db1)" (is "pass_inv _ _ _ _ _ _ ?db")
proof -
  have find: "t_find T ?db i = Some r \<longleftrightarrow> t_find T db1 i = Some r \<and> \<not> (r \<in> set B \<and> bucket_key d r = key)" for i r
    using record_table.delete_rows [OF rt dels, of "filter (\<lambda>r. bucket_key d r = key) B" db1 i r] old key by auto
  have rows: "\<And>r. r \<in> set B \<Longrightarrow> bucket_key d r \<notin> insert key K \<Longrightarrow> t_find T ?db (mt_id r) = Some r"
    using old by (simp add: find)
  have rows': "\<And>r. r \<in> set B \<Longrightarrow> bucket_key d r \<in> insert key K \<Longrightarrow> t_find T ?db (mt_id r) \<noteq> Some r"
    using gone by (auto simp: find)
  have others: "\<And>i r. t_find T db0 i = Some r \<Longrightarrow> r \<notin> set B \<Longrightarrow> t_find T ?db i = Some r"
    using pass_invD(3) [OF inv] keep by (simp add: find)
  have origin: "t_find T db0 i = Some r \<or>
      (\<exists>key \<in> insert key K. r = set_mt_id i (aggregate_row tgt key (filter (\<lambda>r. bucket_key d r = key) B)))"
    if "t_find T ?db i = Some r" for i r
    using that new [of i r] pass_invD(4) [OF inv, of i r] by (auto simp: find)
  have aggs: "\<exists>i r. t_find T ?db i = Some r \<and> aggregate_of tgt key' r" if "key' \<in> insert key K" for key'
  proof -
    have "\<exists>i r. t_find T db1 i = Some r \<and> aggregate_of tgt key' r"
    proof (cases "key' = key")
      case True
      with agg show ?thesis by simp
    next
      case False
      with that pass_invD(5) [OF inv, of key'] keep show ?thesis by auto
    qed
    then show ?thesis using res aggregate_of_res find by blast
  qed
  show ?thesis unfolding pass_inv_def
    by (intro conjI ballI allI impI) (erule rows rows' origin aggs | erule conjE, erule others | assumption)+
qed

lemma pass_step:
  assumes rt: "record_table T mt_id set_mt_id" and dels: "dels_succeed T" and saves: "saves_succeed T"
    and queries: "queries_succeed T" and inv: "pass_inv T tgt d B db0 K db"
    and key: "key \<notin> K" "\<exists>r \<in> set B. bucket_key d r = key"
    and res: "\<And>r. r \<in> set B \<Longrightarrow> mt_resolution r \<noteq> tgt"
  shows "pass_inv T tgt d B db0 (insert key K)
    (process_bucket T tgt (\<lambda>key. filter (\<lambda>r. bucket_key d r = key) B) key db)"
proof -
  let ?recs = "filter (\<lambda>r. bucket_key d r = key) B"
  from queries obtain xs where xs: "t_all T db (aggregate_of tgt key) = Some xs"
    by (auto simp: queries_succeed_def)
  have ne: "?recs \<noteq> []" using key(2) by (auto simp: filter_empty_conv)
  show ?thesis
  proof (cases "xs = []")
    case False
    then have step: "process_bucket T tgt (\<lambda>key. filter (\<lambda>r. bucket_key d r = key) B) key db = delete_all T (map mt_id ?recs) db"
      using ne by (simp add: process_bucket_def xs Let_def)
    from False have mem: "hd xs \<in> set xs" by simp
    have agg: "\<exists>i r. t_find T db i = Some r \<and> aggregate_of tgt key r"
      using record_table.all_memD [OF rt xs mem] by blast
    show ?thesis unfolding step
      by (rule pass_delete [OF rt dels inv key(1) res]) (use pass_invD(1,2) [OF inv] agg in auto)
  next
    case True
    obtain db' i where save: "t_save T db (aggregate_row tgt key ?recs) = (db', Some i)"
      using saves_succeedD [OF saves, of db] by (metis option.collapse prod.collapse)
    then have step: "process_bucket T tgt (\<lambda>key. filter (\<lambda>r. bucket_key d r = key) B) key db = delete_all T (map mt_id ?recs) db'"
      using ne True by (simp add: process_bucket_def xs Let_def)
    let ?new = "set_mt_id i (aggregate_row tgt key ?recs)"
    have fresh: "t_find T db i = None" and db': "t_find T db' = (t_find T db)(i \<mapsto> ?new)"
      using record_table.save_new [OF rt save] by simp_all
    have keep: "t_find T db' j = Some r" if "t_find T db j = Some r" for j r
      using that fresh by (auto simp: db')
    have gone: "t_find T db' (mt_id r) \<noteq> Some r" if "r \<in> set B" "bucket_key d r \<in> K" for r
    proof -
      have "r \<noteq> ?new" using res [OF that(1)] aggregate_rowD(2) by metis
      with pass_invD(2) [OF inv that] show ?thesis by (simp add: db')
    qed
    show ?thesis unfolding step
    proof (rule pass_delete [OF rt dels inv key(1) res _ gone keep])
      show "t_find T db j = Some r \<or> r = set_mt_id j (aggregate_row tgt key ?recs)"
        if "t_find T db' j = Some r" for j r
        using that by (auto simp: db' split: if_splits)
      show "\<exists>i r. t_find T db' i = Some r \<and> aggregate_of tgt key r"
        using aggregate_rowD(1) by (auto simp: db')
    qed (use keep pass_invD(1) [OF inv] in auto)
  qed
qed

lemma pass_all:
  assumes rt: "record_table T mt_id set_mt_id" and dels: "dels_succeed T" and saves: "saves_succeed T"
    and queries: "queries_succeed T" and res: "\<And>r. r \<in> set B \<Longrightarrow> mt_resolution r \<noteq> tgt"
  shows "pass_inv T tgt d B db0 K db \<Longrightarrow> distinct ks \<Longrightarrow> set ks \<inter> K = {} \<Longrightarrow> set ks \<subseteq> bucket_key d ` set B \<Longrightarrow>
    pass_inv T tgt d B db0 (K \<union> set ks)
      (fold (process_bucket T tgt (\<lambda>key. filter (\<lambda>r. bucket_key d r = key) B)) ks db)"
proof (induction ks arbitrary: K db)
  case (Cons key ks)
  have "pass_inv T tgt d B db0 (insert key K)
      (process_bucket T tgt (\<lambda>key. filter (\<lambda>r. bucket_key d r = key) B) key db)"
    by (rule pass_step [OF rt dels saves queries Cons.prems(1) _ _ res]) (use Cons.prems in auto)
  from Cons.IH [OF this] Cons.prems show ?case by (simp add: Un_commute insert_commute) 
qed simp

text \<open>C15: one pass, when no call fails: every row of the batch is gone, every other row is as it was,
  every row that is new is the aggregate of a bucket of the batch, and every bucket of the batch has
  an aggregate.\<close>

theorem downsample_conserves:
  assumes rt: "record_table T mt_id set_mt_id" and ok: "dels_succeed T" "saves_succeed T" "queries_succeed T"
    and order: "\<And>rs. set (order rs) = set rs" and iter: "\<And>ks. distinct ks \<Longrightarrow> distinct (iter ks) \<and> set (iter ks) = set ks"
    and tgt: "sourceRes \<noteq> targetRes"
  shows "let B = batch_of order T sourceRes cutoff db; db' = downsample order iter T sourceRes targetRes d cutoff db in
    (\<forall>r \<in> set B. t_find T db (mt_id r) = Some r \<and> t_find T db' (mt_id r) \<noteq> Some r) \<and>
    (\<forall>i r. t_find T db i = Some r \<and> r \<notin> set B \<longrightarrow> t_find T db' i = Some r) \<and>
    (\<forall>i r. t_find T db' i = Some r \<and> t_find T db i \<noteq> Some r \<longrightarrow>
       (\<exists>key \<in> bucket_key d ` set B.
          r = set_mt_id i (aggregate_row targetRes key (filter (\<lambda>r. bucket_key d r = key) B)))) \<and>
    (\<forall>key \<in> bucket_key d ` set B. \<exists>i r. t_find T db' i = Some r \<and> aggregate_of targetRes key r)"
proof -
  let ?B = "batch_of order T sourceRes cutoff db"
  obtain rs where rs: "t_all T db (\<lambda>r. mt_resolution r = sourceRes \<and> mt_timestamp r < fmt_ts cutoff) = Some rs"
    using ok(3) by (auto simp: queries_succeed_def)
  have mem: "t_find T db (mt_id r) = Some r \<and> mt_resolution r = sourceRes" if "r \<in> set ?B" for r
  proof -
    have "r \<in> set rs" using that in_set_takeD order by (fastforce simp: batch_of_def rs)
    from record_table.all_memD [OF rt rs this] show ?thesis by simp
  qed
  have start: "pass_inv T targetRes d ?B db {} db" using mem by (simp add: pass_inv_def)
  have iter': "distinct (iter (remdups (map (bucket_key d) ?B)))"
    "set (iter (remdups (map (bucket_key d) ?B))) = bucket_key d ` set ?B"
    using iter by (simp_all add: distinct_remdups)
  have "pass_inv T targetRes d ?B db (bucket_key d ` set ?B) (downsample order iter T sourceRes targetRes d cutoff db)"
    using pass_all [OF rt ok _ start iter'(1)] mem tgt iter'(2) by (simp add: downsample_def Let_def)
  note D = pass_invD [OF this]
  show ?thesis unfolding Let_def
  proof (intro conjI ballI allI impI)
    fix r assume "r \<in> set ?B"
    then show "t_find T db (mt_id r) = Some r"
      and "t_find T (downsample order iter T sourceRes targetRes d cutoff db) (mt_id r) \<noteq> Some r"
      using mem D(2) by simp_all
  qed (use D(3,4,5) in blast)+
qed

definition metrics_db :: "metric list \<Rightarrow> metric mem" where
  "metrics_db rs = \<lparr>m_rows = map (\<lambda>r. (mt_id r, r)) rs, m_faults = []\<rparr>"

abbreviation sure_metrics :: "(metric mem, metric) table" where
  "sure_metrics \<equiv> sure_table mt_id set_mt_id"

lemma sure_metrics_ok: "record_table sure_metrics mt_id set_mt_id" "dels_succeed sure_metrics"
  "saves_succeed sure_metrics" "queries_succeed sure_metrics"
  using sure_table_contract [OF metrics.record_table_axioms] sure_del_ok mem_all_ok(1) sure_saves
  unfolding dels_succeed_def queries_succeed_def by blast+

theorem downsample_conserves_witness:
  "\<exists>i r. t_find sure_metrics (downsample (\<lambda>rs. rs) (\<lambda>ks. ks) sure_metrics ''raw'' ''1m'' minute hour (metrics_db two_rows)) i = Some r \<and>
     aggregate_of ''1m'' (''h'', ''cpu'', 5 * minute) r"
proof -
  have B: "batch_of (\<lambda>rs. rs) sure_metrics ''raw'' hour (metrics_db two_rows) = two_rows" by code_simp
  have keys: "bucket_key minute ` set two_rows = {(''h'', ''cpu'', 5 * minute)}"
    by (simp add: two_rows_def bucket_key_def truncate_time_def time_simps)
  have "\<forall>key \<in> bucket_key minute ` set two_rows. \<exists>i r. t_find sure_metrics
      (downsample (\<lambda>rs. rs) (\<lambda>ks. ks) sure_metrics ''raw'' ''1m'' minute hour (metrics_db two_rows)) i = Some r \<and>
      aggregate_of ''1m'' key r"
    using downsample_conserves [OF sure_metrics_ok, of "\<lambda>rs. rs" "\<lambda>ks. ks" "''raw''" "''1m''" hour "metrics_db two_rows" minute]
    by (simp only: Let_def B) simp
  then show ?thesis by (simp only: keys) simp
qed

text \<open>rows of a bucket that already has an aggregate, which a batch of 500 rows that ends within the
  bucket leaves for the next pass, are deleted without being averaged: the aggregate stays as it was
  and nothing else is stored.\<close>

theorem late_rows_are_lost:
  assumes rt: "record_table T mt_id set_mt_id" and ok: "dels_succeed T" "queries_succeed T"
    and rows: "\<And>r. r \<in> set (buckets key) \<Longrightarrow> t_find T db (mt_id r) = Some r \<and> mt_resolution r \<noteq> targetRes"
    and agg: "t_find T db i = Some a" "aggregate_of targetRes key a"
  shows "let db' = process_bucket T targetRes buckets key db in
    t_find T db' i = Some a \<and> (\<forall>r \<in> set (buckets key). t_find T db' (mt_id r) \<noteq> Some r) \<and>
    (\<forall>j r. t_find T db' j = Some r \<longrightarrow> t_find T db j = Some r)"
proof (cases "buckets key = []")
  case True
  then show ?thesis using agg by (simp add: process_bucket_def Let_def)
next
  case False
  obtain xs where xs: "t_all T db (aggregate_of targetRes key) = Some xs"
    using ok(2) by (auto simp: queries_succeed_def)
  have "a \<in> set xs" by (rule record_table.all_memI [OF rt xs agg])
  then have "xs \<noteq> []" by auto
  with False have run: "process_bucket T targetRes buckets key db = delete_all T (map mt_id (buckets key)) db"
    by (simp add: process_bucket_def xs Let_def)
  have "a \<notin> set (buckets key)" using rows agg(2) aggregate_of_res by blast
  then show ?thesis
    using record_table.delete_rows [OF rt ok(1), of "buckets key" db] rows agg(1) by (simp add: run Let_def)
qed

theorem late_rows_are_lost_witness:
  "t_find sure_metrics
     (process_bucket sure_metrics ''1m'' (\<lambda>_. two_rows) (''h'', ''cpu'', 5 * minute)
       (metrics_db (set_mt_id ''g'' (aggregate_row ''1m'' (''h'', ''cpu'', 5 * minute) []) # two_rows))) ''a'' \<noteq> Some (hd two_rows)"
proof -
  let ?key = "(''h'', ''cpu'', 5 * minute)" and ?a = "set_mt_id ''g'' (aggregate_row ''1m'' (''h'', ''cpu'', 5 * minute) [])"
  have rows: "r \<in> set two_rows \<Longrightarrow> t_find sure_metrics (metrics_db (?a # two_rows)) (mt_id r) = Some r \<and> mt_resolution r \<noteq> ''1m''" for r
    by (auto simp: two_rows_def metrics_db_def sure_sel mem_defs set_mt_id_def aggregate_row_def)
  have a: "t_find sure_metrics (metrics_db (?a # two_rows)) ''g'' = Some ?a"
    by (simp add: metrics_db_def sure_sel mem_defs set_mt_id_def)
  have "hd two_rows \<in> set two_rows" "mt_id (hd two_rows) = ''a''" by (simp_all add: two_rows_def)
  then show ?thesis
    using late_rows_are_lost [where T = sure_metrics and buckets = "\<lambda>_. two_rows" and key = ?key and targetRes = "''1m''",
        OF sure_metrics_ok(1,2,4) rows a aggregate_rowD(1)] unfolding Let_def by metis
qed

end
