(* ===== verification/Wire.thy ===== *)
theory Wire
  imports Nexwatch_Prelude
begin

text \<open>
  The messages between agent and hub (\<open>internal/shared/protocol/message.go\<close>): message types, the
  envelope, the payloads, and the argument maps of the commands. MessagePack itself is a library:
  \<open>Encode\<close>, \<open>Decode\<close> and \<open>DecodePayload\<close> are the components of a parameter \<open>codec\<close>.
\<close>

section \<open>Message types\<close>

datatype MessageType =
    MessageTypeRegister
  | MessageTypeMetrics
  | MessageTypeHeartbeat
  | MessageTypeCommand
  | MessageTypeAck
  | MessageTypeCommandResponse
  | MessageTypeLogs
  | OtherType "8 word"

text \<open>The numbers on the wire (\<open>iota + 1\<close>), and the type a received number stands for.\<close>

fun type_code :: "MessageType \<Rightarrow> 8 word" where
  "type_code MessageTypeRegister = 1"
| "type_code MessageTypeMetrics = 2"
| "type_code MessageTypeHeartbeat = 3"
| "type_code MessageTypeCommand = 4"
| "type_code MessageTypeAck = 5"
| "type_code MessageTypeCommandResponse = 6"
| "type_code MessageTypeLogs = 7"
| "type_code (OtherType w) = w"

definition type_of_code :: "8 word \<Rightarrow> MessageType" where
  "type_of_code w =
     (if w = 1 then MessageTypeRegister else if w = 2 then MessageTypeMetrics
      else if w = 3 then MessageTypeHeartbeat else if w = 4 then MessageTypeCommand
      else if w = 5 then MessageTypeAck else if w = 6 then MessageTypeCommandResponse
      else if w = 7 then MessageTypeLogs else OtherType w)"

fun type_String :: "MessageType \<Rightarrow> string" where
  "type_String MessageTypeRegister = ''REGISTER''"
| "type_String MessageTypeMetrics = ''METRICS''"
| "type_String MessageTypeHeartbeat = ''HEARTBEAT''"
| "type_String MessageTypeCommand = ''COMMAND''"
| "type_String MessageTypeAck = ''ACK''"
| "type_String MessageTypeCommandResponse = ''COMMAND_RESPONSE''"
| "type_String MessageTypeLogs = ''LOGS''"
| "type_String (OtherType w) = ''UNKNOWN''"

section \<open>Payloads\<close>

record Message =
  msg_Type :: MessageType
  msg_Payload :: string
  msg_Timestamp :: int

record RegisterPayload =
  rp_AgentID :: string
  rp_Hostname :: string
  rp_OS :: string
  rp_IP :: string
  rp_Version :: string
  rp_Arch :: string
  rp_Platform :: string

record MetricData =
  md_Type :: string
  md_Data :: obj
  md_Timestamp :: int

record MetricsPayload =
  mp_AgentID :: string
  mp_Metrics :: "MetricData list"

record LogEntry =
  le_Ts :: int
  le_Source :: string
  le_Unit :: string
  le_Level :: string
  le_Message :: string
  le_Fields :: "(string \<times> string) list"

record LogsPayload =
  lp_AgentID :: string
  lp_Entries :: "LogEntry list"
  lp_Dropped :: "64 word"

record HeartbeatPayload =
  hb_AgentID :: string
  hb_Uptime :: int
  hb_DroppedMessages :: "64 word"

record CommandPayload =
  cp_Command :: string
  cp_Args :: obj

record AckPayload =
  ak_MessageTimestamp :: int
  ak_Status :: string

record CommandResponsePayload =
  rs_Command :: string
  rs_RequestID :: string
  rs_AgentID :: string
  rs_PID :: int
  rs_Output :: string
  rs_Error :: string
  rs_OK :: bool
  rs_ContainerID :: string
  rs_Action :: string
  rs_State :: string
  rs_Stage :: string
  rs_FromVersion :: string
  rs_ToVersion :: string

text \<open>
  \<open>msgpack.Marshal\<close> and \<open>msgpack.Unmarshal\<close> at the types they are used at; a decoder returns \<open>None\<close>
  for an error.
\<close>

record codec =
  encode_message :: "Message \<Rightarrow> string"
  decode_message :: "string \<Rightarrow> Message option"
  encode_ack :: "AckPayload \<Rightarrow> string"
  encode_heartbeat :: "HeartbeatPayload \<Rightarrow> string"
  encode_command :: "CommandPayload \<Rightarrow> string"
  decode_register :: "string \<Rightarrow> RegisterPayload option"
  decode_metrics :: "string \<Rightarrow> MetricsPayload option"
  decode_logs :: "string \<Rightarrow> LogsPayload option"
  decode_heartbeat :: "string \<Rightarrow> HeartbeatPayload option"
  decode_response :: "string \<Rightarrow> CommandResponsePayload option"

definition NewMessage :: "MessageType \<Rightarrow> string \<Rightarrow> int \<Rightarrow> Message" where
  "NewMessage t data nowMillis = \<lparr>msg_Type = t, msg_Payload = data, msg_Timestamp = nowMillis\<rparr>"

section \<open>Command arguments\<close>

record DockerActionPayload =
  da_RequestID :: string
  da_ContainerID :: string
  da_Action :: string

definition DockerAction_ToArgs :: "DockerActionPayload \<Rightarrow> obj" where
  "DockerAction_ToArgs p =
     [(''request_id'', AStr (da_RequestID p)), (''container_id'', AStr (da_ContainerID p)),
      (''action'', AStr (da_Action p))]"

definition ParseDockerActionArgs :: "obj \<Rightarrow> DockerActionPayload" where
  "ParseDockerActionArgs args =
     \<lparr>da_RequestID = str_of (aget args ''request_id''), da_ContainerID = str_of (aget args ''container_id''),
      da_Action = str_of (aget args ''action'')\<rparr>"

record UpdatePayload =
  up_RequestID :: string
  up_Version :: string
  up_BaseURL :: string
  up_OS :: string
  up_Arch :: string

definition Update_ToArgs :: "UpdatePayload \<Rightarrow> obj" where
  "Update_ToArgs p =
     [(''request_id'', AStr (up_RequestID p)), (''version'', AStr (up_Version p)),
      (''base_url'', AStr (up_BaseURL p)), (''os'', AStr (up_OS p)), (''arch'', AStr (up_Arch p))]"

definition ParseUpdateArgs :: "obj \<Rightarrow> UpdatePayload" where
  "ParseUpdateArgs args =
     \<lparr>up_RequestID = str_of (aget args ''request_id''), up_Version = str_of (aget args ''version''),
      up_BaseURL = str_of (aget args ''base_url''), up_OS = str_of (aget args ''os''),
      up_Arch = str_of (aget args ''arch'')\<rparr>"

section \<open>Round trips\<close>

lemma type_round_trip [simp]: "type_code (type_of_code w) = w"
  by (simp add: type_of_code_def)

text \<open>
  A command reaches the agent through the encoder of MessagePack, which keeps the entries of a map
  but not their order, and a hub may add entries an agent does not know: \<open>carries\<close>.
\<close>

definition carries :: "obj \<Rightarrow> obj \<Rightarrow> bool" where
  "carries args sent \<longleftrightarrow> (\<forall>(k, v) \<in> set sent. map_of args k = Some v)"

lemma carriesD: "carries args sent \<Longrightarrow> (k, v) \<in> set sent \<Longrightarrow> aget args k = v"
  unfolding carries_def aget_def by force

text \<open>C16: What the hub puts into the arguments of a docker action or an update is what the agent parses
  out of them, in any order and with any further entries; and a value that is not a string parses as
  the empty string.\<close>

theorem command_args_round_trip:
  "(carries args (Update_ToArgs u) \<longrightarrow> ParseUpdateArgs args = u) \<and>
   (carries args (DockerAction_ToArgs d) \<longrightarrow> ParseDockerActionArgs args = d) \<and>
   (as_string (aget args ''version'') = None \<longrightarrow> up_Version (ParseUpdateArgs args) = [])"
proof (intro conjI impI)
  show "ParseUpdateArgs args = u" if c: "carries args (Update_ToArgs u)"
  proof -
    note D = carriesD [OF c, unfolded Update_ToArgs_def]
    have "aget args ''request_id'' = AStr (up_RequestID u)" "aget args ''version'' = AStr (up_Version u)"
      "aget args ''base_url'' = AStr (up_BaseURL u)" "aget args ''os'' = AStr (up_OS u)"
      "aget args ''arch'' = AStr (up_Arch u)"
      by (rule D, simp)+
    then show ?thesis by (simp add: ParseUpdateArgs_def str_of_def)
  qed
  show "ParseDockerActionArgs args = d" if c: "carries args (DockerAction_ToArgs d)"
  proof -
    note D = carriesD [OF c, unfolded DockerAction_ToArgs_def]
    have "aget args ''request_id'' = AStr (da_RequestID d)" "aget args ''container_id'' = AStr (da_ContainerID d)"
      "aget args ''action'' = AStr (da_Action d)"
      by (rule D, simp)+
    then show ?thesis by (simp add: ParseDockerActionArgs_def str_of_def)
  qed
  show "up_Version (ParseUpdateArgs args) = []" if "as_string (aget args ''version'') = None"
    using that by (simp add: ParseUpdateArgs_def str_of_def)
qed

theorem command_args_round_trip_witness:
  "ParseUpdateArgs [(''os'', AStr ''linux''), (''arch'', AStr ''arm64''), (''dry'', ABool True), (''version'', AStr ''1.2.0''),
      (''request_id'', AStr ''r1''), (''base_url'', AStr ''https://h'')] =
     \<lparr>up_RequestID = ''r1'', up_Version = ''1.2.0'', up_BaseURL = ''https://h'', up_OS = ''linux'', up_Arch = ''arm64''\<rparr> \<and>
   ParseDockerActionArgs (rev (DockerAction_ToArgs \<lparr>da_RequestID = ''r'', da_ContainerID = ''c'', da_Action = ''stop''\<rparr>)) =
     \<lparr>da_RequestID = ''r'', da_ContainerID = ''c'', da_Action = ''stop''\<rparr> \<and>
   up_Version (ParseUpdateArgs [(''version'', AInt 3)]) = []"
proof (intro conjI)
qed (rule command_args_round_trip [THEN conjunct1, rule_format] command_args_round_trip [THEN conjunct2, THEN conjunct1, rule_format]
    command_args_round_trip [THEN conjunct2, THEN conjunct2, rule_format];
  simp add: carries_def Update_ToArgs_def DockerAction_ToArgs_def aget_def)+

end
