(* ===== verification/Agent_Transport.thy ===== *)
theory Agent_Transport
  imports Wire
begin

text \<open>
  The agent's connection to the hub (\<open>internal/agent/transport/ws.go\<close>): the bounded queue of
  outgoing messages with its drop counter, the write pump, heartbeats, and reconnection with
  exponential backoff. The goroutines are the interleaving of the atomic steps of \<open>tstep\<close>; whether
  a dial or a write succeeds is decided by the network, so both outcomes are steps. A dial or a write that
  was under way when \<open>Stop\<close> was called still ends, either way.
\<close>

section \<open>State and operations\<close>

definition sendQueueSize :: nat where "sendQueueSize = 256"
definition initialBackoff :: duration where "initialBackoff = second"
definition maxBackoff :: duration where "maxBackoff = 60 * second"
definition backoffMultiplier :: int where "backoffMultiplier = 2"

record WSTransport =
  tr_connected :: bool
  tr_sendCh :: "string list"
  tr_stopped :: bool
  tr_currentBackoff :: duration
  tr_droppedMessages :: "64 word"

definition NewWSTransport :: WSTransport where
  "NewWSTransport = \<lparr>tr_connected = False, tr_sendCh = [], tr_stopped = False,
     tr_currentBackoff = initialBackoff, tr_droppedMessages = 0\<rparr>"

text \<open>What a step does with a message, for the observer.\<close>

datatype event =
    Accepted string
  | Refused string
  | Written string
  | WriteFailed string
  | Heartbeat "64 word"
  | Silent

text \<open>
  \<open>Send\<close> of an encoded message (\<open>None\<close>: it could not be encoded): queued when the channel has room,
  dropped and counted otherwise. The boolean is \<open>err == nil\<close>.
\<close>

definition Send :: "string option \<Rightarrow> WSTransport \<Rightarrow> WSTransport \<times> event \<times> bool" where
  "Send encoded t =
     (case encoded of
        None \<Rightarrow> (t, Silent, False)
      | Some data \<Rightarrow>
          if length (tr_sendCh t) < sendQueueSize
          then (t\<lparr>tr_sendCh := tr_sendCh t @ [data]\<rparr>, Accepted data, True)
          else (t\<lparr>tr_droppedMessages := tr_droppedMessages t + 1\<rparr>, Refused data, False))"

definition nextBackoff :: "duration \<Rightarrow> duration" where
  "nextBackoff current =
     (let nxt = wrap64 (current * backoffMultiplier) in if maxBackoff < nxt then maxBackoff else nxt)"

definition resetBackoff :: "WSTransport \<Rightarrow> WSTransport" where
  "resetBackoff t = t\<lparr>tr_currentBackoff := initialBackoff\<rparr>"

definition waitBackoff :: "WSTransport \<Rightarrow> WSTransport" where
  "waitBackoff t = t\<lparr>tr_currentBackoff := nextBackoff (tr_currentBackoff t)\<rparr>"

definition closeConn :: "WSTransport \<Rightarrow> WSTransport" where
  "closeConn t = t\<lparr>tr_connected := False\<rparr>"

definition stop_transport :: "WSTransport \<Rightarrow> WSTransport" where
  "stop_transport t = closeConn (t\<lparr>tr_stopped := True\<rparr>)"

text \<open>\<open>Start\<close> after a successful dial: the backoff is reset and \<open>OnConnect\<close> sends the REGISTER message.\<close>

definition on_connected :: "string option \<Rightarrow> WSTransport \<Rightarrow> WSTransport \<times> event" where
  "on_connected register t =
     (case Send register (resetBackoff (t\<lparr>tr_connected := True\<rparr>)) of (t', e, _) \<Rightarrow> (t', e))"

text \<open>The write pump: the oldest queued message, or a heartbeat that carries the drop counter.\<close>

inductive tstep :: "WSTransport \<Rightarrow> event \<Rightarrow> WSTransport \<Rightarrow> bool" where
  send: "Send encoded t = (t', e, ok) \<Longrightarrow> tstep t e t'"
| dial_fails: "\<not> tr_connected t \<Longrightarrow> tstep t Silent (waitBackoff t)"
| dial_ok: "\<not> tr_connected t \<Longrightarrow> on_connected register t = (t', e) \<Longrightarrow> tstep t e t'"
| write_ok: "tr_connected t \<Longrightarrow> tr_sendCh t = data # rest \<Longrightarrow> tstep t (Written data) (t\<lparr>tr_sendCh := rest\<rparr>)"
| write_fails: "tr_sendCh t = data # rest \<Longrightarrow>
    tstep t (WriteFailed data) (closeConn (t\<lparr>tr_sendCh := rest\<rparr>))"
| heartbeat: "tr_connected t \<Longrightarrow> tstep t (Heartbeat (tr_droppedMessages t)) t"
| heartbeat_fails: "tstep t Silent (closeConn t)"
| disconnect: "tr_connected t \<Longrightarrow> tstep t Silent (closeConn t)"
| stop: "tstep t Silent (stop_transport t)"

inductive_cases tstepE: "tstep t e t'"

inductive trun :: "event list \<Rightarrow> WSTransport \<Rightarrow> bool" where
  start: "trun [] NewWSTransport"
| step: "trun es t \<Longrightarrow> tstep t e t' \<Longrightarrow> trun (es @ [e]) t'"

section \<open>The abstract link\<close>

text \<open>
  What the transport promises: a first-in first-out line of bounded length in front of an unreliable
  wire. A message is refused only when the line is full, and only the oldest message leaves it.
\<close>

record link =
  ln_waiting :: "string list"
  ln_refused :: nat

inductive link_step :: "link \<Rightarrow> event \<Rightarrow> link \<Rightarrow> bool" where
  accept: "length (ln_waiting l) < 256 \<Longrightarrow> link_step l (Accepted m) (l\<lparr>ln_waiting := ln_waiting l @ [m]\<rparr>)"
| refuse: "length (ln_waiting l) = 256 \<Longrightarrow> link_step l (Refused m) (l\<lparr>ln_refused := ln_refused l + 1\<rparr>)"
| deliver: "ln_waiting l = m # ms \<Longrightarrow> link_step l (Written m) (l\<lparr>ln_waiting := ms\<rparr>)"
| lose: "ln_waiting l = m # ms \<Longrightarrow> link_step l (WriteFailed m) (l\<lparr>ln_waiting := ms\<rparr>)"
| report: "link_step l (Heartbeat (of_nat (ln_refused l))) l"
| nothing: "link_step l Silent l"

inductive link_run :: "event list \<Rightarrow> link \<Rightarrow> bool" where
  start: "link_run [] \<lparr>ln_waiting = [], ln_refused = 0\<rparr>"
| step: "link_run es l \<Longrightarrow> link_step l e l' \<Longrightarrow> link_run (es @ [e]) l'"

text \<open>The simulation relation: the channel is the line, the counter counts refusals modulo \<open>2^64\<close>.\<close>

definition implements :: "WSTransport \<Rightarrow> link \<Rightarrow> bool" where
  "implements t l \<longleftrightarrow> tr_sendCh t = ln_waiting l \<and> tr_droppedMessages t = of_nat (ln_refused l) \<and>
     length (ln_waiting l) \<le> 256"

lemma Send_step:
  assumes "Send encoded t = (t', e, ok)" and "implements t l"
  shows "\<exists>l'. link_step l e l' \<and> implements t' l'"
proof (cases encoded)
  case None
  with assms show ?thesis by (auto simp: Send_def intro: link_step.nothing)
next
  case (Some m)
  show ?thesis
  proof (cases "length (tr_sendCh t) < 256")
    case True
    then have "e = Accepted m" "t' = t\<lparr>tr_sendCh := tr_sendCh t @ [m]\<rparr>"
      using assms(1) Some by (auto simp: Send_def sendQueueSize_def)
    with True assms(2) show ?thesis
      by (intro exI [of _ "l\<lparr>ln_waiting := ln_waiting l @ [m]\<rparr>"]) (auto simp: implements_def intro: link_step.accept)
  next
    case False
    then have "e = Refused m" "t' = t\<lparr>tr_droppedMessages := tr_droppedMessages t + 1\<rparr>"
      using assms(1) Some by (auto simp: Send_def sendQueueSize_def)
    with False assms(2) show ?thesis
      by (intro exI [of _ "l\<lparr>ln_refused := ln_refused l + 1\<rparr>"]) (use link_step.refuse [of l m] in \<open>auto simp: implements_def\<close>)
  qed
qed

lemma implements_cong:
  "implements t l \<Longrightarrow> tr_sendCh t' = tr_sendCh t \<Longrightarrow> tr_droppedMessages t' = tr_droppedMessages t \<Longrightarrow> implements t' l"
  by (simp add: implements_def)

lemma implements_tl:
  assumes "implements t l" and "tr_sendCh t = m # q"
  shows "ln_waiting l = m # q" "implements (t\<lparr>tr_sendCh := q\<rparr>) (l\<lparr>ln_waiting := q\<rparr>)"
proof -
  show w: "ln_waiting l = m # q" using assms by (simp add: implements_def)
  with assms(1) show "implements (t\<lparr>tr_sendCh := q\<rparr>) (l\<lparr>ln_waiting := q\<rparr>)" by (simp add: implements_def)
qed

lemma tstep_simulates:
  assumes "tstep t e t'" and "implements t l"
  shows "\<exists>l'. link_step l e l' \<and> implements t' l'"
  using assms(1)
proof cases
  case (send encoded ok)
  then show ?thesis using Send_step assms(2) by blast
next
  case (dial_ok register)
  have "implements (resetBackoff (t\<lparr>tr_connected := True\<rparr>)) l"
    using assms(2) by (rule implements_cong) (simp_all add: resetBackoff_def)
  with dial_ok show ?thesis
    by (auto simp: on_connected_def split: prod.splits dest!: Send_step)
next
  case (write_ok data rest)
  note line = implements_tl [OF assms(2) write_ok(4)]
  show ?thesis unfolding write_ok(1,2) using link_step.deliver [OF line(1)] line(2) by blast
next
  case (write_fails data rest)
  note line = implements_tl [OF assms(2) write_fails(3)]
  have "implements (closeConn (t\<lparr>tr_sendCh := rest\<rparr>)) (l\<lparr>ln_waiting := rest\<rparr>)"
    by (rule implements_cong [OF line(2)]) (simp_all add: closeConn_def)
  then show ?thesis unfolding write_fails(1,2) using link_step.lose [OF line(1)] by blast
next
  case heartbeat
  with assms(2) link_step.report [of l] show ?thesis by (auto simp: implements_def)
qed (use assms(2) in \<open>auto simp: closeConn_def waitBackoff_def stop_transport_def
  intro!: exI [of _ l] link_step.nothing elim!: implements_cong\<close>)

text \<open>C17: Every behaviour of the transport is one of the abstract link: for whatever interleaving of sends,
  dials, writes, heartbeats, failures and stops, the link has a run with the same events, whose line
  is the channel and whose number of refusals is what the next heartbeat reports.\<close>

theorem transport_refines_link:
  "trun es t \<Longrightarrow> \<exists>l. link_run es l \<and> implements t l"
proof (induction rule: trun.induct)
  case start
  show ?case
    by (intro exI [of _ "\<lparr>ln_waiting = [], ln_refused = 0\<rparr>"])
      (simp add: link_run.start implements_def NewWSTransport_def)
next
  case (step es t e t')
  then show ?case using tstep_simulates link_run.step by blast
qed

definition busy_run :: "event list" where
  "busy_run = [Accepted ''m1'', Accepted ''reg'', Accepted ''m2'', Written ''m1'', WriteFailed ''reg'']"

lemma busy_run_runs: "trun busy_run \<lparr>tr_connected = False, tr_sendCh = [''m2''], tr_stopped = False,
    tr_currentBackoff = second, tr_droppedMessages = 0\<rparr>"
proof -
  let ?st = "\<lambda>c q. \<lparr>tr_connected = c, tr_sendCh = q, tr_stopped = False, tr_currentBackoff = second, tr_droppedMessages = 0\<rparr>"
  have s: "NewWSTransport = ?st False []" by (simp add: NewWSTransport_def initialBackoff_def)
  have send: "tstep (?st c q) (Accepted m) (?st c (q @ [m]))" if "length q < 256" for c q m
    using that by (intro tstep.send [where encoded = "Some m" and ok = True]) (simp add: Send_def sendQueueSize_def)
  have dial: "tstep (?st False q) (Accepted m) (?st True (q @ [m]))" if "length q < 256" for q m
    using that by (intro tstep.dial_ok [where register = "Some m"])
      (simp_all add: on_connected_def Send_def sendQueueSize_def resetBackoff_def initialBackoff_def)
  have w: "tstep (?st True (m # q)) (Written m) (?st True q)" for m q
    using tstep.write_ok [of "?st True (m # q)" m q] by simp
  have f: "tstep (?st True (m # q)) (WriteFailed m) (?st False q)" for m q
    using tstep.write_fails [of "?st True (m # q)" m q] by (simp add: closeConn_def)
  have "trun [] (?st False [])" using trun.start by (simp add: s)
  from trun.step [OF this send] have "trun [Accepted ''m1''] (?st False [''m1''])" by simp
  from trun.step [OF this dial] have "trun [Accepted ''m1'', Accepted ''reg''] (?st True [''m1'', ''reg''])" by simp
  from trun.step [OF this send]
  have "trun [Accepted ''m1'', Accepted ''reg'', Accepted ''m2''] (?st True [''m1'', ''reg'', ''m2''])" by simp
  from trun.step [OF trun.step [OF this w] f] show ?thesis by (simp add: busy_run_def)
qed

theorem transport_refines_link_witness:
  "\<exists>l. link_run busy_run l \<and> ln_waiting l = [''m2'']"
  using transport_refines_link [OF busy_run_runs] by (auto simp: implements_def)

section \<open>What the link gives\<close>

fun accepted :: "event \<Rightarrow> string list" where
  "accepted (Accepted m) = [m]" | "accepted _ = []"

fun left_line :: "event \<Rightarrow> string list" where
  "left_line (Written m) = [m]" | "left_line (WriteFailed m) = [m]" | "left_line _ = []"

fun refused :: "event \<Rightarrow> nat" where
  "refused (Refused m) = 1" | "refused _ = 0"

lemma link_run_fifo:
  "link_run es l \<Longrightarrow> concat (map accepted es) = concat (map left_line es) @ ln_waiting l \<and>
     length (ln_waiting l) \<le> 256 \<and> ln_refused l = sum_list (map refused es)"
proof (induction rule: link_run.induct)
  case (step es l e l')
  from step.hyps(2) step.IH show ?case by (cases) auto
qed simp

text \<open>What the transport accepts leaves it in the order it was accepted, once, and at most 256 messages
  wait; the reported counter is the number of refused messages modulo \<open>2^64\<close>.\<close>

theorem transport_fifo:
  assumes "trun es t"
  shows "concat (map accepted es) = concat (map left_line es) @ tr_sendCh t \<and> length (tr_sendCh t) \<le> 256 \<and>
    tr_droppedMessages t = of_nat (sum_list (map refused es))"
proof -
  obtain l where "link_run es l" "implements t l" using transport_refines_link [OF assms] by blast
  with link_run_fifo show ?thesis by (simp add: implements_def)
qed
theorem transport_fifo_witness:
  "concat (map left_line busy_run) = [''m1'', ''reg''] \<and> concat (map accepted busy_run) = [''m1'', ''reg'', ''m2'']"
  using transport_fifo [OF busy_run_runs] by (simp add: busy_run_def)

section \<open>Reconnection\<close>

lemma nextBackoff_min: "0 \<le> d \<Longrightarrow> d \<le> 60 * second \<Longrightarrow> nextBackoff d = min (60 * second) (2 * d)"
  by (simp add: nextBackoff_def Let_def maxBackoff_def backoffMultiplier_def second_def wrap64_id min_int64_def
      max_int64_def)

text \<open>Before the \<open>n\<close>-th redial in a row the agent waits \<open>2^n\<close> seconds, at most one minute, and the
  first dial after a connection waits one second again.\<close>

theorem backoff_doubles_to_a_minute:
  "tr_currentBackoff ((waitBackoff ^^ n) (resetBackoff t)) = min (60 * second) (2 ^ n * second)"
proof (induction n)
  case (Suc n)
  let ?d = "min (60 * second) (2 ^ n * second)"
  have "0 \<le> ?d" "?d \<le> 60 * second" by (simp_all add: second_def)
  then have "nextBackoff ?d = min (60 * second) (2 * ?d)" by (rule nextBackoff_min)
  also have "\<dots> = min (60 * second) (2 ^ Suc n * second)" by (auto simp: min_def second_def)
  finally show ?case using Suc by (simp add: waitBackoff_def)
qed (simp add: resetBackoff_def initialBackoff_def second_def)

text \<open>An agent whose queue filled up during an outage never announces itself: the REGISTER message of
  the new connection is refused, and nothing sends another one while the connection lasts.\<close>

theorem register_refused_after_outage:
  assumes "length (tr_sendCh t) = 256" and "\<not> tr_connected t"
  shows "\<exists>t'. tstep t (Refused register) t' \<and> on_connected (Some register) t = (t', Refused register) \<and>
    tr_connected t' \<and> tr_sendCh t' = tr_sendCh t"
proof -
  have "on_connected (Some register) t =
      ((resetBackoff (t\<lparr>tr_connected := True\<rparr>))\<lparr>tr_droppedMessages := tr_droppedMessages t + 1\<rparr>, Refused register)"
    using assms(1) by (simp add: on_connected_def Send_def sendQueueSize_def resetBackoff_def)
  from this tstep.dial_ok [OF assms(2) this] show ?thesis by (simp add: resetBackoff_def)
qed

theorem register_refused_after_outage_witness:
  "\<exists>t'. tstep (NewWSTransport\<lparr>tr_sendCh := replicate 256 ''m''\<rparr>) (Refused ''reg'') t' \<and> ''reg'' \<notin> set (tr_sendCh t')"
  using register_refused_after_outage [of "NewWSTransport\<lparr>tr_sendCh := replicate 256 ''m''\<rparr>" "''reg''"]
  by (auto simp: NewWSTransport_def)

end
