(* ===== verification/Ingest.thy ===== *)
theory Ingest
  imports Wire Hub_Records Alert_Eval
begin

text \<open>
  What the hub stores of the agents' messages: metric rows and the container inventory
  (\<open>internal/hub/metrics/service.go\<close>) and log rows (\<open>internal/hub/logs/service.go\<close>). The collections
  themselves exist once the migrations have run, so \<open>FindCollectionByNameOrId\<close> has no error branch.
\<close>

text \<open>\<open>time.UnixMilli\<close>: milliseconds since 1970, on the scale that starts at Go's zero time.\<close>

definition unix_epoch :: time where [time_simps]: "unix_epoch = 62135596800000000000"

definition UnixMilli :: "int \<Rightarrow> time" where
  "UnixMilli ms = unix_epoch + ms * millisecond"

section \<open>Containers\<close>

record container =
  ct_id :: string
  ct_agent_id :: string
  ct_container_id :: string
  ct_name :: string
  ct_image :: string
  ct_status :: string
  ct_cpu_percent :: rat
  ct_memory_usage :: rat
  ct_memory_limit :: rat
  ct_network_rx :: rat
  ct_network_tx :: rat
  ct_image_digest :: string
  ct_remote_digest :: string
  ct_update_available :: bool
  ct_updated_at :: time

definition new_container :: "string \<Rightarrow> string \<Rightarrow> container" where
  "new_container agentID containerID =
     \<lparr>ct_id = [], ct_agent_id = agentID, ct_container_id = containerID, ct_name = [], ct_image = [],
      ct_status = [], ct_cpu_percent = 0, ct_memory_usage = 0, ct_memory_limit = 0, ct_network_rx = 0,
      ct_network_tx = 0, ct_image_digest = [], ct_remote_digest = [], ct_update_available = False,
      ct_updated_at = 0\<rparr>"

definition set_ct_id :: "string \<Rightarrow> container \<Rightarrow> container" where
  "set_ct_id i c = c\<lparr>ct_id := i\<rparr>"

interpretation containers: record_table "mem_table ct_id set_ct_id" ct_id set_ct_id
  by (rule mem_table_contract) (simp_all add: set_ct_id_def)

text \<open>The fields a report carries; an absent one, or one of another type, keeps its value.\<close>

definition apply_report :: "obj \<Rightarrow> container \<Rightarrow> container" where
  "apply_report data c =
     (let str = (\<lambda>k old. case as_string (aget data k) of Some s \<Rightarrow> s | None \<Rightarrow> old);
          num = (\<lambda>k old. case toFloat64 (aget data k) of Some f \<Rightarrow> f | None \<Rightarrow> old)
      in c\<lparr>ct_name := str ''name'' (ct_name c), ct_image := str ''image'' (ct_image c),
           ct_status := str ''status'' (ct_status c),
           ct_cpu_percent := num ''cpu_percent'' (ct_cpu_percent c),
           ct_memory_usage := num ''memory_usage'' (ct_memory_usage c),
           ct_memory_limit := num ''memory_limit'' (ct_memory_limit c),
           ct_network_rx := num ''network_rx'' (ct_network_rx c),
           ct_network_tx := num ''network_tx'' (ct_network_tx c),
           ct_image_digest := str ''image_digest'' (ct_image_digest c),
           ct_remote_digest := str ''remote_digest'' (ct_remote_digest c),
           ct_update_available :=
             (case as_bool (aget data ''update_available'') of Some b \<Rightarrow> b | None \<Rightarrow> ct_update_available c)\<rparr>)"

definition upsertDockerContainer ::
  "('c, container) table \<Rightarrow> time \<Rightarrow> string \<Rightarrow> obj \<Rightarrow> 'c \<Rightarrow> 'c" where
  "upsertDockerContainer T now agentID data db =
     (let containerID = str_of (aget data ''container_id'') in
      if containerID = [] then db
      else
        let record = (case t_all T db (\<lambda>c. ct_agent_id c = agentID \<and> ct_container_id c = containerID) of
                        Some (c # _) \<Rightarrow> c
                      | _ \<Rightarrow> new_container agentID containerID)
        in fst (t_save T db ((apply_report data record)\<lparr>ct_updated_at := fmt_ts now\<rparr>)))"

section \<open>Metrics\<close>

text \<open>
  \<open>stored\<close> is the outcome of writing a payload as JSON and reading it back; \<open>None\<close> when it has no
  JSON form.
\<close>

definition metric_row :: "(obj \<Rightarrow> obj option) \<Rightarrow> time \<Rightarrow> string \<Rightarrow> MetricData \<Rightarrow> metric" where
  "metric_row stored now agentID m =
     (let ts = (if 0 < md_Timestamp m then UnixMilli (md_Timestamp m) else now)
      in \<lparr>mt_id = [], mt_agent_id = agentID, mt_type = md_Type m, mt_data = stored (md_Data m),
          mt_timestamp = fmt_ts ts, mt_resolution = ''raw''\<rparr>)"

definition ingest_metric ::
  "('m, metric) table \<Rightarrow> ('c, container) table \<Rightarrow> (obj \<Rightarrow> obj option) \<Rightarrow> time \<Rightarrow> string \<Rightarrow> MetricData
   \<Rightarrow> 'm \<times> 'c \<Rightarrow> 'm \<times> 'c" where
  "ingest_metric M C stored now agentID m = (\<lambda>(mdb, cdb).
     if stored (md_Data m) = None then (mdb, cdb)
     else
       case t_save M mdb (metric_row stored now agentID m) of
         (mdb', None) \<Rightarrow> (mdb', cdb)
       | (mdb', Some _) \<Rightarrow>
           (mdb',
            if md_Type m = ''docker''
            then (case as_arr (aget (md_Data m) ''containers'') of
                    None \<Rightarrow> cdb
                  | Some cs \<Rightarrow> fold (\<lambda>c cdb. case as_obj c of
                        None \<Rightarrow> cdb
                      | Some data \<Rightarrow> upsertDockerContainer C now agentID data cdb) cs cdb)
            else cdb))"

definition IngestMetrics ::
  "('m, metric) table \<Rightarrow> ('c, container) table \<Rightarrow> (obj \<Rightarrow> obj option) \<Rightarrow> time \<Rightarrow> string \<Rightarrow> MetricsPayload
   \<Rightarrow> 'm \<times> 'c \<Rightarrow> 'm \<times> 'c" where
  "IngestMetrics M C stored now agentID payload dbs =
     fold (ingest_metric M C stored now agentID) (mp_Metrics payload) dbs"

text \<open>The readers: \<open>newest\<close> is PocketBase's sort by descending timestamp.\<close>

definition QueryMetrics ::
  "(metric list \<Rightarrow> metric list) \<Rightarrow> ('m, metric) table \<Rightarrow> string \<Rightarrow> string \<Rightarrow> time \<Rightarrow> time \<Rightarrow> string \<Rightarrow> 'm
   \<Rightarrow> metric list option" where
  "QueryMetrics newest M agentID metricType start stop resolution db =
     map_option (\<lambda>rs. take 1000 (newest rs))
       (t_all M db (\<lambda>r. fmt_ts start \<le> mt_timestamp r \<and> mt_timestamp r \<le> fmt_ts stop \<and>
          (agentID = [] \<or> mt_agent_id r = agentID) \<and> (metricType = [] \<or> mt_type r = metricType) \<and>
          (resolution = [] \<or> mt_resolution r = resolution)))"

definition GetLatestMetricsByAgent ::
  "(metric list \<Rightarrow> metric list) \<Rightarrow> ('m, metric) table \<Rightarrow> string \<Rightarrow> 'm \<Rightarrow> (string \<times> metric) list" where
  "GetLatestMetricsByAgent newest M agentID db =
     List.map_filter (\<lambda>t. case t_all M db (\<lambda>r. mt_agent_id r = agentID \<and> mt_type r = t) of
         None \<Rightarrow> None
       | Some rs \<Rightarrow> (case take 1 (newest rs) of [] \<Rightarrow> None | r # _ \<Rightarrow> Some (t, r)))
       [''cpu'', ''memory'', ''disk'', ''network'']"

section \<open>Logs\<close>

text \<open>The encodings of one rune, by the number of bytes (\<open>unicode/utf8\<close>).\<close>

definition is_cont :: "char \<Rightarrow> bool" where
  "is_cont c \<longleftrightarrow> 128 \<le> char_code c \<and> char_code c \<le> 191"

fun rune_bytes :: "string \<Rightarrow> bool" where
  "rune_bytes [a] = (char_code a < 128)"
| "rune_bytes [a, b] = (194 \<le> char_code a \<and> char_code a \<le> 223 \<and> is_cont b)"
| "rune_bytes [a, b, c] =
     (224 \<le> char_code a \<and> char_code a \<le> 239 \<and> is_cont b \<and> is_cont c \<and>
      (char_code a = 224 \<longrightarrow> 160 \<le> char_code b) \<and> (char_code a = 237 \<longrightarrow> char_code b \<le> 159))"
| "rune_bytes [a, b, c, d] =
     (240 \<le> char_code a \<and> char_code a \<le> 244 \<and> is_cont b \<and> is_cont c \<and> is_cont d \<and>
      (char_code a = 240 \<longrightarrow> 144 \<le> char_code b) \<and> (char_code a = 244 \<longrightarrow> char_code b \<le> 143))"
| "rune_bytes _ = False"

text \<open>
  \<open>DecodeLastRuneInString\<close> finds a complete rune at the end (anything else is \<open>RuneError\<close> of size 1).
\<close>

definition last_rune_complete :: "string \<Rightarrow> bool" where
  "last_rune_complete b \<longleftrightarrow> (\<exists>k \<in> {1, 2, 3, 4}. k \<le> length b \<and> rune_bytes (drop (length b - k) b))"

function trim_runes :: "string \<Rightarrow> string" where
  "trim_runes b = (if b = [] \<or> last_rune_complete b then b else trim_runes (butlast b))"
  by pat_completeness auto

termination
  by (relation "measure length") auto

declare trim_runes.simps [simp del]

definition truncateUTF8 :: "string \<Rightarrow> nat \<Rightarrow> string" where
  "truncateUTF8 s maxBytes = (if length s \<le> maxBytes then s else trim_runes (take maxBytes s))"

definition maxMessageBytes :: nat where "maxMessageBytes = 8192"

definition normalizeLevel :: "string \<Rightarrow> string" where
  "normalizeLevel level =
     (if level \<in> {''error'', ''warning'', ''info'', ''debug''} then level else ''info'')"

definition entryTime :: "time \<Rightarrow> int \<Rightarrow> time" where
  "entryTime now unixMillis = (if unixMillis \<le> 0 then now else UnixMilli unixMillis)"

definition log_row :: "time \<Rightarrow> string \<Rightarrow> LogEntry \<Rightarrow> logrow" where
  "log_row now agentID e =
     \<lparr>lg_id = [], lg_agent_id = agentID, lg_ts = fmt_ts (entryTime now (le_Ts e)), lg_source = le_Source e,
      lg_unit = le_Unit e, lg_level = normalizeLevel (le_Level e),
      lg_message = truncateUTF8 (le_Message e) maxMessageBytes, lg_fields = le_Fields e\<rparr>"

definition save_entry :: "('l, logrow) table \<Rightarrow> time \<Rightarrow> string \<Rightarrow> LogEntry \<Rightarrow> 'l \<times> nat \<Rightarrow> 'l \<times> nat" where
  "save_entry L now agentID e = (\<lambda>(db, saved).
     case t_save L db (log_row now agentID e) of
       (db', None) \<Rightarrow> (db', saved)
     | (db', Some _) \<Rightarrow> (db', saved + 1))"

definition bumpLinesTotal :: "('a, agent) table \<Rightarrow> string \<Rightarrow> nat \<Rightarrow> 'a \<Rightarrow> 'a" where
  "bumpLinesTotal A agentID n db =
     (case t_find A db agentID of
        None \<Rightarrow> db
      | Some agent \<Rightarrow>
          fst (t_save A db (agent\<lparr>ag_logs_lines_total := ag_logs_lines_total agent + of_nat n\<rparr>)))"

text \<open>
  The batch runs in a transaction whose commit may fail; the count of saved rows survives that.
\<close>

definition IngestLogs ::
  "('l, logrow) table \<Rightarrow> ('a, agent) table \<Rightarrow> bool \<Rightarrow> time \<Rightarrow> string \<Rightarrow> LogsPayload option
   \<Rightarrow> 'l \<times> 'a \<Rightarrow> 'l \<times> 'a" where
  "IngestLogs L A commits now agentID payload = (\<lambda>(ldb, adb).
     case payload of
       None \<Rightarrow> (ldb, adb)
     | Some p \<Rightarrow>
         if lp_Entries p = [] then (ldb, adb)
         else
           case fold (save_entry L now agentID) (lp_Entries p) (ldb, 0) of
             (ldb', saved) \<Rightarrow>
               (if commits then ldb' else ldb, if 0 < saved then bumpLinesTotal A agentID saved adb else adb))"

section \<open>Truncation\<close>

definition utf8_valid :: "string \<Rightarrow> bool" where
  "utf8_valid s \<longleftrightarrow> (\<exists>rs. s = concat rs \<and> (\<forall>r \<in> set rs. rune_bytes r))"

lemma rune_bytes_length: "rune_bytes r \<Longrightarrow> length r \<in> {1, 2, 3, 4}"
  by (cases r rule: rune_bytes.cases) auto

lemma trim_runes_prefix: "\<exists>t. s = trim_runes s @ t"
proof (induction s rule: trim_runes.induct)
  case (1 b)
  show ?case
  proof (cases "b = [] \<or> last_rune_complete b")
    case True
    then show ?thesis by (simp add: trim_runes.simps [of b])
  next
    case False
    then obtain t where t: "butlast b = trim_runes (butlast b) @ t" using 1 by blast
    have "b = butlast b @ [last b]" using False by simp
    with t have "b = trim_runes (butlast b) @ t @ [last b]" by (metis append.assoc)
    with False show ?thesis by (simp add: trim_runes.simps [of b]) blast
  qed
qed

lemma complete_snoc: "rune_bytes r \<Longrightarrow> last_rune_complete (s @ r)"
  using rune_bytes_length [of r] unfolding last_rune_complete_def by (intro bexI [of _ "length r"]) auto

text \<open>The first byte of an encoding gives its length, and only the others are continuation bytes.\<close>

lemma rune_bytes_head:
  assumes "rune_bytes r"
  shows "r \<noteq> []" "\<not> is_cont (hd r)" "\<forall>c \<in> set (tl r). is_cont c"
    "length r = (if char_code (hd r) < 128 then 1 else if char_code (hd r) \<le> 223 then 2
       else if char_code (hd r) \<le> 239 then 3 else 4)"
  using assms by (cases r rule: rune_bytes.cases; auto simp: is_cont_def)+

lemma partial_incomplete:
  assumes r: "rune_bytes r" and p: "0 < k" "k < length r"
  shows "\<not> last_rune_complete (s @ take k r)"
proof
  let ?b = "s @ take k r"
  assume "last_rune_complete ?b"
  then obtain j where j: "j \<le> length ?b" "rune_bytes (drop (length ?b - j) ?b)" "0 < j"
    unfolding last_rune_complete_def by auto
  let ?x = "drop (length ?b - j) ?b"
  have lenp: "length (take k r) = k" using p by simp
  obtain a q where rq: "r = a # q" using p by (cases r) auto
  obtain k' where k': "k = Suc k'" using p by (cases k) auto
  consider "j < k" | "j = k" | "k < j" by linarith
  then show False
  proof cases
    case 1
    then have "?x = drop (k - j) (take k r)" using lenp by simp
    also have "\<dots> = drop (k - j) (a # take k' q)" by (simp add: rq k')
    also have "\<dots> = drop (k - j - 1) (take k' q)" using 1 by (simp only: drop_Cons') simp
    finally have "set ?x \<subseteq> set (tl r)" by (metis list.sel(3) order_trans rq set_drop_subset set_take_subset)
    then have "is_cont (hd ?x)" using rune_bytes_head(1) [OF j(2)] rune_bytes_head(3) [OF r] by (meson hd_in_set subsetD)
    then show False using rune_bytes_head(2) [OF j(2)] by blast
  next
    case 2
    then have "?x = take k r" using lenp by simp
    then have "rune_bytes (take k r)" "hd (take k r) = hd r" using j(2) p by (simp_all add: rq k')
    then have "length (take k r) = length r" using rune_bytes_head(4) r by metis
    with p lenp show False by simp
  next
    case 3
    then have "?x = drop (length ?b - j) s @ take k r" using j(1) lenp by simp
    moreover have "drop (length ?b - j) s \<noteq> []" using 3 j(1) lenp by simp
    ultimately have "hd r \<in> set (tl ?x)" by (simp add: tl_append rq k' split: list.split)
    then show False using rune_bytes_head(3) [OF j(2)] rune_bytes_head(2) [OF r] by blast
  qed
qed

lemma trim_concat: "\<forall>r \<in> set rs. rune_bytes r \<Longrightarrow> trim_runes (concat rs) = concat rs"
  by (cases rs rule: rev_cases) (auto simp: trim_runes.simps [of "concat _"] trim_runes.simps [of "concat _ @ _"] complete_snoc
      trim_runes.simps [of "[]"])

lemma trim_partial:
  assumes "\<forall>r \<in> set rs. rune_bytes r" and "rune_bytes r"
  shows "k < length r \<Longrightarrow> trim_runes (concat rs @ take k r) = concat rs"
proof (induction k)
  case 0
  then show ?case using trim_concat assms(1) by simp
next
  case (Suc k)
  have "butlast (concat rs @ take (Suc k) r) = concat rs @ take k r"
    using Suc.prems by (simp add: take_Suc_conv_app_nth butlast_append)
  with Suc partial_incomplete [OF assms(2), of "Suc k" "concat rs"] show ?case
    by (subst trim_runes.simps) auto
qed

lemma take_concat:
  "n < length (concat rs) \<Longrightarrow> \<exists>as r bs k. rs = as @ r # bs \<and> k < length r \<and> take n (concat rs) = concat as @ take k r \<and>
    n = length (concat as) + k"
proof (induction rs arbitrary: n)
  case (Cons r rs)
  show ?case
  proof (cases "n < length r")
    case True
    then show ?thesis by (intro exI [of _ "[]"] exI [of _ r] exI [of _ rs] exI [of _ n]) simp
  next
    case False
    with Cons.prems have "n - length r < length (concat rs)" by simp
    from Cons.IH [OF this] obtain as r' bs k where *: "rs = as @ r' # bs" "k < length r'"
      "take (n - length r) (concat rs) = concat as @ take k r'" "n - length r = length (concat as) + k" by blast
    with False show ?thesis
      by (intro exI [of _ "r # as"] exI [of _ r'] exI [of _ bs] exI [of _ k]) auto
  qed
qed simp

text \<open>C18: Cutting a valid UTF-8 message to a maximal number of bytes keeps a prefix that is valid UTF-8,
  within the limit, and at most three bytes shorter than it; a message that fits is kept whole.\<close>

theorem truncation_cuts_between_runes:
  assumes "utf8_valid s"
  shows "utf8_valid (truncateUTF8 s n) \<and> (\<exists>t. s = truncateUTF8 s n @ t) \<and> length (truncateUTF8 s n) \<le> n \<and>
    (if length s \<le> n then truncateUTF8 s n = s else n \<le> length (truncateUTF8 s n) + 3)"
proof (cases "length s \<le> n")
  case True
  with assms show ?thesis by (simp add: truncateUTF8_def)
next
  case False
  obtain rs where rs: "s = concat rs" "\<forall>r \<in> set rs. rune_bytes r" using assms unfolding utf8_valid_def by blast
  with False take_concat [of n rs] obtain as r bs k where
    *: "rs = as @ r # bs" "k < length r" "take n s = concat as @ take k r" "n = length (concat as) + k" by auto
  have eq: "truncateUTF8 s n = concat as"
    using False rs(2) * trim_partial [of as r k] by (simp add: truncateUTF8_def)
  have "length r \<le> 4" using rune_bytes_length [of r] rs(2) * by auto
  moreover have "utf8_valid (concat as)" using rs(2) * unfolding utf8_valid_def by auto
  moreover have "\<exists>t. s = concat as @ t" using rs(1) *(1) by auto
  ultimately show ?thesis unfolding eq using False *(2,4) by auto
qed

theorem truncation_cuts_between_runes_witness:
  "utf8_valid (truncateUTF8 [CHR ''a'', CHR 0xC3, CHR 0xA9] 2) \<and> truncateUTF8 [CHR ''a'', CHR 0xC3, CHR 0xA9] 2 = ''a''"
proof -
  let ?s = "[CHR ''a'', CHR 0xC3, CHR 0xA9]"
  have "?s = concat [[CHR ''a''], [CHR 0xC3, CHR 0xA9]]" "\<forall>r \<in> set [[CHR ''a''], [CHR 0xC3, CHR 0xA9]]. rune_bytes r"
    by (simp_all add: is_cont_def)
  then have "utf8_valid ?s" unfolding utf8_valid_def by blast
  moreover have "truncateUTF8 ?s 2 = ''a''"
    by (simp add: truncateUTF8_def trim_runes.simps [of "[CHR ''a'', CHR 0xC3]"] trim_runes.simps [of "''a''"]
        last_rune_complete_def)
  ultimately show ?thesis using truncation_cuts_between_runes by metis
qed

section \<open>Well-formed rows\<close>

text \<open>The schema of \<open>logs\<close> (\<open>internal/hub/migrations/logs.go\<close>), as far as the hub is responsible for it.\<close>

definition log_wf :: "string \<Rightarrow> logrow \<Rightarrow> bool" where
  "log_wf agentID r \<longleftrightarrow> lg_agent_id r = agentID \<and>
     lg_level r \<in> {''error'', ''warning'', ''info'', ''debug''} \<and> length (lg_message r) \<le> 8192 \<and>
     fmt_ts (lg_ts r) = lg_ts r"

lemma length_truncateUTF8: "length (truncateUTF8 s n) \<le> n"
proof -
  obtain t where "take n s = trim_runes (take n s) @ t" using trim_runes_prefix by blast
  then have "length (trim_runes (take n s)) \<le> length (take n s)" by (metis le_add1 length_append)
  then show ?thesis by (simp add: truncateUTF8_def)
qed

lemma log_row_wf: "log_wf agentID (set_lg_id i (log_row now agentID e))"
  using length_truncateUTF8 [of _ maxMessageBytes]
  by (simp add: log_wf_def log_row_def set_lg_id_def normalizeLevel_def maxMessageBytes_def)

definition only_adds :: "('r \<Rightarrow> bool) \<Rightarrow> ('db \<Rightarrow> string \<Rightarrow> 'r option) \<Rightarrow> 'db \<Rightarrow> 'db \<Rightarrow> bool" where
  "only_adds P look db db' \<longleftrightarrow> (\<forall>i r. look db i = Some r \<longrightarrow> look db' i = Some r) \<and>
     (\<forall>i r. look db' i = Some r \<longrightarrow> look db i = Some r \<or> P r)"

lemma only_adds_refl [simp]: "only_adds P look db db"
  by (simp add: only_adds_def)

lemma only_adds_trans: "only_adds P look a b \<Longrightarrow> only_adds P look b c \<Longrightarrow> only_adds P look a c"
  unfolding only_adds_def by blast

lemma save_only_adds:
  assumes rt: "record_table T ident si" and r: "ident r = []" "\<And>i. P (si i r)" and save: "t_save T db r = (db', res)"
  shows "only_adds P (t_find T) db db'"
proof (cases res)
  case None
  with record_table.save_err [OF rt] save show ?thesis by (simp add: only_adds_def)
next
  case (Some i)
  with record_table.save_new [OF rt] save r show ?thesis by (auto simp: only_adds_def)
qed

lemma save_entries_add:
  assumes rt: "record_table L lg_id set_lg_id"
  shows "only_adds (log_wf agentID) (t_find L) db (fst (fold (save_entry L now agentID) es (db, n)))"
proof (induction es arbitrary: db n)
  case (Cons e es)
  obtain db' res where s: "t_save L db (log_row now agentID e) = (db', res)" by fastforce
  have "only_adds (log_wf agentID) (t_find L) db db'"
    by (rule save_only_adds [OF rt _ _ s]) (simp_all only: log_row_wf, simp add: log_row_def)
  moreover obtain n' where "save_entry L now agentID e (db, n) = (db', n')"
    by (cases res) (auto simp: save_entry_def s)
  ultimately show ?case using Cons.IH [of db' n'] by (simp add: only_adds_trans)
qed simp

lemma IngestLogs_only_adds:
  assumes "record_table L lg_id set_lg_id"
  shows "only_adds (log_wf agentID) (t_find L) ldb (fst (IngestLogs L A commits now agentID payload (ldb, adb)))"
proof (cases payload)
  case None
  then show ?thesis by (simp add: IngestLogs_def)
next
  case (Some p)
  obtain ldb' n where f: "fold (save_entry L now agentID) (lp_Entries p) (ldb, 0) = (ldb', n)" by fastforce
  have "only_adds (log_wf agentID) (t_find L) ldb ldb'"
    using save_entries_add [OF assms, of agentID ldb now "lp_Entries p" 0] by (simp only: f fst_conv)
  with Some show ?thesis by (simp add: IngestLogs_def f)
qed

text \<open>Whatever a batch contains and whichever saves fail, ingesting it leaves every stored log row as it
  was, and each row it adds belongs to the sending agent and satisfies the schema: one of the four
  levels, at most 8192 bytes of message, a timestamp of whole milliseconds.\<close>

theorem ingested_logs_are_well_formed:
  assumes "record_table L lg_id set_lg_id"
  shows "only_adds (log_wf agentID) (t_find L) ldb (fst (IngestLogs L A commits now agentID payload (ldb, adb)))"
  by (rule IngestLogs_only_adds [OF assms])

definition odd_entry :: LogEntry where
  "odd_entry = \<lparr>le_Ts = 0, le_Source = ''file:/x'', le_Unit = [], le_Level = ''fatal'', le_Message = ''boom'', le_Fields = []\<rparr>"

theorem ingested_logs_are_well_formed_witness:
  "\<exists>ldb. ldb = fst (IngestLogs mem_logs mem_agents True day ''a1''
       (Some \<lparr>lp_AgentID = ''other'', lp_Entries = [odd_entry], lp_Dropped = 0\<rparr>)
       (\<lparr>m_rows = [], m_faults = []\<rparr>, \<lparr>m_rows = [], m_faults = []\<rparr>)) \<and>
     map_option lg_level (t_find mem_logs ldb ''r'') = Some ''info'' \<and>
     (\<forall>i r. t_find mem_logs ldb i = Some r \<longrightarrow> log_wf ''a1'' r)"
proof -
  let ?ldb = "fst (IngestLogs mem_logs mem_agents True day ''a1''
       (Some \<lparr>lp_AgentID = ''other'', lp_Entries = [odd_entry], lp_Dropped = 0\<rparr>)
       (\<lparr>m_rows = [], m_faults = []\<rparr>, \<lparr>m_rows = [], m_faults = []\<rparr>))"
  have none: "t_find mem_logs \<lparr>m_rows = [], m_faults = []\<rparr> i = None" for i by (simp add: mem_defs)
  have level: "map_option lg_level (t_find mem_logs ?ldb ''r'') = Some ''info''"
    by (simp add: IngestLogs_def save_entry_def odd_entry_def log_row_def normalizeLevel_def mem_table_def
        mem_save_def mem_fresh_def mem_find_def set_lg_id_def Let_def del: One_nat_def)
  have "only_adds (log_wf ''a1'') (t_find mem_logs) \<lparr>m_rows = [], m_faults = []\<rparr> ?ldb"
    by (rule ingested_logs_are_well_formed [OF logs.record_table_axioms])
  then have "\<forall>i r. t_find mem_logs ?ldb i = Some r \<longrightarrow> log_wf ''a1'' r"
    unfolding only_adds_def none by simp
  with level show ?thesis by (intro exI conjI) (rule refl)
qed

section \<open>Container reports\<close>

lemma apply_report_absent:
  assumes "map_of data ''image_digest'' = None" and "map_of data ''remote_digest'' = None"
    and "map_of data ''update_available'' = None"
  shows "ct_image_digest (apply_report data c) = ct_image_digest c"
    "ct_remote_digest (apply_report data c) = ct_remote_digest c"
    "ct_update_available (apply_report data c) = ct_update_available c"
  using assms by (simp_all add: apply_report_def Let_def aget_def)

end
