(* ===== verification/Broker.thy ===== *)
theory Broker
  imports Wire
begin

text \<open>
  The request/response broker (\<open>internal/hub/commands/broker.go\<close>): concurrent \<open>Send\<close> calls wait for
  the response with their request id. The goroutines are the interleavings of the steps of \<open>bstep\<close>;
  the lock makes each access to the pending map atomic. A channel is a number, its buffer of
  capacity 1 an optional response.
\<close>

section \<open>State\<close>

datatype SendError = ErrTimeout | Unreachable string | Canceled string

type_synonym send_result = "SendError + CommandResponsePayload"

record Broker =
  bk_pending :: "string \<Rightarrow> nat option"
  bk_waiting :: "nat \<Rightarrow> string option"
  bk_buffer :: "nat \<Rightarrow> CommandResponsePayload option"
  bk_next :: nat

definition NewBroker :: Broker where
  "NewBroker = \<lparr>bk_pending = (\<lambda>_. None), bk_waiting = (\<lambda>_. None), bk_buffer = (\<lambda>_. None), bk_next = 0\<rparr>"

text \<open>\<open>Send\<close> up to the wait: a fresh channel, registered under the request id.\<close>

definition begin_send :: "string \<Rightarrow> Broker \<Rightarrow> Broker \<times> nat" where
  "begin_send requestID b =
     (let ch = bk_next b in
      (b\<lparr>bk_pending := (bk_pending b)(requestID \<mapsto> ch), bk_waiting := (bk_waiting b)(ch \<mapsto> requestID),
         bk_buffer := (bk_buffer b)(ch := None), bk_next := ch + 1\<rparr>, ch))"

text \<open>The deferred cleanup when \<open>Send\<close> returns, for whatever reason.\<close>

definition end_send :: "nat \<Rightarrow> Broker \<Rightarrow> Broker" where
  "end_send ch b =
     (case bk_waiting b ch of
        None \<Rightarrow> b
      | Some requestID \<Rightarrow>
          b\<lparr>bk_pending := (bk_pending b)(requestID := None), bk_waiting := (bk_waiting b)(ch := None)\<rparr>)"

definition HandleResponse :: "CommandResponsePayload \<Rightarrow> Broker \<Rightarrow> Broker" where
  "HandleResponse payload b =
     (case bk_pending b (rs_RequestID payload) of
        None \<Rightarrow> b
      | Some ch \<Rightarrow>
          b\<lparr>bk_pending := (bk_pending b)(rs_RequestID payload := None),
            bk_buffer := (case bk_buffer b ch of
                None \<Rightarrow> (bk_buffer b)(ch \<mapsto> payload)
              | Some _ \<Rightarrow> bk_buffer b)\<rparr>)"

datatype bevent =
    Begin nat string
  | Respond CommandResponsePayload
  | Return nat send_result

inductive bstep :: "Broker \<Rightarrow> bevent \<Rightarrow> Broker \<Rightarrow> bool" where
  start: "begin_send requestID b = (b', ch) \<Longrightarrow> bstep b (Begin ch requestID) b'"
| respond: "bstep b (Respond payload) (HandleResponse payload b)"
| answered: "bk_waiting b ch = Some rid \<Longrightarrow> bk_buffer b ch = Some resp \<Longrightarrow>
    bstep b (Return ch (Inr resp)) (end_send ch b)"
| failed: "bk_waiting b ch = Some rid \<Longrightarrow> bstep b (Return ch (Inl err)) (end_send ch b)"

inductive brun :: "bevent list \<Rightarrow> Broker \<Rightarrow> bool" where
  init: "brun [] NewBroker"
| step: "brun es b \<Longrightarrow> bstep b e b' \<Longrightarrow> brun (es @ [e]) b'"

text \<open>The request ids used so far, in order.\<close>

fun begun :: "bevent \<Rightarrow> string list" where
  "begun (Begin ch rid) = [rid]" | "begun _ = []"

abbreviation ids_of :: "bevent list \<Rightarrow> string list" where
  "ids_of es \<equiv> concat (map begun es)"

section \<open>Invariant\<close>

text \<open>
  \<open>broker_ok\<close>: every waiting \<open>Send\<close> without an answer is the pending one of its request id, and what is
  buffered for it carries that id.
\<close>

definition broker_ok :: "string set \<Rightarrow> Broker \<Rightarrow> bool" where
  "broker_ok used b \<longleftrightarrow>
     (\<forall>ch rid. bk_waiting b ch = Some rid \<longrightarrow> ch < bk_next b \<and> rid \<in> used \<and>
        (bk_buffer b ch = None \<longrightarrow> bk_pending b rid = Some ch) \<and>
        (\<forall>resp. bk_buffer b ch = Some resp \<longrightarrow> rs_RequestID resp = rid \<and> bk_pending b rid = None)) \<and>
     (\<forall>rid ch. bk_pending b rid = Some ch \<longrightarrow> bk_waiting b ch = Some rid \<and> bk_buffer b ch = None)"

lemma broker_okD:
  assumes "broker_ok used b"
  shows "bk_waiting b ch = Some rid \<Longrightarrow> ch < bk_next b" "bk_waiting b ch = Some rid \<Longrightarrow> rid \<in> used"
    "bk_waiting b ch = Some rid \<Longrightarrow> bk_buffer b ch = None \<Longrightarrow> bk_pending b rid = Some ch"
    "bk_waiting b ch = Some rid \<Longrightarrow> bk_buffer b ch = Some resp \<Longrightarrow> rs_RequestID resp = rid"
    "bk_waiting b ch = Some rid \<Longrightarrow> bk_buffer b ch = Some resp \<Longrightarrow> bk_pending b rid = None"
    "bk_pending b rid = Some ch \<Longrightarrow> bk_waiting b ch = Some rid"
    "bk_pending b rid = Some ch \<Longrightarrow> bk_buffer b ch = None"
  using assms unfolding broker_ok_def by blast+

lemma broker_okI:
  assumes "\<And>ch rid. bk_waiting b ch = Some rid \<Longrightarrow> ch < bk_next b" "\<And>ch rid. bk_waiting b ch = Some rid \<Longrightarrow> rid \<in> used"
    "\<And>ch rid. bk_waiting b ch = Some rid \<Longrightarrow> bk_buffer b ch = None \<Longrightarrow> bk_pending b rid = Some ch"
    "\<And>ch rid resp. bk_waiting b ch = Some rid \<Longrightarrow> bk_buffer b ch = Some resp \<Longrightarrow>
       rs_RequestID resp = rid \<and> bk_pending b rid = None"
    "\<And>rid ch. bk_pending b rid = Some ch \<Longrightarrow> bk_waiting b ch = Some rid \<and> bk_buffer b ch = None"
  shows "broker_ok used b"
  unfolding broker_ok_def using assms by blast

text \<open>Two waiting calls with one request id are the same call.\<close>

lemma waiting_inj:
  assumes "broker_ok used b" and "bk_waiting b c = Some rid" and "bk_waiting b d = Some rid"
    and "bk_buffer b c = None"
  shows "c = d"
proof (cases "bk_buffer b d")
  case None
  with assms show ?thesis using broker_okD(3) by (metis option.inject)
next
  case (Some resp)
  with assms show ?thesis using broker_okD(3,5) by (metis option.distinct(1))
qed

lemma begin_ok:
  assumes ok: "broker_ok used b" and new: "rid \<notin> used"
  shows "broker_ok (insert rid used) (fst (begin_send rid b))"
proof -
  note D = broker_okD [OF ok]
  have nowait: "bk_waiting b c \<noteq> Some rid" for c using D(2) new by blast
  have nopend: "bk_pending b rid = None" using D(2,6) new by (cases "bk_pending b rid") blast+
  have fresh: "bk_waiting b (bk_next b) = None" using D(1) by (metis less_irrefl option.exhaust)
  have pend: "bk_pending b r \<noteq> Some (bk_next b)" for r using D(6) fresh by auto
  have b': "bk_waiting (fst (begin_send rid b)) = (bk_waiting b)(bk_next b \<mapsto> rid)"
    "bk_pending (fst (begin_send rid b)) = (bk_pending b)(rid \<mapsto> bk_next b)"
    "bk_buffer (fst (begin_send rid b)) = (bk_buffer b)(bk_next b := None)"
    "bk_next (fst (begin_send rid b)) = Suc (bk_next b)"
    by (simp_all add: begin_send_def Let_def)
  show ?thesis
  proof (rule broker_okI, unfold b')
    fix c r assume w: "((bk_waiting b)(bk_next b \<mapsto> rid)) c = Some r"
    show "c < Suc (bk_next b)" using w D(1) by (auto simp: less_Suc_eq split: if_splits)
    show "r \<in> insert rid used" using w D(2) by (auto split: if_splits)
    show "((bk_pending b)(rid \<mapsto> bk_next b)) r = Some c" if "((bk_buffer b)(bk_next b := None)) c = None"
      using w that D(3) nowait by (auto split: if_splits)
    show "rs_RequestID resp = r \<and> ((bk_pending b)(rid \<mapsto> bk_next b)) r = None"
      if "((bk_buffer b)(bk_next b := None)) c = Some resp" for resp
      using w that D(4,5) nowait by (auto split: if_splits)
  next
    fix r c assume p: "((bk_pending b)(rid \<mapsto> bk_next b)) r = Some c"
    show "((bk_waiting b)(bk_next b \<mapsto> rid)) c = Some r \<and> ((bk_buffer b)(bk_next b := None)) c = None"
      using p D(6,7) pend fresh by (cases "r = rid") auto
  qed
qed

lemma HandleResponse_sel:
  assumes "bk_pending b (rs_RequestID p) = Some c" and "bk_buffer b c = None"
  shows "HandleResponse p b =
    b\<lparr>bk_pending := (bk_pending b)(rs_RequestID p := None), bk_buffer := (bk_buffer b)(c \<mapsto> p)\<rparr>"
  using assms by (simp add: HandleResponse_def)

lemma respond_ok:
  assumes ok: "broker_ok used b"
  shows "broker_ok used (HandleResponse p b)"
proof (cases "bk_pending b (rs_RequestID p)")
  case None
  with ok show ?thesis by (simp add: HandleResponse_def)
next
  case (Some c)
  note D = broker_okD [OF ok]
  have w: "bk_waiting b c = Some (rs_RequestID p)" and e: "bk_buffer b c = None" using D(6,7) Some by blast+
  have only: "d = c" if "bk_waiting b d = Some (rs_RequestID p)" for d using waiting_inj [OF ok w that e] by simp
  have b': "bk_waiting (HandleResponse p b) = bk_waiting b" "bk_next (HandleResponse p b) = bk_next b"
    "bk_pending (HandleResponse p b) = (bk_pending b)(rs_RequestID p := None)"
    "bk_buffer (HandleResponse p b) = (bk_buffer b)(c \<mapsto> p)"
    by (simp_all add: HandleResponse_sel [OF Some e])
  show ?thesis
  proof (rule broker_okI, unfold b')
    fix d r assume wd: "bk_waiting b d = Some r"
    show "d < bk_next b" "r \<in> used" using D(1,2) wd by blast+
    show "((bk_pending b)(rs_RequestID p := None)) r = Some d" if "((bk_buffer b)(c \<mapsto> p)) d = None"
      using that wd D(3) only by (auto split: if_splits)
    show "rs_RequestID resp = r \<and> ((bk_pending b)(rs_RequestID p := None)) r = None"
      if "((bk_buffer b)(c \<mapsto> p)) d = Some resp" for resp
      using that wd w D(4,5) by (auto split: if_splits)
  next
    fix r d assume "((bk_pending b)(rs_RequestID p := None)) r = Some d"
    then show "bk_waiting b d = Some r \<and> ((bk_buffer b)(c \<mapsto> p)) d = None"
      using D(6,7) w by (auto split: if_splits)
  qed
qed

lemma end_ok:
  assumes ok: "broker_ok used b" and w: "bk_waiting b c = Some rid"
  shows "broker_ok used (end_send c b)"
proof -
  note D = broker_okD [OF ok]
  have b': "bk_waiting (end_send c b) = (bk_waiting b)(c := None)" "bk_next (end_send c b) = bk_next b"
    "bk_pending (end_send c b) = (bk_pending b)(rid := None)" "bk_buffer (end_send c b) = bk_buffer b"
    using w by (simp_all add: end_send_def)
  have other: False if "bk_waiting b d = Some rid" "d \<noteq> c" "bk_buffer b d = None" for d
    using waiting_inj [OF ok that(1) w that(3)] that(2) by simp
  show ?thesis
  proof (rule broker_okI, unfold b')
    fix d r assume wd: "((bk_waiting b)(c := None)) d = Some r"
    then have wd': "bk_waiting b d = Some r" and ne: "d \<noteq> c" by (auto split: if_splits)
    show "d < bk_next b" "r \<in> used" using D(1,2) wd' by blast+
    show "((bk_pending b)(rid := None)) r = Some d" if "bk_buffer b d = None"
      using that wd' D(3) other ne by auto
    show "rs_RequestID resp = r \<and> ((bk_pending b)(rid := None)) r = None" if "bk_buffer b d = Some resp" for resp
      using that wd' D(4,5) by auto
  next
    fix r d assume "((bk_pending b)(rid := None)) r = Some d"
    then show "((bk_waiting b)(c := None)) d = Some r \<and> bk_buffer b d = None"
      using D(6,7) w by (auto split: if_splits)
  qed
qed

lemma brun_ok: "brun es b \<Longrightarrow> distinct (ids_of es) \<Longrightarrow> broker_ok (set (ids_of es)) b"
proof (induction rule: brun.induct)
  case init
  show ?case by (simp add: broker_ok_def NewBroker_def)
next
  case (step es b e b')
  from step.prems have d: "distinct (ids_of es)" by simp
  note ok = step.IH [OF d]
  from step.hyps(2) show ?case
  proof cases
    case (start rid ch)
    have "b' = fst (begin_send rid b)" by (simp only: start(2) fst_conv)
    then have "broker_ok (insert rid (set (ids_of es))) b'"
      using begin_ok [OF ok, of rid] step.prems by (simp add: start(1))
    then show ?thesis by (simp add: start(1))
  qed (use ok respond_ok [OF ok] end_ok [OF ok] in auto)
qed

text \<open>C19: As long as request ids are not reused, whatever else is in flight: a waiting \<open>Send\<close> that has no
  answer yet gets the next response with its id, that response reaches no other call, and an answer
  that is returned carries the id that was asked for.\<close>

theorem broker_matches_answers:
  assumes "brun es b" and "distinct (ids_of es)" and "bk_waiting b ch = Some rid"
  shows "(bk_buffer b ch = None \<and> rs_RequestID p = rid \<longrightarrow>
      bk_buffer (HandleResponse p b) ch = Some p \<and> (\<forall>d. d \<noteq> ch \<longrightarrow> bk_buffer (HandleResponse p b) d = bk_buffer b d)) \<and>
    (\<forall>resp. bk_buffer b ch = Some resp \<longrightarrow> rs_RequestID resp = rid) \<and>
    (rs_RequestID p \<noteq> rid \<longrightarrow> bk_buffer (HandleResponse p b) ch = bk_buffer b ch)"
proof -
  note D = broker_okD [OF brun_ok [OF assms(1,2)]]
  have "bk_buffer (HandleResponse p b) ch = bk_buffer b ch" if ne: "rs_RequestID p \<noteq> rid"
  proof (cases "bk_pending b (rs_RequestID p)")
    case (Some c)
    then have "bk_waiting b c = Some (rs_RequestID p)" by (rule D(6))
    with ne assms(3) have "c \<noteq> ch" by auto
    then show ?thesis using HandleResponse_sel [OF Some D(7) [OF Some]] by simp
  qed (simp add: HandleResponse_def)
  moreover have "bk_buffer (HandleResponse p b) ch = Some p \<and> (\<forall>d. d \<noteq> ch \<longrightarrow> bk_buffer (HandleResponse p b) d = bk_buffer b d)"
    if "bk_buffer b ch = None" "rs_RequestID p = rid"
    using HandleResponse_sel [of b p ch] D(3) [OF assms(3)] that by simp
  ultimately show ?thesis using D(4) [OF assms(3)] by blast
qed

definition answer :: "string \<Rightarrow> CommandResponsePayload" where
  "answer rid = \<lparr>rs_Command = ''docker_action'', rs_RequestID = rid, rs_AgentID = ''a'', rs_PID = 0, rs_Output = [],
     rs_Error = [], rs_OK = True, rs_ContainerID = [], rs_Action = [], rs_State = ''running'', rs_Stage = [],
     rs_FromVersion = [], rs_ToVersion = []\<rparr>"

lemma two_sends_run:
  "brun [Begin 0 ''r1'', Begin 1 ''r2''] (fst (begin_send ''r2'' (fst (begin_send ''r1'' NewBroker))))"
proof -
  have "brun [Begin 0 ''r1''] (fst (begin_send ''r1'' NewBroker))"
    using brun.step [OF brun.init bstep.start [of "''r1''" NewBroker]] by (simp add: begin_send_def NewBroker_def Let_def)
  from brun.step [OF this bstep.start [of "''r2''"]] show ?thesis
    by (simp add: begin_send_def NewBroker_def Let_def)
qed

theorem broker_matches_answers_witness:
  "bk_buffer (HandleResponse (answer ''r1'') (fst (begin_send ''r2'' (fst (begin_send ''r1'' NewBroker))))) 0 = Some (answer ''r1'')"
  using broker_matches_answers [OF two_sends_run, of 0 "''r1''" "answer ''r1''"]
  by (simp add: begin_send_def NewBroker_def Let_def answer_def)

text \<open>Two calls in flight with one request id: the response goes to the later call, whichever of them
  it answers, any further response with the id is ignored, so the earlier call can only fail; and if
  the earlier call fails first, the later one is no longer registered.\<close>

theorem reused_id_misroutes:
  assumes "rs_RequestID p = rid" and "rs_RequestID q = rid"
  shows "let b1 = fst (begin_send rid b); b2 = fst (begin_send rid b1); c1 = bk_next b; c2 = bk_next b1;
      b3 = HandleResponse p b2
    in bk_waiting b2 c1 = Some rid \<and> bk_waiting b2 c2 = Some rid \<and> c1 \<noteq> c2 \<and>
      bk_buffer b3 c2 = Some p \<and> bk_buffer b3 c1 = None \<and> HandleResponse q b3 = b3 \<and>
      HandleResponse p (end_send c1 b2) = end_send c1 b2"
  using assms by (simp add: begin_send_def HandleResponse_def end_send_def Let_def)

theorem reused_id_misroutes_witness:
  "bk_buffer (HandleResponse (answer ''x'') (fst (begin_send ''x'' (fst (begin_send ''x'' NewBroker))))) 0 = None"
  using reused_id_misroutes [of "answer ''x''" "''x''" "answer ''x''" NewBroker]
  by (simp add: Let_def answer_def NewBroker_def)

end
