(* ===== verification/Command_Services.thy ===== *)
theory Command_Services
  imports Broker Hub_Records
begin

text \<open>
  What the hub keeps of the commands it sent: thread dumps (\<open>internal/hub/threaddump/service.go\<close>) and
  the progress of agent updates (\<open>internal/hub/update/service.go\<close>).
\<close>

section \<open>Thread dumps\<close>

record dump =
  td_id :: string
  td_agent_id :: string
  td_pid :: int
  td_process_name :: string
  td_request_id :: string
  td_requested_by :: string
  td_status :: string
  td_error :: string
  td_output :: string
  td_taken_at :: time

definition set_td_id :: "string \<Rightarrow> dump \<Rightarrow> dump" where
  "set_td_id i d = d\<lparr>td_id := i\<rparr>"

interpretation dumps: record_table "mem_table td_id set_td_id" td_id set_td_id
  by (rule mem_table_contract) (simp_all add: set_td_id_def)

definition dump_request_id :: "int \<Rightarrow> int \<Rightarrow> string" where
  "dump_request_id nowMillis pid = ''td-'' @ fmt_d nowMillis @ ''-'' @ fmt_d pid"

text \<open>
  \<open>sender\<close> is \<open>SendCommand\<close> (\<open>None\<close>: delivered, otherwise the error). The result is the request id, or
  an error text.
\<close>

definition RequestDump ::
  "('d, dump) table \<Rightarrow> (string \<Rightarrow> CommandPayload \<Rightarrow> string option) \<Rightarrow> int \<Rightarrow> time \<Rightarrow> string \<Rightarrow> int \<Rightarrow> string
   \<Rightarrow> string \<Rightarrow> 'd \<Rightarrow> 'd \<times> (string + string)" where
  "RequestDump D sender nowMillis now agentID pid processName requestedBy db =
     (let requestID = dump_request_id nowMillis pid;
          record = \<lparr>td_id = [], td_agent_id = agentID, td_pid = pid, td_process_name = processName,
                    td_request_id = requestID, td_requested_by = requestedBy, td_status = ''pending'',
                    td_error = [], td_output = [], td_taken_at = fmt_ts now\<rparr>
      in case t_save D db record of
           (db', None) \<Rightarrow> (db', Inl ''failed to create thread dump record'')
         | (db', Some i) \<Rightarrow>
             (case sender agentID \<lparr>cp_Command = ''thread_dump'',
                     cp_Args = [(''pid'', AInt pid), (''request_id'', AStr requestID), (''process_name'', AStr processName)]\<rparr> of
                None \<Rightarrow> (db', Inr requestID)
              | Some err \<Rightarrow>
                  (fst (t_save D db' (record\<lparr>td_id := i, td_status := ''error'', td_error := err\<rparr>)),
                   Inl (''agent not reachable: '' @ err))))"

text \<open>\<open>newest\<close> is PocketBase's sort by descending \<open>taken_at\<close>.\<close>

definition dump_HandleResponse ::
  "(dump list \<Rightarrow> dump list) \<Rightarrow> ('d, dump) table \<Rightarrow> CommandResponsePayload \<Rightarrow> 'd \<Rightarrow> 'd" where
  "dump_HandleResponse newest D payload db =
     (if rs_Command payload \<noteq> ''thread_dump'' then db
      else
        case t_all D db (\<lambda>r. td_request_id r = rs_RequestID payload) of
          None \<Rightarrow> db
        | Some rs \<Rightarrow>
            (case take 1 (newest rs) of
               [] \<Rightarrow> db
             | record # _ \<Rightarrow>
                 fst (t_save D db
                   (if rs_Error payload \<noteq> []
                    then record\<lparr>td_status := ''error'', td_error := rs_Error payload\<rparr>
                    else record\<lparr>td_status := ''success'', td_output := rs_Output payload\<rparr>))))"

section \<open>Update progress\<close>

definition update_stage :: "CommandResponsePayload \<Rightarrow> string" where
  "update_stage payload =
     (if rs_Stage payload = [] then (if rs_OK payload then ''done'' else ''failed'') else rs_Stage payload)"

definition apply_stage :: "CommandResponsePayload \<Rightarrow> agent \<Rightarrow> agent" where
  "apply_stage payload a =
     (let stage = update_stage payload; a1 = a\<lparr>ag_update_status := stage\<rparr> in
      if stage = ''failed'' then a1\<lparr>ag_update_error := rs_Error payload\<rparr>
      else if stage = ''done'' \<or> stage = ''restart_required'' then a1\<lparr>ag_update_error := []\<rparr>
      else a1)"

definition update_HandleResponse :: "('a, agent) table \<Rightarrow> CommandResponsePayload \<Rightarrow> 'a \<Rightarrow> 'a" where
  "update_HandleResponse A payload db =
     (if rs_Command payload \<noteq> ''update'' \<or> rs_AgentID payload = [] then db
      else
        case t_find A db (rs_AgentID payload) of
          None \<Rightarrow> db
        | Some record \<Rightarrow> fst (t_save A db (apply_stage payload record)))"

end
