(* ===== verification/Agent_Hub.thy ===== *)
theory Agent_Hub
  imports Ingest Command_Services
begin

text \<open>
  The hub's side of the agent connections (\<open>internal/hub/ws/handler.go\<close>), composed with the handlers
  \<open>cmd/hub/main.go\<close> wires into it: authentication, the table of connected agents, the routing of
  messages, heartbeats and disconnection. Each operation is atomic; a connection is a number, and
  \<open>hb_conns\<close> holds those whose read pump still runs.
\<close>

section \<open>State\<close>

record ConnectedAgent =
  ca_ID :: string
  ca_LastSeen :: time
  ca_closed :: bool

record ('a, 'm, 'c, 'l, 'd) hub =
  hb_agents :: "string \<Rightarrow> nat option"
  hb_conns :: "nat \<Rightarrow> ConnectedAgent option"
  hb_next :: nat
  hb_broker :: Broker
  db_agents :: 'a
  db_metrics :: 'm
  db_containers :: 'c
  db_logs :: 'l
  db_dumps :: 'd

text \<open>The collections, the codec and SHA-256 (\<open>agenttoken.Hash\<close>) the hub works with.\<close>

record ('a, 'm, 'c, 'l, 'd) hub_env =
  he_agents :: "('a, agent) table"
  he_metrics :: "('m, metric) table"
  he_containers :: "('c, container) table"
  he_logs :: "('l, logrow) table"
  he_dumps :: "('d, dump) table"
  he_codec :: codec
  he_hash :: "string \<Rightarrow> string"
  he_stored :: "obj \<Rightarrow> obj option"
  he_newest :: "dump list \<Rightarrow> dump list"
  he_commits :: bool

section \<open>Connections\<close>

definition findAgentByToken :: "('a, agent) table \<Rightarrow> (string \<Rightarrow> string) \<Rightarrow> string \<Rightarrow> 'a \<Rightarrow> agent option" where
  "findAgentByToken A hash token db =
     (case t_all A db (\<lambda>r. ag_token_hash r = hash token) of
        Some (record # _) \<Rightarrow> if ag_token_hash record = hash token then Some record else None
      | _ \<Rightarrow> None)"

definition go_online :: "time \<Rightarrow> agent \<Rightarrow> agent" where
  "go_online now a = a\<lparr>ag_status := ''online'', ag_last_seen := fmt_ts now\<rparr>"

text \<open>The HTTP status (101 once the connection has been upgraded).\<close>

definition HandleWebSocket ::
  "('a, 'm, 'c, 'l, 'd) hub_env \<Rightarrow> string \<Rightarrow> string \<Rightarrow> bool \<Rightarrow> time \<Rightarrow> ('a, 'm, 'c, 'l, 'd) hub
   \<Rightarrow> ('a, 'm, 'c, 'l, 'd) hub \<times> int" where
  "HandleWebSocket E query_token auth_header upgraded now h =
     (let token = (if query_token = [] then auth_header else query_token) in
      if token = [] then (h, 401)
      else
        case findAgentByToken (he_agents E) (he_hash E) token (db_agents h) of
          None \<Rightarrow> (h, 401)
        | Some agentRecord \<Rightarrow>
            if \<not> upgraded then (h, 0)
            else
              let agentID = ag_id agentRecord; c = hb_next h in
              (h\<lparr>hb_agents := (hb_agents h)(agentID \<mapsto> c),
                 hb_conns := (hb_conns h)(c \<mapsto> \<lparr>ca_ID = agentID, ca_LastSeen = now, ca_closed = False\<rparr>),
                 hb_next := c + 1,
                 db_agents := fst (t_save (he_agents E) (db_agents h) (go_online now agentRecord))\<rparr>, 101))"

definition removeAgent ::
  "('a, 'm, 'c, 'l, 'd) hub_env \<Rightarrow> string \<Rightarrow> ('a, 'm, 'c, 'l, 'd) hub \<Rightarrow> ('a, 'm, 'c, 'l, 'd) hub" where
  "removeAgent E agentID h =
     (let h1 = h\<lparr>hb_agents := (hb_agents h)(agentID := None)\<rparr> in
      case t_find (he_agents E) (db_agents h) agentID of
        None \<Rightarrow> h1
      | Some record \<Rightarrow>
          h1\<lparr>db_agents := fst (t_save (he_agents E) (db_agents h) (record\<lparr>ag_status := ''offline''\<rparr>))\<rparr>)"

text \<open>The deferred calls of \<open>readPump\<close>, when reading fails or the connection was closed.\<close>

definition pump_exit ::
  "('a, 'm, 'c, 'l, 'd) hub_env \<Rightarrow> nat \<Rightarrow> ('a, 'm, 'c, 'l, 'd) hub \<Rightarrow> ('a, 'm, 'c, 'l, 'd) hub" where
  "pump_exit E c h =
     (case hb_conns h c of
        None \<Rightarrow> h
      | Some ca \<Rightarrow> removeAgent E (ca_ID ca) (h\<lparr>hb_conns := (hb_conns h)(c := None)\<rparr>))"

text \<open>One tick of the heartbeat checker for the entry of one agent.\<close>

definition check_heartbeat ::
  "('a, 'm, 'c, 'l, 'd) hub_env \<Rightarrow> duration \<Rightarrow> time \<Rightarrow> string \<Rightarrow> ('a, 'm, 'c, 'l, 'd) hub
   \<Rightarrow> ('a, 'm, 'c, 'l, 'd) hub" where
  "check_heartbeat E timeout now key h =
     (case hb_agents h key of
        None \<Rightarrow> h
      | Some c \<Rightarrow>
          (case hb_conns h c of
             None \<Rightarrow> h
           | Some ca \<Rightarrow>
               if timeout < t_sub now (ca_LastSeen ca)
               then removeAgent E (ca_ID ca) (h\<lparr>hb_conns := (hb_conns h)(c \<mapsto> ca\<lparr>ca_closed := True\<rparr>)\<rparr>)
               else h))"

text \<open>\<open>SendCommand\<close>: the connection the command is written to, or the error.\<close>

definition SendCommand ::
  "('a, 'm, 'c, 'l, 'd) hub_env \<Rightarrow> string \<Rightarrow> CommandPayload \<Rightarrow> int \<Rightarrow> ('a, 'm, 'c, 'l, 'd) hub
   \<Rightarrow> string + (nat \<times> Message)" where
  "SendCommand E agentID payload nowMillis h =
     (case hb_agents h agentID of
        None \<Rightarrow> Inl (''agent '' @ agentID @ '' not connected'')
      | Some c \<Rightarrow> Inr (c, NewMessage MessageTypeCommand (encode_command (he_codec E) payload) nowMillis))"

section \<open>Messages\<close>

text \<open>Fields of a REGISTER message, with the reconciliation of a finished update.\<close>

definition apply_register :: "time \<Rightarrow> RegisterPayload \<Rightarrow> agent \<Rightarrow> agent" where
  "apply_register now p a =
     (let a1 = (go_online now a)\<lparr>ag_hostname := rp_Hostname p, ag_os := rp_OS p, ag_ip := rp_IP p,
                 ag_version := rp_Version p,
                 ag_arch := (if rp_Arch p \<noteq> [] then rp_Arch p else ag_arch a),
                 ag_platform := (if rp_Platform p \<noteq> [] then rp_Platform p else ag_platform a)\<rparr>;
          target = ag_update_target_version a1
      in if target \<noteq> [] \<and> target = rp_Version p \<and> ag_update_status a1 \<noteq> ''done''
         then a1\<lparr>ag_update_status := ''done'', ag_update_error := []\<rparr> else a1)"

text \<open>The handlers return the new state and the ACK sent back, if any.\<close>

definition ack :: "codec \<Rightarrow> int \<Rightarrow> string \<Rightarrow> int \<Rightarrow> Message" where
  "ack K ref status nowMillis =
     \<lparr>msg_Type = MessageTypeAck, msg_Payload = encode_ack K \<lparr>ak_MessageTimestamp = ref, ak_Status = status\<rparr>,
      msg_Timestamp = nowMillis\<rparr>"

definition handleRegister ::
  "('a, 'm, 'c, 'l, 'd) hub_env \<Rightarrow> time \<Rightarrow> int \<Rightarrow> string \<Rightarrow> Message \<Rightarrow> ('a, 'm, 'c, 'l, 'd) hub
   \<Rightarrow> ('a, 'm, 'c, 'l, 'd) hub \<times> Message option" where
  "handleRegister E now nowMillis agentID msg h =
     (case decode_register (he_codec E) (msg_Payload msg) of
        None \<Rightarrow> (h, None)
      | Some payload \<Rightarrow>
          (case t_find (he_agents E) (db_agents h) agentID of
             None \<Rightarrow> (h, None)
           | Some record \<Rightarrow>
               (case t_save (he_agents E) (db_agents h) (apply_register now payload record) of
                  (db', None) \<Rightarrow> (h\<lparr>db_agents := db'\<rparr>, Some (ack (he_codec E) (msg_Timestamp msg) ''error'' nowMillis))
                | (db', Some _) \<Rightarrow> (h\<lparr>db_agents := db'\<rparr>, Some (ack (he_codec E) (msg_Timestamp msg) ''ok'' nowMillis)))))"

definition updateLastSeen :: "('a, agent) table \<Rightarrow> time \<Rightarrow> string \<Rightarrow> 'a \<Rightarrow> 'a" where
  "updateLastSeen A now agentID db =
     (case t_find A db agentID of None \<Rightarrow> db | Some record \<Rightarrow> fst (t_save A db (go_online now record)))"

definition recordHeartbeat :: "('a, agent) table \<Rightarrow> time \<Rightarrow> string \<Rightarrow> 64 word \<Rightarrow> 'a \<Rightarrow> 'a" where
  "recordHeartbeat A now agentID droppedMessages db =
     (case t_find A db agentID of
        None \<Rightarrow> db
      | Some record \<Rightarrow>
          fst (t_save A db ((go_online now record)\<lparr>ag_dropped_messages := of_nat (unat droppedMessages)\<rparr>)))"

definition handleMetrics ::
  "('a, 'm, 'c, 'l, 'd) hub_env \<Rightarrow> time \<Rightarrow> string \<Rightarrow> Message \<Rightarrow> ('a, 'm, 'c, 'l, 'd) hub \<Rightarrow> ('a, 'm, 'c, 'l, 'd) hub" where
  "handleMetrics E now agentID msg h =
     (case decode_metrics (he_codec E) (msg_Payload msg) of
        None \<Rightarrow> h
      | Some payload \<Rightarrow>
          (case IngestMetrics (he_metrics E) (he_containers E) (he_stored E) now agentID
                  (payload\<lparr>mp_AgentID := agentID\<rparr>) (db_metrics h, db_containers h) of
             (m', c') \<Rightarrow>
               h\<lparr>db_metrics := m', db_containers := c',
                 db_agents := updateLastSeen (he_agents E) now agentID (db_agents h)\<rparr>))"

definition handleLogs ::
  "('a, 'm, 'c, 'l, 'd) hub_env \<Rightarrow> time \<Rightarrow> string \<Rightarrow> Message \<Rightarrow> ('a, 'm, 'c, 'l, 'd) hub \<Rightarrow> ('a, 'm, 'c, 'l, 'd) hub" where
  "handleLogs E now agentID msg h =
     (case decode_logs (he_codec E) (msg_Payload msg) of
        None \<Rightarrow> h
      | Some payload \<Rightarrow>
          (case IngestLogs (he_logs E) (he_agents E) (he_commits E) now agentID
                  (Some (payload\<lparr>lp_AgentID := agentID\<rparr>)) (db_logs h, db_agents h) of
             (l', a') \<Rightarrow>
               h\<lparr>db_logs := l', db_agents := updateLastSeen (he_agents E) now agentID a'\<rparr>))"

definition handleHeartbeat ::
  "('a, 'm, 'c, 'l, 'd) hub_env \<Rightarrow> time \<Rightarrow> string \<Rightarrow> Message \<Rightarrow> ('a, 'm, 'c, 'l, 'd) hub \<Rightarrow> ('a, 'm, 'c, 'l, 'd) hub" where
  "handleHeartbeat E now agentID msg h =
     (case decode_heartbeat (he_codec E) (msg_Payload msg) of
        None \<Rightarrow> h
      | Some payload \<Rightarrow>
          h\<lparr>db_agents := recordHeartbeat (he_agents E) now agentID (hb_DroppedMessages payload) (db_agents h)\<rparr>)"

text \<open>Every COMMAND_RESPONSE goes to the thread dump service, the update service and the broker.\<close>

definition handleCommandResponse ::
  "('a, 'm, 'c, 'l, 'd) hub_env \<Rightarrow> string \<Rightarrow> Message \<Rightarrow> ('a, 'm, 'c, 'l, 'd) hub \<Rightarrow> ('a, 'm, 'c, 'l, 'd) hub" where
  "handleCommandResponse E agentID msg h =
     (case decode_response (he_codec E) (msg_Payload msg) of
        None \<Rightarrow> h
      | Some p \<Rightarrow>
          let payload = p\<lparr>rs_AgentID := agentID\<rparr> in
          h\<lparr>db_dumps := dump_HandleResponse (he_newest E) (he_dumps E) payload (db_dumps h),
            db_agents := update_HandleResponse (he_agents E) payload (db_agents h),
            hb_broker := HandleResponse payload (hb_broker h)\<rparr>)"

definition routeMessage ::
  "('a, 'm, 'c, 'l, 'd) hub_env \<Rightarrow> time \<Rightarrow> int \<Rightarrow> string \<Rightarrow> Message \<Rightarrow> ('a, 'm, 'c, 'l, 'd) hub
   \<Rightarrow> ('a, 'm, 'c, 'l, 'd) hub \<times> Message option" where
  "routeMessage E now nowMillis agentID msg h =
     (case msg_Type msg of
        MessageTypeRegister \<Rightarrow> handleRegister E now nowMillis agentID msg h
      | MessageTypeMetrics \<Rightarrow> (handleMetrics E now agentID msg h, None)
      | MessageTypeHeartbeat \<Rightarrow> (handleHeartbeat E now agentID msg h, None)
      | MessageTypeCommandResponse \<Rightarrow> (handleCommandResponse E agentID msg h, None)
      | MessageTypeLogs \<Rightarrow> (handleLogs E now agentID msg h, None)
      | _ \<Rightarrow> (h, None))"

text \<open>One turn of the read pump of connection \<open>c\<close> on the bytes it received.\<close>

definition receive ::
  "('a, 'm, 'c, 'l, 'd) hub_env \<Rightarrow> time \<Rightarrow> int \<Rightarrow> nat \<Rightarrow> string \<Rightarrow> ('a, 'm, 'c, 'l, 'd) hub
   \<Rightarrow> ('a, 'm, 'c, 'l, 'd) hub \<times> Message option" where
  "receive E now nowMillis c data h =
     (case hb_conns h c of
        None \<Rightarrow> (h, None)
      | Some ca \<Rightarrow>
          if ca_closed ca then (h, None)
          else
            let h1 = h\<lparr>hb_conns := (hb_conns h)(c \<mapsto> ca\<lparr>ca_LastSeen := now\<rparr>)\<rparr> in
            case decode_message (he_codec E) data of
              None \<Rightarrow> (h1, None)
            | Some msg \<Rightarrow> routeMessage E now nowMillis (ca_ID ca) msg h1)"

end
