(* ===== verification/Hub_Claims.thy ===== *)
theory Hub_Claims
  imports Agent_Hub
begin

text \<open>
  What the hub guarantees about the agents' connections: an agent can only change its own rows, only
  the holder of a token connects, and what an old connection does to a newer one when it ends.
\<close>

section \<open>Frame conditions\<close>

text \<open>\<open>changes_only\<close>: only rows with \<open>P\<close> appear or change; \<open>touches_only\<close>: and none appears.\<close>

definition changes_only :: "('db \<Rightarrow> string \<Rightarrow> 'r option) \<Rightarrow> ('r \<Rightarrow> bool) \<Rightarrow> 'db \<Rightarrow> 'db \<Rightarrow> bool" where
  "changes_only look P db db' \<longleftrightarrow> (\<forall>i. look db' i = look db i \<or>
     (look db i = None \<or> (\<exists>r. look db i = Some r \<and> P r)) \<and> (\<exists>r. look db' i = Some r \<and> P r))"

definition touches_only :: "('db \<Rightarrow> string \<Rightarrow> 'r option) \<Rightarrow> ('r \<Rightarrow> bool) \<Rightarrow> 'db \<Rightarrow> 'db \<Rightarrow> bool" where
  "touches_only look P db db' \<longleftrightarrow> (\<forall>i. look db' i = look db i \<or>
     (\<exists>r. look db i = Some r \<and> P r) \<and> (\<exists>r. look db' i = Some r \<and> P r))"

lemma changes_refl [simp]: "changes_only look P db db"
  by (simp add: changes_only_def)

lemma touches_refl [simp]: "touches_only look P db db"
  by (simp add: touches_only_def)

lemma changes_trans: "changes_only look P a b \<Longrightarrow> changes_only look P b c \<Longrightarrow> changes_only look P a c"
  unfolding changes_only_def by (metis option.distinct(1))

lemma touches_trans: "touches_only look P a b \<Longrightarrow> touches_only look P b c \<Longrightarrow> touches_only look P a c"
  unfolding touches_only_def by metis

lemma save_touches:
  assumes rt: "record_table T ident si" and r: "t_find T db i = Some r0" "ident r = i" "P r0" "P r"
  shows "touches_only (t_find T) P db (fst (t_save T db r))"
proof (cases "t_save T db r")
  case (Pair db' res)
  show ?thesis
  proof (cases res)
    case None
    with Pair record_table.save_err [OF rt] show ?thesis by (simp add: touches_only_def)
  next
    case (Some j)
    with record_table.save_existing [OF rt r(1,2)] Pair r show ?thesis by (simp add: touches_only_def)
  qed
qed

lemma touches_changes: "touches_only look P a b \<Longrightarrow> changes_only look P a b"
  by (auto simp: touches_only_def changes_only_def)

lemma save_changes:
  assumes rt: "record_table T ident si" and r: "ident r = []" "\<And>i. P (si i r)"
  shows "changes_only (t_find T) P db (fst (t_save T db r))"
proof (cases "t_save T db r")
  case (Pair db' res)
  show ?thesis
  proof (cases res)
    case None
    with Pair record_table.save_err [OF rt] show ?thesis by (simp add: changes_only_def)
  next
    case (Some j)
    with record_table.save_new [OF rt _ r(1)] Pair r show ?thesis by (simp add: changes_only_def)
  qed
qed

lemma fold_changes:
  assumes "\<And>x db. changes_only look P db (f x db)"
  shows "changes_only look P db (fold f xs db)"
proof (induction xs arbitrary: db)
  case (Cons x xs)
  from changes_trans [OF assms Cons.IH] show ?case by simp
qed simp

section \<open>The handlers\<close>

lemma agent_save_touches:
  assumes rt: "record_table A ag_id set_ag_id" and f: "t_find A db agentID = Some r0" "ag_id r = ag_id r0"
  shows "touches_only (t_find A) (\<lambda>r. ag_id r = agentID) db (fst (t_save A db r))"
  using record_table.find_ident [OF rt f(1)] f by (auto intro: save_touches [OF rt])

lemma agent_ids [simp]:
  "ag_id (go_online now a) = ag_id a" "ag_id (apply_register now p a) = ag_id a" "ag_id (apply_stage q a) = ag_id a"
  by (simp_all add: go_online_def apply_register_def apply_stage_def Let_def)

lemma agent_writes:
  assumes rt: "record_table A ag_id set_ag_id"
  shows "touches_only (t_find A) (\<lambda>r. ag_id r = i) db (updateLastSeen A now i db)"
    "touches_only (t_find A) (\<lambda>r. ag_id r = i) db (recordHeartbeat A now i w db)"
    "touches_only (t_find A) (\<lambda>r. ag_id r = i) db (bumpLinesTotal A i n db)"
    "rs_AgentID q = i \<Longrightarrow> touches_only (t_find A) (\<lambda>r. ag_id r = i) db (update_HandleResponse A q db)"
  by (auto simp: updateLastSeen_def recordHeartbeat_def bumpLinesTotal_def update_HandleResponse_def
      intro!: agent_save_touches [OF rt] split: option.splits)

lemma upsert_changes:
  assumes rt: "record_table C ct_id set_ct_id"
  shows "changes_only (t_find C) (\<lambda>r. ct_agent_id r = agentID) db (upsertDockerContainer C now agentID data db)"
proof (cases "str_of (aget data ''container_id'') = []")
  case False
  let ?P = "\<lambda>c. ct_agent_id c = agentID \<and> ct_container_id c = str_of (aget data ''container_id'')"
  let ?upd = "\<lambda>c. (apply_report data c)\<lparr>ct_updated_at := fmt_ts now\<rparr>"
  have keeps: "ct_id (?upd c) = ct_id c" "ct_agent_id (?upd c) = ct_agent_id c" for c
    by (simp_all add: apply_report_def Let_def)
  have new: "changes_only (t_find C) (\<lambda>r. ct_agent_id r = agentID) db
      (fst (t_save C db (?upd (new_container agentID (str_of (aget data ''container_id''))))))"
    by (rule save_changes [OF rt]) (simp_all add: keeps new_container_def set_ct_id_def apply_report_def Let_def)
  have old: "changes_only (t_find C) (\<lambda>r. ct_agent_id r = agentID) db (fst (t_save C db (?upd c)))"
    if q: "t_all C db ?P = Some (c # cs)" for c cs
  proof -
    have f: "t_find C db (ct_id c) = Some c" "ct_agent_id c = agentID"
      using record_table.all_memD [OF rt q, of c] by simp_all
    show ?thesis by (rule touches_changes, rule save_touches [OF rt f(1)]) (simp_all add: keeps f(2))
  qed
  from False new old show ?thesis
    by (simp add: upsertDockerContainer_def Let_def split: option.split list.split)
qed (simp add: upsertDockerContainer_def)

lemma ingest_metric_frame:
  assumes M: "record_table M mt_id set_mt_id" and C: "record_table C ct_id set_ct_id"
    and run: "ingest_metric M C stored now agentID m (mdb, cdb) = (mdb', cdb')"
  shows "only_adds (\<lambda>r. mt_agent_id r = agentID) (t_find M) mdb mdb'"
    "changes_only (t_find C) (\<lambda>r. ct_agent_id r = agentID) cdb cdb'"
proof -
  obtain db res where s: "t_save M mdb (metric_row stored now agentID m) = (db, res)" by fastforce
  have row: "mt_id (metric_row stored now agentID m) = []"
    "mt_agent_id (set_mt_id i (metric_row stored now agentID m)) = agentID" for i
    by (simp_all add: metric_row_def set_mt_id_def Let_def)
  have "only_adds (\<lambda>r. mt_agent_id r = agentID) (t_find M) mdb db"
    by (rule save_only_adds [OF M row(1) _ s]) (simp add: row(2))
  then show "only_adds (\<lambda>r. mt_agent_id r = agentID) (t_find M) mdb mdb'"
    using run by (auto simp: ingest_metric_def s split: if_splits option.splits)
  have "changes_only (t_find C) (\<lambda>r. ct_agent_id r = agentID) cdb
      (fold (\<lambda>c cdb. case as_obj c of None \<Rightarrow> cdb | Some data \<Rightarrow> upsertDockerContainer C now agentID data cdb) cs cdb)" for cs
    by (rule fold_changes) (simp add: upsert_changes [OF C] split: option.split)
  then show "changes_only (t_find C) (\<lambda>r. ct_agent_id r = agentID) cdb cdb'"
    using run by (auto simp: ingest_metric_def s split: if_splits option.splits)
qed

lemma IngestMetrics_frame:
  assumes M: "record_table M mt_id set_mt_id" and C: "record_table C ct_id set_ct_id"
  shows "only_adds (\<lambda>r. mt_agent_id r = agentID) (t_find M) mdb (fst (IngestMetrics M C stored now agentID p (mdb, cdb))) \<and>
    changes_only (t_find C) (\<lambda>r. ct_agent_id r = agentID) cdb (snd (IngestMetrics M C stored now agentID p (mdb, cdb)))"
proof -
  have "only_adds (\<lambda>r. mt_agent_id r = agentID) (t_find M) mdb (fst (fold (ingest_metric M C stored now agentID) ms (mdb, cdb))) \<and>
    changes_only (t_find C) (\<lambda>r. ct_agent_id r = agentID) cdb (snd (fold (ingest_metric M C stored now agentID) ms (mdb, cdb)))" for ms
  proof (induction ms arbitrary: mdb cdb)
    case (Cons m ms)
    obtain mdb' cdb' where s: "ingest_metric M C stored now agentID m (mdb, cdb) = (mdb', cdb')" by fastforce
    show ?case
      using only_adds_trans [OF ingest_metric_frame(1) [OF M C s]] changes_trans [OF ingest_metric_frame(2) [OF M C s]]
        Cons.IH [of mdb' cdb'] by (simp add: s)
  qed simp
  then show ?thesis by (simp add: IngestMetrics_def)
qed

lemma IngestLogs_frame:
  assumes L: "record_table L lg_id set_lg_id" and A: "record_table A ag_id set_ag_id"
    and run: "IngestLogs L A commits now agentID p (ldb, adb) = (ldb', adb')"
  shows "only_adds (log_wf agentID) (t_find L) ldb ldb'"
    "touches_only (t_find A) (\<lambda>r. ag_id r = agentID) adb adb'"
proof -
  show "touches_only (t_find A) (\<lambda>r. ag_id r = agentID) adb adb'"
    using run agent_writes(3) [OF A] by (auto simp: IngestLogs_def split: option.splits if_splits prod.splits)
  show "only_adds (log_wf agentID) (t_find L) ldb ldb'"
    using IngestLogs_only_adds [OF L, of agentID ldb A commits now p adb] run by simp
qed

section \<open>Isolation\<close>

definition env_ok :: "('a, 'm, 'c, 'l, 'd) hub_env \<Rightarrow> bool" where
  "env_ok E \<longleftrightarrow> record_table (he_agents E) ag_id set_ag_id \<and> record_table (he_metrics E) mt_id set_mt_id \<and>
     record_table (he_containers E) ct_id set_ct_id \<and> record_table (he_logs E) lg_id set_lg_id \<and>
     record_table (he_dumps E) td_id set_td_id \<and> (\<forall>ds. set (he_newest E ds) \<subseteq> set ds)"

definition own_rows_only ::
  "('a, 'm, 'c, 'l, 'd) hub_env \<Rightarrow> string \<Rightarrow> ('a, 'm, 'c, 'l, 'd) hub \<Rightarrow> ('a, 'm, 'c, 'l, 'd) hub \<Rightarrow> bool" where
  "own_rows_only E a h h' \<longleftrightarrow>
     touches_only (t_find (he_agents E)) (\<lambda>r. ag_id r = a) (db_agents h) (db_agents h') \<and>
     only_adds (\<lambda>r. mt_agent_id r = a) (t_find (he_metrics E)) (db_metrics h) (db_metrics h') \<and>
     changes_only (t_find (he_containers E)) (\<lambda>r. ct_agent_id r = a) (db_containers h) (db_containers h') \<and>
     only_adds (log_wf a) (t_find (he_logs E)) (db_logs h) (db_logs h')"

text \<open>
  A row of \<open>thread_dumps\<close> is looked up by the request id in the payload alone, whichever agent it is
  of: \<open>named_dump\<close> says that the message is a response that names the request of the row.
\<close>

definition named_dump :: "codec \<Rightarrow> Message \<Rightarrow> dump \<Rightarrow> bool" where
  "named_dump C msg r \<longleftrightarrow> msg_Type msg = MessageTypeCommandResponse \<and>
     (case decode_response C (msg_Payload msg) of
        None \<Rightarrow> False
      | Some p \<Rightarrow> rs_Command p = ''thread_dump'' \<and> td_request_id r = rs_RequestID p)"

lemma dump_touches:
  assumes rt: "record_table D td_id set_td_id" and "\<And>ds. set (newest ds) \<subseteq> set ds"
  shows "touches_only (t_find D) (\<lambda>r. rs_Command p = ''thread_dump'' \<and> td_request_id r = rs_RequestID p)
    db (dump_HandleResponse newest D p db)"
proof -
  let ?P = "\<lambda>r. rs_Command p = ''thread_dump'' \<and> td_request_id r = rs_RequestID p"
  have "touches_only (t_find D) ?P db (fst (t_save D db r'))"
    if cmd: "rs_Command p = ''thread_dump''" and q: "t_all D db (\<lambda>r. td_request_id r = rs_RequestID p) = Some rs"
      and r: "take 1 (newest rs) = r # more" and r': "td_id r' = td_id r" "td_request_id r' = td_request_id r"
    for rs r r' more
  proof -
    have "r \<in> set rs" using r assms(2) [of rs] by (cases "newest rs") auto
    from record_table.all_memD [OF rt q this] cmd r' show ?thesis by (intro save_touches [OF rt, where i = "td_id r" and ?r0.0 = r]) simp_all
  qed
  then show ?thesis by (auto simp: dump_HandleResponse_def split: option.split list.split)
qed

lemma own_rows_refl [simp]: "own_rows_only E a h h"
  by (simp add: own_rows_only_def)

lemma route_frame:
  assumes ok: "env_ok E" and run: "routeMessage E now ms a msg h = (h', reply)"
  shows "own_rows_only E a h h' \<and> hb_agents h' = hb_agents h \<and>
    touches_only (t_find (he_dumps E)) (named_dump (he_codec E) msg) (db_dumps h) (db_dumps h')"
proof -
  have A: "record_table (he_agents E) ag_id set_ag_id" and M: "record_table (he_metrics E) mt_id set_mt_id"
    and C: "record_table (he_containers E) ct_id set_ct_id" and L: "record_table (he_logs E) lg_id set_lg_id"
    using ok by (simp_all add: env_ok_def)
  note W = agent_writes [OF A, where i = a]
  show ?thesis
  proof (cases "msg_Type msg")
    case MessageTypeRegister
    show ?thesis
    proof (cases "decode_register (he_codec E) (msg_Payload msg)")
      case (Some p)
      show ?thesis
      proof (cases "t_find (he_agents E) (db_agents h) a")
        case None
        with run MessageTypeRegister Some show ?thesis by (simp add: routeMessage_def handleRegister_def)
      next
        case r: (Some r)
        obtain db' res where s: "t_save (he_agents E) (db_agents h) (apply_register now p r) = (db', res)" by fastforce
        have "touches_only (t_find (he_agents E)) (\<lambda>r. ag_id r = a) (db_agents h) db'"
          using agent_save_touches [OF A r, of "apply_register now p r"] s by simp
        then show ?thesis
          using run MessageTypeRegister Some r s
          by (cases res) (auto simp: routeMessage_def handleRegister_def own_rows_only_def)
      qed
    qed (use run MessageTypeRegister in \<open>simp add: routeMessage_def handleRegister_def\<close>)
  next
    case MessageTypeMetrics
    show ?thesis
    proof (cases "decode_metrics (he_codec E) (msg_Payload msg)")
      case (Some p)
      obtain m' c' where i: "IngestMetrics (he_metrics E) (he_containers E) (he_stored E) now a (p\<lparr>mp_AgentID := a\<rparr>)
          (db_metrics h, db_containers h) = (m', c')" by fastforce
      with IngestMetrics_frame [OF M C, of a "db_metrics h" "he_stored E" now "p\<lparr>mp_AgentID := a\<rparr>" "db_containers h"]
        run MessageTypeMetrics Some W(1) show ?thesis
        by (auto simp: routeMessage_def handleMetrics_def own_rows_only_def)
    qed (use run MessageTypeMetrics in \<open>simp add: routeMessage_def handleMetrics_def\<close>)
  next
    case MessageTypeLogs
    show ?thesis
    proof (cases "decode_logs (he_codec E) (msg_Payload msg)")
      case (Some p)
      obtain l' a' where i: "IngestLogs (he_logs E) (he_agents E) (he_commits E) now a (Some (p\<lparr>lp_AgentID := a\<rparr>))
          (db_logs h, db_agents h) = (l', a')" by fastforce
      from IngestLogs_frame [OF L A i] touches_trans [OF IngestLogs_frame(2) [OF L A i] W(1)]
        run MessageTypeLogs Some i show ?thesis
        by (auto simp: routeMessage_def handleLogs_def own_rows_only_def)
    qed (use run MessageTypeLogs in \<open>simp add: routeMessage_def handleLogs_def\<close>)
  next
    case MessageTypeHeartbeat
    with run W(2) show ?thesis
      by (auto simp: routeMessage_def handleHeartbeat_def own_rows_only_def split: option.splits)
  next
    case r: MessageTypeCommandResponse
    show ?thesis
    proof (cases "decode_response (he_codec E) (msg_Payload msg)")
      case None
      with run r show ?thesis by (simp add: routeMessage_def handleCommandResponse_def)
    next
      case (Some p)
      have D: "record_table (he_dumps E) td_id set_td_id" and n: "\<And>ds. set (he_newest E ds) \<subseteq> set ds"
        using ok by (simp_all add: env_ok_def)
      have "named_dump (he_codec E) msg = (\<lambda>d. rs_Command p = ''thread_dump'' \<and> td_request_id d = rs_RequestID p)"
        using r Some by (simp add: named_dump_def fun_eq_iff)
      with run r Some W(4) dump_touches [OF D n, of "p\<lparr>rs_AgentID := a\<rparr>" "db_dumps h"] show ?thesis
        by (auto simp: routeMessage_def handleCommandResponse_def own_rows_only_def Let_def)
    qed
  qed (use run in \<open>simp_all add: routeMessage_def\<close>)
qed

lemma receive_frame:
  assumes "env_ok E" and "hb_conns h c = Some ca"
  shows "own_rows_only E (ca_ID ca) h (fst (receive E now ms c data h)) \<and>
    hb_agents (fst (receive E now ms c data h)) = hb_agents h \<and>
    touches_only (t_find (he_dumps E))
      (\<lambda>r. \<exists>msg. decode_message (he_codec E) data = Some msg \<and> named_dump (he_codec E) msg r)
      (db_dumps h) (db_dumps (fst (receive E now ms c data h)))"
proof (cases "ca_closed ca \<or> decode_message (he_codec E) data = None")
  case True
  with assms(2) show ?thesis by (auto simp: receive_def own_rows_only_def Let_def split: option.split)
next
  case False
  then obtain msg where msg: "decode_message (he_codec E) data = Some msg" by auto
  let ?h1 = "h\<lparr>hb_conns := (hb_conns h)(c \<mapsto> ca\<lparr>ca_LastSeen := now\<rparr>)\<rparr>"
  obtain h' reply where run: "routeMessage E now ms (ca_ID ca) msg ?h1 = (h', reply)" by fastforce
  from route_frame [OF assms(1) run] show ?thesis
    using assms(2) False msg run by (simp add: receive_def Let_def own_rows_only_def)
qed

lemma receive_keeps_table:
  assumes "env_ok E"
  shows "hb_agents (fst (receive E now ms c data h)) = hb_agents h"
  using receive_frame [OF assms] by (cases "hb_conns h c") (simp_all add: receive_def)

section \<open>A hub with two agents\<close>

definition plain_agent :: "string \<Rightarrow> agent" where
  "plain_agent i = \<lparr>ag_id = i, ag_hostname = [], ag_os = [], ag_ip = [], ag_version = [], ag_status = ''online'',
     ag_last_seen = 0, ag_token_hash = i, ag_tags = [], ag_arch = [], ag_platform = [], ag_update_status = [],
     ag_update_error = [], ag_update_target_version = [], ag_update_requested_at = 0, ag_update_requested_by = [],
     ag_dropped_messages = 0, ag_logs_lines_total = 0\<rparr>"

text \<open>A codec under which every message is a heartbeat that claims to come from agent \<open>b\<close>.\<close>

definition forger :: codec where
  "forger = \<lparr>encode_message = (\<lambda>_. []), decode_message = (\<lambda>d. Some (NewMessage MessageTypeHeartbeat d 0)),
     encode_ack = (\<lambda>_. []), encode_heartbeat = (\<lambda>_. []), encode_command = (\<lambda>_. []), decode_register = (\<lambda>_. None),
     decode_metrics = (\<lambda>_. None), decode_logs = (\<lambda>_. None),
     decode_heartbeat = (\<lambda>_. Some \<lparr>hb_AgentID = ''b'', hb_Uptime = 0, hb_DroppedMessages = 9\<rparr>),
     decode_response = (\<lambda>_. None)\<rparr>"

abbreviation sure_agents :: "(agent mem, agent) table" where
  "sure_agents \<equiv> sure_table ag_id set_ag_id"

definition sample_env :: "(agent mem, metric mem, container mem, logrow mem, dump mem) hub_env" where
  "sample_env = \<lparr>he_agents = sure_agents, he_metrics = mem_metrics,
     he_containers = mem_table ct_id set_ct_id, he_logs = mem_logs, he_dumps = mem_table td_id set_td_id,
     he_codec = forger, he_hash = (\<lambda>t. t), he_stored = Some, he_newest = (\<lambda>ds. ds), he_commits = True\<rparr>"

definition two_connections :: "(agent mem, metric mem, container mem, logrow mem, dump mem) hub" where
  "two_connections =
     (let conn = \<lparr>ca_ID = ''a'', ca_LastSeen = 0, ca_closed = False\<rparr>
      in \<lparr>hb_agents = [''a'' \<mapsto> 1], hb_conns = [0 \<mapsto> conn, 1 \<mapsto> conn], hb_next = 2, hb_broker = NewBroker,
          db_agents = \<lparr>m_rows = [(''a'', plain_agent ''a''), (''b'', plain_agent ''b'')], m_faults = []\<rparr>,
          db_metrics = \<lparr>m_rows = [], m_faults = []\<rparr>, db_containers = \<lparr>m_rows = [], m_faults = []\<rparr>,
          db_logs = \<lparr>m_rows = [], m_faults = []\<rparr>, db_dumps = \<lparr>m_rows = [], m_faults = []\<rparr>\<rparr>)"

lemma sample_ok: "env_ok sample_env" "record_table (he_agents sample_env) ag_id set_ag_id" "saves_succeed (he_agents sample_env)"
  using sure_table_contract [OF agents.record_table_axioms] metrics.record_table_axioms containers.record_table_axioms
    logs.record_table_axioms dumps.record_table_axioms sure_saves [of ag_id set_ag_id]
  by (simp_all add: env_ok_def sample_env_def)

lemma two_connections_sel:
  "hb_conns two_connections 0 = Some \<lparr>ca_ID = ''a'', ca_LastSeen = 0, ca_closed = False\<rparr>"
  "hb_conns two_connections 1 = Some \<lparr>ca_ID = ''a'', ca_LastSeen = 0, ca_closed = False\<rparr>"
  "t_find (he_agents sample_env) (db_agents two_connections) ''a'' = Some (plain_agent ''a'')"
  "t_find (he_agents sample_env) (db_agents two_connections) ''b'' = Some (plain_agent ''b'')"
  by (simp_all add: two_connections_def sample_env_def sure_sel mem_table_def mem_find_def set_ag_id_def plain_agent_def Let_def)

text \<open>C20: Whatever an agent sends on its connection, however its payload names the agent and whichever database
  calls fail: of the agents' rows only its own may change, metrics and logs are only added, in its
  name, only its own containers change, and the table of connections stays as it is. No row of a
  thread dump is added, and only a response that names the request id of the dump can change one;
  that id is all that is compared.\<close>

theorem agents_write_their_own_rows:
  assumes "env_ok E" and "hb_conns h c = Some ca"
  shows "own_rows_only E (ca_ID ca) h (fst (receive E now ms c data h)) \<and>
    hb_agents (fst (receive E now ms c data h)) = hb_agents h \<and>
    touches_only (t_find (he_dumps E))
      (\<lambda>r. \<exists>msg. decode_message (he_codec E) data = Some msg \<and> named_dump (he_codec E) msg r)
      (db_dumps h) (db_dumps (fst (receive E now ms c data h)))"
  by (rule receive_frame [OF assms])

theorem agents_write_their_own_rows_witness:
  "t_find sure_agents (db_agents (fst (receive sample_env day 0 1 ''x'' two_connections))) ''b'' = Some (plain_agent ''b'')"
proof -
  let ?db = "db_agents (fst (receive sample_env day 0 1 ''x'' two_connections))"
  have "touches_only (t_find sure_agents) (\<lambda>r. ag_id r = ''a'') (db_agents two_connections) ?db"
    using agents_write_their_own_rows [OF sample_ok(1) two_connections_sel(2), of day 0 "''x''"]
    by (simp add: own_rows_only_def sample_env_def)
  moreover have b: "t_find sure_agents (db_agents two_connections) ''b'' = Some (plain_agent ''b'')"
    using two_connections_sel(4) by (simp add: sample_env_def)
  moreover have "ag_id (plain_agent ''b'') \<noteq> ''a''" by (simp add: plain_agent_def)
  ultimately show ?thesis unfolding touches_only_def by (metis option.inject)
qed

section \<open>Connections\<close>

text \<open>When the read pump of an old connection ends after the agent has connected again, the entry of the
  new connection is removed and the agent marked offline although it is connected; whatever it
  sends from then on, commands to it are refused until it connects once more.\<close>

theorem old_connection_disconnects_the_new_one:
  assumes "record_table (he_agents E) ag_id set_ag_id" and "saves_succeed (he_agents E)" and "env_ok E"
    and "hb_conns h old = Some ca" and "hb_conns h new = Some ca'" and "ca_ID ca' = ca_ID ca" and "old \<noteq> new"
    and "t_find (he_agents E) (db_agents h) (ca_ID ca) = Some r"
  shows "let h' = pump_exit E old h;
      h'' = fold (\<lambda>(now, ms, data) h. fst (receive E now ms new data h)) msgs h' in
    hb_conns h' new = Some ca' \<and>
    t_find (he_agents E) (db_agents h') (ca_ID ca) = Some (r\<lparr>ag_status := ''offline''\<rparr>) \<and>
    SendCommand E (ca_ID ca) cmd millis h'' = Inl (''agent '' @ ca_ID ca @ '' not connected'')"
proof -
  let ?h1 = "pump_exit E old h"
  let ?h' = "h\<lparr>hb_conns := (hb_conns h)(old := None), hb_agents := (hb_agents h)(ca_ID ca := None),
      db_agents := fst (t_save (he_agents E) (db_agents h) (r\<lparr>ag_status := ''offline''\<rparr>))\<rparr>"
  have h': "?h1 = ?h'" using assms(4,8) by (simp add: pump_exit_def removeAgent_def Let_def)
  have id: "ag_id r = ca_ID ca" by (rule record_table.find_ident [OF assms(1,8)])
  obtain db' j where s: "t_save (he_agents E) (db_agents h) (r\<lparr>ag_status := ''offline''\<rparr>) = (db', Some j)"
    using saves_succeedD [OF assms(2)] by (metis option.collapse prod.collapse)
  have row: "t_find (he_agents E) db' (ca_ID ca) = Some (r\<lparr>ag_status := ''offline''\<rparr>)"
    using record_table.save_existing [OF assms(1,8) _ s] id by simp
  have stay: "hb_agents (fst (receive E now ms c data g)) = hb_agents g" for now ms c data and g
    by (rule receive_keeps_table [OF assms(3)])
  have "hb_agents (fold (\<lambda>(now, ms, data) h. fst (receive E now ms new data h)) msgs g) = hb_agents g" for g
    by (induction msgs arbitrary: g) (auto simp: stay)
  then show ?thesis using assms(5,7) row by (simp add: h' s SendCommand_def Let_def)
qed

theorem old_connection_disconnects_the_new_one_witness:
  "hb_conns (pump_exit sample_env 0 two_connections) 1 \<noteq> None \<and>
   SendCommand sample_env ''a'' \<lparr>cp_Command = ''update'', cp_Args = []\<rparr> 0 (pump_exit sample_env 0 two_connections) =
     Inl ''agent a not connected''"
  using old_connection_disconnects_the_new_one [OF sample_ok(2,3,1) two_connections_sel(1,2), of "plain_agent ''a''"
      "[]" "\<lparr>cp_Command = ''update'', cp_Args = []\<rparr>" 0]
  by (simp add: Let_def two_connections_sel(3))

end
