(* ===== verification/Command_Routes.thy ===== *)
theory Command_Routes
  imports Command_Services Settings
begin

text \<open>
  The routes that send commands to agents and wait for the answer: docker actions
  (\<open>internal/hub/api/docker_routes.go\<close>) and agent updates (\<open>update_routes.go\<close>). \<open>Broker.Send\<close> is a
  parameter of a handler, given by its outcome; while a handler waits in it, other goroutines may
  change the database, which is the parameter \<open>during\<close>.
\<close>

section \<open>Docker actions\<close>

record command_reply =
  rp_status :: int
  rp_ok :: bool
  rp_error :: string
  rp_state :: string
  rp_audit :: "(string \<times> string \<times> string) option"

definition allowedDockerActions :: "string \<Rightarrow> bool" where
  "allowedDockerActions a \<longleftrightarrow> a \<in> {''start'', ''stop'', ''restart''}"

definition is_hex :: "char \<Rightarrow> bool" where
  "is_hex c \<longleftrightarrow> (48 \<le> char_code c \<and> char_code c \<le> 57) \<or> (97 \<le> char_code c \<and> char_code c \<le> 102) \<or>
     (65 \<le> char_code c \<and> char_code c \<le> 70)"

definition dockerContainerIDPattern :: "string \<Rightarrow> bool" where
  "dockerContainerIDPattern s \<longleftrightarrow> 12 \<le> length s \<and> length s \<le> 64 \<and> list_all is_hex s"

definition docker_request_id :: "int \<Rightarrow> string \<Rightarrow> string" where
  "docker_request_id nowMillis containerID = ''da-'' @ fmt_d nowMillis @ ''-'' @ take 12 containerID"

fun error_text :: "SendError \<Rightarrow> string" where
  "error_text ErrTimeout = ''timed out waiting for agent response''"
| "error_text (Unreachable e) = ''agent not reachable: '' @ e"
| "error_text (Canceled e) = e"

definition docker_outcome :: "send_result \<Rightarrow> int \<times> bool \<times> string \<times> string \<times> string" where
  "docker_outcome r =
     (case r of
        Inl ErrTimeout \<Rightarrow> (504, False, ''timed out waiting for the agent to respond'', [], ''failure'')
      | Inl e \<Rightarrow> (502, False, error_text e, [], ''failure'')
      | Inr resp \<Rightarrow>
          if \<not> rs_OK resp then (502, False, rs_Error resp, rs_State resp, ''failure'')
          else (200, True, [], rs_State resp, ''success''))"

definition handleDockerAction ::
  "(string \<Rightarrow> string \<Rightarrow> CommandPayload \<Rightarrow> send_result) \<Rightarrow> int \<Rightarrow> string \<Rightarrow> string \<Rightarrow> string \<Rightarrow> command_reply" where
  "handleDockerAction send nowMillis agentID containerID action =
     (if \<not> allowedDockerActions action
      then \<lparr>rp_status = 400, rp_ok = False, rp_error = ''unsupported docker action'', rp_state = [], rp_audit = None\<rparr>
      else if \<not> dockerContainerIDPattern containerID
      then \<lparr>rp_status = 400, rp_ok = False, rp_error = ''invalid container id'', rp_state = [], rp_audit = None\<rparr>
      else
        let requestID = docker_request_id nowMillis containerID;
            args = \<lparr>da_RequestID = requestID, da_ContainerID = containerID, da_Action = action\<rparr>;
            payload = \<lparr>cp_Command = ''docker_action'', cp_Args = DockerAction_ToArgs args\<rparr>
        in case docker_outcome (send agentID requestID payload) of
             (status, ok, err, st, result) \<Rightarrow>
               \<lparr>rp_status = status, rp_ok = ok, rp_error = err, rp_state = st,
                rp_audit = Some (''docker.'' @ action, containerID, result)\<rparr>)"

section \<open>Agent updates\<close>

definition is_digit :: "char \<Rightarrow> bool" where
  "is_digit c \<longleftrightarrow> 48 \<le> char_code c \<and> char_code c \<le> 57"

definition normalizeVersion :: "string \<Rightarrow> string option" where
  "normalizeVersion raw =
     (let v = trim_prefix raw ''v''; parts = split_byte CHR ''.'' v in
      if length parts = 3 \<and> list_all (\<lambda>p. p \<noteq> [] \<and> list_all is_digit p) parts then Some v else None)"

record dispatchOutcome =
  do_ok :: bool
  do_status :: int
  do_errMsg :: string

definition update_request_id :: "int \<Rightarrow> string \<Rightarrow> string" where
  "update_request_id nowMillis agentID = ''upd-'' @ fmt_d nowMillis @ ''-'' @ take 8 agentID"

definition dispatchUpdateCommand ::
  "(string \<Rightarrow> string \<Rightarrow> CommandPayload \<Rightarrow> send_result) \<Rightarrow> int \<Rightarrow> agent \<Rightarrow> string \<Rightarrow> string \<Rightarrow> dispatchOutcome" where
  "dispatchUpdateCommand send nowMillis agent version baseURL =
     (let osName = ag_platform agent; arch = ag_arch agent in
      if osName = [] \<or> arch = []
      then \<lparr>do_ok = False, do_status = 400, do_errMsg = ''agent os/arch is not known yet''\<rparr>
      else
        let requestID = update_request_id nowMillis (ag_id agent);
            args = \<lparr>up_RequestID = requestID, up_Version = version, up_BaseURL = baseURL, up_OS = osName, up_Arch = arch\<rparr>
        in case send (ag_id agent) requestID \<lparr>cp_Command = ''update'', cp_Args = Update_ToArgs args\<rparr> of
             Inl ErrTimeout \<Rightarrow>
               \<lparr>do_ok = False, do_status = 504, do_errMsg = ''timed out waiting for the agent to acknowledge the update''\<rparr>
           | Inl e \<Rightarrow> \<lparr>do_ok = False, do_status = 502, do_errMsg = error_text e\<rparr>
           | Inr resp \<Rightarrow>
               if \<not> rs_OK resp then \<lparr>do_ok = False, do_status = 502, do_errMsg = rs_Error resp\<rparr>
               else \<lparr>do_ok = True, do_status = 200, do_errMsg = []\<rparr>)"

definition request_fields :: "time \<Rightarrow> string \<Rightarrow> string \<Rightarrow> dispatchOutcome \<Rightarrow> agent \<Rightarrow> agent" where
  "request_fields now requestedBy version outcome a =
     a\<lparr>ag_update_target_version := version, ag_update_requested_at := fmt_ts now, ag_update_requested_by := requestedBy,
       ag_update_status := (if do_ok outcome then ''started'' else ''failed''),
       ag_update_error := (if do_ok outcome then [] else do_errMsg outcome)\<rparr>"

definition recordUpdateRequest ::
  "('a, agent) table \<Rightarrow> time \<Rightarrow> string \<Rightarrow> agent \<Rightarrow> string \<Rightarrow> dispatchOutcome \<Rightarrow> 'a \<Rightarrow> 'a" where
  "recordUpdateRequest A now requestedBy agent version outcome db =
     fst (t_save A db (request_fields now requestedBy version outcome agent))"

text \<open>\<open>body\<close> is the decoded request body; the reply status comes with the error text.\<close>

definition handleAgentUpdate ::
  "('a, agent) table \<Rightarrow> (string \<Rightarrow> string \<Rightarrow> CommandPayload \<Rightarrow> send_result) \<Rightarrow> ('a \<Rightarrow> 'a) \<Rightarrow> int \<Rightarrow> time \<Rightarrow> string
   \<Rightarrow> string \<Rightarrow> string option \<Rightarrow> string \<Rightarrow> 'a \<Rightarrow> 'a \<times> int \<times> string" where
  "handleAgentUpdate A send during nowMillis now requestedBy baseURL body agentID db =
     (case body of
        None \<Rightarrow> (db, 400, ''invalid request body'')
      | Some raw \<Rightarrow>
          (case normalizeVersion raw of
             None \<Rightarrow> (db, 400, ''version must look like X.Y.Z or vX.Y.Z'')
           | Some version \<Rightarrow>
               (case t_find A db agentID of
                  None \<Rightarrow> (db, 404, ''agent not found'')
                | Some agent \<Rightarrow>
                    let outcome = dispatchUpdateCommand send nowMillis agent version baseURL
                    in (recordUpdateRequest A now requestedBy agent version outcome (during db),
                        do_status outcome, do_errMsg outcome))))"

record updateAgentResult =
  ur_AgentID :: string
  ur_Hostname :: string
  ur_OK :: bool
  ur_Error :: string

definition update_one ::
  "('a, agent) table \<Rightarrow> (string \<Rightarrow> string \<Rightarrow> CommandPayload \<Rightarrow> send_result) \<Rightarrow> int \<Rightarrow> time \<Rightarrow> string \<Rightarrow> string \<Rightarrow> string
   \<Rightarrow> bool \<Rightarrow> agent \<Rightarrow> 'a \<times> updateAgentResult list \<Rightarrow> 'a \<times> updateAgentResult list" where
  "update_one A send nowMillis now requestedBy baseURL version only_outdated agent = (\<lambda>(db, results).
     if only_outdated \<and> ag_version agent = version then (db, results)
     else
       let outcome = dispatchUpdateCommand send nowMillis agent version baseURL
       in (recordUpdateRequest A now requestedBy agent version outcome db,
           results @ [\<lparr>ur_AgentID = ag_id agent, ur_Hostname = ag_hostname agent, ur_OK = do_ok outcome,
                       ur_Error = do_errMsg outcome\<rparr>]))"

definition handleAgentUpdateAll ::
  "(agent list \<Rightarrow> agent list) \<Rightarrow> ('a, agent) table \<Rightarrow> (string \<Rightarrow> string \<Rightarrow> CommandPayload \<Rightarrow> send_result) \<Rightarrow> int \<Rightarrow> time
   \<Rightarrow> string \<Rightarrow> string \<Rightarrow> (string \<times> bool) option \<Rightarrow> 'a \<Rightarrow> 'a \<times> int \<times> updateAgentResult list" where
  "handleAgentUpdateAll by_hostname A send nowMillis now requestedBy baseURL body db =
     (case body of
        None \<Rightarrow> (db, 400, [])
      | Some (raw, only_outdated) \<Rightarrow>
          (case normalizeVersion raw of
             None \<Rightarrow> (db, 400, [])
           | Some version \<Rightarrow>
               (case t_all A db (\<lambda>a. ag_status a = ''online'') of
                  None \<Rightarrow> (db, 500, [])
                | Some agents \<Rightarrow>
                    (case fold (update_one A send nowMillis now requestedBy baseURL version only_outdated)
                            (by_hostname agents) (db, []) of
                       (db', results) \<Rightarrow> (db', 200, results)))))"

section \<open>The latest release\<close>

record latestVersionCache =
  vc_version :: string
  vc_publishedAt :: string
  vc_fetchedAt :: time

text \<open>\<open>fetched\<close> is the outcome of the GitHub call, made only when the cache is cold or stale.\<close>

definition cache_get ::
  "(string + string \<times> string) \<Rightarrow> time \<Rightarrow> time \<Rightarrow> latestVersionCache \<Rightarrow> latestVersionCache \<times> (string + string \<times> string \<times> bool)" where
  "cache_get fetched now later c =
     (if vc_fetchedAt c \<noteq> 0 \<and> t_sub now (vc_fetchedAt c) < hour
      then (c, Inr (vc_version c, vc_publishedAt c, True))
      else
        case fetched of
          Inl err \<Rightarrow> (c, Inl err)
        | Inr (version, publishedAt) \<Rightarrow>
            (\<lparr>vc_version = version, vc_publishedAt = publishedAt, vc_fetchedAt = later\<rparr>, Inr (version, publishedAt, False)))"

section \<open>A lost outcome\<close>

text \<open>The route stores the agent record it loaded before it waited: whatever the update reported in the
  meantime is overwritten. A failure that arrives right after the acknowledgement ends as
  \<open>started\<close> without an error, and nothing corrects it.\<close>

theorem early_failure_is_overwritten:
  assumes "record_table A ag_id set_ag_id" and "saves_succeed A" and "t_find A db i = Some r"
    and "normalizeVersion raw = Some v" and "do_ok (dispatchUpdateCommand send ms r v base)"
    and "rs_Command p = ''update''" "rs_AgentID p = i" "rs_Stage p = ''failed''"
  shows "let db' = fst (handleAgentUpdate A send (update_HandleResponse A p) ms now by base (Some raw) i db) in
    t_find A (update_HandleResponse A p db) i = Some (r\<lparr>ag_update_status := ''failed'', ag_update_error := rs_Error p\<rparr>) \<and>
    t_find A db' i = Some (request_fields now by v (dispatchUpdateCommand send ms r v base) r) \<and>
    map_option ag_update_status (t_find A db' i) = Some ''started'' \<and> map_option ag_update_error (t_find A db' i) = Some []"
proof -
  have id: "ag_id r = i" and ne: "i \<noteq> []"
    using record_table.find_ident [OF assms(1,3)] assms(3) record_table.find_empty [OF assms(1)] by auto
  have saved: "t_find A (fst (t_save A d a)) i = Some a" if "t_find A d i \<noteq> None" "ag_id a = i" for d a
  proof -
    obtain d' j where s: "t_save A d a = (d', Some j)"
      using saves_succeedD [OF assms(2)] by (metis option.collapse prod.collapse)
    with that record_table.save_existing [OF assms(1) _ that(2) s] show ?thesis by auto
  qed
  have stage: "apply_stage p r = r\<lparr>ag_update_status := ''failed'', ag_update_error := rs_Error p\<rparr>"
    using assms(8) by (simp add: apply_stage_def update_stage_def)
  have failed: "t_find A (update_HandleResponse A p db) i = Some (r\<lparr>ag_update_status := ''failed'', ag_update_error := rs_Error p\<rparr>)"
    using assms(3,6,7) ne saved [of db "apply_stage p r"] id by (simp add: update_HandleResponse_def stage)
  have "t_find A (fst (handleAgentUpdate A send (update_HandleResponse A p) ms now by base (Some raw) i db)) i =
      Some (request_fields now by v (dispatchUpdateCommand send ms r v base) r)"
    using assms(3,4) failed id
    by (simp add: handleAgentUpdate_def Let_def recordUpdateRequest_def saved request_fields_def)
  with failed assms(5) show ?thesis by (simp add: Let_def request_fields_def)
qed

definition stage_message :: "string \<Rightarrow> CommandResponsePayload" where
  "stage_message st = \<lparr>rs_Command = ''update'', rs_RequestID = ''u'', rs_AgentID = ''a'', rs_PID = 0, rs_Output = [],
     rs_Error = ''no asset'', rs_OK = (st \<noteq> ''failed''), rs_ContainerID = [], rs_Action = [], rs_State = [], rs_Stage = st,
     rs_FromVersion = [], rs_ToVersion = []\<rparr>"

definition linux_agent :: agent where
  "linux_agent = \<lparr>ag_id = ''a'', ag_hostname = ''h'', ag_os = [], ag_ip = [], ag_version = ''1.0.0'', ag_status = ''online'',
     ag_last_seen = 0, ag_token_hash = [], ag_tags = [], ag_arch = ''amd64'', ag_platform = ''linux'', ag_update_status = [],
     ag_update_error = [], ag_update_target_version = [], ag_update_requested_at = 0, ag_update_requested_by = [],
     ag_dropped_messages = 0, ag_logs_lines_total = 0\<rparr>"

theorem early_failure_is_overwritten_witness:
  "map_option ag_update_status (t_find (sure_table ag_id set_ag_id)
     (fst (handleAgentUpdate (sure_table ag_id set_ag_id) (\<lambda>_ _ _. Inr (stage_message ''started''))
        (update_HandleResponse (sure_table ag_id set_ag_id) (stage_message ''failed'')) 0 day ''u'' ''https://h''
        (Some ''v1.2.3'') ''a'' \<lparr>m_rows = [(''a'', linux_agent)], m_faults = []\<rparr>)) ''a'') = Some ''started''"
proof -
  let ?db = "\<lparr>m_rows = [(''a'', linux_agent)], m_faults = []\<rparr>"
  have r: "t_find (sure_table ag_id set_ag_id) ?db ''a'' = Some linux_agent"
    by (simp add: sure_sel mem_table_def mem_find_def set_ag_id_def linux_agent_def)
  have v: "normalizeVersion ''v1.2.3'' = Some ''1.2.3''"
    by (simp add: normalizeVersion_def trim_prefix_def has_prefix_def is_digit_def)
  have o: "do_ok (dispatchUpdateCommand (\<lambda>_ _ _. Inr (stage_message ''started'')) 0 linux_agent ''1.2.3'' ''https://h'')"
    by (simp add: dispatchUpdateCommand_def linux_agent_def stage_message_def Let_def)
  have p: "rs_Command (stage_message ''failed'') = ''update''" "rs_AgentID (stage_message ''failed'') = ''a''"
    "rs_Stage (stage_message ''failed'') = ''failed''" by (simp_all add: stage_message_def)
  show ?thesis
    using early_failure_is_overwritten [OF sure_table_contract [OF agents.record_table_axioms] sure_saves r v o p, of day "''u''"]
    unfolding Let_def by blast
qed

end
