(* ===== verification/Self_Update.thy ===== *)
theory Self_Update
  imports Wire
begin

text \<open>
  The agent's self-update (\<open>internal/agent/update/update.go\<close>): download, checksum and signature
  verification, extraction, the sanity run and the replacement of the running executable, on a file
  system given as a map. The network, SHA-256, gpg, the archive decoders, running a binary and the
  success of each system call are fields of \<open>host\<close>.
\<close>

section \<open>Files and the host\<close>

record fs_file =
  f_content :: string
  f_mode :: nat

type_synonym fs = "string \<Rightarrow> fs_file option"

text \<open>An archive entry: its name, whether it is a regular file, its content.\<close>

type_synonym entry = "string \<times> bool \<times> string"

record host =
  h_temp_dir :: "string option"
  h_http :: "string \<Rightarrow> (int \<times> string) option"
  h_sha256 :: "string \<Rightarrow> string"
  h_gpg :: "(string \<Rightarrow> string \<Rightarrow> string \<Rightarrow> bool) option"
  h_key_file :: "string option"
  h_untar :: "string \<Rightarrow> entry list \<times> bool"
  h_unzip :: "string \<Rightarrow> entry list option"
  h_run_version :: "string \<Rightarrow> string option"
  h_exec_path :: "string option"
  h_write_ok :: "string \<Rightarrow> bool"
  h_chmod_ok :: "string \<Rightarrow> bool"
  h_rename_ok :: "string \<Rightarrow> string \<Rightarrow> bool"
  h_windows :: bool
  h_schedule_ok :: bool

record Request =
  rq_Version :: string
  rq_BaseURL :: string
  rq_OS :: string
  rq_Arch :: string

record Result =
  re_Stage :: string
  re_OK :: bool
  re_Error :: string
  re_FromVersion :: string
  re_ToVersion :: string
  re_RestartRequired :: bool

record Updater =
  ud_CurrentVersion :: string
  ud_RequireSignature :: bool
  ud_SigningKeyURL :: string
  ud_SigningKeyFile :: string
  ud_MaxDownloadSize :: int

text \<open>The state of the machine: its files, and the renames the system will do at the next boot.\<close>

record machine =
  mc_fs :: fs
  mc_pending :: "(string \<times> string) list"

definition rename :: "host \<Rightarrow> string \<Rightarrow> string \<Rightarrow> machine \<Rightarrow> machine option" where
  "rename H from to m =
     (case mc_fs m from of
        None \<Rightarrow> None
      | Some f \<Rightarrow>
          if h_rename_ok H from to then Some (m\<lparr>mc_fs := (mc_fs m)(from := None, to := Some f)\<rparr>) else None)"

definition write_file :: "host \<Rightarrow> string \<Rightarrow> string \<Rightarrow> nat \<Rightarrow> machine \<Rightarrow> machine option" where
  "write_file H path content mode m =
     (if h_write_ok H path then Some (m\<lparr>mc_fs := (mc_fs m)(path \<mapsto> \<lparr>f_content = content, f_mode = mode\<rparr>)\<rparr>) else None)"

definition remove :: "string \<Rightarrow> machine \<Rightarrow> machine" where
  "remove path m = m\<lparr>mc_fs := (mc_fs m)(path := None)\<rparr>"

text \<open>\<open>os.RemoveAll(tmpDir)\<close>.\<close>

definition remove_all :: "string \<Rightarrow> machine \<Rightarrow> machine" where
  "remove_all dir m = m\<lparr>mc_fs := (\<lambda>p. if p = dir \<or> has_prefix p (dir @ ''/'') then None else mc_fs m p)\<rparr>"

text \<open>A reboot performs the pending renames whose source still exists (\<open>MoveFileEx\<close>).\<close>

definition reboot :: "machine \<Rightarrow> machine" where
  "reboot m = fold (\<lambda>(from, to) m. case mc_fs m from of
       None \<Rightarrow> m | Some f \<Rightarrow> m\<lparr>mc_fs := (mc_fs m)(from := None, to := Some f)\<rparr>) (mc_pending m) (m\<lparr>mc_pending := []\<rparr>)"

section \<open>Downloads and checksums\<close>

definition smallFileLimit :: nat where "smallFileLimit = 1048576"

definition maxDownloadSize :: "Updater \<Rightarrow> int" where
  "maxDownloadSize u = (if 0 < ud_MaxDownloadSize u then ud_MaxDownloadSize u else 209715200)"

definition signingKeyURL :: "Updater \<Rightarrow> string" where
  "signingKeyURL u =
     (if ud_SigningKeyURL u \<noteq> [] then ud_SigningKeyURL u
      else ''https://raw.githubusercontent.com/CogniDevAI/nexwatch/main/scripts/release-signing-key.asc'')"

text \<open>\<open>None\<close> is an error. An oversized body is written up to the limit before it is refused.\<close>

definition fetchToFile :: "Updater \<Rightarrow> host \<Rightarrow> string \<Rightarrow> string \<Rightarrow> machine \<Rightarrow> machine \<times> bool" where
  "fetchToFile u H url destPath m =
     (case h_http H url of
        None \<Rightarrow> (m, False)
      | Some (status, body) \<Rightarrow>
          if status \<noteq> 200 then (m, False)
          else
            case write_file H destPath (take (nat (maxDownloadSize u + 1)) body) 384 m of
              None \<Rightarrow> (m, False)
            | Some m' \<Rightarrow> (m', int (length body) \<le> maxDownloadSize u))"

definition fetchBytes :: "host \<Rightarrow> string \<Rightarrow> string option" where
  "fetchBytes H url =
     (case h_http H url of
        None \<Rightarrow> None
      | Some (status, body) \<Rightarrow> if status \<noteq> 200 \<or> smallFileLimit < length body then None else Some body)"

fun sums_entry :: "string list \<Rightarrow> string \<Rightarrow> string option" where
  "sums_entry [] filename = None"
| "sums_entry (line # ls) filename =
     (case Nexwatch_Prelude.fields (trim_space line) of
        h # n # _ \<Rightarrow> if trim_prefix n ''*'' = filename then Some h else sums_entry ls filename
      | _ \<Rightarrow> sums_entry ls filename)"

definition parseSHA256Sums :: "string \<Rightarrow> string \<Rightarrow> string option" where
  "parseSHA256Sums data filename = sums_entry (scan_lines data) filename"

definition parsePerFileSHA256 :: "string \<Rightarrow> string option" where
  "parsePerFileSHA256 data = (case Nexwatch_Prelude.fields data of [] \<Rightarrow> None | f # _ \<Rightarrow> Some f)"

text \<open>
  \<open>Inr True\<close>: verified; \<open>Inr False\<close>: skipped; \<open>Inl\<close>: a published signature that failed.
\<close>

definition attemptSignatureVerification :: "Updater \<Rightarrow> host \<Rightarrow> string \<Rightarrow> string \<Rightarrow> string + bool" where
  "attemptSignatureVerification u H sumsData releaseBase =
     (case fetchBytes H (releaseBase @ ''/SHA256SUMS.asc'') of
        None \<Rightarrow> Inr False
      | Some sigData \<Rightarrow>
          (case h_gpg H of
             None \<Rightarrow> Inr False
           | Some verify_sig \<Rightarrow>
               (case (if ud_SigningKeyFile u \<noteq> [] then h_key_file H else fetchBytes H (signingKeyURL u)) of
                  None \<Rightarrow> Inr False
                | Some keyData \<Rightarrow>
                    if verify_sig keyData sigData sumsData then Inr True
                    else Inl ''signature verification failed'')))"

definition expected_hash :: "host \<Rightarrow> string \<Rightarrow> string \<Rightarrow> string + string \<times> string option" where
  "expected_hash H releaseBase assetName =
     (case fetchBytes H (releaseBase @ ''/SHA256SUMS'') of
        Some sumsData \<Rightarrow>
          (case parseSHA256Sums sumsData assetName of
             None \<Rightarrow> Inl ''no checksum entry in SHA256SUMS''
           | Some h \<Rightarrow> Inr (h, Some sumsData))
      | None \<Rightarrow>
          (case fetchBytes H (releaseBase @ ''/'' @ assetName @ ''.sha256'') of
             None \<Rightarrow> Inl ''checksum unavailable''
           | Some perFile \<Rightarrow>
               (case parsePerFileSHA256 perFile of
                  None \<Rightarrow> Inl ''malformed checksum file''
                | Some h \<Rightarrow> Inr (h, None))))"

text \<open>\<open>verify\<close>: \<open>None\<close> when the archive is accepted.\<close>

definition verify :: "Updater \<Rightarrow> host \<Rightarrow> string \<Rightarrow> string \<Rightarrow> string \<Rightarrow> string option" where
  "verify u H releaseBase assetName archive =
     (case expected_hash H releaseBase assetName of
        Inl err \<Rightarrow> Some err
      | Inr (expected, listed) \<Rightarrow>
          if \<not> equal_fold (h_sha256 H archive) expected then Some ''checksum mismatch''
          else
            case (case listed of None \<Rightarrow> Inr False | Some s \<Rightarrow> attemptSignatureVerification u H s releaseBase) of
              Inl err \<Rightarrow> Some err
            | Inr sigVerified \<Rightarrow>
                if ud_RequireSignature u \<and> \<not> sigVerified then Some ''no valid release signature'' else None)"

section \<open>Extraction\<close>

definition clean_step :: "bool \<Rightarrow> string \<Rightarrow> string list \<Rightarrow> string list" where
  "clean_step rooted c st =
     (if c = [] \<or> c = ''.'' then st
      else if c = ''..'' then
        (case st of
           t # ts \<Rightarrow> if t \<noteq> ''..'' then ts else ''..'' # st
         | [] \<Rightarrow> if rooted then [] else [''..''])
      else c # st)"

text \<open>\<open>path.Clean\<close>.\<close>

definition path_clean :: "string \<Rightarrow> string" where
  "path_clean p =
     (let rooted = has_prefix p ''/'';
          st = rev (fold (clean_step rooted) (split_byte CHR ''/'' p) [])
      in if rooted then ''/'' @ str_join ''/'' st else if st = [] then ''.'' else str_join ''/'' st)"

definition wanted :: "string \<Rightarrow> string \<Rightarrow> bool" where
  "wanted entryName name \<longleftrightarrow> path_clean name = entryName \<or> path_clean name = ''./'' @ entryName"

text \<open>The content of the first entry with the wanted name; \<open>broken\<close>: the archive ends in an error.\<close>

fun first_entry :: "string \<Rightarrow> entry list \<Rightarrow> bool \<Rightarrow> string + string" where
  "first_entry entryName [] broken = Inl (if broken then ''archive error'' else ''no entry found in archive'')"
| "first_entry entryName ((name, regular, content) # es) broken =
     (if \<not> wanted entryName name then first_entry entryName es broken
      else if \<not> regular then Inl ''entry is not a regular file''
      else Inr content)"

definition archive_binary :: "host \<Rightarrow> string \<Rightarrow> string \<Rightarrow> string \<Rightarrow> string + string" where
  "archive_binary H archivePath archive entryName =
     (if has_suffix archivePath ''.zip''
      then (case h_unzip H archive of None \<Rightarrow> Inl ''zip'' | Some es \<Rightarrow> first_entry entryName es False)
      else (case h_untar H archive of (es, broken) \<Rightarrow> first_entry entryName es broken))"

definition extractArchive :: "host \<Rightarrow> string \<Rightarrow> string \<Rightarrow> string \<Rightarrow> string \<Rightarrow> machine \<Rightarrow> machine \<times> (string + string)" where
  "extractArchive H archivePath archive destDir entryName m =
     (let destPath = destDir @ ''/'' @ entryName in
      case archive_binary H archivePath archive entryName of
        Inl err \<Rightarrow> (m, Inl err)
      | Inr content \<Rightarrow>
          (case write_file H destPath content 448 m of
             None \<Rightarrow> (m, Inl ''write extracted binary'')
           | Some m' \<Rightarrow> if h_chmod_ok H destPath then (m', Inr destPath) else (m', Inl ''chmod'')))"

definition sanityCheckVersion :: "host \<Rightarrow> machine \<Rightarrow> string \<Rightarrow> string option" where
  "sanityCheckVersion H m path =
     (case mc_fs m path of None \<Rightarrow> None | Some f \<Rightarrow> map_option trim_space (h_run_version H (f_content f)))"

definition versionMatches :: "string \<Rightarrow> string \<Rightarrow> bool" where
  "versionMatches reported want =
     (let r = trim_prefix (trim_space reported) ''v''; w = trim_prefix (trim_space want) ''v''
      in w \<noteq> [] \<and> (r = w \<or> str_contains r w))"

section \<open>Installation\<close>

definition chmod :: "string \<Rightarrow> nat \<Rightarrow> machine \<Rightarrow> machine" where
  "chmod path mode m = m\<lparr>mc_fs := (mc_fs m)(path := map_option (\<lambda>f. f\<lparr>f_mode := mode\<rparr>) (mc_fs m path))\<rparr>"

text \<open>\<open>Inr restartRequired\<close> or \<open>Inl\<close> of the error.\<close>

definition installBinary :: "host \<Rightarrow> string \<Rightarrow> machine \<Rightarrow> machine \<times> (string + bool)" where
  "installBinary H newPath m =
     (case h_exec_path H of
        None \<Rightarrow> (m, Inl ''resolve running executable'')
      | Some execPath \<Rightarrow>
          let mode = (case mc_fs m execPath of Some f \<Rightarrow> f_mode f | None \<Rightarrow> 493) in
          if \<not> h_chmod_ok H newPath then (m, Inl ''preserve executable mode'')
          else
            let previousPath = execPath @ ''.previous'';
                m1 = remove previousPath (chmod newPath mode m)
            in case rename H execPath previousPath m1 of
                 None \<Rightarrow> (m1, Inl ''back up current binary'')
               | Some m2 \<Rightarrow>
                   (case rename H newPath execPath m2 of
                      Some m3 \<Rightarrow> (m3, Inr False)
                    | None \<Rightarrow>
                        if h_windows H \<and> h_schedule_ok H then
                          let m3 = m2\<lparr>mc_pending := mc_pending m2 @ [(newPath, execPath)]\<rparr> in
                          (case rename H previousPath execPath m3 of
                             None \<Rightarrow> (m3, Inl ''delayed replacement scheduled, but restoring failed'')
                           | Some m4 \<Rightarrow> (m4, Inr True))
                        else
                          (case rename H previousPath execPath m2 of
                             None \<Rightarrow> (m2, Inl ''install failed AND rollback failed'')
                           | Some m3 \<Rightarrow> (m3, Inl ''install failed, rolled back''))))"

section \<open>Apply\<close>

definition fail_result :: "Updater \<Rightarrow> Request \<Rightarrow> string \<Rightarrow> Result" where
  "fail_result u req err = \<lparr>re_Stage = ''failed'', re_OK = False, re_Error = err,
     re_FromVersion = ud_CurrentVersion u, re_ToVersion = rq_Version req, re_RestartRequired = False\<rparr>"

definition asset_name :: "Request \<Rightarrow> string" where
  "asset_name req = ''nexwatch-agent_'' @ rq_Version req @ ''_'' @ rq_OS req @ ''_'' @ rq_Arch req @ ''.'' @
     (if rq_OS req = ''windows'' then ''zip'' else ''tar.gz'')"

definition entry_name :: "Request \<Rightarrow> string" where
  "entry_name req = (if rq_OS req = ''windows'' then ''nexwatch-agent.exe'' else ''nexwatch-agent'')"

definition release_base :: "Request \<Rightarrow> string" where
  "release_base req = trim_right (rq_BaseURL req) CHR ''/'' @ ''/v'' @ rq_Version req"

text \<open>
  The work inside the temporary directory, with the stages reported on the way; \<open>Apply\<close> removes the
  directory whatever the outcome.
\<close>

definition apply_in :: "Updater \<Rightarrow> host \<Rightarrow> Request \<Rightarrow> string \<Rightarrow> machine \<Rightarrow> machine \<times> string list \<times> (string + bool)" where
  "apply_in u H req tmpDir m =
     (let assetName = asset_name req; releaseBase = release_base req; tarballPath = tmpDir @ ''/'' @ assetName in
      case fetchToFile u H (releaseBase @ ''/'' @ assetName) tarballPath m of
        (m1, False) \<Rightarrow> (m1, [''downloading''], Inl ''download'')
      | (m1, True) \<Rightarrow>
          let archive = (case mc_fs m1 tarballPath of None \<Rightarrow> [] | Some f \<Rightarrow> f_content f) in
          (case verify u H releaseBase assetName archive of
             Some err \<Rightarrow> (m1, [''downloading'', ''verifying''], Inl err)
           | None \<Rightarrow>
               (case extractArchive H tarballPath archive tmpDir (entry_name req) m1 of
                  (m2, Inl err) \<Rightarrow> (m2, [''downloading'', ''verifying'', ''installing''], Inl (''extract: '' @ err))
                | (m2, Inr extractedPath) \<Rightarrow>
                    (case sanityCheckVersion H m2 extractedPath of
                       None \<Rightarrow> (m2, [''downloading'', ''verifying'', ''installing''], Inl ''sanity check of extracted binary'')
                     | Some reported \<Rightarrow>
                         if \<not> versionMatches reported (rq_Version req)
                         then (m2, [''downloading'', ''verifying'', ''installing''], Inl ''version mismatch'')
                         else
                           case installBinary H extractedPath m2 of
                             (m3, res) \<Rightarrow> (m3, [''downloading'', ''verifying'', ''installing''], res)))))"

definition Apply :: "Updater \<Rightarrow> host \<Rightarrow> Request \<Rightarrow> machine \<Rightarrow> machine \<times> string list \<times> Result" where
  "Apply u H req m =
     (if rq_Version req = [] then (m, [], fail_result u req ''update: version is required'')
      else if rq_OS req = [] \<or> rq_Arch req = [] then (m, [], fail_result u req ''update: target os/arch is required'')
      else if rq_BaseURL req = [] then (m, [], fail_result u req ''update: base_url is required'')
      else
        case h_temp_dir H of
          None \<Rightarrow> (m, [], fail_result u req ''create temp dir'')
        | Some tmpDir \<Rightarrow>
            (case apply_in u H req tmpDir m of
               (m', stages, Inl err) \<Rightarrow> (remove_all tmpDir m', stages, fail_result u req err)
             | (m', stages, Inr restart) \<Rightarrow>
                 (remove_all tmpDir m', stages,
                  \<lparr>re_Stage = ''done'', re_OK = True, re_Error = [], re_FromVersion = ud_CurrentVersion u,
                   re_ToVersion = rq_Version req, re_RestartRequired = restart\<rparr>)))"

section \<open>What an installation leaves\<close>

lemma rename_Some:
  "rename H a b m = Some m' \<Longrightarrow> \<exists>f. mc_fs m a = Some f \<and> h_rename_ok H a b \<and>
     m' = m\<lparr>mc_fs := (mc_fs m)(a := None, b \<mapsto> f)\<rparr>"
  by (auto simp: rename_def split: option.splits if_splits)

lemma rename_ok: "mc_fs m a = Some f \<Longrightarrow> h_rename_ok H a b \<Longrightarrow>
    rename H a b m = Some (m\<lparr>mc_fs := (mc_fs m)(a := None, b \<mapsto> f)\<rparr>)"
  by (simp add: rename_def)

lemma previous_ne: "ex @ ''.previous'' \<noteq> ex"
  by simp

lemma installBinary_spec:
  assumes exec: "h_exec_path H = Some ex" and old: "mc_fs m ex = Some old" and new: "mc_fs m np = Some nf"
    and np: "np \<noteq> ex" "np \<noteq> ex @ ''.previous''" and run: "installBinary H np m = (m', res)"
  shows "res = Inr False \<Longrightarrow> mc_fs m' ex = Some (nf\<lparr>f_mode := f_mode old\<rparr>) \<and> mc_fs m' (ex @ ''.previous'') = Some old"
    and "res = Inr True \<Longrightarrow> mc_fs m' ex = Some old \<and> mc_pending m' = mc_pending m @ [(np, ex)]"
    and "res = Inl err \<Longrightarrow> h_rename_ok H (ex @ ''.previous'') ex \<Longrightarrow> mc_fs m' ex = Some old"
proof -
  let ?prev = "ex @ ''.previous''"
  let ?m1 = "remove ?prev (chmod np (f_mode old) m)"
  have m1: "mc_fs ?m1 ex = Some old" "mc_fs ?m1 np = Some (nf\<lparr>f_mode := f_mode old\<rparr>)" "mc_pending ?m1 = mc_pending m"
    using old new np by (simp_all add: remove_def chmod_def)
  let ?m2 = "?m1\<lparr>mc_fs := (mc_fs ?m1)(ex := None, ?prev \<mapsto> old)\<rparr>"
  have m2: "mc_fs ?m2 np = Some (nf\<lparr>f_mode := f_mode old\<rparr>)" "mc_fs ?m2 ?prev = Some old" "mc_pending ?m2 = mc_pending m"
    using m1 np by simp_all
  have shape: "installBinary H np m =
    (if \<not> h_chmod_ok H np then (m, Inl ''preserve executable mode'')
     else if \<not> h_rename_ok H ex ?prev then (?m1, Inl ''back up current binary'')
     else if h_rename_ok H np ex
       then (?m2\<lparr>mc_fs := (mc_fs ?m2)(np := None, ex \<mapsto> nf\<lparr>f_mode := f_mode old\<rparr>)\<rparr>, Inr False)
     else let m3 = (if h_windows H \<and> h_schedule_ok H then ?m2\<lparr>mc_pending := mc_pending m @ [(np, ex)]\<rparr> else ?m2)
       in if h_rename_ok H ?prev ex
          then (m3\<lparr>mc_fs := (mc_fs ?m2)(?prev := None, ex \<mapsto> old)\<rparr>,
                if h_windows H \<and> h_schedule_ok H then Inr True else Inl ''install failed, rolled back'')
          else (m3, if h_windows H \<and> h_schedule_ok H then Inl ''delayed replacement scheduled, but restoring failed''
                    else Inl ''install failed AND rollback failed''))"
    using exec old m1 m2 by (simp add: installBinary_def rename_def Let_def)
  show "mc_fs m' ex = Some (nf\<lparr>f_mode := f_mode old\<rparr>) \<and> mc_fs m' ?prev = Some old" if "res = Inr False"
    using run np that by (simp add: shape Let_def split: if_splits) (auto simp: remove_def chmod_def)
  show "mc_fs m' ex = Some old \<and> mc_pending m' = mc_pending m @ [(np, ex)]" if "res = Inr True"
    using run np that by (auto simp: shape Let_def split: if_splits)
  show "mc_fs m' ex = Some old" if "res = Inl err" "h_rename_ok H ?prev ex"
    using run np that m1(1) old by (auto simp: shape Let_def split: if_splits)
qed

definition under :: "string \<Rightarrow> string \<Rightarrow> bool" where
  "under dir p \<longleftrightarrow> p = dir \<or> has_prefix p (dir @ ''/'')"

text \<open>Two machines that agree outside the temporary directory.\<close>

definition same_outside :: "string \<Rightarrow> machine \<Rightarrow> machine \<Rightarrow> bool" where
  "same_outside dir m m' \<longleftrightarrow> (\<forall>p. \<not> under dir p \<longrightarrow> mc_fs m' p = mc_fs m p) \<and> mc_pending m' = mc_pending m"

lemma under_file [simp]: "under dir (dir @ CHR ''/'' # f)"
  using has_prefix_append [of "dir @ ''/''" f] by (simp add: under_def)

lemma write_outside: "write_file H (dir @ CHR ''/'' # f) c md m = Some m' \<Longrightarrow> same_outside dir m m'"
  by (auto simp: write_file_def same_outside_def split: if_splits)

lemma outside_refl [simp]: "same_outside dir m m"
  by (simp add: same_outside_def)

lemma outside_trans: "same_outside dir a b \<Longrightarrow> same_outside dir b c \<Longrightarrow> same_outside dir a c"
  by (simp add: same_outside_def)

lemma fetchToFile_spec:
  assumes "fetchToFile u H url (dir @ ''/'' @ f) m = (m1, ok)"
  shows "same_outside dir m m1"
    and "ok \<Longrightarrow> \<exists>body. h_http H url = Some (200, body) \<and> int (length body) \<le> maxDownloadSize u \<and>
       mc_fs m1 (dir @ ''/'' @ f) = Some \<lparr>f_content = body, f_mode = 384\<rparr>"
proof -
  show "same_outside dir m m1"
    using assms by (auto simp: fetchToFile_def dest: write_outside split: option.splits if_splits prod.splits)
  assume ok
  with assms show "\<exists>body. h_http H url = Some (200, body) \<and> int (length body) \<le> maxDownloadSize u \<and>
       mc_fs m1 (dir @ ''/'' @ f) = Some \<lparr>f_content = body, f_mode = 384\<rparr>"
    by (auto simp: fetchToFile_def write_file_def split: option.splits if_splits prod.splits)
qed

lemma extractArchive_spec:
  assumes "extractArchive H path archive dir entry m = (m2, res)"
  shows "same_outside dir m m2"
    and "res = Inr ep \<Longrightarrow> \<exists>c. archive_binary H path archive entry = Inr c \<and> ep = dir @ ''/'' @ entry \<and>
      mc_fs m2 ep = Some \<lparr>f_content = c, f_mode = 448\<rparr>"
proof -
  show "same_outside dir m m2"
    using assms by (auto simp: extractArchive_def Let_def dest: write_outside split: sum.splits option.splits if_splits)
  assume "res = Inr ep"
  with assms show "\<exists>c. archive_binary H path archive entry = Inr c \<and> ep = dir @ ''/'' @ entry \<and>
      mc_fs m2 ep = Some \<lparr>f_content = c, f_mode = 448\<rparr>"
    by (auto simp: extractArchive_def write_file_def Let_def split: sum.splits option.splits if_splits)
qed

text \<open>
  What was checked before a binary was handed to the installation: \<open>accepted\<close>.
\<close>

definition accepted :: "Updater \<Rightarrow> host \<Rightarrow> Request \<Rightarrow> string \<Rightarrow> string \<Rightarrow> bool" where
  "accepted u H req tmp c \<longleftrightarrow> (\<exists>archive expected listed.
     h_http H (release_base req @ ''/'' @ asset_name req) = Some (200, archive) \<and>
     int (length archive) \<le> maxDownloadSize u \<and>
     expected_hash H (release_base req) (asset_name req) = Inr (expected, listed) \<and>
     equal_fold (h_sha256 H archive) expected \<and>
     (ud_RequireSignature u \<longrightarrow> (\<exists>s. listed = Some s \<and> attemptSignatureVerification u H s (release_base req) = Inr True)) \<and>
     archive_binary H (tmp @ ''/'' @ asset_name req) archive (entry_name req) = Inr c \<and>
     (\<exists>v. h_run_version H c = Some v \<and> versionMatches (trim_space v) (rq_Version req)))"

lemma verify_None:
  assumes "verify u H base asset archive = None"
  shows "\<exists>expected listed. expected_hash H base asset = Inr (expected, listed) \<and> equal_fold (h_sha256 H archive) expected \<and>
    (ud_RequireSignature u \<longrightarrow> (\<exists>s. listed = Some s \<and> attemptSignatureVerification u H s base = Inr True))"
  using assms by (auto simp: verify_def split: sum.splits prod.splits if_splits option.splits)

lemma apply_in_spec:
  assumes exec: "h_exec_path H = Some ex" "mc_fs m ex = Some old" "\<not> under tmp ex" "\<not> under tmp (ex @ ''.previous'')"
    and run: "apply_in u H req tmp m = (m', stages, res)"
  shows "res = Inr False \<Longrightarrow> \<exists>c. accepted u H req tmp c \<and> mc_fs m' ex = Some \<lparr>f_content = c, f_mode = f_mode old\<rparr> \<and>
      mc_fs m' (ex @ ''.previous'') = Some old"
    and "res = Inr True \<Longrightarrow> mc_fs m' ex = Some old \<and> mc_pending m' = mc_pending m @ [(tmp @ ''/'' @ entry_name req, ex)]"
    and "res = Inl err \<Longrightarrow> h_rename_ok H (ex @ ''.previous'') ex \<Longrightarrow> mc_fs m' ex = Some old"
proof -
  let ?path = "tmp @ ''/'' @ asset_name req"
  obtain m1 ok where f: "fetchToFile u H (release_base req @ ''/'' @ asset_name req) ?path m = (m1, ok)" by fastforce
  note F = fetchToFile_spec [OF f]
  let ?archive = "case mc_fs m1 ?path of None \<Rightarrow> [] | Some f \<Rightarrow> f_content f"
  obtain m2 ext where x: "extractArchive H ?path ?archive tmp (entry_name req) m1 = (m2, ext)" by fastforce
  note X = extractArchive_spec [OF x]
  have m1: "mc_fs m1 ex = Some old" using F(1) exec by (simp add: same_outside_def)
  have m2: "mc_fs m2 ex = Some old" "mc_pending m2 = mc_pending m"
    using outside_trans [OF F(1) X(1)] exec by (simp_all add: same_outside_def)
  consider (early) err0 where "mc_fs m' ex = Some old" "res = Inl err0"
    | (inst) c where "ok" "verify u H (release_base req) (asset_name req) ?archive = None"
        "ext = Inr (tmp @ ''/'' @ entry_name req)" "archive_binary H ?path ?archive (entry_name req) = Inr c"
        "mc_fs m2 (tmp @ ''/'' @ entry_name req) = Some \<lparr>f_content = c, f_mode = 448\<rparr>"
        "\<exists>v. h_run_version H c = Some v \<and> versionMatches (trim_space v) (rq_Version req)"
        "installBinary H (tmp @ ''/'' @ entry_name req) m2 = (m', res)"
  proof (cases "ok \<and> verify u H (release_base req) (asset_name req) ?archive = None")
    case False
    have "mc_fs m' ex = Some old \<and> (\<exists>e. res = Inl e)"
      using False run m1 f by (auto simp: apply_in_def Let_def split: option.splits bool.splits)
    then show ?thesis using that(1) by blast
  next
    case True
    show ?thesis
    proof (cases ext)
      case (Inl e)
      have "mc_fs m' ex = Some old \<and> (\<exists>e. res = Inl e)"
        using True run m2 f x Inl by (auto simp: apply_in_def Let_def split: option.splits bool.splits)
      then show ?thesis using that(1) by blast
    next
      case (Inr ep)
      from X(2) [OF Inr] obtain c where c: "archive_binary H ?path ?archive (entry_name req) = Inr c"
        "ep = tmp @ ''/'' @ entry_name req" "mc_fs m2 ep = Some \<lparr>f_content = c, f_mode = 448\<rparr>" by blast
      show ?thesis
      proof (cases "\<exists>v. h_run_version H c = Some v \<and> versionMatches (trim_space v) (rq_Version req)")
        case False
        have "mc_fs m' ex = Some old \<and> (\<exists>e. res = Inl e)"
          using False True run m2 f x Inr c
          by (auto simp: apply_in_def Let_def sanityCheckVersion_def split: option.splits bool.splits if_splits)
        then show ?thesis using that(1) by blast
      next
        case v: True
        have "installBinary H ep m2 = (m', res)"
          using v True run f x Inr c
          by (auto simp: apply_in_def Let_def sanityCheckVersion_def split: prod.splits)
        with that(2) True Inr c v show ?thesis by blast
      qed
    qed
  qed
  note result = this
  have np: "tmp @ ''/'' @ entry_name req \<noteq> ex" "tmp @ ''/'' @ entry_name req \<noteq> ex @ ''.previous''"
    using exec(3,4) under_file [of tmp "entry_name req"] by (metis append_Cons append_Nil)+
  show "\<exists>c. accepted u H req tmp c \<and> mc_fs m' ex = Some \<lparr>f_content = c, f_mode = f_mode old\<rparr> \<and>
      mc_fs m' (ex @ ''.previous'') = Some old" if r: "res = Inr False"
    using result
  proof cases
    case early
    with r show ?thesis by simp
  next
    case (inst c)
    obtain body where body: "h_http H (release_base req @ ''/'' @ asset_name req) = Some (200, body)"
      "int (length body) \<le> maxDownloadSize u" "?archive = body" using F(2) [OF inst(1)] by auto
    have "accepted u H req tmp c"
      using verify_None [OF inst(2)] inst(4,6) body unfolding accepted_def by metis
    with installBinary_spec(1) [OF exec(1) m2(1) inst(5) np inst(7) r] show ?thesis by auto
  qed
  show "mc_fs m' ex = Some old \<and> mc_pending m' = mc_pending m @ [(tmp @ ''/'' @ entry_name req, ex)]"
    if r: "res = Inr True"
    using result
  proof cases
    case (inst c)
    from installBinary_spec(2) [OF exec(1) m2(1) inst(5) np inst(7) r] m2(2) show ?thesis by simp
  qed (use r in simp)
  show "mc_fs m' ex = Some old" if r: "res = Inl err" "h_rename_ok H (ex @ ''.previous'') ex"
    using result
  proof cases
    case (inst c)
    from installBinary_spec(3) [OF exec(1) m2(1) inst(5) np inst(7) r] show ?thesis .
  qed
qed

lemma remove_all_outside: "\<not> under tmp p \<Longrightarrow> mc_fs (remove_all tmp m) p = mc_fs m p"
  by (simp add: remove_all_def under_def)

lemma Apply_run:
  assumes "Apply u H req m = (m', stages, res)" and "h_temp_dir H = Some tmp"
  shows "m' = m \<and> \<not> re_OK res \<and> \<not> re_RestartRequired res \<or>
    (\<exists>m1 r. apply_in u H req tmp m = (m1, stages, r) \<and> m' = remove_all tmp m1 \<and>
       re_OK res = (case r of Inl _ \<Rightarrow> False | Inr _ \<Rightarrow> True) \<and> re_RestartRequired res = (r = Inr True))"
proof (cases "rq_Version req = [] \<or> rq_OS req = [] \<or> rq_Arch req = [] \<or> rq_BaseURL req = []")
  case True
  with assms show ?thesis by (auto simp: Apply_def fail_result_def split: if_splits)
next
  case False
  obtain m1 st r where a: "apply_in u H req tmp m = (m1, st, r)" by (metis prod_cases3)
  with False assms show ?thesis by (cases r) (auto simp: Apply_def fail_result_def)
qed

section \<open>A host\<close>

definition sample_updater :: Updater where
  "sample_updater = \<lparr>ud_CurrentVersion = ''1.0.0'', ud_RequireSignature = False, ud_SigningKeyURL = [],
     ud_SigningKeyFile = [], ud_MaxDownloadSize = 0\<rparr>"

definition sample_request :: "string \<Rightarrow> Request" where
  "sample_request os = \<lparr>rq_Version = ''2.0.0'', rq_BaseURL = ''u'', rq_OS = os, rq_Arch = ''x''\<rparr>"

text \<open>Every download is the two bytes \<open>h f\<close>, every archive holds the binary \<open>new\<close>.\<close>

definition sample_host :: "bool \<Rightarrow> host" where
  "sample_host windows = \<lparr>h_temp_dir = Some ''/t'',
     h_http = (\<lambda>url. if has_suffix url ''SHA256SUMS'' \<or> has_suffix url ''.asc'' then None else Some (200, ''h f'')),
     h_sha256 = (\<lambda>_. ''h''), h_gpg = None, h_key_file = None,
     h_untar = (\<lambda>_. ([(''../evil'', True, ''x''), (''./nexwatch-agent'', True, ''new'')], False)),
     h_unzip = (\<lambda>_. Some [(''nexwatch-agent.exe'', True, ''new'')]),
     h_run_version = (\<lambda>c. if c = ''new'' then Some ''v2.0.0'' else None), h_exec_path = Some ''/a'',
     h_write_ok = (\<lambda>_. True), h_chmod_ok = (\<lambda>_. True),
     h_rename_ok = (\<lambda>a b. \<not> (windows \<and> b = ''/a'' \<and> a \<noteq> ''/a.previous'')),
     h_windows = windows, h_schedule_ok = True\<rparr>"

definition sample_machine :: machine where
  "sample_machine = \<lparr>mc_fs = [''/a'' \<mapsto> \<lparr>f_content = ''old'', f_mode = 493\<rparr>], mc_pending = []\<rparr>"

lemma sample_names:
  "asset_name (sample_request ''linux'') = ''nexwatch-agent_2.0.0_linux_x.tar.gz''"
  "asset_name (sample_request ''windows'') = ''nexwatch-agent_2.0.0_windows_x.zip''"
  "entry_name (sample_request ''linux'') = ''nexwatch-agent''" "entry_name (sample_request ''windows'') = ''nexwatch-agent.exe''"
  "release_base (sample_request os) = ''u/v2.0.0''"
  by (simp_all add: asset_name_def entry_name_def release_base_def sample_request_def trim_right_def)

lemma sample_fetch:
  "has_suffix name ''gz'' \<or> has_suffix name ''zip'' \<Longrightarrow>
     fetchToFile sample_updater (sample_host w) (''u/v2.0.0/'' @ name) path sample_machine =
     (sample_machine\<lparr>mc_fs := (mc_fs sample_machine)(path \<mapsto> \<lparr>f_content = ''h f'', f_mode = 384\<rparr>)\<rparr>, True)"
  by (auto simp: fetchToFile_def sample_updater_def sample_host_def write_file_def maxDownloadSize_def has_suffix_iff)

lemma fields_h: "Nexwatch_Prelude.fields ''h f'' = [''h'', ''f'']"
  by (simp add: Nexwatch_Prelude.fields.simps is_space_def)

lemma sample_verify: "verify sample_updater (sample_host w) ''u/v2.0.0'' asset archive = None"
  by (simp add: verify_def expected_hash_def fetchBytes_def sample_host_def smallFileLimit_def has_suffix_def
      has_prefix_def parsePerFileSHA256_def fields_h equal_fold_def sample_updater_def)

lemma sample_clean:
  "path_clean ''../evil'' = ''../evil''" "path_clean ''./nexwatch-agent'' = ''nexwatch-agent''"
  "path_clean ''nexwatch-agent.exe'' = ''nexwatch-agent.exe''"
  by (simp_all add: path_clean_def clean_step_def has_prefix_def Let_def)

lemma sample_archive:
  "archive_binary (sample_host w) ''/t/nexwatch-agent_2.0.0_linux_x.tar.gz'' archive ''nexwatch-agent'' = Inr ''new''"
  "archive_binary (sample_host w) ''/t/nexwatch-agent_2.0.0_windows_x.zip'' archive ''nexwatch-agent.exe'' = Inr ''new''"
  by (simp_all add: archive_binary_def sample_host_def has_suffix_def has_prefix_def wanted_def sample_clean)

lemma sample_version: "versionMatches (trim_space ''v2.0.0'') ''2.0.0''"
  by (simp add: versionMatches_def trim_space_def is_space_def trim_prefix_def has_prefix_def Let_def)

lemma sample_sel:
  "rq_Version (sample_request os) = ''2.0.0''" "rq_BaseURL (sample_request os) = ''u''" "rq_OS (sample_request os) = os"
  "rq_Arch (sample_request os) = ''x''" "ud_CurrentVersion sample_updater = ''1.0.0''"
  "h_temp_dir (sample_host w) = Some ''/t''" "h_exec_path (sample_host w) = Some ''/a''" "h_write_ok (sample_host w) p"
  "h_chmod_ok (sample_host w) p" "h_rename_ok (sample_host w) a b = (\<not> (w \<and> b = ''/a'' \<and> a \<noteq> ''/a.previous''))"
  "h_windows (sample_host w) = w" "h_schedule_ok (sample_host w)"
  "h_run_version (sample_host w) c = (if c = ''new'' then Some ''v2.0.0'' else None)"
  "mc_fs sample_machine = [''/a'' \<mapsto> \<lparr>f_content = ''old'', f_mode = 493\<rparr>]" "mc_pending sample_machine = []"
  by (simp_all add: sample_request_def sample_updater_def sample_host_def sample_machine_def)

lemma sample_runs:
  "snd (snd (Apply sample_updater (sample_host False) (sample_request ''linux'') sample_machine)) =
     \<lparr>re_Stage = ''done'', re_OK = True, re_Error = [], re_FromVersion = ''1.0.0'', re_ToVersion = ''2.0.0'', re_RestartRequired = False\<rparr>"
  "snd (snd (Apply sample_updater (sample_host True) (sample_request ''windows'') sample_machine)) =
     \<lparr>re_Stage = ''done'', re_OK = True, re_Error = [], re_FromVersion = ''1.0.0'', re_ToVersion = ''2.0.0'', re_RestartRequired = True\<rparr>"
proof -
  have f: "fetchToFile sample_updater (sample_host w) ''u/v2.0.0/nexwatch-agent_2.0.0_linux_x.tar.gz'' p sample_machine =
      (sample_machine\<lparr>mc_fs := (mc_fs sample_machine)(p \<mapsto> \<lparr>f_content = ''h f'', f_mode = 384\<rparr>)\<rparr>, True)"
    "fetchToFile sample_updater (sample_host w) ''u/v2.0.0/nexwatch-agent_2.0.0_windows_x.zip'' p sample_machine =
      (sample_machine\<lparr>mc_fs := (mc_fs sample_machine)(p \<mapsto> \<lparr>f_content = ''h f'', f_mode = 384\<rparr>)\<rparr>, True)" for w p
    using sample_fetch [of "''nexwatch-agent_2.0.0_linux_x.tar.gz''" w p] sample_fetch [of "''nexwatch-agent_2.0.0_windows_x.zip''" w p]
    by (simp_all add: has_suffix_def has_prefix_def)
  show "snd (snd (Apply sample_updater (sample_host False) (sample_request ''linux'') sample_machine)) =
     \<lparr>re_Stage = ''done'', re_OK = True, re_Error = [], re_FromVersion = ''1.0.0'', re_ToVersion = ''2.0.0'', re_RestartRequired = False\<rparr>"
    by (simp add: Apply_def apply_in_def sample_names f sample_verify extractArchive_def sample_archive Let_def sample_sel
        write_file_def sanityCheckVersion_def installBinary_def rename_def remove_def chmod_def sample_version)
  show "snd (snd (Apply sample_updater (sample_host True) (sample_request ''windows'') sample_machine)) =
     \<lparr>re_Stage = ''done'', re_OK = True, re_Error = [], re_FromVersion = ''1.0.0'', re_ToVersion = ''2.0.0'', re_RestartRequired = True\<rparr>"
    by (simp add: Apply_def apply_in_def sample_names f sample_verify extractArchive_def sample_archive Let_def sample_sel
        write_file_def sanityCheckVersion_def installBinary_def rename_def remove_def chmod_def sample_version)
qed

lemma sample_outside: "\<not> under ''/t'' ''/a''" "\<not> under ''/t'' (''/a'' @ ''.previous'')"
  by (simp_all add: under_def has_prefix_def)

section \<open>The outcome\<close>

lemma Apply_outcome:
  assumes "h_temp_dir H = Some tmp" and "h_exec_path H = Some ex" and "mc_fs m ex = Some old"
    and "\<not> under tmp ex" and "\<not> under tmp (ex @ ''.previous'')" and "h_rename_ok H (ex @ ''.previous'') ex"
    and "Apply u H req m = (m', stages, res)"
  shows "if re_OK res \<and> \<not> re_RestartRequired res
    then \<exists>c. accepted u H req tmp c \<and> mc_fs m' ex = Some \<lparr>f_content = c, f_mode = f_mode old\<rparr> \<and>
           mc_fs m' (ex @ ''.previous'') = Some old
    else mc_fs m' ex = Some old"
  using Apply_run [OF assms(7,1)]
proof (elim disjE exE conjE)
  assume "m' = m" "\<not> re_OK res"
  with assms(3) show ?thesis by simp
next
  fix m1 r
  assume run: "apply_in u H req tmp m = (m1, stages, r)" and m': "m' = remove_all tmp m1"
    and ok: "re_OK res = (case r of Inl _ \<Rightarrow> False | Inr _ \<Rightarrow> True)" "re_RestartRequired res = (r = Inr True)"
  note S = apply_in_spec [OF assms(2-5) run] and O = remove_all_outside [OF assms(4)] remove_all_outside [OF assms(5)]
  consider e where "r = Inl e" | "r = Inr True" | "r = Inr False" by (cases r) auto
  then show ?thesis using S ok assms(6) by cases (simp_all add: m' O)
qed

section \<open>The properties\<close>

text \<open>C21: The running executable changes only to a binary that was accepted: taken from the downloaded archive
  under the expected name, the archive of allowed size with the published checksum, a verified
  signature where signatures are required, and printing a version text that contains the requested
  version (\<open>versionMatches\<close>: 1.2.10 is accepted for 1.2.1). The old executable is then kept as the
  backup; in every other case it stays in place, provided the rename that rolls a failed installation
  back can be done.\<close>

theorem update_installs_accepted_or_keeps:
  assumes "h_temp_dir H = Some tmp" and "h_exec_path H = Some ex" and "mc_fs m ex = Some old"
    and "\<not> under tmp ex" and "\<not> under tmp (ex @ ''.previous'')" and "h_rename_ok H (ex @ ''.previous'') ex"
    and "Apply u H req m = (m', stages, res)"
  shows "if re_OK res \<and> \<not> re_RestartRequired res
    then \<exists>c. accepted u H req tmp c \<and> mc_fs m' ex = Some \<lparr>f_content = c, f_mode = f_mode old\<rparr> \<and>
           mc_fs m' (ex @ ''.previous'') = Some old
    else mc_fs m' ex = Some old"
  by (rule Apply_outcome [OF assms])

theorem update_installs_accepted_or_keeps_witness:
  "\<exists>c. mc_fs (fst (Apply sample_updater (sample_host False) (sample_request ''linux'') sample_machine)) ''/a'' =
       Some \<lparr>f_content = c, f_mode = 493\<rparr> \<and> accepted sample_updater (sample_host False) (sample_request ''linux'') ''/t'' c"
proof -
  obtain m' stages res where run: "Apply sample_updater (sample_host False) (sample_request ''linux'') sample_machine = (m', stages, res)"
    by (metis prod_cases3)
  have ok: "re_OK res" "\<not> re_RestartRequired res" using sample_runs(1) by (simp_all add: run)
  have ex: "mc_fs sample_machine ''/a'' = Some \<lparr>f_content = ''old'', f_mode = 493\<rparr>" by (simp add: sample_sel)
  have roll: "h_rename_ok (sample_host False) (''/a'' @ ''.previous'') ''/a''" by (simp add: sample_sel)
  show ?thesis
    using update_installs_accepted_or_keeps [OF sample_sel(6,7) ex sample_outside roll run] ok by (auto simp: run)
qed

text \<open>When the new binary could only be scheduled for the next boot, it never gets there: the scheduled
  file lies in the temporary directory, which the update removes before it returns, so after the
  reboot the old version is still installed although the update was reported as successful.\<close>

theorem scheduled_update_is_never_applied:
  assumes "h_temp_dir H = Some tmp" and "h_exec_path H = Some ex" and "mc_fs m ex = Some old"
    and "\<not> under tmp ex" and "\<not> under tmp (ex @ ''.previous'')" and "mc_pending m = []"
    and "Apply u H req m = (m', stages, res)" and "re_RestartRequired res"
  shows "re_OK res \<and> mc_pending m' = [(tmp @ ''/'' @ entry_name req, ex)] \<and>
    mc_fs m' (tmp @ ''/'' @ entry_name req) = None \<and> mc_fs (reboot m') ex = Some old"
proof -
  obtain m1 where run: "apply_in u H req tmp m = (m1, stages, Inr True)" and m': "m' = remove_all tmp m1" and "re_OK res"
    using Apply_run [OF assms(7,1)] assms(8) by (auto split: sum.splits)
  have "mc_fs m1 ex = Some old" "mc_pending m1 = [(tmp @ ''/'' @ entry_name req, ex)]"
    using apply_in_spec(2) [OF assms(2-5) run] assms(6) by simp_all
  moreover have "mc_fs m' (tmp @ ''/'' @ entry_name req) = None"
    using under_file [of tmp "entry_name req"] by (simp add: m' remove_all_def under_def)
  moreover have "mc_fs m' ex = mc_fs m1 ex" "mc_pending m' = mc_pending m1"
    using remove_all_outside [OF assms(4)] by (simp_all add: m' remove_all_def)
  ultimately show ?thesis using \<open>re_OK res\<close> by (simp add: reboot_def)
qed

theorem scheduled_update_is_never_applied_witness:
  "mc_fs (reboot (fst (Apply sample_updater (sample_host True) (sample_request ''windows'') sample_machine))) ''/a'' =
     Some \<lparr>f_content = ''old'', f_mode = 493\<rparr>"
proof -
  obtain m' stages res where run: "Apply sample_updater (sample_host True) (sample_request ''windows'') sample_machine = (m', stages, res)"
    by (metis prod_cases3)
  have ok: "re_RestartRequired res" using sample_runs(2) by (simp add: run)
  have ex: "mc_fs sample_machine ''/a'' = Some \<lparr>f_content = ''old'', f_mode = 493\<rparr>" by (simp add: sample_sel)
  show ?thesis
    using scheduled_update_is_never_applied [OF sample_sel(6,7) ex sample_outside sample_sel(15) run ok] by (simp add: run)
qed

end
