(* ===== verification/Agent_Logs.thy ===== *)
theory Agent_Logs
  imports Wire
begin

text \<open>
  Log collection on the agent (\<open>internal/agent/logs\<close>): levels, the file tailer, the journald entries,
  and the manager that limits, queues and batches the lines. A file is its inode and its bytes; a
  poll of the tailer sees the file the path names at that moment. JSON decoding is a parameter.
\<close>

section \<open>Levels\<close>

definition is_word_char :: "char \<Rightarrow> bool" where
  "is_word_char c \<longleftrightarrow> (48 \<le> char_code c \<and> char_code c \<le> 57) \<or> (65 \<le> char_code c \<and> char_code c \<le> 90) \<or>
     (97 \<le> char_code c \<and> char_code c \<le> 122) \<or> char_code c = 95"

fun words_from :: "string \<Rightarrow> string \<Rightarrow> string list" where
  "words_from acc [] = (if acc = [] then [] else [rev acc])"
| "words_from acc (c # cs) =
     (if is_word_char c then words_from (c # acc) cs
      else if acc = [] then words_from [] cs else rev acc # words_from [] cs)"

definition normalizeLevelToken :: "string \<Rightarrow> string" where
  "normalizeLevelToken token =
     (let t = to_lower token in
      if t \<in> {''error'', ''fatal'', ''panic''} then ''error''
      else if t \<in> {''warn'', ''warning''} then ''warning''
      else if t \<in> {''info'', ''notice''} then ''info''
      else if t \<in> {''debug'', ''trace''} then ''debug''
      else ''info'')"

text \<open>
  The pattern \<open>\b(error|...|trace)\b\<close> matches exactly the maximal words among its alternatives.
\<close>

definition level_tokens :: "string \<Rightarrow> string list" where
  "level_tokens line = filter (\<lambda>w. to_lower w \<in> {''error'', ''fatal'', ''panic'', ''warn'', ''warning'', ''info'',
      ''notice'', ''debug'', ''trace''}) (words_from [] line)"

definition DetectLevel :: "string \<Rightarrow> string" where
  "DetectLevel line =
     (let seen = map normalizeLevelToken (level_tokens line) in
      if ''error'' \<in> set seen then ''error''
      else if ''warning'' \<in> set seen then ''warning''
      else if ''info'' \<in> set seen then ''info''
      else if ''debug'' \<in> set seen then ''debug''
      else ''info'')"

definition mapSyslogPriority :: "string \<Rightarrow> string" where
  "mapSyslogPriority p =
     (if p \<in> {''0'', ''1'', ''2'', ''3''} then ''error'' else if p = ''4'' then ''warning''
      else if p \<in> {''5'', ''6''} then ''info'' else if p = ''7'' then ''debug'' else ''info'')"

section \<open>Tailing a file\<close>

record disk_file =
  df_inode :: nat
  df_bytes :: string

text \<open>The open handle: inode, read offset, the size of the last \<open>stat\<close>, and the partial line read so far.\<close>

record tailState =
  tl_inode :: nat
  tl_offset :: nat
  tl_size :: nat
  tl_pending :: string

definition trimCR :: "string \<Rightarrow> string" where
  "trimCR b = (if b \<noteq> [] \<and> last b = CHR 0x0D then butlast b else b)"

text \<open>The complete lines of a text, without empty ones, and what follows the last line end.\<close>

definition complete_lines :: "string \<Rightarrow> string list" where
  "complete_lines s = filter (\<lambda>l. l \<noteq> []) (map trimCR (butlast (split_byte CHR 0x0A s)))"

definition partial_line :: "string \<Rightarrow> string" where
  "partial_line s = last (split_byte CHR 0x0A s)"

definition openAtEnd :: "disk_file option \<Rightarrow> tailState option \<Rightarrow> tailState option" where
  "openAtEnd cur st =
     (case cur of
        None \<Rightarrow> st
      | Some f \<Rightarrow> Some \<lparr>tl_inode = df_inode f, tl_offset = length (df_bytes f), tl_size = length (df_bytes f), tl_pending = []\<rparr>)"

text \<open>\<open>cur\<close> is what opening the path yields; when it fails the handle is given up.\<close>

definition reopenFromStart :: "disk_file option \<Rightarrow> tailState option" where
  "reopenFromStart cur =
     (case cur of
        None \<Rightarrow> None
      | Some f \<Rightarrow> Some \<lparr>tl_inode = df_inode f, tl_offset = 0, tl_size = length (df_bytes f), tl_pending = []\<rparr>)"

definition drainNewLines :: "disk_file \<Rightarrow> tailState \<Rightarrow> tailState \<times> string list" where
  "drainNewLines f st =
     (let text = tl_pending st @ drop (tl_offset st) (df_bytes f)
      in (st\<lparr>tl_offset := max (tl_offset st) (length (df_bytes f)), tl_pending := partial_line text\<rparr>, complete_lines text))"

text \<open>
  One poll: \<open>cur\<close> is the file the path names when it is examined, \<open>reopened\<close> when it is opened again.
\<close>

definition poll :: "disk_file option \<Rightarrow> disk_file option \<Rightarrow> tailState option \<Rightarrow> tailState option \<times> string list" where
  "poll cur reopened state =
     (case state of
        None \<Rightarrow> (openAtEnd cur None, [])
      | Some st \<Rightarrow>
          (case cur of
             None \<Rightarrow> (Some st, [])
           | Some f \<Rightarrow>
               if df_inode f \<noteq> tl_inode st then (reopenFromStart reopened, [])
               else if length (df_bytes f) < tl_size st then (reopenFromStart reopened, [])
               else case drainNewLines f (st\<lparr>tl_size := length (df_bytes f)\<rparr>) of (st', ls) \<Rightarrow> (Some st', ls)))"

section \<open>Journald\<close>

record journaldLine =
  jl_Message :: string
  jl_SystemdUnit :: string
  jl_Priority :: string
  jl_SyslogIdentifier :: string
  jl_RealtimeTimestamp :: "int option"

definition journaldArgs :: "string list \<Rightarrow> string \<Rightarrow> string list" where
  "journaldArgs units priorityMax =
     [''-f'', ''-o'', ''json'', ''--since'', ''now''] @ concat (map (\<lambda>u. if u = [] then [] else [''-u'', u]) units) @
     (if priorityMax \<noteq> [] then [''-p'', priorityMax] else [])"

text \<open>The number is \<open>None\<close> when \<open>ParseInt\<close> fails; the division truncates.\<close>

definition parseJournaldTimestamp :: "int \<Rightarrow> int option \<Rightarrow> int" where
  "parseJournaldTimestamp nowMillis micros =
     (case micros of None \<Rightarrow> nowMillis | Some m \<Rightarrow> if m < 0 then - ((- m) div 1000) else m div 1000)"

definition journald_entry :: "int \<Rightarrow> journaldLine \<Rightarrow> LogEntry" where
  "journald_entry nowMillis jl =
     \<lparr>le_Ts = parseJournaldTimestamp nowMillis (jl_RealtimeTimestamp jl), le_Source = ''journald'',
      le_Unit = (if jl_SystemdUnit jl = [] then jl_SyslogIdentifier jl else jl_SystemdUnit jl),
      le_Level = mapSyslogPriority (jl_Priority jl), le_Message = jl_Message jl,
      le_Fields = (if jl_SyslogIdentifier jl \<noteq> [] then [(''syslog_identifier'', jl_SyslogIdentifier jl)] else [])\<rparr>"

definition file_entry :: "int \<Rightarrow> string \<Rightarrow> string \<Rightarrow> LogEntry" where
  "file_entry nowMillis path line =
     \<lparr>le_Ts = nowMillis, le_Source = ''file:'' @ path, le_Unit = [], le_Level = DetectLevel line, le_Message = line,
      le_Fields = []\<rparr>"

text \<open>\<open>s\<close> and \<open>b\<close> are the field decoded as a string and as an array of bytes.\<close>

definition decodeMessage :: "string option \<Rightarrow> string option \<Rightarrow> string" where
  "decodeMessage s b =
     (case s of Some t \<Rightarrow> t | None \<Rightarrow> (case b of Some t \<Rightarrow> t | None \<Rightarrow> ''<unparseable message>''))"

text \<open>
  The reader's loop over the lines \<open>journalctl\<close> prints: a line that does not decode is skipped, one
  that does not fit the scanner's buffer ends the stream with an error.
\<close>

fun journald_entries :: "int \<Rightarrow> (string \<Rightarrow> journaldLine option) \<Rightarrow> string list \<Rightarrow> LogEntry list \<times> bool" where
  "journald_entries nowMillis unmarshal [] = ([], True)"
| "journald_entries nowMillis unmarshal (l # ls) =
     (if 1024 * 1024 \<le> length l then ([], False)
      else if trimCR l = [] then journald_entries nowMillis unmarshal ls
      else case unmarshal (trimCR l) of
             None \<Rightarrow> journald_entries nowMillis unmarshal ls
           | Some jl \<Rightarrow> (case journald_entries nowMillis unmarshal ls of (es, ok) \<Rightarrow> (journald_entry nowMillis jl # es, ok)))"

section \<open>The manager\<close>

record Manager =
  mg_maxLinesPerSec :: int
  mg_maxBatchSize :: nat
  mg_windowStart :: time
  mg_windowCount :: int
  mg_dropped :: "64 word"
  mg_raw :: "LogEntry list"
  mg_buf :: "LogEntry list"

record Batch =
  bt_Entries :: "LogEntry list"
  bt_Dropped :: "64 word"

definition rawQueueSize :: nat where "rawQueueSize = 2000"

definition NewManager :: "int \<Rightarrow> Manager" where
  "NewManager maxLinesPerSec = \<lparr>mg_maxLinesPerSec = maxLinesPerSec, mg_maxBatchSize = 200, mg_windowStart = 0,
     mg_windowCount = 0, mg_dropped = 0, mg_raw = [], mg_buf = []\<rparr>"

definition log_allow :: "time \<Rightarrow> Manager \<Rightarrow> Manager \<times> bool" where
  "log_allow now m =
     (if mg_maxLinesPerSec m \<le> 0 then (m, True)
      else
        let m1 = (if second \<le> t_sub now (mg_windowStart m) then m\<lparr>mg_windowStart := now, mg_windowCount := 0\<rparr> else m)
        in if mg_maxLinesPerSec m1 \<le> mg_windowCount m1 then (m1, False)
           else (m1\<lparr>mg_windowCount := mg_windowCount m1 + 1\<rparr>, True))"

definition emit :: "time \<Rightarrow> LogEntry \<Rightarrow> Manager \<Rightarrow> Manager \<times> bool" where
  "emit now e m =
     (case log_allow now m of
        (m1, False) \<Rightarrow> (m1\<lparr>mg_dropped := mg_dropped m1 + 1\<rparr>, False)
      | (m1, True) \<Rightarrow>
          if length (mg_raw m1) < rawQueueSize then (m1\<lparr>mg_raw := mg_raw m1 @ [e]\<rparr>, True)
          else (m1\<lparr>mg_dropped := mg_dropped m1 + 1\<rparr>, False))"

definition flush_batch :: "Manager \<Rightarrow> Manager \<times> Batch list" where
  "flush_batch m =
     (let m1 = m\<lparr>mg_dropped := 0\<rparr> in
      if mg_buf m = [] \<and> mg_dropped m = 0 then (m1, [])
      else (m1\<lparr>mg_buf := []\<rparr>, [\<lparr>bt_Entries = mg_buf m, bt_Dropped = mg_dropped m\<rparr>]))"

text \<open>What the batching loop does: take one queued entry, the flush tick, and the drain at the end.\<close>

definition batch_take :: "Manager \<Rightarrow> Manager \<times> Batch list" where
  "batch_take m =
     (case mg_raw m of
        [] \<Rightarrow> (m, [])
      | e # rest \<Rightarrow>
          let m1 = m\<lparr>mg_raw := rest, mg_buf := mg_buf m @ [e]\<rparr>
          in if mg_maxBatchSize m1 \<le> length (mg_buf m1) then flush_batch m1 else (m1, []))"

definition batch_drain :: "Manager \<Rightarrow> Manager \<times> Batch list" where
  "batch_drain m = flush_batch (m\<lparr>mg_buf := mg_buf m @ mg_raw m, mg_raw := []\<rparr>)"

text \<open>Every run of readers and loop, with the entries emitted, those kept, and the batches sent.\<close>

inductive log_run :: "int \<Rightarrow> LogEntry list \<Rightarrow> nat \<Rightarrow> Batch list \<Rightarrow> Manager \<Rightarrow> bool" for limit where
  start: "log_run limit [] 0 [] (NewManager limit)"
| kept: "log_run limit kept lost bs m \<Longrightarrow> emit now e m = (m', True) \<Longrightarrow> log_run limit (kept @ [e]) lost bs m'"
| lost: "log_run limit kept lost bs m \<Longrightarrow> emit now e m = (m', False) \<Longrightarrow> log_run limit kept (lost + 1) bs m'"
| take: "log_run limit kept lost bs m \<Longrightarrow> batch_take m = (m', out) \<Longrightarrow> log_run limit kept lost (bs @ out) m'"
| tick: "log_run limit kept lost bs m \<Longrightarrow> flush_batch m = (m', out) \<Longrightarrow> log_run limit kept lost (bs @ out) m'"
| stop: "log_run limit kept lost bs m \<Longrightarrow> batch_drain m = (m', out) \<Longrightarrow> log_run limit kept lost (bs @ out) m'"

section \<open>What the tailer emits\<close>

text \<open>A run of the tailer: one file examined per poll.\<close>

fun tail_run :: "tailState option \<Rightarrow> disk_file option list \<Rightarrow> tailState option \<times> string list" where
  "tail_run st [] = (st, [])"
| "tail_run st (f # fs) =
     (case poll f f st of (st1, ls) \<Rightarrow> (case tail_run st1 fs of (st2, ls') \<Rightarrow> (st2, ls @ ls')))"

text \<open>
  The snapshots a growing file shows: \<open>Some x\<close> is a poll after \<open>x\<close> was appended, \<open>None\<close> one at
  which the path could not be examined.
\<close>

fun growing :: "nat \<Rightarrow> string \<Rightarrow> string option list \<Rightarrow> disk_file option list" where
  "growing ino c [] = []"
| "growing ino c (None # evs) = None # growing ino c evs"
| "growing ino c (Some x # evs) = Some \<lparr>df_inode = ino, df_bytes = c @ x\<rparr> # growing ino (c @ x) evs"

fun appended :: "string option list \<Rightarrow> string" where
  "appended [] = []"
| "appended (None # evs) = appended evs"
| "appended (Some x # evs) = x @ appended evs"

lemma split_byte_append:
  "split_byte c (a @ b) =
     butlast (split_byte c a) @ (last (split_byte c a) @ hd (split_byte c b)) # tl (split_byte c b)"
proof (induction a)
  case Nil
  show ?case by (cases "split_byte c b") (use split_byte_ne [of c b] in auto)
next
  case (Cons x a)
  show ?case
  proof (cases "x = c")
    case True
    then show ?thesis using Cons.IH by simp
  next
    case False
    obtain w ws where a: "split_byte c a = w # ws" by (cases "split_byte c a") (use split_byte_ne [of c a] in auto)
    show ?thesis using Cons.IH False by (cases ws) (auto simp: a)
  qed
qed

lemma split_byte_none: "c \<notin> set p \<Longrightarrow> split_byte c p = [p]"
  by (induction p) auto

lemma last_split_byte: "c \<notin> set (last (split_byte c s))"
proof (induction s)
  case (Cons x s)
  obtain w ws where a: "split_byte c s = w # ws" by (cases "split_byte c s") (use split_byte_ne [of c s] in auto)
  show ?case using Cons.IH by (cases ws) (auto simp: a)
qed simp

text \<open>Splitting in two steps, with the partial line carried over, is splitting at once.\<close>

lemma partial_line_append: "partial_line (partial_line a @ b) = partial_line (a @ b)"
proof -
  have p: "split_byte CHR 0x0A (partial_line a) = [partial_line a]"
    by (rule split_byte_none) (simp add: partial_line_def last_split_byte)
  show ?thesis by (simp add: partial_line_def [of "_ @ _"] split_byte_append p) (simp add: partial_line_def)
qed

lemma complete_lines_append: "complete_lines (a @ b) = complete_lines a @ complete_lines (partial_line a @ b)"
proof -
  have p: "split_byte CHR 0x0A (partial_line a) = [partial_line a]"
    by (rule split_byte_none) (simp add: partial_line_def last_split_byte)
  have "butlast (split_byte CHR 0x0A (a @ b)) =
      butlast (split_byte CHR 0x0A a) @ butlast (split_byte CHR 0x0A (partial_line a @ b))"
    by (simp add: split_byte_append p butlast_append) (simp add: partial_line_def)
  then show ?thesis by (simp add: complete_lines_def)
qed

lemma lines_empty [simp]: "complete_lines [] = []" "partial_line [] = []"
  by (simp_all add: complete_lines_def partial_line_def)

lemma partial_line_idem [simp]: "partial_line (partial_line a) = partial_line a"
  using partial_line_append [of a "[]"] by simp

lemma complete_lines_partial [simp]: "complete_lines (partial_line a) = []"
  using complete_lines_append [of a "[]"] by simp

text \<open>The handle after the bytes \<open>c\<close>, of which \<open>seen\<close> came after it was opened.\<close>

abbreviation tail_at :: "nat \<Rightarrow> string \<Rightarrow> string \<Rightarrow> tailState" where
  "tail_at ino c seen \<equiv> \<lparr>tl_inode = ino, tl_offset = length c, tl_size = length c, tl_pending = partial_line seen\<rparr>"

lemma poll_growing:
  "poll (Some \<lparr>df_inode = ino, df_bytes = c @ x\<rparr>) g (Some (tail_at ino c seen)) =
     (Some (tail_at ino (c @ x) (seen @ x)), complete_lines (partial_line seen @ x))"
  by (simp add: poll_def drainNewLines_def partial_line_append Let_def)

lemma poll_missing: "poll None g (Some st) = (Some st, [])"
  by (simp add: poll_def)

lemma tail_run_growing:
  "tail_run (Some (tail_at ino c seen)) (growing ino c evs) =
     (Some (tail_at ino (c @ appended evs) (seen @ appended evs)), complete_lines (partial_line seen @ appended evs))"
proof (induction ino c evs arbitrary: seen rule: growing.induct)
  case (3 ino c x evs)
  have "complete_lines (partial_line seen @ x @ appended evs) =
      complete_lines (partial_line seen @ x) @ complete_lines (partial_line (seen @ x) @ appended evs)"
    using complete_lines_append [of "partial_line seen @ x" "appended evs"] by (simp add: partial_line_append)
  then show ?case using "3.IH" [of "seen @ x"] by (simp add: poll_growing)
qed (simp_all add: poll_missing)

text \<open>C22: For a file that only grows, the polls of the tailer emit exactly the non-empty complete lines
  (without a trailing carriage return) of everything appended since it was opened, in order and each once,
  however the appended bytes are spread over the polls and whichever polls fail to examine the path; the handle then
  stands at the end of the file and holds the partial last line.\<close>

theorem tail_emits_appended_lines:
  "tail_run (openAtEnd (Some \<lparr>df_inode = ino, df_bytes = c\<rparr>) None) (growing ino c evs) =
     (Some \<lparr>tl_inode = ino, tl_offset = length (c @ appended evs), tl_size = length (c @ appended evs),
            tl_pending = partial_line (appended evs)\<rparr>,
      complete_lines (appended evs))"
  using tail_run_growing [of ino c "[]" evs] by (simp add: openAtEnd_def)

section \<open>The pipeline loses nothing silently\<close>

lemma emit_result:
  assumes "emit now e m = (m', ok)"
  shows "mg_raw m' = (if ok then mg_raw m @ [e] else mg_raw m) \<and> mg_buf m' = mg_buf m \<and>
    mg_dropped m' = (if ok then mg_dropped m else mg_dropped m + 1) \<and> mg_maxBatchSize m' = mg_maxBatchSize m \<and>
    (ok \<longrightarrow> length (mg_raw m) < rawQueueSize)"
  using assms by (auto simp: emit_def log_allow_def Let_def split: if_splits prod.splits)

abbreviation batched :: "Batch list \<Rightarrow> LogEntry list" where
  "batched bs \<equiv> concat (map bt_Entries bs)"

abbreviation reported :: "Batch list \<Rightarrow> 64 word" where
  "reported bs \<equiv> sum_list (map bt_Dropped bs)"

lemma flush_batch_result:
  assumes "flush_batch m = (m', out)"
  shows "batched out @ mg_buf m' = mg_buf m \<and> mg_dropped m = reported out + mg_dropped m' \<and> mg_raw m' = mg_raw m \<and>
    mg_buf m' = [] \<and> mg_maxBatchSize m' = mg_maxBatchSize m"
  using assms by (auto simp: flush_batch_def Let_def split: if_splits)

lemma batch_take_result:
  assumes "batch_take m = (m', out)"
  shows "batched out @ mg_buf m' @ mg_raw m' = mg_buf m @ mg_raw m \<and> mg_dropped m = reported out + mg_dropped m' \<and>
    length (mg_raw m') \<le> length (mg_raw m) \<and> mg_maxBatchSize m' = mg_maxBatchSize m \<and>
    (length (mg_buf m) < mg_maxBatchSize m \<longrightarrow> length (mg_buf m') < mg_maxBatchSize m)"
proof (cases "mg_raw m")
  case Nil
  then show ?thesis using assms by (simp add: batch_take_def)
next
  case (Cons e rest)
  let ?m = "m\<lparr>mg_raw := rest, mg_buf := mg_buf m @ [e]\<rparr>"
  show ?thesis
  proof (cases "mg_maxBatchSize m \<le> length (mg_buf m @ [e])")
    case True
    then have "flush_batch ?m = (m', out)" using assms Cons by (simp add: batch_take_def)
    from flush_batch_result [OF this] show ?thesis using Cons by auto
  next
    case False
    then show ?thesis using assms Cons by (auto simp: batch_take_def)
  qed
qed

lemma batch_drain_result:
  assumes "batch_drain m = (m', out)"
  shows "batched out = mg_buf m @ mg_raw m \<and> mg_dropped m = reported out + mg_dropped m' \<and> mg_raw m' = [] \<and>
    mg_buf m' = [] \<and> mg_maxBatchSize m' = mg_maxBatchSize m"
  using flush_batch_result [of "m\<lparr>mg_buf := mg_buf m @ mg_raw m, mg_raw := []\<rparr>" m' out] assms
  by (auto simp: batch_drain_def)

text \<open>
  Every entry a source emitted is in a batch already sent, in the buffer or in the queue, in the order
  of emission, or is counted; the counts reported plus the pending one are the number lost (modulo \<open>2 ^ 64\<close>).
\<close>

lemma log_run_conserves:
  assumes "log_run limit kept lost bs m"
  shows "batched bs @ mg_buf m @ mg_raw m = kept \<and> reported bs + mg_dropped m = of_nat lost \<and>
    length (mg_raw m) \<le> rawQueueSize \<and> length (mg_buf m) < mg_maxBatchSize m \<and> mg_maxBatchSize m = 200"
  using assms
proof induction
  case start
  then show ?case by (simp add: NewManager_def)
next
  case (kept k l bs m now e m')
  then show ?case using emit_result [OF kept.hyps(2)] by auto
next
  case (lost k l bs m now e m')
  then show ?case using emit_result [OF lost.hyps(2)] by (auto simp: algebra_simps)
next
  case (take k l bs m m' out)
  then show ?case using batch_take_result [OF take.hyps(2)] by (auto simp: algebra_simps)
next
  case (tick k l bs m m' out)
  then show ?case using flush_batch_result [OF tick.hyps(2)] by (auto simp: algebra_simps)
next
  case (stop k l bs m m' out)
  then show ?case using batch_drain_result [OF stop.hyps(2)] by (auto simp: algebra_simps)
qed

end
