(* ===== verification/Agent_Config.thy ===== *)
theory Agent_Config
  imports Nexwatch_Prelude
begin

text \<open>
  The agent's configuration (\<open>internal/agent/config/config.go\<close>): defaults, then the YAML file, then the
  environment, then the flags, and the settings that are read again by hand. The merged settings are
  an object in which the first entry of a key counts. The YAML parser, koanf's \<open>Unmarshal\<close> into the
  struct and its conversion of a value to a string are parameters.
\<close>

section \<open>Parsing\<close>

fun int_from_str :: "int \<Rightarrow> string \<Rightarrow> int option" where
  "int_from_str n [] = Some n"
| "int_from_str n (c # cs) =
     (if char_code c < 48 \<or> 57 < char_code c then None
      else int_from_str (wrap64 (n * 10 + (int (char_code c) - 48))) cs)"

definition parseIntFromStr :: "string \<Rightarrow> int option" where
  "parseIntFromStr s = int_from_str 0 s"

text \<open>\<open>strconv.ParseBool\<close>.\<close>

definition parse_bool :: "string \<Rightarrow> bool option" where
  "parse_bool s =
     (if s \<in> {''1'', ''t'', ''T'', ''TRUE'', ''true'', ''True''} then Some True
      else if s \<in> {''0'', ''f'', ''F'', ''FALSE'', ''false'', ''False''} then Some False
      else None)"

text \<open>
  \<open>time.ParseDuration\<close>: a sign, then numbers with an optional fraction and a unit each; every partial
  sum must stay below \<open>2 ^ 63\<close>.
\<close>

definition dec_digit :: "char \<Rightarrow> bool" where
  "dec_digit c \<longleftrightarrow> 48 \<le> char_code c \<and> char_code c \<le> 57"

definition dec_value :: "string \<Rightarrow> int" where
  "dec_value s = fold (\<lambda>c n. n * 10 + (int (char_code c) - 48)) s 0"

definition duration_unit :: "string \<Rightarrow> int option" where
  "duration_unit u =
     (if u = ''ns'' then Some 1
      else if u \<in> {''us'', [CHR 0xC2, CHR 0xB5, CHR ''s''], [CHR 0xCE, CHR 0xBC, CHR ''s'']} then Some 1000
      else if u = ''ms'' then Some millisecond
      else if u = ''s'' then Some second
      else if u = ''m'' then Some minute
      else if u = ''h'' then Some hour
      else None)"

function duration_terms :: "int \<Rightarrow> string \<Rightarrow> int option" where
  "duration_terms d s =
     (if s = [] then Some d
      else
        let ip = takeWhile dec_digit s; r1 = dropWhile dec_digit s;
            dot = (r1 \<noteq> [] \<and> hd r1 = CHR ''.'');
            fp = (if dot then takeWhile dec_digit (tl r1) else []);
            r2 = (if dot then dropWhile dec_digit (tl r1) else r1);
            u = takeWhile (\<lambda>c. c \<noteq> CHR ''.'' \<and> \<not> dec_digit c) r2;
            rest = dropWhile (\<lambda>c. c \<noteq> CHR ''.'' \<and> \<not> dec_digit c) r2
        in if 2 ^ 63 < dec_value ip \<or> (ip = [] \<and> fp = []) \<or> u = [] then None
           else case duration_unit u of
                  None \<Rightarrow> None
                | Some unit \<Rightarrow>
                    let v = dec_value ip * unit + \<lfloor>rat_of_int (dec_value fp * unit) / 10 ^ length fp\<rfloor>
                    in if 2 ^ 63 div unit < dec_value ip \<or> 2 ^ 63 < v \<or> 2 ^ 63 < d + v then None
                       else duration_terms (d + v) rest)"
  by pat_completeness auto
termination
proof (relation "measure (\<lambda>(d, s). length s)", goal_cases)
  case (2 d s ip r1 dot fp r2 u rest unit v)
  have "length r1 \<le> length s" unfolding 2(3) by (rule length_dropWhile_le)
  moreover have "length r2 \<le> length r1"
  proof (cases dot)
    case True
    then have "r2 = dropWhile dec_digit (tl r1)" by (simp only: 2(6) if_True)
    then show ?thesis using length_dropWhile_le [of dec_digit "tl r1"] by simp
  qed (simp only: 2(6) if_False)
  moreover have "length u + length rest = length r2"
    unfolding 2(7,8) by (metis length_append takeWhile_dropWhile_id)
  moreover have "u \<noteq> []" using 2(9) by simp
  ultimately show ?case by (cases u) simp_all
qed simp

declare duration_terms.simps [simp del]

definition parse_duration :: "string \<Rightarrow> duration option" where
  "parse_duration s =
     (let neg = (s \<noteq> [] \<and> hd s = CHR ''-'');
          body = (if s \<noteq> [] \<and> hd s \<in> {CHR ''-'', CHR ''+''} then tl s else s)
      in if body = ''0'' then Some 0
         else if body = [] then None
         else case duration_terms 0 body of
                None \<Rightarrow> None
              | Some d \<Rightarrow> if neg then Some (- d) else if max_int64 < d then None else Some d)"

section \<open>The configuration\<close>

record LogSource =
  ls_Type :: string
  ls_Path :: string
  ls_Units :: "string list"
  ls_PriorityMax :: string

record Config =
  cf_HubURL :: string
  cf_Token :: string
  cf_Interval :: duration
  cf_CollectorsEnabled :: "string list"
  cf_DockerSocket :: string
  cf_DockerUpdateChecks :: bool
  cf_OracleHome :: string
  cf_OracleSID :: string
  cf_CveScanEnabled :: bool
  cf_CveScanInterval :: duration
  cf_CveScanMaxImages :: int
  cf_CveScanCacheDir :: string
  cf_LogsEnabled :: bool
  cf_LogsMaxLinesPerSec :: int
  cf_LogSources :: "LogSource list"
  cf_AutoUpdateEnabled :: bool
  cf_UpdateRequireSignature :: bool
  cf_UpdateSigningKeyURL :: string
  cf_UpdateSigningKeyFile :: string
  cf_ConfigFile :: string

definition defaultCollectorsEnabled :: "string list" where
  "defaultCollectorsEnabled =
     [''cpu'', ''memory'', ''disk'', ''network'', ''sysinfo'', ''docker'', ''ports'', ''processes'', ''hardening'',
      ''vulnerabilities'', ''diskio'', ''connections'', ''services'', ''cve_scan'']"

definition DefaultConfig :: Config where
  "DefaultConfig = \<lparr>cf_HubURL = ''ws://localhost:8090/ws/agent'', cf_Token = [], cf_Interval = 10 * second,
     cf_CollectorsEnabled = defaultCollectorsEnabled, cf_DockerSocket = ''/var/run/docker.sock'',
     cf_DockerUpdateChecks = True, cf_OracleHome = [], cf_OracleSID = [], cf_CveScanEnabled = True,
     cf_CveScanInterval = 12 * hour, cf_CveScanMaxImages = 10, cf_CveScanCacheDir = ''/var/lib/nexwatch/scanner-cache'',
     cf_LogsEnabled = True, cf_LogsMaxLinesPerSec = 200, cf_LogSources = [], cf_AutoUpdateEnabled = True,
     cf_UpdateRequireSignature = False,
     cf_UpdateSigningKeyURL = ''https://raw.githubusercontent.com/CogniDevAI/nexwatch/main/scripts/release-signing-key.asc'',
     cf_UpdateSigningKeyFile = [], cf_ConfigFile = []\<rparr>"

section \<open>Layers\<close>

definition env_key :: "string \<Rightarrow> string option" where
  "env_key = map_of
     [(''NEXWATCH_HUB_URL'', ''hub_url''), (''NEXWATCH_TOKEN'', ''token''), (''NEXWATCH_INTERVAL'', ''interval''),
      (''NEXWATCH_DOCKER_SOCKET'', ''docker_socket''), (''NEXWATCH_DOCKER_UPDATE_CHECKS'', ''docker_update_checks''),
      (''NEXWATCH_CVE_SCAN_ENABLED'', ''cve_scan_enabled''), (''NEXWATCH_CVE_SCAN_INTERVAL'', ''cve_scan_interval''),
      (''NEXWATCH_CVE_SCAN_MAX_IMAGES'', ''cve_scan_max_images''), (''NEXWATCH_CVE_SCAN_CACHE_DIR'', ''cve_scan_cache_dir''),
      (''NEXWATCH_LOGS_ENABLED'', ''logs_enabled''), (''NEXWATCH_LOGS_MAX_LINES_PER_SEC'', ''logs_max_lines_per_sec''),
      (''NEXWATCH_AUTO_UPDATE_ENABLED'', ''auto_update_enabled''),
      (''NEXWATCH_UPDATE_REQUIRE_SIGNATURE'', ''update_require_signature''),
      (''NEXWATCH_UPDATE_SIGNING_KEY_URL'', ''update_signing_key_url''),
      (''NEXWATCH_UPDATE_SIGNING_KEY_FILE'', ''update_signing_key_file''), (''NEXWATCH_ORACLE_HOME'', ''oracle_home''),
      (''NEXWATCH_ORACLE_SID'', ''oracle_sid'')]"

definition flag_key :: "string \<Rightarrow> string option" where
  "flag_key = map_of
     [(''hub'', ''hub_url''), (''token'', ''token''), (''interval'', ''interval''), (''docker-socket'', ''docker_socket''),
      (''docker-update-checks'', ''docker_update_checks''), (''auto-update-enabled'', ''auto_update_enabled''),
      (''update-require-signature'', ''update_require_signature''), (''update-signing-key-url'', ''update_signing_key_url''),
      (''update-signing-key-file'', ''update_signing_key_file''), (''oracle-home'', ''oracle_home''),
      (''oracle-sid'', ''oracle_sid'')]"

text \<open>The entries of a layer whose name has a key; all values are strings.\<close>

fun string_layer :: "(string \<Rightarrow> string option) \<Rightarrow> (string \<times> string) list \<Rightarrow> obj" where
  "string_layer key [] = []"
| "string_layer key ((n, v) # xs) =
     (case key n of None \<Rightarrow> string_layer key xs | Some k \<Rightarrow> (k, AStr v) # string_layer key xs)"

text \<open>
  \<open>flags\<close> are the flags given on the command line, \<open>stat_ok\<close> says whether a path exists, \<open>load_file\<close> is
  the parsed YAML file.
\<close>

definition config_file :: "(string \<Rightarrow> bool) \<Rightarrow> (string \<times> string) list \<Rightarrow> string" where
  "config_file stat_ok flags =
     (case map_of flags ''config'' of
        Some p \<Rightarrow> if p \<noteq> [] then p else
            (if stat_ok ''./agent.yaml'' then ''./agent.yaml''
             else if stat_ok ''/etc/nexwatch/agent.yaml'' then ''/etc/nexwatch/agent.yaml'' else [])
      | None \<Rightarrow>
            (if stat_ok ''./agent.yaml'' then ''./agent.yaml''
             else if stat_ok ''/etc/nexwatch/agent.yaml'' then ''/etc/nexwatch/agent.yaml'' else []))"

definition merged_settings ::
  "(string \<Rightarrow> obj option) \<Rightarrow> string \<Rightarrow> (string \<times> string) list \<Rightarrow> (string \<times> string) list \<Rightarrow> obj" where
  "merged_settings load_file path env flags =
     string_layer flag_key flags @ string_layer env_key env @
     (if path = [] then [] else case load_file path of None \<Rightarrow> [] | Some o1 \<Rightarrow> o1)"

section \<open>Settings read by hand\<close>

fun duration_setting :: "any \<Rightarrow> duration \<Rightarrow> duration" where
  "duration_setting (AStr v) cur =
     (case parse_duration v of
        Some d \<Rightarrow> d
      | None \<Rightarrow> (case parseIntFromStr v of Some secs \<Rightarrow> wrap64 (secs * second) | None \<Rightarrow> cur))"
| "duration_setting (AInt v) cur = wrap64 (v * second)"
| "duration_setting (AInt64 v) cur = wrap64 (v * second)"
| "duration_setting (AFloat64 v) cur = wrap64 (trunc_rat v * second)"
| "duration_setting _ cur = cur"

fun bool_setting :: "any \<Rightarrow> bool \<Rightarrow> bool" where
  "bool_setting (ABool v) cur = v"
| "bool_setting (AStr v) cur = (case parse_bool v of Some b \<Rightarrow> b | None \<Rightarrow> cur)"
| "bool_setting _ cur = cur"

fun int_setting :: "any \<Rightarrow> int \<Rightarrow> int" where
  "int_setting (AStr v) cur = (case parseIntFromStr v of Some n \<Rightarrow> n | None \<Rightarrow> cur)"
| "int_setting (AInt v) cur = v"
| "int_setting (AInt64 v) cur = v"
| "int_setting (AFloat64 v) cur = trunc_rat v"
| "int_setting _ cur = cur"

definition oracle_settings :: "(any \<Rightarrow> string) \<Rightarrow> obj \<Rightarrow> Config \<Rightarrow> Config" where
  "oracle_settings to_str k cfg =
     (if cf_OracleHome cfg \<noteq> [] \<or> cf_OracleSID cfg \<noteq> [] then cfg
      else
        let h = to_str (aget k ''oracle_home''); s = to_str (aget k ''oracle_sid'')
        in cfg\<lparr>cf_OracleHome := (if h \<noteq> [] then h else cf_OracleHome cfg),
               cf_OracleSID := (if s \<noteq> [] then s else cf_OracleSID cfg)\<rparr>)"

definition read_settings :: "obj \<Rightarrow> Config \<Rightarrow> Config" where
  "read_settings k cfg =
     (let interval = duration_setting (aget k ''interval'') (cf_Interval cfg);
          scan = duration_setting (aget k ''cve_scan_interval'') (cf_CveScanInterval cfg);
          images = int_setting (aget k ''cve_scan_max_images'') (cf_CveScanMaxImages cfg);
          lines = int_setting (aget k ''logs_max_lines_per_sec'') (cf_LogsMaxLinesPerSec cfg)
      in cfg\<lparr>cf_Interval := (if interval < second then second else interval),
             cf_DockerUpdateChecks := bool_setting (aget k ''docker_update_checks'') (cf_DockerUpdateChecks cfg),
             cf_AutoUpdateEnabled := bool_setting (aget k ''auto_update_enabled'') (cf_AutoUpdateEnabled cfg),
             cf_UpdateRequireSignature := bool_setting (aget k ''update_require_signature'') (cf_UpdateRequireSignature cfg),
             cf_CveScanEnabled := bool_setting (aget k ''cve_scan_enabled'') (cf_CveScanEnabled cfg),
             cf_CveScanInterval := (if scan < hour then hour else scan),
             cf_CveScanMaxImages := (if images \<le> 0 then 10 else images),
             cf_LogsEnabled := bool_setting (aget k ''logs_enabled'') (cf_LogsEnabled cfg),
             cf_LogsMaxLinesPerSec := (if lines \<le> 0 then 200 else lines)\<rparr>)"

definition default_sources :: "bool \<Rightarrow> Config \<Rightarrow> Config" where
  "default_sources has_journalctl cfg =
     (if cf_LogSources cfg = [] \<and> has_journalctl
      then cfg\<lparr>cf_LogSources := [\<lparr>ls_Type = ''journald'', ls_Path = [], ls_Units = [], ls_PriorityMax = ''warning''\<rparr>]\<rparr>
      else cfg)"

definition Load ::
  "(string \<Rightarrow> bool) \<Rightarrow> (string \<Rightarrow> obj option) \<Rightarrow> (obj \<Rightarrow> Config \<Rightarrow> Config) \<Rightarrow> (any \<Rightarrow> string) \<Rightarrow> bool
   \<Rightarrow> (string \<times> string) list \<Rightarrow> (string \<times> string) list \<Rightarrow> Config" where
  "Load stat_ok load_file unmarshal to_str has_journalctl env flags =
     (let path = config_file stat_ok flags; k = merged_settings load_file path env flags in
      (default_sources has_journalctl (read_settings k (oracle_settings to_str k (unmarshal k DefaultConfig))))
        \<lparr>cf_ConfigFile := path\<rparr>)"

section \<open>Bounds and precedence\<close>

lemma default_sources_keeps [simp]:
  "cf_Interval (default_sources j c) = cf_Interval c" "cf_CveScanInterval (default_sources j c) = cf_CveScanInterval c"
  "cf_CveScanMaxImages (default_sources j c) = cf_CveScanMaxImages c"
  "cf_LogsMaxLinesPerSec (default_sources j c) = cf_LogsMaxLinesPerSec c"
  "cf_AutoUpdateEnabled (default_sources j c) = cf_AutoUpdateEnabled c"
  "cf_UpdateRequireSignature (default_sources j c) = cf_UpdateRequireSignature c"
  by (simp_all add: default_sources_def)

text \<open>
  Whatever the file, the environment and the command line hold, the agent collects at most once a second,
  scans at most once an hour, and has a positive image and line limit.
\<close>

lemma Load_bounds:
  fixes st lf um ts j env fl
  defines "c \<equiv> Load st lf um ts j env fl"
  shows "second \<le> cf_Interval c \<and> hour \<le> cf_CveScanInterval c \<and> 0 < cf_CveScanMaxImages c \<and> 0 < cf_LogsMaxLinesPerSec c"
  by (simp add: c_def Load_def read_settings_def Let_def)

text \<open>A flag wins over the environment and the file; a variable wins over the file.\<close>

lemma map_of_snd_inj:
  assumes "distinct (map snd xs)" and "map_of xs n = Some k" and "map_of xs n' = Some k"
  shows "n = n'"
  using map_of_SomeD [OF assms(2)] map_of_SomeD [OF assms(3)] assms(1)
  by (metis distinct_map eq_snd_iff inj_onD fst_conv)

lemma flag_key_inj: "flag_key n = Some k \<Longrightarrow> flag_key n' = Some k \<Longrightarrow> n = n'"
  unfolding flag_key_def by (erule map_of_snd_inj [rotated], assumption) simp

lemma env_key_inj: "env_key n = Some k \<Longrightarrow> env_key n' = Some k \<Longrightarrow> n = n'"
  unfolding env_key_def by (erule map_of_snd_inj [rotated], assumption) simp

lemma string_layer_lookup:
  assumes inj: "\<And>m. key m = Some k \<Longrightarrow> m = n" and n: "key n = Some k"
  shows "map_of (string_layer key xs) k = map_option AStr (map_of xs n)"
proof (induction xs)
  case (Cons x xs)
  obtain m v where x: "x = (m, v)" by (cases x)
  show ?case
  proof (cases "m = n")
    case False
    then have "key m \<noteq> Some k" using inj [of m] by blast
    with False show ?thesis by (simp add: x Cons.IH split: option.splits)
  qed (simp add: x n)
qed simp

lemma string_layer_other:
  "\<forall>(n, v) \<in> set xs. key n \<noteq> Some k \<Longrightarrow> map_of (string_layer key xs) k = None"
  by (induction key xs rule: string_layer.induct) (auto split: option.splits)

lemma merged_lookup_flag:
  assumes "flag_key n = Some k" and "map_of flags n = Some v"
  shows "aget (merged_settings lf path env flags) k = AStr v"
proof -
  have "map_of (string_layer flag_key flags) k = Some (AStr v)"
    using string_layer_lookup [of flag_key k n flags] flag_key_inj assms by auto
  then show ?thesis by (simp add: aget_def merged_settings_def map_add_def)
qed

lemma merged_lookup_env:
  assumes "env_key e = Some k" and "map_of env e = Some v" and "\<forall>(n, v') \<in> set flags. flag_key n \<noteq> Some k"
  shows "aget (merged_settings lf path env flags) k = AStr v"
proof -
  have "map_of (string_layer env_key env) k = Some (AStr v)"
    using string_layer_lookup [of env_key k e env] env_key_inj assms(1,2) by auto
  with string_layer_other [OF assms(3)] show ?thesis by (simp add: aget_def merged_settings_def map_add_def)
qed

lemma Load_update_flag:
  assumes "map_of flags ''auto-update-enabled'' = Some v" and "parse_bool v = Some b"
  shows "cf_AutoUpdateEnabled (Load st lf um ts j env flags) = b"
proof -
  have "flag_key ''auto-update-enabled'' = Some ''auto_update_enabled''" by (simp add: flag_key_def)
  from merged_lookup_flag [OF this assms(1)] assms(2) show ?thesis by (simp add: Load_def read_settings_def Let_def)
qed

end
