(* ===== verification/Agent_Main.thy ===== *)
theory Agent_Main
  imports Agent_Config Agent_Logs Agent_Transport Self_Update Command_Services
begin

text \<open>
  The agent's main program (\<open>cmd/agent/main.go\<close>, \<open>internal/agent/collector/collector.go\<close>,
  \<open>internal/agent/platform/platform.go\<close>, \<open>internal/agent/command\<close>): which collectors run, the collection
  cycle with its throttle, the log batches, and the answers to the hub's commands. A message is what
  its encoder makes of the payload (\<open>None\<close> when that fails) and goes through the transport's \<open>Send\<close>;
  the collectors, Docker, \<open>jstack\<close> and the host are parameters.
\<close>

section \<open>Collectors\<close>

definition Supported :: "string \<Rightarrow> string \<Rightarrow> bool" where
  "Supported goos name \<longleftrightarrow> \<not> (goos = ''windows'' \<and> (name = ''vulnerabilities'' \<or> name = ''oracle''))"

definition known_collectors :: "string list" where
  "known_collectors =
     [''cpu'', ''memory'', ''disk'', ''network'', ''sysinfo'', ''docker'', ''ports'', ''processes'', ''hardening'',
      ''vulnerabilities'', ''oracle'', ''diskio'', ''connections'', ''services'', ''cve_scan'']"

text \<open>The names registered, in order, and those skipped because the system does not support them.\<close>

definition registerCollectors :: "string \<Rightarrow> Config \<Rightarrow> string list \<times> string list" where
  "registerCollectors goos cfg =
     (let enabled = filter (\<lambda>n. n \<in> set (cf_CollectorsEnabled cfg)) known_collectors
      in (filter (Supported goos) enabled, filter (\<lambda>n. \<not> Supported goos n) enabled))"

definition minIntervals :: "string \<Rightarrow> duration option" where
  "minIntervals = [''hardening'' \<mapsto> 5 * minute, ''vulnerabilities'' \<mapsto> 5 * minute]"

type_synonym throttle = "string \<Rightarrow> time option"

definition shouldCollect :: "string \<Rightarrow> time \<Rightarrow> throttle \<Rightarrow> throttle \<times> bool" where
  "shouldCollect name now lastCollectTime =
     (case minIntervals name of
        None \<Rightarrow> (lastCollectTime, True)
      | Some minInterval \<Rightarrow>
          if (case lastCollectTime name of None \<Rightarrow> True | Some t \<Rightarrow> minInterval \<le> t_sub now t)
          then (lastCollectTime(name \<mapsto> now), True)
          else (lastCollectTime, False))"

text \<open>
  One cycle. Each registered collector comes with the time it is asked at and what it would return
  (\<open>None\<close>: an error).
\<close>

fun collect_all :: "int \<Rightarrow> (string \<times> time \<times> obj option) list \<Rightarrow> throttle \<Rightarrow> throttle \<times> MetricData list" where
  "collect_all ts [] th = (th, [])"
| "collect_all ts ((name, now, outcome) # cs) th =
     (case shouldCollect name now th of
        (th1, False) \<Rightarrow> collect_all ts cs th1
      | (th1, True) \<Rightarrow>
          (case collect_all ts cs th1 of
             (th2, ms) \<Rightarrow>
               (th2, (case outcome of None \<Rightarrow> [] | Some data \<Rightarrow> [\<lparr>md_Type = name, md_Data = data, md_Timestamp = ts\<rparr>]) @ ms)))"

definition collectAndSend ::
  "(MetricsPayload \<Rightarrow> string option) \<Rightarrow> string \<Rightarrow> int \<Rightarrow> (string \<times> time \<times> obj option) list \<Rightarrow> throttle \<times> WSTransport
   \<Rightarrow> throttle \<times> WSTransport" where
  "collectAndSend enc agentID nowMillis cs = (\<lambda>(th, ws).
     case collect_all nowMillis cs th of
       (th', []) \<Rightarrow> (th', ws)
     | (th', ms) \<Rightarrow> (th', fst (Send (enc \<lparr>mp_AgentID = agentID, mp_Metrics = ms\<rparr>) ws)))"

definition sendLogsBatch :: "(LogsPayload \<Rightarrow> string option) \<Rightarrow> string \<Rightarrow> Batch \<Rightarrow> WSTransport \<Rightarrow> WSTransport" where
  "sendLogsBatch enc agentID batch ws =
     (if bt_Entries batch = [] \<and> bt_Dropped batch = 0 then ws
      else fst (Send (enc \<lparr>lp_AgentID = agentID, lp_Entries = bt_Entries batch, lp_Dropped = bt_Dropped batch\<rparr>) ws))"

text \<open>\<open>info\<close> is the platform and its version, when the library reports them.\<close>

definition buildRegisterMessage ::
  "string \<Rightarrow> string \<Rightarrow> string \<Rightarrow> (string \<times> string) option \<Rightarrow> string option \<Rightarrow> string \<Rightarrow> string \<Rightarrow> RegisterPayload" where
  "buildRegisterMessage goos goarch hostname info outboundIP agentID version =
     \<lparr>rp_AgentID = agentID, rp_Hostname = hostname,
      rp_OS = (case info of None \<Rightarrow> goos | Some (p, v) \<Rightarrow> p @ '' '' @ v),
      rp_IP = (case outboundIP of None \<Rightarrow> ''127.0.0.1'' | Some ip \<Rightarrow> ip), rp_Version = version, rp_Arch = goarch,
      rp_Platform = goos\<rparr>"

definition deriveAgentID :: "string option \<Rightarrow> string" where
  "deriveAgentID hostname = (case hostname of None \<Rightarrow> ''unknown'' | Some h \<Rightarrow> h)"

section \<open>Answers\<close>

text \<open>The zero value of \<open>CommandResponsePayload\<close>.\<close>

definition empty_response :: CommandResponsePayload where
  "empty_response = \<lparr>rs_Command = [], rs_RequestID = [], rs_AgentID = [], rs_PID = 0, rs_Output = [], rs_Error = [],
     rs_OK = False, rs_ContainerID = [], rs_Action = [], rs_State = [], rs_Stage = [], rs_FromVersion = [],
     rs_ToVersion = []\<rparr>"

record DockerActionResult =
  dr_OK :: bool
  dr_State :: string
  dr_Error :: string

text \<open>
  The Docker client: the outcome of the three actions (an error text, if any) and of \<open>ContainerInspect\<close>
  (\<open>None\<close> for an error or an answer without a state).
\<close>

record docker_client =
  dk_action :: "string \<Rightarrow> string \<Rightarrow> string option"
  dk_inspect :: "string \<Rightarrow> string option"

definition is_hex :: "char \<Rightarrow> bool" where
  "is_hex c \<longleftrightarrow> dec_digit c \<or> (97 \<le> char_code c \<and> char_code c \<le> 102) \<or> (65 \<le> char_code c \<and> char_code c \<le> 70)"

definition containerIDPattern :: "string \<Rightarrow> bool" where
  "containerIDPattern s \<longleftrightarrow> list_all is_hex s \<and> 12 \<le> length s \<and> length s \<le> 64"

text \<open>\<open>quote\<close> is the verb \<open>%q\<close>.\<close>

definition DockerAction :: "(string \<Rightarrow> string) \<Rightarrow> docker_client \<Rightarrow> string \<Rightarrow> string \<Rightarrow> DockerActionResult" where
  "DockerAction quote cli containerID action =
     (if action \<notin> {''start'', ''stop'', ''restart''}
      then \<lparr>dr_OK = False, dr_State = [], dr_Error = ''unsupported docker action: '' @ quote action\<rparr>
      else if \<not> containerIDPattern containerID
      then \<lparr>dr_OK = False, dr_State = [], dr_Error = ''invalid container id''\<rparr>
      else
        case dk_action cli action containerID of
          Some err \<Rightarrow> \<lparr>dr_OK = False, dr_State = [], dr_Error = action @ '' failed: '' @ err\<rparr>
        | None \<Rightarrow>
            (case dk_inspect cli containerID of
               None \<Rightarrow> \<lparr>dr_OK = True, dr_State = ''unknown'', dr_Error = []\<rparr>
             | Some st \<Rightarrow> \<lparr>dr_OK = True, dr_State = st, dr_Error = []\<rparr>))"

text \<open>\<open>cli\<close> is the client for the socket, or the error of creating it.\<close>

definition handleDockerActionCommand ::
  "(string \<Rightarrow> string) \<Rightarrow> (string \<Rightarrow> string + docker_client) \<Rightarrow> Config \<Rightarrow> obj \<Rightarrow> CommandResponsePayload" where
  "handleDockerActionCommand quote new_client cfg cmd_args =
     (let args = ParseDockerActionArgs cmd_args;
          resp = empty_response\<lparr>rs_Command := ''docker_action'', rs_RequestID := da_RequestID args,
                   rs_ContainerID := da_ContainerID args, rs_Action := da_Action args\<rparr>;
          socketPath = (if cf_DockerSocket cfg = [] then ''/var/run/docker.sock'' else cf_DockerSocket cfg)
      in case new_client socketPath of
           Inl err \<Rightarrow> resp\<lparr>rs_Error := ''docker client unavailable: '' @ err\<rparr>
         | Inr cli \<Rightarrow>
             (let result = DockerAction quote cli (da_ContainerID args) (da_Action args)
              in resp\<lparr>rs_OK := dr_OK result, rs_State := dr_State result, rs_Error := dr_Error result\<rparr>))"

text \<open>The type switch on the argument: no case matches a sized integer.\<close>

fun dump_pid :: "any \<Rightarrow> int" where
  "dump_pid (AInt v) = v"
| "dump_pid (AInt64 v) = v"
| "dump_pid (AFloat64 v) = trunc_rat v"
| "dump_pid _ = 0"

text \<open>
  \<open>command.ThreadDump\<close>: the link of the process's executable, which \<open>jstack\<close> files exist, the one in the
  path, and the outcome of a run: the output, or what it wrote to the error stream and the error.
\<close>

definition findJstack ::
  "(int \<Rightarrow> string option) \<Rightarrow> (string \<Rightarrow> bool) \<Rightarrow> (string \<Rightarrow> string) \<Rightarrow> string option \<Rightarrow> int \<Rightarrow> string option" where
  "findJstack readlink stat_ok sibling in_path pid =
     (case readlink pid of
        Some javaPath \<Rightarrow> if stat_ok (sibling javaPath) then Some (sibling javaPath) else in_path
      | None \<Rightarrow> in_path)"

definition ThreadDump :: "(int \<Rightarrow> string option) \<Rightarrow> (string \<Rightarrow> int \<Rightarrow> string + string \<times> string) \<Rightarrow> int \<Rightarrow> string + string" where
  "ThreadDump jstack_for run pid =
     (case jstack_for pid of
        None \<Rightarrow> Inl (''jstack not found: no jstack found for PID '' @ fmt_d pid @ '' (tried /proc/'' @ fmt_d pid @ ''/exe and PATH)'')
      | Some jstack \<Rightarrow>
          (case run jstack pid of
             Inr (stderr, err) \<Rightarrow> Inl (''jstack failed: '' @ (if trim_space stderr = [] then err else trim_space stderr))
           | Inl stdout \<Rightarrow>
               if trim_space stdout = [] then Inl ''jstack returned empty output'' else Inr (trim_space stdout)))"

definition handleThreadDump :: "(int \<Rightarrow> string + string) \<Rightarrow> obj \<Rightarrow> CommandResponsePayload" where
  "handleThreadDump thread_dump args =
     (let pid = dump_pid (aget args ''pid'');
          resp = empty_response\<lparr>rs_Command := ''thread_dump'', rs_RequestID := str_of (aget args ''request_id''), rs_PID := pid\<rparr>
      in case thread_dump pid of
           Inl err \<Rightarrow> resp\<lparr>rs_Error := err\<rparr>
         | Inr output \<Rightarrow> resp\<lparr>rs_Output := output\<rparr>)"

section \<open>Updates\<close>

text \<open>\<open>sendUpdateResponse\<close>: the payload made of a result.\<close>

definition update_response :: "string \<Rightarrow> Result \<Rightarrow> CommandResponsePayload" where
  "update_response requestID result =
     empty_response\<lparr>rs_Command := ''update'', rs_RequestID := requestID, rs_OK := re_OK result, rs_Error := re_Error result,
       rs_Stage := re_Stage result, rs_FromVersion := re_FromVersion result, rs_ToVersion := re_ToVersion result\<rparr>"

definition stage_result :: "string \<Rightarrow> string \<Rightarrow> string \<Rightarrow> Result" where
  "stage_result stage from_version to_version =
     \<lparr>re_Stage = stage, re_OK = True, re_Error = [], re_FromVersion = from_version, re_ToVersion = to_version,
      re_RestartRequired = False\<rparr>"

definition new_updater :: "string \<Rightarrow> Config \<Rightarrow> Updater" where
  "new_updater version cfg =
     \<lparr>ud_CurrentVersion = version, ud_RequireSignature = cf_UpdateRequireSignature cfg,
      ud_SigningKeyURL = cf_UpdateSigningKeyURL cfg, ud_SigningKeyFile = cf_UpdateSigningKeyFile cfg,
      ud_MaxDownloadSize = 0\<rparr>"

text \<open>The machine afterwards, the responses in the order they are sent, and whether the new binary is run.\<close>

definition handleUpdateCommand ::
  "host \<Rightarrow> string \<Rightarrow> Config \<Rightarrow> obj \<Rightarrow> machine \<Rightarrow> machine \<times> CommandResponsePayload list \<times> bool" where
  "handleUpdateCommand H version cfg cmd_args m =
     (let args = ParseUpdateArgs cmd_args; respond = update_response (up_RequestID args) in
      if \<not> cf_AutoUpdateEnabled cfg
      then (m, [respond \<lparr>re_Stage = ''failed'', re_OK = False,
                 re_Error = ''auto-update is disabled on this agent (auto_update_enabled=false)'', re_FromVersion = version,
                 re_ToVersion = up_Version args, re_RestartRequired = False\<rparr>], False)
      else
        case Apply (new_updater version cfg) H
               \<lparr>rq_Version = up_Version args, rq_BaseURL = up_BaseURL args, rq_OS = up_OS args, rq_Arch = up_Arch args\<rparr> m of
          (m', stages, result) \<Rightarrow>
            let sent = map (\<lambda>st. respond (stage_result st version (up_Version args))) (''started'' # stages) in
            if \<not> re_OK result then (m', sent @ [respond result], False)
            else if re_RestartRequired result
            then (m', sent @ [respond (stage_result ''restart_required'' (re_FromVersion result) (re_ToVersion result))], False)
            else (m', sent @ [respond (stage_result ''restarting'' (re_FromVersion result) (re_ToVersion result))], True))"

text \<open>Responses go through the transport one by one; each may be refused.\<close>

definition send_responses :: "(CommandResponsePayload \<Rightarrow> string option) \<Rightarrow> CommandResponsePayload list \<Rightarrow> WSTransport \<Rightarrow> WSTransport" where
  "send_responses enc rs ws = fold (\<lambda>r w. fst (Send (enc r) w)) rs ws"

text \<open>\<open>handleCommand\<close> and the transport's message callback: \<open>None\<close> for a message without an answer.\<close>

datatype command =
    ThreadDumpCommand obj
  | DockerCommand obj
  | UpdateCommand obj
  | UnknownCommand string

definition command_of :: "CommandPayload \<Rightarrow> command" where
  "command_of cmd =
     (if cp_Command cmd = ''thread_dump'' then ThreadDumpCommand (cp_Args cmd)
      else if cp_Command cmd = ''docker_action'' then DockerCommand (cp_Args cmd)
      else if cp_Command cmd = ''update'' then UpdateCommand (cp_Args cmd)
      else UnknownCommand (cp_Command cmd))"

definition on_message :: "(string \<Rightarrow> CommandPayload option) \<Rightarrow> Message \<Rightarrow> command option" where
  "on_message decode_cmd msg =
     (if msg_Type msg = MessageTypeCommand then map_option command_of (decode_cmd (msg_Payload msg)) else None)"

fun handleCommand ::
  "(string \<Rightarrow> string) \<Rightarrow> (int \<Rightarrow> string + string) \<Rightarrow> (string \<Rightarrow> string + docker_client) \<Rightarrow> host \<Rightarrow> string \<Rightarrow> Config \<Rightarrow> command
   \<Rightarrow> machine \<Rightarrow> machine \<times> CommandResponsePayload list \<times> bool" where
  "handleCommand quote dumper new_client H version cfg (ThreadDumpCommand args) m = (m, [handleThreadDump dumper args], False)"
| "handleCommand quote dumper new_client H version cfg (DockerCommand args) m =
     (m, [handleDockerActionCommand quote new_client cfg args], False)"
| "handleCommand quote dumper new_client H version cfg (UpdateCommand args) m = handleUpdateCommand H version cfg args m"
| "handleCommand quote dumper new_client H version cfg (UnknownCommand c) m = (m, [], False)"

section \<open>Behaviour\<close>

text \<open>
  A process id that MessagePack decodes at its own width matches no case: the dump is taken of process 0.
\<close>

lemma sized_pid_is_lost:
  "aget args ''pid'' = ASmallInt pid \<Longrightarrow>
     rs_PID (handleThreadDump dumper args) = 0 \<and> handleThreadDump dumper args = handleThreadDump (\<lambda>_. dumper 0) args"
  by (simp add: handleThreadDump_def Let_def empty_response_def split: sum.splits)

text \<open>Only listed collectors run, each at most once, and none that the system does not support.\<close>

lemma registered_collectors:
  "set (fst (registerCollectors goos cfg)) =
     {n \<in> set known_collectors. n \<in> set (cf_CollectorsEnabled cfg) \<and> Supported goos n} \<and>
   distinct (fst (registerCollectors goos cfg))"
proof -
  have "distinct known_collectors" by (simp add: known_collectors_def)
  then show ?thesis by (auto simp: registerCollectors_def Let_def)
qed

text \<open>A throttled collector that just ran is not asked again before its interval is over.\<close>

lemma shouldCollect_spaced:
  assumes "minIntervals name = Some d" and "shouldCollect name t th = (th1, True)" and "shouldCollect name t' th1 = (th2, True)"
  shows "d \<le> t_sub t' t"
  using assms by (auto simp: shouldCollect_def split: if_splits)

lemma shouldCollect_other: "m \<noteq> name \<Longrightarrow> fst (shouldCollect name t th) m = th m"
  by (auto simp: shouldCollect_def split: option.splits)

text \<open>A failed collection is throttled like a successful one: its interval starts when it is asked.\<close>

lemma failed_collection_throttled:
  assumes "minIntervals name = Some d" and "snd (shouldCollect name now th)" and "t_sub now' now < d"
  shows "\<not> snd (shouldCollect name now' (fst (collect_all ts [(name, now, None)] th)))"
  using assms by (auto simp: shouldCollect_def split: option.splits if_splits)

text \<open>Docker is asked only for a listed action on a container id of 12 to 64 hexadecimal digits.\<close>

lemma DockerAction_guard:
  assumes "dr_OK (DockerAction quote cli i action)"
  shows "action \<in> {''start'', ''stop'', ''restart''} \<and> list_all is_hex i \<and> 12 \<le> length i \<and> length i \<le> 64 \<and>
    dk_action cli action i = None"
  using assms by (auto simp: DockerAction_def containerIDPattern_def split: if_splits option.splits)

end
