(* ===== verification/Update_Flow.thy ===== *)
theory Update_Flow
  imports Agent_Main Agent_Hub Command_Routes
begin

text \<open>
  An update from the command to the row the hub keeps: the agent's responses
  (\<open>cmd/agent/main.go\<close>), the update itself (\<open>internal/agent/update\<close>) and the hub's progress record
  (\<open>internal/hub/update/service.go\<close>) put together.
\<close>

section \<open>The row after a series of responses\<close>

text \<open>
  The hub's connection handler stamps each response with the agent's id before the update service
  sees it (\<open>handleCommandResponse\<close>).
\<close>

definition hub_receives :: "('a, agent) table \<Rightarrow> string \<Rightarrow> CommandResponsePayload list \<Rightarrow> 'a \<Rightarrow> 'a" where
  "hub_receives A i rs db = fold (\<lambda>r. update_HandleResponse A (r\<lparr>rs_AgentID := i\<rparr>)) rs db"

lemma handleCommandResponse_agents:
  "decode_response (he_codec E) (msg_Payload msg) = Some p \<Longrightarrow>
     db_agents (handleCommandResponse E i msg h) = hub_receives (he_agents E) i [p] (db_agents h)"
  by (simp add: handleCommandResponse_def hub_receives_def Let_def)

lemma apply_stage_ident [simp]: "ag_id (apply_stage p a) = ag_id a"
  by (simp add: apply_stage_def Let_def)

lemma apply_stage_agent [simp]: "apply_stage (p\<lparr>rs_AgentID := i\<rparr>) = apply_stage p"
  by (simp add: apply_stage_def update_stage_def fun_eq_iff Let_def)

lemma hub_receives_row:
  assumes tab: "record_table A ag_id set_ag_id" and sure: "saves_succeed A" and ne: "i \<noteq> []"
  shows "t_find A db i = Some a \<Longrightarrow> list_all (\<lambda>r. rs_Command r = ''update'') rs \<Longrightarrow>
    t_find A (hub_receives A i rs db) i = Some (fold apply_stage rs a)"
proof (induction rs arbitrary: db a)
  case (Cons r rs)
  have id: "ag_id a = i" using record_table.find_ident [OF tab Cons.prems(1)] .
  obtain db' j where s: "t_save A db (apply_stage r a) = (db', Some j)"
    using saves_succeedD [OF sure] by (metis option.collapse prod.collapse)
  have "t_find A db' i = Some (apply_stage r a)"
    using record_table.save_existing [OF tab _ _ s, of i] Cons.prems(1) id by simp
  from Cons.IH [OF this] Cons.prems show ?case by (simp add: hub_receives_def update_HandleResponse_def ne s)
qed (simp add: hub_receives_def)

text \<open>The last response decides: stages on the way leave the error alone.\<close>

lemma fold_stages:
  "list_all (\<lambda>r. rs_Stage r \<in> {''started'', ''downloading'', ''verifying'', ''installing''}) rs \<Longrightarrow>
     ag_update_error (fold apply_stage rs a) = ag_update_error a"
  by (induction rs arbitrary: a) (auto simp: apply_stage_def update_stage_def Let_def)

lemma apply_stages:
  assumes "Apply u H req m = (m', stages, res)"
  shows "list_all (\<lambda>s. s \<in> {''downloading'', ''verifying'', ''installing''}) stages"
  using assms by (auto simp: Apply_def apply_in_def Let_def split: if_splits option.splits prod.splits sum.splits bool.splits)

lemma Apply_failed_stage:
  assumes "Apply u H req m = (m', stages, res)" and "\<not> re_OK res"
  shows "re_Stage res = ''failed''"
  using assms by (auto simp: Apply_def fail_result_def Let_def split: if_splits option.splits prod.splits sum.splits)

section \<open>The whole update\<close>

abbreviation request_of :: "obj \<Rightarrow> Request" where
  "request_of args \<equiv> \<lparr>rq_Version = up_Version (ParseUpdateArgs args), rq_BaseURL = up_BaseURL (ParseUpdateArgs args),
     rq_OS = up_OS (ParseUpdateArgs args), rq_Arch = up_Arch (ParseUpdateArgs args)\<rparr>"

lemma update_run:
  assumes "handleUpdateCommand H version cfg args m = (m', rs, restarted)"
  shows "(\<not> cf_AutoUpdateEnabled cfg \<and> m' = m \<and> \<not> restarted \<and> (\<exists>r. rs = [r] \<and> rs_Command r = ''update'' \<and> rs_Stage r = ''failed'')) \<or>
    (\<exists>stages result pre final. cf_AutoUpdateEnabled cfg \<and>
       Apply (new_updater version cfg) H (request_of args) m = (m', stages, result) \<and> rs = pre @ [final] \<and>
       list_all (\<lambda>r. rs_Command r = ''update'' \<and> rs_Stage r \<in> {''started'', ''downloading'', ''verifying'', ''installing''}) pre \<and>
       rs_Command final = ''update'' \<and> restarted = (re_OK result \<and> \<not> re_RestartRequired result) \<and>
       rs_Stage final = (if \<not> re_OK result then ''failed'' else if re_RestartRequired result then ''restart_required''
         else ''restarting''))"
proof (cases "cf_AutoUpdateEnabled cfg")
  case False
  then have "m' = m" "\<not> restarted" "length rs = 1" "rs_Command (hd rs) = ''update''" "rs_Stage (hd rs) = ''failed''"
    using assms by (auto simp: handleUpdateCommand_def Let_def update_response_def empty_response_def)
  moreover from this(3) have "rs = [hd rs]" by (cases rs) auto
  ultimately show ?thesis using False by blast
next
  case True
  obtain m1 stages result where a: "Apply (new_updater version cfg) H (request_of args) m = (m1, stages, result)"
    by (metis prod_cases3)
  let ?pre = "map (\<lambda>st. update_response (up_RequestID (ParseUpdateArgs args)) (stage_result st version (up_Version (ParseUpdateArgs args))))
    (''started'' # stages)"
  have pre: "list_all (\<lambda>r. rs_Command r = ''update'' \<and>
      rs_Stage r \<in> {''started'', ''downloading'', ''verifying'', ''installing''}) ?pre"
    using apply_stages [OF a] by (auto simp: list_all_iff update_response_def stage_result_def empty_response_def)
  have ex: "m' = m1 \<and> (\<exists>final. rs = ?pre @ [final] \<and> rs_Command final = ''update'' \<and>
      restarted = (re_OK result \<and> \<not> re_RestartRequired result) \<and>
      rs_Stage final = (if \<not> re_OK result then ''failed'' else if re_RestartRequired result then ''restart_required''
         else ''restarting''))"
    using assms True Apply_failed_stage [OF a]
    by (auto simp: handleUpdateCommand_def a Let_def update_response_def stage_result_def empty_response_def split: if_splits)
  show ?thesis using True a pre ex by blast
qed

lemma final_status:
  "rs_Stage r \<noteq> [] \<Longrightarrow> ag_update_status (fold apply_stage (pre @ [r]) a) = rs_Stage r"
  by (simp add: apply_stage_def update_stage_def Let_def)

lemma final_error:
  "rs_Stage r = ''failed'' \<Longrightarrow> ag_update_error (fold apply_stage (pre @ [r]) a) = rs_Error r"
  by (simp add: apply_stage_def update_stage_def Let_def)

text \<open>
  The route sends the command, waits for the first answer, and then stores its own outcome into the
  agent record it loaded before (\<open>recordUpdateRequest\<close>). The responses come in on the agent's
  connection meanwhile: the first \<open>k\<close> of them are recorded before that write, the others after it.
\<close>

definition sent_args :: "int \<Rightarrow> agent \<Rightarrow> string \<Rightarrow> string \<Rightarrow> obj" where
  "sent_args ms a v base = Update_ToArgs
     \<lparr>up_RequestID = update_request_id ms (ag_id a), up_Version = v, up_BaseURL = base, up_OS = ag_platform a,
      up_Arch = ag_arch a\<rparr>"

definition update_history ::
  "('a, agent) table \<Rightarrow> (string \<Rightarrow> string \<Rightarrow> CommandPayload \<Rightarrow> send_result) \<Rightarrow> int \<Rightarrow> time \<Rightarrow> string \<Rightarrow> string \<Rightarrow> string
   \<Rightarrow> string \<Rightarrow> nat \<Rightarrow> CommandResponsePayload list \<Rightarrow> 'a \<Rightarrow> 'a" where
  "update_history A send ms now who base raw i k rs db =
     hub_receives A i (drop k rs)
       (fst (handleAgentUpdate A send (hub_receives A i (take k rs)) ms now who base (Some raw) i db))"

lemma sent_request:
  "request_of (sent_args ms a v base) = \<lparr>rq_Version = v, rq_BaseURL = base, rq_OS = ag_platform a, rq_Arch = ag_arch a\<rparr>"
  by (simp add: sent_args_def ParseUpdateArgs_def Update_ToArgs_def aget_def str_of_def)

lemma recordUpdateRequest_row:
  assumes tab: "record_table A ag_id set_ag_id" and sure: "saves_succeed A"
    and row: "t_find A d (ag_id a) \<noteq> None"
  shows "t_find A (recordUpdateRequest A now who a v out d) (ag_id a) = Some (request_fields now who v out a)"
proof -
  obtain d' j where s: "t_save A d (request_fields now who v out a) = (d', Some j)"
    using saves_succeedD [OF sure] by (metis option.collapse prod.collapse)
  moreover obtain b where "t_find A d (ag_id a) = Some b" using row by blast
  ultimately show ?thesis
    using record_table.save_existing [OF tab, of d "ag_id a" b "request_fields now who v out a" d' j]
    by (simp add: recordUpdateRequest_def request_fields_def)
qed

lemma update_history_row:
  assumes tab: "record_table A ag_id set_ag_id" and sure: "saves_succeed A" and row: "t_find A db i = Some a"
    and v: "normalizeVersion raw = Some v" and up: "list_all (\<lambda>r. rs_Command r = ''update'') rs"
  shows "t_find A (update_history A send ms now who base raw i k rs db) i =
    Some (fold apply_stage (drop k rs) (request_fields now who v (dispatchUpdateCommand send ms a v base) a))"
proof -
  have id: "ag_id a = i" and ne: "i \<noteq> []"
    using record_table.find_ident [OF tab row] row record_table.find_empty [OF tab] by auto
  have ups: "list_all (\<lambda>r. rs_Command r = ''update'') (take k rs)" "list_all (\<lambda>r. rs_Command r = ''update'') (drop k rs)"
    using up by (auto simp: list_all_iff dest: in_set_takeD in_set_dropD)
  have "t_find A (hub_receives A i (take k rs) db) (ag_id a) \<noteq> None"
    using hub_receives_row [OF tab sure ne row ups(1)] id by simp
  note stored = recordUpdateRequest_row [OF tab sure this, of now who v "dispatchUpdateCommand send ms a v base"]
  have "fst (handleAgentUpdate A send (hub_receives A i (take k rs)) ms now who base (Some raw) i db) =
      recordUpdateRequest A now who a v (dispatchUpdateCommand send ms a v base) (hub_receives A i (take k rs) db)"
    using row v by (simp add: handleAgentUpdate_def Let_def)
  with hub_receives_row [OF tab sure ne _ ups(2)] stored id show ?thesis by (simp add: update_history_def)
qed


definition plain_config :: Config where
  "plain_config = DefaultConfig\<lparr>cf_UpdateSigningKeyURL := []\<rparr>"

definition update_agent :: agent where
  "update_agent = linux_agent\<lparr>ag_arch := ''x''\<rparr>"

lemma plain_request: "request_of (sent_args 0 update_agent ''2.0.0'' ''u'') = sample_request ''linux''"
  by (simp add: sent_request sample_request_def update_agent_def linux_agent_def)

lemma plain_updater: "new_updater ''1.0.0'' plain_config = sample_updater"
  by (simp add: new_updater_def plain_config_def sample_updater_def DefaultConfig_def)

lemma plain_auto: "cf_AutoUpdateEnabled plain_config"
  by (simp add: plain_config_def DefaultConfig_def)


end
