(* ===== verification/Notify_Service.thy ===== *)
theory Notify_Service
  imports Hub_Records Settings
begin

text \<open>
  The notification service (\<open>internal/hub/notify/service.go\<close>): the context resolved for an alert, the
  text of a notification, and the delivery loop over a rule's channels. A registered notifier is a
  function on the outside world \<open>'w\<close>; the JSON decoder and PocketBase's text of a date are parameters.
\<close>

section \<open>Texts\<close>

text \<open>\<open>GetString\<close> of a date field: empty when unset.\<close>

definition date_text :: "(time \<Rightarrow> string) \<Rightarrow> time \<Rightarrow> string" where
  "date_text show_time t = (if t = 0 then [] else show_time t)"

definition SeverityFromMessage :: "string \<Rightarrow> string" where
  "SeverityFromMessage message =
     (if has_prefix message ''['' then
        (case index_byte message CHR '']'' of
           Some i \<Rightarrow>
             if 0 < i then
               (let tag = to_lower (take (i - 1) (drop 1 message)) in
                if tag = ''warning'' then ''warning'' else ''critical'')
             else ''critical''
         | None \<Rightarrow> ''critical'')
      else ''critical'')"

text \<open>The default template; the siren is one code point of four bytes.\<close>

definition RenderMessage :: "(time \<Rightarrow> string) \<Rightarrow> alert \<Rightarrow> string \<Rightarrow> string" where
  "RenderMessage show_time alert severity =
     [CHR 0xF0, CHR 0x9F, CHR 0x9A, CHR 0xA8] @ '' NexWatch Alert'' @ nl @
     ''Status: '' @ al_status alert @ '' | Severity: '' @ severity @ nl @
     al_message alert @ nl @
     ''Time: '' @ date_text show_time (al_fired_at alert) @
     (if al_resolved_at alert = 0 then [] else nl @ ''Resolved: '' @ date_text show_time (al_resolved_at alert)) @
     (if al_acknowledged_at alert = 0 then []
      else nl @ ''Acknowledged by '' @ al_acknowledged_by alert @ '' at '' @ date_text show_time (al_acknowledged_at alert)) @
     (if al_escalated_at alert = 0 then [] else nl @ ''Escalated at '' @ date_text show_time (al_escalated_at alert))"

section \<open>Errors and channel configuration\<close>

datatype notify_error =
    ConfigError string
  | SendError string

definition ParseChannelConfig :: "(string \<Rightarrow> any option) \<Rightarrow> channel \<Rightarrow> notify_error + obj" where
  "ParseChannelConfig json channel =
     (if ch_config channel = [] then Inl (SendError (''channel '' @ ch_id channel @ '' has empty config''))
      else
        case json (ch_config channel) of
          Some (AObj m) \<Rightarrow> Inr m
        | Some ANil \<Rightarrow> Inr []
        | _ \<Rightarrow> Inl (SendError (''invalid config JSON for channel '' @ ch_id channel)))"

definition GetConfigString :: "obj \<Rightarrow> string \<Rightarrow> string" where
  "GetConfigString config key = str_of (aget config key)"

text \<open>A number in a decoded configuration is a \<open>float64\<close>; \<open>Int64\<close> of a \<open>json.Number\<close> is 0 for a fraction.\<close>

definition GetConfigInt :: "obj \<Rightarrow> string \<Rightarrow> int" where
  "GetConfigInt config key =
     (case aget config key of
        AFloat64 n \<Rightarrow> trunc_rat n
      | AInt n \<Rightarrow> n
      | ANumber (Some n) \<Rightarrow> if rat_of_int (trunc_rat n) = n then trunc_rat n else 0
      | _ \<Rightarrow> 0)"

section \<open>The context of an alert\<close>

text \<open>\<open>None\<close> for the tags is the nil slice.\<close>

record AlertContext =
  ac_Hostname :: string
  ac_AgentTags :: "string list option"
  ac_RuleName :: string
  ac_RuleTarget :: string
  ac_CheckName :: string
  ac_CheckTarget :: string
  ac_Severity :: string
  ac_Status :: string
  ac_Value :: rat
  ac_FiredAt :: string
  ac_ResolvedAt :: string
  ac_AcknowledgedBy :: string
  ac_DashboardPath :: string
  ac_DashboardURL :: string

text \<open>What the service reads: the agents, the checks and the settings.\<close>

record notify_env =
  ne_agents :: "string \<Rightarrow> agent option"
  ne_checks :: "string \<Rightarrow> check option"
  ne_settings :: "setting list"
  ne_json :: "string \<Rightarrow> any option"
  ne_show_time :: "time \<Rightarrow> string"

definition alert_severity :: "alert \<Rightarrow> rule option \<Rightarrow> string" where
  "alert_severity alert rule =
     (case rule of
        Some r \<Rightarrow> if r_severity r = [] then SeverityFromMessage (al_message alert) else r_severity r
      | None \<Rightarrow> SeverityFromMessage (al_message alert))"

definition dashboard_path :: "alert \<Rightarrow> string" where
  "dashboard_path alert =
     (if al_agent_id alert \<noteq> [] then ''/servers/'' @ al_agent_id alert
      else if al_check_id alert \<noteq> [] then ''/checks''
      else ''/alerts/history'')"

definition BuildAlertContext :: "notify_env \<Rightarrow> alert \<Rightarrow> rule option \<Rightarrow> AlertContext" where
  "BuildAlertContext E alert rule =
     (let agent = (if al_agent_id alert \<noteq> [] then ne_agents E (al_agent_id alert) else None);
          check = (if al_agent_id alert = [] \<and> al_check_id alert \<noteq> [] then ne_checks E (al_check_id alert) else None);
          path = dashboard_path alert;
          base = settingString (ne_json E) (ne_settings E) ''public_base_url'' []
      in \<lparr>ac_Hostname = (case agent of None \<Rightarrow> [] | Some a \<Rightarrow> ag_hostname a),
          ac_AgentTags = map_option ag_tags agent,
          ac_RuleName = (case rule of None \<Rightarrow> [] | Some r \<Rightarrow> r_name r),
          ac_RuleTarget = (case rule of None \<Rightarrow> [] | Some r \<Rightarrow> r_target r),
          ac_CheckName = (case check of None \<Rightarrow> [] | Some c \<Rightarrow> ck_name c),
          ac_CheckTarget = (case check of None \<Rightarrow> [] | Some c \<Rightarrow> ck_target c),
          ac_Severity = alert_severity alert rule, ac_Status = al_status alert, ac_Value = al_value alert,
          ac_FiredAt = date_text (ne_show_time E) (al_fired_at alert),
          ac_ResolvedAt = date_text (ne_show_time E) (al_resolved_at alert),
          ac_AcknowledgedBy = al_acknowledged_by alert, ac_DashboardPath = path,
          ac_DashboardURL = (if base \<noteq> [] then trim_right base CHR ''/'' @ path else [])\<rparr>)"

section \<open>Delivery\<close>

type_synonym 'w notifier = "alert \<Rightarrow> channel \<Rightarrow> AlertContext \<Rightarrow> 'w \<Rightarrow> 'w \<times> notify_error option"

record 'w Service =
  sv_notifiers :: "string \<Rightarrow> 'w notifier option"

definition RegisterNotifier :: "string \<Rightarrow> 'w notifier \<Rightarrow> 'w Service \<Rightarrow> 'w Service" where
  "RegisterNotifier t n s = s\<lparr>sv_notifiers := (sv_notifiers s)(t \<mapsto> n)\<rparr>"

text \<open>One channel id; what was attempted is the channel with the error, if any.\<close>

definition dispatch_one ::
  "'w Service \<Rightarrow> (string \<Rightarrow> channel option) \<Rightarrow> alert \<Rightarrow> AlertContext \<Rightarrow> string \<Rightarrow> 'w \<Rightarrow> 'w \<times> (string \<times> notify_error option) list" where
  "dispatch_one s find_channel alert ctx channelID w =
     (case find_channel channelID of
        None \<Rightarrow> (w, [])
      | Some channel \<Rightarrow>
          if \<not> ch_enabled channel then (w, [])
          else
            case sv_notifiers s (ch_type channel) of
              None \<Rightarrow> (w, [])
            | Some send \<Rightarrow> (case send alert channel ctx w of (w', err) \<Rightarrow> (w', [(channelID, err)])))"

fun dispatch_loop ::
  "'w Service \<Rightarrow> (string \<Rightarrow> channel option) \<Rightarrow> alert \<Rightarrow> AlertContext \<Rightarrow> string list \<Rightarrow> 'w
   \<Rightarrow> 'w \<times> (string \<times> notify_error option) list" where
  "dispatch_loop s find_channel alert ctx [] w = (w, [])"
| "dispatch_loop s find_channel alert ctx (i # is) w =
     (case dispatch_one s find_channel alert ctx i w of
        (w1, out) \<Rightarrow> (case dispatch_loop s find_channel alert ctx is w1 of (w2, rest) \<Rightarrow> (w2, out @ rest)))"

definition dispatchToChannels ::
  "notify_env \<Rightarrow> 'w Service \<Rightarrow> (string \<Rightarrow> channel option) \<Rightarrow> alert \<Rightarrow> string list \<Rightarrow> rule \<Rightarrow> 'w
   \<Rightarrow> 'w \<times> (string \<times> notify_error option) list" where
  "dispatchToChannels E s find_channel alert channelIDs rule w =
     dispatch_loop s find_channel alert (BuildAlertContext E alert (Some rule)) channelIDs w"

definition Dispatch ::
  "notify_env \<Rightarrow> 'w Service \<Rightarrow> (string \<Rightarrow> channel option) \<Rightarrow> alert \<Rightarrow> rule \<Rightarrow> 'w \<Rightarrow> 'w \<times> (string \<times> notify_error option) list" where
  "Dispatch E s find_channel alert rule w =
     (if r_notification_channels rule = [] then (w, [])
      else dispatchToChannels E s find_channel alert (r_notification_channels rule) rule w)"

definition DispatchEscalation ::
  "notify_env \<Rightarrow> 'w Service \<Rightarrow> (string \<Rightarrow> channel option) \<Rightarrow> alert \<Rightarrow> rule \<Rightarrow> 'w \<Rightarrow> 'w \<times> (string \<times> notify_error option) list" where
  "DispatchEscalation E s find_channel alert rule w =
     (if r_escalation_channels rule = [] then (w, [])
      else dispatchToChannels E s find_channel (alert\<lparr>al_message := ''Escalated: '' @ al_message alert\<rparr>)
             (r_escalation_channels rule) rule w)"

definition test_alert :: "time \<Rightarrow> alert" where
  "test_alert now = new_alert\<lparr>al_status := ''firing'', al_value := 955 / 10,
     al_message := ''[TEST] This is a test notification from NexWatch. If you see this, your notification channel is working correctly!'',
     al_fired_at := fmt_ts now\<rparr>"

definition SendTestNotification ::
  "notify_env \<Rightarrow> 'w Service \<Rightarrow> bool \<Rightarrow> time \<Rightarrow> channel \<Rightarrow> 'w \<Rightarrow> 'w \<times> notify_error option" where
  "SendTestNotification E s has_collection now channel w =
     (case sv_notifiers s (ch_type channel) of
        None \<Rightarrow> (w, Some (SendError (''no notifier registered for type: '' @ ch_type channel)))
      | Some send \<Rightarrow>
          if \<not> has_collection then (w, Some (SendError ''alerts collection not found''))
          else send (test_alert now) channel (BuildAlertContext E (test_alert now) None) w)"

text \<open>The route \<open>POST /notifications/test/{id}\<close> of \<open>api/alerts_routes.go\<close>: the status and the error text.\<close>

definition handleTestNotification ::
  "notify_env \<Rightarrow> 'w Service \<Rightarrow> bool \<Rightarrow> time \<Rightarrow> (string \<Rightarrow> channel option) \<Rightarrow> string \<Rightarrow> 'w \<Rightarrow> 'w \<times> int \<times> string" where
  "handleTestNotification E s has_collection now find_channel channelID w =
     (if channelID = [] then (w, 400, ''channel ID is required'')
      else
        case find_channel channelID of
          None \<Rightarrow> (w, 404, ''notification channel not found'')
        | Some channel \<Rightarrow>
            (case SendTestNotification E s has_collection now channel w of
               (w', None) \<Rightarrow> (w', 200, [])
             | (w', Some (ConfigError err)) \<Rightarrow> (w', 400, err)
             | (w', Some (SendError err)) \<Rightarrow> (w', 500, ''test notification failed: '' @ err)))"

section \<open>Every deliverable channel is tried\<close>

definition deliverable :: "'w Service \<Rightarrow> (string \<Rightarrow> channel option) \<Rightarrow> string \<Rightarrow> bool" where
  "deliverable s find_channel i \<longleftrightarrow>
     (case find_channel i of None \<Rightarrow> False | Some c \<Rightarrow> ch_enabled c \<and> sv_notifiers s (ch_type c) \<noteq> None)"

lemma dispatch_one_tries:
  "map fst (snd (dispatch_one s fc alert ctx i w)) = (if deliverable s fc i then [i] else [])"
  by (auto simp: dispatch_one_def deliverable_def split: option.splits prod.splits)

lemma dispatch_loop_tries: "map fst (snd (dispatch_loop s fc alert ctx is w)) = filter (deliverable s fc) is"
proof (induction "is" arbitrary: w)
  case (Cons i "is")
  obtain w1 out where one: "dispatch_one s fc alert ctx i w = (w1, out)" by fastforce
  obtain w2 rest where more: "dispatch_loop s fc alert ctx is w1 = (w2, rest)" by fastforce
  show ?case using dispatch_one_tries [of s fc alert ctx i w] Cons.IH [of w1] by (simp add: one more)
qed simp

text \<open>
  A failing channel does not keep the later ones from being tried, whatever the notifiers do: the
  channels tried are the enabled ones of a registered type, in the rule's order.
\<close>

lemma Dispatch_tries_all:
  "map fst (snd (Dispatch E s fc alert rule w)) = filter (deliverable s fc) (r_notification_channels rule)"
  by (simp add: Dispatch_def dispatchToChannels_def dispatch_loop_tries)

lemma DispatchEscalation_tries_all:
  "map fst (snd (DispatchEscalation E s fc alert rule w)) = filter (deliverable s fc) (r_escalation_channels rule)"
  by (simp add: DispatchEscalation_def dispatchToChannels_def dispatch_loop_tries)

end
