(* ===== verification/Notify_Channels.thy ===== *)
theory Notify_Channels
  imports Notify_Service
begin

text \<open>
  The notification channels that post a request or send a mail
  (\<open>internal/hub/notify/channels/*.go\<close>). What a channel sends is a value: a request with its headers
  and body, or a mail; what the network does with it is a parameter that acts on the outside world.
  A payload is the JSON value the code builds; of an error that wraps another only the outer text is kept.
\<close>

section \<open>Requests\<close>

datatype body =
    JsonBody any
  | TextBody string

record http_request =
  hr_method :: string
  hr_url :: string
  hr_headers :: "(string \<times> string) list"
  hr_body :: body

text \<open>The status and the body of the answer; \<open>None\<close> when there is none (or the request is malformed).\<close>

type_synonym 'w http = "http_request \<Rightarrow> 'w \<Rightarrow> 'w \<times> (int \<times> string) option"

text \<open>\<open>Header.Set\<close>: header names are compared without case.\<close>

definition set_header :: "string \<Rightarrow> string \<Rightarrow> (string \<times> string) list \<Rightarrow> (string \<times> string) list" where
  "set_header k v hs = filter (\<lambda>(k', _). \<not> equal_fold k' k) hs @ [(k, v)]"

definition json_post :: "string \<Rightarrow> any \<Rightarrow> (string \<times> string) list \<Rightarrow> http_request" where
  "json_post url payload extra =
     \<lparr>hr_method = ''POST'', hr_url = url, hr_headers = (''Content-Type'', ''application/json'') # extra,
      hr_body = JsonBody payload\<rparr>"

definition agent_header :: "(string \<times> string) list" where
  "agent_header = [(''User-Agent'', ''NexWatch/0.1.0'')]"

text \<open>The end all HTTP channels but Telegram share: any status from 400 is an error.\<close>

definition deliver_http ::
  "'w http \<Rightarrow> string \<Rightarrow> (int \<Rightarrow> string \<Rightarrow> string) \<Rightarrow> notify_error + http_request \<Rightarrow> 'w \<Rightarrow> 'w \<times> notify_error option" where
  "deliver_http http failed refused built w =
     (case built of
        Inl err \<Rightarrow> (w, Some err)
      | Inr req \<Rightarrow>
          (case http req w of
             (w', None) \<Rightarrow> (w', Some (SendError failed))
           | (w', Some (code, text)) \<Rightarrow> (w', if 400 \<le> code then Some (SendError (refused code text)) else None)))"

definition returned :: "string \<Rightarrow> int \<Rightarrow> string \<Rightarrow> string" where
  "returned who code text = who @ '' returned '' @ fmt_d code @ '': '' @ text"

definition em_dash :: string where
  "em_dash = [CHR 0xE2, CHR 0x80, CHR 0x94]"

definition tag_list :: "AlertContext \<Rightarrow> string list" where
  "tag_list ctx = (case ac_AgentTags ctx of None \<Rightarrow> [] | Some ts \<Rightarrow> ts)"

definition if_set :: "string \<Rightarrow> 'a \<Rightarrow> 'a list" where
  "if_set s x = (if s = [] then [] else [x])"

section \<open>PagerDuty\<close>

text \<open>\<open>rfc3339\<close> reformats a date; the empty string does not parse.\<close>

definition pagerDutyTimestamp :: "(time \<Rightarrow> string) \<Rightarrow> time \<Rightarrow> string" where
  "pagerDutyTimestamp rfc3339 t = (if t = 0 then [] else rfc3339 t)"

definition pagerduty_details :: "alert \<Rightarrow> AlertContext \<Rightarrow> obj" where
  "pagerduty_details alert ctx =
     [(''alert_id'', AStr (al_id alert)), (''status'', AStr (al_status alert)), (''value'', AFloat64 (al_value alert)),
      (''message'', AStr (al_message alert)), (''agent_id'', AStr (al_agent_id alert)), (''rule_id'', AStr (al_rule_id alert))] @
     if_set (ac_Hostname ctx) (''hostname'', AStr (ac_Hostname ctx)) @
     (if tag_list ctx = [] then [] else [(''agent_tags'', AArr (map AStr (tag_list ctx)))]) @
     if_set (ac_RuleName ctx) (''rule_name'', AStr (ac_RuleName ctx)) @
     (if ac_CheckName ctx = [] then []
      else [(''check_name'', AStr (ac_CheckName ctx)), (''check_target'', AStr (ac_CheckTarget ctx))])"

definition pagerduty_request ::
  "(time \<Rightarrow> string) \<Rightarrow> string \<Rightarrow> obj \<Rightarrow> alert \<Rightarrow> AlertContext \<Rightarrow> notify_error + http_request" where
  "pagerduty_request rfc3339 baseURL config alert ctx =
     (let routingKey = GetConfigString config ''routing_key'' in
      if routingKey = [] then Inl (ConfigError ''pagerduty config missing required field: routing_key'')
      else
        let resolved = (al_status alert = ''resolved'');
            ts = pagerDutyTimestamp rfc3339 (if resolved then al_resolved_at alert else al_fired_at alert);
            eventPayload = [(''summary'', AStr (al_message alert)), (''source'', AStr ''nexwatch''),
              (''severity'', AStr (ac_Severity ctx)), (''custom_details'', AObj (pagerduty_details alert ctx))] @
              if_set ts (''timestamp'', AStr ts);
            payload = [(''routing_key'', AStr routingKey), (''event_action'', AStr (if resolved then ''resolve'' else ''trigger'')),
              (''dedup_key'', AStr (al_id alert)), (''client'', AStr ''NexWatch''), (''payload'', AObj eventPayload)] @
              (if ac_DashboardURL ctx = [] then []
               else [(''client_url'', AStr (ac_DashboardURL ctx)),
                     (''links'', AArr [AObj [(''href'', AStr (ac_DashboardURL ctx)), (''text'', AStr ''View in NexWatch'')]])])
        in Inr (json_post baseURL (AObj payload) []))"

section \<open>Slack and Teams\<close>

definition slackColor :: "string \<Rightarrow> string \<Rightarrow> string" where
  "slackColor status severity =
     (if status = ''resolved'' then ''#2eb67d'' else if severity = ''warning'' then ''#ecb22e'' else ''#e01e5a'')"

definition mrkdwn :: "string \<Rightarrow> any" where
  "mrkdwn text = AObj [(''type'', AStr ''mrkdwn''), (''text'', AStr text)]"

definition slack_fields :: "alert \<Rightarrow> AlertContext \<Rightarrow> any list" where
  "slack_fields alert ctx =
     [mrkdwn (''*Status:*'' @ nl @ al_status alert), mrkdwn (''*Severity:*'' @ nl @ ac_Severity ctx),
      mrkdwn (''*Value:*'' @ nl @ fmt_f 2 (al_value alert)), mrkdwn (''*Alert ID:*'' @ nl @ al_id alert)] @
     if_set (ac_Hostname ctx) (mrkdwn (''*Host:*'' @ nl @ ac_Hostname ctx)) @
     if_set (ac_RuleName ctx) (mrkdwn (''*Rule:*'' @ nl @ ac_RuleName ctx)) @
     if_set (ac_CheckName ctx) (mrkdwn (''*Check:*'' @ nl @ ac_CheckName ctx)) @
     (if tag_list ctx = [] then [] else [mrkdwn (''*Tags:*'' @ nl @ str_join '', '' (tag_list ctx))])"

definition slack_blocks :: "alert \<Rightarrow> AlertContext \<Rightarrow> any list" where
  "slack_blocks alert ctx =
     [AObj [(''type'', AStr ''header''),
        (''text'', AObj [(''type'', AStr ''plain_text''),
           (''text'', AStr (to_upper (ac_Severity ctx) @ '' '' @ em_dash @ '' '' @ to_upper (al_status alert))),
           (''emoji'', ABool True)])],
      AObj [(''type'', AStr ''section''), (''fields'', AArr (slack_fields alert ctx))],
      AObj [(''type'', AStr ''section''), (''text'', mrkdwn (al_message alert))]] @
     if_set (ac_DashboardURL ctx)
       (AObj [(''type'', AStr ''actions''),
          (''elements'', AArr [AObj [(''type'', AStr ''button''),
             (''text'', AObj [(''type'', AStr ''plain_text''), (''text'', AStr ''View in NexWatch''), (''emoji'', ABool True)]),
             (''url'', AStr (ac_DashboardURL ctx))]])])"

definition slack_request :: "(time \<Rightarrow> string) \<Rightarrow> obj \<Rightarrow> alert \<Rightarrow> AlertContext \<Rightarrow> notify_error + http_request" where
  "slack_request show_time config alert ctx =
     (let url = GetConfigString config ''webhook_url'' in
      if url = [] then Inl (ConfigError ''slack config missing required field: webhook_url'')
      else Inr (json_post url
        (AObj [(''text'', AStr (RenderMessage show_time alert (ac_Severity ctx))),
          (''attachments'', AArr [AObj [(''color'', AStr (slackColor (al_status alert) (ac_Severity ctx))),
             (''blocks'', AArr (slack_blocks alert ctx))]])])
        agent_header))"

definition adaptiveCardColor :: "string \<Rightarrow> string \<Rightarrow> string" where
  "adaptiveCardColor status severity =
     (if status = ''resolved'' then ''good'' else if severity = ''critical'' then ''attention'' else ''warning'')"

definition fact :: "string \<Rightarrow> string \<Rightarrow> any" where
  "fact title value = AObj [(''title'', AStr title), (''value'', AStr value)]"

definition teams_facts :: "(time \<Rightarrow> string) \<Rightarrow> alert \<Rightarrow> AlertContext \<Rightarrow> any list" where
  "teams_facts show_time alert ctx =
     [fact ''Status'' (al_status alert), fact ''Severity'' (ac_Severity ctx), fact ''Value'' (fmt_f 2 (al_value alert)),
      fact ''Alert ID'' (al_id alert), fact ''Fired at'' (date_text show_time (al_fired_at alert))] @
     (let r = date_text show_time (al_resolved_at alert) in if_set r (fact ''Resolved at'' r)) @
     if_set (ac_Hostname ctx) (fact ''Host'' (ac_Hostname ctx)) @
     if_set (ac_RuleName ctx) (fact ''Rule'' (ac_RuleName ctx)) @
     if_set (ac_CheckName ctx) (fact ''Check'' (ac_CheckName ctx)) @
     (if tag_list ctx = [] then [] else [fact ''Tags'' (str_join '', '' (tag_list ctx))])"

definition teams_request :: "(time \<Rightarrow> string) \<Rightarrow> obj \<Rightarrow> alert \<Rightarrow> AlertContext \<Rightarrow> notify_error + http_request" where
  "teams_request show_time config alert ctx =
     (let url = GetConfigString config ''webhook_url'' in
      if url = [] then Inl (ConfigError ''teams config missing required field: webhook_url'')
      else
        let cardBody = [AObj [(''type'', AStr ''TextBlock''), (''text'', AStr (''NexWatch Alert: '' @ al_status alert)),
               (''weight'', AStr ''bolder''), (''size'', AStr ''medium''),
               (''color'', AStr (adaptiveCardColor (al_status alert) (ac_Severity ctx))), (''wrap'', ABool True)],
             AObj [(''type'', AStr ''FactSet''), (''facts'', AArr (teams_facts show_time alert ctx))],
             AObj [(''type'', AStr ''TextBlock''), (''text'', AStr (al_message alert)), (''wrap'', ABool True)]];
            card = [(''$schema'', AStr ''http://adaptivecards.io/schemas/adaptive-card.json''), (''type'', AStr ''AdaptiveCard''),
              (''version'', AStr ''1.4''), (''body'', AArr cardBody)] @
              if_set (ac_DashboardURL ctx) (''actions'', AArr [AObj [(''type'', AStr ''Action.OpenUrl''),
                (''title'', AStr ''View in NexWatch''), (''url'', AStr (ac_DashboardURL ctx))]])
        in Inr (json_post url (AObj [(''type'', AStr ''message''),
             (''attachments'', AArr [AObj [(''contentType'', AStr ''application/vnd.microsoft.card.adaptive''),
                (''content'', AObj card)]])]) agent_header))"

section \<open>Discord and webhooks\<close>

definition inline_field :: "string \<Rightarrow> string \<Rightarrow> any" where
  "inline_field name value = AObj [(''name'', AStr name), (''value'', AStr value), (''inline'', ABool True)]"

definition discord_fields :: "alert \<Rightarrow> AlertContext \<Rightarrow> any list" where
  "discord_fields alert ctx =
     [inline_field ''Severity'' (ac_Severity ctx), inline_field ''Value'' (fmt_f 2 (al_value alert))] @
     if_set (ac_Hostname ctx) (inline_field ''Host'' (ac_Hostname ctx)) @
     if_set (ac_RuleName ctx) (inline_field ''Rule'' (ac_RuleName ctx)) @
     if_set (ac_CheckName ctx) (inline_field ''Check'' (ac_CheckName ctx)) @
     (if tag_list ctx = [] then [] else [inline_field ''Tags'' (str_join '', '' (tag_list ctx))])"

definition discord_request :: "(time \<Rightarrow> string) \<Rightarrow> obj \<Rightarrow> alert \<Rightarrow> AlertContext \<Rightarrow> notify_error + http_request" where
  "discord_request show_time config alert ctx =
     (let url = GetConfigString config ''webhook_url'' in
      if url = [] then Inl (SendError ''discord config missing required field: webhook_url'')
      else
        let embed = [(''title'', AStr (''Alert: '' @ al_status alert)),
              (''description'', AStr (RenderMessage show_time alert (ac_Severity ctx))),
              (''color'', AInt (if al_status alert = ''resolved'' then 3066993 else 15158332)),
              (''timestamp'', AStr (date_text show_time (al_fired_at alert))), (''fields'', AArr (discord_fields alert ctx)),
              (''footer'', AObj [(''text'', AStr ''NexWatch Monitoring'')])] @
              if_set (ac_DashboardURL ctx) (''url'', AStr (ac_DashboardURL ctx))
        in Inr (json_post url (AObj [(''username'', AStr ''NexWatch''), (''avatar_url'', AStr []), (''content'', AStr []),
             (''embeds'', AArr [AObj embed])]) agent_header))"

definition custom_headers :: "obj \<Rightarrow> (string \<times> string) list \<Rightarrow> (string \<times> string) list" where
  "custom_headers config hs =
     (case aget config ''headers'' of
        AObj m \<Rightarrow> fold (\<lambda>(k, v) hs. case as_string v of None \<Rightarrow> hs | Some s \<Rightarrow> set_header k s hs) m hs
      | _ \<Rightarrow> hs)"

definition webhook_payload :: "(time \<Rightarrow> string) \<Rightarrow> alert \<Rightarrow> AlertContext \<Rightarrow> obj" where
  "webhook_payload show_time alert ctx =
     [(''source'', AStr ''nexwatch''), (''alert_id'', AStr (al_id alert)), (''status'', AStr (al_status alert)),
      (''value'', AFloat64 (al_value alert)), (''message'', AStr (al_message alert)),
      (''fired_at'', AStr (date_text show_time (al_fired_at alert))),
      (''resolved_at'', AStr (date_text show_time (al_resolved_at alert))),
      (''context'', AObj
        [(''hostname'', AStr (ac_Hostname ctx)),
         (''agent_tags'', (case ac_AgentTags ctx of None \<Rightarrow> ANil | Some ts \<Rightarrow> AArr (map AStr ts))),
         (''rule_name'', AStr (ac_RuleName ctx)), (''rule_target'', AStr (ac_RuleTarget ctx)),
         (''check_name'', AStr (ac_CheckName ctx)), (''check_target'', AStr (ac_CheckTarget ctx)),
         (''severity'', AStr (ac_Severity ctx)), (''acknowledged_by'', AStr (ac_AcknowledgedBy ctx)),
         (''dashboard_url'', AStr (ac_DashboardURL ctx))])]"

definition webhook_request :: "(time \<Rightarrow> string) \<Rightarrow> obj \<Rightarrow> alert \<Rightarrow> AlertContext \<Rightarrow> notify_error + http_request" where
  "webhook_request show_time config alert ctx =
     (let url = GetConfigString config ''url''; meth = GetConfigString config ''method'' in
      if url = [] then Inl (SendError ''webhook config missing required field: url'')
      else Inr \<lparr>hr_method = (if meth = [] then ''POST'' else meth), hr_url = url,
        hr_headers = custom_headers config ((''Content-Type'', ''application/json'') # agent_header),
        hr_body = JsonBody (AObj (webhook_payload show_time alert ctx))\<rparr>)"

section \<open>Gotify, ntfy and Telegram\<close>

definition gotifyPriority :: "int \<Rightarrow> string \<Rightarrow> string \<Rightarrow> int" where
  "gotifyPriority configured status severity =
     (if 0 < configured then configured else if status = ''resolved'' then 2 else if severity = ''critical'' then 8 else 5)"

definition gotify_request :: "(time \<Rightarrow> string) \<Rightarrow> obj \<Rightarrow> alert \<Rightarrow> AlertContext \<Rightarrow> notify_error + http_request" where
  "gotify_request show_time config alert ctx =
     (let serverURL = GetConfigString config ''server_url''; appToken = GetConfigString config ''app_token'' in
      if serverURL = [] \<or> appToken = [] then Inl (ConfigError ''gotify config missing required fields (server_url, app_token)'')
      else
        let extras = (''client::display'', AObj [(''contentType'', AStr ''text/markdown'')]) #
              if_set (ac_DashboardURL ctx) (''client::notification'', AObj [(''click'', AObj [(''url'', AStr (ac_DashboardURL ctx))])])
        in Inr (json_post (trim_right serverURL CHR ''/'' @ ''/message'')
             (AObj [(''title'', AStr (''NexWatch Alert '' @ em_dash @ '' '' @ to_upper (al_status alert))),
                (''message'', AStr (RenderMessage show_time alert (ac_Severity ctx))),
                (''priority'', AInt (gotifyPriority (GetConfigInt config ''priority'') (al_status alert) (ac_Severity ctx))),
                (''extras'', AObj extras)])
             [(''X-Gotify-Key'', appToken)]))"

definition ntfyPriority :: "int \<Rightarrow> string \<Rightarrow> string \<Rightarrow> int" where
  "ntfyPriority configured status severity =
     (if 1 \<le> configured \<and> configured \<le> 5 then configured else if status = ''resolved'' then 2
      else if severity = ''critical'' then 5 else 3)"

definition ntfyTags :: "string \<Rightarrow> string \<Rightarrow> string" where
  "ntfyTags status severity =
     (if status = ''resolved'' then ''white_check_mark'' else if severity = ''critical'' then ''rotating_light'' else ''warning'')"

definition ntfy_request :: "(time \<Rightarrow> string) \<Rightarrow> obj \<Rightarrow> alert \<Rightarrow> AlertContext \<Rightarrow> notify_error + http_request" where
  "ntfy_request show_time config alert ctx =
     (let topic = GetConfigString config ''topic'' in
      if topic = [] then Inl (ConfigError ''ntfy config missing required field: topic'')
      else
        let configured = GetConfigString config ''server_url'';
            serverURL = trim_right (if configured = [] then ''https://ntfy.sh'' else configured) CHR ''/'';
            tags = ntfyTags (al_status alert) (ac_Severity ctx) @
              (if tag_list ctx = [] then [] else '','' @ str_join '','' (tag_list ctx));
            token = GetConfigString config ''token''
        in Inr \<lparr>hr_method = ''POST'', hr_url = serverURL @ ''/'' @ topic,
             hr_headers =
               [(''Title'', ''NexWatch Alert '' @ em_dash @ '' '' @ to_upper (al_status alert)),
                (''Priority'', fmt_d (ntfyPriority (GetConfigInt config ''priority'') (al_status alert) (ac_Severity ctx))),
                (''Tags'', tags)] @
               if_set (ac_DashboardURL ctx) (''Click'', ac_DashboardURL ctx) @
               if_set token (''Authorization'', ''Bearer '' @ token),
             hr_body = TextBody (RenderMessage show_time alert (ac_Severity ctx))\<rparr>)"

definition telegram_request ::
  "(time \<Rightarrow> string) \<Rightarrow> string \<Rightarrow> obj \<Rightarrow> alert \<Rightarrow> AlertContext \<Rightarrow> notify_error + http_request" where
  "telegram_request show_time baseURL config alert ctx =
     (let botToken = GetConfigString config ''bot_token''; chatID = GetConfigString config ''chat_id'' in
      if botToken = [] \<or> chatID = [] then Inl (SendError ''telegram config missing required fields (bot_token, chat_id)'')
      else Inr (json_post (baseURL @ ''/bot'' @ botToken @ ''/sendMessage'')
        (AObj [(''chat_id'', AStr chatID), (''text'', AStr (RenderMessage show_time alert (ac_Severity ctx))),
           (''parse_mode'', AStr ''HTML'')]) []))"

text \<open>\<open>decode\<close> yields the fields \<open>ok\<close> and \<open>description\<close> of the answer when it is JSON of that shape.\<close>

definition telegram_deliver ::
  "(string \<Rightarrow> (bool \<times> string) option) \<Rightarrow> 'w http \<Rightarrow> notify_error + http_request \<Rightarrow> 'w \<Rightarrow> 'w \<times> notify_error option" where
  "telegram_deliver decode http built w =
     (case built of
        Inl err \<Rightarrow> (w, Some err)
      | Inr req \<Rightarrow>
          (case http req w of
             (w', None) \<Rightarrow> (w', Some (SendError ''telegram request failed''))
           | (w', Some (code, text)) \<Rightarrow>
               (w', if code \<noteq> 200 then Some (SendError (returned ''telegram API'' code text))
                    else case decode text of
                           Some (False, description) \<Rightarrow> Some (SendError (''telegram API error: '' @ description))
                         | _ \<Rightarrow> None)))"

section \<open>Email\<close>

record emailConfig =
  em_host :: string
  em_from :: string
  em_username :: string
  em_password :: string
  em_to :: string
  em_port :: int

definition email_config :: "obj \<Rightarrow> notify_error + emailConfig" where
  "email_config config =
     (let cfg = \<lparr>em_host = GetConfigString config ''host'', em_from = GetConfigString config ''from'',
                 em_username = GetConfigString config ''username'', em_password = GetConfigString config ''password'',
                 em_to = GetConfigString config ''to'', em_port = GetConfigInt config ''port''\<rparr>
      in if em_host cfg = [] \<or> em_from cfg = [] \<or> em_to cfg = []
         then Inl (ConfigError ''email config missing required fields (host, from, to)'')
         else Inr (if em_port cfg = 0 then cfg\<lparr>em_port := 587\<rparr> else cfg))"

definition resolveConfig :: "(string \<Rightarrow> any option) \<Rightarrow> channel \<Rightarrow> notify_error + emailConfig" where
  "resolveConfig json channel =
     (case ParseChannelConfig json channel of Inl err \<Rightarrow> Inl err | Inr config \<Rightarrow> email_config config)"

definition emailSubject :: "AlertContext \<Rightarrow> string" where
  "emailSubject ctx =
     (let rule = (if ac_RuleName ctx = [] then ''alert'' else ac_RuleName ctx);
          subject = (if ac_Hostname ctx \<noteq> [] then ac_Hostname ctx
                     else if ac_CheckName ctx \<noteq> [] then ac_CheckName ctx else ''alerts'')
      in ''[NexWatch]['' @ ac_Severity ctx @ ''] '' @ rule @ '' on '' @ subject)"

definition crlf :: string where
  "crlf = [CHR 0x0D, CHR 0x0A]"

definition email_message :: "emailConfig \<Rightarrow> string \<Rightarrow> string \<Rightarrow> string" where
  "email_message cfg subject text =
     ''From: '' @ em_from cfg @ crlf @ ''To: '' @ em_to cfg @ crlf @ ''Subject: '' @ subject @ crlf @
     ''Content-Type: text/plain; charset=UTF-8'' @ crlf @ crlf @ text"

definition buildMultipartMessage :: "string \<Rightarrow> string \<Rightarrow> string \<Rightarrow> string \<Rightarrow> string \<Rightarrow> string" where
  "buildMultipartMessage from_addr to_addr subject text html =
     (let boundary = ''nexwatch-boundary-7f3a9c1e''; quotes = [CHR 0x22] in
      ''From: '' @ from_addr @ crlf @ ''To: '' @ to_addr @ crlf @ ''Subject: '' @ subject @ crlf @
      ''MIME-Version: 1.0'' @ crlf @
      ''Content-Type: multipart/alternative; boundary='' @ quotes @ boundary @ quotes @ crlf @ crlf @
      ''--'' @ boundary @ crlf @ ''Content-Type: text/plain; charset=UTF-8'' @ crlf @ crlf @ text @ crlf @ crlf @
      ''--'' @ boundary @ crlf @ ''Content-Type: text/html; charset=UTF-8'' @ crlf @ crlf @ html @ crlf @ crlf @
      ''--'' @ boundary @ ''--'' @ crlf)"

record mail =
  ml_addr :: string
  ml_auth :: "(string \<times> string \<times> string) option"
  ml_from :: string
  ml_to :: "string list"
  ml_msg :: string

text \<open>\<open>sendMail\<close>: delivered, an error, or no answer before the deadline.\<close>

datatype smtp_outcome =
    Delivered
  | Rejected string
  | TimedOut

definition deliver_mail ::
  "(mail \<Rightarrow> 'w \<Rightarrow> 'w \<times> smtp_outcome) \<Rightarrow> emailConfig \<Rightarrow> string \<Rightarrow> 'w \<Rightarrow> 'w \<times> notify_error option" where
  "deliver_mail sendMail cfg msg w =
     (case sendMail \<lparr>ml_addr = em_host cfg @ '':'' @ fmt_d (em_port cfg),
            ml_auth = (if em_username cfg \<noteq> [] \<and> em_password cfg \<noteq> []
                       then Some (em_username cfg, em_password cfg, em_host cfg) else None),
            ml_from = em_from cfg, ml_to = [em_to cfg], ml_msg = msg\<rparr> w of
        (w', Delivered) \<Rightarrow> (w', None)
      | (w', Rejected err) \<Rightarrow> (w', Some (SendError err))
      | (w', TimedOut) \<Rightarrow> (w', Some (SendError ''email send timed out'')))"

definition SendRaw ::
  "(string \<Rightarrow> any option) \<Rightarrow> (mail \<Rightarrow> 'w \<Rightarrow> 'w \<times> smtp_outcome) \<Rightarrow> string \<Rightarrow> string \<Rightarrow> string \<Rightarrow> channel \<Rightarrow> 'w
   \<Rightarrow> 'w \<times> notify_error option" where
  "SendRaw json sendMail subject html text channel w =
     (case resolveConfig json channel of
        Inl err \<Rightarrow> (w, Some err)
      | Inr cfg \<Rightarrow> deliver_mail sendMail cfg (buildMultipartMessage (em_from cfg) (em_to cfg) subject text html) w)"

section \<open>The notifiers\<close>

record 'w wire =
  wi_json :: "string \<Rightarrow> any option"
  wi_show_time :: "time \<Rightarrow> string"
  wi_rfc3339 :: "time \<Rightarrow> string"
  wi_http :: "'w http"
  wi_sendMail :: "mail \<Rightarrow> 'w \<Rightarrow> 'w \<times> smtp_outcome"
  wi_telegram :: "string \<Rightarrow> (bool \<times> string) option"

definition with_config ::
  "'w wire \<Rightarrow> channel \<Rightarrow> (obj \<Rightarrow> notify_error + http_request) \<Rightarrow> notify_error + http_request" where
  "with_config W channel build =
     (case ParseChannelConfig (wi_json W) channel of Inl err \<Rightarrow> Inl err | Inr config \<Rightarrow> build config)"

definition pagerduty_notifier :: "'w wire \<Rightarrow> 'w notifier" where
  "pagerduty_notifier W alert channel ctx =
     deliver_http (wi_http W) ''pagerduty request failed'' (returned ''pagerduty API'')
       (with_config W channel (\<lambda>config. pagerduty_request (wi_rfc3339 W) ''https://events.pagerduty.com/v2/enqueue'' config alert ctx))"

definition slack_notifier :: "'w wire \<Rightarrow> 'w notifier" where
  "slack_notifier W alert channel ctx =
     deliver_http (wi_http W) ''slack request failed'' (returned ''slack webhook'')
       (with_config W channel (\<lambda>config. slack_request (wi_show_time W) config alert ctx))"

definition teams_notifier :: "'w wire \<Rightarrow> 'w notifier" where
  "teams_notifier W alert channel ctx =
     deliver_http (wi_http W) ''teams request failed'' (returned ''teams webhook'')
       (with_config W channel (\<lambda>config. teams_request (wi_show_time W) config alert ctx))"

definition discord_notifier :: "'w wire \<Rightarrow> 'w notifier" where
  "discord_notifier W alert channel ctx =
     deliver_http (wi_http W) ''discord request failed'' (returned ''discord webhook'')
       (with_config W channel (\<lambda>config. discord_request (wi_show_time W) config alert ctx))"

definition webhook_notifier :: "'w wire \<Rightarrow> 'w notifier" where
  "webhook_notifier W alert channel ctx =
     deliver_http (wi_http W) ''webhook request failed'' (\<lambda>code _. ''webhook returned status '' @ fmt_d code)
       (with_config W channel (\<lambda>config. webhook_request (wi_show_time W) config alert ctx))"

definition gotify_notifier :: "'w wire \<Rightarrow> 'w notifier" where
  "gotify_notifier W alert channel ctx =
     deliver_http (wi_http W) ''gotify request failed'' (returned ''gotify'')
       (with_config W channel (\<lambda>config. gotify_request (wi_show_time W) config alert ctx))"

definition ntfy_notifier :: "'w wire \<Rightarrow> 'w notifier" where
  "ntfy_notifier W alert channel ctx =
     deliver_http (wi_http W) ''ntfy request failed'' (returned ''ntfy'')
       (with_config W channel (\<lambda>config. ntfy_request (wi_show_time W) config alert ctx))"

definition telegram_notifier :: "'w wire \<Rightarrow> 'w notifier" where
  "telegram_notifier W alert channel ctx =
     telegram_deliver (wi_telegram W) (wi_http W)
       (with_config W channel (\<lambda>config. telegram_request (wi_show_time W) ''https://api.telegram.org'' config alert ctx))"

definition email_notifier :: "'w wire \<Rightarrow> 'w notifier" where
  "email_notifier W alert channel ctx w =
     (case resolveConfig (wi_json W) channel of
        Inl err \<Rightarrow> (w, Some err)
      | Inr cfg \<Rightarrow>
          deliver_mail (wi_sendMail W) cfg
            (email_message cfg (emailSubject ctx) (RenderMessage (wi_show_time W) alert (ac_Severity ctx))) w)"

section \<open>Behaviour\<close>

text \<open>A trigger and the resolution of the same alert carry the same key, so PagerDuty closes what it opened.\<close>

lemma pagerduty_pairs:
  assumes "pagerduty_request rfc url config alert ctx = Inr req"
  shows "\<exists>p. hr_body req = JsonBody (AObj p) \<and> aget p ''dedup_key'' = AStr (al_id alert) \<and>
    aget p ''event_action'' = AStr (if al_status alert = ''resolved'' then ''resolve'' else ''trigger'')"
  using assms by (auto simp: pagerduty_request_def Let_def json_post_def aget_def split: if_splits)

text \<open>
  A channel without its required fields is a mistake of the client (status 400) for six of the types, but
  a server error for the three oldest.
\<close>

definition lone_service :: "string \<Rightarrow> 'w notifier \<Rightarrow> 'w Service" where
  "lone_service t n = RegisterNotifier t n \<lparr>sv_notifiers = (\<lambda>_. None)\<rparr>"

lemma test_status:
  assumes "fc i = Some c" and "i \<noteq> []" and "n (test_alert now) c (BuildAlertContext E (test_alert now) None) w = (w', err)"
  shows "fst (snd (handleTestNotification E (lone_service (ch_type c) n) True now fc i w)) =
    (case err of None \<Rightarrow> 200 | Some (ConfigError _) \<Rightarrow> 400 | Some (SendError _) \<Rightarrow> 500)"
  using assms by (simp add: handleTestNotification_def SendTestNotification_def lone_service_def RegisterNotifier_def
      split: option.splits notify_error.splits)

lemma empty_config:
  assumes "ch_config c \<noteq> []" and "wi_json W (ch_config c) = Some (AObj [])"
  shows "with_config W c build = build []" and "resolveConfig (wi_json W) c = email_config []"
  using assms by (simp_all add: with_config_def ParseChannelConfig_def resolveConfig_def)

lemma missing_config_status:
  assumes "fc i = Some c" and "i \<noteq> []" and "ch_config c \<noteq> []" and "wi_json W (ch_config c) = Some (AObj [])"
  shows "n \<in> {pagerduty_notifier W, slack_notifier W, teams_notifier W, gotify_notifier W, ntfy_notifier W, email_notifier W} \<Longrightarrow>
      fst (snd (handleTestNotification E (lone_service (ch_type c) n) True now fc i w)) = 400"
    and "n \<in> {discord_notifier W, webhook_notifier W, telegram_notifier W} \<Longrightarrow>
      fst (snd (handleTestNotification E (lone_service (ch_type c) n) True now fc i w)) = 500"
proof -
  note defs = empty_config [OF assms(3,4)] pagerduty_notifier_def slack_notifier_def teams_notifier_def gotify_notifier_def
    ntfy_notifier_def email_notifier_def discord_notifier_def webhook_notifier_def telegram_notifier_def deliver_http_def
    telegram_deliver_def pagerduty_request_def slack_request_def teams_request_def gotify_request_def ntfy_request_def
    email_config_def discord_request_def webhook_request_def telegram_request_def GetConfigString_def aget_def str_of_def
  have status: "fst (snd (handleTestNotification E (lone_service (ch_type c) n) True now fc i w)) =
      (case snd (n (test_alert now) c (BuildAlertContext E (test_alert now) None) w) of
         None \<Rightarrow> 200 | Some (ConfigError _) \<Rightarrow> 400 | Some (SendError _) \<Rightarrow> 500)" for n
    by (cases "n (test_alert now) c (BuildAlertContext E (test_alert now) None) w")
      (simp add: test_status [where fc = fc and i = i and c = c, OF assms(1,2)])
  show "n \<in> {pagerduty_notifier W, slack_notifier W, teams_notifier W, gotify_notifier W, ntfy_notifier W, email_notifier W} \<Longrightarrow>
      fst (snd (handleTestNotification E (lone_service (ch_type c) n) True now fc i w)) = 400"
    by (subst status) (auto simp: defs)
  show "n \<in> {discord_notifier W, webhook_notifier W, telegram_notifier W} \<Longrightarrow>
      fst (snd (handleTestNotification E (lone_service (ch_type c) n) True now fc i w)) = 500"
    by (subst status) (auto simp: defs)
qed

text \<open>
  A host name goes into the subject line as it is: what follows a line break in it is a header line of
  its own.
\<close>

lemma hostname_adds_header:
  assumes "ac_Hostname ctx = host @ crlf @ header"
  shows "\<exists>before after. email_message cfg (emailSubject ctx) text =
    before @ crlf @ header @ crlf @ ''Content-Type: text/plain; charset=UTF-8'' @ after"
proof -
  have "ac_Hostname ctx \<noteq> []" using assms by (simp add: crlf_def)
  then have "emailSubject ctx = (''[NexWatch]['' @ ac_Severity ctx @ ''] '' @
      (if ac_RuleName ctx = [] then ''alert'' else ac_RuleName ctx) @ '' on '' @ host) @ crlf @ header"
    by (simp only: emailSubject_def Let_def assms append_assoc not_False_eq_True if_True)
  then show ?thesis unfolding email_message_def
    by (intro exI [where x = "''From: '' @ em_from cfg @ crlf @ ''To: '' @ em_to cfg @ crlf @ ''Subject: '' @ ''[NexWatch]['' @
        ac_Severity ctx @ ''] '' @ (if ac_RuleName ctx = [] then ''alert'' else ac_RuleName ctx) @ '' on '' @ host"]
      exI [where x = "crlf @ crlf @ text"]) (simp only: append_assoc)
qed

end
