(* ===== verification/Web_Push.thy ===== *)
theory Web_Push
  imports Notify_Channels Retention
begin

text \<open>
  Web Push (\<open>internal/hub/push\<close>, the \<open>webpush\<close> channel, the routes of
  \<open>internal/hub/api/push_routes.go\<close> and the secrets of \<open>internal/hub/hubsecrets\<close>): the key pair that
  is generated once, delivery to each subscription, and the removal of those the push service no longer
  knows. Key generation, JSON and the push service are parameters; the requests made are recorded.
\<close>

section \<open>Keys\<close>

text \<open>The settings and the secrets, and the outcome of the store's calls.\<close>

record key_store =
  ks_settings :: "setting list"
  ks_secrets :: "setting list"

record key_env =
  ke_json :: "string \<Rightarrow> any option"
  ke_encode :: "string \<Rightarrow> string option"
  ke_generate :: "(string \<times> string) option"
  ke_collections :: bool
  ke_secret_saves :: bool
  ke_setting_saves :: bool
  ke_new_id :: string

definition hubsecrets_Get :: "setting list \<Rightarrow> string \<Rightarrow> string option" where
  "hubsecrets_Get db key = map_option st_value (find_setting db key)"

definition hubsecrets_Set :: "bool \<Rightarrow> bool \<Rightarrow> string \<Rightarrow> setting list \<Rightarrow> string \<Rightarrow> string \<Rightarrow> setting list \<times> bool" where
  "hubsecrets_Set has_collection saves new_id db key value = setSettingValue Some has_collection saves new_id db key value"

text \<open>The public key, the private key and the subject, or the error.\<close>

definition EnsureVAPIDKeys :: "key_env \<Rightarrow> key_store \<Rightarrow> key_store \<times> (string + string \<times> string \<times> string)" where
  "EnsureVAPIDKeys K ks =
     (let subject = settingString (ke_json K) (ks_settings ks) ''vapid_subject'' ''mailto:admin@localhost'';
          publicKey = settingString (ke_json K) (ks_settings ks) ''vapid_public_key'' [];
          privateKey = hubsecrets_Get (ks_secrets ks) ''vapid_private_key''
      in if publicKey \<noteq> [] \<and> privateKey \<noteq> None then (ks, Inr (publicKey, the privateKey, subject))
         else
           case ke_generate K of
             None \<Rightarrow> (ks, Inl ''generate VAPID keys'')
           | Some (priv, pub) \<Rightarrow>
               (case hubsecrets_Set (ke_collections K) (ke_secret_saves K) (ke_new_id K) (ks_secrets ks) ''vapid_private_key'' priv of
                  (secrets, False) \<Rightarrow> (ks, Inl ''store VAPID private key'')
                | (secrets, True) \<Rightarrow>
                    (case setSettingValue (ke_encode K) (ke_collections K) (ke_setting_saves K) (ke_new_id K) (ks_settings ks)
                            ''vapid_public_key'' pub of
                       (settings, False) \<Rightarrow> (ks\<lparr>ks_secrets := secrets\<rparr>, Inl ''store VAPID public key'')
                     | (settings, True) \<Rightarrow> (\<lparr>ks_settings = settings, ks_secrets = secrets\<rparr>, Inr (pub, priv, subject)))))"

section \<open>Subscriptions\<close>

record subscription =
  sb_id :: string
  sb_user_id :: string
  sb_endpoint :: string
  sb_p256dh :: string
  sb_auth :: string

definition set_sb_id :: "string \<Rightarrow> subscription \<Rightarrow> subscription" where
  "set_sb_id i s = s\<lparr>sb_id := i\<rparr>"

interpretation subscriptions: record_table "mem_table sb_id set_sb_id" sb_id set_sb_id
  by (rule mem_table_contract) (simp_all add: set_sb_id_def)

record Payload =
  pl_Title :: string
  pl_Body :: string
  pl_URL :: string
  pl_Severity :: string
  pl_Tag :: string
  pl_Timestamp :: int

text \<open>
  A call of \<open>webpush.SendNotification\<close>: endpoint, its keys, the subscriber, the key pair and the
  payload. \<open>pu_sent\<close> lists the calls; the library encrypts the payload and posts it, and returns an
  error before it posts anything when the keys of the subscription cannot be decoded.
\<close>

record push_request =
  pq_endpoint :: string
  pq_keys :: "string \<times> string"
  pq_subscriber :: string
  pq_vapid :: "string \<times> string"
  pq_payload :: Payload

record 's push =
  pu_subs :: 's
  pu_keys :: key_store
  pu_sent :: "push_request list"

text \<open>
  \<open>pe_service\<close> is the outcome of the call: status and \<open>Retry-After\<close> of the push service, or an error
  (no answer, or nothing posted). \<open>pe_role\<close> is
  the role of the user a subscription belongs to.
\<close>

record 's push_env =
  pe_table :: "('s, subscription) table"
  pe_keys :: key_env
  pe_service :: "push_request \<Rightarrow> (int \<times> string) option"
  pe_role :: "string \<Rightarrow> string option"

definition in_audience :: "(string \<Rightarrow> string option) \<Rightarrow> string \<Rightarrow> subscription \<Rightarrow> bool" where
  "in_audience role audience s \<longleftrightarrow>
     (if audience = ''admins'' then role (sb_user_id s) = Some ''admin''
      else if audience = ''operators'' then role (sb_user_id s) = Some ''operator''
      else True)"

definition SubscriptionsForAudience :: "'s push_env \<Rightarrow> string \<Rightarrow> 's push \<Rightarrow> subscription list option" where
  "SubscriptionsForAudience P audience st = t_all (pe_table P) (pu_subs st) (in_audience (pe_role P) audience)"

definition push_request_for :: "string \<times> string \<times> string \<Rightarrow> subscription \<Rightarrow> Payload \<Rightarrow> push_request" where
  "push_request_for keys sub payload =
     (case keys of (pub, priv, subject) \<Rightarrow>
        \<lparr>pq_endpoint = sb_endpoint sub, pq_keys = (sb_p256dh sub, sb_auth sub),
         pq_subscriber = trim_prefix subject ''mailto:'', pq_vapid = (pub, priv), pq_payload = payload\<rparr>)"

definition SendToSubscription :: "'s push_env \<Rightarrow> subscription \<Rightarrow> Payload \<Rightarrow> 's push \<Rightarrow> 's push \<times> string option" where
  "SendToSubscription P sub payload st =
     (case EnsureVAPIDKeys (pe_keys P) (pu_keys st) of
        (ks, Inl err) \<Rightarrow> (st\<lparr>pu_keys := ks\<rparr>, Some err)
      | (ks, Inr keys) \<Rightarrow>
          let req = push_request_for keys sub payload;
              st1 = st\<lparr>pu_keys := ks, pu_sent := pu_sent st @ [req]\<rparr>
          in case pe_service P req of
               None \<Rightarrow> (st1, Some ''web push request failed'')
             | Some (code, retry_after) \<Rightarrow>
                 if code = 404 \<or> code = 410
                 then (st1\<lparr>pu_subs := fst (t_del (pe_table P) (pu_subs st1) (sb_id sub))\<rparr>,
                       Some (''push subscription no longer valid (status '' @ fmt_d code @ ''), removed''))
                 else if code = 429 then (st1, Some (''push service rate limited (retry after '' @ retry_after @ '')''))
                 else if 300 \<le> code then (st1, Some (''push service returned status '' @ fmt_d code))
                 else (st1, None))"

text \<open>Each subscription in turn; the outcomes in order.\<close>

fun send_each :: "'s push_env \<Rightarrow> Payload \<Rightarrow> subscription list \<Rightarrow> 's push \<Rightarrow> 's push \<times> (string \<times> string option) list" where
  "send_each P payload [] st = (st, [])"
| "send_each P payload (s # ss) st =
     (case SendToSubscription P s payload st of
        (st1, err) \<Rightarrow> (case send_each P payload ss st1 of (st2, rest) \<Rightarrow> (st2, (sb_endpoint s, err) # rest)))"

section \<open>The channel and the routes\<close>

definition buildAlertPayload :: "(time \<Rightarrow> string) \<Rightarrow> int \<Rightarrow> alert \<Rightarrow> AlertContext \<Rightarrow> Payload" where
  "buildAlertPayload show_time nowMillis alert ctx =
     \<lparr>pl_Title = ''NexWatch '' @ em_dash @ '' '' @ to_upper (al_status alert),
      pl_Body = RenderMessage show_time alert (ac_Severity ctx),
      pl_URL = (if ac_DashboardURL ctx = [] then ac_DashboardPath ctx else ac_DashboardURL ctx),
      pl_Severity = ac_Severity ctx, pl_Tag = ''nexwatch-alert-'' @ al_rule_id alert, pl_Timestamp = nowMillis\<rparr>"

definition webpush_notifier :: "'s push_env \<Rightarrow> (string \<Rightarrow> any option) \<Rightarrow> (time \<Rightarrow> string) \<Rightarrow> int \<Rightarrow> 's push notifier" where
  "webpush_notifier P json show_time nowMillis alert channel ctx st =
     (case ParseChannelConfig json channel of
        Inl err \<Rightarrow> (st, Some err)
      | Inr config \<Rightarrow>
          let configured = GetConfigString config ''audience''; audience = (if configured = [] then ''all'' else configured) in
          case SubscriptionsForAudience P audience st of
            None \<Rightarrow> (st, Some (SendError ''failed to load push subscriptions''))
          | Some subs \<Rightarrow> (fst (send_each P (buildAlertPayload show_time nowMillis alert ctx) subs st), None))"

definition handleVAPIDPublicKey :: "key_env \<Rightarrow> key_store \<Rightarrow> key_store \<times> int \<times> string" where
  "handleVAPIDPublicKey K ks =
     (case EnsureVAPIDKeys K ks of
        (ks', Inl _) \<Rightarrow> (ks', 500, ''failed to generate VAPID keys'')
      | (ks', Inr (pub, _, _)) \<Rightarrow> (ks', 200, pub))"

text \<open>The status, the outcomes, and the audit result with its counts.\<close>

definition handleSendTestPush ::
  "'s push_env \<Rightarrow> int \<Rightarrow> string option \<Rightarrow> 's push \<Rightarrow> 's push \<times> int \<times> (string \<times> string option) list \<times> (string \<times> nat \<times> nat) option" where
  "handleSendTestPush P nowMillis caller st =
     (case caller of
        None \<Rightarrow> (st, 401, [], None)
      | Some uid \<Rightarrow>
          (case t_all (pe_table P) (pu_subs st) (\<lambda>s. sb_user_id s = uid) of
             None \<Rightarrow> (st, 500, [], None)
           | Some subs \<Rightarrow>
               (case send_each P \<lparr>pl_Title = ''NexWatch test notification'',
                       pl_Body = ''If you can see this, browser notifications are working.'',
                       pl_URL = ''/settings/notifications'', pl_Severity = ''info'', pl_Tag = ''nexwatch-test'',
                       pl_Timestamp = nowMillis\<rparr> subs st of
                  (st', results) \<Rightarrow>
                    let succeeded = length (filter (\<lambda>(_, err). err = None) results) in
                    (st', 200, results,
                     Some (if succeeded = 0 \<and> subs \<noteq> [] then ''failure'' else ''success'', length subs, succeeded)))))"

section \<open>The key pair is stable\<close>

lemma find_mapped:
  assumes "find P db = Some r" and "P (f r)" and "f r = r'" and "\<And>s. f s = s \<or> f s = r'"
  shows "\<exists>s. find P (map f db) = Some s \<and> s = r'"
  using assms
proof (induction db)
  case (Cons s db)
  consider "f s = r'" | "f s = s" "\<not> P s" | "f s = s" "P s" using Cons.prems(4) by blast
  then show ?case using Cons by cases (auto split: if_splits)
qed simp

lemma find_none_append: "find P xs = None \<Longrightarrow> find P (xs @ ys) = find P ys"
  by (induction xs) (auto split: if_splits)

lemma setSettingValue_find:
  assumes "setSettingValue enc col sav i db k v = (db', True)"
  shows "\<exists>s e. find_setting db' k = Some s \<and> enc v = Some e \<and> st_value s = e"
proof -
  obtain e where e: "enc v = Some e" using assms by (cases "enc v") (auto simp: setSettingValue_def)
  show ?thesis
  proof (cases "find_setting db k")
    case None
    then have "db' = db @ [\<lparr>st_id = i, st_key = k, st_value = e\<rparr>]"
      using assms by (auto simp: setSettingValue_def e split: if_splits)
    with None show ?thesis using e by (simp add: find_setting_def find_none_append)
  next
    case (Some r)
    then have k: "st_key r = k" by (auto simp: find_setting_def find_Some_iff)
    have db': "db' = map (\<lambda>s. if st_id s = st_id r then r\<lparr>st_value := e\<rparr> else s) db"
      using assms Some by (simp add: setSettingValue_def e split: if_splits)
    have "\<exists>s. find (\<lambda>s. st_key s = k) db' = Some s \<and> s = r\<lparr>st_value := e\<rparr>"
      unfolding db' by (rule find_mapped [of _ _ r]) (use Some k in \<open>auto simp: find_setting_def\<close>)
    then show ?thesis using e by (auto simp: find_setting_def)
  qed
qed

text \<open>
  Once a call has succeeded, every later call returns the same pair and leaves the store alone, even
  if the generator would give another pair or the store has become read-only.
\<close>

lemma EnsureVAPIDKeys_stable:
  assumes "EnsureVAPIDKeys K ks = (ks', Inr (pub, priv, subj))" and "ke_json K' = ke_json K"
    and rt: "\<And>s e. ke_encode K s = Some e \<Longrightarrow> ke_json K e = Some (AStr s)" and ne: "\<And>p q. ke_generate K = Some (p, q) \<Longrightarrow> q \<noteq> []"
  shows "\<exists>subj'. EnsureVAPIDKeys K' ks' = (ks', Inr (pub, priv, subj'))"
proof (cases "settingString (ke_json K) (ks_settings ks) ''vapid_public_key'' [] \<noteq> [] \<and>
    hubsecrets_Get (ks_secrets ks) ''vapid_private_key'' \<noteq> None")
  case True
  then show ?thesis using assms(1,2) by (auto simp: EnsureVAPIDKeys_def Let_def)
next
  case False
  obtain secrets settings where
    gen: "ke_generate K = Some (priv, pub)"
    and s: "hubsecrets_Set (ke_collections K) (ke_secret_saves K) (ke_new_id K) (ks_secrets ks) ''vapid_private_key'' priv = (secrets, True)"
    and p: "setSettingValue (ke_encode K) (ke_collections K) (ke_setting_saves K) (ke_new_id K) (ks_settings ks)
        ''vapid_public_key'' pub = (settings, True)"
    and ks': "ks' = \<lparr>ks_settings = settings, ks_secrets = secrets\<rparr>"
    using assms(1) False by (auto simp: EnsureVAPIDKeys_def Let_def split: option.splits prod.splits bool.splits if_splits)
  from setSettingValue_find [OF p] rt have "settingString (ke_json K) settings ''vapid_public_key'' [] = pub"
    by (auto simp: settingString_def getSettingValue_def)
  moreover from setSettingValue_find [OF s [unfolded hubsecrets_Set_def]]
  have "hubsecrets_Get secrets ''vapid_private_key'' = Some priv" by (auto simp: hubsecrets_Get_def)
  ultimately show ?thesis using ne [OF gen] assms(2) by (simp add: EnsureVAPIDKeys_def ks')
qed

section \<open>Exactly the dead subscriptions are removed\<close>

definition gone :: "'s push_env \<Rightarrow> push_request \<Rightarrow> bool" where
  "gone P req \<longleftrightarrow> (case pe_service P req of Some (code, _) \<Rightarrow> code = 404 \<or> code = 410 | None \<Rightarrow> False)"

lemma SendToSubscription_ready:
  assumes "EnsureVAPIDKeys (pe_keys P) (pu_keys st) = (pu_keys st, Inr keys)"
  shows "fst (SendToSubscription P sub payload st) = st
    \<lparr>pu_sent := pu_sent st @ [push_request_for keys sub payload],
     pu_subs := (if gone P (push_request_for keys sub payload) then fst (t_del (pe_table P) (pu_subs st) (sb_id sub)) else pu_subs st)\<rparr>"
  using assms by (simp add: SendToSubscription_def gone_def Let_def split: option.splits prod.splits)

lemma send_each_ready:
  assumes rt: "record_table (pe_table P) sb_id set_sb_id" and dels: "dels_succeed (pe_table P)"
  shows "EnsureVAPIDKeys (pe_keys P) (pu_keys st) = (pu_keys st, Inr keys) \<Longrightarrow>
    pu_keys (fst (send_each P payload subs st)) = pu_keys st \<and>
    pu_sent (fst (send_each P payload subs st)) = pu_sent st @ map (\<lambda>s. push_request_for keys s payload) subs \<and>
    t_find (pe_table P) (pu_subs (fst (send_each P payload subs st))) = (\<lambda>i.
      if \<exists>s \<in> set subs. sb_id s = i \<and> gone P (push_request_for keys s payload) then None
      else t_find (pe_table P) (pu_subs st) i)"
proof (induction subs arbitrary: st)
  case (Cons s subs)
  obtain st1 err where one: "SendToSubscription P s payload st = (st1, err)" by fastforce
  obtain st2 rest where more: "send_each P payload subs st1 = (st2, rest)" by fastforce
  let ?req = "push_request_for keys s payload"
  have st1: "st1 = st\<lparr>pu_sent := pu_sent st @ [?req],
      pu_subs := (if gone P ?req then fst (t_del (pe_table P) (pu_subs st) (sb_id s)) else pu_subs st)\<rparr>"
    using SendToSubscription_ready [OF Cons.prems, of s payload] by (simp add: one)
  obtain db' where del: "t_del (pe_table P) (pu_subs st) (sb_id s) = (db', True)"
    using dels unfolding dels_succeed_def by (metis prod.collapse)
  have find1: "t_find (pe_table P) (pu_subs st1) =
      (if gone P ?req then (t_find (pe_table P) (pu_subs st))(sb_id s := None) else t_find (pe_table P) (pu_subs st))"
    using record_table.del_find [OF rt del] by (simp add: st1 del)
  have "EnsureVAPIDKeys (pe_keys P) (pu_keys st1) = (pu_keys st1, Inr keys)" using Cons.prems by (simp add: st1)
  from Cons.IH [OF this] show ?case by (simp add: one more find1 fun_eq_iff) (auto simp: st1)
qed simp

text \<open>C24: When the key pair is in place and deletions go through, a notification makes one call of the web push
  library for each subscription of the channel's audience, in order and whatever the others answered, and afterwards exactly the
  subscriptions whose push service answered 404 or 410 are gone; all other rows and the keys are as they were,
  and the channel reports no error.\<close>

theorem webpush_prunes_exactly_the_gone:
  assumes "record_table (pe_table P) sb_id set_sb_id" and "dels_succeed (pe_table P)"
    and "EnsureVAPIDKeys (pe_keys P) (pu_keys st) = (pu_keys st, Inr keys)"
    and "ParseChannelConfig json channel = Inr config"
    and "SubscriptionsForAudience P (if GetConfigString config ''audience'' = [] then ''all''
      else GetConfigString config ''audience'') st = Some subs"
  shows "let payload = buildAlertPayload show ms alert ctx; (st', err) = webpush_notifier P json show ms alert channel ctx st in
    err = None \<and> pu_keys st' = pu_keys st \<and>
    pu_sent st' = pu_sent st @ map (\<lambda>s. push_request_for keys s payload) subs \<and>
    (\<forall>i. t_find (pe_table P) (pu_subs st') i =
       (if \<exists>s \<in> set subs. sb_id s = i \<and> gone P (push_request_for keys s payload) then None
        else t_find (pe_table P) (pu_subs st) i))"
  using send_each_ready [OF assms(1-3), of "buildAlertPayload show ms alert ctx" subs] assms(4,5)
  by (simp add: webpush_notifier_def Let_def)

definition one_key :: key_store where
  "one_key = \<lparr>ks_settings = [\<lparr>st_id = ''1'', st_key = ''vapid_public_key'', st_value = ''P''\<rparr>],
     ks_secrets = [\<lparr>st_id = ''1'', st_key = ''vapid_private_key'', st_value = ''S''\<rparr>]\<rparr>"

definition two_devices :: "subscription mem push" where
  "two_devices = \<lparr>pu_subs = \<lparr>m_rows =
     [(''a'', \<lparr>sb_id = ''a'', sb_user_id = ''u'', sb_endpoint = ''x'', sb_p256dh = ''BNc'', sb_auth = ''tBH''\<rparr>),
      (''b'', \<lparr>sb_id = ''b'', sb_user_id = ''u'', sb_endpoint = ''y'', sb_p256dh = ''BNc'', sb_auth = ''tBH''\<rparr>)], m_faults = []\<rparr>,
     pu_keys = one_key, pu_sent = []\<rparr>"

definition push_host :: "subscription mem push_env" where
  "push_host = \<lparr>pe_table = sure_table sb_id set_sb_id,
     pe_keys = \<lparr>ke_json = (\<lambda>s. Some (AStr s)), ke_encode = Some, ke_generate = None, ke_collections = True,
       ke_secret_saves = True, ke_setting_saves = True, ke_new_id = ''n''\<rparr>,
     pe_service = (\<lambda>r. if pq_endpoint r = ''x'' then Some (410, []) else Some (201, [])), pe_role = (\<lambda>_. None)\<rparr>"

theorem webpush_prunes_exactly_the_gone_witness:
  "let st' = fst (webpush_notifier push_host (\<lambda>_. Some (AObj [])) (\<lambda>_. []) 0 new_alert
      \<lparr>ch_id = ''c'', ch_name = [], ch_type = ''webpush'', ch_enabled = True, ch_config = ''x''\<rparr>
      (BuildAlertContext \<lparr>ne_agents = \<lambda>_. None, ne_checks = \<lambda>_. None, ne_settings = [], ne_json = \<lambda>_. None,
         ne_show_time = \<lambda>_. []\<rparr> new_alert None) two_devices)
   in map pq_endpoint (pu_sent st') = [''x'', ''y''] \<and> t_find (sure_table sb_id set_sb_id) (pu_subs st') ''a'' = None \<and>
     t_find (sure_table sb_id set_sb_id) (pu_subs st') ''b'' \<noteq> None"
proof -
  let ?channel = "\<lparr>ch_id = ''c'', ch_name = [], ch_type = ''webpush'', ch_enabled = True, ch_config = ''x''\<rparr>"
  let ?ctx = "BuildAlertContext \<lparr>ne_agents = \<lambda>_. None, ne_checks = \<lambda>_. None, ne_settings = [], ne_json = \<lambda>_. None,
      ne_show_time = \<lambda>_. []\<rparr> new_alert None"
  have rt: "record_table (pe_table push_host) sb_id set_sb_id"
    using sure_table_contract [OF subscriptions.record_table_axioms] by (simp add: push_host_def)
  have dels: "dels_succeed (pe_table push_host)"
    by (simp add: push_host_def dels_succeed_def sure_del_ok)
  have keys: "EnsureVAPIDKeys (pe_keys push_host) (pu_keys two_devices) =
      (pu_keys two_devices, Inr (''P'', ''S'', ''mailto:admin@localhost''))"
    by (simp add: EnsureVAPIDKeys_def push_host_def two_devices_def one_key_def settingString_def getSettingValue_def
        find_setting_def hubsecrets_Get_def Let_def)
  have cfg: "ParseChannelConfig (\<lambda>_. Some (AObj [])) ?channel = Inr []" by (simp add: ParseChannelConfig_def)
  have subs: "SubscriptionsForAudience push_host (if GetConfigString [] ''audience'' = [] then ''all''
      else GetConfigString [] ''audience'') two_devices = Some (map snd (m_rows (pu_subs two_devices)))"
    by (simp add: SubscriptionsForAudience_def push_host_def sure_sel mem_table_def mem_all_def GetConfigString_def aget_def
        str_of_def in_audience_def two_devices_def mem_find_def set_sb_id_def map_filter_simps)
  define st' where "st' = fst (webpush_notifier push_host (\<lambda>_. Some (AObj [])) (\<lambda>_. []) 0 new_alert ?channel ?ctx two_devices)"
  note T = webpush_prunes_exactly_the_gone [OF rt dels keys cfg subs, of "\<lambda>_. []" 0 new_alert ?ctx,
      unfolded Let_def case_prod_beta, folded st'_def]
  have sub: "map snd (m_rows (pu_subs two_devices)) =
      [\<lparr>sb_id = ''a'', sb_user_id = ''u'', sb_endpoint = ''x'', sb_p256dh = ''BNc'', sb_auth = ''tBH''\<rparr>,
       \<lparr>sb_id = ''b'', sb_user_id = ''u'', sb_endpoint = ''y'', sb_p256dh = ''BNc'', sb_auth = ''tBH''\<rparr>]"
    by (simp add: two_devices_def)
  have table: "pe_table push_host = sure_table sb_id set_sb_id" by (simp add: push_host_def)
  have gone: "gone push_host r \<longleftrightarrow> pq_endpoint r = ''x''" for r by (simp add: gone_def push_host_def)
  have sent: "pu_sent two_devices = []" by (simp add: two_devices_def)
  have b: "t_find (sure_table sb_id set_sb_id) (pu_subs two_devices) ''b'' \<noteq> None"
    by (simp add: sure_sel mem_table_def mem_find_def two_devices_def)
  have "map pq_endpoint (pu_sent st') = [''x'', ''y'']" using T by (simp add: sub sent push_request_for_def)
  moreover have "t_find (sure_table sb_id set_sb_id) (pu_subs st') ''a'' = None"
    using T by (simp add: sub table gone push_request_for_def)
  moreover have "t_find (sure_table sb_id set_sb_id) (pu_subs st') ''b'' \<noteq> None"
    using T b by (simp add: sub table gone push_request_for_def)
  ultimately show ?thesis unfolding Let_def st'_def by blast
qed

end
