(* ===== verification/Audit_Log.thy ===== *)
theory Audit_Log
  imports Authz
begin

text \<open>
  The audit log (\<open>internal/hub/audit\<close>): the row written for an action, and the hooks that audit the
  mutations made through PocketBase's own API. A record of a collection is the function \<open>GetString\<close>;
  the JSON codec, the store's failures and the request being audited are parameters.
\<close>

section \<open>Entries\<close>

record Entry =
  ey_Action :: string
  ey_TargetType :: string
  ey_TargetID :: string
  ey_AgentID :: string
  ey_Details :: "obj option"
  ey_Result :: string

record audit_row =
  aw_action :: string
  aw_target_type :: string
  aw_target_id :: string
  aw_agent_id :: string
  aw_result :: string
  aw_details :: string
  aw_actor_id :: string
  aw_actor_email :: string
  aw_actor_role :: string
  aw_ip :: string
  aw_request_id :: string

record request_event =
  rv_Auth :: "auth option"
  rv_RealIP :: string
  rv_RequestID :: string

definition actorRole :: "auth option \<Rightarrow> string" where
  "actorRole auth =
     (case auth of
        None \<Rightarrow> []
      | Some a \<Rightarrow>
          if au_superuser a then ''admin''
          else if au_collection a = ''users'' then (if au_role a \<noteq> [] then au_role a else ''viewer'')
          else ''viewer'')"

text \<open>\<open>encode\<close> is \<open>json.Marshal\<close>; without a request event the actor stays empty.\<close>

definition audit_row_of :: "(obj \<Rightarrow> string option) \<Rightarrow> request_event option \<Rightarrow> Entry \<Rightarrow> audit_row" where
  "audit_row_of encode e entry =
     (let auth = (case e of None \<Rightarrow> None | Some ev \<Rightarrow> rv_Auth ev) in
      \<lparr>aw_action = ey_Action entry, aw_target_type = ey_TargetType entry, aw_target_id = ey_TargetID entry,
       aw_agent_id = ey_AgentID entry, aw_result = ey_Result entry,
       aw_details = (case ey_Details entry of None \<Rightarrow> [] | Some d \<Rightarrow> (case encode d of None \<Rightarrow> [] | Some s \<Rightarrow> s)),
       aw_actor_id = (case auth of None \<Rightarrow> [] | Some a \<Rightarrow> au_id a),
       aw_actor_email = (case auth of None \<Rightarrow> [] | Some a \<Rightarrow> au_email a),
       aw_actor_role = actorRole auth,
       aw_ip = (case e of None \<Rightarrow> [] | Some ev \<Rightarrow> rv_RealIP ev),
       aw_request_id = (case e of None \<Rightarrow> [] | Some ev \<Rightarrow> rv_RequestID ev)\<rparr>)"

text \<open>\<open>Record\<close>: the log grows by one row, or stays as it is when the store fails.\<close>

definition Record_entry ::
  "(obj \<Rightarrow> string option) \<Rightarrow> bool \<Rightarrow> bool \<Rightarrow> request_event option \<Rightarrow> Entry \<Rightarrow> audit_row list \<Rightarrow> audit_row list" where
  "Record_entry encode has_collection saves e entry rows =
     (if has_collection \<and> saves then rows @ [audit_row_of encode e entry] else rows)"

text \<open>The sorted names of the fields of a JSON object; \<open>None\<close> is the nil slice.\<close>

fun str_le :: "string \<Rightarrow> string \<Rightarrow> bool" where
  "str_le [] t = True"
| "str_le (x # xs) [] = False"
| "str_le (x # xs) (y # ys) = (char_code x < char_code y \<or> x = y \<and> str_le xs ys)"

fun insert_name :: "string \<Rightarrow> string list \<Rightarrow> string list" where
  "insert_name x [] = [x]"
| "insert_name x (y # ys) = (if x = y then y # ys else if str_le x y then x # y # ys else y # insert_name x ys)"

definition redactedFieldNames :: "(string \<Rightarrow> any option) \<Rightarrow> string \<Rightarrow> string list option" where
  "redactedFieldNames json jsonValue =
     (if jsonValue = [] then None
      else
        case json jsonValue of
          Some (AObj m) \<Rightarrow> Some (fold insert_name (map fst m) [])
        | Some ANil \<Rightarrow> Some []
        | _ \<Rightarrow> None)"

section \<open>Hooks\<close>

type_synonym fields_of = "string \<Rightarrow> string"

record mutationSpec =
  ms_collection :: string
  ms_actionPrefix :: string
  ms_ops :: "string list"
  ms_details :: "fields_of \<Rightarrow> obj"

definition allOps :: "string list" where
  "allOps = [''create'', ''update'', ''delete'']"

definition pick :: "string list \<Rightarrow> fields_of \<Rightarrow> obj" where
  "pick names r = map (\<lambda>n. (n, AStr (r n))) names"

definition mutationSpecs :: "(string \<Rightarrow> any option) \<Rightarrow> mutationSpec list" where
  "mutationSpecs json =
     [\<lparr>ms_collection = ''alert_rules'', ms_actionPrefix = ''alert_rule'', ms_ops = allOps,
       ms_details = pick [''name'', ''metric_type'']\<rparr>,
      \<lparr>ms_collection = ''notification_channels'', ms_actionPrefix = ''notification_channel'', ms_ops = allOps,
       ms_details = (\<lambda>r. pick [''name'', ''type''] r @
         [(''config_fields'', (case redactedFieldNames json (r ''config'') of None \<Rightarrow> ANil | Some ns \<Rightarrow> AArr (map AStr ns)))])\<rparr>,
      \<lparr>ms_collection = ''silences'', ms_actionPrefix = ''silence'', ms_ops = allOps,
       ms_details = pick [''name'', ''agent_id'']\<rparr>,
      \<lparr>ms_collection = ''checks'', ms_actionPrefix = ''check'', ms_ops = allOps, ms_details = pick [''name'', ''type'']\<rparr>,
      \<lparr>ms_collection = ''users'', ms_actionPrefix = ''user'', ms_ops = allOps, ms_details = pick [''email'', ''role'']\<rparr>,
      \<lparr>ms_collection = ''agents'', ms_actionPrefix = ''agent'', ms_ops = [''delete''],
       ms_details = pick [''hostname'', ''ip'']\<rparr>]"

fun containsOp :: "string list \<Rightarrow> string \<Rightarrow> bool" where
  "containsOp [] op = False"
| "containsOp (o1 # ops) op = (if o1 = op then True else containsOp ops op)"

text \<open>
  A request on a record: \<open>nxt\<close> is the rest of the chain, which yields the record afterwards (a created one
  has its id then) and whether it succeeded. The entry of a deletion is made from the record before.
\<close>

record crud_request =
  cq_collection :: string
  cq_op :: string
  cq_event :: request_event
  cq_record :: fields_of

definition hook_entry :: "mutationSpec \<Rightarrow> string \<Rightarrow> fields_of \<Rightarrow> fields_of \<Rightarrow> Entry" where
  "hook_entry spec op before after =
     (let r = (if op = ''delete'' then before else after) in
      \<lparr>ey_Action = ms_actionPrefix spec @ ''.'' @ op, ey_TargetType = ms_collection spec, ey_TargetID = r ''id'',
       ey_AgentID = [], ey_Details = Some (ms_details spec r), ey_Result = ''success''\<rparr>)"

definition hook ::
  "(obj \<Rightarrow> string option) \<Rightarrow> bool \<Rightarrow> bool \<Rightarrow> mutationSpec \<Rightarrow> crud_request \<Rightarrow> ('db \<Rightarrow> 'db \<times> fields_of \<times> bool)
   \<Rightarrow> 'db \<times> audit_row list \<Rightarrow> ('db \<times> audit_row list) \<times> bool" where
  "hook encode has_collection saves spec q nxt = (\<lambda>(db, rows).
     case nxt db of
       (db', after, ok) \<Rightarrow>
         ((db', if ok then Record_entry encode has_collection saves (Some (cq_event q))
                             (hook_entry spec (cq_op q) (cq_record q) after) rows else rows), ok))"

text \<open>\<open>RegisterHooks\<close>: the hook of the collection, when it audits the operation.\<close>

definition audited_spec :: "(string \<Rightarrow> any option) \<Rightarrow> crud_request \<Rightarrow> mutationSpec option" where
  "audited_spec json q = find (\<lambda>s. ms_collection s = cq_collection q \<and> containsOp (ms_ops s) (cq_op q)) (mutationSpecs json)"

definition serve_crud ::
  "(string \<Rightarrow> any option) \<Rightarrow> (obj \<Rightarrow> string option) \<Rightarrow> bool \<Rightarrow> bool \<Rightarrow> crud_request \<Rightarrow> ('db \<Rightarrow> 'db \<times> fields_of \<times> bool)
   \<Rightarrow> 'db \<times> audit_row list \<Rightarrow> ('db \<times> audit_row list) \<times> bool" where
  "serve_crud json encode has_collection saves q nxt = (\<lambda>(db, rows).
     case audited_spec json q of
       None \<Rightarrow> (case nxt db of (db', _, ok) \<Rightarrow> ((db', rows), ok))
     | Some spec \<Rightarrow> hook encode has_collection saves spec q nxt (db, rows))"

section \<open>Transparency and secrecy\<close>

lemma containsOp_iff: "containsOp ops op \<longleftrightarrow> op \<in> set ops"
  by (induction ops) auto

text \<open>The role in the log is the role the authorisation uses, except for a role the latter does not know.\<close>

lemma actorRole_agrees:
  "actorRole (Some a) = Role_String (RoleOfRecord (Some a)) \<longleftrightarrow>
     au_superuser a \<or> au_collection a \<noteq> ''users'' \<or> au_role a \<in> {[], ''viewer'', ''operator'', ''admin''}"
  by (auto simp: actorRole_def RoleOfRecord_def ParseRole_def)

lemma audit_row_actor:
  "aw_actor_role (audit_row_of encode (Some ev) entry) = actorRole (rv_Auth ev)"
  by (simp add: audit_row_of_def Let_def)

text \<open>What a log entry may depend on: these fields, and the names of the fields of \<open>config\<close>.\<close>

definition same_public :: "(string \<Rightarrow> any option) \<Rightarrow> fields_of \<Rightarrow> fields_of \<Rightarrow> bool" where
  "same_public json r1 r2 \<longleftrightarrow>
     list_all (\<lambda>f. r1 f = r2 f) [''id'', ''name'', ''metric_type'', ''type'', ''agent_id'', ''email'', ''role'', ''hostname'', ''ip''] \<and>
     redactedFieldNames json (r1 ''config'') = redactedFieldNames json (r2 ''config'')"

lemma details_public:
  assumes "same_public json r1 r2" and "spec \<in> set (mutationSpecs json)"
  shows "ms_details spec r1 = ms_details spec r2"
  using assms by (auto simp: same_public_def mutationSpecs_def pick_def)

lemma entry_public:
  assumes "same_public json b1 b2" and "same_public json a1 a2" and "spec \<in> set (mutationSpecs json)"
  shows "hook_entry spec op b1 a1 = hook_entry spec op b2 a2"
  using assms details_public [OF assms(1,3)] details_public [OF assms(2,3)]
  by (simp add: hook_entry_def Let_def same_public_def)

lemma audited_spec_mem: "audited_spec json q = Some spec \<Longrightarrow> spec \<in> set (mutationSpecs json)"
  by (auto simp: audited_spec_def find_Some_iff)

text \<open>C25: Auditing never changes what a request does or answers; a successful request on an audited
  collection and operation adds exactly one row (when the log can be written), any other none; and the log
  depends on no secret: two requests whose records agree on the listed public fields and on the names of the
  configuration's fields leave the same log, whatever passwords, tokens or configuration values they carry.\<close>

theorem audit_is_transparent_and_hides_secrets:
  assumes "nxt1 db1 = (db1', a1, ok)" and "nxt2 db2 = (db2', a2, ok)"
    and "same_public json (cq_record q) r2" and "same_public json a1 a2"
  shows "snd (serve_crud json enc col sav q nxt1 (db1, rows)) = ok \<and>
    fst (fst (serve_crud json enc col sav q nxt1 (db1, rows))) = db1' \<and>
    length (snd (fst (serve_crud json enc col sav q nxt1 (db1, rows)))) =
      length rows + (if ok \<and> col \<and> sav \<and> audited_spec json q \<noteq> None then 1 else 0) \<and>
    snd (fst (serve_crud json enc col sav (q\<lparr>cq_record := r2\<rparr>) nxt2 (db2, rows))) =
      snd (fst (serve_crud json enc col sav q nxt1 (db1, rows)))"
proof -
  have same: "audited_spec json (q\<lparr>cq_record := r2\<rparr>) = audited_spec json q" by (simp add: audited_spec_def)
  show ?thesis
  proof (cases "audited_spec json q")
    case None
    then show ?thesis using assms(1,2) by (simp add: serve_crud_def same)
  next
    case (Some spec)
    have "hook_entry spec (cq_op q) (cq_record q) a1 = hook_entry spec (cq_op q) r2 a2"
      by (rule entry_public [OF assms(3,4) audited_spec_mem [OF Some]])
    then show ?thesis using assms(1,2) Some by (simp add: serve_crud_def same hook_def Record_entry_def)
  qed
qed

definition channel_fields :: "string \<Rightarrow> fields_of" where
  "channel_fields secret = (\<lambda>f. if f = ''id'' then ''c1'' else if f = ''type'' then ''telegram'' else if f = ''config'' then secret else [])"

definition channel_create :: "string \<Rightarrow> crud_request" where
  "channel_create secret = \<lparr>cq_collection = ''notification_channels'', cq_op = ''create'',
     cq_event = \<lparr>rv_Auth = None, rv_RealIP = ''::1'', rv_RequestID = ''r''\<rparr>, cq_record = channel_fields secret\<rparr>"

theorem audit_is_transparent_and_hides_secrets_witness:
  "snd (fst (serve_crud (\<lambda>s. Some (AObj [(''bot_token'', AStr s)])) (\<lambda>_. Some ''d'') True True (channel_create ''secret'')
      (\<lambda>n. (n + 1, channel_fields ''secret'', True)) (0 :: nat, []))) =
   snd (fst (serve_crud (\<lambda>s. Some (AObj [(''bot_token'', AStr s)])) (\<lambda>_. Some ''d'') True True (channel_create ''hidden'')
      (\<lambda>n. (n + 1, channel_fields ''hidden'', True)) (0 :: nat, [])))"
proof -
  let ?json = "\<lambda>s. Some (AObj [(''bot_token'', AStr s)])"
  have pub: "same_public ?json (channel_fields ''secret'') (channel_fields ''hidden'')"
    by (simp add: same_public_def channel_fields_def redactedFieldNames_def)
  have pub': "same_public ?json (cq_record (channel_create ''secret'')) (channel_fields ''hidden'')"
    using pub by (simp add: channel_create_def)
  have upd: "channel_create ''secret''\<lparr>cq_record := channel_fields ''hidden''\<rparr> = channel_create ''hidden''"
    by (simp add: channel_create_def)
  show ?thesis
    using audit_is_transparent_and_hides_secrets [of "\<lambda>n. (n + 1, channel_fields ''secret'', True)" "0 :: nat" _ _ True
        "\<lambda>n. (n + 1, channel_fields ''hidden'', True)" "0 :: nat", OF refl refl pub' pub, of "\<lambda>_. Some ''d''" True True "[]"]
    by (simp only: upd)
qed

end
