(* ===== verification/Prometheus.thy ===== *)
theory Prometheus
  imports Audit_Log Ingest Checks Settings
begin

unbundle bit_operations_syntax

text \<open>
  The Prometheus endpoint (\<open>internal/hub/api/prometheus.go\<close>) and its bearer token
  (\<open>internal/hub/agenttoken\<close>): the text exposition and the comparison of hashes. SHA-256, the random
  token and \<open>strconv.FormatFloat\<close> are parameters; what the handler reads is the record \<open>prom_view\<close>.
\<close>

section \<open>Bearer token\<close>

text \<open>\<open>random\<close> is the outcome of reading random bytes, in hexadecimal.\<close>

definition token_Generate :: "(string \<Rightarrow> string) \<Rightarrow> string option \<Rightarrow> (string \<times> string) option" where
  "token_Generate hash random = map_option (\<lambda>p. (p, hash p)) random"

definition byte_of :: "char \<Rightarrow> 8 word" where
  "byte_of c = word_of_nat (char_code c)"

fun hash_diff :: "8 word \<Rightarrow> string \<Rightarrow> string \<Rightarrow> 8 word" where
  "hash_diff d (a # as) (b # bs) = hash_diff (d OR (byte_of a XOR byte_of b)) as bs"
| "hash_diff d _ _ = d"

definition constantTimeHashEqual :: "string \<Rightarrow> string \<Rightarrow> bool" where
  "constantTimeHashEqual a b = (if length a \<noteq> length b then False else hash_diff 0 a b = 0)"

text \<open>The token and the audit entry of the admin route; \<open>store\<close> writes the setting and may fail.\<close>

definition handleGeneratePrometheusToken ::
  "(string \<Rightarrow> string) \<Rightarrow> string option \<Rightarrow> (string \<Rightarrow> setting list \<Rightarrow> setting list \<times> bool) \<Rightarrow> setting list
   \<Rightarrow> setting list \<times> int \<times> string \<times> Entry option" where
  "handleGeneratePrometheusToken hash random store db =
     (case token_Generate hash random of
        None \<Rightarrow> (db, 500, ''failed to generate token'', None)
      | Some (plaintext, h) \<Rightarrow>
          (case store h db of
             (db', False) \<Rightarrow> (db', 500, ''failed to store token'', None)
           | (db', True) \<Rightarrow>
               (db', 200, plaintext,
                Some \<lparr>ey_Action = ''prometheus.token.generate'', ey_TargetType = ''settings'', ey_TargetID = ''prometheus_token'',
                      ey_AgentID = [], ey_Details = None, ey_Result = ''success''\<rparr>)))"

section \<open>Families and samples\<close>

record promMetricFamily =
  pf_name :: string
  pf_help :: string
  pf_typ :: string
  pf_buf :: string

definition newPromFamily :: "string \<Rightarrow> string \<Rightarrow> string \<Rightarrow> promMetricFamily" where
  "newPromFamily name help typ = \<lparr>pf_name = name, pf_help = help, pf_typ = typ, pf_buf = []\<rparr>"

definition escapePromLabelValue :: "string \<Rightarrow> string" where
  "escapePromLabelValue v =
     replace_byte CHR 0x0A [CHR 0x5C, CHR ''n'']
       (replace_byte CHR 0x22 [CHR 0x5C, CHR 0x22] (replace_byte CHR 0x5C [CHR 0x5C, CHR 0x5C] v))"

fun label_text :: "(string \<times> string) list \<Rightarrow> string" where
  "label_text [] = []"
| "label_text ((k, v) # ls) =
     k @ CHR ''='' # CHR 0x22 # escapePromLabelValue v @ CHR 0x22 # (if ls = [] then [] else CHR '','' # label_text ls)"

definition sample_line :: "(rat \<Rightarrow> string) \<Rightarrow> string \<Rightarrow> (string \<times> string) list \<Rightarrow> rat \<Rightarrow> string" where
  "sample_line fmt name labels value =
     (if labels = [] then name @ CHR '' '' # fmt value
      else name @ CHR ''{'' # label_text labels @ CHR ''}'' # CHR '' '' # fmt value)"

definition prom_add :: "(rat \<Rightarrow> string) \<Rightarrow> rat \<Rightarrow> (string \<times> string) list \<Rightarrow> promMetricFamily \<Rightarrow> promMetricFamily" where
  "prom_add fmt value labels f = f\<lparr>pf_buf := pf_buf f @ sample_line fmt (pf_name f) labels value @ [CHR 0x0A]\<rparr>"

definition prom_render :: "promMetricFamily \<Rightarrow> string" where
  "prom_render f =
     (if pf_buf f = [] then []
      else ''# HELP '' @ pf_name f @ '' '' @ pf_help f @ [CHR 0x0A] @ ''# TYPE '' @ pf_name f @ '' '' @ pf_typ f @ [CHR 0x0A] @
        pf_buf f @ [CHR 0x0A])"

section \<open>What is exposed\<close>

fun api_toFloat :: "any \<Rightarrow> rat option" where
  "api_toFloat (AFloat64 n) = Some n"
| "api_toFloat (AFloat32 n) = Some n"
| "api_toFloat (AInt n) = Some (of_int n)"
| "api_toFloat (AInt64 n) = Some (of_int n)"
| "api_toFloat (ANumber f) = f"
| "api_toFloat _ = None"

text \<open>The first root mount with a number, else the first mount.\<close>

fun root_percent :: "any list \<Rightarrow> rat option" where
  "root_percent [] = None"
| "root_percent (m # ms) =
     (case as_obj m of
        Some mount \<Rightarrow>
          if str_of (aget mount ''path'') = ''/''
          then (case api_toFloat (aget mount ''used_percent'') of Some v \<Rightarrow> Some v | None \<Rightarrow> root_percent ms)
          else root_percent ms
      | None \<Rightarrow> root_percent ms)"

definition extractDiskPercent :: "obj \<Rightarrow> rat" where
  "extractDiskPercent data =
     (case as_arr (aget data ''mounts'') of
        None \<Rightarrow> 0
      | Some [] \<Rightarrow> 0
      | Some (m # ms) \<Rightarrow>
          (case root_percent (m # ms) of
             Some v \<Rightarrow> v
           | None \<Rightarrow>
               (case as_obj m of
                  Some mount \<Rightarrow> (case api_toFloat (aget mount ''used_percent'') of Some v \<Rightarrow> v | None \<Rightarrow> 0)
                | None \<Rightarrow> 0)))"

definition add_number :: "any \<Rightarrow> rat \<Rightarrow> rat" where
  "add_number v x = (case api_toFloat v of Some n \<Rightarrow> x + n | None \<Rightarrow> x)"

definition sumNetworkRates :: "obj \<Rightarrow> rat \<times> rat" where
  "sumNetworkRates data =
     (case as_arr (aget data ''interfaces'') of
        None \<Rightarrow> (0, 0)
      | Some ifaces \<Rightarrow>
          fold (\<lambda>raw (rx, tx). case as_obj raw of
              None \<Rightarrow> (rx, tx)
            | Some iface \<Rightarrow>
                let name = str_of (aget iface ''name'') in
                if name = ''lo'' \<or> has_prefix name ''lo0'' then (rx, tx)
                else (add_number (aget iface ''bytes_recv_per_sec'') rx, add_number (aget iface ''bytes_sent_per_sec'') tx))
            ifaces (0, 0))"

text \<open>
  The collections as their queries return them (\<open>None\<close>: the query failed), the latest metrics by agent
  and type, and the clock.
\<close>

record prom_view =
  pv_uptime :: rat
  pv_now :: time
  pv_agents :: "agent list option"
  pv_latest :: "string \<Rightarrow> string \<Rightarrow> metric option"
  pv_by_type :: "string \<Rightarrow> string \<Rightarrow> obj option"
  pv_containers :: "container list option"
  pv_checks :: "check list option"
  pv_snapshot :: "string \<Rightarrow> Snapshot option"
  pv_rules :: "rule list option"
  pv_firing :: "alert list option"
  pv_fmt :: "rat \<Rightarrow> string"

definition latestMetricDataByType ::
  "(metric list \<Rightarrow> metric list) \<Rightarrow> ('m, metric) table \<Rightarrow> 'm \<Rightarrow> string \<Rightarrow> string \<Rightarrow> obj option" where
  "latestMetricDataByType newest M db agentID metricType =
     (case t_all M db (\<lambda>r. mt_agent_id r = agentID \<and> mt_type r = metricType) of
        None \<Rightarrow> None
      | Some rs \<Rightarrow> (case take 1 (newest rs) of [] \<Rightarrow> None | r # _ \<Rightarrow> mt_data r))"

definition rows_of :: "'r list option \<Rightarrow> 'r list" where
  "rows_of q = (case q of None \<Rightarrow> [] | Some rs \<Rightarrow> rs)"

fun insert_by :: "('r \<Rightarrow> string) \<Rightarrow> 'r \<Rightarrow> 'r list \<Rightarrow> 'r list" where
  "insert_by f x [] = [x]"
| "insert_by f x (y # ys) = (if str_le (f x) (f y) then x # y # ys else y # insert_by f x ys)"

definition sort_by_id :: "('r \<Rightarrow> string) \<Rightarrow> 'r list \<Rightarrow> 'r list" where
  "sort_by_id f xs = foldr (insert_by f) xs []"

definition flag :: "bool \<Rightarrow> rat" where
  "flag b = (if b then 1 else 0)"

definition agent_labels :: "agent \<Rightarrow> (string \<times> string) list" where
  "agent_labels a = [(''agent_id'', ag_id a), (''hostname'', ag_hostname a)]"

text \<open>The samples of one family, as values with labels; a family with one agent-wide value per agent.\<close>

type_synonym sample = "rat \<times> (string \<times> string) list"

definition metric_number :: "prom_view \<Rightarrow> string \<Rightarrow> string \<Rightarrow> agent \<Rightarrow> rat option" where
  "metric_number V metricType key a =
     (case pv_latest V (ag_id a) metricType of
        None \<Rightarrow> None
      | Some rec \<Rightarrow> (case mt_data rec of None \<Rightarrow> None | Some data \<Rightarrow> api_toFloat (aget data key)))"

definition metric_data :: "prom_view \<Rightarrow> string \<Rightarrow> agent \<Rightarrow> obj option" where
  "metric_data V metricType a = (case pv_latest V (ag_id a) metricType of None \<Rightarrow> None | Some rec \<Rightarrow> mt_data rec)"

definition per_agent :: "(agent \<Rightarrow> rat option) \<Rightarrow> agent list \<Rightarrow> sample list" where
  "per_agent f as = List.map_filter (\<lambda>a. map_option (\<lambda>v. (v, agent_labels a)) (f a)) as"

definition cve_samples :: "prom_view \<Rightarrow> agent \<Rightarrow> sample list" where
  "cve_samples V a =
     (case pv_by_type V (ag_id a) ''cve_scan'' of
        None \<Rightarrow> []
      | Some data \<Rightarrow>
          if as_bool (aget data ''available'') \<noteq> Some True then []
          else
            case as_obj (aget data ''totals'') of
              None \<Rightarrow> []
            | Some totals \<Rightarrow>
                List.map_filter (\<lambda>sev. map_option (\<lambda>v. (v, agent_labels a @ [(''severity'', sev)])) (api_toFloat (aget totals sev)))
                  (fold insert_name (map fst totals) []))"

definition container_labels :: "container \<Rightarrow> (string \<times> string) list" where
  "container_labels c = [(''agent_id'', ct_agent_id c), (''container'', ct_name c), (''image'', ct_image c)]"

definition check_labels :: "check \<Rightarrow> (string \<times> string) list" where
  "check_labels c = [(''check_id'', ck_id c), (''name'', ck_name c), (''type'', ck_type c)]"

definition probed :: "prom_view \<Rightarrow> (check \<times> Snapshot) list" where
  "probed V = List.map_filter (\<lambda>c. map_option (Pair c) (pv_snapshot V (ck_id c))) (sort_by_id ck_id (rows_of (pv_checks V)))"

definition firing_count :: "prom_view \<Rightarrow> string \<Rightarrow> nat" where
  "firing_count V sev =
     (let severity = map_of (rev (map (\<lambda>r. (r_id r, r_severity r)) (rows_of (pv_rules V))))
      in length (filter (\<lambda>a. severity (al_rule_id a) = Some sev) (rows_of (pv_firing V))))"

text \<open>The families in the order they are rendered: name, help, type, samples.\<close>

definition agent_families :: "prom_view \<Rightarrow> (string \<times> string \<times> string \<times> sample list) list" where
  "agent_families V =
     (let as = sort_by_id ag_id (rows_of (pv_agents V)) in
      [(''nexwatch_hub_uptime_seconds'', ''Seconds since the hub process started.'', ''counter'', [(pv_uptime V, [])]),
       (''nexwatch_agents_online'', ''Number of agents currently online.'', ''gauge'',
          [(of_nat (length (filter (\<lambda>a. ag_status a = ''online'') as)), [])]),
       (''nexwatch_agents_total'', ''Total number of registered agents.'', ''gauge'', [(of_nat (length as), [])]),
       (''nexwatch_agent_up'', ''Whether the agent is currently online (1) or not (0).'', ''gauge'',
          per_agent (\<lambda>a. Some (flag (ag_status a = ''online''))) as),
       (''nexwatch_cpu_percent'', ''Latest total CPU usage percent.'', ''gauge'', per_agent (metric_number V ''cpu'' ''total_percent'') as),
       (''nexwatch_memory_percent'', ''Latest memory used percent.'', ''gauge'', per_agent (metric_number V ''memory'' ''used_percent'') as),
       (''nexwatch_disk_percent'', ''Latest root filesystem used percent.'', ''gauge'',
          per_agent (\<lambda>a. map_option extractDiskPercent (metric_data V ''disk'' a)) as),
       (''nexwatch_network_rx_bytes_per_second'', ''Latest inbound network throughput, summed across non-loopback interfaces.'', ''gauge'',
          per_agent (\<lambda>a. map_option (\<lambda>d. fst (sumNetworkRates d)) (metric_data V ''network'' a)) as),
       (''nexwatch_network_tx_bytes_per_second'', ''Latest outbound network throughput, summed across non-loopback interfaces.'', ''gauge'',
          per_agent (\<lambda>a. map_option (\<lambda>d. snd (sumNetworkRates d)) (metric_data V ''network'' a)) as),
       (''nexwatch_load1'', ''1-minute load average.'', ''gauge'',
          per_agent (\<lambda>a. case pv_by_type V (ag_id a) ''sysinfo'' of None \<Rightarrow> None | Some d \<Rightarrow> api_toFloat (aget d ''load1'')) as),
       (''nexwatch_agent_dropped_messages_total'',
          ''Cumulative count of messages the agent's transport has discarded due to a full outgoing queue.'', ''counter'',
          per_agent (\<lambda>a. Some (ag_dropped_messages a)) as),
       (''nexwatch_cve_findings'', ''Latest CVE scan finding count by severity.'', ''gauge'', concat (map (cve_samples V) as))])"

definition other_families :: "prom_view \<Rightarrow> (string \<times> string \<times> string \<times> sample list) list" where
  "other_families V =
     (let cs = sort_by_id ct_id (rows_of (pv_containers V)); ps = probed V in
      [(''nexwatch_container_cpu_percent'', ''Latest per-container CPU usage percent.'', ''gauge'',
          map (\<lambda>c. (ct_cpu_percent c, container_labels c)) cs),
       (''nexwatch_container_memory_bytes'', ''Latest per-container memory usage in bytes.'', ''gauge'',
          map (\<lambda>c. (ct_memory_usage c, container_labels c)) cs),
       (''nexwatch_container_up'', ''Whether the container is currently running (1) or not (0).'', ''gauge'',
          map (\<lambda>c. (flag (ct_status c = ''running''), container_labels c)) cs),
       (''nexwatch_check_up'', ''Whether the check's most recent probe succeeded (1) or not (0).'', ''gauge'',
          map (\<lambda>(c, sn). (flag (sn_status sn = ''up''), check_labels c)) ps),
       (''nexwatch_check_latency_milliseconds'', ''Latency of the check's most recent probe, in milliseconds.'', ''gauge'',
          map (\<lambda>(c, sn). (sn_latency_ms sn, check_labels c)) ps),
       (''nexwatch_check_tls_expiry_seconds'', ''Seconds until the check's TLS certificate expires.'', ''gauge'',
          List.map_filter (\<lambda>(c, sn). if sn_tls_expires_at sn = 0 then None
             else Some (rat_of_int (t_sub (sn_tls_expires_at sn) (pv_now V)) / of_int second, check_labels c)) ps),
       (''nexwatch_alerts_firing'', ''Number of currently-firing alerts by severity.'', ''gauge'',
          map (\<lambda>sev. (of_nat (firing_count V sev), [(''severity'', sev)])) [''warning'', ''critical''])])"

definition family_text :: "(rat \<Rightarrow> string) \<Rightarrow> string \<times> string \<times> string \<times> sample list \<Rightarrow> string" where
  "family_text fmt = (\<lambda>(name, help, typ, samples).
     prom_render (fold (\<lambda>(v, labels). prom_add fmt v labels) samples (newPromFamily name help typ)))"

definition buildPrometheusExposition :: "prom_view \<Rightarrow> string" where
  "buildPrometheusExposition V = concat (map (family_text (pv_fmt V)) (agent_families V @ other_families V))"

definition handlePrometheusMetrics ::
  "(string \<Rightarrow> any option) \<Rightarrow> (string \<Rightarrow> string) \<Rightarrow> setting list \<Rightarrow> string \<Rightarrow> prom_view \<Rightarrow> int \<times> string" where
  "handlePrometheusMetrics json hash settings authorization V =
     (let storedHash = settingString json settings ''prometheus_token'' [] in
      if storedHash = [] then (404, ''prometheus exposition is not enabled'')
      else
        let provided = trim_prefix authorization ''Bearer '' in
        if provided = [] \<or> \<not> constantTimeHashEqual (hash provided) storedHash
        then (401, ''invalid or missing bearer token'')
        else (200, buildPrometheusExposition V))"

section \<open>The comparison\<close>

lemma char_code_less: "char_code c < 256"
  by (metis of_char_mod_256 mod_less_divisor zero_less_numeral)

lemma byte_of_inj: "byte_of a = byte_of b \<longleftrightarrow> a = b"
proof
  assume "byte_of a = byte_of b"
  then have "char_code a mod 256 = char_code b mod 256"
    by (simp add: byte_of_def word_of_nat_eq_iff take_bit_eq_mod)
  then have "char_code a = char_code b" using char_code_less [of a] char_code_less [of b] by simp
  then show "a = b" by simp
qed simp

lemma xor_zero_iff: "x XOR y = 0 \<longleftrightarrow> x = y" for x y :: "8 word"
  by (metis xor.assoc xor.left_neutral xor.right_neutral xor_self_eq)

lemma hash_diff_zero: "length a = length b \<Longrightarrow> hash_diff d a b = 0 \<longleftrightarrow> d = 0 \<and> a = b"
proof (induction d a b rule: hash_diff.induct)
  case (1 d x xs y ys)
  then show ?case by (auto simp: or_eq_0_iff xor_zero_iff byte_of_inj)
qed auto

lemma constantTimeHashEqual_iff: "constantTimeHashEqual a b \<longleftrightarrow> a = b"
  by (auto simp: constantTimeHashEqual_def hash_diff_zero)

section \<open>Reading an exposition\<close>

text \<open>
  A reader of the text format: a quoted value with its three escapes, the labels of a sample, a sample
  line, and the samples of a body (comments and blank lines are skipped).
\<close>

definition unescape :: "char \<Rightarrow> char option" where
  "unescape c = (if c = CHR 0x5C then Some CHR 0x5C else if c = CHR 0x22 then Some CHR 0x22
     else if c = CHR ''n'' then Some CHR 0x0A else None)"

fun read_value :: "string \<Rightarrow> (string \<times> string) option" where
  "read_value [] = None"
| "read_value (c # cs) =
     (if c = CHR 0x22 then Some ([], cs)
      else if c = CHR 0x5C then
        (case cs of
           [] \<Rightarrow> None
         | e # r \<Rightarrow> (case unescape e of None \<Rightarrow> None | Some d \<Rightarrow> map_option (\<lambda>(v, rest). (d # v, rest)) (read_value r)))
      else if c = CHR 0x0A then None
      else map_option (\<lambda>(v, rest). (c # v, rest)) (read_value cs))"

fun read_labels :: "nat \<Rightarrow> string \<Rightarrow> ((string \<times> string) list \<times> string) option" where
  "read_labels 0 s = None"
| "read_labels (Suc n) s =
     (case dropWhile (\<lambda>c. c \<noteq> CHR ''='') s of
        e # q # r \<Rightarrow>
          if q \<noteq> CHR 0x22 then None
          else
            (case read_value r of
               Some (v, d # rest) \<Rightarrow>
                 let l = (takeWhile (\<lambda>c. c \<noteq> CHR ''='') s, v) in
                 if d = CHR '','' then map_option (\<lambda>(ls, t). (l # ls, t)) (read_labels n rest)
                 else if d = CHR ''}'' then Some ([l], rest) else None
             | _ \<Rightarrow> None)
      | _ \<Rightarrow> None)"

definition name_char :: "char \<Rightarrow> bool" where
  "name_char c \<longleftrightarrow> c \<noteq> CHR '' '' \<and> c \<noteq> CHR ''{''"

definition parse_sample :: "string \<Rightarrow> (string \<times> (string \<times> string) list \<times> string) option" where
  "parse_sample l =
     (case dropWhile name_char l of
        [] \<Rightarrow> None
      | c # r \<Rightarrow>
          if c = CHR '' '' then Some (takeWhile name_char l, [], r)
          else (case read_labels (length r) r of
                  Some (ls, CHR '' '' # v) \<Rightarrow> Some (takeWhile name_char l, ls, v)
                | _ \<Rightarrow> None))"

definition read_exposition :: "string \<Rightarrow> (string \<times> (string \<times> string) list \<times> string) list" where
  "read_exposition text =
     List.map_filter parse_sample (filter (\<lambda>l. l \<noteq> [] \<and> hd l \<noteq> CHR ''#'') (split_byte CHR 0x0A text))"

section \<open>Round trip\<close>

definition esc :: "char \<Rightarrow> string" where
  "esc c = (if c = CHR 0x5C then [CHR 0x5C, CHR 0x5C] else if c = CHR 0x22 then [CHR 0x5C, CHR 0x22]
     else if c = CHR 0x0A then [CHR 0x5C, CHR ''n''] else [c])"

lemma escape_esc: "escapePromLabelValue v = concat (map esc v)"
  by (induction v) (simp_all add: escapePromLabelValue_def replace_byte_def esc_def)

lemma escape_no_newline: "CHR 0x0A \<notin> set (escapePromLabelValue v)"
  by (auto simp: escape_esc esc_def split: if_splits)

lemma read_escaped: "read_value (escapePromLabelValue v @ CHR 0x22 # rest) = Some (v, rest)"
  by (induction v) (auto simp: escape_esc esc_def unescape_def)

definition label_ok :: "string \<Rightarrow> bool" where
  "label_ok k \<longleftrightarrow> CHR ''='' \<notin> set k \<and> CHR 0x0A \<notin> set k"

definition labels_ok :: "(string \<times> string) list \<Rightarrow> bool" where
  "labels_ok ls \<longleftrightarrow> list_all (\<lambda>(k, _). label_ok k) ls"

definition samples_ok :: "sample list \<Rightarrow> bool" where
  "samples_ok ss \<longleftrightarrow> (\<forall>(v, ls) \<in> set ss. labels_ok ls)"

lemma labels_ok_simps [simp]: "labels_ok []" "labels_ok ((k, v) # ls) \<longleftrightarrow> label_ok k \<and> labels_ok ls"
  "labels_ok (a @ b) \<longleftrightarrow> labels_ok a \<and> labels_ok b"
  by (simp_all add: labels_ok_def)

lemma samples_ok_simps [simp]: "samples_ok []" "samples_ok ((v, ls) # ss) \<longleftrightarrow> labels_ok ls \<and> samples_ok ss"
  by (simp_all add: samples_ok_def)

lemma while_to: "c \<notin> set k \<Longrightarrow> takeWhile (\<lambda>x. x \<noteq> c) (k @ c # r) = k \<and> dropWhile (\<lambda>x. x \<noteq> c) (k @ c # r) = c # r"
  by (induction k) auto

lemma read_label_text:
  "labels \<noteq> [] \<Longrightarrow> labels_ok labels \<Longrightarrow> length labels \<le> n \<Longrightarrow>
     read_labels n (label_text labels @ CHR ''}'' # rest) = Some (labels, rest)"
proof (induction labels arbitrary: n)
  case (Cons l ls)
  obtain k v where l: "l = (k, v)" by (cases l)
  obtain m where n: "n = Suc m" "length ls \<le> m" using Cons.prems(3) by (cases n) auto
  have k: "CHR ''='' \<notin> set k" using Cons.prems(2) by (simp add: l label_ok_def)
  show ?case
  proof (cases "ls = []")
    case True
    then show ?thesis using while_to [OF k] by (simp add: n l read_escaped)
  next
    case False
    with Cons.IH [OF False _ n(2)] Cons.prems(2) show ?thesis using while_to [OF k] by (simp add: n l read_escaped)
  qed
qed simp

lemma length_label_text: "length labels \<le> length (label_text labels)"
proof (induction labels)
  case (Cons l ls)
  then show ?case by (cases l) auto
qed simp

definition name_ok :: "string \<Rightarrow> bool" where
  "name_ok n \<longleftrightarrow> n \<noteq> [] \<and> hd n \<noteq> CHR ''#'' \<and> list_all (\<lambda>c. name_char c \<and> c \<noteq> CHR 0x0A) n"

lemma while_name: "list_all name_char k \<Longrightarrow> \<not> name_char c \<Longrightarrow>
    takeWhile name_char (k @ c # r) = k \<and> dropWhile name_char (k @ c # r) = c # r"
  by (induction k) auto

lemma parse_sample_line:
  assumes "name_ok name" and "labels_ok labels"
  shows "parse_sample (sample_line fmt name labels value) = Some (name, labels, fmt value)"
proof -
  have n: "list_all name_char name" using assms(1) by (simp add: name_ok_def list_all_iff)
  have s: "\<not> name_char CHR '' ''" "\<not> name_char CHR ''{''" by (simp_all add: name_char_def)
  show ?thesis
  proof (cases "labels = []")
    case True
    then show ?thesis using while_name [OF n s(1)] by (simp add: parse_sample_def sample_line_def)
  next
    case False
    have "length labels \<le> length (label_text labels @ CHR ''}'' # CHR '' '' # fmt value)"
      using length_label_text [of labels] by simp
    from read_label_text [OF False assms(2) this] False show ?thesis
      using while_name [OF n s(2)] by (simp add: parse_sample_def sample_line_def)
  qed
qed

text \<open>A text made of lines is split into these lines.\<close>

definition unlines :: "string list \<Rightarrow> string" where
  "unlines ls = concat (map (\<lambda>l. l @ [CHR 0x0A]) ls)"

lemma unlines_append: "unlines (a @ b) = unlines a @ unlines b"
  by (simp add: unlines_def)

lemma unlines_concat: "unlines (concat (map f xs)) = concat (map (\<lambda>x. unlines (f x)) xs)"
  by (induction xs) (simp_all add: unlines_append, simp add: unlines_def)

lemma split_one: "c \<notin> set l \<Longrightarrow> split_byte c (l @ c # s) = l # split_byte c s"
  by (induction l) auto

lemma split_unlines: "list_all (\<lambda>l. CHR 0x0A \<notin> set l) ls \<Longrightarrow> split_byte CHR 0x0A (unlines ls) = ls @ [[]]"
  by (induction ls) (simp_all add: unlines_def split_one)

definition family_lines :: "(rat \<Rightarrow> string) \<Rightarrow> string \<times> string \<times> string \<times> sample list \<Rightarrow> string list" where
  "family_lines fmt = (\<lambda>(name, help, typ, samples).
     if samples = [] then []
     else [''# HELP '' @ name @ '' '' @ help, ''# TYPE '' @ name @ '' '' @ typ] @
       map (\<lambda>(v, labels). sample_line fmt name labels v) samples @ [[]])"

lemma fold_prom_add:
  "pf_buf (fold (\<lambda>(v, labels). prom_add fmt v labels) samples f) =
     pf_buf f @ unlines (map (\<lambda>(v, labels). sample_line fmt (pf_name f) labels v) samples) \<and>
   pf_name (fold (\<lambda>(v, labels). prom_add fmt v labels) samples f) = pf_name f \<and>
   pf_help (fold (\<lambda>(v, labels). prom_add fmt v labels) samples f) = pf_help f \<and>
   pf_typ (fold (\<lambda>(v, labels). prom_add fmt v labels) samples f) = pf_typ f"
proof (induction samples arbitrary: f)
  case (Cons x samples)
  show ?case using Cons.IH [of "prom_add fmt (fst x) (snd x) f"] by (cases x) (simp add: prom_add_def unlines_def)
qed (simp add: unlines_def)

lemma family_text_lines: "family_text fmt fam = unlines (family_lines fmt fam)"
proof -
  obtain name doc ty samples where fam: "fam = (name, doc, ty, samples)" by (metis prod_cases4)
  show ?thesis
    using fold_prom_add [of fmt samples "newPromFamily name doc ty"]
    by (cases samples) (auto simp: fam family_text_def family_lines_def prom_render_def newPromFamily_def unlines_def)
qed

definition family_ok :: "string \<times> string \<times> string \<times> sample list \<Rightarrow> bool" where
  "family_ok = (\<lambda>(name, help, typ, samples).
     name_ok name \<and> CHR 0x0A \<notin> set help \<and> CHR 0x0A \<notin> set typ \<and>
     samples_ok samples)"

definition family_samples :: "(rat \<Rightarrow> string) \<Rightarrow> string \<times> string \<times> string \<times> sample list
    \<Rightarrow> (string \<times> (string \<times> string) list \<times> string) list" where
  "family_samples fmt = (\<lambda>(name, help, typ, samples). map (\<lambda>(v, labels). (name, labels, fmt v)) samples)"

abbreviation is_sample :: "string \<Rightarrow> bool" where
  "is_sample l \<equiv> l \<noteq> [] \<and> hd l \<noteq> CHR ''#''"

lemma sample_line_is_sample: "name_ok name \<Longrightarrow> is_sample (sample_line fmt name labels v)"
  by (cases name) (auto simp: name_ok_def sample_line_def)

lemma map_filter_append [simp]: "List.map_filter f (a @ b) = List.map_filter f a @ List.map_filter f b"
  by (simp add: List.map_filter_def)

lemma read_family_lines:
  assumes "family_ok fam"
  shows "List.map_filter parse_sample (filter is_sample (family_lines fmt fam)) = family_samples fmt fam"
proof -
  obtain name doc ty samples where fam: "fam = (name, doc, ty, samples)" by (metis prod_cases4)
  have name: "name_ok name" and labels: "samples_ok samples"
    using assms by (simp_all add: family_ok_def fam)
  have "List.map_filter parse_sample (filter is_sample (map (\<lambda>(v, labels). sample_line fmt name labels v) samples)) =
      map (\<lambda>(v, labels). (name, labels, fmt v)) samples"
    using labels
    by (induction samples) (auto simp: map_filter_simps sample_line_is_sample [OF name] parse_sample_line [OF name])
  then show ?thesis by (simp add: fam family_lines_def family_samples_def map_filter_simps)
qed

lemma label_text_no_newline: "labels_ok labels \<Longrightarrow> CHR 0x0A \<notin> set (label_text labels)"
  by (induction labels rule: label_text.induct) (auto simp: label_ok_def escape_no_newline)

lemma family_lines_no_newline:
  assumes "family_ok fam" and "\<And>v. CHR 0x0A \<notin> set (fmt v)"
  shows "list_all (\<lambda>l. CHR 0x0A \<notin> set l) (family_lines fmt fam)"
proof -
  obtain name doc ty samples where fam: "fam = (name, doc, ty, samples)" by (metis prod_cases4)
  have name: "CHR 0x0A \<notin> set name" and labels: "samples_ok samples"
    and rest: "CHR 0x0A \<notin> set doc" "CHR 0x0A \<notin> set ty"
    using assms(1) by (auto simp: family_ok_def fam name_ok_def list_all_iff)
  have "list_all (\<lambda>l. CHR 0x0A \<notin> set l) (map (\<lambda>(v, labels). sample_line fmt name labels v) samples)"
    using labels by (induction samples) (auto simp: sample_line_def name assms(2) dest: label_text_no_newline)
  then show ?thesis using name rest by (simp add: fam family_lines_def)
qed

lemma label_lists_ok [simp]:
  "labels_ok (agent_labels a)" "labels_ok (container_labels c)" "labels_ok (check_labels ch)" "label_ok ''severity''"
  by (simp_all add: agent_labels_def container_labels_def check_labels_def label_ok_def)

lemma samples_okI: "(\<And>v ls. (v, ls) \<in> set ss \<Longrightarrow> labels_ok ls) \<Longrightarrow> samples_ok ss"
  by (auto simp: samples_ok_def)

lemma samples_ok_map [simp]: "(\<And>x. labels_ok (snd (f x))) \<Longrightarrow> samples_ok (map f xs)"
  by (rule samples_okI) (metis image_iff list.set_map snd_conv)

lemma samples_ok_map_filter: "(\<And>x v ls. f x = Some (v, ls) \<Longrightarrow> labels_ok ls) \<Longrightarrow> samples_ok (List.map_filter f xs)"
  by (rule samples_okI) (auto simp: List.map_filter_def)

lemma per_agent_ok: "samples_ok (per_agent f as)"
  unfolding per_agent_def by (rule samples_ok_map_filter) auto

lemma cve_samples_ok: "samples_ok (cve_samples V a)"
  by (auto simp: cve_samples_def split: option.splits intro!: samples_ok_map_filter)

lemma samples_ok_concat: "(\<And>x. samples_ok (f x)) \<Longrightarrow> samples_ok (concat (map f xs))"
  by (fastforce simp: samples_ok_def)

lemma agent_families_ok: "list_all family_ok (agent_families V)"
  unfolding agent_families_def Let_def list.pred_inject family_ok_def prod.case
  by (intro conjI TrueI per_agent_ok samples_ok_concat cve_samples_ok) (simp_all add: name_ok_def name_char_def)

lemma other_families_ok: "list_all family_ok (other_families V)"
proof -
  have pairs: "labels_ok (snd (case x of (c, sn) \<Rightarrow> (f c sn, check_labels c)))" for x :: "check \<times> Snapshot" and f :: "check \<Rightarrow> Snapshot \<Rightarrow> rat"
    by (cases x) simp
  have tls: "samples_ok (List.map_filter (\<lambda>(c, sn). if sn_tls_expires_at sn = 0 then None
      else Some (rat_of_int (t_sub (sn_tls_expires_at sn) (pv_now V)) / of_int second, check_labels c)) ps)" for ps
    by (rule samples_ok_map_filter) (auto split: if_splits)
  show ?thesis
    unfolding other_families_def Let_def list.pred_inject family_ok_def prod.case
    by (intro conjI TrueI tls samples_ok_map pairs) (simp_all add: name_ok_def name_char_def)
qed

text \<open>C26: A reader of the text format gets back from the exposition exactly the samples that were put in, in
  order, with every label value as it was: host names, container names, images and check names may hold quotes,
  backslashes and line breaks without breaking a line or changing another sample.\<close>

theorem exposition_round_trip:
  assumes plain: "\<And>v. CHR 0x0A \<notin> set (pv_fmt V v)"
  shows "read_exposition (buildPrometheusExposition V) =
    concat (map (family_samples (pv_fmt V)) (agent_families V @ other_families V))"
proof -
  let ?fams = "agent_families V @ other_families V"
  have ok: "list_all family_ok ?fams" by (simp add: agent_families_ok other_families_ok)
  have body: "buildPrometheusExposition V = unlines (concat (map (family_lines (pv_fmt V)) ?fams))"
    unfolding buildPrometheusExposition_def unlines_concat family_text_lines [symmetric] by (rule refl)
  have lines: "list_all (\<lambda>l. CHR 0x0A \<notin> set l) (concat (map (family_lines (pv_fmt V)) ?fams))"
  proof -
    have "list_all (\<lambda>l. CHR 0x0A \<notin> set l) (concat (map (family_lines (pv_fmt V)) fams))" if "list_all family_ok fams" for fams
      using that by (induction fams) (simp_all add: family_lines_no_newline [where fmt = "pv_fmt V", OF _ plain])
    from this [OF ok] show ?thesis .
  qed
  have "List.map_filter parse_sample (filter is_sample (concat (map (family_lines (pv_fmt V)) fams))) =
      concat (map (family_samples (pv_fmt V)) fams)" if "list_all family_ok fams" for fams
    using that by (induction fams) (simp_all add: map_filter_simps read_family_lines)
  from this [OF ok] show ?thesis
    unfolding read_exposition_def body split_unlines [OF lines] filter_append map_filter_append
    by (simp only: filter.simps simp_thms if_False map_filter_simps append_Nil2)
qed

definition odd_host :: "string" where
  "odd_host = [CHR 0x22, CHR 0x0A, CHR 0x5C]"

definition odd_view :: prom_view where
  "odd_view = \<lparr>pv_uptime = 0, pv_now = 0,
     pv_agents = Some [\<lparr>ag_id = ''a'', ag_hostname = odd_host, ag_os = [], ag_ip = [], ag_version = [], ag_status = ''online'',
       ag_last_seen = 0, ag_token_hash = [], ag_tags = [], ag_arch = [], ag_platform = [], ag_update_status = [],
       ag_update_error = [], ag_update_target_version = [], ag_update_requested_at = 0, ag_update_requested_by = [],
       ag_dropped_messages = 0, ag_logs_lines_total = 0\<rparr>],
     pv_latest = (\<lambda>_ _. None), pv_by_type = (\<lambda>_ _. None), pv_containers = None, pv_checks = None,
     pv_snapshot = (\<lambda>_. None), pv_rules = None, pv_firing = None, pv_fmt = (\<lambda>v. if v = 0 then ''0'' else ''1'')\<rparr>"

theorem exposition_round_trip_witness:
  "(''nexwatch_agent_up'', [(''agent_id'', ''a''), (''hostname'', odd_host)], ''1'') \<in>
     set (read_exposition (buildPrometheusExposition odd_view))"
proof -
  have plain: "CHR 0x0A \<notin> set (pv_fmt odd_view v)" for v by (simp add: odd_view_def)
  let ?fam = "(''nexwatch_agent_up'', ''Whether the agent is currently online (1) or not (0).'', ''gauge'',
      [(1, [(''agent_id'', ''a''), (''hostname'', odd_host)])])"
  have "?fam \<in> set (agent_families odd_view)"
    by (simp add: agent_families_def odd_view_def Let_def rows_of_def sort_by_id_def per_agent_def map_filter_simps flag_def
        agent_labels_def)
  moreover have "(''nexwatch_agent_up'', [(''agent_id'', ''a''), (''hostname'', odd_host)], ''1'') \<in>
      set (family_samples (pv_fmt odd_view) ?fam)"
    by (simp add: family_samples_def odd_view_def)
  ultimately show ?thesis unfolding exposition_round_trip [OF plain] by (simp del: family_samples_def) blast
qed

end
