(* ===== verification/Host_Collectors.thy ===== *)
theory Host_Collectors
  imports Nexwatch_Prelude
begin

text \<open>
  The collectors of the agent that read the machine through gopsutil: \<open>cpu\<close>, \<open>memory\<close>, \<open>disk\<close>,
  \<open>sysinfo\<close>, \<open>network\<close>, \<open>diskio\<close>, \<open>ports\<close>, \<open>connections\<close> and \<open>processes\<close>
  (\<open>internal/agent/collector\<close>). The readings are arguments, with \<open>None\<close> for an error; counters are
  64-bit words. \<open>sort.Slice\<close> and the iteration of a Go map are parameters.
\<close>

section \<open>CPU, memory, disk, system information\<close>

abbreviation u64 :: "64 word \<Rightarrow> any" where
  "u64 w \<equiv> AUint64 (uint w)"

definition cpu_Collect :: "rat list option \<Rightarrow> rat list option \<Rightarrow> int \<Rightarrow> int \<Rightarrow> obj option" where
  "cpu_Collect total_reading per_core logicalCount physicalCount =
     (case total_reading of None \<Rightarrow> None | Some totalPercent \<Rightarrow>
        (case per_core of None \<Rightarrow> None | Some perCorePercent \<Rightarrow>
           Some [(''total_percent'', AFloat64 (case totalPercent of [] \<Rightarrow> 0 | t # _ \<Rightarrow> t)),
                 (''cores'', AArr (map (\<lambda>(i, pct). AObj [(''core'', AInt (int i)), (''percent'', AFloat64 pct)])
                    (enumerate 0 perCorePercent))),
                 (''logical_count'', AInt logicalCount), (''physical_count'', AInt physicalCount)]))"

record memory_stat =
  me_Total :: "64 word"
  me_Used :: "64 word"
  me_Available :: "64 word"
  me_Cached :: "64 word"
  me_Free :: "64 word"
  me_UsedPercent :: rat
  me_Buffers :: "64 word"

record swap_stat =
  sw_Total :: "64 word"
  sw_Used :: "64 word"
  sw_Free :: "64 word"
  sw_UsedPercent :: rat

definition memory_Collect :: "memory_stat option \<Rightarrow> swap_stat option \<Rightarrow> obj option" where
  "memory_Collect reading swap =
     (case reading of None \<Rightarrow> None | Some v \<Rightarrow>
        Some ([(''total'', u64 (me_Total v)), (''used'', u64 (me_Used v)), (''available'', u64 (me_Available v)),
               (''cached'', u64 (me_Cached v)), (''free'', u64 (me_Free v)), (''used_percent'', AFloat64 (me_UsedPercent v)),
               (''buffers'', u64 (me_Buffers v))]
          @ (case swap of None \<Rightarrow> [] | Some s \<Rightarrow>
               [(''swap_total'', u64 (sw_Total s)), (''swap_used'', u64 (sw_Used s)), (''swap_free'', u64 (sw_Free s)),
                (''swap_percent'', AFloat64 (sw_UsedPercent s))])))"

record usage_stat =
  us_Total :: "64 word"
  us_Used :: "64 word"
  us_Free :: "64 word"
  us_UsedPercent :: rat
  us_InodesTotal :: "64 word"
  us_InodesUsed :: "64 word"
  us_InodesFree :: "64 word"

text \<open>A partition is its mount point, device and file system type; one whose usage cannot be read is skipped.\<close>

definition disk_Collect :: "(string \<times> string \<times> string) list option \<Rightarrow> (string \<Rightarrow> usage_stat option) \<Rightarrow> obj option" where
  "disk_Collect partitions usage_of =
     (case partitions of None \<Rightarrow> None | Some ps \<Rightarrow>
        Some [(''mounts'', AArr (List.map_filter (\<lambda>(mountpoint, device, fstype).
          map_option (\<lambda>u. AObj [(''path'', AStr mountpoint), (''device'', AStr device), (''fstype'', AStr fstype),
              (''total'', u64 (us_Total u)), (''used'', u64 (us_Used u)), (''free'', u64 (us_Free u)),
              (''used_percent'', AFloat64 (us_UsedPercent u)), (''inodes_total'', u64 (us_InodesTotal u)),
              (''inodes_used'', u64 (us_InodesUsed u)), (''inodes_free'', u64 (us_InodesFree u))])
            (usage_of mountpoint)) ps))])"

record host_info =
  hi_Hostname :: string
  hi_OS :: string
  hi_Platform :: string
  hi_PlatformVersion :: string
  hi_KernelVersion :: string
  hi_Uptime :: "64 word"
  hi_BootTime :: "64 word"
  hi_Procs :: "64 word"

definition sysinfo_Collect :: "string \<Rightarrow> host_info option \<Rightarrow> (rat \<times> rat \<times> rat) option \<Rightarrow> obj option" where
  "sysinfo_Collect goarch reading avg =
     (case reading of None \<Rightarrow> None | Some info \<Rightarrow>
        Some ([(''hostname'', AStr (hi_Hostname info)), (''os'', AStr (hi_OS info)), (''platform'', AStr (hi_Platform info)),
               (''platform_version'', AStr (hi_PlatformVersion info)), (''kernel_version'', AStr (hi_KernelVersion info)),
               (''arch'', AStr goarch), (''uptime'', u64 (hi_Uptime info)), (''boot_time'', u64 (hi_BootTime info)),
               (''procs'', u64 (hi_Procs info))]
          @ (case avg of None \<Rightarrow> [] | Some (l1, l5, l15) \<Rightarrow>
               [(''load1'', AFloat64 l1), (''load5'', AFloat64 l5), (''load15'', AFloat64 l15)])))"

section \<open>Rates\<close>

text \<open>The elapsed time in seconds, and a difference of two counters as a float.\<close>

definition elapsed_seconds :: "time \<Rightarrow> time \<Rightarrow> rat" where
  "elapsed_seconds now ts = of_int (t_sub now ts) / of_int second"

definition counter_diff :: "64 word \<Rightarrow> 64 word \<Rightarrow> rat" where
  "counter_diff cur prev = of_int (uint (cur - prev))"

record iface =
  nf_Name :: string
  nf_BytesSent :: "64 word"
  nf_BytesRecv :: "64 word"
  nf_PacketsSent :: "64 word"
  nf_PacketsRecv :: "64 word"
  nf_Errin :: "64 word"
  nf_Errout :: "64 word"
  nf_Dropin :: "64 word"
  nf_Dropout :: "64 word"

definition rate :: "64 word \<Rightarrow> 64 word \<Rightarrow> rat \<Rightarrow> rat" where
  "rate prev cur elapsedSeconds =
     (if cur \<le> prev \<or> elapsedSeconds \<le> 0 then 0 else counter_diff cur prev / elapsedSeconds)"

text \<open>The previous reading of the interfaces, the last of two with the same name counting.\<close>

type_synonym 'c snapshot = "((string \<rightharpoonup> 'c) \<times> time) option"

definition iface_rates :: "iface snapshot \<Rightarrow> time \<Rightarrow> iface \<Rightarrow> rat \<times> rat" where
  "iface_rates prev now i =
     (case prev of
        None \<Rightarrow> (0, 0)
      | Some (counters, ts) \<Rightarrow>
          let elapsed = elapsed_seconds now ts in
          if elapsed > 0
          then (case counters (nf_Name i) of
                  None \<Rightarrow> (0, 0)
                | Some p \<Rightarrow> (rate (nf_BytesRecv p) (nf_BytesRecv i) elapsed, rate (nf_BytesSent p) (nf_BytesSent i) elapsed))
          else (0, 0))"

definition network_Collect :: "iface list option \<Rightarrow> time \<Rightarrow> iface snapshot \<Rightarrow> iface snapshot \<times> obj option" where
  "network_Collect reading now prev =
     (case reading of
        None \<Rightarrow> (prev, None)
      | Some counters \<Rightarrow>
          (Some (map_of (rev (map (\<lambda>i. (nf_Name i, i)) counters)), now),
           Some [(''interfaces'', AArr (map (\<lambda>i. case iface_rates prev now i of (rxPerSec, txPerSec) \<Rightarrow>
             AObj [(''name'', AStr (nf_Name i)), (''bytes_sent'', u64 (nf_BytesSent i)), (''bytes_recv'', u64 (nf_BytesRecv i)),
                   (''bytes_sent_per_sec'', AFloat64 txPerSec), (''bytes_recv_per_sec'', AFloat64 rxPerSec),
                   (''packets_sent'', u64 (nf_PacketsSent i)), (''packets_recv'', u64 (nf_PacketsRecv i)),
                   (''errin'', u64 (nf_Errin i)), (''errout'', u64 (nf_Errout i)), (''dropin'', u64 (nf_Dropin i)),
                   (''dropout'', u64 (nf_Dropout i))]) counters))]))"

record disk_stat =
  ds_ReadCount :: "64 word"
  ds_WriteCount :: "64 word"
  ds_ReadBytes :: "64 word"
  ds_WriteBytes :: "64 word"
  ds_IoTime :: "64 word"

definition isVirtualDevice :: "string \<Rightarrow> bool" where
  "isVirtualDevice name \<longleftrightarrow> has_prefix name ''loop'' \<or> has_prefix name ''ram'' \<or> has_prefix name ''dm-''"

definition disk_entry :: "disk_stat snapshot \<Rightarrow> time \<Rightarrow> string \<Rightarrow> disk_stat \<Rightarrow> obj" where
  "disk_entry prev now name cur =
     (let idle = [(''name'', AStr name), (''reads_per_sec'', AFloat64 0), (''writes_per_sec'', AFloat64 0),
                  (''read_bytes_per_sec'', AFloat64 0), (''write_bytes_per_sec'', AFloat64 0),
                  (''io_time_ms'', u64 (ds_IoTime cur))]
      in case prev of
        None \<Rightarrow> idle
      | Some (counters, ts) \<Rightarrow>
          let elapsed = elapsed_seconds now ts in
          if elapsed > 0
          then (case counters name of
                  None \<Rightarrow> idle
                | Some p \<Rightarrow>
                    [(''name'', AStr name),
                     (''reads_per_sec'', AFloat64 (counter_diff (ds_ReadCount cur) (ds_ReadCount p) / elapsed)),
                     (''writes_per_sec'', AFloat64 (counter_diff (ds_WriteCount cur) (ds_WriteCount p) / elapsed)),
                     (''read_bytes_per_sec'', AFloat64 (counter_diff (ds_ReadBytes cur) (ds_ReadBytes p) / elapsed)),
                     (''write_bytes_per_sec'', AFloat64 (counter_diff (ds_WriteBytes cur) (ds_WriteBytes p) / elapsed)),
                     (''io_time_ms'', if ds_IoTime p \<le> ds_IoTime cur then u64 (ds_IoTime cur - ds_IoTime p)
                                     else u64 (ds_IoTime cur))])
          else idle)"

text \<open>The counters are a Go map, given as its pairs in the order the loop meets them.\<close>

definition diskio_Collect ::
  "(string \<times> disk_stat) list option \<Rightarrow> time \<Rightarrow> disk_stat snapshot \<Rightarrow> disk_stat snapshot \<times> obj option" where
  "diskio_Collect reading now prev =
     (case reading of
        None \<Rightarrow> (prev, None)
      | Some counters \<Rightarrow>
          (Some (map_of counters, now),
           Some [(''devices'', AArr (map (\<lambda>(name, cur). AObj (disk_entry prev now name cur))
              (filter (\<lambda>(name, _). \<not> isVirtualDevice name) counters)))]))"

section \<open>Ports and connections\<close>

record conn =
  cn_Status :: string
  cn_Port :: nat
  cn_IP :: string
  cn_Type :: nat
  cn_Pid :: int

definition protocolName :: "nat \<Rightarrow> string" where
  "protocolName connType =
     (if connType = 1 then ''tcp'' else if connType = 2 then ''udp'' else ''unknown('' @ fmt_d (int connType) @ '')'')"

definition listener_key :: "conn \<Rightarrow> string" where
  "listener_key c = fmt_d (int (cn_Port c)) @ ''/'' @ protocolName (cn_Type c) @ ''/'' @ cn_IP c"

text \<open>The loop with its set of seen keys.\<close>

fun listeners :: "string list \<Rightarrow> conn list \<Rightarrow> conn list" where
  "listeners seen [] = []"
| "listeners seen (c # cs) =
     (if cn_Status c \<noteq> ''LISTEN'' \<or> listener_key c \<in> set seen then listeners seen cs
      else c # listeners (listener_key c # seen) cs)"

definition listener_obj :: "(int \<Rightarrow> string option) \<Rightarrow> conn \<Rightarrow> obj" where
  "listener_obj proc_name c =
     [(''port'', AUint64 (int (cn_Port c))), (''protocol'', AStr (protocolName (cn_Type c))), (''address'', AStr (cn_IP c)),
      (''pid'', AInt (cn_Pid c)),
      (''process'', AStr (if 0 < cn_Pid c then (case proc_name (cn_Pid c) of Some n \<Rightarrow> n | None \<Rightarrow> []) else []))]"

definition ports_Collect ::
  "(int \<Rightarrow> string option) \<Rightarrow> (conn list \<Rightarrow> conn list) \<Rightarrow> conn list option \<Rightarrow> obj option" where
  "ports_Collect proc_name sort_slice reading =
     (case reading of None \<Rightarrow> None | Some conns \<Rightarrow>
        let ls = sort_slice (listeners [] conns)
        in Some [(''listeners'', AArr (map (\<lambda>c. AObj (listener_obj proc_name c)) ls)), (''count'', AInt (int (length ls)))])"

definition tcp_states :: "string list" where
  "tcp_states = [''established'', ''time_wait'', ''close_wait'', ''listen'', ''syn_sent'', ''syn_recv'', ''fin_wait1'',
     ''fin_wait2'', ''last_ack'', ''closing'']"

definition conn_state :: "conn \<Rightarrow> string" where
  "conn_state c = (let state = to_lower (cn_Status c) in if state \<in> set tcp_states then state else ''other'')"

definition state_count :: "conn list \<Rightarrow> string \<Rightarrow> nat" where
  "state_count conns state = length (filter (\<lambda>c. conn_state c = state) conns)"

definition portEstablished :: "conn list \<Rightarrow> nat \<Rightarrow> nat" where
  "portEstablished conns port =
     length (filter (\<lambda>c. conn_state c = ''established'' \<and> 0 < cn_Port c \<and> cn_Port c = port) conns)"

definition summary_obj :: "(string \<Rightarrow> nat) \<Rightarrow> any" where
  "summary_obj n = AObj (map (\<lambda>st. (st, AInt (int (n st)))) (tcp_states @ [''other'']))"

text \<open>\<open>iter\<close> lists the set of listening ports in the order of the map, \<open>sort_slice\<close> sorts by the count.\<close>

definition connections_Collect ::
  "(nat list \<Rightarrow> nat list) \<Rightarrow> ((nat \<times> nat) list \<Rightarrow> (nat \<times> nat) list) \<Rightarrow> conn list option \<Rightarrow> obj" where
  "connections_Collect iter sort_slice reading =
     (case reading of
        None \<Rightarrow> [(''summary'', summary_obj (\<lambda>_. 0)), (''total'', AInt 0), (''by_port'', AArr [])]
      | Some conns \<Rightarrow>
          let ports = iter (remdups (map cn_Port (filter (\<lambda>c. conn_state c = ''listen'') conns)));
              portSlice = take 10 (sort_slice (map (\<lambda>port. (port, portEstablished conns port)) ports))
          in [(''summary'', summary_obj (state_count conns)), (''total'', AInt (int (length conns))),
              (''by_port'', AArr (map (\<lambda>(port, n). AObj [(''port'', AUint64 (int port)), (''established_count'', AInt (int n))])
                 portSlice))])"

section \<open>Processes\<close>

text \<open>The readings of one process; what cannot be read has its zero value, but for the name.\<close>

record proc =
  pr_PID :: int
  pr_Name :: "string option"
  pr_CPU :: rat
  pr_Memory :: rat
  pr_RSS :: "64 word"
  pr_Status :: string
  pr_User :: string
  pr_CmdLine :: string

definition roundTo2 :: "rat \<Rightarrow> rat" where
  "roundTo2 v = of_int (trunc_rat (v * 100)) / 100"

definition short_cmdline :: "string \<Rightarrow> string" where
  "short_cmdline cmdline = (if 200 < length cmdline then take 200 cmdline @ ''...'' else cmdline)"

definition proc_obj :: "proc \<Rightarrow> obj" where
  "proc_obj p =
     [(''pid'', AInt (pr_PID p)), (''name'', AStr (case pr_Name p of Some n \<Rightarrow> n | None \<Rightarrow> [])),
      (''cpu_percent'', AFloat64 (roundTo2 (pr_CPU p))), (''mem_percent'', AFloat64 (roundTo2 (pr_Memory p))),
      (''rss'', u64 (pr_RSS p)), (''status'', AStr (pr_Status p)), (''user'', AStr (pr_User p)),
      (''cmdline'', AStr (short_cmdline (pr_CmdLine p)))]"

definition top_procs :: "(proc list \<Rightarrow> proc list) \<Rightarrow> proc list \<Rightarrow> proc list" where
  "top_procs sort_slice procs = take 100 (sort_slice (filter (\<lambda>p. pr_Name p \<noteq> None) procs))"

definition processes_Collect :: "(proc list \<Rightarrow> proc list) \<Rightarrow> proc list option \<Rightarrow> obj option" where
  "processes_Collect sort_slice reading =
     (case reading of None \<Rightarrow> None | Some procs \<Rightarrow>
        Some [(''processes'', AArr (map (\<lambda>p. AObj (proc_obj p)) (top_procs sort_slice procs))),
              (''total_count'', AInt (int (length procs)))])"

text \<open>What \<open>sort.Slice\<close> with a descending key promises.\<close>

definition sorts_desc :: "('a \<Rightarrow> 'b :: linorder) \<Rightarrow> ('a list \<Rightarrow> 'a list) \<Rightarrow> bool" where
  "sorts_desc key f \<longleftrightarrow> (\<forall>xs. mset (f xs) = mset xs \<and> sorted_wrt (\<lambda>a b. key b \<le> key a) (f xs))"

section \<open>Properties\<close>

text \<open>An interface rate is the true difference of the counters over the elapsed time, and never negative.\<close>

lemma counter_diff_exact: "prev \<le> cur \<Longrightarrow> counter_diff cur prev = of_int (uint cur - uint prev)"
  by (simp add: counter_diff_def uint_minus_simple_alt)

lemma rate_exact:
  "0 < dt \<Longrightarrow> rate prev cur dt = of_int (max 0 (uint cur - uint prev)) / dt"
  by (auto simp: rate_def counter_diff_exact word_le_def max_def)

text \<open>
  A disk counter that went backwards, as after a device was re-attached, is not clamped: the wrapped
  difference is reported.
\<close>

lemma disk_counter_reset:
  "counter_diff 0 1 = 18446744073709551615"
  by (simp add: counter_diff_def unsigned_minus_1_eq_mask mask_eq_exp_minus_1)

lemma disk_reset_spikes:
  assumes "ds_ReadBytes cur = 0" and "counters name = Some p" and "ds_ReadBytes p = 1" and "now = ts + second"
  shows "aget (disk_entry (Some (counters, ts)) now name cur) ''read_bytes_per_sec'' = AFloat64 18446744073709551615"
  using assms by (simp add: disk_entry_def elapsed_seconds_def t_sub_def time_simps aget_def disk_counter_reset)

text \<open>Every listener is reported once, and the states of the connections add up to their number.\<close>

lemma listeners_keys:
  "distinct (map listener_key (listeners seen cs)) \<and> set (map listener_key (listeners seen cs)) \<inter> set seen = {}"
  by (induction seen cs rule: listeners.induct) auto

lemma listeners_iff:
  "k \<in> listener_key ` set (listeners seen cs) \<longleftrightarrow>
     k \<notin> set seen \<and> (\<exists>c \<in> set cs. cn_Status c = ''LISTEN'' \<and> listener_key c = k)"
proof (induction seen cs rule: listeners.induct)
  case (2 seen c cs)
  then show ?case by (cases "cn_Status c \<noteq> ''LISTEN'' \<or> listener_key c \<in> set seen") auto
qed simp

lemma states_add_up: "sum_list (map (state_count conns) (tcp_states @ [''other''])) = length conns"
proof (induction conns)
  case (Cons c conns)
  have "sum_list (map (\<lambda>st. if conn_state c = st then 1 else 0) (tcp_states @ [''other''])) = (1 :: nat)"
    by (simp add: tcp_states_def conn_state_def Let_def)
  moreover have "state_count (c # conns) = (\<lambda>st. (if conn_state c = st then 1 else 0) + state_count conns st)"
    by (auto simp: state_count_def)
  ultimately show ?case using Cons by (simp add: sum_list_addf)
qed (simp add: state_count_def tcp_states_def)

text \<open>
  The process list holds every readable process when there are at most a hundred, and otherwise none
  that uses less processor time than one that was left out.
\<close>

lemma sorts_desc_set: "sorts_desc key f \<Longrightarrow> set (f xs) = set xs"
  unfolding sorts_desc_def by (metis set_mset_mset)

lemma top_procs_set: "sorts_desc pr_CPU f \<Longrightarrow> set (top_procs f procs) \<subseteq> {p \<in> set procs. pr_Name p \<noteq> None}"
  unfolding top_procs_def using sorts_desc_set [of pr_CPU f] by (metis set_filter set_take_subset)

lemma top_procs_all:
  assumes "sorts_desc pr_CPU f" and "length (filter (\<lambda>p. pr_Name p \<noteq> None) procs) \<le> 100"
  shows "set (top_procs f procs) = {p \<in> set procs. pr_Name p \<noteq> None}"
proof -
  let ?xs = "filter (\<lambda>p. pr_Name p \<noteq> None) procs"
  have m: "mset (f ?xs) = mset ?xs" using assms(1) by (simp add: sorts_desc_def)
  then have "length (f ?xs) \<le> 100" using assms(2) by (metis size_mset)
  then have "top_procs f procs = f ?xs" by (simp add: top_procs_def)
  then show ?thesis using mset_eq_setD [OF m] by auto
qed

lemma top_procs_rank:
  assumes "sorts_desc pr_CPU f" and "p \<in> set (top_procs f procs)" and "q \<in> set procs" and "pr_Name q \<noteq> None"
    and "q \<notin> set (top_procs f procs)"
  shows "pr_CPU q \<le> pr_CPU p"
proof -
  let ?s = "f (filter (\<lambda>p. pr_Name p \<noteq> None) procs)"
  have "mset ?s = mset (filter (\<lambda>p. pr_Name p \<noteq> None) procs)" and s: "sorted_wrt (\<lambda>a b. pr_CPU b \<le> pr_CPU a) ?s"
    using assms(1) by (simp_all add: sorts_desc_def)
  from mset_eq_setD [OF this(1)] assms(3,4) have "q \<in> set ?s" by auto
  with assms(5) have "q \<in> set (drop 100 ?s)"
    unfolding top_procs_def by (metis Un_iff append_take_drop_id set_append)
  moreover have "sorted_wrt (\<lambda>a b. pr_CPU b \<le> pr_CPU a) (take 100 ?s @ drop 100 ?s)" using s by simp
  ultimately show ?thesis using assms(2) unfolding top_procs_def sorted_wrt_append by blast
qed

lemma top_procs_busier:
  assumes "sorts_desc pr_CPU f" and "q \<in> set (top_procs f procs)"
  shows "length (filter (\<lambda>p. pr_CPU q < pr_CPU p) (filter (\<lambda>p. pr_Name p \<noteq> None) procs)) < 100"
proof -
  let ?r = "filter (\<lambda>p. pr_Name p \<noteq> None) procs" and ?P = "\<lambda>p. pr_CPU q < pr_CPU p"
  have m: "mset (f ?r) = mset ?r" and s: "sorted_wrt (\<lambda>a b. pr_CPU b \<le> pr_CPU a) (f ?r)"
    using assms(1) by (simp_all add: sorts_desc_def)
  obtain i where i: "i < 100" "i < length (f ?r)" "f ?r ! i = q"
    using assms(2) unfolding top_procs_def by (auto simp: in_set_conv_nth)
  have "\<not> ?P (f ?r ! j)" if "i \<le> j" "j < length (f ?r)" for j
    using that i s by (cases "i = j") (auto simp: sorted_wrt_iff_nth_less not_less)
  then have "filter ?P (drop i (f ?r)) = []" by (auto simp: filter_empty_conv in_set_conv_nth)
  then have "filter ?P (f ?r) = filter ?P (take i (f ?r))"
    by (metis append_Nil2 append_take_drop_id filter_append)
  then have "length (filter ?P (f ?r)) \<le> i" by (metis length_filter_le length_take min.cobounded2 le_trans)
  moreover have "length (filter ?P (f ?r)) = length (filter ?P ?r)"
    using m by (metis mset_filter size_mset)
  ultimately show ?thesis using i(1) by simp
qed

end
