(* ===== verification/Service_Collectors.thy ===== *)
theory Service_Collectors
  imports Nexwatch_Prelude
begin

text \<open>
  The services collector (\<open>internal/agent/collector/services_linux.go\<close>, \<open>services_windows.go\<close>,
  \<open>services_mapping.go\<close>): the units \<open>systemctl\<close> lists, the mapping of Windows services to the same
  vocabulary, and the summary. The output of \<open>systemctl\<close> and the service control manager are
  arguments.
\<close>

section \<open>Linux\<close>

record service =
  sv_name :: string
  sv_load :: string
  sv_active :: string
  sv_sub :: string
  sv_description :: string

definition service_obj :: "service \<Rightarrow> obj" where
  "service_obj s = [(''name'', AStr (sv_name s)), (''load'', AStr (sv_load s)), (''active'', AStr (sv_active s)),
     (''sub'', AStr (sv_sub s)), (''description'', AStr (sv_description s))]"

definition trim_suffix :: "string \<Rightarrow> string \<Rightarrow> string" where
  "trim_suffix s p = (if has_suffix s p then take (length s - length p) s else s)"

text \<open>One line, with an optional status bullet in front; \<open>None\<close> when the loop skips it.\<close>

definition unit_of_fields :: "string list \<Rightarrow> service option" where
  "unit_of_fields fs =
     (case fs of
        unit # load # active # sub # rest \<Rightarrow>
          if active = ''inactive'' then None
          else Some \<lparr>sv_name = trim_suffix unit ''.service'', sv_load = load, sv_active = active, sv_sub = sub,
                     sv_description = str_join '' '' rest\<rparr>
      | _ \<Rightarrow> None)"

definition parse_unit :: "string \<Rightarrow> service option" where
  "parse_unit line =
     (let fs = Nexwatch_Prelude.fields line in
      if trim_space line = [] \<or> length fs < 4 then None
      else unit_of_fields (if has_suffix (hd fs) ''.service'' then fs else tl fs))"

definition envelope :: "any list \<Rightarrow> string list \<Rightarrow> obj" where
  "envelope services subs =
     (let running = length (filter (\<lambda>s. s = ''running'') subs); failed = length (filter (\<lambda>s. s = ''failed'') subs)
      in [(''services'', AArr services), (''total'', AInt (int (length services))), (''running'', AInt (int running)),
          (''failed'', AInt (int failed)), (''other'', AInt (int (length services) - int running - int failed))])"

definition listed_units :: "string \<Rightarrow> service list" where
  "listed_units out = take 100 (List.map_filter parse_unit (scan_lines out))"

text \<open>An error of \<open>systemctl\<close> gives the empty report.\<close>

definition services_Collect_linux :: "string option \<Rightarrow> obj" where
  "services_Collect_linux reading =
     (case reading of
        None \<Rightarrow> envelope [] []
      | Some out \<Rightarrow> envelope (map (\<lambda>s. AObj (service_obj s)) (listed_units out)) (map sv_sub (listed_units out)))"

section \<open>Windows\<close>

datatype windowsServiceState =
    windowsServiceUnknown
  | windowsServiceRunning
  | windowsServiceStopped
  | windowsServicePaused
  | windowsServiceStartPending
  | windowsServiceStopPending
  | windowsServiceContinuePending
  | windowsServicePausePending

datatype windowsStartType =
    windowsStartUnknown
  | windowsStartAutomatic
  | windowsStartAutomaticDelayed
  | windowsStartManual
  | windowsStartDisabled

definition windows_states :: "windowsServiceState \<Rightarrow> windowsStartType \<Rightarrow> string \<times> string" where
  "windows_states state startType =
     (case state of
        windowsServiceRunning \<Rightarrow> (''active'', ''running'')
      | windowsServicePaused \<Rightarrow> (''active'', ''paused'')
      | windowsServiceStartPending \<Rightarrow> (''activating'', ''start-pending'')
      | windowsServiceContinuePending \<Rightarrow> (''activating'', ''start-pending'')
      | windowsServiceStopPending \<Rightarrow> (''deactivating'', ''stop-pending'')
      | windowsServicePausePending \<Rightarrow> (''deactivating'', ''stop-pending'')
      | windowsServiceStopped \<Rightarrow>
          (''inactive'', if startType = windowsStartAutomatic \<or> startType = windowsStartAutomaticDelayed
                         then ''failed'' else ''stopped'')
      | windowsServiceUnknown \<Rightarrow> (''unknown'', ''unknown''))"

definition windowsStartTypeString :: "windowsStartType \<Rightarrow> string" where
  "windowsStartTypeString t =
     (case t of
        windowsStartAutomatic \<Rightarrow> ''automatic''
      | windowsStartAutomaticDelayed \<Rightarrow> ''automatic (delayed)''
      | windowsStartManual \<Rightarrow> ''manual''
      | windowsStartDisabled \<Rightarrow> ''disabled''
      | windowsStartUnknown \<Rightarrow> ''unknown'')"

definition mapWindowsService :: "string \<Rightarrow> windowsServiceState \<Rightarrow> windowsStartType \<Rightarrow> string \<Rightarrow> obj" where
  "mapWindowsService name state startType description =
     (case windows_states state startType of (active, sub) \<Rightarrow>
        [(''name'', AStr name), (''load'', AStr ''loaded''), (''active'', AStr active), (''sub'', AStr sub),
         (''start_type'', AStr (windowsStartTypeString startType)), (''description'', AStr description)])"

definition summarizeWindowsServices :: "obj list \<Rightarrow> obj" where
  "summarizeWindowsServices services =
     (let ss = take 100 services in envelope (map AObj ss) (map (\<lambda>s. str_of (aget s ''sub'')) ss))"

text \<open>The states and start types of the service control manager.\<close>

datatype svc_State =
  SvcStopped | SvcStartPending | SvcStopPending | SvcRunning | SvcContinuePending | SvcPausePending | SvcPaused | SvcOther nat

definition mapWindowsServiceState :: "svc_State \<Rightarrow> windowsServiceState" where
  "mapWindowsServiceState s =
     (case s of
        SvcRunning \<Rightarrow> windowsServiceRunning
      | SvcStopped \<Rightarrow> windowsServiceStopped
      | SvcPaused \<Rightarrow> windowsServicePaused
      | SvcStartPending \<Rightarrow> windowsServiceStartPending
      | SvcStopPending \<Rightarrow> windowsServiceStopPending
      | SvcContinuePending \<Rightarrow> windowsServiceContinuePending
      | SvcPausePending \<Rightarrow> windowsServicePausePending
      | SvcOther _ \<Rightarrow> windowsServiceUnknown)"

datatype mgr_Start = MgrAutomatic | MgrManual | MgrDisabled | MgrOther nat

definition mapWindowsStartType :: "mgr_Start \<Rightarrow> bool \<Rightarrow> windowsStartType" where
  "mapWindowsStartType raw delayedAutoStart =
     (case raw of
        MgrAutomatic \<Rightarrow> if delayedAutoStart then windowsStartAutomaticDelayed else windowsStartAutomatic
      | MgrManual \<Rightarrow> windowsStartManual
      | MgrDisabled \<Rightarrow> windowsStartDisabled
      | MgrOther _ \<Rightarrow> windowsStartUnknown)"

text \<open>
  What the manager answers for a name: \<open>None\<close> when the service cannot be opened or queried, else its
  state and, if it can be read, its start type, delay flag and description.
\<close>

type_synonym svc_answer = "(svc_State \<times> (mgr_Start \<times> bool \<times> string) option) option"

definition queryWindowsService :: "(string \<Rightarrow> svc_answer) \<Rightarrow> string \<Rightarrow> obj option" where
  "queryWindowsService M name =
     (case M name of
        None \<Rightarrow> None
      | Some (state, cfg) \<Rightarrow>
          (case (case cfg of None \<Rightarrow> (windowsStartUnknown, [])
                 | Some (raw, delayed, description) \<Rightarrow> (mapWindowsStartType raw delayed, description)) of
             (startType, description) \<Rightarrow> Some (mapWindowsService name (mapWindowsServiceState state) startType description)))"

text \<open>\<open>None\<close> stands for a failure to connect or to list the services.\<close>

definition services_Collect_windows :: "(string \<Rightarrow> svc_answer) \<Rightarrow> string list option \<Rightarrow> obj" where
  "services_Collect_windows M listing =
     (case listing of
        None \<Rightarrow> summarizeWindowsServices []
      | Some names \<Rightarrow> summarizeWindowsServices (take 100 (List.map_filter (queryWindowsService M) names)))"

text \<open>Any other platform.\<close>

definition services_Collect_other :: "string \<Rightarrow> obj" where
  "services_Collect_other goos =
     (''available'', ABool False) # (''reason'', AStr (''services collector not implemented for '' @ goos)) # envelope [] []"

section \<open>Properties\<close>

lemma str_of_AStr [simp]: "str_of (AStr s) = s"
  by (simp add: str_of_def)

lemma service_obj_get [simp]:
  "aget (service_obj s) ''name'' = AStr (sv_name s)" "aget (service_obj s) ''active'' = AStr (sv_active s)"
  "aget (service_obj s) ''sub'' = AStr (sv_sub s)"
  by (simp_all add: service_obj_def aget_def)

lemma mapped_get [simp]:
  "aget (mapWindowsService n st ty d) ''name'' = AStr n"
  "aget (mapWindowsService n st ty d) ''active'' = AStr (fst (windows_states st ty))"
  "aget (mapWindowsService n st ty d) ''sub'' = AStr (snd (windows_states st ty))"
  by (simp_all add: mapWindowsService_def aget_def split: prod.splits)

text \<open>The lines of a text that ends every line with a newline.\<close>

definition unlines :: "string list \<Rightarrow> string" where
  "unlines ls = concat (map (\<lambda>l. l @ nl) ls)"

lemma split_line: "CHR 0x0A \<notin> set l \<Longrightarrow> split_byte CHR 0x0A (l @ CHR 0x0A # t) = l # split_byte CHR 0x0A t"
  by (induction l) auto

lemma split_terminated: "\<forall>l \<in> set ls. CHR 0x0A \<notin> set l \<Longrightarrow> split_byte CHR 0x0A (unlines ls) = ls @ [[]]"
  by (induction ls) (simp_all add: unlines_def nl_def split_line)

lemma scan_unlines:
  assumes "\<forall>l \<in> set ls. CHR 0x0A \<notin> set l \<and> length l < 65536 \<and> drop_cr l = l"
  shows "scan_lines (unlines ls) = ls"
proof -
  have t: "takeWhile (\<lambda>l. length l < 65536) ls = ls" using assms by (simp add: takeWhile_eq_all_conv)
  have m: "map drop_cr ls = ls" using assms by (simp add: map_idI)
  show ?thesis using assms by (simp add: scan_lines_def split_terminated Let_def t m)
qed

text \<open>The counts of an envelope add up, and the last is not negative.\<close>

lemma filter_two: "a \<noteq> b \<Longrightarrow> length (filter (\<lambda>s. s = a) xs) + length (filter (\<lambda>s. s = b) xs) \<le> length xs"
  by (induction xs) auto

lemma envelope_adds_up:
  assumes "length services = length subs"
  obtains r f other where "aget (envelope services subs) ''running'' = AInt r"
    and "aget (envelope services subs) ''failed'' = AInt f" and "aget (envelope services subs) ''other'' = AInt other"
    and "0 \<le> other" and "r + f + other = int (length services)"
proof -
  have "length (filter (\<lambda>s. s = ''running'') subs) + length (filter (\<lambda>s. s = ''failed'') subs) \<le> length subs"
    by (rule filter_two) simp
  then show thesis using assms by (intro that) (auto simp: envelope_def aget_def Let_def)
qed

text \<open>A listed unit is never inactive, and at most a hundred are listed.\<close>

lemma unit_not_inactive: "parse_unit l = Some s \<Longrightarrow> sv_active s \<noteq> ''inactive''"
  by (auto simp: parse_unit_def unit_of_fields_def Let_def split: if_splits list.splits)

lemma listed_not_inactive: "s \<in> set (listed_units out) \<Longrightarrow> sv_active s \<noteq> ''inactive''"
proof -
  assume "s \<in> set (listed_units out)"
  then have "s \<in> set (List.map_filter parse_unit (scan_lines out))" unfolding listed_units_def by (rule in_set_takeD)
  then show ?thesis using unit_not_inactive by (auto simp: List.map_filter_def)
qed

lemma listed_le_100: "length (listed_units out) \<le> 100"
  by (simp add: listed_units_def)

end
