(* ===== verification/Monitoring.thy ===== *)
theory Monitoring
  imports Host_Collectors Service_Collectors Alert_Eval
begin

text \<open>
  The agent's reports under the hub's rules: \<open>service_failed\<close> evaluated on what the services collector
  sends, \<open>process_down\<close> on what the processes collector sends. Both collectors cut their list at a
  hundred entries, and both rules read a missing entry as a failure. The hub stores the reports as
  JSON, which keeps the strings the rules look at; that is what \<open>shows_services\<close> and \<open>shows_processes\<close> say.
\<close>

section \<open>Services\<close>

definition shows_services :: "obj \<Rightarrow> (string \<times> string \<times> string) list \<Rightarrow> bool" where
  "shows_services data ss \<longleftrightarrow> (\<exists>os. aget data ''services'' = AArr (map AObj os)
     \<and> map (\<lambda>s. (str_of (aget s ''name''), str_of (aget s ''active''), str_of (aget s ''sub''))) os = ss)"

abbreviation unit_states :: "service \<Rightarrow> string \<times> string \<times> string" where
  "unit_states s \<equiv> (sv_name s, sv_active s, sv_sub s)"

lemma linux_report_shows:
  "shows_services (services_Collect_linux (Some out)) (map unit_states (listed_units out))"
  unfolding shows_services_def
  by (rule exI [of _ "map service_obj (listed_units out)"])
    (simp add: services_Collect_linux_def envelope_def aget_def [of "(_ # _)" "''services''"] Let_def comp_def)

definition failed_states :: "string \<times> string \<times> string \<Rightarrow> bool" where
  "failed_states s = (isFailedServiceState (fst (snd s)) \<or> isFailedServiceState (snd (snd s)))"

lemma service_verdict_map:
  "service_verdict target (map AObj os) =
     (case find (\<lambda>s. equal_fold (fst s) target)
        (map (\<lambda>s. (str_of (aget s ''name''), str_of (aget s ''active''), str_of (aget s ''sub''))) os) of
        None \<Rightarrow> (0, True)
      | Some s \<Rightarrow> if failed_states s then (0, True) else (1, False))"
  by (induction os) (simp_all add: failed_states_def)

lemma service_rule_finds:
  assumes "latestMetricData v aid ''services'' = Some data" and "shows_services data ss"
  shows "evalServiceFailed v aid target =
    Some (case find (\<lambda>s. equal_fold (fst s) target) ss of
            None \<Rightarrow> (0, True)
          | Some s \<Rightarrow> if failed_states s then (0, True) else (1, False))"
  using assms by (auto simp: evalServiceFailed_def shows_services_def service_verdict_map)

text \<open>Every unit that \<open>systemctl\<close> lists and the collector would report, were it not for the limit.\<close>

definition all_units :: "string \<Rightarrow> service list" where
  "all_units out = List.map_filter parse_unit (scan_lines out)"

lemma find_unique:
  assumes "i < length xs" and "\<And>j. j < length xs \<Longrightarrow> P (xs ! j) \<longleftrightarrow> j = i"
  shows "find P (take n xs) = (if i < n then Some (xs ! i) else None)"
proof (cases "i < n")
  case True
  then have i: "i < length (take n xs)" using assms(1) by simp
  have "\<forall>j < i. \<not> P (take n xs ! j)" using assms i by simp
  moreover have "P (take n xs ! i)" using assms i True by simp
  ultimately have "find P (take n xs) = Some (take n xs ! i)" using i by (metis find_Some_iff)
  then show ?thesis using True by simp
next
  case False
  have "\<not> P x" if "x \<in> set (take n xs)" for x
  proof -
    from that obtain j where "j < n" "j < length xs" "x = xs ! j" by (auto simp: in_set_conv_nth)
    then show ?thesis using assms(2) False by auto
  qed
  then show ?thesis using False by (simp add: find_None_iff)
qed

text \<open>The \<open>service_failed\<close> rule on a Linux host is exact for the first hundred reported units, whatever
  their number and order, and only for them: for a unit whose name occurs once it stays quiet exactly
  when the unit is among the first hundred and in neither a failed, an inactive nor a dead state. From the
  101st on, a running service raises the alert like a stopped one.
\<close>

theorem service_rule_sees_a_hundred:
  assumes "latestMetricData v aid ''services'' = Some data"
    and "shows_services data (map unit_states (listed_units out))"
    and "i < length (all_units out)"
    and "\<And>j. j < length (all_units out) \<Longrightarrow> equal_fold (sv_name (all_units out ! j)) target \<longleftrightarrow> j = i"
  shows "evalServiceFailed v aid target =
    Some (if i < 100 \<and> \<not> failed_states (unit_states (all_units out ! i)) then (1, False) else (0, True))"
proof -
  let ?P = "\<lambda>s. equal_fold (fst s) target"
  have "find ?P (map unit_states (listed_units out)) = find ?P (take 100 (map unit_states (all_units out)))"
    by (simp add: listed_units_def all_units_def take_map)
  also have "\<dots> = (if i < 100 then Some (map unit_states (all_units out) ! i) else None)"
    using assms(3,4) by (intro find_unique) auto
  finally show ?thesis using service_rule_finds [OF assms(1,2), of target] assms(3) by simp
qed

text \<open>
  On Windows a service that was stopped by hand, or is disabled, is reported with \<open>sub = stopped\<close> so
  that it does not breach; but its \<open>active\<close> state is \<open>inactive\<close>, which the rule takes for a failure.
\<close>

lemma stopped_windows_service_breaches:
  assumes "latestMetricData v aid ''services'' = Some data"
    and "shows_services data [(name, windows_states windowsServiceStopped startType)]"
  shows "evalServiceFailed v aid name = Some (0, True)"
  using service_rule_finds [OF assms, of name]
  by (simp add: windows_states_def failed_states_def isFailedServiceState_def equal_fold_def to_lower_def
      trim_space_def is_space_def lower_char_def)

section \<open>Processes\<close>

definition shows_processes :: "obj \<Rightarrow> proc list \<Rightarrow> bool" where
  "shows_processes data ps \<longleftrightarrow> (\<exists>os. aget data ''processes'' = AArr (map AObj os)
     \<and> map (\<lambda>m. (str_of (aget m ''name''), str_of (aget m ''cmdline''))) os
       = map (\<lambda>p. (str_of (aget (proc_obj p) ''name''), str_of (aget (proc_obj p) ''cmdline''))) ps)"

lemma process_report_shows: "processes_Collect f (Some procs) = Some data \<Longrightarrow> shows_processes data (top_procs f procs)"
  unfolding shows_processes_def
  by (rule exI [of _ "map proc_obj (top_procs f procs)"]) (auto simp: processes_Collect_def aget_def)

definition runs_target :: "string \<Rightarrow> proc \<Rightarrow> bool" where
  "runs_target target p \<longleftrightarrow>
     str_contains (to_lower (str_of (aget (proc_obj p) ''name''))) (to_lower target) \<or>
     str_contains (to_lower (str_of (aget (proc_obj p) ''cmdline''))) (to_lower target)"

lemma process_listed_map:
  "process_listed t (map AObj os) \<longleftrightarrow>
     (\<exists>(n, c) \<in> set (map (\<lambda>m. (str_of (aget m ''name''), str_of (aget m ''cmdline''))) os).
        str_contains (to_lower n) t \<or> str_contains (to_lower c) t)"
  by (induction os) auto

lemma process_rule_looks_at_top:
  assumes "latestMetricData v aid ''processes'' = Some data" and "shows_processes data ps"
  shows "evalProcessDown v aid target = Some (if \<exists>p \<in> set ps. runs_target target p then (1, False) else (0, True))"
  using assms by (auto simp: evalProcessDown_def shows_processes_def process_listed_map runs_target_def)

text \<open>The \<open>process_down\<close> rule is exact on a host with at most a hundred readable processes; on a busier
  one it raises the alert for a running process whenever a hundred others use more processor time.
\<close>

theorem process_rule_sees_the_busiest:
  assumes "latestMetricData v aid ''processes'' = Some data"
    and "shows_processes data (top_procs f procs)" and "sorts_desc pr_CPU f"
    and readable: "readable = filter (\<lambda>p. pr_Name p \<noteq> None) procs"
  shows "(length readable \<le> 100 \<longrightarrow> evalProcessDown v aid target =
            Some (if \<exists>p \<in> set readable. runs_target target p then (1, False) else (0, True)))
    \<and> ((\<forall>q \<in> set readable. runs_target target q \<longrightarrow> 100 \<le> length (filter (\<lambda>p. pr_CPU q < pr_CPU p) readable)) \<longrightarrow>
         evalProcessDown v aid target = Some (0, True))"
proof -
  note rule = process_rule_looks_at_top [OF assms(1,2), of target]
  have "set readable = {p \<in> set procs. pr_Name p \<noteq> None}" by (auto simp: readable)
  then have "set (top_procs f procs) = set readable" if "length readable \<le> 100"
    using top_procs_all [OF assms(3), of procs] that readable by simp
  moreover have "\<not> runs_target target q"
    if "q \<in> set (top_procs f procs)" and "\<forall>q \<in> set readable. runs_target target q \<longrightarrow>
        100 \<le> length (filter (\<lambda>p. pr_CPU q < pr_CPU p) readable)" for q
  proof -
    have "length (filter (\<lambda>p. pr_CPU q < pr_CPU p) readable) < 100"
      using top_procs_busier [OF assms(3) that(1)] readable by simp
    moreover have "q \<in> set readable" using top_procs_set [OF assms(3), of procs] that(1) by (auto simp: readable)
    ultimately show ?thesis using that(2) by fastforce
  qed
  ultimately show ?thesis unfolding rule by auto
qed

section \<open>Thresholds\<close>

text \<open>The stored report agrees with the sent one on the fields that are numbers.\<close>

definition keeps_numbers :: "obj \<Rightarrow> obj \<Rightarrow> bool" where
  "keeps_numbers sent stored \<longleftrightarrow> (\<forall>k. toFloat64 (aget stored k) = toFloat64 (aget sent k))"

text \<open>What the disk and the network collector can send.\<close>

definition from_collector :: "string \<Rightarrow> obj \<Rightarrow> bool" where
  "from_collector metricType sent \<longleftrightarrow>
     (metricType = ''disk'' \<and> (\<exists>partitions usage. disk_Collect partitions usage = Some sent)) \<or>
     (metricType = ''network'' \<and> (\<exists>reading now prev. snd (network_Collect reading now prev) = Some sent))"

lemma disk_keys: "disk_Collect partitions usage = Some sent \<Longrightarrow> toFloat64 (aget sent k) = None"
  by (auto simp: disk_Collect_def aget_def split: option.splits if_splits)

lemma network_keys: "snd (network_Collect reading now prev) = Some sent \<Longrightarrow> toFloat64 (aget sent k) = None"
  by (auto simp: network_Collect_def aget_def split: option.splits if_splits)

lemma blind_field: "from_collector t sent \<Longrightarrow> keeps_numbers sent data \<Longrightarrow> float_field2 data k1 k2 = None"
  by (auto simp: from_collector_def keeps_numbers_def float_field2_def disk_keys network_keys)

lemma cpu_rule_measures:
  assumes "cpu_Collect (Some (t # ts)) (Some cores) l p = Some sent" and "keeps_numbers sent data"
    and "latestMetricData v aid ''cpu'' = Some data"
  shows "getLatestMetricValue v aid ''cpu'' = Some t"
proof -
  have "toFloat64 (aget data ''total_percent'') = Some t"
    using assms(1,2) by (auto simp: cpu_Collect_def keeps_numbers_def aget_def)
  then show ?thesis using assms(3) by (simp add: getLatestMetricValue_def float_field2_def)
qed

lemma memory_rule_measures:
  assumes "memory_Collect (Some m) swap = Some sent" and "keeps_numbers sent data"
    and "latestMetricData v aid ''memory'' = Some data"
  shows "getLatestMetricValue v aid ''memory'' = Some (me_UsedPercent m)"
proof -
  have "toFloat64 (aget data ''used_percent'') = Some (me_UsedPercent m)"
    using assms(1,2) by (auto simp: memory_Collect_def keeps_numbers_def aget_def)
  then show ?thesis using assms(3) by (simp add: getLatestMetricValue_def float_field2_def)
qed

text \<open>C27: A threshold rule on \<open>disk\<close> or \<open>network\<close> never observes anything. The collectors send their numbers
  inside the lists \<open>mounts\<close> and \<open>interfaces\<close>, and the engine looks for \<open>used_percent\<close>, \<open>percent\<close>,
  \<open>bytes_recv\<close> and \<open>bytes_sent\<close> at the top of the report: however full the disk is, the rule makes no
  observation, so that it neither fires nor resolves.
\<close>

theorem disk_and_network_rules_are_blind:
  assumes "r_metric_type rule = ''disk'' \<or> r_metric_type rule = ''network''"
    and "\<And>aid data. latestMetricData v aid (r_metric_type rule) = Some data \<Longrightarrow>
      \<exists>sent. from_collector (r_metric_type rule) sent \<and> keeps_numbers sent data"
  shows "evaluateRule v rule silences = []"
proof -
  have "getLatestMetricValue v aid (r_metric_type rule) = None" for aid
    using assms blind_field by (fastforce simp: getLatestMetricValue_def split: option.splits)
  then have "measure_agent v rule agent = None" for agent
    using assms(1) by (auto simp: measure_agent_def Let_def)
  then show ?thesis by (simp add: evaluateRule_def observe_agent_def List.map_filter_def)
qed

section \<open>Concrete hosts\<close>

definition host_agent :: agent where
  "host_agent = \<lparr>ag_id = ''a'', ag_hostname = ''h'', ag_os = [], ag_ip = [], ag_version = [], ag_status = ''online'',
     ag_last_seen = 1, ag_token_hash = [], ag_tags = [], ag_arch = [], ag_platform = [], ag_update_status = [],
     ag_update_error = [], ag_update_target_version = [], ag_update_requested_at = 0, ag_update_requested_by = [],
     ag_dropped_messages = 0, ag_logs_lines_total = 0\<rparr>"

definition host_view :: "string \<Rightarrow> obj \<Rightarrow> hub_view" where
  "host_view metricType data = \<lparr>v_now = 0, v_find_rule = (\<lambda>_. None), v_find_agent = (\<lambda>_. None), v_find_check = (\<lambda>_. None),
     v_rules = Some [], v_agents = Some [host_agent], v_checks = Some [], v_check_results = Some [], v_silences = Some [],
     v_metrics = Some [\<lparr>mt_id = ''m'', mt_agent_id = ''a'', mt_type = metricType, mt_data = Some data, mt_timestamp = 1,
       mt_resolution = ''raw''\<rparr>], v_logs = Some [], v_like = (\<lambda>_ _. True), v_regexp = (\<lambda>_. None),
     v_quote = (\<lambda>s. s), v_show_date = (\<lambda>_. [])\<rparr>"

lemma host_view_latest: "latestMetricData (host_view t data) aid t' = (if aid = ''a'' \<and> t' = t then Some data else None)"
  by (simp add: latestMetricData_def host_view_def)

text \<open>A hundred and one running services, the last of them \<open>b\<close>.\<close>

definition unit_line :: "string \<Rightarrow> string" where
  "unit_line n = n @ ''.service l active running''"

definition busy_host :: string where
  "busy_host = unlines (replicate 100 (unit_line ''a'') @ [unit_line ''b''])"

definition running_unit :: "string \<Rightarrow> service" where
  "running_unit n = \<lparr>sv_name = n, sv_load = ''l'', sv_active = ''active'', sv_sub = ''running'', sv_description = []\<rparr>"

lemma parse_unit_lines: "parse_unit (unit_line ''a'') = Some (running_unit ''a'') \<and> parse_unit (unit_line ''b'') = Some (running_unit ''b'')"
  by code_simp

lemma busy_units: "all_units busy_host = replicate 100 (running_unit ''a'') @ [running_unit ''b'']"
proof -
  have "scan_lines busy_host = replicate 100 (unit_line ''a'') @ [unit_line ''b'']"
    unfolding busy_host_def by (rule scan_unlines) (auto simp: unit_line_def drop_cr_def)
  then show ?thesis by (simp add: all_units_def List.map_filter_def parse_unit_lines)
qed

theorem service_rule_sees_a_hundred_witness:
  "sv_sub (all_units busy_host ! 100) = ''running'' \<and>
   evalServiceFailed (host_view ''services'' (services_Collect_linux (Some busy_host))) ''a'' ''b'' = Some (0, True)"
proof -
  have n: "all_units busy_host ! j = running_unit (if j < 100 then ''a'' else ''b'')" if "j < 101" for j
    using that by (auto simp: busy_units nth_append)
  have "evalServiceFailed (host_view ''services'' (services_Collect_linux (Some busy_host))) ''a'' ''b'' =
      Some (if (100::nat) < 100 \<and> \<not> failed_states (unit_states (all_units busy_host ! 100)) then (1, False) else (0, True))"
  proof (rule service_rule_sees_a_hundred)
    show "latestMetricData (host_view ''services'' (services_Collect_linux (Some busy_host))) ''a'' ''services'' =
        Some (services_Collect_linux (Some busy_host))" by (simp add: host_view_latest)
    show "shows_services (services_Collect_linux (Some busy_host)) (map unit_states (listed_units busy_host))"
      by (rule linux_report_shows)
    show "100 < length (all_units busy_host)" by (simp add: busy_units)
    show "equal_fold (sv_name (all_units busy_host ! j)) ''b'' \<longleftrightarrow> j = 100" if "j < length (all_units busy_host)" for j
      using that n [of j]
      by (auto simp: busy_units running_unit_def equal_fold_def to_lower_def lower_char_def)
  qed
  then show ?thesis using n [of 100] by (simp add: running_unit_def)
qed

definition plain_proc :: "string \<Rightarrow> rat \<Rightarrow> proc" where
  "plain_proc n c = \<lparr>pr_PID = 1, pr_Name = Some n, pr_CPU = c, pr_Memory = 0, pr_RSS = 0, pr_Status = [], pr_User = [],
     pr_CmdLine = []\<rparr>"

abbreviation by_cpu :: "proc list \<Rightarrow> proc list" where
  "by_cpu \<equiv> sort_key (\<lambda>p. - pr_CPU p)"

lemma by_cpu_sorts: "sorts_desc pr_CPU by_cpu"
proof -
  have "sorted_wrt (\<lambda>a b. pr_CPU b \<le> pr_CPU a) (by_cpu xs)" for xs
    using sorted_sort_key [of "\<lambda>p. - pr_CPU p" xs] by (simp add: sorted_map)
  then show ?thesis by (simp add: sorts_desc_def)
qed

theorem process_rule_sees_the_busiest_witness:
  "runs_target ''b'' (plain_proc ''b'' 0) \<and>
   evalProcessDown (host_view ''processes''
     (the (processes_Collect by_cpu (Some (plain_proc ''b'' 0 # replicate 100 (plain_proc ''a'' 1)))))) ''a'' ''b'' = Some (0, True)"
proof -
  let ?ps = "plain_proc ''b'' 0 # replicate 100 (plain_proc ''a'' 1)"
  let ?d = "the (processes_Collect by_cpu (Some ?ps))"
  let ?v = "host_view ''processes'' ?d"
  have d: "processes_Collect by_cpu (Some ?ps) = Some ?d" by (simp add: processes_Collect_def)
  have t: "runs_target ''b'' (plain_proc n c) \<longleftrightarrow> n = ''b''" if "n = ''a'' \<or> n = ''b''" for n c
    using that by (auto simp: runs_target_def proc_obj_def plain_proc_def aget_def has_prefix_def short_cmdline_def
        to_lower_def lower_char_def)
  have f: "filter (\<lambda>p. pr_Name p \<noteq> None) ?ps = ?ps" by (simp add: plain_proc_def)
  have "latestMetricData ?v ''a'' ''processes'' = Some ?d" by (simp only: host_view_latest) simp
  from process_rule_sees_the_busiest [OF this process_report_shows [OF d] by_cpu_sorts refl, of "''b''"]
  have "evalProcessDown ?v ''a'' ''b'' = Some (0, True)"
    unfolding f using t by (simp add: plain_proc_def)
  then show ?thesis using t by simp
qed

definition full_disk :: usage_stat where
  "full_disk = \<lparr>us_Total = 1, us_Used = 1, us_Free = 0, us_UsedPercent = 100, us_InodesTotal = 1, us_InodesUsed = 1, us_InodesFree = 0\<rparr>"

definition disk_rule :: rule where
  "disk_rule = \<lparr>r_id = ''r'', r_name = ''disk'', r_metric_type = ''disk'', r_condition = ''gt'', r_threshold = 90, r_duration = 0,
     r_severity = ''critical'', r_agent_id = [], r_check_id = [], r_enabled = True, r_target = [], r_target_tags = [],
     r_notification_channels = [], r_escalation_channels = [], r_escalation_after = 0\<rparr>"

theorem disk_and_network_rules_are_blind_witness:
  "rule_candidates (host_view ''disk'' (the (disk_Collect (Some [(''/'', ''sda'', ''ext4'')]) (\<lambda>_. Some full_disk)))) disk_rule = [host_agent]
   \<and> evaluateRule (host_view ''disk'' (the (disk_Collect (Some [(''/'', ''sda'', ''ext4'')]) (\<lambda>_. Some full_disk)))) disk_rule [] = []"
proof
  let ?d = "the (disk_Collect (Some [(''/'', ''sda'', ''ext4'')]) (\<lambda>_. Some full_disk))"
  show "rule_candidates (host_view ''disk'' ?d) disk_rule = [host_agent]"
    by (simp add: rule_candidates_def host_view_def disk_rule_def query_def host_agent_def)
  show "evaluateRule (host_view ''disk'' ?d) disk_rule [] = []"
  proof (rule disk_and_network_rules_are_blind)
    fix aid data
    assume "latestMetricData (host_view ''disk'' ?d) aid (r_metric_type disk_rule) = Some data"
    then have "data = ?d" by (simp add: host_view_latest disk_rule_def split: if_splits)
    moreover have "disk_Collect (Some [(''/'', ''sda'', ''ext4'')]) (\<lambda>_. Some full_disk) = Some ?d" by (simp add: disk_Collect_def)
    ultimately show "\<exists>sent. from_collector (r_metric_type disk_rule) sent \<and> keeps_numbers sent data"
      by (auto simp: from_collector_def disk_rule_def keeps_numbers_def)
  qed (simp add: disk_rule_def)
qed

end
