(* ===== verification/Hardening.thy ===== *)
theory Hardening
  imports Nexwatch_Prelude
begin

unbundle bit_operations_syntax

text \<open>
  The hardening collector of the agent (\<open>internal/agent/collector/hardening.go\<close> and the platform
  parts \<open>hardening_windows.go\<close>, \<open>hardening_other.go\<close>): eight groups of checks and the score. What
  the checks read of the machine (files, modes, the output of commands, sockets, the registry) is the
  record \<open>hardening_env\<close>; the iteration order of a Go map is the parameter \<open>hv_range\<close>.
\<close>

section \<open>The machine\<close>

text \<open>\<open>os.FileMode\<close>, and its text for the permission bits alone.\<close>

type_synonym file_mode = "32 word"

definition perm_chars :: "file_mode \<Rightarrow> string" where
  "perm_chars m = map (\<lambda>(i, c). if bit m i then c else CHR ''-'') (zip (rev [0..<9]) ''rwxrwxrwx'')"

definition mode_text :: "file_mode \<Rightarrow> string" where
  "mode_text m = CHR ''-'' # perm_chars m"

definition em_dash :: string where "em_dash = [CHR 0xE2, CHR 0x80, CHR 0x94]"

record hardening_env =
  hv_os :: string
  hv_read :: "string \<Rightarrow> string + string"
  hv_perm :: "string \<Rightarrow> string + file_mode"
  hv_run :: "string list \<Rightarrow> string \<times> string option"
  hv_conns :: "string + (string \<times> nat) list"
  hv_deny :: "64 word option"
  hv_range :: "(nat \<times> string) list \<Rightarrow> (nat \<times> string) list"

record checkResult =
  hc_Name :: string
  hc_Status :: string
  hc_Description :: string
  hc_Severity :: string

definition outcome :: "string \<Rightarrow> string \<Rightarrow> string \<Rightarrow> string \<Rightarrow> checkResult" where
  "outcome name severity status description =
     \<lparr>hc_Name = name, hc_Status = status, hc_Description = description, hc_Severity = severity\<rparr>"

lemma outcome_status [simp]: "hc_Status (outcome name severity status description) = status"
  by (simp add: outcome_def)

section \<open>SSH\<close>

text \<open>The loop over the lines: the first directive with an argument decides.\<close>

fun ssh_lines :: "string list \<Rightarrow> string option" where
  "ssh_lines [] = None"
| "ssh_lines (l # ls) =
     (let line = trim_space l in
      if has_prefix line ''#'' \<or> line = [] then ssh_lines ls
      else if has_prefix (to_lower line) ''permitrootlogin''
      then (case Nexwatch_Prelude.fields line of _ # val # _ \<Rightarrow> Some val | _ \<Rightarrow> ssh_lines ls)
      else ssh_lines ls)"

definition restricted :: "string \<Rightarrow> bool" where
  "restricted v \<longleftrightarrow> v = ''no'' \<or> v = ''prohibit-password'' \<or> v = ''forced-commands-only''"

definition evaluateSSHRootLoginConfig :: "string \<Rightarrow> checkResult" where
  "evaluateSSHRootLoginConfig content =
     (case ssh_lines (scan_lines content) of
        Some val \<Rightarrow>
          if restricted (to_lower val)
          then outcome ''ssh_root_login'' ''high'' ''pass'' (''SSH root login is restricted ('' @ val @ '')'')
          else outcome ''ssh_root_login'' ''high'' ''fail''
                 (''SSH root login is set to '' @ CHR 0x27 # val @ CHR 0x27 # '' '' @ em_dash @ '' should be '' @
                  CHR 0x27 # ''no'' @ CHR 0x27 # '' or '' @ CHR 0x27 # ''prohibit-password'' @ [CHR 0x27])
      | None \<Rightarrow> outcome ''ssh_root_login'' ''high'' ''warn''
                 ''PermitRootLogin not explicitly set in sshd_config (default may allow root login)'')"

definition checkSSHRootLogin :: "hardening_env \<Rightarrow> checkResult" where
  "checkSSHRootLogin V =
     (if hv_os V = ''windows''
      then outcome ''ssh_root_login'' ''high'' ''skip'' ''SSH root login check not applicable on Windows''
      else case hv_read V ''/etc/ssh/sshd_config'' of
        Inl err \<Rightarrow> outcome ''ssh_root_login'' ''high'' ''skip'' (''Cannot read sshd_config: '' @ err)
      | Inr data \<Rightarrow> evaluateSSHRootLoginConfig data)"

section \<open>Firewall\<close>

abbreviation firewall :: "string \<Rightarrow> string \<Rightarrow> checkResult" where
  "firewall \<equiv> outcome ''firewall_active'' ''high''"

text \<open>The lines \<open>iptables -L -n\<close> prints that are neither empty nor a header.\<close>

definition iptables_rules :: "string \<Rightarrow> nat" where
  "iptables_rules out =
     length (filter (\<lambda>l. let line = trim_space l in
        \<not> (line = [] \<or> has_prefix line ''Chain'' \<or> has_prefix line ''target'')) (split_byte CHR 0x0A out))"

text \<open>A command that succeeds gives its output; \<open>CombinedOutput\<close> reports a failure as an error.\<close>

definition succeeded :: "hardening_env \<Rightarrow> string list \<Rightarrow> string option" where
  "succeeded V cmd = (case hv_run V cmd of (out, None) \<Rightarrow> Some out | _ \<Rightarrow> None)"

definition checkFirewallLinux :: "hardening_env \<Rightarrow> checkResult" where
  "checkFirewallLinux V =
     (let rules = (case succeeded V [''iptables'', ''-L'', ''-n''] of Some out \<Rightarrow> iptables_rules out | None \<Rightarrow> 0) in
      if 0 < rules then firewall ''pass'' (''iptables has '' @ fmt_d (int rules) @ '' rules configured'')
      else if (case succeeded V [''nft'', ''list'', ''ruleset''] of Some out \<Rightarrow> 10 < length (trim_space out) | None \<Rightarrow> False)
      then firewall ''pass'' ''nftables ruleset is active''
      else if (case succeeded V [''ufw'', ''status''] of Some out \<Rightarrow> str_contains out ''active'' | None \<Rightarrow> False)
      then firewall ''pass'' ''UFW firewall is active''
      else firewall ''fail'' ''No active firewall detected (iptables/nftables/ufw)'')"

definition checkFirewallDarwin :: "hardening_env \<Rightarrow> checkResult" where
  "checkFirewallDarwin V =
     (case succeeded V [''/usr/libexec/ApplicationFirewall/socketfilterfw'', ''--getglobalstate''] of
        Some output \<Rightarrow>
          if str_contains output ''enabled'' then firewall ''pass'' ''macOS Application Firewall is enabled''
          else firewall ''fail'' ''macOS Application Firewall is disabled''
      | None \<Rightarrow>
          if (case succeeded V [''pfctl'', ''-s'', ''info''] of Some out \<Rightarrow> str_contains out ''Enabled'' | None \<Rightarrow> False)
          then firewall ''pass'' ''PF firewall is enabled''
          else firewall ''warn'' ''Could not determine firewall status on macOS'')"

definition netsh_states :: "string \<Rightarrow> string list" where
  "netsh_states output =
     List.map_filter (\<lambda>l. let line = trim_space l; fs = Nexwatch_Prelude.fields line in
        if has_prefix line ''State'' \<and> 2 \<le> length fs then Some (to_upper (last fs)) else None)
       (split_byte CHR 0x0A output)"

definition evaluateWindowsFirewallOutput :: "string \<Rightarrow> checkResult" where
  "evaluateWindowsFirewallOutput output =
     (let states = netsh_states output in
      if states = [] then firewall ''skip'' ''could not parse netsh advfirewall output''
      else if list_ex (\<lambda>s. s \<noteq> ''ON'') states
      then firewall ''fail'' ''Windows Firewall is disabled on at least one profile''
      else firewall ''pass'' (''Windows Firewall is enabled on all '' @ fmt_d (int (length states)) @ '' profile(s)''))"

definition checkFirewallWindows :: "hardening_env \<Rightarrow> checkResult" where
  "checkFirewallWindows V =
     (case hv_run V [''netsh'', ''advfirewall'', ''show'', ''allprofiles'', ''state''] of
        (_, Some err) \<Rightarrow> firewall ''skip'' (''could not run netsh advfirewall: '' @ err)
      | (out, None) \<Rightarrow> evaluateWindowsFirewallOutput out)"

definition checkFirewall :: "hardening_env \<Rightarrow> checkResult" where
  "checkFirewall V =
     (if hv_os V = ''linux'' then checkFirewallLinux V
      else if hv_os V = ''darwin'' then checkFirewallDarwin V
      else if hv_os V = ''windows'' then checkFirewallWindows V
      else firewall ''skip'' (''Firewall check not implemented for '' @ hv_os V))"

section \<open>Windows Defender and Remote Desktop\<close>

abbreviation defender :: "string \<Rightarrow> string \<Rightarrow> checkResult" where
  "defender \<equiv> outcome ''defender_realtime_protection'' ''high''"

definition evaluateWindowsDefenderOutput :: "string \<Rightarrow> checkResult" where
  "evaluateWindowsDefenderOutput output =
     (let s = to_lower (trim_space output) in
      if s = ''true'' then defender ''pass'' ''Windows Defender real-time protection is enabled''
      else if s = ''false'' then defender ''fail'' ''Windows Defender real-time protection is disabled''
      else defender ''skip'' ''could not determine Windows Defender status (Get-MpComputerStatus unavailable)'')"

definition checkWindowsDefenderStatus :: "hardening_env \<Rightarrow> checkResult" where
  "checkWindowsDefenderStatus V =
     (if hv_os V \<noteq> ''windows'' then defender ''skip'' (''Windows Defender check not applicable on '' @ hv_os V)
      else case hv_run V [''powershell'', ''-NoProfile'', ''-NonInteractive'', ''-Command'',
                          ''(Get-MpComputerStatus).RealTimeProtectionEnabled''] of
        (_, Some err) \<Rightarrow> defender ''skip'' (''could not query Windows Defender status: '' @ err)
      | (out, None) \<Rightarrow> evaluateWindowsDefenderOutput out)"

text \<open>The registry value, absent when it cannot be read.\<close>

definition evaluateRDPDenyFlag :: "64 word option \<Rightarrow> checkResult" where
  "evaluateRDPDenyFlag denyTSConnections =
     (case denyTSConnections of
        None \<Rightarrow> outcome ''rdp_exposure'' ''medium'' ''skip'' ''could not read fDenyTSConnections from the registry''
      | Some v \<Rightarrow>
          if v = 0
          then outcome ''rdp_exposure'' ''medium'' ''warn''
                 (''Remote Desktop (RDP) is enabled '' @ em_dash @ '' ensure it is intentional and properly secured'')
          else outcome ''rdp_exposure'' ''medium'' ''pass'' ''Remote Desktop (RDP) is disabled'')"

definition checkRDPStatus :: "hardening_env \<Rightarrow> checkResult" where
  "checkRDPStatus V = evaluateRDPDenyFlag (if hv_os V = ''windows'' then hv_deny V else None)"

section \<open>File permissions\<close>

definition evaluatePasswdPermissions :: "file_mode \<Rightarrow> checkResult" where
  "evaluatePasswdPermissions mode =
     (if mode AND 0x12 = 0
      then outcome ''passwd_permissions'' ''medium'' ''pass''
             (''/etc/passwd permissions are '' @ mode_text mode @ '' (no group/other write)'')
      else outcome ''passwd_permissions'' ''medium'' ''fail''
             (''/etc/passwd has overly permissive permissions: '' @ mode_text mode))"

definition checkPasswdPermissions :: "hardening_env \<Rightarrow> checkResult" where
  "checkPasswdPermissions V =
     (if hv_os V = ''windows''
      then outcome ''passwd_permissions'' ''medium'' ''skip'' ''File permission check not applicable on Windows''
      else case hv_perm V ''/etc/passwd'' of
        Inl err \<Rightarrow> outcome ''passwd_permissions'' ''medium'' ''skip'' (''Cannot stat /etc/passwd: '' @ err)
      | Inr mode \<Rightarrow> evaluatePasswdPermissions mode)"

definition evaluateShadowPermissions :: "file_mode \<Rightarrow> checkResult" where
  "evaluateShadowPermissions mode =
     (if mode AND 0x1F = 0
      then outcome ''shadow_permissions'' ''high'' ''pass'' (''/etc/shadow permissions are '' @ mode_text mode)
      else outcome ''shadow_permissions'' ''high'' ''fail''
             (''/etc/shadow has overly permissive permissions: '' @ mode_text mode))"

definition checkShadowPermissions :: "hardening_env \<Rightarrow> checkResult" where
  "checkShadowPermissions V =
     (if hv_os V = ''windows'' \<or> hv_os V = ''darwin''
      then outcome ''shadow_permissions'' ''high'' ''skip'' (''Shadow file check not applicable on '' @ hv_os V)
      else case hv_perm V ''/etc/shadow'' of
        Inl err \<Rightarrow> outcome ''shadow_permissions'' ''high'' ''skip'' (''Cannot stat /etc/shadow: '' @ err)
      | Inr mode \<Rightarrow> evaluateShadowPermissions mode)"

section \<open>Accounts with user id 0\<close>

definition root_user :: "string \<Rightarrow> string option" where
  "root_user line =
     (case split_byte CHR '':'' line of name # _ # uid # _ \<Rightarrow> if uid = ''0'' then Some name else None | _ \<Rightarrow> None)"

definition evaluateExtraRootUsers :: "string \<Rightarrow> checkResult" where
  "evaluateExtraRootUsers passwdContent =
     (let rootUsers = List.map_filter root_user (scan_lines passwdContent) in
      if length rootUsers \<le> 1
      then outcome ''extra_root_users'' ''critical'' ''pass'' (''Only '' @ CHR 0x27 # ''root'' @ CHR 0x27 # '' has UID 0'')
      else outcome ''extra_root_users'' ''critical'' ''fail''
             (''Multiple accounts with UID 0: '' @ str_join '', '' rootUsers))"

definition checkExtraRootUsers :: "hardening_env \<Rightarrow> checkResult" where
  "checkExtraRootUsers V =
     (if hv_os V = ''windows''
      then outcome ''extra_root_users'' ''critical'' ''skip'' ''UID check not applicable on Windows''
      else case hv_read V ''/etc/passwd'' of
        Inl err \<Rightarrow> outcome ''extra_root_users'' ''critical'' ''skip'' (''Cannot read /etc/passwd: '' @ err)
      | Inr data \<Rightarrow> evaluateExtraRootUsers data)"

section \<open>Ports\<close>

definition dangerousPorts :: "(nat \<times> string) list" where
  "dangerousPorts = [(21, ''FTP''), (23, ''Telnet''), (3389, ''RDP'')]"

definition port_result :: "nat \<Rightarrow> string \<Rightarrow> string \<Rightarrow> checkResult" where
  "port_result port = outcome (''dangerous_port_'' @ fmt_d (int port)) ''high''"

lemma port_result_status [simp]: "hc_Status (port_result port status description) = status"
  by (simp add: port_result_def)

text \<open>\<open>ports\<close> is the map in the order the loop meets it.\<close>

definition evaluateDangerousPorts :: "(nat \<times> string) list \<Rightarrow> nat list \<Rightarrow> checkResult list" where
  "evaluateDangerousPorts ports listening =
     map (\<lambda>(port, svc).
        if port \<in> set listening
        then port_result port ''fail'' (svc @ '' service detected on port '' @ fmt_d (int port) @ '' '' @ em_dash @ '' consider disabling'')
        else port_result port ''pass'' (''No '' @ svc @ '' service listening on port '' @ fmt_d (int port))) ports"

definition checkDangerousPorts :: "hardening_env \<Rightarrow> checkResult list" where
  "checkDangerousPorts V =
     (case hv_conns V of
        Inl err \<Rightarrow>
          map (\<lambda>(port, svc). port_result port ''skip''
                 (''Cannot check '' @ svc @ '' (port '' @ fmt_d (int port) @ ''): '' @ err)) (hv_range V dangerousPorts)
      | Inr conns \<Rightarrow>
          evaluateDangerousPorts (hv_range V dangerousPorts) (map snd (filter (\<lambda>(status, _). status = ''LISTEN'') conns)))"

section \<open>The collector\<close>

definition hardening_checks :: "hardening_env \<Rightarrow> checkResult list" where
  "hardening_checks V =
     [checkSSHRootLogin V, checkFirewall V, checkPasswdPermissions V, checkShadowPermissions V, checkExtraRootUsers V]
     @ checkDangerousPorts V @ [checkWindowsDefenderStatus V, checkRDPStatus V]"

text \<open>The loop that counts: total, passed, failed and warnings.\<close>

definition tally_check :: "checkResult \<Rightarrow> nat \<times> nat \<times> nat \<times> nat \<Rightarrow> nat \<times> nat \<times> nat \<times> nat" where
  "tally_check c = (\<lambda>(tot, passed, failed, warnings).
     if hc_Status c = ''pass'' then (tot + 1, passed + 1, failed, warnings)
     else if hc_Status c = ''fail'' then (tot + 1, passed, failed + 1, warnings)
     else if hc_Status c = ''warn'' then (tot + 1, passed, failed, warnings + 1)
     else (tot, passed, failed, warnings))"

definition score_of :: "nat \<Rightarrow> nat \<Rightarrow> rat" where
  "score_of passed tot = (if 0 < tot then of_nat passed / of_nat tot * 100 else 0)"

definition check_obj :: "checkResult \<Rightarrow> any" where
  "check_obj c = AObj [(''name'', AStr (hc_Name c)), (''status'', AStr (hc_Status c)),
     (''description'', AStr (hc_Description c)), (''severity'', AStr (hc_Severity c))]"

definition hardening_Collect :: "hardening_env \<Rightarrow> obj" where
  "hardening_Collect V =
     (let checks = hardening_checks V; (tot, passed, failed, warnings) = fold tally_check checks (0, 0, 0, 0)
      in [(''checks'', AArr (map check_obj checks)), (''score'', AInt (trunc_rat (score_of passed tot))),
          (''total'', AInt (int tot)), (''passed'', AInt (int passed)), (''failed'', AInt (int failed)),
          (''warnings'', AInt (int warnings))])"

section \<open>Properties\<close>

abbreviation counted :: "string \<Rightarrow> checkResult list \<Rightarrow> nat" where
  "counted st cs \<equiv> length (filter (\<lambda>c. hc_Status c = st) cs)"

lemma fold_tally:
  "fold tally_check cs (t, p, f, w) =
     (t + counted ''pass'' cs + counted ''fail'' cs + counted ''warn'' cs,
      p + counted ''pass'' cs, f + counted ''fail'' cs, w + counted ''warn'' cs)"
  by (induction cs arbitrary: t p f w) (simp_all add: tally_check_def)

lemma trunc_nonneg: "0 \<le> x \<Longrightarrow> trunc_rat x = \<lfloor>x\<rfloor>"
  by (simp add: trunc_rat_def)

lemma score_range:
  assumes "p \<le> t"
  shows "0 \<le> trunc_rat (score_of p t) \<and> trunc_rat (score_of p t) \<le> 100
    \<and> (trunc_rat (score_of p t) = 100 \<longleftrightarrow> 0 < t \<and> p = t)"
proof (cases "t = 0")
  case False
  let ?x = "of_nat p / of_nat t * 100 :: rat"
  have nn: "0 \<le> ?x" by simp
  have le: "?x \<le> 100" using assms False by (simp add: divide_le_eq)
  have s: "trunc_rat (score_of p t) = \<lfloor>?x\<rfloor>" using False trunc_nonneg [OF nn] by (simp only: score_of_def) simp
  have "\<lfloor>?x\<rfloor> = 100 \<longleftrightarrow> 100 \<le> ?x" using le by (auto simp: floor_eq_iff)
  also have "\<dots> \<longleftrightarrow> p = t" using assms False by (auto simp: pos_le_divide_eq le_divide_eq)
  finally have "\<lfloor>?x\<rfloor> = 100 \<longleftrightarrow> p = t" .
  moreover have "0 \<le> \<lfloor>?x\<rfloor>" using nn by simp
  moreover have "\<lfloor>?x\<rfloor> \<le> 100" using le by (simp add: floor_le_iff)
  ultimately show ?thesis using s False by simp
qed (simp add: score_of_def trunc_rat_def)

text \<open>
  The score is a percentage, and it is 100 exactly when some check applied and none of those that
  applied failed or warned.
\<close>

lemma hardening_score:
  obtains n where "aget (hardening_Collect V) ''score'' = AInt n" and "0 \<le> n" and "n \<le> 100"
    and "n = 100 \<longleftrightarrow> (\<exists>c \<in> set (hardening_checks V). hc_Status c = ''pass'')
      \<and> (\<forall>c \<in> set (hardening_checks V). hc_Status c \<noteq> ''fail'' \<and> hc_Status c \<noteq> ''warn'')"
proof -
  let ?cs = "hardening_checks V"
  let ?p = "counted ''pass'' ?cs" and ?f = "counted ''fail'' ?cs" and ?w = "counted ''warn'' ?cs"
  let ?n = "trunc_rat (score_of ?p (?p + ?f + ?w))"
  have a: "aget (hardening_Collect V) ''score'' = AInt ?n"
    by (simp add: hardening_Collect_def fold_tally aget_def Let_def)
  have "0 \<le> ?n \<and> ?n \<le> 100 \<and> (?n = 100 \<longleftrightarrow> 0 < ?p + ?f + ?w \<and> ?p = ?p + ?f + ?w)"
    by (rule score_range) simp
  moreover have "(0 < ?p + ?f + ?w \<and> ?p = ?p + ?f + ?w) \<longleftrightarrow> 0 < ?p \<and> ?f = 0 \<and> ?w = 0" by auto
  ultimately show thesis using that [OF a] by (auto simp: filter_empty_conv)
qed

text \<open>The permission checks look at exactly the bits their comments name.\<close>

lemma passwd_bits: "hc_Status (evaluatePasswdPermissions m) = ''pass'' \<longleftrightarrow> \<not> bit m 1 \<and> \<not> bit m 4"
proof -
  have "0x12 = push_bit 1 1 OR push_bit 4 (1 :: file_mode)" by simp
  then have "m AND 0x12 = 0 \<longleftrightarrow> \<not> bit m 1 \<and> \<not> bit m 4"
    by (simp only: bit.conj_disj_distrib or_eq_0_iff bit_iff_and_push_bit_not_eq_0 not_not)
  then show ?thesis by (auto simp: evaluatePasswdPermissions_def outcome_def)
qed

text \<open>Ports: one result each, whatever the order in which the map is iterated.\<close>

lemma ports_in_any_order:
  "mset (hv_range V dangerousPorts) = mset dangerousPorts \<Longrightarrow> hv_conns V = Inr conns \<Longrightarrow>
   mset (checkDangerousPorts V) =
     mset (evaluateDangerousPorts dangerousPorts (map snd (filter (\<lambda>(st, _). st = ''LISTEN'') conns)))"
  by (simp add: checkDangerousPorts_def evaluateDangerousPorts_def mset_map)

lemma evaluated_fail:
  "(\<exists>c \<in> set (evaluateDangerousPorts ps L). hc_Status c = ''fail'') \<longleftrightarrow> (\<exists>(port, svc) \<in> set ps. port \<in> set L)"
  by (induction ps) (auto simp: evaluateDangerousPorts_def split: if_splits)

lemma ports_exact:
  assumes "hv_conns V = Inr conns" and "mset (hv_range V dangerousPorts) = mset dangerousPorts"
  shows "(\<exists>c \<in> set (checkDangerousPorts V). hc_Status c = ''fail'') \<longleftrightarrow>
    (\<exists>port \<in> {21, 23, 3389}. (''LISTEN'', port) \<in> set conns)"
proof -
  let ?L = "map snd (filter (\<lambda>(st, _). st = ''LISTEN'') conns)"
  have "set (hv_range V dangerousPorts) = set dangerousPorts" using assms(2) by (rule mset_eq_setD)
  then have "(\<exists>c \<in> set (checkDangerousPorts V). hc_Status c = ''fail'') \<longleftrightarrow> (\<exists>(port, svc) \<in> set dangerousPorts. port \<in> set ?L)"
    using assms(1) by (simp only: checkDangerousPorts_def sum.case evaluated_fail)
  moreover have "port \<in> set ?L \<longleftrightarrow> (''LISTEN'', port) \<in> set conns" for port by force
  ultimately show ?thesis by (simp add: dangerousPorts_def)
qed

text \<open>
  The substring test on the answer of \<open>ufw status\<close> also matches \<open>inactive\<close>: with no other firewall a
  disabled one is reported as active.
\<close>

lemma inactive_ufw_passes:
  assumes "succeeded V [''iptables'', ''-L'', ''-n''] = None"
    and "succeeded V [''nft'', ''list'', ''ruleset''] = None"
    and "succeeded V [''ufw'', ''status''] = Some (''Status: inactive'' @ nl)"
  shows "hc_Status (checkFirewallLinux V) = ''pass''"
  using assms by (simp add: checkFirewallLinux_def outcome_def has_prefix_def nl_def)

text \<open>One account with user id 0 passes, whatever its name.\<close>

lemma renamed_root_passes: "hc_Status (evaluateExtraRootUsers (''toor:x:0:0::/root:/bin/sh'' @ nl)) = ''pass''"
  by (simp add: evaluateExtraRootUsers_def scan_lines_def root_user_def nl_def drop_cr_def List.map_filter_def
      outcome_def Let_def)

end
