(* ===== verification/Vulnerabilities.thy ===== *)
theory Vulnerabilities
  imports Hardening
begin

text \<open>
  The vulnerability collector of the agent (\<open>internal/agent/collector/vulnerabilities.go\<close>): world
  writable files, set-uid programs, services running as root, weak permissions. The output of
  \<open>find\<close>, the modes, the process list and the iteration order of the maps are the record
  \<open>vuln_env\<close>; \<open>filepath.Dir\<close> and \<open>filepath.Base\<close> are taken on paths without repeated slashes and dots.
\<close>

record vuln_env =
  vu_os :: string
  vu_find :: "string list \<Rightarrow> string \<times> string option"
  vu_mode :: "string \<Rightarrow> file_mode option"
  vu_procs :: "(string \<times> int \<times> nat list option) list option"
  vu_range :: "(string \<times> file_mode) list \<Rightarrow> (string \<times> file_mode) list"

record vulnItem =
  vi_Name :: string
  vi_Severity :: string
  vi_Description :: string
  vi_Recommendation :: string

section \<open>Paths\<close>

text \<open>Up to, and after, the last slash.\<close>

definition path_dir :: "string \<Rightarrow> string" where
  "path_dir p = (let d = rev (dropWhile (\<lambda>c. c \<noteq> CHR ''/'') (rev p)) in if d = [] then ''.'' else if d = ''/'' then d else butlast d)"

definition path_base :: "string \<Rightarrow> string" where
  "path_base p = rev (takeWhile (\<lambda>c. c \<noteq> CHR ''/'') (rev p))"

section \<open>World-writable files\<close>

definition found_files :: "string \<Rightarrow> string list" where
  "found_files out = filter (\<lambda>f. f \<noteq> []) (map trim_space (split_byte CHR 0x0A (trim_space out)))"

definition evaluateWorldWritableFindOutput :: "string \<Rightarrow> string \<Rightarrow> vulnItem option" where
  "evaluateWorldWritableFindOutput dir findOutput =
     (let wwFiles = found_files findOutput in
      if wwFiles = [] then None
      else Some \<lparr>vi_Name = ''world_writable_in_'' @ replace_byte CHR ''/'' ''_'' dir, vi_Severity = ''high'',
             vi_Description = ''Found '' @ fmt_d (int (length wwFiles)) @ '' world-writable files in '' @ dir @ '': ''
               @ str_join '', '' (take 20 wwFiles),
             vi_Recommendation = ''Remove world-writable permission: chmod o-w <file> for files in '' @ dir\<rparr>)"

text \<open>\<open>os.ModeSticky\<close> is bit 20 of a \<open>FileMode\<close>.\<close>

definition evaluateTmpStickyBit :: "file_mode \<Rightarrow> vulnItem option" where
  "evaluateTmpStickyBit mode =
     (if mode AND push_bit 20 1 \<noteq> 0 then None
      else Some \<lparr>vi_Name = ''tmp_no_sticky_bit'', vi_Severity = ''medium'',
             vi_Description = ''/tmp does not have the sticky bit set'',
             vi_Recommendation = ''Set sticky bit: chmod +t /tmp''\<rparr>)"

definition opt_list :: "'a option \<Rightarrow> 'a list" where
  "opt_list x = (case x of None \<Rightarrow> [] | Some y \<Rightarrow> [y])"

definition checkWorldWritableFiles :: "vuln_env \<Rightarrow> vulnItem list" where
  "checkWorldWritableFiles V =
     (if vu_os V = ''windows''
      then [\<lparr>vi_Name = ''world_writable_files'', vi_Severity = ''low'',
              vi_Description = ''World-writable file check not applicable on Windows'',
              vi_Recommendation = ''N/A '' @ em_dash @ '' skipped''\<rparr>]
      else
        (case vu_find V [''/etc'', ''-maxdepth'', ''2'', ''-perm'', ''-0002'', ''-type'', ''f''] of
           (_, Some err) \<Rightarrow> []
         | (out, None) \<Rightarrow> opt_list (evaluateWorldWritableFindOutput ''/etc'' out))
        @ (case vu_mode V ''/tmp'' of None \<Rightarrow> [] | Some mode \<Rightarrow> opt_list (evaluateTmpStickyBit mode)))"

section \<open>Set-uid programs\<close>

definition safeDirs :: "string list" where
  "safeDirs = [''/usr/bin'', ''/usr/sbin'', ''/usr/lib'', ''/bin'', ''/sbin'', ''/usr/lib64'', ''/snap'']"

definition unusual_suid :: "string list \<Rightarrow> string \<Rightarrow> string list" where
  "unusual_suid safe findOutput =
     filter (\<lambda>f. \<not> list_ex (\<lambda>safeDir. has_prefix (path_dir f) safeDir) safe) (found_files findOutput)"

definition evaluateSUIDFindOutput :: "string \<Rightarrow> string list \<Rightarrow> vulnItem option" where
  "evaluateSUIDFindOutput findOutput safe =
     (let unusualSUID = unusual_suid safe findOutput in
      if unusualSUID = [] then None
      else Some \<lparr>vi_Name = ''suid_unusual_locations'', vi_Severity = ''high'',
             vi_Description = ''Found '' @ fmt_d (int (length unusualSUID)) @ '' SUID binaries in unusual locations: ''
               @ str_join '', '' (take 20 unusualSUID),
             vi_Recommendation = ''Review SUID binaries and remove unnecessary ones: chmod u-s <file>''\<rparr>)"

text \<open>An error of \<open>find\<close> with some output is not an error; the output includes what it prints to stderr.\<close>

definition checkSUIDBinaries :: "vuln_env \<Rightarrow> vulnItem list" where
  "checkSUIDBinaries V =
     (if vu_os V = ''windows'' \<or> vu_os V = ''darwin'' then []
      else case vu_find V [''/'', ''-maxdepth'', ''4'', ''-perm'', ''-4000'', ''-type'', ''f''] of
        (out, err) \<Rightarrow> if err \<noteq> None \<and> out = [] then [] else opt_list (evaluateSUIDFindOutput out safeDirs))"

section \<open>Services running as root\<close>

definition riskyAsRoot :: "string list" where
  "riskyAsRoot = [''nginx'', ''apache2'', ''httpd'', ''mysqld'', ''postgres'', ''mongod'', ''redis-server'', ''node'',
     ''java'', ''python'', ''python3'']"

fun isRiskyRootProcess :: "string \<Rightarrow> nat list \<Rightarrow> string list \<Rightarrow> bool" where
  "isRiskyRootProcess name uids risky =
     (if name \<notin> set risky then False
      else case uids of _ # e # _ \<Rightarrow> e = 0 | [u] \<Rightarrow> u = 0 | [] \<Rightarrow> False)"

text \<open>A process is its name, its number and its user ids, if they can be read.\<close>

definition root_service :: "string \<times> int \<times> nat list option \<Rightarrow> string option" where
  "root_service p = (case p of (name, pid, uids) \<Rightarrow>
     if name \<notin> set riskyAsRoot then None
     else (case uids of
        None \<Rightarrow> None
      | Some us \<Rightarrow> if isRiskyRootProcess name us riskyAsRoot then Some (name @ '' (PID '' @ fmt_d pid @ '')'') else None))"

definition checkRootServices :: "vuln_env \<Rightarrow> vulnItem list" where
  "checkRootServices V =
     (if vu_os V = ''windows'' then []
      else case vu_procs V of
        None \<Rightarrow> []
      | Some procs \<Rightarrow>
          let rootServices = List.map_filter root_service procs in
          if rootServices = [] then []
          else [\<lparr>vi_Name = ''services_running_as_root'', vi_Severity = ''medium'',
                 vi_Description = ''Found '' @ fmt_d (int (length rootServices)) @ '' services running as root: ''
                   @ str_join '', '' (take 10 rootServices),
                 vi_Recommendation = ''Configure services to run as dedicated non-root users''\<rparr>])"

section \<open>Weak permissions\<close>

definition sensitiveFiles :: "(string \<times> file_mode) list" where
  "sensitiveFiles = [(''/etc/crontab'', 0x1A4), (''/etc/ssh/sshd_config'', 0x1A4), (''/etc/sudoers'', 0x120)]"

text \<open>\<open>%o\<close> of a mode: its octal digits.\<close>

fun oct_digits :: "nat \<Rightarrow> string" where
  "oct_digits n = (if n < 8 then [char_of (48 + n)] else oct_digits (n div 8) @ [char_of (48 + n mod 8)])"

declare oct_digits.simps [simp del]

definition evaluateFilePermission :: "string \<Rightarrow> file_mode \<Rightarrow> file_mode \<Rightarrow> vulnItem option" where
  "evaluateFilePermission path perm maxPerm =
     (if perm \<le> maxPerm then None
      else Some \<lparr>vi_Name = ''weak_permissions_'' @ replace_byte CHR ''.'' ''_'' (path_base path), vi_Severity = ''medium'',
             vi_Description = path @ '' has permissions '' @ mode_text perm @ '' (should be '' @ mode_text maxPerm
               @ '' or more restrictive)'',
             vi_Recommendation = ''Fix permissions: chmod '' @ oct_digits (unat maxPerm) @ '' '' @ path\<rparr>)"

text \<open>\<open>Mode().Perm()\<close> keeps the nine permission bits.\<close>

definition perm_of :: "file_mode \<Rightarrow> file_mode" where
  "perm_of m = m AND 0x1FF"

definition checkWeakPermissions :: "vuln_env \<Rightarrow> vulnItem list" where
  "checkWeakPermissions V =
     (if vu_os V = ''windows'' then []
      else concat (map (\<lambda>(path, maxPerm). case vu_mode V path of
             None \<Rightarrow> []
           | Some m \<Rightarrow> opt_list (evaluateFilePermission path (perm_of m) maxPerm)) (vu_range V sensitiveFiles)))"

section \<open>The collector\<close>

definition vuln_items :: "vuln_env \<Rightarrow> vulnItem list" where
  "vuln_items V = checkWorldWritableFiles V @ checkSUIDBinaries V @ checkRootServices V @ checkWeakPermissions V"

definition severity_count :: "string \<Rightarrow> vulnItem list \<Rightarrow> int" where
  "severity_count sev items = int (length (filter (\<lambda>i. vi_Severity i = sev) items))"

definition vulnerabilities_Collect :: "vuln_env \<Rightarrow> obj" where
  "vulnerabilities_Collect V =
     (let items = vuln_items V in
      [(''items'', AArr (map (\<lambda>i. AObj [(''name'', AStr (vi_Name i)), (''severity'', AStr (vi_Severity i)),
          (''description'', AStr (vi_Description i)), (''recommendation'', AStr (vi_Recommendation i))]) items)),
       (''summary'', AObj (map (\<lambda>sev. (sev, AInt (severity_count sev items))) [''critical'', ''high'', ''medium'', ''low''])),
       (''total'', AInt (int (length items)))])"

section \<open>Properties\<close>

text \<open>Every finding has one of the four severities, so the summary adds up to the total.\<close>

lemma item_severity: "i \<in> set (vuln_items V) \<Longrightarrow> vi_Severity i \<in> {''high'', ''medium'', ''low''}"
  by (auto simp: vuln_items_def checkWorldWritableFiles_def checkSUIDBinaries_def checkRootServices_def
      checkWeakPermissions_def opt_list_def evaluateWorldWritableFindOutput_def evaluateTmpStickyBit_def
      evaluateSUIDFindOutput_def evaluateFilePermission_def Let_def split: if_splits option.splits prod.splits)

lemma summary_adds_up:
  "severity_count ''critical'' (vuln_items V) + severity_count ''high'' (vuln_items V)
     + severity_count ''medium'' (vuln_items V) + severity_count ''low'' (vuln_items V) = int (length (vuln_items V))"
proof -
  have "length items = length (filter (\<lambda>i. vi_Severity i = ''high'') items) + length (filter (\<lambda>i. vi_Severity i = ''medium'') items)
      + length (filter (\<lambda>i. vi_Severity i = ''low'') items) \<and> filter (\<lambda>i. vi_Severity i = ''critical'') items = []"
    if "\<forall>i \<in> set items. vi_Severity i \<in> {''high'', ''medium'', ''low''}" for items :: "vulnItem list"
    using that by (induction items) auto
  from this [of "vuln_items V"] item_severity show ?thesis by (simp add: severity_count_def)
qed

text \<open>
  Modes are compared as numbers. A mode whose bits are among the allowed ones is never reported; but a
  numerically smaller mode can grant more, as \<open>rw----rw-\<close> does against the allowed \<open>rw-r--r--\<close>.
\<close>

lemma allowed_bits_are_silent: "perm AND maxPerm = perm \<Longrightarrow> evaluateFilePermission path perm maxPerm = None"
  by (metis evaluateFilePermission_def word_and_le1)

lemma world_writable_crontab_is_silent:
  "bit (0x186 :: file_mode) 1 \<and> evaluateFilePermission ''/etc/crontab'' 0x186 0x1A4 = None"
  by (simp add: evaluateFilePermission_def)

text \<open>A line \<open>find\<close> writes to its error output is reported as a set-uid program.\<close>

lemma find_error_is_a_finding:
  "unusual_suid safeDirs (''find: /root: Permission denied'' @ nl) = [''find: /root: Permission denied'']"
  by code_simp

end
