(* ===== verification/Agent_Tokens.thy ===== *)
theory Agent_Tokens
  imports Prometheus Agent_Hub
begin

text \<open>
  The life of an agent token: issued and rotated by \<open>handleGenerateAgentToken\<close>
  (\<open>internal/hub/api/routes.go\<close>), created for a fixed deployment by \<open>BootstrapAgent\<close>
  (\<open>internal/hub/agenttoken\<close>), and presented by the agent to \<open>findAgentByToken\<close> in the websocket handler.
\<close>

section \<open>Issuing\<close>

definition token_entry :: "agent \<Rightarrow> Entry" where
  "token_entry a = \<lparr>ey_Action = ''agent.token.regenerate'', ey_TargetType = ''agents'', ey_TargetID = ag_id a,
     ey_AgentID = ag_id a, ey_Details = Some [(''hostname'', AStr (ag_hostname a))], ey_Result = ''success''\<rparr>"

definition with_token :: "string \<Rightarrow> agent \<Rightarrow> agent" where
  "with_token h a = a\<lparr>ag_token_hash := h, ag_status := (if ag_status a = [] then ''pending'' else ag_status a)\<rparr>"

text \<open>The new rows, the status, the token or error text, and the audit entry; \<open>random\<close> as in \<open>token_Generate\<close>.\<close>

definition handleGenerateAgentToken ::
  "('a, agent) table \<Rightarrow> (string \<Rightarrow> string) \<Rightarrow> string option \<Rightarrow> string \<Rightarrow> 'a \<Rightarrow> 'a \<times> int \<times> string \<times> Entry option" where
  "handleGenerateAgentToken A hash random agentID db =
     (if agentID = [] then (db, 400, ''agent ID is required'', None)
      else case t_find A db agentID of
        None \<Rightarrow> (db, 404, ''agent not found'', None)
      | Some agent \<Rightarrow>
          (case token_Generate hash random of
             None \<Rightarrow> (db, 500, ''failed to generate token'', None)
           | Some (plaintext, h) \<Rightarrow>
               (case t_save A db (with_token h agent) of
                  (db', None) \<Rightarrow> (db', 500, ''failed to save token'', None)
                | (db', Some _) \<Rightarrow> (db', 200, plaintext, Some (token_entry agent)))))"

section \<open>The bootstrap agent\<close>

definition new_agent :: agent where
  "new_agent = \<lparr>ag_id = [], ag_hostname = [], ag_os = [], ag_ip = [], ag_version = [], ag_status = [], ag_last_seen = 0,
     ag_token_hash = [], ag_tags = [], ag_arch = [], ag_platform = [], ag_update_status = [], ag_update_error = [],
     ag_update_target_version = [], ag_update_requested_at = 0, ag_update_requested_by = [],
     ag_dropped_messages = 0, ag_logs_lines_total = 0\<rparr>"

text \<open>The result is \<open>False\<close> for an error. A failing query counts as no bootstrap agent.\<close>

definition BootstrapAgent ::
  "('a, agent) table \<Rightarrow> (string \<Rightarrow> string) \<Rightarrow> bool \<Rightarrow> string \<Rightarrow> 'a \<Rightarrow> 'a \<times> bool" where
  "BootstrapAgent A hash has_collection plaintextToken db =
     (if plaintextToken = [] then (db, True)
      else case t_all A db (\<lambda>r. ag_hostname r = ''bootstrap'') of
        Some (_ # _) \<Rightarrow> (db, True)
      | _ \<Rightarrow>
          if \<not> has_collection then (db, False)
          else case t_save A db (new_agent\<lparr>ag_hostname := ''bootstrap'', ag_status := ''pending'',
                   ag_token_hash := hash plaintextToken\<rparr>) of
            (db', None) \<Rightarrow> (db', False)
          | (db', Some _) \<Rightarrow> (db', True))"

section \<open>Properties\<close>

text \<open>What the unique index on \<open>token_hash\<close> promises of the rows.\<close>

definition hashes_unique :: "('a, agent) table \<Rightarrow> 'a \<Rightarrow> bool" where
  "hashes_unique A db \<longleftrightarrow> (\<forall>r r'. t_find A db (ag_id r) = Some r \<longrightarrow> t_find A db (ag_id r') = Some r' \<longrightarrow>
     ag_token_hash r = ag_token_hash r' \<longrightarrow> ag_token_hash r \<noteq> [] \<longrightarrow> ag_id r = ag_id r')"

lemma findAgentByToken_sound:
  assumes "record_table A ag_id set_ag_id" and "findAgentByToken A hash t db = Some a"
  shows "t_find A db (ag_id a) = Some a \<and> ag_token_hash a = hash t"
proof -
  from assms(2) obtain rs where "t_all A db (\<lambda>r. ag_token_hash r = hash t) = Some (a # rs)"
    by (auto simp: findAgentByToken_def split: option.splits list.splits if_splits)
  from record_table.all_memD [OF assms(1) this, of a] show ?thesis by simp
qed

lemma findAgentByToken_complete:
  assumes "record_table A ag_id set_ag_id" and "hashes_unique A db" and "t_find A db i = Some a"
    and "ag_token_hash a = hash t" and "hash t \<noteq> []" and "t_all A db (\<lambda>r. ag_token_hash r = hash t) \<noteq> None"
  shows "findAgentByToken A hash t db = Some a"
proof -
  from assms(6) obtain rs where rs: "t_all A db (\<lambda>r. ag_token_hash r = hash t) = Some rs" by blast
  have "a \<in> set rs" by (rule record_table.all_memI [OF assms(1) rs assms(3)]) (rule assms(4))
  then obtain r rs' where r: "rs = r # rs'" by (cases rs) auto
  have "t_find A db (ag_id r) = Some r \<and> ag_token_hash r = hash t"
    using record_table.all_memD [OF assms(1) rs, of r] r by simp
  moreover have "ag_id a = i" using record_table.find_ident [OF assms(1,3)] .
  ultimately have "r = a" using assms(2-5) unfolding hashes_unique_def by (metis option.inject)
  then show ?thesis using rs r assms(4) by (simp add: findAgentByToken_def)
qed

lemma issued:
  assumes "handleGenerateAgentToken A hash random i db = (db', 200, plaintext, e)"
  obtains a j where "i \<noteq> []" "t_find A db i = Some a" "t_save A db (with_token (hash plaintext) a) = (db', Some j)"
  using assms by (auto simp: handleGenerateAgentToken_def token_Generate_def split: if_splits option.splits prod.splits)

text \<open>C28:
  A token that was issued opens the door, and is the only one that does: once the route has
  answered with a token, the websocket handler finds the agent for it, any token it accepts for that
  agent has the same hash, and for every other agent it accepts what it accepted before. A token
  that opened the agent's connection before, and has another hash, is refused: it opens no agent's
  connection any more. The hashes of the rows are unique before and after, as the index demands.
\<close>

theorem issued_token_is_the_only_key:
  assumes "record_table A ag_id set_ag_id"
    and "handleGenerateAgentToken A hash random i db = (db', 200, plaintext, e)"
    and "hashes_unique A db" and "hashes_unique A db'" and "hash plaintext \<noteq> []" and "\<And>P. t_all A db' P \<noteq> None"
  shows "(\<exists>a. findAgentByToken A hash plaintext db' = Some a \<and> ag_id a = i)
    \<and> (\<forall>t b. findAgentByToken A hash t db' = Some b \<and> ag_id b = i \<longrightarrow> hash t = hash plaintext)
    \<and> (\<forall>t b. findAgentByToken A hash t db = Some b \<and> ag_id b \<noteq> i \<and> hash t \<noteq> [] \<longrightarrow>
         findAgentByToken A hash t db' = Some b)
    \<and> (\<forall>t b. findAgentByToken A hash t db = Some b \<and> ag_id b = i \<and> hash t \<noteq> [] \<and> hash t \<noteq> hash plaintext \<longrightarrow>
         findAgentByToken A hash t db' = None)"
proof -
  obtain a j where a: "i \<noteq> []" "t_find A db i = Some a" "t_save A db (with_token (hash plaintext) a) = (db', Some j)"
    using issued [OF assms(2)] .
  let ?a = "with_token (hash plaintext) a"
  have id: "ag_id ?a = i" "ag_token_hash ?a = hash plaintext"
    using record_table.find_ident [OF assms(1) a(2)] by (simp_all add: with_token_def)
  have db': "t_find A db' = (t_find A db)(i \<mapsto> ?a)"
    using record_table.save_update [OF assms(1) a(3)] id a(1) by simp
  have new: "findAgentByToken A hash plaintext db' = Some ?a"
    using findAgentByToken_complete [where hash = hash and t = plaintext and i = i, OF assms(1,4) _ id(2) assms(5,6)] db' by simp
  have "hash t = hash plaintext" if "findAgentByToken A hash t db' = Some b" "ag_id b = i" for t b
    using findAgentByToken_sound [OF assms(1) that(1)] that(2) db' id(2) by simp
  moreover have "findAgentByToken A hash t db' = Some b"
    if "findAgentByToken A hash t db = Some b" "ag_id b \<noteq> i" "hash t \<noteq> []" for t b
  proof -
    have b: "t_find A db' (ag_id b) = Some b \<and> ag_token_hash b = hash t"
      using findAgentByToken_sound [OF assms(1) that(1)] that(2) db' by simp
    show ?thesis using findAgentByToken_complete [where hash = hash and t = t and i = "ag_id b" and a = b, OF assms(1,4) _ _ that(3) assms(6)] b by simp
  qed
  moreover have "findAgentByToken A hash t db' = None"
    if old: "findAgentByToken A hash t db = Some b" "ag_id b = i" "hash t \<noteq> []" "hash t \<noteq> hash plaintext" for t b
  proof (rule ccontr)
    assume "findAgentByToken A hash t db' \<noteq> None"
    then obtain c where c: "findAgentByToken A hash t db' = Some c" by blast
    note c' = findAgentByToken_sound [OF assms(1) c] and b' = findAgentByToken_sound [OF assms(1) old(1)]
    have ne: "ag_id c \<noteq> i" using c' db' id(2) old(4) by auto
    then have "t_find A db (ag_id c) = Some c" using c' db' by simp
    with b' c' old(3) assms(3) have "ag_id b = ag_id c" unfolding hashes_unique_def by metis
    with ne old(2) show False by simp
  qed
  ultimately show ?thesis using new id(1) by blast
qed

definition old_key :: agent where
  "old_key = new_agent\<lparr>ag_id := ''a'', ag_token_hash := ''old''\<rparr>"

definition two_agents :: "agent mem" where
  "two_agents = \<lparr>m_rows = [(''a'', old_key), (''b'', new_agent\<lparr>ag_id := ''b'', ag_token_hash := ''other''\<rparr>)], m_faults = []\<rparr>"

definition rotated :: "agent mem" where
  "rotated = fst (handleGenerateAgentToken mem_agents (\<lambda>t. t) (Some ''new'') ''a'' two_agents)"

theorem issued_token_is_the_only_key_witness:
  "(\<exists>a. findAgentByToken mem_agents (\<lambda>t. t) ''new'' rotated = Some a \<and> ag_id a = ''a'')
   \<and> findAgentByToken mem_agents (\<lambda>t. t) ''old'' two_agents = Some old_key
   \<and> findAgentByToken mem_agents (\<lambda>t. t) ''old'' rotated = None"
proof -
  note defs = handleGenerateAgentToken_def token_Generate_def two_agents_def old_key_def new_agent_def with_token_def
    mem_defs set_ag_id_def rotated_def Let_def
  obtain e where h: "handleGenerateAgentToken mem_agents (\<lambda>t. t) (Some ''new'') ''a'' two_agents = (rotated, 200, ''new'', e)"
    by (simp add: defs)
  have u: "hashes_unique mem_agents rotated" "hashes_unique mem_agents two_agents"
    by (auto simp: hashes_unique_def defs split: if_splits)
  have q: "t_all mem_agents rotated P \<noteq> None" for P by (simp add: mem_defs)
  have old: "findAgentByToken mem_agents (\<lambda>t. t) ''old'' two_agents = Some old_key"
    by (simp add: findAgentByToken_def defs List.map_filter_def)
  have ne: "''new'' \<noteq> []" "''old'' \<noteq> []" "''old'' \<noteq> ''new''" "ag_id old_key = ''a''" by (simp_all add: old_key_def)
  note key = issued_token_is_the_only_key [OF agents.record_table_axioms h u(2,1) ne(1) q]
  have "findAgentByToken mem_agents (\<lambda>t. t) ''old'' rotated = None"
    using key [THEN conjunct2, THEN conjunct2, THEN conjunct2] old ne by blast
  with key [THEN conjunct1] old show ?thesis by (intro conjI)
qed

text \<open>
  Once the bootstrap agent has registered under the name of its host, the next start of the hub tries
  to create it again and the unique index refuses it: the start reports an error, the rows stay.
\<close>

lemma bootstrap_after_rename:
  assumes "record_table A ag_id set_ag_id" and "t_all A db (\<lambda>r. ag_hostname r = ''bootstrap'') = Some []"
    and "t_find A db i = Some a" and "ag_token_hash a = hash token" and "hash token \<noteq> []" and "token \<noteq> []"
    and index: "\<And>r db' j. t_save A db r = (db', Some j) \<Longrightarrow> hashes_unique A db'"
  shows "snd (BootstrapAgent A hash c token db) = False \<and> t_find A (fst (BootstrapAgent A hash c token db)) = t_find A db"
proof (cases c)
  case True
  let ?r = "new_agent\<lparr>ag_hostname := ''bootstrap'', ag_status := ''pending'', ag_token_hash := hash token\<rparr>"
  have "snd (t_save A db ?r) = None"
  proof (rule ccontr)
    assume "snd (t_save A db ?r) \<noteq> None"
    then obtain db' j where s: "t_save A db ?r = (db', Some j)" by (cases "t_save A db ?r") auto
    have n: "j \<noteq> [] \<and> t_find A db j = None \<and> t_find A db' = (t_find A db)(j \<mapsto> set_ag_id j ?r)"
      using record_table.save_new [OF assms(1) s] by (simp add: new_agent_def)
    moreover have r: "ag_id (set_ag_id j ?r) = j \<and> ag_token_hash (set_ag_id j ?r) = hash token"
      by (simp add: set_ag_id_def)
    moreover have "ag_id a = i" by (rule record_table.find_ident [OF assms(1,3)])
    ultimately have "t_find A db' (ag_id a) = Some a" "i \<noteq> j"
      "t_find A db' (ag_id (set_ag_id j ?r)) = Some (set_ag_id j ?r)"
      using assms(3) by auto
    with index [OF s, unfolded hashes_unique_def, rule_format, of a "set_ag_id j ?r"] assms(4,5) r \<open>ag_id a = i\<close>
    show False by simp
  qed
  then obtain db' where s: "t_save A db ?r = (db', None)" by (cases "t_save A db ?r") auto
  with record_table.save_err [OF assms(1) s] True assms(2,6) show ?thesis by (simp add: BootstrapAgent_def)
qed (use assms(2,6) in \<open>simp add: BootstrapAgent_def\<close>)


end
