(* ===== verification/Dashboard.thy ===== *)
theory Dashboard
  imports Prometheus Command_Services
begin

text \<open>
  The reading routes of \<open>internal/hub/api/routes.go\<close>: the dashboard, the time series of the charts, the
  hardware page and the latest report of a type. Rows come from the metrics collection; parsing of an
  RFC 3339 time, \<open>sort.Slice\<close> and PocketBase's sort order are parameters.
\<close>

section \<open>Numbers and times\<close>

text \<open>\<open>math.Round\<close> rounds half away from zero; \<open>math.Round(v*100)/100\<close>.\<close>

definition math_round :: "rat \<Rightarrow> int" where
  "math_round x = (if x < 0 then - \<lfloor>1 / 2 - x\<rfloor> else \<lfloor>x + 1 / 2\<rfloor>)"

definition two_decimals :: "rat \<Rightarrow> rat" where
  "two_decimals v = of_int (math_round (v * 100)) / 100"

lemma two_decimals_int: "two_decimals (of_int n) = of_int n"
proof -
  have "math_round (of_int k) = k" for k
  proof (cases "k < 0")
    case True
    have "\<lfloor>1 / 2 - (of_int k :: rat)\<rfloor> = - k" by (rule floor_unique) simp_all
    with True show ?thesis by (simp add: math_round_def)
  next
    case False
    have "\<lfloor>(of_int k :: rat) + 1 / 2\<rfloor> = k" by (rule floor_unique) simp_all
    with False show ?thesis by (simp add: math_round_def)
  qed
  from this [of "n * 100"] show ?thesis by (simp add: two_decimals_def)
qed

text \<open>\<open>strconv.ParseInt\<close> in base 10 agrees with \<open>Atoi\<close> for 64 bits.\<close>

definition unix_time :: "int \<Rightarrow> time" where
  "unix_time secs = unix_epoch + secs * second"

definition parseTimeParam :: "(string \<Rightarrow> time option) \<Rightarrow> string \<Rightarrow> time \<Rightarrow> time" where
  "parseTimeParam rfc3339 s fallback =
     (if s = [] then fallback
      else case atoi s of
        Some secs \<Rightarrow> unix_time secs
      | None \<Rightarrow> (case rfc3339 s of Some t \<Rightarrow> t | None \<Rightarrow> fallback))"

text \<open>\<open>Unix\<close> of a stored date; an unset one does not parse.\<close>

definition parseTimestamp :: "time \<Rightarrow> rat" where
  "parseTimestamp t = (if t = 0 then 0 else of_int ((t - unix_epoch) div second))"

section \<open>Dashboard\<close>

record metricsSummary =
  ms_CPU :: rat
  ms_Memory :: rat
  ms_Disk :: rat
  ms_CveTotals :: "(string \<times> int) list"

definition cve_totals :: "obj \<Rightarrow> (string \<times> int) list" where
  "cve_totals totals = List.map_filter (\<lambda>(k, v). map_option (\<lambda>f. (k, trunc_rat f)) (api_toFloat v)) totals"

definition summarize :: "string \<times> metric \<Rightarrow> metricsSummary \<Rightarrow> metricsSummary" where
  "summarize p s = (case p of (mtype, record) \<Rightarrow>
     (case mt_data record of
        None \<Rightarrow> s
      | Some data \<Rightarrow>
          if mtype = ''cpu'' then (case api_toFloat (aget data ''total_percent'') of Some v \<Rightarrow> s\<lparr>ms_CPU := v\<rparr> | None \<Rightarrow> s)
          else if mtype = ''memory'' then (case api_toFloat (aget data ''used_percent'') of Some v \<Rightarrow> s\<lparr>ms_Memory := v\<rparr> | None \<Rightarrow> s)
          else if mtype = ''disk'' then s\<lparr>ms_Disk := extractDiskPercent data\<rparr>
          else if mtype = ''cve_scan'' then
            (if as_bool (aget data ''available'') = Some True
             then (case as_obj (aget data ''totals'') of
                     Some totals \<Rightarrow> if cve_totals totals \<noteq> [] then s\<lparr>ms_CveTotals := cve_totals totals\<rparr> else s
                   | None \<Rightarrow> s)
             else s)
          else s))"

definition agent_summary :: "(metric list \<Rightarrow> metric list) \<Rightarrow> ('m, metric) table \<Rightarrow> 'm \<Rightarrow> string \<Rightarrow> metricsSummary" where
  "agent_summary newest M db agentID =
     fold summarize (GetLatestMetricsByAgent newest M agentID db)
       \<lparr>ms_CPU = 0, ms_Memory = 0, ms_Disk = 0, ms_CveTotals = []\<rparr>"

text \<open>\<open>last_seen\<close> is PocketBase's descending order; at most a hundred agents are shown.\<close>

definition handleDashboard ::
  "(metric list \<Rightarrow> metric list) \<Rightarrow> (agent list \<Rightarrow> agent list) \<Rightarrow> ('m, metric) table \<Rightarrow> 'm \<Rightarrow> agent list option
   \<Rightarrow> int + (string \<times> metricsSummary) list \<times> nat" where
  "handleDashboard newest last_seen M db rows =
     (case rows of
        None \<Rightarrow> Inl 500
      | Some rs \<Rightarrow>
          let agents = take 100 (last_seen rs)
          in Inr (map (\<lambda>a. (ag_id a, agent_summary newest M db (ag_id a))) agents, length agents))"

section \<open>Charts\<close>

record timeSeries =
  tm_Timestamps :: "rat list"
  tm_Values :: "rat list"

definition empty_series :: timeSeries where
  "empty_series = \<lparr>tm_Timestamps = [], tm_Values = []\<rparr>"

definition add_point :: "rat \<Rightarrow> rat \<Rightarrow> timeSeries \<Rightarrow> timeSeries" where
  "add_point ts v s = \<lparr>tm_Timestamps = tm_Timestamps s @ [ts], tm_Values = tm_Values s @ [v]\<rparr>"

definition sortTimeSeries :: "((rat \<times> rat) list \<Rightarrow> (rat \<times> rat) list) \<Rightarrow> timeSeries \<Rightarrow> timeSeries" where
  "sortTimeSeries sort_slice s =
     (if length (tm_Timestamps s) \<le> 1 then s
      else let pairs = sort_slice (zip (tm_Timestamps s) (tm_Values s))
           in \<lparr>tm_Timestamps = map fst pairs, tm_Values = map snd pairs\<rparr>)"

definition float_or_0 :: "any \<Rightarrow> rat" where
  "float_or_0 v = (case api_toFloat v of Some f \<Rightarrow> f | None \<Rightarrow> 0)"

definition traffic :: "obj \<Rightarrow> rat" where
  "traffic i = float_or_0 (aget i ''bytes_recv'') + float_or_0 (aget i ''bytes_sent'')"

fun best_iface :: "any list \<Rightarrow> obj option \<Rightarrow> rat \<Rightarrow> obj option" where
  "best_iface [] best bestTotal = best"
| "best_iface (x # xs) best bestTotal =
     (case as_obj x of
        None \<Rightarrow> best_iface xs best bestTotal
      | Some ifMap \<Rightarrow>
          if str_of (aget ifMap ''name'') = ''lo0'' \<or> str_of (aget ifMap ''name'') = ''lo'' then best_iface xs best bestTotal
          else if best = None \<or> bestTotal < traffic ifMap then best_iface xs (Some ifMap) (traffic ifMap)
          else best_iface xs best bestTotal)"

definition bestNetworkInterface :: "obj \<Rightarrow> obj option" where
  "bestNetworkInterface data =
     (case as_arr (aget data ''interfaces'') of None \<Rightarrow> None | Some interfaces \<Rightarrow> best_iface interfaces None 0)"

definition extractNetworkBytes :: "obj \<Rightarrow> rat \<times> rat" where
  "extractNetworkBytes data =
     (case bestNetworkInterface data of
        None \<Rightarrow> (0, 0)
      | Some best \<Rightarrow>
          (two_decimals (float_or_0 (aget best ''bytes_recv'') / 1024 / 1024),
           two_decimals (float_or_0 (aget best ''bytes_sent'') / 1024 / 1024)))"

definition extractNetworkRates :: "obj \<Rightarrow> rat \<times> rat" where
  "extractNetworkRates data =
     (case bestNetworkInterface data of
        None \<Rightarrow> (0, 0)
      | Some best \<Rightarrow>
          (two_decimals (float_or_0 (aget best ''bytes_recv_per_sec'')),
           two_decimals (float_or_0 (aget best ''bytes_sent_per_sec''))))"

definition pick_resolution :: "string \<Rightarrow> time \<Rightarrow> time \<Rightarrow> string" where
  "pick_resolution resolution start stop =
     (if resolution \<noteq> [] then resolution
      else let d = t_sub stop start in
        if d \<le> 2 * hour then ''raw'' else if d \<le> 24 * hour then ''1m'' else if d \<le> 7 * 24 * hour then ''5m'' else ''1h'')"

record chart_series =
  se_cpu :: timeSeries
  se_memory :: timeSeries
  se_disk :: timeSeries
  se_network_rx :: timeSeries
  se_network_tx :: timeSeries
  se_network_rx_rate :: timeSeries
  se_network_tx_rate :: timeSeries

definition no_series :: chart_series where
  "no_series = \<lparr>se_cpu = empty_series, se_memory = empty_series, se_disk = empty_series, se_network_rx = empty_series,
     se_network_tx = empty_series, se_network_rx_rate = empty_series, se_network_tx_rate = empty_series\<rparr>"

definition chart_row :: "metric \<Rightarrow> chart_series \<Rightarrow> chart_series" where
  "chart_row r s =
     (let ts = parseTimestamp (mt_timestamp r) in
      if ts = 0 then s
      else case mt_data r of
        None \<Rightarrow> s
      | Some data \<Rightarrow>
          if mt_type r = ''cpu'' then
            (case api_toFloat (aget data ''total_percent'') of
               Some v \<Rightarrow> s\<lparr>se_cpu := add_point ts (two_decimals v) (se_cpu s)\<rparr> | None \<Rightarrow> s)
          else if mt_type r = ''memory'' then
            (case api_toFloat (aget data ''used_percent'') of
               Some v \<Rightarrow> s\<lparr>se_memory := add_point ts (two_decimals v) (se_memory s)\<rparr> | None \<Rightarrow> s)
          else if mt_type r = ''disk'' then
            (let v = extractDiskPercent data in
             if v > 0 then s\<lparr>se_disk := add_point ts (two_decimals v) (se_disk s)\<rparr> else s)
          else if mt_type r = ''network'' then
            (case (extractNetworkBytes data, extractNetworkRates data) of
               ((rx, tx), (rxRate, txRate)) \<Rightarrow>
                 s\<lparr>se_network_rx := add_point ts rx (se_network_rx s), se_network_tx := add_point ts tx (se_network_tx s),
                   se_network_rx_rate := add_point ts rxRate (se_network_rx_rate s),
                   se_network_tx_rate := add_point ts txRate (se_network_tx_rate s)\<rparr>)
          else s)"

definition sort_charts :: "((rat \<times> rat) list \<Rightarrow> (rat \<times> rat) list) \<Rightarrow> chart_series \<Rightarrow> chart_series" where
  "sort_charts f s =
     \<lparr>se_cpu = sortTimeSeries f (se_cpu s), se_memory = sortTimeSeries f (se_memory s), se_disk = sortTimeSeries f (se_disk s),
      se_network_rx = sortTimeSeries f (se_network_rx s), se_network_tx = sortTimeSeries f (se_network_tx s),
      se_network_rx_rate = sortTimeSeries f (se_network_rx_rate s), se_network_tx_rate = sortTimeSeries f (se_network_tx_rate s)\<rparr>"

record chart_query =
  cq_agent_id :: string
  cq_start :: string
  cq_end :: string
  cq_resolution :: string

definition handleMetricsQuery ::
  "(string \<Rightarrow> time option) \<Rightarrow> (metric list \<Rightarrow> metric list) \<Rightarrow> ((rat \<times> rat) list \<Rightarrow> (rat \<times> rat) list) \<Rightarrow> ('m, metric) table
   \<Rightarrow> time \<Rightarrow> chart_query \<Rightarrow> 'm \<Rightarrow> int + chart_series" where
  "handleMetricsQuery rfc3339 newest sort_slice M now q db =
     (let start = parseTimeParam rfc3339 (cq_start q) (now - hour);
          stop = parseTimeParam rfc3339 (cq_end q) now;
          resolution = pick_resolution (cq_resolution q) start stop
      in case QueryMetrics newest M (cq_agent_id q) [] start stop resolution db of
           None \<Rightarrow> Inl 500
         | Some records \<Rightarrow> Inr (sort_charts sort_slice (fold chart_row records no_series)))"

section \<open>Hardware and latest reports\<close>

text \<open>The newest row of a type: \<open>None\<close> for a failing query or no row; its data may not be an object.\<close>

definition latest_row :: "(metric list \<Rightarrow> metric list) \<Rightarrow> ('m, metric) table \<Rightarrow> 'm \<Rightarrow> string \<Rightarrow> string \<Rightarrow> metric option" where
  "latest_row newest M db agentID metricType =
     (case t_all M db (\<lambda>r. mt_agent_id r = agentID \<and> mt_type r = metricType) of
        None \<Rightarrow> None
      | Some rs \<Rightarrow> (case newest rs of [] \<Rightarrow> None | r # _ \<Rightarrow> Some r))"

definition fetchLatest :: "(metric list \<Rightarrow> metric list) \<Rightarrow> ('m, metric) table \<Rightarrow> 'm \<Rightarrow> string \<Rightarrow> string \<Rightarrow> obj option" where
  "fetchLatest newest M db agentID metricType =
     (case latest_row newest M db agentID metricType of None \<Rightarrow> None | Some r \<Rightarrow> mt_data r)"

record hardwareResponse =
  hw_CPULogical :: int
  hw_CPUPhysical :: int
  hw_TotalRAM :: int
  hw_Kernel :: string
  hw_Arch :: string
  hw_Uptime :: int
  hw_Load1 :: rat
  hw_Load5 :: rat
  hw_Load15 :: rat
  hw_Procs :: int
  hw_Platform :: string
  hw_PlatformVersion :: string

text \<open>A field that is missing or has another type keeps the zero value.\<close>

definition int_field :: "obj \<Rightarrow> string \<Rightarrow> int" where
  "int_field data k = (case api_toFloat (aget data k) of Some f \<Rightarrow> trunc_rat f | None \<Rightarrow> 0)"

definition hardware_of :: "obj option \<Rightarrow> obj option \<Rightarrow> obj option \<Rightarrow> hardwareResponse" where
  "hardware_of sysinfo cpu memory =
     (let s = (case sysinfo of Some d \<Rightarrow> d | None \<Rightarrow> []);
          c = (case cpu of Some d \<Rightarrow> d | None \<Rightarrow> []);
          m = (case memory of Some d \<Rightarrow> d | None \<Rightarrow> [])
      in \<lparr>hw_CPULogical = int_field c ''logical_count'', hw_CPUPhysical = int_field c ''physical_count'',
          hw_TotalRAM = int_field m ''total'', hw_Kernel = str_of (aget s ''kernel_version''), hw_Arch = str_of (aget s ''arch''),
          hw_Uptime = int_field s ''uptime'', hw_Load1 = float_or_0 (aget s ''load1''), hw_Load5 = float_or_0 (aget s ''load5''),
          hw_Load15 = float_or_0 (aget s ''load15''), hw_Procs = int_field s ''procs'', hw_Platform = str_of (aget s ''platform''),
          hw_PlatformVersion = str_of (aget s ''platform_version'')\<rparr>)"

definition handleHardware ::
  "('a, agent) table \<Rightarrow> 'a \<Rightarrow> (metric list \<Rightarrow> metric list) \<Rightarrow> ('m, metric) table \<Rightarrow> 'm \<Rightarrow> string \<Rightarrow> int + hardwareResponse" where
  "handleHardware A adb newest M db agentID =
     (if agentID = [] then Inl 400
      else case t_find A adb agentID of
        None \<Rightarrow> Inl 404
      | Some _ \<Rightarrow> Inr (hardware_of (fetchLatest newest M db agentID ''sysinfo'') (fetchLatest newest M db agentID ''cpu'')
          (fetchLatest newest M db agentID ''memory'')))"

definition zero_counts :: "string list \<Rightarrow> any" where
  "zero_counts ks = AObj (map (\<lambda>k. (k, AInt 0)) ks)"

text \<open>The JSON answered when there is no report yet, as the value it denotes.\<close>

definition emptyResponses :: "string \<Rightarrow> obj" where
  "emptyResponses metricType =
     (if metricType = ''ports'' then [(''listeners'', AArr []), (''count'', AInt 0)]
      else if metricType = ''processes'' then [(''processes'', AArr []), (''total_count'', AInt 0)]
      else if metricType = ''hardening'' then
        [(''checks'', AArr []), (''score'', AInt 0), (''total'', AInt 0), (''passed'', AInt 0), (''failed'', AInt 0), (''warnings'', AInt 0)]
      else if metricType = ''vulnerabilities'' then
        [(''items'', AArr []), (''summary'', zero_counts [''critical'', ''high'', ''medium'', ''low'']), (''total'', AInt 0)]
      else if metricType = ''diskio'' then [(''devices'', AArr [])]
      else if metricType = ''connections'' then [(''summary'', AObj []), (''total'', AInt 0), (''by_port'', AArr [])]
      else if metricType = ''services'' then
        [(''services'', AArr []), (''total'', AInt 0), (''running'', AInt 0), (''failed'', AInt 0), (''other'', AInt 0)]
      else if metricType = ''cve_scan'' then
        [(''scanner'', AStr []), (''scanner_version'', AStr []), (''db_updated_at'', AStr []), (''scanned_at'', AStr []),
         (''duration_ms'', AInt 0), (''stale'', ABool False), (''available'', ABool False),
         (''error'', AStr ''no scan has been reported yet''), (''targets'', AArr []),
         (''totals'', zero_counts [''critical'', ''high'', ''medium'', ''low'', ''unknown'', ''fixable''])]
      else if metricType = ''oracle'' then
        [(''instance'', AObj []), (''sessions'', AObj []), (''blocked_sessions'', AArr []), (''top_sql'', AArr []),
         (''tablespaces'', AArr []), (''sga'', AObj []), (''pga'', AObj []), (''waits'', AArr []), (''locks'', AArr [])]
      else [])"

text \<open>The stored text of \<open>data\<close> is answered as it is when it is valid JSON; here: when it is an object.\<close>

definition handleLatestMetricByType ::
  "('a, agent) table \<Rightarrow> 'a \<Rightarrow> (metric list \<Rightarrow> metric list) \<Rightarrow> ('m, metric) table \<Rightarrow> 'm \<Rightarrow> string \<Rightarrow> string \<Rightarrow> int + obj" where
  "handleLatestMetricByType A adb newest M db agentID metricType =
     (if agentID = [] then Inl 400
      else case t_find A adb agentID of
        None \<Rightarrow> Inl 404
      | Some _ \<Rightarrow>
          (case latest_row newest M db agentID metricType of
             None \<Rightarrow> Inr (emptyResponses metricType)
           | Some record \<Rightarrow> (case mt_data record of None \<Rightarrow> Inl 500 | Some data \<Rightarrow> Inr data)))"

section \<open>Properties\<close>

text \<open>
  The dashboard never shows CVE totals: the case for \<open>cve_scan\<close> is never reached, because the query
  fetches the four basic types only.
\<close>

lemma summarize_no_cve: "fst p \<noteq> ''cve_scan'' \<Longrightarrow> ms_CveTotals (summarize p s) = ms_CveTotals s"
  by (auto simp: summarize_def split: prod.splits option.splits)

lemma in_map_filter: "y \<in> set (List.map_filter g xs) \<Longrightarrow> \<exists>x \<in> set xs. g x = Some y"
  by (auto simp: List.map_filter_def)

lemma latest_types: "p \<in> set (GetLatestMetricsByAgent newest M aid db) \<Longrightarrow> fst p \<noteq> ''cve_scan''"
  unfolding GetLatestMetricsByAgent_def by (drule in_map_filter) (auto split: option.splits list.splits)

lemma dashboard_never_shows_cves: "ms_CveTotals (agent_summary newest M db aid) = []"
proof -
  have "ms_CveTotals (fold summarize ps s) = ms_CveTotals s" if "\<forall>p \<in> set ps. fst p \<noteq> ''cve_scan''" for ps s
    using that by (induction ps arbitrary: s) (simp_all add: summarize_no_cve)
  with latest_types [of _ newest M aid db] show ?thesis by (simp add: agent_summary_def)
qed

text \<open>A series as the list of its points.\<close>

definition points :: "timeSeries \<Rightarrow> (rat \<times> rat) list" where
  "points s = zip (tm_Timestamps s) (tm_Values s)"

definition parallel :: "timeSeries \<Rightarrow> bool" where
  "parallel s \<longleftrightarrow> length (tm_Timestamps s) = length (tm_Values s)"

lemma points_empty [simp]: "points empty_series = []" "parallel empty_series"
  by (simp_all add: points_def parallel_def empty_series_def)

lemma points_add [simp]:
  "parallel s \<Longrightarrow> points (add_point ts v s) = points s @ [(ts, v)]" "parallel (add_point ts v s) = parallel s"
  by (simp_all add: points_def parallel_def add_point_def)

definition sorts_points :: "((rat \<times> rat) list \<Rightarrow> (rat \<times> rat) list) \<Rightarrow> bool" where
  "sorts_points f \<longleftrightarrow> (\<forall>xs. mset (f xs) = mset xs \<and> sorted (map fst (f xs)))"

lemma sorted_series:
  assumes "sorts_points f" and "parallel s"
  shows "sorted (tm_Timestamps (sortTimeSeries f s)) \<and> mset (points (sortTimeSeries f s)) = mset (points s)
    \<and> parallel (sortTimeSeries f s)"
proof (cases "length (tm_Timestamps s) \<le> 1")
  case True
  then have "sorted (tm_Timestamps s)" by (cases "tm_Timestamps s") auto
  then show ?thesis using True assms(2) by (simp add: sortTimeSeries_def)
next
  case False
  let ?p = "f (points s)"
  have "mset ?p = mset (points s)" "sorted (map fst ?p)" using assms(1) by (simp_all add: sorts_points_def)
  moreover have "zip (map fst ?p) (map snd ?p) = ?p" by (rule zip_map_fst_snd)
  ultimately show ?thesis using False by (simp add: sortTimeSeries_def points_def parallel_def Let_def)
qed

text \<open>The point a row contributes to each of the charts.\<close>

definition row_point :: "(string \<Rightarrow> obj \<Rightarrow> rat option) \<Rightarrow> metric \<Rightarrow> (rat \<times> rat) option" where
  "row_point f r =
     (if parseTimestamp (mt_timestamp r) = 0 then None
      else case mt_data r of
        None \<Rightarrow> None
      | Some data \<Rightarrow> map_option (\<lambda>v. (parseTimestamp (mt_timestamp r), v)) (f (mt_type r) data))"

definition cpu_value :: "string \<Rightarrow> obj \<Rightarrow> rat option" where
  "cpu_value t data = (if t = ''cpu'' then map_option two_decimals (api_toFloat (aget data ''total_percent'')) else None)"

definition memory_value :: "string \<Rightarrow> obj \<Rightarrow> rat option" where
  "memory_value t data = (if t = ''memory'' then map_option two_decimals (api_toFloat (aget data ''used_percent'')) else None)"

definition disk_value :: "string \<Rightarrow> obj \<Rightarrow> rat option" where
  "disk_value t data = (if t = ''disk'' \<and> 0 < extractDiskPercent data then Some (two_decimals (extractDiskPercent data)) else None)"

definition network_value :: "(obj \<Rightarrow> rat) \<Rightarrow> string \<Rightarrow> obj \<Rightarrow> rat option" where
  "network_value f t data = (if t = ''network'' then Some (f data) else None)"

lemmas value_defs = row_point_def cpu_value_def memory_value_def disk_value_def network_value_def

definition charts_parallel :: "chart_series \<Rightarrow> bool" where
  "charts_parallel s \<longleftrightarrow> parallel (se_cpu s) \<and> parallel (se_memory s) \<and> parallel (se_disk s) \<and> parallel (se_network_rx s)
     \<and> parallel (se_network_tx s) \<and> parallel (se_network_rx_rate s) \<and> parallel (se_network_tx_rate s)"

definition opt_to_list :: "'a option \<Rightarrow> 'a list" where
  "opt_to_list x = (case x of None \<Rightarrow> [] | Some y \<Rightarrow> [y])"

lemma chart_row_parallel: "charts_parallel s \<Longrightarrow> charts_parallel (chart_row r s)"
  by (auto simp: charts_parallel_def chart_row_def Let_def split: option.splits prod.splits)

text \<open>What a chart shows: which series, and the value it takes from a row.\<close>

definition shows_values :: "(chart_series \<Rightarrow> timeSeries) \<Rightarrow> (string \<Rightarrow> obj \<Rightarrow> rat option) \<Rightarrow> bool" where
  "shows_values sel f \<longleftrightarrow> (sel, f) \<in> {(se_cpu, cpu_value), (se_memory, memory_value), (se_disk, disk_value),
     (se_network_rx, network_value (fst \<circ> extractNetworkBytes)), (se_network_tx, network_value (snd \<circ> extractNetworkBytes)),
     (se_network_rx_rate, network_value (fst \<circ> extractNetworkRates)),
     (se_network_tx_rate, network_value (snd \<circ> extractNetworkRates))}"

lemma chart_row_points:
  assumes "charts_parallel s" and "shows_values sel f"
  shows "points (sel (chart_row r s)) = points (sel s) @ opt_to_list (row_point f r)"
  using assms unfolding shows_values_def charts_parallel_def
  by (auto simp: chart_row_def value_defs opt_to_list_def Let_def split: option.splits prod.splits)

lemma fold_charts:
  assumes "shows_values sel f" and "charts_parallel s"
  shows "charts_parallel (fold chart_row rs s) \<and> points (sel (fold chart_row rs s)) = points (sel s) @ List.map_filter (row_point f) rs"
  using assms(2)
proof (induction rs arbitrary: s)
  case (Cons r rs)
  show ?case using Cons.IH [OF chart_row_parallel [OF Cons.prems, of r]] chart_row_points [OF Cons.prems assms(1), of r]
    by (auto simp: opt_to_list_def List.map_filter_def split: option.splits)
qed (simp add: List.map_filter_def)

lemma sel_sorted: "shows_values sel f \<Longrightarrow> sel (sort_charts g s) = sortTimeSeries g (sel s)"
  by (auto simp: shows_values_def sort_charts_def)

lemma sel_parallel: "shows_values sel f \<Longrightarrow> charts_parallel s \<Longrightarrow> parallel (sel s)"
  by (auto simp: shows_values_def charts_parallel_def)

lemma sel_no_series: "shows_values sel f \<Longrightarrow> sel no_series = empty_series"
  by (auto simp: shows_values_def no_series_def)

text \<open>C29:
  Every chart shows, in the order of time, exactly the values that its rows carry, among the
  thousand newest rows of all types in the window; the two arrays of a series stay aligned. Older rows of
  the window are left out, however few of them the chart has.
\<close>

theorem charts_show_the_newest_rows:
  assumes "sorts_points sort_slice" and "shows_values sel f"
    and "handleMetricsQuery rfc3339 newest sort_slice M now q db = Inr s"
  shows "\<exists>records. QueryMetrics newest M (cq_agent_id q) [] (parseTimeParam rfc3339 (cq_start q) (now - hour))
        (parseTimeParam rfc3339 (cq_end q) now)
        (pick_resolution (cq_resolution q) (parseTimeParam rfc3339 (cq_start q) (now - hour)) (parseTimeParam rfc3339 (cq_end q) now))
        db = Some records
    \<and> length records \<le> 1000 \<and> length (tm_Timestamps (sel s)) = length (tm_Values (sel s))
    \<and> sorted (tm_Timestamps (sel s)) \<and> mset (points (sel s)) = mset (List.map_filter (row_point f) records)"
proof -
  let ?start = "parseTimeParam rfc3339 (cq_start q) (now - hour)" and ?stop = "parseTimeParam rfc3339 (cq_end q) now"
  obtain records where q: "QueryMetrics newest M (cq_agent_id q) [] ?start ?stop
      (pick_resolution (cq_resolution q) ?start ?stop) db = Some records"
    and s: "s = sort_charts sort_slice (fold chart_row records no_series)"
    using assms(3) by (auto simp: handleMetricsQuery_def Let_def split: option.splits)
  have n: "length records \<le> 1000" using q by (auto simp: QueryMetrics_def)
  have "charts_parallel no_series" by (simp add: charts_parallel_def no_series_def)
  note c = fold_charts [OF assms(2) this, of records]
  have "points (sel (fold chart_row records no_series)) = List.map_filter (row_point f) records"
    using c sel_no_series [OF assms(2)] by simp
  with sorted_series [OF assms(1) sel_parallel [OF assms(2)]] c sel_sorted [OF assms(2)]
  show ?thesis using q n s by (auto simp: parallel_def)
qed

definition cpu_row :: "string \<Rightarrow> int \<Rightarrow> rat \<Rightarrow> metric" where
  "cpu_row i secs v = \<lparr>mt_id = i, mt_agent_id = ''a'', mt_type = ''cpu'', mt_data = Some [(''total_percent'', AFloat64 v)],
     mt_timestamp = unix_time secs, mt_resolution = ''raw''\<rparr>"

definition two_rows :: "metric mem" where
  "two_rows = \<lparr>m_rows = [(''x'', cpu_row ''x'' 60 50), (''y'', cpu_row ''y'' 30 10)], m_faults = []\<rparr>"

abbreviation by_age :: "metric list \<Rightarrow> metric list" where
  "by_age \<equiv> sort_key (\<lambda>m. - mt_timestamp m)"

abbreviation last_hour :: chart_query where
  "last_hour \<equiv> \<lparr>cq_agent_id = ''a'', cq_start = [], cq_end = [], cq_resolution = []\<rparr>"

lemma two_rows_query:
  "QueryMetrics by_age mem_metrics ''a'' [] (unix_time 0) (unix_time 3600) ''raw'' two_rows = Some [cpu_row ''x'' 60 50, cpu_row ''y'' 30 10]"
  by (simp add: QueryMetrics_def two_rows_def cpu_row_def mem_defs set_mt_id_def List.map_filter_def unix_time_def
      fmt_ts_def time_simps)

lemma sort_points: "sorts_points (sort_key fst)"
  by (simp add: sorts_points_def)

lemma two_rows_times:
  "parseTimeParam r [] (unix_time 3600 - hour) = unix_time 0 \<and> parseTimeParam r [] (unix_time 3600) = unix_time 3600
   \<and> pick_resolution [] (unix_time 0) (unix_time 3600) = ''raw''"
  by (simp add: parseTimeParam_def unix_time_def pick_resolution_def t_sub_def time_simps)

theorem charts_show_the_newest_rows_witness:
  "\<exists>s. handleMetricsQuery (\<lambda>_. None) by_age (sort_key fst) mem_metrics (unix_time 3600) last_hour two_rows = Inr s
     \<and> sorted (tm_Timestamps (se_cpu s)) \<and> mset (points (se_cpu s)) = {# (60, 50), (30, 10) #}"
proof -
  obtain s where s: "handleMetricsQuery (\<lambda>_. None) by_age (sort_key fst) mem_metrics (unix_time 3600) last_hour two_rows = Inr s"
    using two_rows_times [of "\<lambda>_. None"] two_rows_query by (simp add: handleMetricsQuery_def)
  have f: "shows_values se_cpu cpu_value" by (simp add: shows_values_def)
  have "parseTimestamp (unix_time n) = of_int n" if "0 < n" for n
    using that by (simp add: parseTimestamp_def unix_time_def time_simps)
  then have "mset (List.map_filter (row_point cpu_value) [cpu_row ''x'' 60 50, cpu_row ''y'' 30 10]) = {# (60, 50), (30, 10) #}"
    by (simp add: List.map_filter_def row_point_def cpu_row_def cpu_value_def aget_def two_decimals_int [of 50, simplified]
        two_decimals_int [of 10, simplified])
  then show ?thesis
    using charts_show_the_newest_rows [OF sort_points f s] s two_rows_times [of "\<lambda>_. None"] two_rows_query by auto
qed


end
