(* ===== verification/Process_Routes.thy ===== *)
theory Process_Routes
  imports Command_Services Authz Audit_Log Ingest
begin

text \<open>
  The routes about processes and thread dumps (\<open>internal/hub/api/routes.go\<close>,
  \<open>threaddump_validate.go\<close>). \<open>snap\<close> decodes the data of a row into the entries of a snapshot and
  fails as \<open>json.Unmarshal\<close> does; the rows are what the query of the handler returns.
\<close>

section \<open>Strings\<close>

text \<open>\<open>strings.Index\<close> and \<open>filepath.Base\<close>.\<close>

fun str_index :: "string \<Rightarrow> string \<Rightarrow> nat option" where
  "str_index [] sub = (if sub = [] then Some 0 else None)"
| "str_index (c # s) sub = (if has_prefix (c # s) sub then Some 0 else map_option Suc (str_index s sub))"

definition file_base :: "string \<Rightarrow> string" where
  "file_base p =
     (if p = [] then ''.''
      else let q = rev (dropWhile (\<lambda>c. c = CHR ''/'') (rev p))
           in if q = [] then ''/'' else rev (takeWhile (\<lambda>c. c \<noteq> CHR ''/'') (rev q)))"

text \<open>\<open>math.Round(v*100)/100\<close>.\<close>

definition cents :: "rat \<Rightarrow> rat" where
  "cents v = of_int (if v < 0 then - \<lfloor>1 / 2 - v * 100\<rfloor> else \<lfloor>v * 100 + 1 / 2\<rfloor>) / 100"

section \<open>Keys of processes\<close>

definition parseRangeParam :: "string \<Rightarrow> int \<times> string" where
  "parseRangeParam r =
     (if r = ''6h'' then (6 * 60 * 60 * 1000, ''6h'')
      else if r = ''24h'' then (24 * 60 * 60 * 1000, ''24h'')
      else (1 * 60 * 60 * 1000, ''1h''))"

text \<open>The first field after a flag, for a flag that occurs with something behind it.\<close>

definition after_flag :: "string \<Rightarrow> string \<Rightarrow> string option" where
  "after_flag flag cmdline =
     (case str_index cmdline flag of
        None \<Rightarrow> None
      | Some idx \<Rightarrow> (case Nexwatch_Prelude.fields (trim_space (drop (idx + length flag) cmdline)) of [] \<Rightarrow> None | w # _ \<Rightarrow> Some w))"

definition extractCmdKey :: "string \<Rightarrow> string \<Rightarrow> string" where
  "extractCmdKey name cmdline =
     (if name = ''java'' \<or> has_suffix name ''/java'' then
        (if str_contains cmdline ''jboss-modules.jar'' \<or> str_contains cmdline ''jboss.server.base.dir'' then
           (case after_flag ''-Djboss.server.base.dir='' cmdline of
              Some w \<Rightarrow> name @ '' (wildfly/'' @ file_base w @ '')''
            | None \<Rightarrow> name @ '' (wildfly)'')
         else if str_contains cmdline ''activemq.jar'' then name @ '' (activemq)''
         else (case after_flag ''-jar '' cmdline of
              Some w \<Rightarrow> name @ '' ('' @ file_base w @ '')''
            | None \<Rightarrow> name))
      else name)"

definition extractCmdFragment :: "string \<Rightarrow> string" where
  "extractCmdFragment cmdKey =
     (case index_byte cmdKey CHR ''('' of
        None \<Rightarrow> []
      | Some start \<Rightarrow>
          (case index_byte cmdKey CHR '')'' of
             None \<Rightarrow> []
           | Some stop \<Rightarrow> if start < stop then take (stop - (start + 1)) (drop (start + 1) cmdKey) else []))"

section \<open>History\<close>

record processEntry =
  pe_PID :: int
  pe_Name :: string
  pe_CPUPercent :: rat
  pe_MemPercent :: rat
  pe_RSS :: int
  pe_Status :: string
  pe_User :: string
  pe_Cmdline :: string

type_synonym snapshot_of = "metric \<Rightarrow> processEntry list option"

record processStats =
  ps_user :: string
  ps_sampleCount :: nat
  ps_cpuSum :: rat
  ps_maxCPU :: rat
  ps_memSum :: rat
  ps_maxMem :: rat
  ps_maxRSS :: int

definition no_stats :: processStats where
  "no_stats = \<lparr>ps_user = [], ps_sampleCount = 0, ps_cpuSum = 0, ps_maxCPU = 0, ps_memSum = 0, ps_maxMem = 0, ps_maxRSS = 0\<rparr>"

definition add_sample :: "processEntry \<Rightarrow> processStats \<Rightarrow> processStats" where
  "add_sample p s =
     \<lparr>ps_user = pe_User p, ps_sampleCount = ps_sampleCount s + 1, ps_cpuSum = ps_cpuSum s + pe_CPUPercent p,
      ps_maxCPU = (if pe_CPUPercent p > ps_maxCPU s then pe_CPUPercent p else ps_maxCPU s),
      ps_memSum = ps_memSum s + pe_MemPercent p,
      ps_maxMem = (if pe_MemPercent p > ps_maxMem s then pe_MemPercent p else ps_maxMem s),
      ps_maxRSS = (if pe_RSS p > ps_maxRSS s then pe_RSS p else ps_maxRSS s)\<rparr>"

definition proc_key :: "processEntry \<Rightarrow> string" where
  "proc_key p = extractCmdKey (pe_Name p) (pe_Cmdline p)"

definition count_process :: "processEntry \<Rightarrow> (string \<rightharpoonup> processStats) \<Rightarrow> (string \<rightharpoonup> processStats)" where
  "count_process p statsMap =
     (if pe_Name p = [] then statsMap
      else statsMap(proc_key p \<mapsto> add_sample p (case statsMap (proc_key p) of Some s \<Rightarrow> s | None \<Rightarrow> no_stats)))"

text \<open>The entries of the rows that decode, in order.\<close>

definition all_entries :: "snapshot_of \<Rightarrow> metric list \<Rightarrow> processEntry list" where
  "all_entries snap records = concat (List.map_filter snap records)"

record resultEntry =
  rn_Name :: string
  rn_CmdFragment :: string
  rn_User :: string
  rn_SampleCount :: nat
  rn_AvgCPU :: rat
  rn_MaxCPU :: rat
  rn_AvgMem :: rat
  rn_MaxMem :: rat
  rn_MaxRSS :: int

definition result_of :: "string \<Rightarrow> processStats \<Rightarrow> resultEntry" where
  "result_of key s =
     \<lparr>rn_Name = key, rn_CmdFragment = extractCmdFragment key, rn_User = ps_user s, rn_SampleCount = ps_sampleCount s,
      rn_AvgCPU = (if 0 < ps_sampleCount s then cents (ps_cpuSum s / of_nat (ps_sampleCount s)) else 0),
      rn_MaxCPU = cents (ps_maxCPU s),
      rn_AvgMem = (if 0 < ps_sampleCount s then cents (ps_memSum s / of_nat (ps_sampleCount s)) else 0),
      rn_MaxMem = cents (ps_maxMem s), rn_MaxRSS = ps_maxRSS s\<rparr>"

text \<open>\<open>iter\<close> lists the keys of the map in the order of its iteration; they are the keys of the entries.\<close>

definition history :: "(string list \<Rightarrow> string list) \<Rightarrow> processEntry list \<Rightarrow> resultEntry list" where
  "history iter entries =
     (let statsMap = fold count_process entries Map.empty
      in List.map_filter (\<lambda>k. map_option (result_of k) (statsMap k))
           (iter (remdups (map proc_key (filter (\<lambda>p. pe_Name p \<noteq> []) entries)))))"

definition handleProcessHistory ::
  "(string list \<Rightarrow> string list) \<Rightarrow> (resultEntry list \<Rightarrow> resultEntry list) \<Rightarrow> snapshot_of \<Rightarrow> (string \<Rightarrow> agent option)
   \<Rightarrow> (int \<Rightarrow> metric list option) \<Rightarrow> int \<Rightarrow> string \<Rightarrow> string \<Rightarrow> int + (string \<times> nat \<times> resultEntry list)" where
  "handleProcessHistory iter sort_slice snap find_agent rows_since nowMillis agentID range_param =
     (if agentID = [] then Inl 400
      else case find_agent agentID of
        None \<Rightarrow> Inl 404
      | Some _ \<Rightarrow>
          (case parseRangeParam range_param of
             (rangeMs, rangeLabel) \<Rightarrow>
               (case rows_since (nowMillis - rangeMs) of
                  None \<Rightarrow> Inl 500
                | Some rows \<Rightarrow>
                    let records = take 500 rows
                    in Inr (rangeLabel, length records, take 20 (sort_slice (history iter (all_entries snap records)))))))"

section \<open>Timeline\<close>

definition base_name :: "string \<Rightarrow> string" where
  "base_name processName = (case str_index processName '' ('' of Some idx \<Rightarrow> take idx processName | None \<Rightarrow> processName)"

definition finds_process :: "string \<Rightarrow> processEntry \<Rightarrow> bool" where
  "finds_process processName p \<longleftrightarrow>
     pe_Name p = base_name processName \<and>
     (extractCmdFragment processName = [] \<or> str_contains (pe_Cmdline p) (extractCmdFragment processName))"

fun best_process :: "string \<Rightarrow> processEntry list \<Rightarrow> processEntry option \<Rightarrow> processEntry option" where
  "best_process processName [] best = best"
| "best_process processName (p # ps) best =
     (if \<not> finds_process processName p then best_process processName ps best
      else best_process processName ps
        (case best of None \<Rightarrow> Some p | Some b \<Rightarrow> if pe_CPUPercent p > pe_CPUPercent b then Some p else best))"

record timelinePoint =
  tp_Timestamp :: int
  tp_CPUPercent :: rat
  tp_MemPercent :: rat
  tp_RSS :: int
  tp_PID :: int

text \<open>\<open>int_of_date\<close> is \<open>GetInt\<close> on a date field.\<close>

definition timeline_point :: "(time \<Rightarrow> int) \<Rightarrow> snapshot_of \<Rightarrow> string \<Rightarrow> metric \<Rightarrow> timelinePoint option" where
  "timeline_point int_of_date snap processName record =
     (case snap record of
        None \<Rightarrow> None
      | Some ps \<Rightarrow>
          (case best_process processName ps None of
             None \<Rightarrow> None
           | Some best \<Rightarrow> Some \<lparr>tp_Timestamp = int_of_date (mt_timestamp record), tp_CPUPercent = cents (pe_CPUPercent best),
                 tp_MemPercent = cents (pe_MemPercent best), tp_RSS = pe_RSS best, tp_PID = pe_PID best\<rparr>))"

text \<open>The loop \<open>for i := 0; i < len; i += step\<close>, for a positive step.\<close>

definition every_step :: "nat \<Rightarrow> 'a list \<Rightarrow> 'a list" where
  "every_step step xs = map (\<lambda>i. xs ! (i * step)) [0 ..< (length xs + step - 1) div step]"

definition thin_out :: "'a list \<Rightarrow> 'a list" where
  "thin_out points = (if 120 < length points then every_step (length points div 120) points else points)"

text \<open>The rows come with ascending timestamps, at most 720 of them.\<close>

definition handleProcessTimeline ::
  "(time \<Rightarrow> int) \<Rightarrow> snapshot_of \<Rightarrow> (string \<Rightarrow> agent option) \<Rightarrow> (int \<Rightarrow> metric list option) \<Rightarrow> int \<Rightarrow> string \<Rightarrow> string \<Rightarrow> string
   \<Rightarrow> int + (string \<times> string \<times> timelinePoint list)" where
  "handleProcessTimeline int_of_date snap find_agent rows_since nowMillis agentID processName range_param =
     (if agentID = [] then Inl 400
      else if processName = [] then Inl 400
      else case find_agent agentID of
        None \<Rightarrow> Inl 404
      | Some _ \<Rightarrow>
          (case parseRangeParam range_param of
             (rangeMs, rangeLabel) \<Rightarrow>
               (case rows_since (nowMillis - rangeMs) of
                  None \<Rightarrow> Inl 500
                | Some rows \<Rightarrow>
                    Inr (processName, rangeLabel,
                         thin_out (List.map_filter (timeline_point int_of_date snap processName) (take 720 rows))))))"

section \<open>Thread dumps\<close>

text \<open>\<open>Inl\<close> is the reason for a refusal.\<close>

definition looksLikeJVM :: "string \<Rightarrow> string \<Rightarrow> bool" where
  "looksLikeJVM name cmdline \<longleftrightarrow>
     (let base = rev (takeWhile (\<lambda>c. c \<noteq> CHR ''/'') (rev name))
      in base = ''java'' \<or> base = ''jsvc'' \<or> str_contains cmdline ''java'')"

fun find_dumpable :: "processEntry list \<Rightarrow> int \<Rightarrow> string + unit" where
  "find_dumpable [] pid = Inl (''pid '' @ fmt_d pid @ '' was not found in the latest process snapshot'')"
| "find_dumpable (p # ps) pid =
     (if pe_PID p \<noteq> pid then find_dumpable ps pid
      else if looksLikeJVM (pe_Name p) (pe_Cmdline p) then Inr ()
      else Inl (''pid '' @ fmt_d pid @ '' ('' @ pe_Name p @ '') does not look like a JVM process''))"

definition isDumpablePID :: "processEntry list \<Rightarrow> int \<Rightarrow> string + unit" where
  "isDumpablePID procs pid =
     (if procs = [] then Inl ''no process snapshot available for this agent yet'' else find_dumpable procs pid)"

text \<open>\<open>newest\<close> is the sort by descending timestamp; \<open>None\<close> is an error, of the query or of decoding.\<close>

definition latestProcessSnapshot ::
  "snapshot_of \<Rightarrow> (metric list \<Rightarrow> metric list) \<Rightarrow> ('m, metric) table \<Rightarrow> 'm \<Rightarrow> string \<Rightarrow> processEntry list option" where
  "latestProcessSnapshot snap newest M mdb agentID =
     (case t_all M mdb (\<lambda>r. mt_agent_id r = agentID \<and> mt_type r = ''processes'') of
        None \<Rightarrow> None
      | Some rs \<Rightarrow> (case take 1 (newest rs) of [] \<Rightarrow> Some [] | r # _ \<Rightarrow> snap r))"

definition dump_entry :: "string \<Rightarrow> int \<Rightarrow> string \<Rightarrow> (string \<times> any) list \<Rightarrow> string \<Rightarrow> Entry" where
  "dump_entry agentID pid processName more_details result =
     \<lparr>ey_Action = ''threaddump.request'', ey_TargetType = ''agents'', ey_TargetID = agentID, ey_AgentID = agentID,
      ey_Details = Some ([(''pid'', AInt pid), (''process_name'', AStr processName)] @ more_details), ey_Result = result\<rparr>"

definition requested_by :: "auth option \<Rightarrow> string" where
  "requested_by auth =
     (case auth of None \<Rightarrow> [] | Some a \<Rightarrow> if au_email a \<noteq> [] then au_id a @ '' ('' @ au_email a @ '')'' else au_id a)"

text \<open>\<open>body\<close> is the decoded body: the process id and name. The text is the error or the request id.\<close>

definition handleRequestThreadDump ::
  "('d, dump) table \<Rightarrow> (string \<Rightarrow> CommandPayload \<Rightarrow> string option) \<Rightarrow> snapshot_of \<Rightarrow> (metric list \<Rightarrow> metric list)
   \<Rightarrow> ('m, metric) table \<Rightarrow> 'm \<Rightarrow> int \<Rightarrow> time \<Rightarrow> auth option \<Rightarrow> (int \<times> string) option \<Rightarrow> string \<Rightarrow> 'd \<Rightarrow> 'd \<times> int \<times> string \<times> Entry option" where
  "handleRequestThreadDump D sender snap newest M mdb nowMillis now auth body agentID db =
     (case body of
        None \<Rightarrow> (db, 400, ''invalid request body'', None)
      | Some (pid, processName) \<Rightarrow>
          if pid = 0 then (db, 400, ''pid is required'', None)
          else (case latestProcessSnapshot snap newest M mdb agentID of
             None \<Rightarrow> (db, 500, ''failed to load process snapshot'', None)
           | Some procs \<Rightarrow>
               (case isDumpablePID procs pid of
                  Inl reason \<Rightarrow> (db, 400, reason, None)
                | Inr _ \<Rightarrow>
                    (case RequestDump D sender nowMillis now agentID pid processName (requested_by auth) db of
                       (db', Inl err) \<Rightarrow> (db', 503, err, Some (dump_entry agentID pid processName [] ''failure''))
                     | (db', Inr requestID) \<Rightarrow>
                         (db', 202, requestID,
                          Some (dump_entry agentID pid processName [(''request_id'', AStr requestID)] ''success''))))))"

definition dump_summary :: "dump \<Rightarrow> string \<times> int \<times> string \<times> string \<times> string \<times> string \<times> time" where
  "dump_summary d = (td_id d, td_pid d, td_process_name d, td_request_id d, td_status d, td_error d, td_taken_at d)"

definition handleListThreadDumps ::
  "('d, dump) table \<Rightarrow> (dump list \<Rightarrow> dump list) \<Rightarrow> string \<Rightarrow> 'd \<Rightarrow> int + (string \<times> int \<times> string \<times> string \<times> string \<times> string \<times> time) list \<times> nat" where
  "handleListThreadDumps D newest agentID db =
     (case t_all D db (\<lambda>d. td_agent_id d = agentID) of
        None \<Rightarrow> Inl 500
      | Some rs \<Rightarrow> (let items = map dump_summary (take 50 (newest rs)) in Inr (items, length items)))"

definition handleGetThreadDump :: "('d, dump) table \<Rightarrow> string \<Rightarrow> 'd \<Rightarrow> int + dump" where
  "handleGetThreadDump D dumpID db = (case t_find D db dumpID of None \<Rightarrow> Inl 404 | Some record \<Rightarrow> Inr record)"

section \<open>Keys and fragments\<close>

lemma str_contains_trans: "str_contains a b \<Longrightarrow> str_contains b c \<Longrightarrow> str_contains a c"
  unfolding str_contains_iff by (metis append.assoc)

lemma str_contains_middle: "str_contains (l @ s @ r) s"
  unfolding str_contains_iff by blast

lemma trim_space_inside: "str_contains s (trim_space s)"
proof -
  let ?d = "dropWhile is_space s"
  have "?d = rev (dropWhile is_space (rev ?d)) @ rev (takeWhile is_space (rev ?d))"
    by (metis rev_append rev_rev_ident takeWhile_dropWhile_id)
  then have "str_contains ?d (trim_space s)"
    unfolding trim_space_def str_contains_iff by (metis append_Nil)
  moreover have "str_contains s ?d"
    unfolding str_contains_iff by (metis append_Nil2 takeWhile_dropWhile_id)
  ultimately show ?thesis by (rule str_contains_trans [rotated])
qed

lemma first_field_inside:
  assumes "Nexwatch_Prelude.fields s = w # ws"
  shows "str_contains s w \<and> w \<noteq> []"
proof (cases "dropWhile is_space s")
  case Nil
  then have "Nexwatch_Prelude.fields s = []" unfolding fields.simps [of s] by (simp only: list.case)
  with assms show ?thesis by simp
next
  case (Cons c r)
  have w: "w = c # takeWhile (\<lambda>x. \<not> is_space x) r"
    using assms unfolding fields.simps [of s] Cons by simp
  have "s = takeWhile is_space s @ w @ dropWhile (\<lambda>x. \<not> is_space x) r"
    using Cons by (metis append_Cons takeWhile_dropWhile_id w)
  then show ?thesis using w str_contains_middle by (metis list.distinct(1))
qed

lemma file_base_inside: "w \<noteq> [] \<Longrightarrow> str_contains w (file_base w)"
proof -
  assume w: "w \<noteq> []"
  let ?q = "rev (dropWhile (\<lambda>c. c = CHR ''/'') (rev w))"
  have q: "w = ?q @ rev (takeWhile (\<lambda>c. c = CHR ''/'') (rev w))"
    by (metis rev_append rev_rev_ident takeWhile_dropWhile_id)
  show ?thesis
  proof (cases "?q = []")
    case True
    then have "\<forall>c \<in> set w. c = CHR ''/''" by (simp add: dropWhile_eq_Nil_conv)
    with w obtain r where "w = [] @ ''/'' @ r" by (cases w) auto
    then show ?thesis using w True by (simp add: file_base_def str_contains_iff) blast
  next
    case False
    let ?b = "rev (takeWhile (\<lambda>c. c \<noteq> CHR ''/'') (rev ?q))"
    have "?q = rev (dropWhile (\<lambda>c. c \<noteq> CHR ''/'') (rev ?q)) @ ?b"
      by (metis rev_append rev_rev_ident takeWhile_dropWhile_id)
    then have "str_contains w ?b" using q unfolding str_contains_iff by (metis append.assoc)
    moreover have "file_base w = ?b" unfolding file_base_def Let_def using w False by (simp only: if_False)
    ultimately show ?thesis by simp
  qed
qed

lemma str_index_split: "str_index s sub = Some i \<Longrightarrow> s = take i s @ sub @ drop (i + length sub) s"
proof (induction s arbitrary: i)
  case (Cons c s)
  show ?case
  proof (cases "has_prefix (c # s) sub")
    case True
    with Cons.prems show ?thesis by (auto simp: has_prefix_iff)
  next
    case False
    with Cons.prems obtain j where "str_index s sub = Some j" "i = Suc j" by auto
    with Cons.IH show ?thesis by simp
  qed
qed (auto split: if_splits)

lemma after_flag_inside: "after_flag flag c = Some w \<Longrightarrow> str_contains c (file_base w)"
proof -
  assume "after_flag flag c = Some w"
  then obtain i ws where i: "str_index c flag = Some i"
    and f: "Nexwatch_Prelude.fields (trim_space (drop (i + length flag) c)) = w # ws"
    by (auto simp: after_flag_def split: option.splits list.splits)
  have "str_contains c (drop (i + length flag) c)"
    using str_index_split [OF i] unfolding str_contains_iff by (metis append.assoc append_Nil2)
  from str_contains_trans [OF this trim_space_inside] first_field_inside [OF f] file_base_inside [of w]
  show ?thesis by (blast intro: str_contains_trans)
qed

lemma fragment_of_label:
  assumes "CHR ''('' \<notin> set n" and "CHR '')'' \<notin> set n" and "CHR '')'' \<notin> set l"
  shows "extractCmdFragment (n @ '' ('' @ l @ '')'') = l"
proof -
  have "index_byte (n @ '' ('' @ l @ '')'') CHR ''('' = Some (length n + 1)"
    using index_byte_append [of "CHR ''(''" "n @ '' ''" "l @ '')''"] assms(1) by simp
  moreover have "index_byte (n @ '' ('' @ l @ '')'') CHR '')'' = Some (length n + 2 + length l)"
    using index_byte_append [of "CHR '')''" "n @ '' ('' @ l" "[]"] assms(2,3) by simp
  ultimately show ?thesis by (simp add: extractCmdFragment_def)
qed

lemma index_space_paren: "CHR ''('' \<notin> set n \<Longrightarrow> str_index (n @ '' ('' @ r) '' ('' = Some (length n)"
proof (induction n)
  case (Cons c n)
  then have "\<not> has_prefix (c # n @ '' ('' @ r) '' (''" by (cases n) (auto simp: has_prefix_def)
  with Cons show ?case by simp
qed (simp add: has_prefix_def)

lemma index_no_paren: "CHR ''('' \<notin> set n \<Longrightarrow> str_index n '' ('' = None"
proof (induction n)
  case (Cons c n)
  then have "\<not> has_prefix (c # n) '' (''" by (cases n) (auto simp: has_prefix_def)
  with Cons show ?case by simp
qed simp

lemma found_under_label:
  assumes "CHR ''('' \<notin> set (pe_Name p)" and "CHR '')'' \<notin> set (pe_Name p)" and "CHR '')'' \<notin> set l" and "l \<noteq> []"
  shows "finds_process (pe_Name p @ '' ('' @ l @ '')'') p \<longleftrightarrow> str_contains (pe_Cmdline p) l"
  using fragment_of_label [OF assms(1-3)] index_space_paren [OF assms(1)] assms(4)
  by (simp add: finds_process_def base_name_def)

lemma no_fragment: "CHR ''('' \<notin> set n \<Longrightarrow> extractCmdFragment n = []"
proof -
  assume "CHR ''('' \<notin> set n"
  then have "index_byte n CHR ''('' = None" by simp
  then show ?thesis unfolding extractCmdFragment_def by (simp only: option.case)
qed

lemma found_under_name: "CHR ''('' \<notin> set (pe_Name p) \<Longrightarrow> finds_process (pe_Name p) p"
  by (simp add: finds_process_def base_name_def index_no_paren no_fragment)

lemma contained_chars: "str_contains s l \<Longrightarrow> set l \<subseteq> set s"
  by (auto simp: str_contains_iff)

lemma file_base_nonempty: "file_base w \<noteq> []"
proof (cases "w = []")
  case False
  let ?q = "rev (dropWhile (\<lambda>c. c = CHR ''/'') (rev w))"
  have "?q \<noteq> [] \<Longrightarrow> takeWhile (\<lambda>c. c \<noteq> CHR ''/'') (rev ?q) \<noteq> []"
    by (cases "dropWhile (\<lambda>c. c = CHR ''/'') (rev w)")
      (auto dest: dropWhile_eq_Cons_conv [THEN iffD1])
  then show ?thesis using False unfolding file_base_def Let_def by (auto simp del: dropWhile_eq_Nil_conv)
qed (simp add: file_base_def)

definition is_wildfly :: "processEntry \<Rightarrow> bool" where
  "is_wildfly p \<longleftrightarrow>
     (pe_Name p = ''java'' \<or> has_suffix (pe_Name p) ''/java'') \<and>
     (str_contains (pe_Cmdline p) ''jboss-modules.jar'' \<or> str_contains (pe_Cmdline p) ''jboss.server.base.dir'')"

definition wildfly_label :: "string \<Rightarrow> string" where
  "wildfly_label cmdline =
     (case after_flag ''-Djboss.server.base.dir='' cmdline of Some w \<Rightarrow> ''wildfly/'' @ file_base w | None \<Rightarrow> ''wildfly'')"

lemma wildfly_key: "is_wildfly p \<Longrightarrow> proc_key p = pe_Name p @ '' ('' @ wildfly_label (pe_Cmdline p) @ '')''"
  by (auto simp: is_wildfly_def proc_key_def extractCmdKey_def wildfly_label_def split: option.splits)

text \<open>The key of another process is its name or ends in a label that its command line contains.\<close>

lemma other_key:
  assumes "\<not> is_wildfly p"
  shows "proc_key p = pe_Name p \<or>
         (\<exists>l. proc_key p = pe_Name p @ '' ('' @ l @ '')'' \<and> l \<noteq> [] \<and> str_contains (pe_Cmdline p) l)"
proof (cases "proc_key p = pe_Name p")
  case False
  let ?c = "pe_Cmdline p"
  from False assms have "(str_contains ?c ''activemq.jar'' \<and> proc_key p = pe_Name p @ '' ('' @ ''activemq'' @ '')'')
      \<or> (\<exists>w. after_flag ''-jar '' ?c = Some w \<and> proc_key p = pe_Name p @ '' ('' @ file_base w @ '')'')"
    by (auto simp: is_wildfly_def proc_key_def extractCmdKey_def split: option.splits if_splits)
  moreover have "str_contains ''activemq.jar'' ''activemq''"
    using str_contains_middle [of "[]" "''activemq''" "''.jar''"] by simp
  ultimately show ?thesis
    using after_flag_inside file_base_nonempty str_contains_trans by blast
qed simp

text \<open>the timeline of a process finds it under the key that the history shows, whatever the key is:
  its name, or its name with \<open>activemq\<close> or its jar. A WildFly server is found exactly when its command
  line happens to contain the made-up label \<open>wildfly/<instance>\<close> (\<open>wildfly\<close> without a base directory).
  Names and command lines are without parentheses.\<close>

theorem timeline_finds_history_key:
  assumes "CHR ''('' \<notin> set (pe_Name p)" and "CHR '')'' \<notin> set (pe_Name p)" and "CHR '')'' \<notin> set (pe_Cmdline p)"
  shows "finds_process (proc_key p) p \<longleftrightarrow>
           (if is_wildfly p then str_contains (pe_Cmdline p) (wildfly_label (pe_Cmdline p)) else True)"
proof (cases "is_wildfly p")
  case True
  have "CHR '')'' \<notin> set (wildfly_label (pe_Cmdline p))"
    using assms(3) after_flag_inside [THEN contained_chars]
    by (auto simp: wildfly_label_def split: option.splits)
  moreover have "wildfly_label (pe_Cmdline p) \<noteq> []" by (simp add: wildfly_label_def split: option.splits)
  ultimately show ?thesis
    unfolding wildfly_key [OF True] using found_under_label [OF assms(1,2)] True by presburger
next
  case False
  from other_key [OF this] show ?thesis
  proof (elim disjE exE conjE)
    fix l
    assume l: "proc_key p = pe_Name p @ '' ('' @ l @ '')''" "l \<noteq> []" "str_contains (pe_Cmdline p) l"
    then have "CHR '')'' \<notin> set l" using assms(3) contained_chars by blast
    with l show ?thesis unfolding l(1) using found_under_label [OF assms(1,2)] False by presburger
  qed (use False assms(1) found_under_name in simp)
qed

definition jvm :: "string \<Rightarrow> processEntry" where
  "jvm cmdline = \<lparr>pe_PID = 7, pe_Name = ''java'', pe_CPUPercent = 1, pe_MemPercent = 2, pe_RSS = 3, pe_Status = ''S'',
                  pe_User = ''app'', pe_Cmdline = cmdline\<rparr>"

theorem timeline_finds_history_key_witness:
  "finds_process (proc_key (jvm ''java -jar /o/a.jar'')) (jvm ''java -jar /o/a.jar'')"
proof -
  have "\<not> is_wildfly (jvm ''java -jar /o/a.jar'')" by (simp add: is_wildfly_def jvm_def has_prefix_def)
  with timeline_finds_history_key [of "jvm ''java -jar /o/a.jar''"] show ?thesis by (simp add: jvm_def)
qed

section \<open>Aggregation\<close>

definition entries_of :: "string \<Rightarrow> processEntry list \<Rightarrow> processEntry list" where
  "entries_of key entries = filter (\<lambda>p. pe_Name p \<noteq> [] \<and> proc_key p = key) entries"

lemma fold_count_process:
  "fold count_process entries m key =
     (if entries_of key entries = [] then m key
      else Some (fold add_sample (entries_of key entries) (case m key of Some s \<Rightarrow> s | None \<Rightarrow> no_stats)))"
proof (induction entries arbitrary: m)
  case (Cons p entries)
  show ?case unfolding fold.simps comp_apply Cons.IH by (simp add: count_process_def entries_of_def)
qed (simp add: entries_of_def)

lemma add_sample_simps [simp]:
  "ps_user (add_sample p s) = pe_User p"
  "ps_sampleCount (add_sample p s) = ps_sampleCount s + 1"
  "ps_cpuSum (add_sample p s) = ps_cpuSum s + pe_CPUPercent p"
  "ps_memSum (add_sample p s) = ps_memSum s + pe_MemPercent p"
  "ps_maxCPU (add_sample p s) = max (ps_maxCPU s) (pe_CPUPercent p)"
  "ps_maxMem (add_sample p s) = max (ps_maxMem s) (pe_MemPercent p)"
  "ps_maxRSS (add_sample p s) = max (ps_maxRSS s) (pe_RSS p)"
  by (simp_all add: add_sample_def)

lemma fold_sum:
  fixes g :: "'s \<Rightarrow> 'b::ab_group_add"
  assumes "\<And>x s. g (f x s) = g s + h x"
  shows "g (fold f xs s) = g s + sum_list (map h xs)"
  by (induction xs arbitrary: s) (simp_all add: assms)

lemma fold_max:
  fixes g :: "'s \<Rightarrow> 'b::linorder"
  assumes "\<And>x s. g (f x s) = max (g s) (h x)"
  shows "g (fold f xs s) = Max (insert (g s) (h ` set xs))"
proof (induction xs arbitrary: s)
  case (Cons x xs)
  have "Max (insert (max a b) B) = Max (insert a (insert b B))" if "finite B" for a b :: 'b and B
    using that by (cases "B = {}") (simp_all add: max.assoc)
  then show ?case by (simp add: Cons.IH assms)
qed simp

lemma fold_user: "ps \<noteq> [] \<Longrightarrow> ps_user (fold add_sample ps s) = pe_User (last ps)"
  by (induction ps arbitrary: s) auto

lemma fold_samples: "ps_sampleCount (fold add_sample ps s) = ps_sampleCount s + length ps"
  by (induction ps arbitrary: s) simp_all

lemmas fold_samples_simps =
  fold_samples
  fold_sum [where g = ps_cpuSum and f = add_sample and h = pe_CPUPercent, OF add_sample_simps(3)]
  fold_sum [where g = ps_memSum and f = add_sample and h = pe_MemPercent, OF add_sample_simps(4)]
  fold_max [where g = ps_maxCPU and f = add_sample and h = pe_CPUPercent, OF add_sample_simps(5)]
  fold_max [where g = ps_maxMem and f = add_sample and h = pe_MemPercent, OF add_sample_simps(6)]
  fold_max [where g = ps_maxRSS and f = add_sample and h = pe_RSS, OF add_sample_simps(7)]

text \<open>The row that a group of entries should have.\<close>

definition average :: "rat list \<Rightarrow> rat" where
  "average xs = sum_list xs / of_nat (length xs)"

definition group_row :: "string \<Rightarrow> processEntry list \<Rightarrow> resultEntry" where
  "group_row key ps =
     \<lparr>rn_Name = key, rn_CmdFragment = extractCmdFragment key, rn_User = pe_User (last ps), rn_SampleCount = length ps,
      rn_AvgCPU = cents (average (map pe_CPUPercent ps)), rn_MaxCPU = cents (Max (insert 0 (pe_CPUPercent ` set ps))),
      rn_AvgMem = cents (average (map pe_MemPercent ps)), rn_MaxMem = cents (Max (insert 0 (pe_MemPercent ` set ps))),
      rn_MaxRSS = Max (insert 0 (pe_RSS ` set ps))\<rparr>"

lemma result_of_group: "ps \<noteq> [] \<Longrightarrow> result_of key (fold add_sample ps no_stats) = group_row key ps"
  by (simp add: result_of_def group_row_def fold_samples_simps fold_user average_def no_stats_def)

definition history_keys :: "processEntry list \<Rightarrow> string list" where
  "history_keys entries = remdups (map proc_key (filter (\<lambda>p. pe_Name p \<noteq> []) entries))"

lemma map_filter_total: "(\<And>x. x \<in> set xs \<Longrightarrow> f x = Some (g x)) \<Longrightarrow> List.map_filter f xs = map g xs"
  by (induction xs) simp_all

lemma in_history_keys: "k \<in> set (history_keys entries) \<longleftrightarrow> entries_of k entries \<noteq> []"
  by (auto simp: history_keys_def entries_of_def filter_empty_conv)

text \<open>whatever order the map is iterated in, the history has one row per key that occurs, and the row is
  that of the entries with the key: their number, the mean and the maximum of their loads, the largest
  resident size and the user of the last one.\<close>

theorem history_is_grouping:
  assumes "\<And>ks. set (iter ks) = set ks"
  shows "history iter entries = map (\<lambda>k. group_row k (entries_of k entries)) (iter (history_keys entries))"
  unfolding history_def Let_def history_keys_def [symmetric]
  by (rule map_filter_total) (simp add: assms in_history_keys fold_count_process result_of_group)

theorem history_is_grouping_witness:
  "history rev [jvm ''java'', jvm ''java''] = [group_row ''java'' [jvm ''java'', jvm ''java'']]"
proof -
  have "proc_key (jvm ''java'') = ''java''" by (simp add: proc_key_def jvm_def extractCmdKey_def has_prefix_def after_flag_def)
  moreover have "pe_Name (jvm ''java'') \<noteq> []" by (simp add: jvm_def)
  ultimately show ?thesis
    using history_is_grouping [of rev "[jvm ''java'', jvm ''java'']"] by (simp add: history_keys_def entries_of_def)
qed

section \<open>Dumps\<close>

lemma find_dumpable_found:
  "find_dumpable procs pid = Inr u \<Longrightarrow> \<exists>p \<in> set procs. pe_PID p = pid \<and> looksLikeJVM (pe_Name p) (pe_Cmdline p)"
  by (induction procs pid rule: find_dumpable.induct) (auto split: if_splits)

text \<open>C30: a request that touches the dumps of the hub or reaches the agent names a process id that the latest
  snapshot of that agent lists as a JVM; every other request leaves the table as it is and is refused
  with 400 or 500, without a line in the audit log.\<close>

theorem dumps_only_listed_jvms:
  assumes "handleRequestThreadDump D sender snap newest M mdb nowMillis now auth body agentID db = (db', code, message, entry)"
  shows "(db' = db \<and> code \<in> {400, 500} \<and> entry = None) \<or>
         (\<exists>pid name procs. body = Some (pid, name) \<and> pid \<noteq> 0
            \<and> latestProcessSnapshot snap newest M mdb agentID = Some procs
            \<and> (\<exists>p \<in> set procs. pe_PID p = pid \<and> looksLikeJVM (pe_Name p) (pe_Cmdline p))
            \<and> db' = fst (RequestDump D sender nowMillis now agentID pid name (requested_by auth) db)
            \<and> code \<in> {202, 503} \<and> entry \<noteq> None)"
proof -
  have "\<exists>p \<in> set procs. pe_PID p = pid \<and> looksLikeJVM (pe_Name p) (pe_Cmdline p)"
    if "isDumpablePID procs pid = Inr u" for procs pid u
    using that find_dumpable_found unfolding isDumpablePID_def by (auto split: if_splits)
  then show ?thesis
    using assms unfolding handleRequestThreadDump_def
    by (fastforce split: option.splits prod.splits sum.splits if_splits)
qed

definition one_snapshot :: "metric mem" where
  "one_snapshot = \<lparr>m_rows = [(''m'', \<lparr>mt_id = ''m'', mt_agent_id = ''a'', mt_type = ''processes'', mt_data = None,
     mt_timestamp = 5, mt_resolution = ''raw''\<rparr>)], m_faults = []\<rparr>"

definition ask_dump :: "int \<Rightarrow> dump mem \<times> int \<times> string \<times> Entry option" where
  "ask_dump pid =
     handleRequestThreadDump (mem_table td_id set_td_id) (\<lambda>_ _. None) (\<lambda>_. Some [jvm ''java'']) (\<lambda>rs. rs) mem_metrics one_snapshot
       1000 5 None (Some (pid, ''java'')) ''a'' \<lparr>m_rows = [], m_faults = []\<rparr>"

theorem dumps_only_listed_jvms_witness:
  "fst (snd (ask_dump 7)) = 202 \<and> (\<exists>p \<in> {jvm ''java''}. pe_PID p = 7 \<and> looksLikeJVM (pe_Name p) (pe_Cmdline p))"
proof -
  have snapshot: "latestProcessSnapshot (\<lambda>_. Some ps) (\<lambda>rs. rs) mem_metrics one_snapshot ''a'' = Some ps" for ps
    by (simp add: latestProcessSnapshot_def one_snapshot_def mem_table_def mem_all_def mem_find_def set_mt_id_def map_filter_simps)
  have asked: "snd (RequestDump (mem_table td_id set_td_id) (\<lambda>_ _. None) ms now aid pid name who \<lparr>m_rows = [], m_faults = []\<rparr>) =
      Inr (dump_request_id ms pid)" for ms now aid pid name who
    by (simp add: RequestDump_def mem_table_def mem_save_def Let_def)
  have jvm: "isDumpablePID [jvm ''java''] 7 = Inr ()"
    by (simp add: isDumpablePID_def jvm_def looksLikeJVM_def)
  obtain d where run: "RequestDump (mem_table td_id set_td_id) (\<lambda>_ _. None) 1000 5 ''a'' 7 ''java'' (requested_by None)
      \<lparr>m_rows = [], m_faults = []\<rparr> = (d, Inr (dump_request_id 1000 7))"
    using asked by (metis prod.collapse)
  have *: "fst (snd (ask_dump 7)) = 202"
    by (simp add: ask_dump_def handleRequestThreadDump_def snapshot jvm run)
  obtain db' code message entry where d: "ask_dump 7 = (db', code, message, entry)" by (metis prod_cases4)
  with * have "code = 202" by simp
  with dumps_only_listed_jvms [OF d [unfolded ask_dump_def]] *
  show ?thesis by (auto simp: snapshot)
qed

section \<open>Thinning\<close>

lemma length_every_step: "length (every_step step xs) = (length xs + step - 1) div step"
  by (simp add: every_step_def)

text \<open>The thinned series is meant to have about 120 points; it has up to 239 (a series of 239 points is
  not thinned at all), and every point of it is one of the original series.\<close>

lemma thin_out_bounds: "length (thin_out xs) < 240 \<and> set (thin_out xs) \<subseteq> set xs"
proof (cases "120 < length xs")
  case True
  define step where "step = length xs div 120"
  have step: "0 < step" "length xs < 120 * step + 120" using True by (simp_all add: step_def)
  have "(length xs + step - 1) div step < 240"
  proof (cases "step = 1")
    case False
    with step have "length xs + step - 1 < 240 * step" by linarith
    then show ?thesis by (simp add: div_less_iff_less_mult step(1))
  qed (use step(2) in simp)
  moreover have "i * step < length xs" if "i < (length xs + step - 1) div step" for i
  proof -
    have "Suc i * step \<le> (length xs + step - 1) div step * step" using that by (intro mult_right_mono) simp_all
    also have "\<dots> \<le> length xs + step - 1" by simp
    finally show ?thesis using step(1) by simp
  qed
  ultimately show ?thesis
    unfolding thin_out_def if_P [OF True] step_def [symmetric] length_every_step by (auto simp: every_step_def)
qed (simp add: thin_out_def)

lemma barely_thinned: "length (thin_out (replicate 239 x)) = 239"
  by (simp add: thin_out_def length_every_step)

end
