(* ===== verification/Cve_Scan.thy ===== *)
theory Cve_Scan
  imports Monitoring
begin

text \<open>
  The CVE scanner of the agent (\<open>internal/agent/collector/cvescan.go\<close>). What the programs \<open>trivy\<close> and
  \<open>grype\<close> print, the decoding of their JSON, the images of the running containers and
  \<open>sort.Strings\<close> are the record \<open>cve_env\<close>. The second part puts the report under the \<open>cve_count\<close>
  rule of the alert engine.
\<close>

section \<open>Findings\<close>

record cveFinding =
  cf_ID :: string
  cf_Severity :: string
  cf_Package :: string
  cf_Installed :: string
  cf_Fixed :: string
  cf_Title :: string
  cf_Target :: string

definition normalizeCveSeverity :: "string \<Rightarrow> string" where
  "normalizeCveSeverity raw =
     (let s = to_lower (trim_space raw) in
      if s = ''critical'' then ''critical''
      else if s = ''high'' then ''high''
      else if s = ''medium'' then ''medium''
      else if s = ''low'' then ''low''
      else if s = ''negligible'' then ''low''
      else ''unknown'')"

text \<open>A key that is not in the map has rank zero.\<close>

definition cveSeverityRank :: "string \<Rightarrow> nat" where
  "cveSeverityRank s =
     (if s = ''critical'' then 0 else if s = ''high'' then 1 else if s = ''medium'' then 2
      else if s = ''low'' then 3 else if s = ''unknown'' then 4 else 0)"

record trivy_vuln =
  tv_VulnerabilityID :: string
  tv_PkgName :: string
  tv_InstalledVersion :: string
  tv_FixedVersion :: string
  tv_Severity :: string
  tv_Title :: string

type_synonym trivyReport = "(string \<times> trivy_vuln list) list"

definition trivy_finding :: "string \<Rightarrow> trivy_vuln \<Rightarrow> cveFinding" where
  "trivy_finding target v =
     \<lparr>cf_ID = tv_VulnerabilityID v, cf_Severity = normalizeCveSeverity (tv_Severity v), cf_Package = tv_PkgName v,
      cf_Installed = tv_InstalledVersion v, cf_Fixed = tv_FixedVersion v, cf_Title = tv_Title v, cf_Target = target\<rparr>"

text \<open>\<open>Inl\<close> is the text of the decoding error.\<close>

definition parseTrivyReport :: "(string \<Rightarrow> string + trivyReport) \<Rightarrow> string \<Rightarrow> string + cveFinding list" where
  "parseTrivyReport decode data =
     (case decode data of
        Inl e \<Rightarrow> Inl e
      | Inr results \<Rightarrow> Inr (concat (map (\<lambda>(target, vs). map (trivy_finding target) vs) results)))"

record grype_match =
  gm_ID :: string
  gm_Severity :: string
  gm_FixVersions :: "string list"
  gm_FixState :: string
  gm_Name :: string
  gm_Version :: string
  gm_Locations :: "string list"

record grypeReport =
  gr_Matches :: "grype_match list"
  gr_Version :: string
  gr_Built :: string

definition grype_finding :: "grype_match \<Rightarrow> cveFinding" where
  "grype_finding m =
     \<lparr>cf_ID = gm_ID m, cf_Severity = normalizeCveSeverity (gm_Severity m), cf_Package = gm_Name m,
      cf_Installed = gm_Version m,
      cf_Fixed = (if equal_fold (gm_FixState m) ''fixed'' \<and> gm_FixVersions m \<noteq> [] then str_join '', '' (gm_FixVersions m) else []),
      cf_Title = [], cf_Target = (case gm_Locations m of [] \<Rightarrow> [] | p # _ \<Rightarrow> p)\<rparr>"

text \<open>The findings, the time the database was built and the version of the scanner; empty texts with an error.\<close>

definition parseGrypeReport :: "(string \<Rightarrow> string + grypeReport) \<Rightarrow> string \<Rightarrow> (string + cveFinding list) \<times> string \<times> string" where
  "parseGrypeReport decode data =
     (case decode data of
        Inl e \<Rightarrow> (Inl e, [], [])
      | Inr r \<Rightarrow> (Inr (map grype_finding (gr_Matches r)), gr_Built r, gr_Version r))"

section \<open>Targets\<close>

definition finding_key :: "cveFinding \<Rightarrow> string" where
  "finding_key f = cf_ID f @ ''|'' @ cf_Package f @ ''|'' @ cf_Target f"

fun dedupe_loop :: "cveFinding list \<Rightarrow> string list \<Rightarrow> cveFinding list" where
  "dedupe_loop [] seen = []"
| "dedupe_loop (f # fs) seen =
     (if finding_key f \<in> set seen then dedupe_loop fs seen else f # dedupe_loop fs (finding_key f # seen))"

definition dedupeCveFindings :: "cveFinding list \<Rightarrow> cveFinding list" where
  "dedupeCveFindings findings = dedupe_loop findings []"

text \<open>\<open>counts[k]++\<close> and \<open>counts[k] += n\<close> on a map.\<close>

definition bump :: "string \<Rightarrow> int \<Rightarrow> (string \<times> int) list \<Rightarrow> (string \<times> int) list" where
  "bump k n counts =
     (if k \<in> fst ` set counts then map (\<lambda>(j, m). if j = k then (j, m + n) else (j, m)) counts else counts @ [(k, n)])"

definition count_of :: "(string \<times> int) list \<Rightarrow> string \<Rightarrow> int" where
  "count_of counts k = (case map_of counts k of Some n \<Rightarrow> n | None \<Rightarrow> 0)"

definition severities :: "string list" where
  "severities = [''critical'', ''high'', ''medium'', ''low'', ''unknown'']"

record cve_target =
  ct_kind :: string
  ct_ref :: string
  ct_counts :: "(string \<times> int) list"
  ct_fixable :: int
  ct_findings :: "cveFinding list"

definition cveScanFindingsLimit :: nat where "cveScanFindingsLimit = 200"

text \<open>\<open>sort_key\<close> is stable, as \<open>sort.SliceStable\<close>.\<close>

definition by_rank :: "cveFinding list \<Rightarrow> cveFinding list" where
  "by_rank findings = sort_key (\<lambda>f. cveSeverityRank (cf_Severity f)) findings"

definition buildCveTarget :: "string \<Rightarrow> string \<Rightarrow> cveFinding list \<Rightarrow> cve_target" where
  "buildCveTarget kind ref findings =
     (let fs = by_rank (dedupeCveFindings findings)
      in \<lparr>ct_kind = kind, ct_ref = ref,
          ct_counts = fold (\<lambda>f. bump (cf_Severity f) 1) fs (map (\<lambda>s. (s, 0)) severities),
          ct_fixable = int (length (filter (\<lambda>f. cf_Fixed f \<noteq> []) fs)),
          ct_findings = take cveScanFindingsLimit fs\<rparr>)"

definition add_target :: "cve_target \<Rightarrow> (string \<times> int) list \<Rightarrow> (string \<times> int) list" where
  "add_target t totals =
     map (\<lambda>(k, n). if k = ''fixable'' then (k, n + ct_fixable t) else (k, n + count_of (ct_counts t) k)) totals"

definition aggregateCveTotals :: "cve_target list \<Rightarrow> (string \<times> int) list" where
  "aggregateCveTotals targets = fold add_target targets (map (\<lambda>s. (s, 0)) (severities @ [''fixable'']))"

definition finding_obj :: "cveFinding \<Rightarrow> obj" where
  "finding_obj f =
     [(''id'', AStr (cf_ID f)), (''severity'', AStr (cf_Severity f)), (''package'', AStr (cf_Package f)),
      (''installed'', AStr (cf_Installed f)), (''fixed'', AStr (cf_Fixed f)), (''title'', AStr (cf_Title f)),
      (''target'', AStr (cf_Target f))]"

definition counts_obj :: "(string \<times> int) list \<Rightarrow> any" where
  "counts_obj counts = AObj (map (\<lambda>(k, n). (k, AInt n)) counts)"

definition target_obj :: "cve_target \<Rightarrow> obj" where
  "target_obj t =
     [(''kind'', AStr (ct_kind t)), (''ref'', AStr (ct_ref t)), (''counts'', counts_obj (ct_counts t)),
      (''fixable'', AInt (ct_fixable t)), (''findings'', AArr (map (\<lambda>f. AObj (finding_obj f)) (ct_findings t)))]"

section \<open>Scans\<close>

datatype run_error = ExitError string | OtherError string

fun error_text :: "run_error \<Rightarrow> string" where
  "error_text (ExitError e) = e"
| "error_text (OtherError e) = e"

text \<open>\<open>ce_output\<close> is \<open>cmd.Output\<close> of a program with its arguments and additional environment.\<close>

record cve_env =
  ce_look :: "string \<Rightarrow> string option"
  ce_output :: "string \<Rightarrow> string list \<Rightarrow> string list \<Rightarrow> string \<times> run_error option"
  ce_trivy :: "string \<Rightarrow> string + trivyReport"
  ce_grype :: "string \<Rightarrow> string + grypeReport"
  ce_version :: "string \<Rightarrow> string option"
  ce_containers :: "string list option"
  ce_sort :: "string list \<Rightarrow> string list"

definition cve_Run :: "cve_env \<Rightarrow> string \<Rightarrow> string list \<Rightarrow> string list \<Rightarrow> string + string" where
  "cve_Run E bin args env =
     (case ce_output E bin args env of
        (out, None) \<Rightarrow> Inr out
      | (out, Some (ExitError e)) \<Rightarrow> if out \<noteq> [] then Inr out else Inl e
      | (out, Some (OtherError e)) \<Rightarrow> Inl e)"

definition detectCveScanner :: "cve_env \<Rightarrow> (string \<times> string) option" where
  "detectCveScanner E =
     (case ce_look E ''trivy'' of
        Some p \<Rightarrow> Some (''trivy'', p)
      | None \<Rightarrow> (case ce_look E ''grype'' of Some p \<Rightarrow> Some (''grype'', p) | None \<Rightarrow> None))"

definition cveScanArgs :: "string \<Rightarrow> string \<Rightarrow> string \<Rightarrow> string + string list" where
  "cveScanArgs scanner kind ref =
     (if scanner = ''trivy'' then
        (if kind = ''host''
         then Inr [''rootfs'', ''--scanners'', ''vuln'', ''--format'', ''json'', ''--quiet'', ''--timeout'', ''10m'', ref]
         else Inr [''image'', ''--format'', ''json'', ''--quiet'', ref])
      else if scanner = ''grype'' then
        (if kind = ''host'' then Inr [''dir:'' @ ref, ''-o'', ''json''] else Inr [ref, ''-o'', ''json''])
      else Inl (''unsupported scanner \"'' @ scanner @ ''\"''))"

definition trivyVersion :: "cve_env \<Rightarrow> string \<Rightarrow> string" where
  "trivyVersion E bin =
     (case cve_Run E bin [''--version'', ''--format'', ''json''] [] of
        Inl _ \<Rightarrow> []
      | Inr out \<Rightarrow> (case ce_version E out of None \<Rightarrow> [] | Some v \<Rightarrow> v))"

definition dockerImages :: "cve_env \<Rightarrow> string list" where
  "dockerImages E =
     (case ce_containers E of
        None \<Rightarrow> []
      | Some images \<Rightarrow> ce_sort E (rev (remdups (rev (filter (\<lambda>i. i \<noteq> []) images)))))"

record cveScanMeta =
  sm_scannerVersion :: string
  sm_dbUpdatedAt :: string

definition scanTarget ::
  "cve_env \<Rightarrow> string \<Rightarrow> string \<Rightarrow> string list \<Rightarrow> string \<times> string \<Rightarrow> cveScanMeta \<Rightarrow> cveScanMeta \<times> (string + cve_target)" where
  "scanTarget E scanner bin env kr meta = (case kr of (kind, ref) \<Rightarrow>
     (case cveScanArgs scanner kind ref of
        Inl e \<Rightarrow> (meta, Inl e)
      | Inr args \<Rightarrow>
          (case cve_Run E bin args env of
             Inl e \<Rightarrow> (meta, Inl (scanner @ '' scan of '' @ ref @ '': '' @ e))
           | Inr out \<Rightarrow>
               (let (res, meta') =
                      (if scanner = ''trivy'' then (parseTrivyReport (ce_trivy E) out, meta)
                       else (case parseGrypeReport (ce_grype E) out of (res, dbBuilt, version) \<Rightarrow>
                         (res, \<lparr>sm_scannerVersion = (if sm_scannerVersion meta = [] then version else sm_scannerVersion meta),
                                sm_dbUpdatedAt = (if sm_dbUpdatedAt meta = [] then dbBuilt else sm_dbUpdatedAt meta)\<rparr>)))
                in case res of
                     Inl e \<Rightarrow> (meta', Inl (''parse '' @ scanner @ '' output for '' @ ref @ '': '' @ e))
                   | Inr findings \<Rightarrow> (meta', Inr (buildCveTarget kind ref findings))))))"

record scan_state =
  sn_meta :: cveScanMeta
  sn_targets :: "cve_target list"
  sn_firstErr :: string

definition scan_one :: "cve_env \<Rightarrow> string \<Rightarrow> string \<Rightarrow> string list \<Rightarrow> string \<times> string \<Rightarrow> scan_state \<Rightarrow> scan_state" where
  "scan_one E scanner bin env kr s =
     (case scanTarget E scanner bin env kr (sn_meta s) of
        (meta, Inl e) \<Rightarrow> s\<lparr>sn_meta := meta, sn_firstErr := (if sn_firstErr s = [] then e else sn_firstErr s)\<rparr>
      | (meta, Inr t) \<Rightarrow> s\<lparr>sn_meta := meta, sn_targets := sn_targets s @ [t]\<rparr>)"

definition notAvailableCvePayload :: "string \<Rightarrow> obj" where
  "notAvailableCvePayload errMsg =
     [(''scanner'', AStr []), (''scanner_version'', AStr []), (''db_updated_at'', AStr []), (''scanned_at'', AStr []),
      (''duration_ms'', AInt64 0), (''stale'', ABool False), (''available'', ABool False), (''error'', AStr errMsg),
      (''targets'', AArr []), (''totals'', counts_obj (map (\<lambda>s. (s, 0)) (severities @ [''fixable''])))]"

record CveScanCollector =
  cs_enabled :: bool
  cs_interval :: duration
  cs_maxImages :: nat
  cs_cacheDir :: string
  cs_lastResult :: obj
  cs_lastRunAt :: time

definition scan_env :: "CveScanCollector \<Rightarrow> string list" where
  "scan_env c = [''TRIVY_CACHE_DIR='' @ cs_cacheDir c, ''GRYPE_DB_CACHE_DIR='' @ cs_cacheDir c]"

definition scan_refs :: "cve_env \<Rightarrow> CveScanCollector \<Rightarrow> (string \<times> string) list" where
  "scan_refs E c = (''host'', ''/'') # map (\<lambda>ref. (''image'', ref)) (take (cs_maxImages c) (dockerImages E))"

text \<open>A nil slice of targets is sent as null.\<close>

definition cve_scan :: "cve_env \<Rightarrow> string \<Rightarrow> int \<Rightarrow> CveScanCollector \<Rightarrow> obj" where
  "cve_scan E scanned_at duration_ms c =
     (case detectCveScanner E of
        None \<Rightarrow> notAvailableCvePayload ''no supported scanner found (install trivy or grype)''
      | Some (scanner, bin) \<Rightarrow>
          (let s = fold (scan_one E scanner bin (scan_env c)) (scan_refs E c)
                 \<lparr>sn_meta = \<lparr>sm_scannerVersion = [], sm_dbUpdatedAt = []\<rparr>, sn_targets = [], sn_firstErr = []\<rparr>;
               version = (if scanner = ''trivy'' then trivyVersion E bin else sm_scannerVersion (sn_meta s))
           in [(''scanner'', AStr scanner), (''scanner_version'', AStr version),
               (''db_updated_at'', AStr (sm_dbUpdatedAt (sn_meta s))), (''scanned_at'', AStr scanned_at),
               (''duration_ms'', AInt64 duration_ms), (''stale'', ABool False), (''available'', ABool True),
               (''error'', AStr (sn_firstErr s)),
               (''targets'', if sn_targets s = [] then ANil else AArr (map (\<lambda>t. AObj (target_obj t)) (sn_targets s))),
               (''totals'', counts_obj (aggregateCveTotals (sn_targets s)))]))"

section \<open>The collector\<close>

definition newCveScanCollector :: "bool \<Rightarrow> duration \<Rightarrow> int \<Rightarrow> string \<Rightarrow> CveScanCollector" where
  "newCveScanCollector enabled interval maxImages cacheDir =
     \<lparr>cs_enabled = enabled, cs_interval = (if interval < hour then hour else interval),
      cs_maxImages = (if maxImages \<le> 0 then 10 else nat maxImages),
      cs_cacheDir = (if cacheDir = [] then ''/var/lib/nexwatch/scanner-cache'' else cacheDir),
      cs_lastResult = notAvailableCvePayload
        (if enabled then ''scan pending: the first run has not completed yet'' else ''cve_scan_enabled is false''),
      cs_lastRunAt = 0\<rparr>"

definition cve_Collect :: "time \<Rightarrow> CveScanCollector \<Rightarrow> obj" where
  "cve_Collect now c =
     (if cs_enabled c
      then map (\<lambda>(k, v). if k = ''stale''
             then (k, ABool (cs_lastRunAt c = 0 \<or> wrap64 (2 * cs_interval c) < t_sub now (cs_lastRunAt c)))
             else (k, v)) (cs_lastResult c)
      else cs_lastResult c)"

definition runOnce :: "cve_env \<Rightarrow> string \<Rightarrow> int \<Rightarrow> time \<Rightarrow> CveScanCollector \<Rightarrow> CveScanCollector" where
  "runOnce E scanned_at duration_ms now c =
     c\<lparr>cs_lastResult := cve_scan E scanned_at duration_ms c, cs_lastRunAt := now\<rparr>"

section \<open>Counting\<close>

lemma count_bump: "count_of (bump k n cs) j = count_of cs j + (if j = k then n else 0)"
proof (cases "k \<in> fst ` set cs")
  case True
  have "map_of (map (\<lambda>(i, m). if i = k then (i, m + n) else (i, m)) xs) j
      = map_option (\<lambda>m. if j = k then m + n else m) (map_of xs j)" for xs
    by (induction xs) auto
  moreover have "\<exists>m. map_of cs k = Some m" using True by (metis domIff dom_map_of_conv_image_fst not_None_eq)
  ultimately show ?thesis using True by (auto simp: count_of_def bump_def split: option.splits)
next
  case False
  then have "map_of cs k = None" by (simp add: map_of_eq_None_iff)
  then show ?thesis using False by (simp add: count_of_def bump_def map_add_def split: option.splits)
qed

lemma count_bumps:
  "count_of (fold (\<lambda>f. bump (g f) 1) fs cs) j = count_of cs j + int (length (filter (\<lambda>f. g f = j) fs))"
  by (induction fs arbitrary: cs) (auto simp: count_bump)

lemma count_zero: "count_of (map (\<lambda>s. (s, 0)) xs) j = 0"
  by (induction xs) (auto simp: count_of_def)

lemma filter_by_rank: "length (filter P (by_rank fs)) = length (filter P fs)"
  unfolding by_rank_def by (metis mset_filter mset_sort size_mset)

text \<open>The number of findings of a severity, after removing duplicates.\<close>

definition of_severity :: "string \<Rightarrow> cveFinding list \<Rightarrow> nat" where
  "of_severity s fs = length (filter (\<lambda>f. cf_Severity f = s) (dedupeCveFindings fs))"

lemma built_counts: "count_of (ct_counts (buildCveTarget kind ref fs)) s = int (of_severity s fs)"
  by (simp add: buildCveTarget_def Let_def count_bumps count_zero filter_by_rank of_severity_def)

lemma add_target_keys: "fst ` set (add_target t totals) = fst ` set totals"
  by (force simp: add_target_def)

lemma count_add_target:
  assumes "k \<in> fst ` set totals"
  shows "count_of (add_target t totals) k =
    count_of totals k + (if k = ''fixable'' then ct_fixable t else count_of (ct_counts t) k)"
proof -
  have "map_of (map (\<lambda>(i, n). if i = ''fixable'' then (i, n + ct_fixable t) else (i, n + count_of (ct_counts t) i)) xs) k
      = map_option (\<lambda>n. n + (if k = ''fixable'' then ct_fixable t else count_of (ct_counts t) k)) (map_of xs k)" for xs
    by (induction xs) auto
  moreover have "\<exists>m. map_of totals k = Some m" using assms by (metis domIff dom_map_of_conv_image_fst not_None_eq)
  ultimately show ?thesis by (auto simp: count_of_def add_target_def)
qed

lemma count_totals:
  assumes "k \<in> set (severities @ [''fixable''])"
  shows "count_of (aggregateCveTotals ts) k =
    sum_list (map (\<lambda>t. if k = ''fixable'' then ct_fixable t else count_of (ct_counts t) k) ts)"
proof -
  have "count_of (fold add_target ts cs) k = count_of cs k +
      sum_list (map (\<lambda>t. if k = ''fixable'' then ct_fixable t else count_of (ct_counts t) k) ts)"
    if "k \<in> fst ` set cs" for cs
    using that by (induction ts arbitrary: cs) (simp_all add: count_add_target add_target_keys)
  from this [of "map (\<lambda>s. (s, 0)) (severities @ [''fixable''])"] assms show ?thesis
    by (simp add: aggregateCveTotals_def count_zero image_image del: map_append)
qed

lemma float_counts: "float_or_zero (aget (map (\<lambda>(k, n). (k, AInt n)) cs) k) = of_int (count_of cs k)"
  by (induction cs) (auto simp: aget_def float_or_zero_def count_of_def)

section \<open>What a scan finds\<close>

text \<open>The findings of a target that could be scanned and whose output could be read.\<close>

definition target_findings :: "cve_env \<Rightarrow> string \<Rightarrow> string \<Rightarrow> string list \<Rightarrow> string \<times> string \<Rightarrow> cveFinding list option" where
  "target_findings E scanner bin env kr = (case kr of (kind, ref) \<Rightarrow>
     (case cveScanArgs scanner kind ref of
        Inl _ \<Rightarrow> None
      | Inr args \<Rightarrow>
          (case cve_Run E bin args env of
             Inl _ \<Rightarrow> None
           | Inr out \<Rightarrow>
               (case (if scanner = ''trivy'' then parseTrivyReport (ce_trivy E) out else fst (parseGrypeReport (ce_grype E) out)) of
                  Inl _ \<Rightarrow> None
                | Inr findings \<Rightarrow> Some findings))))"

lemma scanTarget_findings:
  "(case snd (scanTarget E scanner bin env kr meta) of Inl _ \<Rightarrow> None | Inr t \<Rightarrow> Some t) =
     map_option (buildCveTarget (fst kr) (snd kr)) (target_findings E scanner bin env kr)"
  by (auto simp: scanTarget_def target_findings_def Let_def split: prod.splits sum.splits if_splits)

lemma scan_one_targets:
  "sn_targets (scan_one E scanner bin env kr s) =
     sn_targets s @ (case target_findings E scanner bin env kr of
       None \<Rightarrow> [] | Some fs \<Rightarrow> [buildCveTarget (fst kr) (snd kr) fs])"
  using scanTarget_findings [of E scanner bin env kr "sn_meta s"]
  by (auto simp: scan_one_def split: prod.splits sum.splits option.splits)

definition scanned :: "cve_env \<Rightarrow> string \<Rightarrow> string \<Rightarrow> CveScanCollector \<Rightarrow> ((string \<times> string) \<times> cveFinding list) list" where
  "scanned E scanner bin c =
     List.map_filter (\<lambda>kr. map_option (\<lambda>fs. (kr, fs)) (target_findings E scanner bin (scan_env c) kr)) (scan_refs E c)"

lemma fold_scan:
  "sn_targets (fold (scan_one E scanner bin env) krs s) = sn_targets s @
     map (\<lambda>(kr, fs). buildCveTarget (fst kr) (snd kr) fs)
       (List.map_filter (\<lambda>kr. map_option (\<lambda>fs. (kr, fs)) (target_findings E scanner bin env kr)) krs)"
proof (induction krs arbitrary: s)
  case (Cons kr krs)
  show ?case unfolding fold.simps comp_apply Cons.IH by (simp add: scan_one_targets split: option.splits)
qed simp

section \<open>The report under the rule\<close>

text \<open>The stored report agrees with the sent one on what the rule reads.\<close>

definition keeps_totals :: "obj \<Rightarrow> obj \<Rightarrow> bool" where
  "keeps_totals sent stored \<longleftrightarrow>
     as_bool (aget stored ''available'') = as_bool (aget sent ''available'') \<and>
     rel_option (\<lambda>s t. \<forall>k. float_or_zero (aget s k) = float_or_zero (aget t k))
       (as_obj (aget stored ''totals'')) (as_obj (aget sent ''totals''))"

definition severe :: "string \<Rightarrow> ((string \<times> string) \<times> cveFinding list) list \<Rightarrow> nat" where
  "severe target results =
     sum_list (map (\<lambda>(_, fs). of_severity ''critical'' fs
       + (if equal_fold (trim_space target) ''critical'' then 0 else of_severity ''high'' fs)) results)"

lemma int_sum_list: "int (sum_list ns) = sum_list (map int ns)"
  by (induction ns) simp_all

lemma total_of_severity:
  assumes "s \<in> set severities"
  shows "count_of (aggregateCveTotals (map (\<lambda>(kr, fs). buildCveTarget (fst kr) (snd kr) fs) rs)) s =
    int (sum_list (map (\<lambda>(_, fs). of_severity s fs) rs))"
proof -
  have "s \<noteq> ''fixable''" using assms by (auto simp: severities_def)
  then show ?thesis using assms
    by (simp add: count_totals comp_def case_prod_unfold built_counts int_sum_list)
qed

text \<open>C31: a \<open>cve_count\<close> rule measures the findings of critical severity (and of high severity, unless its
  target says critical), each counted once per scanned target, over the targets whose scan succeeded,
  however many of them the report shows. Without a scanner it makes no observation. A scan in which every
  target failed is an observation of zero, so that it resolves an open incident.\<close>

theorem cve_rule_counts_findings:
  assumes "latestMetricData v aid ''cve_scan'' = Some data"
    and "keeps_totals (cve_scan E scanned_at ms c) data"
  shows "evalCveCount v aid target condition threshold =
    (case detectCveScanner E of
       None \<Rightarrow> None
     | Some (scanner, bin) \<Rightarrow>
         (let n = of_nat (severe target (scanned E scanner bin c)) in Some (n, checkCondition n condition threshold)))"
proof (cases "detectCveScanner E")
  case None
  with assms show ?thesis
    by (simp add: evalCveCount_def cve_scan_def keeps_totals_def notAvailableCvePayload_def aget_def)
next
  case (Some sb)
  obtain scanner bin where sb: "sb = (scanner, bin)" by (cases sb)
  let ?ts = "map (\<lambda>(kr, fs). buildCveTarget (fst kr) (snd kr) fs) (scanned E scanner bin c)"
  have sent: "as_bool (aget (cve_scan E scanned_at ms c) ''available'') = Some True"
    "as_obj (aget (cve_scan E scanned_at ms c) ''totals'') = Some (map (\<lambda>(k, n). (k, AInt n)) (aggregateCveTotals ?ts))"
    by (simp_all add: cve_scan_def Some sb Let_def fold_scan scanned_def aget_def counts_obj_def)
  then obtain totals where t: "as_bool (aget data ''available'') = Some True" "as_obj (aget data ''totals'') = Some totals"
    "\<And>k. float_or_zero (aget totals k) = of_int (count_of (aggregateCveTotals ?ts) k)"
    using assms(2) unfolding keeps_totals_def sent by (auto simp: option_rel_Some2 float_counts)
  have "''critical'' \<in> set severities" "''high'' \<in> set severities" by (simp_all add: severities_def)
  note n = this [THEN total_of_severity, of "scanned E scanner bin c", unfolded case_prod_unfold]
  show ?thesis
    using assms(1) t(1,2)
    by (simp add: evalCveCount_def t(3) n Some sb Let_def severe_def case_prod_unfold sum_list_addf)
qed

text \<open>A host with three findings, one of them reported twice.\<close>

definition one_cve :: "string \<Rightarrow> string \<Rightarrow> trivy_vuln" where
  "one_cve i severity = \<lparr>tv_VulnerabilityID = i, tv_PkgName = ''p'', tv_InstalledVersion = ''1'', tv_FixedVersion = [],
     tv_Severity = severity, tv_Title = []\<rparr>"

definition trivy_host :: cve_env where
  "trivy_host = \<lparr>ce_look = (\<lambda>n. if n = ''trivy'' then Some ''t'' else None), ce_output = (\<lambda>_ _ _. (''x'', None)),
     ce_trivy = (\<lambda>_. Inr [(''os'', [one_cve ''A'' ''HIGH'', one_cve ''A'' ''HIGH'', one_cve ''B'' ''CRITICAL'', one_cve ''C'' ''LOW''])]),
     ce_grype = (\<lambda>_. Inl ''x''), ce_version = (\<lambda>_. None), ce_containers = None, ce_sort = (\<lambda>xs. xs)\<rparr>"

definition scanner_at_start :: CveScanCollector where
  "scanner_at_start = newCveScanCollector True 0 0 []"

lemma trivy_host_severe: "severe [] (scanned trivy_host ''trivy'' ''t'' scanner_at_start) = 2"
  by code_simp

theorem cve_rule_counts_findings_witness:
  "evalCveCount (host_view ''cve_scan'' (cve_scan trivy_host [] 0 scanner_at_start)) ''a'' [] ''gt'' 1 = Some (2, True)"
proof -
  let ?d = "cve_scan trivy_host [] 0 scanner_at_start"
  have "latestMetricData (host_view ''cve_scan'' ?d) ''a'' ''cve_scan'' = Some ?d" by (simp only: host_view_latest) simp
  moreover have "keeps_totals ?d ?d" by (simp add: keeps_totals_def option.rel_refl)
  moreover have "detectCveScanner trivy_host = Some (''trivy'', ''t'')" by (simp add: detectCveScanner_def trivy_host_def)
  ultimately show ?thesis
    using cve_rule_counts_findings [of "host_view ''cve_scan'' ?d" "''a''" ?d trivy_host "[]" 0 scanner_at_start "[]" "''gt''" 1]
    by (simp add: trivy_host_severe checkCondition_def)
qed

text \<open>When the scanner fails on every target the report says available, with zero findings: the rule sees a
  clean host.\<close>

lemma failed_scan_reports_clean:
  assumes "latestMetricData v aid ''cve_scan'' = Some data" and "keeps_totals (cve_scan E scanned_at ms c) data"
    and "detectCveScanner E = Some (scanner, bin)"
    and "\<And>args env. \<exists>e. ce_output E bin args env = ([], Some e)"
  shows "evalCveCount v aid target condition threshold = Some (0, checkCondition 0 condition threshold)"
proof -
  have "\<exists>e. cve_Run E bin args env = Inl e" for args env
    using assms(4) [of args env] by (auto simp: cve_Run_def split: run_error.splits)
  then obtain e where "\<And>args env. cve_Run E bin args env = Inl (e args env)" by metis
  then have "target_findings E scanner bin env kr = None" for env kr
    by (simp add: target_findings_def split: prod.splits sum.splits)
  then have "scanned E scanner bin c = []" by (simp add: scanned_def List.map_filter_def)
  then show ?thesis using cve_rule_counts_findings [OF assms(1,2)] assms(3) by (simp add: severe_def)
qed

section \<open>What a report shows\<close>

lemma dedupe_loop_keys:
  "distinct (map finding_key (dedupe_loop fs seen)) \<and> finding_key ` set (dedupe_loop fs seen) = finding_key ` set fs - set seen"
  by (induction fs seen rule: dedupe_loop.induct) auto

text \<open>One finding per key, all of them counted; of more than two hundred the most severe ones are shown.\<close>

lemma target_shows_the_worst:
  fixes kind ref fs
  defines "t \<equiv> buildCveTarget kind ref fs"
  shows "\<exists>hidden. mset (ct_findings t) + mset hidden = mset (dedupeCveFindings fs)
      \<and> (\<forall>f \<in> set (ct_findings t). \<forall>g \<in> set hidden. cveSeverityRank (cf_Severity f) \<le> cveSeverityRank (cf_Severity g))
      \<and> length (ct_findings t) = min 200 (card (finding_key ` set fs))"
proof (rule exI, intro conjI ballI)
  let ?s = "by_rank (dedupeCveFindings fs)"
  have t: "ct_findings t = take 200 ?s" by (simp add: t_def buildCveTarget_def cveScanFindingsLimit_def Let_def)
  show "mset (ct_findings t) + mset (drop 200 ?s) = mset (dedupeCveFindings fs)"
    unfolding t by (metis append_take_drop_id by_rank_def mset_append mset_sort)
  have "sorted (map (\<lambda>f. cveSeverityRank (cf_Severity f)) (take 200 ?s @ drop 200 ?s))"
    by (simp add: by_rank_def)
  then show "cveSeverityRank (cf_Severity f) \<le> cveSeverityRank (cf_Severity g)"
    if "f \<in> set (ct_findings t)" "g \<in> set (drop 200 ?s)" for f g
    using that unfolding t map_append sorted_append by simp
  have "length ?s = card (finding_key ` set fs)"
    using dedupe_loop_keys [of fs "[]"] distinct_card [of "map finding_key (dedupe_loop fs [])"]
    by (simp add: by_rank_def dedupeCveFindings_def)
  then show "length (ct_findings t) = min 200 (card (finding_key ` set fs))" by (simp add: t min.commute)
qed

text \<open>The rank of a text that is no severity is that of critical, not one after unknown. The scanners'
  severities are normalized first, so no finding has such a severity.\<close>

lemma unrecognized_ranks_first: "s \<notin> set severities \<Longrightarrow> cveSeverityRank s = cveSeverityRank ''critical''"
  by (simp add: cveSeverityRank_def severities_def)

lemma normalized: "normalizeCveSeverity raw \<in> set severities"
  by (simp add: normalizeCveSeverity_def severities_def Let_def)

end
