(* ===== verification/Docker_Collector.thy ===== *)
theory Docker_Collector
  imports Ingest
begin

text \<open>
  The Docker collector of the agent (\<open>internal/agent/collector/docker.go\<close>, \<open>docker_update.go\<close>) and
  what becomes of its report in the container inventory of the hub (theory \<open>Ingest\<close>). The daemon and
  the registries are the record \<open>docker_env\<close>.
\<close>

section \<open>Statistics\<close>

record StatsResponse =
  st_TotalUsage :: "64 word"
  st_PreTotalUsage :: "64 word"
  st_SystemUsage :: "64 word"
  st_PreSystemUsage :: "64 word"
  st_OnlineCPUs :: "32 word"
  st_PercpuUsage :: "64 word list"
  st_MemUsage :: "64 word"
  st_MemLimit :: "64 word"
  st_Networks :: "(64 word \<times> 64 word) list"

definition of_uint :: "'a::len word \<Rightarrow> rat" where
  "of_uint w = of_nat (unat w)"

definition cpu_count :: "StatsResponse \<Rightarrow> rat" where
  "cpu_count s =
     (if st_OnlineCPUs s \<noteq> 0 then of_uint (st_OnlineCPUs s)
      else if st_PercpuUsage s \<noteq> [] then of_nat (length (st_PercpuUsage s)) else 1)"

definition calculateCPUPercent :: "StatsResponse \<Rightarrow> rat" where
  "calculateCPUPercent s =
     (let cpuDelta = of_uint (st_TotalUsage s - st_PreTotalUsage s);
          systemDelta = of_uint (st_SystemUsage s - st_PreSystemUsage s)
      in if systemDelta > 0 \<and> cpuDelta > 0 then (cpuDelta / systemDelta) * cpu_count s * 100 else 0)"

definition getContainerStats :: "StatsResponse \<Rightarrow> obj" where
  "getContainerStats s =
     [(''cpu_percent'', AFloat64 (calculateCPUPercent s)),
      (''memory_usage'', AUint64 (uint (st_MemUsage s))), (''memory_limit'', AUint64 (uint (st_MemLimit s))),
      (''mem_percent'', AFloat64 (if 0 < st_MemLimit s then of_uint (st_MemUsage s) / of_uint (st_MemLimit s) * 100 else 0)),
      (''network_rx'', AUint64 (uint (sum_list (map fst (st_Networks s))))),
      (''network_tx'', AUint64 (uint (sum_list (map snd (st_Networks s)))))]"

section \<open>Image updates\<close>

definition hasRegistryReference :: "string \<Rightarrow> bool" where
  "hasRegistryReference imageRef \<longleftrightarrow>
     imageRef \<noteq> [] \<and> \<not> has_prefix imageRef ''sha256:'' \<and> \<not> str_contains imageRef ''<none>''"

text \<open>What follows the last at sign.\<close>

fun firstDigest :: "string list \<Rightarrow> string" where
  "firstDigest [] = []"
| "firstDigest (rd # rds) =
     (if CHR ''@'' \<in> set rd then rev (takeWhile (\<lambda>c. c \<noteq> CHR ''@'') (rev rd)) else firstDigest rds)"

text \<open>An entry of the cache is the answer of the registry and its time; \<open>Inl\<close> is an error.\<close>

type_synonym digest_cache = "string \<rightharpoonup> (string + string) \<times> time"

definition imageDigestCacheTTL :: duration where [time_simps]: "imageDigestCacheTTL = 1 * hour"

text \<open>The answer, the cache, and whether the registry was asked. \<open>later\<close> is the clock after the lookup.\<close>

definition remoteDigest ::
  "(string \<Rightarrow> string + string) \<Rightarrow> time \<Rightarrow> time \<Rightarrow> string \<Rightarrow> digest_cache \<Rightarrow> (string + string) \<times> digest_cache \<times> bool" where
  "remoteDigest inspect now later imageRef cache =
     (case cache imageRef of
        Some (answer, checkedAt) \<Rightarrow>
          if t_sub now checkedAt < imageDigestCacheTTL then (answer, cache, False)
          else (inspect imageRef, cache(imageRef \<mapsto> (inspect imageRef, later)), True)
      | None \<Rightarrow> (inspect imageRef, cache(imageRef \<mapsto> (inspect imageRef, later)), True))"

record imageUpdateInfo =
  iu_LocalDigest :: string
  iu_RemoteDigest :: string
  iu_UpdateAvailable :: bool
  iu_Checked :: bool

definition no_update :: imageUpdateInfo where
  "no_update = \<lparr>iu_LocalDigest = [], iu_RemoteDigest = [], iu_UpdateAvailable = False, iu_Checked = False\<rparr>"

text \<open>\<open>repo_digests\<close> is \<open>ImageInspect\<close> of the daemon.\<close>

definition checkImageUpdate ::
  "(string \<Rightarrow> string list option) \<Rightarrow> (string \<Rightarrow> string + string) \<Rightarrow> time \<Rightarrow> time \<Rightarrow> string \<Rightarrow> string \<Rightarrow> digest_cache
   \<Rightarrow> imageUpdateInfo \<times> digest_cache" where
  "checkImageUpdate repo_digests inspect now later imageID imageRef cache =
     (if \<not> hasRegistryReference imageRef then (no_update, cache)
      else case repo_digests imageID of
        None \<Rightarrow> (no_update, cache)
      | Some rds \<Rightarrow>
          (let localDigest = firstDigest rds in
           if localDigest = [] then (no_update, cache)
           else case remoteDigest inspect now later imageRef cache of
             (Inl err, cache', _) \<Rightarrow> (no_update\<lparr>iu_LocalDigest := localDigest, iu_Checked := True\<rparr>, cache')
           | (Inr remote, cache', _) \<Rightarrow>
               (\<lparr>iu_LocalDigest = localDigest, iu_RemoteDigest = remote,
                 iu_UpdateAvailable = (remote \<noteq> [] \<and> remote \<noteq> localDigest), iu_Checked = True\<rparr>, cache')))"

section \<open>Collection\<close>

record docker_container =
  dc_ID :: string
  dc_Names :: "string list"
  dc_Image :: string
  dc_ImageID :: string
  dc_Status :: string
  dc_State :: string
  dc_Created :: int

text \<open>
  \<open>de_containers\<close> is \<open>None\<close> when the daemon cannot be reached or its list fails; \<open>de_stats\<close> when the
  statistics of a container cannot be read.
\<close>

record docker_env =
  de_containers :: "docker_container list option"
  de_stats :: "string \<Rightarrow> StatsResponse option"
  de_repo_digests :: "string \<Rightarrow> string list option"
  de_registry :: "string \<Rightarrow> string + string"
  de_now :: "string \<Rightarrow> time"
  de_later :: "string \<Rightarrow> time"

definition DockerHostURL :: "string \<Rightarrow> string" where
  "DockerHostURL socketPath = (if str_contains socketPath ''://'' then socketPath else ''unix://'' @ socketPath)"

definition base_entry :: "docker_container \<Rightarrow> obj" where
  "base_entry ctr =
     [(''container_id'', AStr (take 12 (dc_ID ctr))),
      (''name'', AStr (case dc_Names ctr of [] \<Rightarrow> [] | n # _ \<Rightarrow> trim_prefix n ''/'')),
      (''image'', AStr (dc_Image ctr)), (''status'', AStr (dc_Status ctr)), (''state'', AStr (dc_State ctr)),
      (''created'', AInt64 (dc_Created ctr))]"

definition stats_entry :: "docker_env \<Rightarrow> docker_container \<Rightarrow> obj" where
  "stats_entry E ctr =
     (if dc_State ctr = ''running'' then (case de_stats E (dc_ID ctr) of Some s \<Rightarrow> getContainerStats s | None \<Rightarrow> []) else [])"

definition update_entry :: "imageUpdateInfo \<Rightarrow> obj" where
  "update_entry u =
     (if iu_Checked u then [(''image_digest'', AStr (iu_LocalDigest u)), (''remote_digest'', AStr (iu_RemoteDigest u)),
        (''update_available'', ABool (iu_UpdateAvailable u))] else [])"

text \<open>The entry of a container and the cache; \<open>None\<close> is the panic of slicing an id shorter than twelve.\<close>

definition collect_container ::
  "docker_env \<Rightarrow> bool \<Rightarrow> docker_container \<Rightarrow> digest_cache \<Rightarrow> (obj \<times> digest_cache) option" where
  "collect_container E updateChecks ctr cache =
     (if length (dc_ID ctr) < 12 then None
      else if updateChecks then
        (case checkImageUpdate (de_repo_digests E) (de_registry E) (de_now E (dc_ID ctr)) (de_later E (dc_ID ctr))
            (dc_ImageID ctr) (dc_Image ctr) cache of
           (u, cache') \<Rightarrow> Some (base_entry ctr @ stats_entry E ctr @ update_entry u, cache'))
      else Some (base_entry ctr @ stats_entry E ctr, cache))"

fun collect_containers ::
  "docker_env \<Rightarrow> bool \<Rightarrow> docker_container list \<Rightarrow> digest_cache \<Rightarrow> (obj list \<times> digest_cache) option" where
  "collect_containers E updateChecks [] cache = Some ([], cache)"
| "collect_containers E updateChecks (ctr # ctrs) cache =
     (case collect_container E updateChecks ctr cache of
        None \<Rightarrow> None
      | Some (entry, cache') \<Rightarrow>
          (case collect_containers E updateChecks ctrs cache' of
             None \<Rightarrow> None
           | Some (entries, cache'') \<Rightarrow> Some (entry # entries, cache'')))"

definition docker_Collect :: "docker_env \<Rightarrow> bool \<Rightarrow> digest_cache \<Rightarrow> (obj \<times> digest_cache) option" where
  "docker_Collect E updateChecks cache =
     (case de_containers E of
        None \<Rightarrow> Some ([(''available'', ABool False), (''containers'', AArr [])], cache)
      | Some ctrs \<Rightarrow>
          (case collect_containers E updateChecks ctrs cache of
             None \<Rightarrow> None
           | Some (results, cache') \<Rightarrow>
               Some ([(''available'', ABool True), (''container_count'', AInt (int (length ctrs))),
                      (''containers'', AArr (map AObj results))], cache')))"

section \<open>Properties\<close>

lemma of_uint_nonneg: "0 \<le> of_uint w"
  unfolding of_uint_def by (rule of_nat_0_le_iff)

text \<open>Processor shares of a daemon whose counters only grow and whose processors bound the container.\<close>

lemma cpu_percent_bounds:
  assumes "unat (st_TotalUsage s - st_PreTotalUsage s) \<le> unat (st_SystemUsage s - st_PreSystemUsage s)"
  shows "0 \<le> calculateCPUPercent s \<and> calculateCPUPercent s \<le> 100 * cpu_count s"
proof -
  let ?c = "of_uint (st_TotalUsage s - st_PreTotalUsage s)" and ?s = "of_uint (st_SystemUsage s - st_PreSystemUsage s)"
  have n: "0 \<le> cpu_count s" by (simp add: cpu_count_def of_uint_nonneg)
  have c: "0 \<le> ?c" "?c \<le> ?s" using assms unfolding of_uint_def by (simp_all only: of_nat_0_le_iff of_nat_le_iff)
  define x where "x = ?c / ?s"
  have "x \<le> 1" "0 \<le> x" using c by (simp_all add: x_def divide_le_eq)
  then have "x * cpu_count s \<le> cpu_count s" "0 \<le> x * cpu_count s" using n by (simp_all add: mult_left_le_one_le)
  then show ?thesis using n unfolding calculateCPUPercent_def Let_def x_def [symmetric] by simp
qed

text \<open>The difference is taken on \<open>uint64\<close>: a counter that went backwards counts as an enormous load.\<close>

lemma counter_reset_is_a_spike:
  assumes "st_TotalUsage s < st_PreTotalUsage s"
  shows "of_uint (st_TotalUsage s - st_PreTotalUsage s) =
    (2 ^ 64 - (of_uint (st_PreTotalUsage s) - of_uint (st_TotalUsage s)) :: rat)"
proof -
  have b: "unat (st_PreTotalUsage s) < 2 ^ LENGTH(64)" by (rule unsigned_less)
  have l: "unat (st_TotalUsage s) < unat (st_PreTotalUsage s)" "unat (st_PreTotalUsage s) \<le> 2 ^ 64 + unat (st_TotalUsage s)"
    using assms b by (simp_all add: word_less_nat_alt)
  then have "unat (st_TotalUsage s - st_PreTotalUsage s) = 2 ^ 64 + unat (st_TotalUsage s) - unat (st_PreTotalUsage s)"
    by (simp add: unat_sub_if')
  then show ?thesis unfolding of_uint_def by (simp only: of_nat_diff [OF l(2)] of_nat_add of_nat_power of_nat_numeral)
qed

text \<open>A run of lookups: the image, the clock before and after, and the answer the registry would give; the
  result is the clock at the lookups of one image that asked the registry.\<close>

fun asked :: "string \<Rightarrow> (string \<times> time \<times> time \<times> (string + string)) list \<Rightarrow> digest_cache \<Rightarrow> (time \<times> time) list" where
  "asked ref [] cache = []"
| "asked ref ((imageRef, now, later, answer) # rs) cache =
     (case remoteDigest (\<lambda>_. answer) now later imageRef cache of
        (_, cache', a) \<Rightarrow> (if a \<and> imageRef = ref then [(now, later)] else []) @ asked ref rs cache')"

lemma asked_after:
  assumes "\<forall>(r, now, later, a) \<in> set rs. now \<le> later"
  shows "sorted_wrt (\<lambda>(_, l) (n, _). hour \<le> n - l) (asked ref rs cache) \<and>
    (\<forall>(n, l) \<in> set (asked ref rs cache). n \<le> l \<and> (case cache ref of Some (_, c) \<Rightarrow> hour \<le> n - c | None \<Rightarrow> True))"
  using assms
proof (induction rs arbitrary: cache)
  case (Cons q rs)
  obtain imageRef now later answer where q: "q = (imageRef, now, later, answer)" by (cases q)
  note IH = Cons.IH [of "fst (snd (remoteDigest (\<lambda>_. answer) now later imageRef cache))"]
  have le: "now \<le> later" "\<forall>(r, now, later, a) \<in> set rs. now \<le> later" using Cons.prems q by auto
  have ttl: "t_sub now c < imageDigestCacheTTL \<longleftrightarrow> \<not> hour \<le> now - c" for c
    using t_sub_le_iff [of hour now c] unfolding imageDigestCacheTTL_def by (simp add: hour_def max_int64_def min_int64_def not_le [symmetric])
  show ?case
  proof (cases "snd (snd (remoteDigest (\<lambda>_. answer) now later imageRef cache)) \<and> imageRef = ref")
    case True
    then have c: "(fst (snd (remoteDigest (\<lambda>_. answer) now later imageRef cache))) ref = Some (answer, later)"
      "case cache ref of Some (_, c) \<Rightarrow> hour \<le> now - c | None \<Rightarrow> True"
      by (auto simp: remoteDigest_def ttl split: option.splits if_splits)
    let ?rest = "asked ref rs (fst (snd (remoteDigest (\<lambda>_. answer) now later imageRef cache)))"
    have "asked ref (q # rs) cache = (now, later) # ?rest" using True by (auto simp: q split: prod.splits)
    moreover have "hour \<le> n - c" if "hour \<le> n - later" "cache ref = Some (b, c)" for n b c
      using c(2) that le(1) by (simp add: time_simps)
    then have "case cache ref of Some (_, c) \<Rightarrow> hour \<le> n - c | None \<Rightarrow> True" if "hour \<le> n - later" for n
      using that by (simp split: option.split)
    moreover have "sorted_wrt (\<lambda>(_, l) (n, _). hour \<le> n - l) ?rest \<and> (\<forall>(n, l) \<in> set ?rest. n \<le> l \<and> hour \<le> n - later)"
      using IH [OF le(2)] c(1) by simp
    ultimately show ?thesis using le(1) c(2) by (auto simp del: asked.simps)
  next
    case False
    then have c: "(fst (snd (remoteDigest (\<lambda>_. answer) now later imageRef cache))) ref = cache ref"
      by (auto simp: remoteDigest_def split: option.splits if_splits)
    have "asked ref (q # rs) cache = asked ref rs (fst (snd (remoteDigest (\<lambda>_. answer) now later imageRef cache)))"
      using False by (auto simp: q split: prod.splits)
    then show ?thesis using IH c le by simp
  qed
qed simp

text \<open>Whatever the interval of the collection and however the registry answers, an image is looked up at most
  once an hour.\<close>

theorem registry_asked_hourly:
  assumes "\<forall>(r, now, later, a) \<in> set rs. now \<le> later"
  shows "sorted_wrt (\<lambda>(_, l) (n, _). hour \<le> n - l) (asked ref rs Map.empty)"
  using asked_after [OF assms] by blast

section \<open>The report in the inventory\<close>

lemma aget_front:
  assumes "k \<notin> fst ` set ys"
  shows "aget (xs @ ys) k = aget xs k"
proof -
  have "map_of ys k = None" using assms by (simp only: map_of_eq_None_iff not_False_eq_True)
  then show ?thesis by (simp add: aget_def map_add_def split: option.split)
qed

lemma aget_back:
  assumes "k \<notin> fst ` set xs"
  shows "aget (xs @ ys) k = aget ys k"
proof -
  have "map_of xs k = None" using assms by (simp only: map_of_eq_None_iff not_False_eq_True)
  then show ?thesis by (simp add: aget_def map_add_def split: option.split)
qed

lemma aget_three:
  assumes "fst ` set a \<subseteq> A" and "fst ` set b \<subseteq> B" and "fst ` set c \<subseteq> C"
  shows "k \<notin> B \<Longrightarrow> k \<notin> C \<Longrightarrow> aget (a @ b @ c) k = aget a k"
    and "k \<notin> A \<Longrightarrow> k \<notin> C \<Longrightarrow> aget (a @ b @ c) k = aget b k"
    and "k \<notin> A \<Longrightarrow> k \<notin> B \<Longrightarrow> aget (a @ b @ c) k = aget c k"
proof -
  have n: "k \<notin> A \<Longrightarrow> k \<notin> fst ` set a" "k \<notin> B \<Longrightarrow> k \<notin> fst ` set b" "k \<notin> C \<Longrightarrow> k \<notin> fst ` set c"
    using assms by blast+
  show "aget (a @ b @ c) k = aget a k" if "k \<notin> B" "k \<notin> C"
    using n(2,3) that by (intro aget_front) (simp add: image_Un)
  show "aget (a @ b @ c) k = aget b k" if "k \<notin> A" "k \<notin> C"
    using aget_back [OF n(1) [OF that(1)]] aget_front [OF n(3) [OF that(2)]] by simp
  show "aget (a @ b @ c) k = aget c k" if "k \<notin> A" "k \<notin> B"
    using aget_back [OF n(1) [OF that(1)]] aget_back [OF n(2) [OF that(2)]] by simp
qed

lemma base_keys: "fst ` set (base_entry ctr) = {''container_id'', ''name'', ''image'', ''status'', ''state'', ''created''}"
  by (auto simp: base_entry_def)

lemma stats_keys: "fst ` set (stats_entry E ctr) \<subseteq> {''cpu_percent'', ''memory_usage'', ''memory_limit'', ''mem_percent'', ''network_rx'', ''network_tx''}"
proof (cases "dc_State ctr = ''running''")
  case True
  then show ?thesis by (cases "de_stats E (dc_ID ctr)") (simp_all add: stats_entry_def getContainerStats_def)
qed (simp add: stats_entry_def)

lemma update_keys: "fst ` set (update_entry u) \<subseteq> {''image_digest'', ''remote_digest'', ''update_available''}"
  by (auto simp: update_entry_def)

definition update_of :: "docker_env \<Rightarrow> bool \<Rightarrow> docker_container \<Rightarrow> digest_cache \<Rightarrow> imageUpdateInfo" where
  "update_of E updateChecks ctr cache =
     (if updateChecks then fst (checkImageUpdate (de_repo_digests E) (de_registry E) (de_now E (dc_ID ctr)) (de_later E (dc_ID ctr))
        (dc_ImageID ctr) (dc_Image ctr) cache) else no_update)"

lemma collected_entry:
  "collect_container E updateChecks ctr cache = Some (entry, cache') \<Longrightarrow>
     12 \<le> length (dc_ID ctr) \<and> entry = base_entry ctr @ stats_entry E ctr @ update_entry (update_of E updateChecks ctr cache)"
  by (auto simp: collect_container_def update_of_def update_entry_def no_update_def split: if_splits prod.splits)

text \<open>What the row of a container holds after the report: the values of a running container whose statistics
  could be read, and otherwise the values it had before.\<close>

definition reported :: "docker_env \<Rightarrow> docker_container \<Rightarrow> (StatsResponse \<Rightarrow> rat) \<Rightarrow> rat \<Rightarrow> rat" where
  "reported E ctr f old =
     (if dc_State ctr = ''running'' then (case de_stats E (dc_ID ctr) of Some s \<Rightarrow> f s | None \<Rightarrow> old) else old)"

lemma stats_get:
  "aget (stats_entry E ctr) k =
     (if dc_State ctr = ''running'' then (case de_stats E (dc_ID ctr) of Some s \<Rightarrow> aget (getContainerStats s) k | None \<Rightarrow> ANil)
      else ANil)"
proof (cases "dc_State ctr = ''running''")
  case True
  then show ?thesis by (cases "de_stats E (dc_ID ctr)") (simp_all add: stats_entry_def aget_def)
qed (simp add: stats_entry_def aget_def)

lemma figure_get:
  "toFloat64 (aget (getContainerStats s) ''cpu_percent'') = Some (calculateCPUPercent s)"
  "toFloat64 (aget (getContainerStats s) ''memory_usage'') = Some (of_int (uint (st_MemUsage s)))"
  "toFloat64 (aget (getContainerStats s) ''memory_limit'') = Some (of_int (uint (st_MemLimit s)))"
  "toFloat64 (aget (getContainerStats s) ''network_rx'') = Some (of_int (uint (sum_list (map fst (st_Networks s)))))"
  "toFloat64 (aget (getContainerStats s) ''network_tx'') = Some (of_int (uint (sum_list (map snd (st_Networks s)))))"
  by (simp_all add: getContainerStats_def aget_def)

lemma figure_reported:
  assumes "\<And>s. toFloat64 (aget (getContainerStats s) k) = Some (f s)"
  shows "(case toFloat64 (aget (stats_entry E ctr) k) of Some v \<Rightarrow> v | None \<Rightarrow> old) = reported E ctr f old"
proof (cases "dc_State ctr = ''running''")
  case True
  then show ?thesis by (cases "de_stats E (dc_ID ctr)") (simp_all add: stats_get reported_def assms)
qed (simp add: stats_get reported_def)

lemmas figures_reported = figure_get [THEN figure_reported]

lemma digests_reported:
  "(case as_string (aget (update_entry u) ''image_digest'') of Some s \<Rightarrow> s | None \<Rightarrow> d) = (if iu_Checked u then iu_LocalDigest u else d)"
  "(case as_string (aget (update_entry u) ''remote_digest'') of Some s \<Rightarrow> s | None \<Rightarrow> d) = (if iu_Checked u then iu_RemoteDigest u else d)"
  "(case as_bool (aget (update_entry u) ''update_available'') of Some b \<Rightarrow> b | None \<Rightarrow> a) = (if iu_Checked u then iu_UpdateAvailable u else a)"
  by (simp_all add: update_entry_def aget_def)

lemma base_reported:
  "aget (base_entry ctr) ''container_id'' = AStr (take 12 (dc_ID ctr))"
  "aget (base_entry ctr) ''name'' = AStr (case dc_Names ctr of [] \<Rightarrow> [] | n # _ \<Rightarrow> trim_prefix n ''/'')"
  "aget (base_entry ctr) ''image'' = AStr (dc_Image ctr)"
  "aget (base_entry ctr) ''status'' = AStr (dc_Status ctr)"
  by (simp_all add: base_entry_def aget_def)

text \<open>C32: the keys of the report are those the hub reads, so that a report of the agent sets the row of the
  container: its name, image and status always; the processor, memory and network figures when the
  container runs and its statistics could be read; the digests when the image could be compared. What
  is not reported keeps its old value: a stopped container shows its last figures for ever.\<close>

theorem docker_row_shows_container:
  assumes "collect_container E updateChecks ctr cache = Some (entry, cache')"
    and "row = apply_report entry old" and "u = update_of E updateChecks ctr cache"
  shows "str_of (aget entry ''container_id'') = take 12 (dc_ID ctr)
    \<and> ct_image row = dc_Image ctr \<and> ct_status row = dc_Status ctr
    \<and> ct_name row = (case dc_Names ctr of [] \<Rightarrow> [] | n # _ \<Rightarrow> trim_prefix n ''/'')
    \<and> ct_cpu_percent row = reported E ctr calculateCPUPercent (ct_cpu_percent old)
    \<and> ct_memory_usage row = reported E ctr (\<lambda>s. of_int (uint (st_MemUsage s))) (ct_memory_usage old)
    \<and> ct_memory_limit row = reported E ctr (\<lambda>s. of_int (uint (st_MemLimit s))) (ct_memory_limit old)
    \<and> ct_network_rx row = reported E ctr (\<lambda>s. of_int (uint (sum_list (map fst (st_Networks s))))) (ct_network_rx old)
    \<and> ct_network_tx row = reported E ctr (\<lambda>s. of_int (uint (sum_list (map snd (st_Networks s))))) (ct_network_tx old)
    \<and> ct_image_digest row = (if iu_Checked u then iu_LocalDigest u else ct_image_digest old)
    \<and> ct_remote_digest row = (if iu_Checked u then iu_RemoteDigest u else ct_remote_digest old)
    \<and> ct_update_available row = (if iu_Checked u then iu_UpdateAvailable u else ct_update_available old)"
proof -
  from collected_entry [OF assms(1)]
  have e: "entry = base_entry ctr @ stats_entry E ctr @ update_entry u" by (simp add: assms(3))
  note keys = equalityD1 [OF base_keys [of ctr]] stats_keys [of E ctr] update_keys [of u]
  note b = aget_three(1) [OF keys, folded e] and f = aget_three(2) [OF keys, folded e] and d = aget_three(3) [OF keys, folded e]
  have g: "aget entry ''container_id'' = aget (base_entry ctr) ''container_id''" "aget entry ''name'' = aget (base_entry ctr) ''name''"
    "aget entry ''image'' = aget (base_entry ctr) ''image''" "aget entry ''status'' = aget (base_entry ctr) ''status''"
    "aget entry ''cpu_percent'' = aget (stats_entry E ctr) ''cpu_percent''"
    "aget entry ''memory_usage'' = aget (stats_entry E ctr) ''memory_usage''"
    "aget entry ''memory_limit'' = aget (stats_entry E ctr) ''memory_limit''"
    "aget entry ''network_rx'' = aget (stats_entry E ctr) ''network_rx''"
    "aget entry ''network_tx'' = aget (stats_entry E ctr) ''network_tx''"
    "aget entry ''image_digest'' = aget (update_entry u) ''image_digest''"
    "aget entry ''remote_digest'' = aget (update_entry u) ''remote_digest''"
    "aget entry ''update_available'' = aget (update_entry u) ''update_available''"
    by (rule b, simp, simp, rule b, simp, simp, rule b, simp, simp, rule b, simp, simp, rule f, simp, simp, rule f, simp, simp, rule f, simp, simp,
        rule f, simp, simp, rule f, simp, simp, rule d, simp, simp, rule d, simp, simp, rule d, simp, simp)
  show ?thesis
    unfolding assms(2) apply_report_def Let_def g
    by (simp only: container.select_convs container.update_convs figures_reported digests_reported base_reported str_of_def
        as_string.simps option.case) simp
qed

definition idle_stats :: StatsResponse where
  "idle_stats = \<lparr>st_TotalUsage = 30, st_PreTotalUsage = 10, st_SystemUsage = 200, st_PreSystemUsage = 100, st_OnlineCPUs = 2,
     st_PercpuUsage = [], st_MemUsage = 5, st_MemLimit = 10, st_Networks = [(1, 2)]\<rparr>"

definition web :: "string \<Rightarrow> docker_container" where
  "web state = \<lparr>dc_ID = ''0123456789abcdef'', dc_Names = [''/web''], dc_Image = ''nginx'', dc_ImageID = ''i'', dc_Status = ''Up'',
     dc_State = state, dc_Created = 0\<rparr>"

definition web_host :: docker_env where
  "web_host = \<lparr>de_containers = Some [web ''running''], de_stats = (\<lambda>_. Some idle_stats), de_repo_digests = (\<lambda>_. None),
     de_registry = (\<lambda>_. Inl ''x''), de_now = (\<lambda>_. 1), de_later = (\<lambda>_. 1)\<rparr>"

theorem docker_row_shows_container_witness:
  "\<exists>entry entry'. collect_container web_host False (web ''running'') Map.empty = Some (entry, Map.empty)
     \<and> ct_cpu_percent (apply_report entry (new_container ''a'' ''0123456789ab'')) = 40
     \<and> collect_container web_host False (web ''exited'') Map.empty = Some (entry', Map.empty)
     \<and> ct_cpu_percent (apply_report entry' (apply_report entry (new_container ''a'' ''0123456789ab''))) = 40"
proof -
  have "\<exists>e. collect_container web_host False (web st) Map.empty = Some (e, Map.empty)" for st
    by (simp add: collect_container_def web_def)
  then obtain e where e: "\<And>st. collect_container web_host False (web st) Map.empty = Some (e st, Map.empty)" by metis
  let ?row = "apply_report (e ''running'') (new_container ''a'' ''0123456789ab'')"
  have "calculateCPUPercent idle_stats = 40"
    by (simp add: calculateCPUPercent_def idle_stats_def of_uint_def cpu_count_def)
  then have "ct_cpu_percent ?row = 40"
    using docker_row_shows_container [OF e refl refl, of "''running''"] by (simp add: reported_def web_def web_host_def)
  moreover have "ct_cpu_percent (apply_report (e ''exited'') ?row) = ct_cpu_percent ?row"
    using docker_row_shows_container [OF e refl refl, of "''exited''" ?row] by (simp add: reported_def web_def)
  ultimately show ?thesis using e by (metis (no_types))
qed

theorem registry_asked_hourly_witness:
  "asked ''nginx'' [(''nginx'', 0, 1, Inl ''x''), (''nginx'', 10, 10, Inr ''d''), (''nginx'', 2 * hour, 2 * hour, Inr ''d'')] Map.empty
     = [(0, 1), (2 * hour, 2 * hour)]
   \<and> sorted_wrt (\<lambda>(_, l) (n, _). hour \<le> n - l)
       (asked ''nginx'' [(''nginx'', 0, 1, Inl ''x''), (''nginx'', 10, 10, Inr ''d''), (''nginx'', 2 * hour, 2 * hour, Inr ''d'')] Map.empty)"
  using registry_asked_hourly [of "[(''nginx'', 0, 1, Inl ''x''), (''nginx'', 10, 10, Inr ''d''), (''nginx'', 2 * hour, 2 * hour, Inr ''d'')]"
      "''nginx''"]
  by (simp add: remoteDigest_def time_simps t_sub_def)

end
