(* ===== verification/Oracle_Collector.thy ===== *)
theory Oracle_Collector
  imports Settings Service_Collectors
begin

text \<open>
  The Oracle collector of the agent (\<open>internal/agent/collector/oracle.go\<close>): the text that \<open>sqlplus\<close>
  prints, with a marker line before the rows of each query, is cut into sections, rows and cells. The
  program and \<open>strconv.ParseFloat\<close> (with its error ignored) are parameters, and so is the script, a
  constant text of queries.
\<close>

section \<open>Values\<close>

text \<open>\<open>v, _ := strconv.Atoi(s)\<close>: zero for a malformed number, the nearest bound for one out of range.\<close>

definition toInt :: "string \<Rightarrow> int" where
  "toInt s =
     (let t = trim_space s;
          ds = (case t of c # cs \<Rightarrow> if c = CHR ''-'' \<or> c = CHR ''+'' then cs else t | [] \<Rightarrow> [])
      in case atoi t of
           Some n \<Rightarrow> n
         | None \<Rightarrow>
             if ds = [] \<or> \<not> list_all is_digit ds then 0
             else if hd t = CHR ''-'' then min_int64 else max_int64)"

definition oracle_toFloat :: "(string \<Rightarrow> rat) \<Rightarrow> string \<Rightarrow> rat" where
  "oracle_toFloat parse_float s = parse_float (trim_space s)"

definition sanitizeKey :: "string \<Rightarrow> string" where
  "sanitizeKey s = replace_byte CHR '' '' ''_'' (to_lower (trim_space s))"

definition splitRow :: "string \<Rightarrow> nat \<Rightarrow> string list" where
  "splitRow row expected =
     (let parts = map trim_space (split_byte CHR ''|'' row)
      in parts @ replicate (expected - length parts) [])"

section \<open>Sections\<close>

type_synonym sections = "string \<rightharpoonup> string list"

definition section_line :: "string \<Rightarrow> string \<times> sections \<Rightarrow> string \<times> sections" where
  "section_line l s = (case s of (current, secs) \<Rightarrow>
     (let line = trim_space l in
      if has_prefix line ''SECTION:'' then (trim_prefix line ''SECTION:'', secs(trim_prefix line ''SECTION:'' \<mapsto> []))
      else if current \<noteq> [] \<and> line \<noteq> [] \<and> \<not> has_prefix line ''ERROR'' \<and> \<not> has_prefix line ''ORA-''
      then (current, secs(current \<mapsto> (case secs current of Some rows \<Rightarrow> rows | None \<Rightarrow> []) @ [line]))
      else (current, secs)))"

definition read_sections :: "string \<Rightarrow> sections" where
  "read_sections raw = snd (fold section_line (split_byte CHR 0x0A raw) ([], Map.empty))"

definition rows_of :: "sections \<Rightarrow> string \<Rightarrow> string list" where
  "rows_of secs name = (case secs name of Some rows \<Rightarrow> rows | None \<Rightarrow> [])"

text \<open>The rows of a query with their cells; a row with an empty first cell is left out.\<close>

definition table_rows :: "sections \<Rightarrow> string \<Rightarrow> nat \<Rightarrow> string list list" where
  "table_rows secs name expected = filter (\<lambda>f. hd f \<noteq> []) (map (\<lambda>row. splitRow row expected) (rows_of secs name))"

section \<open>The report\<close>

definition instance_obj :: "string list \<Rightarrow> obj" where
  "instance_obj f =
     [(''name'', AStr (f ! 0)), (''status'', AStr (f ! 1)), (''database_status'', AStr (f ! 2)), (''host'', AStr (f ! 3)),
      (''startup_time'', AStr (f ! 4)), (''version'', AStr (f ! 5))]"

definition sessions_obj :: "string list \<Rightarrow> obj" where
  "sessions_obj f =
     [(''total'', AInt (toInt (f ! 0))), (''active'', AInt (toInt (f ! 1))), (''inactive'', AInt (toInt (f ! 2))),
      (''waiting'', AInt (toInt (f ! 3))), (''blocked'', AInt (toInt (f ! 4)))]"

definition blocked_obj :: "string list \<Rightarrow> obj" where
  "blocked_obj f =
     [(''sid'', AInt (toInt (f ! 0))), (''serial'', AInt (toInt (f ! 1))), (''username'', AStr (f ! 2)), (''status'', AStr (f ! 3)),
      (''blocking_sid'', AInt (toInt (f ! 4))), (''wait_class'', AStr (f ! 5)), (''event'', AStr (f ! 6)),
      (''seconds_in_wait'', AInt (toInt (f ! 7))), (''sql_text'', AStr (f ! 8))]"

definition top_sql_obj :: "(string \<Rightarrow> rat) \<Rightarrow> string list \<Rightarrow> obj" where
  "top_sql_obj pf f =
     [(''sql_id'', AStr (f ! 0)), (''executions'', AInt (toInt (f ! 1))), (''elapsed_secs'', AFloat64 (oracle_toFloat pf (f ! 2))),
      (''elapsed_per_exec'', AFloat64 (oracle_toFloat pf (f ! 3))), (''cpu_secs'', AFloat64 (oracle_toFloat pf (f ! 4))),
      (''buffer_gets'', AInt (toInt (f ! 5))), (''disk_reads'', AInt (toInt (f ! 6))), (''sql_text'', AStr (f ! 7))]"

definition tablespace_obj :: "(string \<Rightarrow> rat) \<Rightarrow> string list \<Rightarrow> obj" where
  "tablespace_obj pf f =
     [(''name'', AStr (f ! 0)), (''used_mb'', AFloat64 (oracle_toFloat pf (f ! 1))), (''total_mb'', AFloat64 (oracle_toFloat pf (f ! 2))),
      (''used_pct'', AFloat64 (oracle_toFloat pf (f ! 3))), (''status'', AStr (f ! 4)), (''contents'', AStr (f ! 5))]"

definition wait_obj :: "(string \<Rightarrow> rat) \<Rightarrow> string list \<Rightarrow> obj" where
  "wait_obj pf f =
     [(''event'', AStr (f ! 0)), (''total_waits'', AInt (toInt (f ! 1))), (''time_waited_s'', AFloat64 (oracle_toFloat pf (f ! 2))),
      (''wait_class'', AStr (f ! 3))]"

definition lock_obj :: "string list \<Rightarrow> obj" where
  "lock_obj f =
     [(''sid'', AInt (toInt (f ! 0))), (''username'', AStr (f ! 1)), (''lock_type'', AStr (f ! 2)), (''lock_mode'', AStr (f ! 3)),
      (''request'', AStr (f ! 4)), (''ctime'', AInt (toInt (f ! 5))), (''object_name'', AStr (f ! 6))]"

text \<open>\<open>m[k] = v\<close> on a map.\<close>

definition put_key :: "string \<Rightarrow> any \<Rightarrow> obj \<Rightarrow> obj" where
  "put_key k v m = filter (\<lambda>(j, _). j \<noteq> k) m @ [(k, v)]"

definition named_values :: "(string \<Rightarrow> rat) \<Rightarrow> string list list \<Rightarrow> obj" where
  "named_values pf rows = fold (\<lambda>f. put_key (sanitizeKey (f ! 0)) (AFloat64 (oracle_toFloat pf (f ! 1)))) rows []"

definition first_row :: "sections \<Rightarrow> string \<Rightarrow> nat \<Rightarrow> string list option" where
  "first_row secs name expected = (case rows_of secs name of [] \<Rightarrow> None | row # _ \<Rightarrow> Some (splitRow row expected))"

definition parseOutput :: "(string \<Rightarrow> rat) \<Rightarrow> string \<Rightarrow> obj" where
  "parseOutput pf raw =
     (let secs = read_sections raw;
          arr = (\<lambda>g rows. AArr (map (\<lambda>f. AObj (g f)) rows))
      in (case first_row secs ''instance'' 6 of Some f \<Rightarrow> [(''instance'', AObj (instance_obj f))] | None \<Rightarrow> [])
       @ (case first_row secs ''sessions'' 5 of Some f \<Rightarrow> [(''sessions'', AObj (sessions_obj f))] | None \<Rightarrow> [])
       @ [(''blocked_sessions'', arr blocked_obj (table_rows secs ''blocked_sessions'' 9)),
          (''top_sql'', arr (top_sql_obj pf) (table_rows secs ''top_sql'' 8)),
          (''tablespaces'', arr (tablespace_obj pf) (table_rows secs ''tablespaces'' 6)),
          (''sga'', AObj (named_values pf (table_rows secs ''sga'' 2))),
          (''pga'', AObj (named_values pf (table_rows secs ''pga'' 2))),
          (''waits'', arr (wait_obj pf) (table_rows secs ''waits'' 4)),
          (''locks'', arr lock_obj (table_rows secs ''locks'' 7))]
       @ (case rows_of secs ''redo'' of [] \<Rightarrow> []
            | row # _ \<Rightarrow> [(''redo_mb_last_hour'', AFloat64 (oracle_toFloat pf (trim_space row)))]))"

text \<open>
  \<open>exists_file\<close> is \<open>os.Stat\<close>; \<open>sqlplus\<close> runs a program on an input and answers what it prints, or its
  error with what it prints to stderr.
\<close>

definition runSqlplus ::
  "(string \<Rightarrow> bool) \<Rightarrow> (string \<Rightarrow> string list \<Rightarrow> string \<Rightarrow> string list \<Rightarrow> (string \<times> string) + string) \<Rightarrow> string \<Rightarrow> string \<Rightarrow> string
   \<Rightarrow> string + string" where
  "runSqlplus exists_file sqlplus home sid script =
     (let path = home @ ''/bin/sqlplus'' in
      if \<not> exists_file path then Inl (''sqlplus not found at '' @ path)
      else case sqlplus path [''-s'', ''/ as sysdba''] script
          [''ORACLE_HOME='' @ home, ''ORACLE_SID='' @ sid,
           ''PATH='' @ home @ ''/bin:/usr/local/sbin:/usr/local/bin:/usr/sbin:/usr/bin:/sbin:/bin'',
           ''LD_LIBRARY_PATH='' @ home @ ''/lib'', ''NLS_LANG=AMERICAN_AMERICA.AL32UTF8''] of
        Inl (err, stderr) \<Rightarrow> Inl (err @ '': '' @ stderr)
      | Inr stdout \<Rightarrow> Inr stdout)"

definition oracle_Collect ::
  "(string \<Rightarrow> bool) \<Rightarrow> (string \<Rightarrow> string list \<Rightarrow> string \<Rightarrow> string list \<Rightarrow> (string \<times> string) + string) \<Rightarrow> (string \<Rightarrow> rat)
   \<Rightarrow> string \<Rightarrow> string \<Rightarrow> string \<Rightarrow> string + obj" where
  "oracle_Collect exists_file sqlplus pf script home sid =
     (if home = [] then Inl ''oracle_home is not configured''
      else if sid = [] then Inl ''oracle_sid is not configured''
      else case runSqlplus exists_file sqlplus home sid script of
        Inl err \<Rightarrow> Inl (''sqlplus error: '' @ err)
      | Inr out \<Rightarrow> Inr (parseOutput pf out))"

section \<open>Reading what was printed\<close>

text \<open>What \<open>sqlplus\<close> prints for a list of queries with the cells of their rows.\<close>

definition print_section :: "string \<times> string list list \<Rightarrow> string list" where
  "print_section q = (''SECTION:'' @ fst q) # map (str_join ''|'') (snd q)"

definition print_sections :: "(string \<times> string list list) list \<Rightarrow> string" where
  "print_sections qs = unlines (concat (map print_section qs))"

text \<open>A row that can be read back: its cells are trimmed, without bars and newlines, the first one is not
  empty, and the line is neither a marker nor looks like an error.\<close>

definition plain_row :: "nat \<Rightarrow> string list \<Rightarrow> bool" where
  "plain_row n cells \<longleftrightarrow>
     length cells = n \<and> 0 < n \<and> hd cells \<noteq> [] \<and>
     (\<forall>c \<in> set cells. trim_space c = c \<and> CHR ''|'' \<notin> set c \<and> CHR 0x0A \<notin> set c) \<and>
     trim_space (str_join ''|'' cells) = str_join ''|'' cells \<and>
     \<not> has_prefix (str_join ''|'' cells) ''SECTION:'' \<and> \<not> has_prefix (str_join ''|'' cells) ''ERROR'' \<and>
     \<not> has_prefix (str_join ''|'' cells) ''ORA-''"

lemma split_join:
  assumes "cells \<noteq> []" and "\<forall>c \<in> set cells. CHR ''|'' \<notin> set c"
  shows "split_byte CHR ''|'' (str_join ''|'' cells) = cells"
  using assms
proof (induction cells rule: list_nonempty_induct)
  case (single c)
  then have "split_byte CHR ''|'' c = [c]" by (induction c) auto
  then show ?case by simp
next
  case (cons c cs)
  have "split_byte CHR ''|'' (c @ ''|'' @ t) = c # split_byte CHR ''|'' t" if "CHR ''|'' \<notin> set c" for c t
    using that by (induction c) auto
  then show ?case using cons by (cases cs) simp_all
qed

lemma splitRow_plain: "plain_row n cells \<Longrightarrow> splitRow (str_join ''|'' cells) n = cells"
  unfolding plain_row_def splitRow_def using split_join [of cells] by (auto simp: Let_def map_idI)

lemma join_no_newline: "\<forall>c \<in> set cells. x \<notin> set c \<Longrightarrow> x \<noteq> CHR ''|'' \<Longrightarrow> x \<notin> set (str_join ''|'' cells)"
  by (induction cells rule: induct_list012) auto

lemma join_nonempty: "cells \<noteq> [] \<Longrightarrow> hd cells \<noteq> [] \<Longrightarrow> str_join ''|'' cells \<noteq> []"
  by (induction cells rule: induct_list012) auto

definition row_line :: "string \<Rightarrow> bool" where
  "row_line l \<longleftrightarrow> trim_space l = l \<and> l \<noteq> [] \<and> CHR 0x0A \<notin> set l \<and>
     \<not> has_prefix l ''SECTION:'' \<and> \<not> has_prefix l ''ERROR'' \<and> \<not> has_prefix l ''ORA-''"

lemma plain_row_line: "plain_row n cells \<Longrightarrow> row_line (str_join ''|'' cells)"
  using join_no_newline [of cells "CHR 0x0A"] join_nonempty [of cells] by (auto simp: plain_row_def row_line_def)

lemma rows_read:
  assumes "current \<noteq> []" and "secs current = Some rows" and "\<forall>l \<in> set ls. row_line l"
  shows "fold section_line ls (current, secs) = (current, secs(current \<mapsto> rows @ ls))"
  using assms
proof (induction ls arbitrary: secs rows)
  case (Cons l ls)
  then have "section_line l (current, secs) = (current, secs(current \<mapsto> rows @ [l]))"
    by (simp add: section_line_def row_line_def Let_def)
  then have "fold section_line (l # ls) (current, secs) = fold section_line ls (current, secs(current \<mapsto> rows @ [l]))" by simp
  also have "\<dots> = (current, (secs(current \<mapsto> rows @ [l]))(current \<mapsto> (rows @ [l]) @ ls))"
    by (rule Cons.IH) (use Cons.prems in simp_all)
  finally show ?case by (simp only: fun_upd_upd append_assoc append.simps)
qed (simp add: fun_upd_idem)

definition section_name :: "string \<Rightarrow> bool" where
  "section_name n \<longleftrightarrow> n \<noteq> [] \<and> trim_space (''SECTION:'' @ n) = ''SECTION:'' @ n \<and> CHR 0x0A \<notin> set n"

lemma section_read:
  assumes "section_name n" and "\<forall>cells \<in> set rows. row_line (str_join ''|'' cells)"
  shows "fold section_line (print_section (n, rows)) (current, secs) = (n, secs(n \<mapsto> map (str_join ''|'') rows))"
proof -
  have "section_line (''SECTION:'' @ n) (current, secs) = (n, secs(n \<mapsto> []))"
    using assms(1) unfolding section_name_def section_line_def Let_def case_prod_conv
    by (simp only: has_prefix_append if_True) (simp add: trim_prefix_def has_prefix_def)
  then show ?thesis
    using rows_read [of n "secs(n \<mapsto> [])" "[]" "map (str_join ''|'') rows"] assms
    by (simp add: print_section_def section_name_def)
qed

lemma sections_read:
  assumes "distinct (map fst qs)" and "\<forall>(n, rows) \<in> set qs. section_name n \<and> (\<forall>cells \<in> set rows. row_line (str_join ''|'' cells))"
  shows "snd (fold section_line (concat (map print_section qs)) (current, secs)) name =
    (case map_of qs name of Some rows \<Rightarrow> Some (map (str_join ''|'') rows) | None \<Rightarrow> secs name)"
  using assms
proof (induction qs arbitrary: current secs)
  case (Cons q qs)
  obtain n rows where q: "q = (n, rows)" by (cases q)
  have "fold section_line (print_section q) (current, secs) = (n, secs(n \<mapsto> map (str_join ''|'') rows))"
    using section_read [of n rows] Cons.prems(2) q by simp
  moreover have "map_of qs n = None" using Cons.prems(1) q by (simp add: map_of_eq_None_iff)
  moreover have "snd (fold section_line (concat (map print_section qs)) (n, secs(n \<mapsto> map (str_join ''|'') rows))) name =
      (case map_of qs name of Some rows \<Rightarrow> Some (map (str_join ''|'') rows)
       | None \<Rightarrow> (secs(n \<mapsto> map (str_join ''|'') rows)) name)"
    by (rule Cons.IH) (use Cons.prems in simp_all)
  ultimately show ?case using q by (cases "name = n") (simp_all only: list.map concat.simps fold_append comp_apply
      map_of.simps fst_conv snd_conv fun_upd_same fun_upd_other option.case not_False_eq_True)
qed simp

lemma printed_no_newline:
  "section_name n \<Longrightarrow> \<forall>cells \<in> set rows. row_line (str_join ''|'' cells) \<Longrightarrow> l \<in> set (print_section (n, rows)) \<Longrightarrow> CHR 0x0A \<notin> set l"
  by (auto simp: print_section_def section_name_def row_line_def)

lemma printed_sections:
  assumes "distinct (map fst qs)" and "\<forall>(n, rows) \<in> set qs. section_name n \<and> (\<forall>cells \<in> set rows. row_line (str_join ''|'' cells))"
  shows "read_sections (print_sections qs) name = map_option (map (str_join ''|'')) (map_of qs name)"
proof -
  let ?ls = "concat (map print_section qs)"
  have "split_byte CHR 0x0A (print_sections qs) = ?ls @ [[]]"
    unfolding print_sections_def using assms(2) printed_no_newline by (intro split_terminated) fastforce
  moreover have "snd (section_line [] s) = snd s" for s
    by (cases s) (simp add: section_line_def trim_space_def has_prefix_def Let_def)
  ultimately show ?thesis
    using sections_read [OF assms, of "[]" Map.empty name] by (simp add: read_sections_def split: option.splits)
qed

text \<open>C33: what \<open>sqlplus\<close> prints for a list of queries with plain output is read back exactly: the section of a
  query yields its rows, in order, cell by cell. Plain is output whose rows have the expected number of
  cells, a first cell that is not empty, cells that are trimmed and hold no bar and no newline, and
  that do not look like \<open>SECTION:\<close>, \<open>ERROR\<close> or \<open>ORA-\<close> lines; the names of the sections are distinct. SQL
  text that holds a bar is not plain.\<close>

theorem oracle_output_round_trip:
  assumes "distinct (map fst qs)"
    and "\<And>m rs cells. (m, rs) \<in> set qs \<Longrightarrow> section_name m \<and> (cells \<in> set rs \<longrightarrow> row_line (str_join ''|'' cells))"
    and "map_of qs name = Some rows" and "\<And>cells. cells \<in> set rows \<Longrightarrow> plain_row n cells"
  shows "table_rows (read_sections (print_sections qs)) name n = rows"
proof -
  have "rows_of (read_sections (print_sections qs)) name = map (str_join ''|'') rows"
  proof -
    have "\<forall>(n, rows) \<in> set qs. section_name n \<and> (\<forall>cells \<in> set rows. row_line (str_join ''|'' cells))"
      using assms(2) by blast
    from printed_sections [OF assms(1) this, of name] show ?thesis by (simp add: rows_of_def assms(3))
  qed
  then have "table_rows (read_sections (print_sections qs)) name n = filter (\<lambda>f. hd f \<noteq> []) (map (\<lambda>f. splitRow (str_join ''|'' f) n) rows)"
    by (simp add: table_rows_def comp_def)
  also have "map (\<lambda>f. splitRow (str_join ''|'' f) n) rows = rows"
    using assms(4) splitRow_plain by (simp add: map_idI)
  also have "filter (\<lambda>f. hd f \<noteq> []) rows = rows"
    using assms(4) by (auto simp: plain_row_def intro: filter_True)
  finally show ?thesis .
qed

definition two_spaces :: "(string \<times> string list list) list" where
  "two_spaces = [(''sga'', [[''x'', ''1'']]), (''tablespaces'', [[''SYS'', ''1'', ''2'', ''50'', ''ON'', ''P''], [''TMP'', [], ''2'', [], ''ON'', ''T'']])]"

theorem oracle_output_round_trip_witness:
  "table_rows (read_sections (print_sections two_spaces)) ''tablespaces'' 6 =
     [[''SYS'', ''1'', ''2'', ''50'', ''ON'', ''P''], [''TMP'', [], ''2'', [], ''ON'', ''T'']]"
proof (rule oracle_output_round_trip)
  show "distinct (map fst two_spaces)" by (simp add: two_spaces_def)
  have "\<forall>(m, rs) \<in> set two_spaces. section_name m \<and> (\<forall>cells \<in> set rs. row_line (str_join ''|'' cells))" by code_simp
  then show "section_name m \<and> (cells \<in> set rs \<longrightarrow> row_line (str_join ''|'' cells))" if "(m, rs) \<in> set two_spaces" for m rs cells
    using that by fastforce
  show "map_of two_spaces ''tablespaces'' = Some [[''SYS'', ''1'', ''2'', ''50'', ''ON'', ''P''], [''TMP'', [], ''2'', [], ''ON'', ''T'']]"
    by (simp add: two_spaces_def)
  have "\<forall>cells \<in> set [[''SYS'', ''1'', ''2'', ''50'', ''ON'', ''P''], [''TMP'', [], ''2'', [], ''ON'', ''T'']]. plain_row 6 cells" by code_simp
  then show "plain_row 6 cells" if "cells \<in> set [[''SYS'', ''1'', ''2'', ''50'', ''ON'', ''P''], [''TMP'', [], ''2'', [], ''ON'', ''T'']]" for cells
    using that by blast
qed

text \<open>A statement with the concatenation operator of SQL is cut at it.\<close>

lemma join_bars: "str_join ''|'' (cells @ [a @ ''||'' @ b]) = str_join ''|'' (cells @ [a, [], b])"
  by (induction cells rule: induct_list012) simp_all

lemma sql_text_is_cut:
  assumes "length cells = 7" and "\<forall>c \<in> set (cells @ [a, b]). CHR ''|'' \<notin> set c"
  shows "aget (top_sql_obj pf (splitRow (str_join ''|'' (cells @ [a @ ''||'' @ b])) 8)) ''sql_text'' = AStr (trim_space a)"
proof -
  have "splitRow (str_join ''|'' (cells @ [a @ ''||'' @ b])) 8 = map trim_space (cells @ [a, [], b])"
    unfolding splitRow_def join_bars using assms by (subst split_join) (auto simp: Let_def)
  then show ?thesis using assms(1) by (simp add: top_sql_obj_def aget_def nth_append)
qed

end
