(* ===== verification/Weekly_Report.thy ===== *)
theory Weekly_Report
  imports Public_Status Downsampling Cve_Scan Notify_Channels Audit_Log Prometheus
begin

text \<open>
  The weekly report (\<open>internal/hub/report\<close>, \<open>internal/hub/api/reports_routes.go\<close>): its settings and its
  cron job, the sections of \<open>Build\<close>, the text body, delivery through the mail channels, and the two
  routes. \<open>strconv.ParseFloat\<close>, the JSON decoder, PocketBase's sort orders, the iteration order of maps,
  \<open>sort.Slice\<close>, the layouts of dates and the HTML template are parameters. The collections are row
  lists (\<open>None\<close> for a query that fails); \<open>query\<close> takes the limit.
\<close>

section \<open>Settings\<close>

record report_settings =
  rs_Enabled :: bool
  rs_Cron :: string
  rs_ChannelIDs :: "string list"
  rs_PeriodDays :: int

definition DefaultCron :: string where "DefaultCron = ''0 8 * * 1''"

definition DefaultPeriodDays :: int where "DefaultPeriodDays = 7"

definition settings_float :: "(string \<Rightarrow> rat option) \<Rightarrow> any \<Rightarrow> rat option" where
  "settings_float parse_float v =
     (case v of AFloat64 n \<Rightarrow> Some n | AInt n \<Rightarrow> Some (of_int n) | AStr s \<Rightarrow> parse_float s | ANumber f \<Rightarrow> f | _ \<Rightarrow> None)"

definition LoadSettings :: "(string \<Rightarrow> any option) \<Rightarrow> (string \<Rightarrow> rat option) \<Rightarrow> setting list \<Rightarrow> report_settings" where
  "LoadSettings json parse_float db =
     \<lparr>rs_Enabled = (case Option.bind (getSettingValue json db ''report_enabled'') as_bool of Some b \<Rightarrow> b | None \<Rightarrow> False),
      rs_Cron = (case Option.bind (getSettingValue json db ''report_cron'') as_string of
         Some s \<Rightarrow> if s \<noteq> [] then s else DefaultCron | None \<Rightarrow> DefaultCron),
      rs_ChannelIDs = (case Option.bind (getSettingValue json db ''report_channel_ids'') as_arr of
         Some raw \<Rightarrow> filter (\<lambda>s. s \<noteq> []) (List.map_filter as_string raw) | None \<Rightarrow> []),
      rs_PeriodDays = (case Option.bind (getSettingValue json db ''report_period_days'') (settings_float parse_float) of
         Some f \<Rightarrow> if 0 < f then trunc_rat f else DefaultPeriodDays | None \<Rightarrow> DefaultPeriodDays)\<rparr>"

definition isReportSettingKey :: "string \<Rightarrow> bool" where
  "isReportSettingKey key \<longleftrightarrow>
     key = ''report_enabled'' \<or> key = ''report_cron'' \<or> key = ''report_channel_ids'' \<or> key = ''report_period_days''"

text \<open>The job of the report: its cron expression, if it is scheduled.\<close>

definition registerCron ::
  "(string \<Rightarrow> any option) \<Rightarrow> (string \<Rightarrow> rat option) \<Rightarrow> (string \<Rightarrow> bool) \<Rightarrow> setting list \<Rightarrow> string option" where
  "registerCron json parse_float valid_cron db =
     (let s = LoadSettings json parse_float db in
      if \<not> rs_Enabled s then None else Some (if valid_cron (rs_Cron s) then rs_Cron s else DefaultCron))"

text \<open>The hook that runs after a setting was created or updated.\<close>

definition setting_saved ::
  "(string \<Rightarrow> any option) \<Rightarrow> (string \<Rightarrow> rat option) \<Rightarrow> (string \<Rightarrow> bool) \<Rightarrow> setting list \<Rightarrow> string \<Rightarrow> string option \<Rightarrow> string option" where
  "setting_saved json parse_float valid_cron db key job =
     (if isReportSettingKey key then registerCron json parse_float valid_cron db else job)"

section \<open>Data\<close>

record FleetSummary =
  fl_AgentsTotal :: nat
  fl_AgentsOnline :: nat
  fl_AverageUptimePercent :: rat

record AlertsSummary =
  as_CountBySeverity :: "(string \<times> int) list"
  as_TopRules :: "(string \<times> int) list"
  as_MeanTimeToResolve :: duration

record ResourcePeak =
  pk_Hostname :: string
  pk_MaxCPU :: rat
  pk_MaxMemory :: rat
  pk_MaxDisk :: rat

record ChecksSummary =
  cu_UptimePercent :: rat
  cu_WorstLatencyName :: string
  cu_WorstLatencyMillis :: rat

record HostCVE =
  hc_Hostname :: string
  hc_Critical :: int
  hc_High :: int
  hc_Medium :: int
  hc_Low :: int

record Report =
  rp_PeriodDays :: int
  rp_PeriodStart :: time
  rp_PeriodEnd :: time
  rp_GeneratedAt :: time
  rp_HubURL :: string
  rp_Fleet :: FleetSummary
  rp_Alerts :: AlertsSummary
  rp_Peaks :: "ResourcePeak list"
  rp_Checks :: ChecksSummary
  rp_CVE :: "HostCVE list"
  rp_Logs :: "(string \<times> nat) list"

record report_view =
  rv_settings :: "setting list"
  rv_agents :: "agent list option"
  rv_rules :: "rule list option"
  rv_alerts :: "alert list option"
  rv_metrics :: "metric list option"
  rv_checks :: "check list option"
  rv_check_results :: "check_result list option"
  rv_logs :: "logrow list option"
  rv_by_hostname :: "agent list \<Rightarrow> agent list"
  rv_by_fired :: "alert list \<Rightarrow> alert list"
  rv_newest :: "metric list \<Rightarrow> metric list"
  rv_sort_intervals :: "Interval list \<Rightarrow> Interval list"
  rv_sort_counts :: "(string \<times> int) list \<Rightarrow> (string \<times> int) list"

definition or_empty :: "'a list option \<Rightarrow> 'a list" where
  "or_empty rows = (case rows of None \<Rightarrow> [] | Some rs \<Rightarrow> rs)"

section \<open>Fleet\<close>

text \<open>\<open>alert_interval\<close> and \<open>round2\<close> are those of the status page.\<close>

definition agentUptimePercent :: "report_view \<Rightarrow> string \<Rightarrow> time \<Rightarrow> time \<Rightarrow> rat" where
  "agentUptimePercent V agentID start stop =
     (let alerts = take 5000 (rv_by_fired V (filter (\<lambda>a. al_agent_id a = agentID \<and> al_fired_at a \<le> fmt_ts stop) (or_empty (rv_alerts V))));
          intervals = List.map_filter (alert_interval start stop) alerts
      in round2 (UptimePercent (Merge (rv_sort_intervals V) intervals) start stop))"

definition buildFleetSummary :: "report_view \<Rightarrow> agent list \<Rightarrow> time \<Rightarrow> time \<Rightarrow> FleetSummary" where
  "buildFleetSummary V agents start stop =
     (if agents = [] then \<lparr>fl_AgentsTotal = 0, fl_AgentsOnline = 0, fl_AverageUptimePercent = 100\<rparr>
      else \<lparr>fl_AgentsTotal = length agents, fl_AgentsOnline = length (filter (\<lambda>a. ag_status a = ''online'') agents),
            fl_AverageUptimePercent =
              round2 (sum_list (map (\<lambda>a. agentUptimePercent V (ag_id a) start stop) agents) / of_nat (length agents))\<rparr>)"

section \<open>Alerts\<close>

definition rule_name :: "rule list \<Rightarrow> string \<Rightarrow> string" where
  "rule_name rules i = (case find (\<lambda>r. r_id r = i) rules of Some r \<Rightarrow> r_name r | None \<Rightarrow> [])"

definition rule_severity :: "rule list \<Rightarrow> string \<Rightarrow> string" where
  "rule_severity rules i = (case find (\<lambda>r. r_id r = i) rules of Some r \<Rightarrow> r_severity r | None \<Rightarrow> [])"

record alert_tally =
  at_firings :: "(string \<times> int) list"
  at_severity :: "(string \<times> int) list"
  at_resolved :: nat
  at_resolve_time :: duration

definition tally_alert :: "rule list \<Rightarrow> alert \<Rightarrow> alert_tally \<Rightarrow> alert_tally" where
  "tally_alert rules a t =
     (let sev = rule_severity rules (al_rule_id a);
          resolved = (al_resolved_at a \<noteq> 0 \<and> al_fired_at a < al_resolved_at a)
      in \<lparr>at_firings = bump (al_rule_id a) 1 (at_firings t),
          at_severity = (if sev \<noteq> [] then bump sev 1 (at_severity t) else at_severity t),
          at_resolved = at_resolved t + (if resolved then 1 else 0),
          at_resolve_time = (if resolved then wrap64 (at_resolve_time t + t_sub (al_resolved_at a) (al_fired_at a)) else at_resolve_time t)\<rparr>)"

definition no_alerts :: alert_tally where
  "no_alerts = \<lparr>at_firings = [], at_severity = [(''warning'', 0), (''critical'', 0)], at_resolved = 0, at_resolve_time = 0\<rparr>"

text \<open>Division of integers truncates.\<close>

definition mean_duration :: "duration \<Rightarrow> nat \<Rightarrow> duration" where
  "mean_duration d n = (if n = 0 then 0 else if d < 0 then - ((- d) div int n) else d div int n)"

definition buildAlertsSummary :: "report_view \<Rightarrow> time \<Rightarrow> time \<Rightarrow> AlertsSummary" where
  "buildAlertsSummary V start stop =
     (let rules = or_empty (query (\<lambda>_. True) 10000 (rv_rules V));
          alerts = or_empty (query (\<lambda>a. fmt_ts start \<le> al_fired_at a \<and> al_fired_at a \<le> fmt_ts stop) 20000 (rv_alerts V));
          t = fold (tally_alert rules) alerts no_alerts
      in \<lparr>as_CountBySeverity = at_severity t,
          as_TopRules = map (\<lambda>(i, c). (if rule_name rules i = [] then ''(deleted rule)'' else rule_name rules i, c))
            (take 5 (rv_sort_counts V (at_firings t))),
          as_MeanTimeToResolve = mean_duration (at_resolve_time t) (at_resolved t)\<rparr>)"

section \<open>Peaks\<close>

fun report_toFloat :: "any \<Rightarrow> rat option" where
  "report_toFloat (AFloat64 n) = Some n"
| "report_toFloat (AInt n) = Some (of_int n)"
| "report_toFloat (ANumber f) = f"
| "report_toFloat _ = None"

definition queryMetricsWithFallback :: "report_view \<Rightarrow> string \<Rightarrow> string \<Rightarrow> time \<Rightarrow> time \<Rightarrow> metric list" where
  "queryMetricsWithFallback V agentID metricType start stop =
     (let rows = (\<lambda>resolution. query (\<lambda>r. mt_agent_id r = agentID \<and> mt_type r = metricType \<and> mt_resolution r = resolution \<and>
            fmt_ts start \<le> mt_timestamp r \<and> mt_timestamp r \<le> fmt_ts stop) 5000 (rv_metrics V))
      in case rows ''1h'' of
           Some (r # rs) \<Rightarrow> r # rs
         | _ \<Rightarrow> or_empty (rows ''raw''))"

definition max_of :: "(obj \<Rightarrow> rat option) \<Rightarrow> metric list \<Rightarrow> rat" where
  "max_of f records =
     fold (\<lambda>r m. case mt_data r of None \<Rightarrow> m | Some data \<Rightarrow> (case f data of Some v \<Rightarrow> if v > m then v else m | None \<Rightarrow> m)) records 0"

definition maxMetricPercent :: "report_view \<Rightarrow> string \<Rightarrow> string \<Rightarrow> string \<Rightarrow> time \<Rightarrow> time \<Rightarrow> rat" where
  "maxMetricPercent V agentID metricType dataKey start stop =
     max_of (\<lambda>data. report_toFloat (aget data dataKey)) (queryMetricsWithFallback V agentID metricType start stop)"

fun root_used :: "any list \<Rightarrow> rat option" where
  "root_used [] = None"
| "root_used (m # ms) =
     (case as_obj m of
        Some mount \<Rightarrow>
          if str_of (aget mount ''path'') = ''/''
          then (case report_toFloat (aget mount ''used_percent'') of Some v \<Rightarrow> Some v | None \<Rightarrow> root_used ms)
          else root_used ms
      | None \<Rightarrow> root_used ms)"

definition diskPercentFromData :: "obj \<Rightarrow> rat" where
  "diskPercentFromData data =
     (case as_arr (aget data ''mounts'') of
        None \<Rightarrow> 0
      | Some [] \<Rightarrow> 0
      | Some (m # ms) \<Rightarrow>
          (case root_used (m # ms) of
             Some v \<Rightarrow> v
           | None \<Rightarrow>
               (case as_obj m of
                  Some first \<Rightarrow> (case report_toFloat (aget first ''used_percent'') of Some v \<Rightarrow> v | None \<Rightarrow> 0)
                | None \<Rightarrow> 0)))"

definition maxDiskPercent :: "report_view \<Rightarrow> string \<Rightarrow> time \<Rightarrow> time \<Rightarrow> rat" where
  "maxDiskPercent V agentID start stop =
     max_of (\<lambda>data. Some (diskPercentFromData data)) (queryMetricsWithFallback V agentID ''disk'' start stop)"

definition buildResourcePeaks :: "report_view \<Rightarrow> agent list \<Rightarrow> time \<Rightarrow> time \<Rightarrow> ResourcePeak list" where
  "buildResourcePeaks V agents start stop =
     map (\<lambda>a. \<lparr>pk_Hostname = ag_hostname a,
        pk_MaxCPU = round2 (maxMetricPercent V (ag_id a) ''cpu'' ''total_percent'' start stop),
        pk_MaxMemory = round2 (maxMetricPercent V (ag_id a) ''memory'' ''used_percent'' start stop),
        pk_MaxDisk = round2 (maxDiskPercent V (ag_id a) start stop)\<rparr>) agents"

section \<open>Checks, findings, logs\<close>

definition tally_check :: "check_result \<Rightarrow> nat \<times> nat \<times> rat \<times> string \<Rightarrow> nat \<times> nat \<times> rat \<times> string" where
  "tally_check r t = (case t of (up, n, worst, worst_id) \<Rightarrow>
     (up + (if cr_status r = ''up'' then 1 else 0), n + 1,
      (if cr_latency_ms r > worst then cr_latency_ms r else worst),
      (if cr_latency_ms r > worst then cr_check_id r else worst_id)))"

definition check_name :: "check list \<Rightarrow> string \<Rightarrow> string" where
  "check_name checks i = (case find (\<lambda>c. ck_id c = i) checks of Some c \<Rightarrow> ck_name c | None \<Rightarrow> [])"

definition buildChecksSummary :: "report_view \<Rightarrow> time \<Rightarrow> time \<Rightarrow> ChecksSummary" where
  "buildChecksSummary V start stop =
     (let checks = or_empty (query (\<lambda>_. True) 10000 (rv_checks V));
          results = or_empty (query (\<lambda>r. fmt_ts start \<le> cr_checked_at r \<and> cr_checked_at r \<le> fmt_ts stop) 20000 (rv_check_results V))
      in case fold tally_check results (0, 0, 0, []) of
           (up, n, worst, worst_id) \<Rightarrow>
             \<lparr>cu_UptimePercent = (if 0 < n then round2 (100 * of_nat up / of_nat n) else 100),
              cu_WorstLatencyName = (if worst_id = [] then [] else if check_name checks worst_id = [] then ''(deleted check)''
                 else check_name checks worst_id),
              cu_WorstLatencyMillis = (if worst_id = [] then 0 else round2 worst)\<rparr>)"

definition cve_field :: "obj \<Rightarrow> string \<Rightarrow> int" where
  "cve_field totals k = (case report_toFloat (aget totals k) of Some v \<Rightarrow> trunc_rat v | None \<Rightarrow> 0)"

definition host_cve :: "report_view \<Rightarrow> agent \<Rightarrow> HostCVE option" where
  "host_cve V a =
     (case map_option (rv_newest V) (query (\<lambda>r. mt_agent_id r = ag_id a \<and> mt_type r = ''cve_scan'')
             (length (or_empty (rv_metrics V))) (rv_metrics V)) of
        Some (r # _) \<Rightarrow>
          (case mt_data r of
             None \<Rightarrow> None
           | Some data \<Rightarrow>
               if as_bool (aget data ''available'') \<noteq> Some True then None
               else (case as_obj (aget data ''totals'') of
                  None \<Rightarrow> None
                | Some totals \<Rightarrow> Some \<lparr>hc_Hostname = ag_hostname a, hc_Critical = cve_field totals ''critical'',
                    hc_High = cve_field totals ''high'', hc_Medium = cve_field totals ''medium'', hc_Low = cve_field totals ''low''\<rparr>))
      | _ \<Rightarrow> None)"

definition buildCVETotals :: "report_view \<Rightarrow> agent list \<Rightarrow> HostCVE list" where
  "buildCVETotals V agents = List.map_filter (host_cve V) agents"

definition log_volume :: "report_view \<Rightarrow> time \<Rightarrow> time \<Rightarrow> agent \<Rightarrow> (string \<times> nat) option" where
  "log_volume V start stop a =
     (case rv_logs V of
        None \<Rightarrow> None
      | Some rows \<Rightarrow>
          let n = length (filter (\<lambda>l. lg_agent_id l = ag_id a \<and> fmt_ts start \<le> lg_ts l \<and> lg_ts l \<le> fmt_ts stop) rows)
          in if n = 0 then None else Some (ag_hostname a, n))"

definition buildLogVolume :: "report_view \<Rightarrow> agent list \<Rightarrow> time \<Rightarrow> time \<Rightarrow> (string \<times> nat) list" where
  "buildLogVolume V agents start stop = List.map_filter (log_volume V start stop) agents"

definition Build :: "(string \<Rightarrow> any option) \<Rightarrow> report_view \<Rightarrow> time \<Rightarrow> int \<Rightarrow> Report" where
  "Build json V now days =
     (let periodDays = (if days \<le> 0 then DefaultPeriodDays else days);
          start = now - periodDays * day;
          agents = (case rv_agents V of None \<Rightarrow> [] | Some rs \<Rightarrow> take 10000 (rv_by_hostname V rs))
      in \<lparr>rp_PeriodDays = periodDays, rp_PeriodStart = start, rp_PeriodEnd = now, rp_GeneratedAt = now,
          rp_HubURL = settingString json (rv_settings V) ''public_base_url'' [],
          rp_Fleet = buildFleetSummary V agents start now, rp_Alerts = buildAlertsSummary V start now,
          rp_Peaks = buildResourcePeaks V agents start now, rp_Checks = buildChecksSummary V start now,
          rp_CVE = buildCVETotals V agents, rp_Logs = buildLogVolume V agents start now\<rparr>)"

section \<open>Rendering\<close>

definition round_minute :: "duration \<Rightarrow> duration" where
  "round_minute d =
     (let r = d mod minute in
      if r + r < minute then d - r else if d < wrap64 (d + minute - r) then d + minute - r else max_int64)"

definition formatDuration :: "duration \<Rightarrow> string" where
  "formatDuration d =
     (if d \<le> 0 then em_dash
      else let r = round_minute d; h = r div hour; m = (r mod hour) div minute in
        if 0 < h \<and> 0 < m then fmt_d h @ ''h '' @ fmt_d m @ ''m''
        else if 0 < h then fmt_d h @ ''h''
        else if 0 < m then fmt_d m @ ''m''
        else ''<1m'')"

text \<open>\<open>short_day\<close> and \<open>long_day\<close> are the layouts \<open>Jan 2\<close> and \<open>Jan 2, 2006\<close>.\<close>

definition Subject :: "(time \<Rightarrow> string) \<Rightarrow> (time \<Rightarrow> string) \<Rightarrow> Report \<Rightarrow> string" where
  "Subject short_day long_day rpt =
     ''NexWatch weekly report '' @ em_dash @ '' '' @ short_day (rp_PeriodStart rpt) @ '' to '' @ long_day (rp_PeriodEnd rpt)"

definition pct :: "rat \<Rightarrow> string" where
  "pct v = fmt_f 1 v @ ''%''"

text \<open>The text template, executed.\<close>

definition text_body :: "(time \<Rightarrow> string) \<Rightarrow> Report \<Rightarrow> string" where
  "text_body long_day rpt =
     ''NexWatch weekly report'' @ nl @
     long_day (rp_PeriodStart rpt) @ '' - '' @ long_day (rp_PeriodEnd rpt) @ '' ('' @ fmt_d (rp_PeriodDays rpt) @ '' days)'' @ nl @ nl @
     ''FLEET'' @ nl @
     fmt_d (int (fl_AgentsOnline (rp_Fleet rpt))) @ '' of '' @ fmt_d (int (fl_AgentsTotal (rp_Fleet rpt))) @ '' agents online now'' @ nl @
     ''Average uptime: '' @ pct (fl_AverageUptimePercent (rp_Fleet rpt)) @ '' over the period'' @ nl @ nl @
     ''ALERTS'' @ nl @
     ''Critical: '' @ fmt_d (count_of (as_CountBySeverity (rp_Alerts rpt)) ''critical'') @
     ''  Warning: '' @ fmt_d (count_of (as_CountBySeverity (rp_Alerts rpt)) ''warning'') @ nl @
     ''Mean time to resolve: '' @ formatDuration (as_MeanTimeToResolve (rp_Alerts rpt)) @ nl @
     (if as_TopRules (rp_Alerts rpt) \<noteq> []
      then ''Top firing rules:'' @ nl @ concat (map (\<lambda>(n, c). ''  - '' @ n @ '': '' @ fmt_d c @ nl) (as_TopRules (rp_Alerts rpt)))
      else ''No alerts fired this period.'' @ nl) @ nl @
     ''RESOURCE PEAKS'' @ nl @
     (if rp_Peaks rpt \<noteq> []
      then concat (map (\<lambda>k. ''  '' @ pk_Hostname k @ '': cpu '' @ pct (pk_MaxCPU k) @ '', memory '' @ pct (pk_MaxMemory k) @
             '', disk '' @ pct (pk_MaxDisk k) @ nl) (rp_Peaks rpt))
      else ''No agents reporting.'' @ nl) @ nl @
     ''CHECKS'' @ nl @
     ''Uptime: '' @ pct (cu_UptimePercent (rp_Checks rpt)) @
     (if cu_WorstLatencyName (rp_Checks rpt) \<noteq> []
      then nl @ ''Worst latency: '' @ cu_WorstLatencyName (rp_Checks rpt) @ '' ('' @ fmt_f 1 (cu_WorstLatencyMillis (rp_Checks rpt)) @ '' ms)''
      else []) @ nl @
     (if rp_CVE rpt \<noteq> []
      then nl @ ''CVE TOTALS'' @ nl @ concat (map (\<lambda>h. ''  '' @ hc_Hostname h @ '': critical '' @ fmt_d (hc_Critical h) @ '', high '' @
             fmt_d (hc_High h) @ '', medium '' @ fmt_d (hc_Medium h) @ '', low '' @ fmt_d (hc_Low h) @ nl) (rp_CVE rpt))
      else []) @
     (if rp_Logs rpt \<noteq> []
      then nl @ ''LOG VOLUME'' @ nl @ concat (map (\<lambda>(h, n). ''  '' @ h @ '': '' @ fmt_d (int n) @ '' rows'' @ nl) (rp_Logs rpt))
      else []) @ nl @
     ''Generated '' @ long_day (rp_GeneratedAt rpt) @ '' by NexWatch'' @
     (if rp_HubURL rpt \<noteq> [] then '' - '' @ rp_HubURL rpt else []) @ nl"

definition RenderText :: "(time \<Rightarrow> string) \<Rightarrow> Report \<Rightarrow> string" where
  "RenderText long_day rpt = trim_right (text_body long_day rpt) CHR 0x0A @ nl"

section \<open>Delivery\<close>

record SendResult =
  sr_ChannelID :: string
  sr_ChannelName :: string
  sr_Err :: "string option"

fun notify_text :: "notify_error \<Rightarrow> string" where
  "notify_text (ConfigError e) = e"
| "notify_text (SendError e) = e"

text \<open>\<open>mail\<close> is \<open>SendRaw\<close> with the rendered report.\<close>

definition send_one ::
  "(string \<Rightarrow> channel option) \<Rightarrow> (channel \<Rightarrow> 'w \<Rightarrow> 'w \<times> notify_error option) \<Rightarrow> string \<Rightarrow> 'w \<Rightarrow> 'w \<times> SendResult" where
  "send_one find_channel mail i w =
     (case find_channel i of
        None \<Rightarrow> (w, \<lparr>sr_ChannelID = i, sr_ChannelName = [], sr_Err = Some (''notification channel '' @ i @ '' not found'')\<rparr>)
      | Some c \<Rightarrow>
          if ch_type c \<noteq> ''email'' then
            (w, \<lparr>sr_ChannelID = i, sr_ChannelName = ch_name c,
                 sr_Err = Some (''channel type '' @ ch_type c @ '' is not email; weekly reports only send through email channels'')\<rparr>)
          else if \<not> ch_enabled c then
            (w, \<lparr>sr_ChannelID = i, sr_ChannelName = ch_name c, sr_Err = Some ''channel is disabled''\<rparr>)
          else (case mail c w of
            (w', err) \<Rightarrow> (w', \<lparr>sr_ChannelID = i, sr_ChannelName = ch_name c, sr_Err = map_option notify_text err\<rparr>)))"

fun send_each ::
  "(string \<Rightarrow> channel option) \<Rightarrow> (channel \<Rightarrow> 'w \<Rightarrow> 'w \<times> notify_error option) \<Rightarrow> string list \<Rightarrow> 'w \<Rightarrow> 'w \<times> SendResult list" where
  "send_each find_channel mail [] w = (w, [])"
| "send_each find_channel mail (i # is) w =
     (case send_one find_channel mail i w of
        (w', r) \<Rightarrow> (case send_each find_channel mail is w' of (w'', rs) \<Rightarrow> (w'', r # rs)))"

text \<open>\<open>html\<close> is \<open>RenderHTML\<close>; the text template always renders.\<close>

definition report_send ::
  "(Report \<Rightarrow> string + string) \<Rightarrow> (time \<Rightarrow> string) \<Rightarrow> (time \<Rightarrow> string) \<Rightarrow> (string \<Rightarrow> channel option)
   \<Rightarrow> (string \<Rightarrow> string \<Rightarrow> string \<Rightarrow> channel \<Rightarrow> 'w \<Rightarrow> 'w \<times> notify_error option) \<Rightarrow> Report \<Rightarrow> string list \<Rightarrow> 'w \<Rightarrow> 'w \<times> SendResult list" where
  "report_send html short_day long_day find_channel raw rpt channelIDs w =
     (case html rpt of
        Inl e \<Rightarrow> (w, [\<lparr>sr_ChannelID = [], sr_ChannelName = [], sr_Err = Some e\<rparr>])
      | Inr body \<Rightarrow> send_each find_channel (raw (Subject short_day long_day rpt) body (RenderText long_day rpt)) channelIDs w)"

text \<open>The cron job.\<close>

definition runScheduled ::
  "(string \<Rightarrow> any option) \<Rightarrow> (string \<Rightarrow> rat option) \<Rightarrow> (Report \<Rightarrow> string + string) \<Rightarrow> (time \<Rightarrow> string) \<Rightarrow> (time \<Rightarrow> string)
   \<Rightarrow> (string \<Rightarrow> channel option) \<Rightarrow> (string \<Rightarrow> string \<Rightarrow> string \<Rightarrow> channel \<Rightarrow> 'w \<Rightarrow> 'w \<times> notify_error option) \<Rightarrow> report_view \<Rightarrow> time \<Rightarrow> 'w
   \<Rightarrow> 'w \<times> SendResult list" where
  "runScheduled json parse_float html short_day long_day find_channel raw V now w =
     (let settings = LoadSettings json parse_float (rv_settings V)
      in report_send html short_day long_day find_channel raw (Build json V now (rs_PeriodDays settings)) (rs_ChannelIDs settings) w)"

section \<open>Routes\<close>

definition handleReportPreview ::
  "(string \<Rightarrow> any option) \<Rightarrow> (Report \<Rightarrow> string + string) \<Rightarrow> (time \<Rightarrow> string) \<Rightarrow> (time \<Rightarrow> string) \<Rightarrow> report_view \<Rightarrow> time \<Rightarrow> string
   \<Rightarrow> int + (string \<times> string \<times> string)" where
  "handleReportPreview json html short_day long_day V now raw =
     (case (if raw = [] then Some DefaultPeriodDays
            else case atoi raw of None \<Rightarrow> None | Some n \<Rightarrow> if n \<le> 0 then None else Some n) of
        None \<Rightarrow> Inl 400
      | Some periodDays \<Rightarrow>
          (let rpt = Build json V now periodDays in
           case html rpt of
             Inl _ \<Rightarrow> Inl 500
           | Inr body \<Rightarrow> Inr (Subject short_day long_day rpt, body, RenderText long_day rpt)))"

definition resultLabel :: "bool \<Rightarrow> string" where
  "resultLabel success = (if success then ''success'' else ''failure'')"

definition send_entry :: "SendResult list \<Rightarrow> Entry" where
  "send_entry results =
     (let failures = length (filter (\<lambda>r. sr_Err r \<noteq> None) results)
      in \<lparr>ey_Action = ''report.send'', ey_TargetType = ''settings'', ey_TargetID = ''report_channel_ids'', ey_AgentID = [],
          ey_Details = Some [(''channels'', AInt (int (length results))), (''failures'', AInt (int failures))],
          ey_Result = resultLabel (failures = 0)\<rparr>)"

text \<open>A channel's row of the answer: its id and name, success, and the error text.\<close>

definition handleReportSend ::
  "(string \<Rightarrow> any option) \<Rightarrow> (string \<Rightarrow> rat option) \<Rightarrow> (Report \<Rightarrow> string + string) \<Rightarrow> (time \<Rightarrow> string) \<Rightarrow> (time \<Rightarrow> string)
   \<Rightarrow> (string \<Rightarrow> channel option) \<Rightarrow> (string \<Rightarrow> string \<Rightarrow> string \<Rightarrow> channel \<Rightarrow> 'w \<Rightarrow> 'w \<times> notify_error option) \<Rightarrow> report_view \<Rightarrow> time \<Rightarrow> 'w
   \<Rightarrow> 'w \<times> string \<times> (string \<times> string \<times> bool \<times> string) list \<times> Entry" where
  "handleReportSend json parse_float html short_day long_day find_channel raw V now w =
     (let settings = LoadSettings json parse_float (rv_settings V);
          rpt = Build json V now (rs_PeriodDays settings)
      in case report_send html short_day long_day find_channel raw rpt (rs_ChannelIDs settings) w of
           (w', results) \<Rightarrow>
             (w', Subject short_day long_day rpt,
              map (\<lambda>r. (sr_ChannelID r, sr_ChannelName r, sr_Err r = None, case sr_Err r of None \<Rightarrow> [] | Some e \<Rightarrow> e)) results,
              send_entry results))"

section \<open>Counting alerts\<close>

lemma tally_firings:
  "count_of (at_firings (fold (tally_alert rules) as t)) i = count_of (at_firings t) i + int (length (filter (\<lambda>a. al_rule_id a = i) as))"
  by (induction as arbitrary: t) (auto simp: tally_alert_def Let_def count_bump)

text \<open>The number of alerts per severity, which is the one the rule has now and not the one it fired with.\<close>

lemma tally_severities:
  "sev \<noteq> [] \<Longrightarrow> count_of (at_severity (fold (tally_alert rules) as t)) sev =
     count_of (at_severity t) sev + int (length (filter (\<lambda>a. rule_severity rules (al_rule_id a) = sev) as))"
  by (induction as arbitrary: t) (auto simp: tally_alert_def Let_def count_bump)

section \<open>The uptime of an agent\<close>

text \<open>The instants at which an alert was open, an open one up to the end of the period.\<close>

definition open_at :: "time \<Rightarrow> alert \<Rightarrow> time set" where
  "open_at stop a = {al_fired_at a ..< (if al_resolved_at a \<noteq> 0 then al_resolved_at a else stop)}"

lemma interval_covers:
  "(case alert_interval start stop a of None \<Rightarrow> {} | Some i \<Rightarrow> covers i) \<inter> {start..<stop} = open_at stop a \<inter> {start..<stop}"
  by (auto simp: alert_interval_def open_at_def covers_def Let_def)

lemma intervals_cover:
  "covered (List.map_filter (alert_interval start stop) as) \<inter> {start..<stop} = (\<Union>a \<in> set as. open_at stop a) \<inter> {start..<stop}"
proof (induction as)
  case (Cons a as)
  have "covered (List.map_filter (alert_interval start stop) (a # as)) =
      (case alert_interval start stop a of None \<Rightarrow> {} | Some i \<Rightarrow> covers i) \<union> covered (List.map_filter (alert_interval start stop) as)"
    by (cases "alert_interval start stop a") (simp_all add: covered_def)
  then show ?case using Cons interval_covers [of start stop a] by (simp add: Int_Un_distrib2)
qed (simp add: covered_def)

text \<open>C34: the uptime that the report gives an agent is, rounded, the share of the period at which none of its
  alerts was open, if the agent has at most five thousand alerts in its whole history. Of more than that
  the query yields the oldest ones.\<close>

theorem report_uptime_is_share_without_alerts:
  assumes "sorts_by_start (rv_sort_intervals V)" and "\<And>as. set (rv_by_fired V as) = set as \<and> length (rv_by_fired V as) = length as"
    and "rv_alerts V = Some rows" and "start < stop" and "stop - start \<le> max_int64"
    and "mine = filter (\<lambda>a. al_agent_id a = agentID \<and> al_fired_at a \<le> fmt_ts stop) rows" and "length mine \<le> 5000"
  shows "agentUptimePercent V agentID start stop =
    round2 (100 * of_nat (card ({start..<stop} - (\<Union>a \<in> set mine. open_at stop a))) / of_int (stop - start))"
proof -
  let ?as = "rv_by_fired V mine"
  have "take 5000 ?as = ?as" using assms(2) [of mine] assms(7) by simp
  then have "agentUptimePercent V agentID start stop =
      round2 (UptimePercent (Merge (rv_sort_intervals V) (List.map_filter (alert_interval start stop) ?as)) start stop)"
    by (simp add: agentUptimePercent_def or_empty_def assms(3,6))
  also have "\<dots> = round2 (100 * of_nat (card ({start..<stop} - covered (List.map_filter (alert_interval start stop) ?as))) / of_int (stop - start))"
    using uptime_measure [OF Merge_apart [OF assms(1)] assms(4,5)] Merge_covered [OF assms(1)] by simp
  also have "{start..<stop} - covered (List.map_filter (alert_interval start stop) ?as) = {start..<stop} - (\<Union>a \<in> set mine. open_at stop a)"
    using intervals_cover [of start stop ?as] assms(2) [of mine] by blast
  finally show ?thesis .
qed

lemma round2_of_nat: "round2 (of_nat n) = of_nat n"
proof -
  have "\<lfloor>of_nat n * 100 + 1 / 2 :: rat\<rfloor> = int n * 100" by (rule floor_unique) simp_all
  moreover have "(0 :: rat) \<le> of_nat n * 100 + 1 / 2" by simp
  ultimately show ?thesis by (simp add: round2_def trunc_rat_def)
qed

definition short_outage :: alert where
  "short_outage = new_alert\<lparr>al_id := ''x'', al_agent_id := ''a'', al_resolved_at := 5\<rparr>"

definition outage_view :: report_view where
  "outage_view = \<lparr>rv_settings = [], rv_agents = None, rv_rules = None, rv_alerts = Some [short_outage], rv_metrics = None,
     rv_checks = None, rv_check_results = None, rv_logs = None, rv_by_hostname = (\<lambda>xs. xs), rv_by_fired = sort_key al_fired_at,
     rv_newest = (\<lambda>xs. xs), rv_sort_intervals = sort_key iv_start, rv_sort_counts = (\<lambda>xs. xs)\<rparr>"

theorem report_uptime_is_share_without_alerts_witness: "agentUptimePercent outage_view ''a'' 0 20 = 75"
proof -
  have "agentUptimePercent outage_view ''a'' 0 20 =
      round2 (100 * of_nat (card ({0..<20} - (\<Union>a \<in> set [short_outage]. open_at 20 a))) / of_int (20 - 0))"
  proof (rule report_uptime_is_share_without_alerts)
    show "[short_outage] = filter (\<lambda>a. al_agent_id a = ''a'' \<and> al_fired_at a \<le> fmt_ts 20) [short_outage]"
      by (simp add: short_outage_def new_alert_def fmt_ts_def time_simps)
  qed (simp_all add: outage_view_def sort_key_sorts max_int64_def)
  moreover have "{0..<20::int} - {0..<5} = {5..<20}" by auto
  ultimately show ?thesis
    using round2_of_nat [of 75] by (simp add: short_outage_def new_alert_def open_at_def card_int_interval)
qed

text \<open>An agent whose five thousand oldest alerts ended before the period reads as fully up, whatever happened
  in the period.\<close>

lemma busy_agent_looks_up:
  assumes "sorts_by_start (rv_sort_intervals V)" and "start < stop" and "stop - start \<le> max_int64"
    and "\<And>a. a \<in> set (take 5000 (rv_by_fired V (filter (\<lambda>a. al_agent_id a = agentID \<and> al_fired_at a \<le> fmt_ts stop) (or_empty (rv_alerts V)))))
      \<Longrightarrow> al_resolved_at a \<noteq> 0 \<and> al_resolved_at a \<le> start"
  shows "agentUptimePercent V agentID start stop = 100"
proof -
  let ?as = "take 5000 (rv_by_fired V (filter (\<lambda>a. al_agent_id a = agentID \<and> al_fired_at a \<le> fmt_ts stop) (or_empty (rv_alerts V))))"
  have "(\<Union>a \<in> set ?as. open_at stop a) \<inter> {start..<stop} = {}" using assms(4) by (fastforce simp: open_at_def)
  then have "{start..<stop} - covered (List.map_filter (alert_interval start stop) ?as) = {start..<stop}"
    using intervals_cover [of start stop ?as] by blast
  then have "UptimePercent (Merge (rv_sort_intervals V) (List.map_filter (alert_interval start stop) ?as)) start stop =
      100 * of_nat (card {start..<stop}) / of_int (stop - start)"
    using uptime_measure [OF Merge_apart [OF assms(1)] assms(2,3)] Merge_covered [OF assms(1)] by simp
  also have "\<dots> = 100" using assms(2) by (simp add: card_int_interval divide_eq_eq)
  finally have "UptimePercent (Merge (rv_sort_intervals V) (List.map_filter (alert_interval start stop) ?as)) start stop = 100" .
  moreover have "round2 100 = 100" using round2_of_nat [of 100] by simp
  ultimately show ?thesis by (simp add: agentUptimePercent_def)
qed

section \<open>Who gets the mail\<close>

definition mailable :: "(string \<Rightarrow> channel option) \<Rightarrow> string \<Rightarrow> channel option" where
  "mailable find_channel i = (case find_channel i of
     Some c \<Rightarrow> if ch_type c = ''email'' \<and> ch_enabled c then Some c else None | None \<Rightarrow> None)"

text \<open>C35: the report is mailed, in the order of the setting, to exactly the configured channels that exist, are
  enabled and of type email; a failure for one channel does not keep the others from theirs; there is one
  result per configured id, and it is a success exactly when the mail was sent.\<close>

theorem report_mails_enabled_channels:
  "\<exists>results. report_send html short_day long_day find_channel (\<lambda>subject body txt c w. (w @ [(c, subject, body, txt)], outcome c)) rpt ids w =
       (w @ (case html rpt of Inl _ \<Rightarrow> []
         | Inr body \<Rightarrow> map (\<lambda>c. (c, Subject short_day long_day rpt, body, RenderText long_day rpt)) (List.map_filter (mailable find_channel) ids)),
        results)
     \<and> (case html rpt of Inl e \<Rightarrow> map sr_Err results = [Some e]
         | Inr _ \<Rightarrow> map sr_ChannelID results = ids \<and>
             map (\<lambda>r. sr_Err r = None) results = map (\<lambda>i. case mailable find_channel i of None \<Rightarrow> False | Some c \<Rightarrow> outcome c = None) ids)"
proof -
  have each: "\<exists>rs. send_each find_channel (\<lambda>c w. (w @ [f c], outcome c)) ids w = (w @ map f (List.map_filter (mailable find_channel) ids), rs)
      \<and> map sr_ChannelID rs = ids
      \<and> map (\<lambda>r. sr_Err r = None) rs = map (\<lambda>i. case mailable find_channel i of None \<Rightarrow> False | Some c \<Rightarrow> outcome c = None) ids"
    for f :: "channel \<Rightarrow> channel \<times> string \<times> string \<times> string" and w
  proof (induction ids arbitrary: w)
    case (Cons i ids)
    have "\<exists>r. send_one find_channel (\<lambda>c w. (w @ [f c], outcome c)) i w =
        (w @ (case mailable find_channel i of None \<Rightarrow> [] | Some c \<Rightarrow> [f c]), r) \<and> sr_ChannelID r = i \<and>
        (sr_Err r = None) = (case mailable find_channel i of None \<Rightarrow> False | Some c \<Rightarrow> outcome c = None)"
      by (auto simp: send_one_def mailable_def split: option.splits)
    then obtain r where r: "send_one find_channel (\<lambda>c w. (w @ [f c], outcome c)) i w =
        (w @ (case mailable find_channel i of None \<Rightarrow> [] | Some c \<Rightarrow> [f c]), r)" "sr_ChannelID r = i"
      "(sr_Err r = None) = (case mailable find_channel i of None \<Rightarrow> False | Some c \<Rightarrow> outcome c = None)" by (elim exE conjE)
    from Cons.IH [of "w @ (case mailable find_channel i of None \<Rightarrow> [] | Some c \<Rightarrow> [f c])"] r
    show ?case by (cases "mailable find_channel i") auto
  qed simp
  show ?thesis
  proof (cases "html rpt")
    case (Inr body)
    from each [of "\<lambda>c. (c, Subject short_day long_day rpt, body, RenderText long_day rpt)" w] Inr
    show ?thesis by (auto simp: report_send_def)
  qed (simp add: report_send_def)
qed

end
