(* ===== verification/Aggregates.thy ===== *)
theory Aggregates
  imports Weekly_Report Dashboard
begin

text \<open>
  What the readers of a metric make of an aggregated row. The downsampler (theory \<open>Downsampling\<close>) keeps
  the numbers and the texts at the top of a report and drops every list and object; the charts, the
  weekly report and the rules \<open>service_failed\<close> and \<open>process_down\<close> look inside lists.
\<close>

lemma average_values:
  "\<exists>x. aget (averageData recs) k = ANil \<or> aget (averageData recs) k = AFloat64 x
     \<or> (\<exists>s. aget (averageData recs) k = AStr s) \<or> (\<exists>n. aget (averageData recs) k = AInt n)"
proof -
  have "v \<in> snd ` set (averageData recs) \<Longrightarrow> \<exists>x s n. v = AFloat64 x \<or> v = AStr s \<or> v = AInt n" for v
    by (auto simp: averageData_def averageMaps_def Let_def avg_value_def List.map_filter_def split: if_splits)
  moreover have "map_of (averageData recs) k = Some v \<Longrightarrow> v \<in> snd ` set (averageData recs)" for v
    by (force dest: map_of_SomeD)
  ultimately show ?thesis by (cases "map_of (averageData recs) k") (fastforce simp: aget_def)+
qed

lemma average_no_lists: "as_arr (aget (averageData recs) k) = None" "as_obj (aget (averageData recs) k) = None"
  "as_bool (aget (averageData recs) k) = None"
  using average_values [of recs k] by auto

lemma average_disk: "extractDiskPercent (averageData recs) = 0" "diskPercentFromData (averageData recs) = 0"
  by (simp_all add: extractDiskPercent_def diskPercentFromData_def average_no_lists)

lemma average_network: "extractNetworkBytes (averageData recs) = (0, 0)" "extractNetworkRates (averageData recs) = (0, 0)"
  by (simp_all add: extractNetworkBytes_def extractNetworkRates_def bestNetworkInterface_def average_no_lists)

text \<open>C36: an aggregated row is misread everywhere: as a disk row it adds no point to the disk chart, as a
  network row it adds points of zero traffic, and as the newest row of its type it makes every
  \<open>service_failed\<close> and \<open>process_down\<close> rule of that agent breach, whatever the target, while a \<open>cve_count\<close>
  rule observes nothing.\<close>

theorem aggregates_are_misread:
  assumes "mt_data r = Some (averageData recs)"
  shows "(mt_type r = ''disk'' \<longrightarrow> chart_row r s = s)
    \<and> (mt_type r = ''network'' \<longrightarrow> parseTimestamp (mt_timestamp r) \<noteq> 0 \<longrightarrow>
         se_network_rx_rate (chart_row r s) = add_point (parseTimestamp (mt_timestamp r)) 0 (se_network_rx_rate s) \<and>
         se_network_tx_rate (chart_row r s) = add_point (parseTimestamp (mt_timestamp r)) 0 (se_network_tx_rate s))
    \<and> (latestMetricData v aid ''services'' = mt_data r \<longrightarrow> evalServiceFailed v aid target = Some (0, True))
    \<and> (latestMetricData v aid ''processes'' = mt_data r \<longrightarrow> evalProcessDown v aid target = Some (0, True))
    \<and> (latestMetricData v aid ''cve_scan'' = mt_data r \<longrightarrow> evalCveCount v aid target condition threshold = None)"
  using assms
  by (simp add: chart_row_def Let_def average_disk average_network evalServiceFailed_def evalProcessDown_def
      evalCveCount_def average_no_lists)

definition ssh_row :: metric where
  "ssh_row = \<lparr>mt_id = ''m'', mt_agent_id = ''a'', mt_type = ''services'',
     mt_data = Some [(''services'', AArr [AObj [(''name'', AStr ''ssh''), (''active'', AStr ''active''), (''sub'', AStr ''running'')]])],
     mt_timestamp = 1, mt_resolution = ''raw''\<rparr>"

theorem aggregates_are_misread_witness:
  "evalServiceFailed (host_view ''services'' (the (mt_data ssh_row))) ''a'' ''ssh'' = Some (1, False) \<and>
   evalServiceFailed (host_view ''services'' (averageData [ssh_row])) ''a'' ''ssh'' = Some (0, True)"
proof
  show "evalServiceFailed (host_view ''services'' (the (mt_data ssh_row))) ''a'' ''ssh'' = Some (1, False)"
    by (simp add: evalServiceFailed_def host_view_latest ssh_row_def aget_def str_of_def equal_fold_def isFailedServiceState_def
        to_lower_def lower_char_def trim_space_def is_space_def)
  let ?v = "host_view ''services'' (averageData [ssh_row])"
  show "evalServiceFailed ?v ''a'' ''ssh'' = Some (0, True)"
    using aggregates_are_misread [of "ssh_row\<lparr>mt_data := Some (averageData [ssh_row])\<rparr>" "[ssh_row]" no_series ?v "''a''" "''ssh''" "[]" 0]
    by (simp add: host_view_latest)
qed

text \<open>The report's peak of the disk usage is zero as soon as the period has an hourly row, however full the
  disk was.\<close>

lemma report_disk_peak_is_lost:
  assumes "rv_metrics V = Some rows"
    and "\<And>r. r \<in> set rows \<Longrightarrow> mt_resolution r = ''1h'' \<Longrightarrow> \<exists>recs. mt_data r = Some (averageData recs)"
    and "r \<in> set rows" and "mt_agent_id r = aid" and "mt_type r = ''disk''" and "mt_resolution r = ''1h''"
    and "fmt_ts start \<le> mt_timestamp r" and "mt_timestamp r \<le> fmt_ts stop"
  shows "maxDiskPercent V aid start stop = 0"
proof -
  let ?P = "\<lambda>q. mt_agent_id q = aid \<and> mt_type q = ''disk'' \<and> mt_resolution q = ''1h'' \<and>
     fmt_ts start \<le> mt_timestamp q \<and> mt_timestamp q \<le> fmt_ts stop"
  have "take 5000 (filter ?P rows) \<noteq> []" using assms(3-8) by (auto simp: filter_empty_conv)
  then have q: "queryMetricsWithFallback V aid ''disk'' start stop = take 5000 (filter ?P rows)"
    by (cases "take 5000 (filter ?P rows)") (simp_all add: queryMetricsWithFallback_def query_def assms(1))
  have "max_of (\<lambda>data. Some (diskPercentFromData data)) rs = 0" if "\<forall>r \<in> set rs. \<exists>recs. mt_data r = Some (averageData recs)" for rs
  proof -
    have "fold (\<lambda>r m. case mt_data r of None \<Rightarrow> m | Some data \<Rightarrow> (case Some (diskPercentFromData data) of Some v \<Rightarrow> if v > m then v else m | None \<Rightarrow> m)) rs 0 = (0 :: rat)"
      using that by (induction rs) (auto simp: average_disk)
    then show ?thesis by (simp add: max_of_def)
  qed
  moreover have "\<forall>r \<in> set (take 5000 (filter ?P rows)). \<exists>recs. mt_data r = Some (averageData recs)"
    using assms(2) by (auto dest: in_set_takeD)
  ultimately show ?thesis by (simp add: maxDiskPercent_def q)
qed

end
