(* ===== verification/Log_Search.thy ===== *)
theory Log_Search
  imports Ingest Settings
begin

text \<open>
  The search in the shipped logs, \<open>internal/hub/api/logs_routes.go\<close>: the filter, the page size, the cursor
  that leads to the next page, and the list of units. The \<open>LIKE\<close> operator and the sorting done by the
  database are parameters; a stored \<open>fields\<close> column is kept decoded. Dates are compared in the database
  as text, which is the order of time for the years 0 to 9999.
\<close>

section \<open>Parameters of the query\<close>

definition logsQueryDefaultLimit :: int where "logsQueryDefaultLimit = 100"

definition logsQueryMaxLimit :: int where "logsQueryMaxLimit = 500"

definition logsUnitsLookback :: duration where "logsUnitsLookback = 24 * hour"

definition logsUnitsScanCap :: nat where "logsUnitsScanCap = 5000"

text \<open>The query string; an absent parameter is empty.\<close>

record log_query =
  lq_agent_id :: string
  lq_level :: string
  lq_unit :: string
  lq_q :: string
  lq_since :: string
  lq_until :: string
  lq_limit :: string
  lq_before :: string

definition query_limit :: "string \<Rightarrow> int" where
  "query_limit raw =
     (let limit = (if raw = [] then logsQueryDefaultLimit
                   else case atoi raw of None \<Rightarrow> logsQueryDefaultLimit
                                       | Some n \<Rightarrow> if 0 < n then n else logsQueryDefaultLimit)
      in if logsQueryMaxLimit < limit then logsQueryMaxLimit else limit)"

definition parseUnixMillisParam :: "string \<Rightarrow> time option" where
  "parseUnixMillisParam raw = map_option UnixMilli (atoi raw)"

definition to_UnixMilli :: "time \<Rightarrow> int" where
  "to_UnixMilli t = (t - unix_epoch) div millisecond"

definition formatLogsCursor :: "time \<Rightarrow> string \<Rightarrow> string" where
  "formatLogsCursor ts i = fmt_d (to_UnixMilli ts) @ ''_'' @ i"

text \<open>\<open>strings.LastIndex\<close> finds the last underscore by the first one from the end.\<close>

definition parseLogsCursor :: "string \<Rightarrow> (time \<times> string) option" where
  "parseLogsCursor cursor =
     (case index_byte (rev cursor) (CHR ''_'') of
        None \<Rightarrow> None
      | Some k \<Rightarrow>
          if k = 0 then None
          else let idx = length cursor - 1 - k
               in case atoi (take idx cursor) of
                    None \<Rightarrow> None
                  | Some ms \<Rightarrow> Some (UnixMilli ms, drop (idx + 1) cursor))"

section \<open>The search\<close>

text \<open>Strings are compared byte by byte.\<close>

fun str_less :: "string \<Rightarrow> string \<Rightarrow> bool" where
  "str_less xs [] = False"
| "str_less [] (y # ys) = True"
| "str_less (x # xs) (y # ys) = ((of_char x :: nat) < of_char y \<or> x = y \<and> str_less xs ys)"

text \<open>\<open>ts < {:beforeTs} || (ts = {:beforeTs} && id < {:beforeId})\<close>.\<close>

definition before_cursor :: "time \<times> string \<Rightarrow> logrow \<Rightarrow> bool" where
  "before_cursor c r = (case c of (ts, i) \<Rightarrow> lg_ts r < ts \<or> lg_ts r = ts \<and> str_less (lg_id r) i)"

definition opt_holds :: "'a option \<Rightarrow> ('a \<Rightarrow> bool) \<Rightarrow> bool" where
  "opt_holds x P = (case x of None \<Rightarrow> True | Some a \<Rightarrow> P a)"

text \<open>Each clause is added when its parameter is given and parses; \<open>like\<close> is the operator \<open>~\<close>.\<close>

definition log_filter :: "(string \<Rightarrow> string \<Rightarrow> bool) \<Rightarrow> log_query \<Rightarrow> logrow \<Rightarrow> bool" where
  "log_filter like q r \<longleftrightarrow>
     lg_id r \<noteq> [] \<and>
     (lq_agent_id q = [] \<or> lg_agent_id r = lq_agent_id q) \<and>
     (lq_level q = [] \<or> lg_level r = lq_level q) \<and>
     (lq_unit q = [] \<or> lg_unit r = lq_unit q) \<and>
     (lq_q q = [] \<or> like (lg_message r) (lq_q q)) \<and>
     (lq_since q = [] \<or> opt_holds (parseUnixMillisParam (lq_since q)) (\<lambda>ts. fmt_ts ts \<le> lg_ts r)) \<and>
     (lq_until q = [] \<or> opt_holds (parseUnixMillisParam (lq_until q)) (\<lambda>ts. lg_ts r \<le> fmt_ts ts)) \<and>
     (lq_before q = [] \<or> opt_holds (parseLogsCursor (lq_before q)) (\<lambda>(ts, i). before_cursor (fmt_ts ts, i) r))"

record logEntryResponse =
  lr_ID :: string
  lr_AgentID :: string
  lr_Ts :: int
  lr_Source :: string
  lr_Unit :: string
  lr_Level :: string
  lr_Message :: string
  lr_Fields :: "(string \<times> string) list"

definition log_response :: "logrow \<Rightarrow> logEntryResponse" where
  "log_response r = \<lparr>lr_ID = lg_id r, lr_AgentID = lg_agent_id r, lr_Ts = to_UnixMilli (lg_ts r), lr_Source = lg_source r,
     lr_Unit = lg_unit r, lr_Level = lg_level r, lr_Message = lg_message r, lr_Fields = lg_fields r\<rparr>"

text \<open>
  \<open>newest\<close> is the sort \<open>-ts,-id\<close> of the database. The answer is the entries and, after a full page, the
  cursor of the last one.
\<close>

definition handleLogsQuery ::
  "(string \<Rightarrow> string \<Rightarrow> bool) \<Rightarrow> (logrow list \<Rightarrow> logrow list) \<Rightarrow> ('l, logrow) table \<Rightarrow> 'l \<Rightarrow> log_query
   \<Rightarrow> int + logEntryResponse list \<times> string option" where
  "handleLogsQuery like newest L db q =
     (let limit = nat (query_limit (lq_limit q)) in
      case t_all L db (log_filter like q) of
        None \<Rightarrow> Inl 500
      | Some rows \<Rightarrow>
          let records = take limit (newest rows);
              nxt = (if length records = limit then Some (formatLogsCursor (lg_ts (last records)) (lg_id (last records)))
                     else None)
          in Inr (map log_response records, nxt))"

section \<open>The units\<close>

fun insert_string :: "string \<Rightarrow> string list \<Rightarrow> string list" where
  "insert_string x [] = [x]"
| "insert_string x (y # ys) = (if str_less y x then y # insert_string x ys else x # y # ys)"

definition sort_strings :: "string list \<Rightarrow> string list" where
  "sort_strings xs = foldr insert_string xs []"

fun distinct_units :: "logrow list \<Rightarrow> string list \<Rightarrow> string list" where
  "distinct_units [] units = units"
| "distinct_units (r # rs) units =
     (if lg_unit r = [] \<or> lg_unit r \<in> set units then distinct_units rs units
      else distinct_units rs (units @ [lg_unit r]))"

definition handleLogUnits ::
  "(logrow list \<Rightarrow> logrow list) \<Rightarrow> ('l, logrow) table \<Rightarrow> 'l \<Rightarrow> time \<Rightarrow> string \<Rightarrow> int + string list" where
  "handleLogUnits by_ts L db now agentID =
     (case t_all L db (\<lambda>r. fmt_ts (now - logsUnitsLookback) \<le> lg_ts r \<and> (agentID = [] \<or> lg_agent_id r = agentID)) of
        None \<Rightarrow> Inl 500
      | Some rows \<Rightarrow> Inr (sort_strings (distinct_units (take logsUnitsScanCap (by_ts rows)) [])))"

section \<open>The order of the rows\<close>

lemma str_less_irrefl [simp]: "\<not> str_less x x"
  by (induction x) auto

lemma str_less_trans: "str_less x y \<Longrightarrow> str_less y z \<Longrightarrow> str_less x z"
proof (induction x z arbitrary: y rule: str_less.induct)
  case (3 x xs z zs)
  then show ?case by (cases y) auto
qed (auto elim: str_less.elims)

lemma str_less_total: "x \<noteq> y \<Longrightarrow> str_less x y \<or> str_less y x"
  by (induction x y rule: str_less.induct) (auto simp: neq_Nil_conv)

definition comes_before :: "logrow \<Rightarrow> logrow \<Rightarrow> bool" where
  "comes_before a b \<longleftrightarrow> before_cursor (lg_ts a, lg_id a) b"

definition sorts_newest :: "(logrow list \<Rightarrow> logrow list) \<Rightarrow> bool" where
  "sorts_newest newest \<longleftrightarrow>
     (\<forall>rs. distinct (map lg_id rs) \<longrightarrow> set (newest rs) = set rs \<and> sorted_wrt comes_before (newest rs))"

lemma comes_before_irrefl: "\<not> comes_before a a"
  by (simp add: comes_before_def before_cursor_def)

lemma comes_before_asym: "comes_before a b \<Longrightarrow> \<not> comes_before b a"
  using str_less_trans by (fastforce simp: comes_before_def before_cursor_def)

lemma sorted_newest_unique:
  "sorted_wrt comes_before xs \<Longrightarrow> sorted_wrt comes_before ys \<Longrightarrow> set xs = set ys \<Longrightarrow> xs = ys"
proof (induction xs arbitrary: ys)
  case (Cons x xs)
  then obtain y ys' where ys: "ys = y # ys'" by (cases ys) auto
  have "x = y"
  proof (rule ccontr)
    assume "x \<noteq> y"
    with Cons.prems(3) have "y \<in> set xs" "x \<in> set ys'" by (auto simp: ys)
    with Cons.prems(1,2) have "comes_before x y" "comes_before y x" by (auto simp: ys)
    then show False using comes_before_asym by blast
  qed
  moreover have "x \<notin> set xs" "y \<notin> set ys'" using Cons.prems(1,2) comes_before_irrefl by (auto simp: ys)
  ultimately have "set xs = set ys'" using Cons.prems(3) by (auto simp: ys)
  with Cons.IH [of ys'] Cons.prems(1,2) \<open>x = y\<close> show ?case by (simp add: ys)
qed simp

lemma after_last:
  assumes "sorted_wrt comes_before (A @ D)" and "A \<noteq> []"
  shows "{r \<in> set (A @ D). comes_before (last A) r} = set D"
proof -
  have A: "A = butlast A @ [last A]" using assms(2) by simp
  have "sorted_wrt comes_before (butlast A @ [last A] @ D)" using assms(1) by (metis A append.assoc)
  then have "comes_before (last A) r" if "r \<in> set D" for r using that by (simp add: sorted_wrt_append)
  moreover have "\<not> comes_before (last A) r" if "r \<in> set A" for r
  proof (cases "r = last A")
    case False
    with that have "r \<in> set (butlast A)" by (metis A Un_iff empty_iff empty_set insert_iff list.simps(15) set_append)
    with \<open>sorted_wrt comes_before (butlast A @ [last A] @ D)\<close> have "comes_before r (last A)" by (simp add: sorted_wrt_append)
    then show ?thesis by (rule comes_before_asym)
  qed (simp add: comes_before_irrefl)
  ultimately show ?thesis by auto
qed

section \<open>The cursor\<close>

text \<open>What the hub stores: ids without an underscore, times in whole milliseconds that fit an \<open>int64\<close>.\<close>

definition row_ok :: "logrow \<Rightarrow> bool" where
  "row_ok r \<longleftrightarrow> lg_id r \<noteq> [] \<and> CHR ''_'' \<notin> set (lg_id r) \<and> fmt_ts (lg_ts r) = lg_ts r \<and>
     min_int64 \<le> to_UnixMilli (lg_ts r) \<and> to_UnixMilli (lg_ts r) \<le> max_int64"

lemma UnixMilli_inverse: "fmt_ts t = t \<Longrightarrow> UnixMilli (to_UnixMilli t) = t"
proof -
  assume "fmt_ts t = t"
  then obtain k where "t = k * millisecond" by (metis fmt_ts_def)
  then show ?thesis by (simp add: UnixMilli_def to_UnixMilli_def time_simps)
qed

lemma cursor_round_trip: "row_ok r \<Longrightarrow> parseLogsCursor (formatLogsCursor (lg_ts r) (lg_id r)) = Some (lg_ts r, lg_id r)"
proof -
  assume r: "row_ok r"
  have "index_byte (rev (formatLogsCursor (lg_ts r) (lg_id r))) (CHR ''_'') = Some (length (lg_id r))"
    using r index_byte_append [of "CHR ''_''" "rev (lg_id r)"] by (simp add: formatLogsCursor_def row_ok_def)
  moreover have "length (lg_id r) \<noteq> 0" using r by (simp add: row_ok_def)
  ultimately show ?thesis using r atoi_fmt_d [of "to_UnixMilli (lg_ts r)"]
    by (simp add: parseLogsCursor_def formatLogsCursor_def row_ok_def UnixMilli_inverse)
qed

lemma formatLogsCursor_ne: "formatLogsCursor ts i \<noteq> []"
  by (simp add: formatLogsCursor_def)

lemma filter_after:
  assumes "lq_before q = []" and "row_ok l"
  shows "log_filter like (q\<lparr>lq_before := formatLogsCursor (lg_ts l) (lg_id l)\<rparr>) r \<longleftrightarrow> log_filter like q r \<and> comes_before l r"
  using assms cursor_round_trip [OF assms(2)]
  by (auto simp: log_filter_def opt_holds_def comes_before_def formatLogsCursor_ne row_ok_def)

section \<open>Reading all pages\<close>

text \<open>A client that follows the cursor for at most \<open>n\<close> pages.\<close>

primrec read_on ::
  "nat \<Rightarrow> (string \<Rightarrow> string \<Rightarrow> bool) \<Rightarrow> (logrow list \<Rightarrow> logrow list) \<Rightarrow> ('l, logrow) table \<Rightarrow> 'l \<Rightarrow> log_query
   \<Rightarrow> logEntryResponse list" where
  "read_on 0 like newest L db q = []"
| "read_on (Suc n) like newest L db q =
     (case handleLogsQuery like newest L db q of
        Inl _ \<Rightarrow> []
      | Inr (entries, nxt) \<Rightarrow>
          entries @ (case nxt of None \<Rightarrow> [] | Some c \<Rightarrow> read_on n like newest L db (q\<lparr>lq_before := c\<rparr>)))"

definition page_size :: "log_query \<Rightarrow> nat" where
  "page_size q = nat (query_limit (lq_limit q))"

lemma page_size_bounds: "0 < page_size q \<and> page_size q \<le> 500"
  by (auto simp: page_size_def query_limit_def logsQueryDefaultLimit_def logsQueryMaxLimit_def Let_def split: option.splits)

lemma page_of_rest:
  assumes rt: "record_table L lg_id set_lg_id" and sorts: "sorts_newest newest" and q: "lq_before q = []"
    and all: "t_all L db (log_filter like q) = Some rs" and ok: "\<And>i r. t_find L db i = Some r \<Longrightarrow> row_ok r"
    and split: "newest rs = A @ D" and A: "A \<noteq> []"
    and all': "t_all L db (log_filter like (q\<lparr>lq_before := formatLogsCursor (lg_ts (last A)) (lg_id (last A))\<rparr>)) = Some rs'"
  shows "newest rs' = D"
proof -
  from sorts record_table.all_distinct [OF rt all] have rs: "set (A @ D) = set rs" "sorted_wrt comes_before (A @ D)"
    by (auto simp: sorts_newest_def simp flip: split)
  from sorts record_table.all_distinct [OF rt all'] have rs': "set (newest rs') = set rs'" "sorted_wrt comes_before (newest rs')"
    by (auto simp: sorts_newest_def)
  have "last A \<in> set rs" using A rs(1) by auto
  with record_table.all_set [OF rt all] ok have l: "row_ok (last A)" by blast
  have "set rs' = {r \<in> set rs. comes_before (last A) r}"
    using record_table.all_set [OF rt all] record_table.all_set [OF rt all'] by (auto simp: filter_after [OF q l])
  also have "\<dots> = set D" using after_last [OF rs(2) A] by (simp only: rs(1))
  finally show ?thesis using rs(2) rs' by (intro sorted_newest_unique) (auto simp: sorted_wrt_append)
qed

lemma handleLogsQuery_page:
  "t_all L db (log_filter like q) = Some rows \<Longrightarrow> newest rows = D \<Longrightarrow>
   handleLogsQuery like newest L db q = Inr (map log_response (take (page_size q) D),
     if page_size q \<le> length D
     then Some (formatLogsCursor (lg_ts (last (take (page_size q) D))) (lg_id (last (take (page_size q) D)))) else None)"
  by (auto simp: handleLogsQuery_def page_size_def Let_def min_def)

lemma read_rest:
  assumes rt: "record_table L lg_id set_lg_id" and sorts: "sorts_newest newest" and q: "lq_before q = []"
    and all: "t_all L db (log_filter like q) = Some rs" and ok: "\<And>i r. t_find L db i = Some r \<Longrightarrow> row_ok r"
    and reads: "\<And>P. t_all L db P \<noteq> None"
  shows "newest rs = A @ D \<Longrightarrow> t_all L db (log_filter like q') = Some rows \<Longrightarrow> newest rows = D
    \<Longrightarrow> q' = q \<or> (\<exists>c. q' = q\<lparr>lq_before := c\<rparr>) \<Longrightarrow> length D < n * page_size q
    \<Longrightarrow> read_on n like newest L db q' = map log_response D"
proof (induction n arbitrary: A D q' rows)
  case (Suc n)
  let ?k = "page_size q" and ?P = "take (page_size q) D"
  have k: "page_size q' = ?k" using Suc.prems(4) by (auto simp: page_size_def)
  note h = handleLogsQuery_page [where newest = newest, OF Suc.prems(2,3), unfolded k]
  show ?case
  proof (cases "?k \<le> length D")
    case True
    let ?c = "formatLogsCursor (lg_ts (last ?P)) (lg_id (last ?P))"
    have P: "?P \<noteq> []" using True page_size_bounds [of q] by auto
    have q'': "q'\<lparr>lq_before := ?c\<rparr> = q\<lparr>lq_before := ?c\<rparr>" using Suc.prems(4) by auto
    from reads obtain rs' where rs': "t_all L db (log_filter like (q\<lparr>lq_before := ?c\<rparr>)) = Some rs'" by blast
    have sp: "newest rs = (A @ ?P) @ drop ?k D" using Suc.prems(1) by simp
    have "newest rs' = drop ?k D"
      by (rule page_of_rest [OF rt sorts q all ok sp]) (use P rs' in simp_all)
    moreover have "length (drop ?k D) < n * ?k" using Suc.prems(5) True by simp
    ultimately have "read_on n like newest L db (q\<lparr>lq_before := ?c\<rparr>) = map log_response (drop ?k D)"
      using Suc.IH [OF sp rs'] by blast
    with True show ?thesis by (simp add: h q'' flip: map_append)
  qed (simp add: h)
qed simp

text \<open>C37: a client that follows \<open>next_before\<close> sees every stored row that matches its filter, each once and in
  the order of time, newest first, whatever page size it asked for; rows with the same millisecond are neither
  skipped nor repeated at the end of a page.\<close>

theorem log_pages_enumerate:
  assumes "record_table L lg_id set_lg_id" and "sorts_newest newest" and "\<And>P. t_all L db P \<noteq> None"
    and "\<And>i r. t_find L db i = Some r \<Longrightarrow> row_ok r"
    and "lq_before q = []" and "t_all L db (log_filter like q) = Some rows" and "length rows < n * page_size q"
  shows "read_on n like newest L db q = map log_response (newest rows) \<and> sorted_wrt comes_before (newest rows)
    \<and> set (newest rows) = {r. t_find L db (lg_id r) = Some r \<and> log_filter like q r}"
proof -
  have d: "distinct (map lg_id rows)" by (rule record_table.all_distinct [OF assms(1,6)])
  with assms(2) have s: "set (newest rows) = set rows" "sorted_wrt comes_before (newest rows)" by (auto simp: sorts_newest_def)
  then have "distinct (newest rows)" using comes_before_irrefl by (induction "newest rows" rule: rev_induct) (auto simp: distinct_conv_nth sorted_wrt_iff_nth_less, metis nat_neq_iff)
  with s(1) d have "length (newest rows) = length rows" by (metis distinct_card distinct_map)
  with assms(7) have "read_on n like newest L db q = map log_response (newest rows)"
    using read_rest [OF assms(1,2,5,6,4,3), where A = "[]" and D = "newest rows" and q' = q and rows = rows and n = n] assms(6) by simp
  with s record_table.all_set [OF assms(1,6)] show ?thesis by simp
qed

section \<open>A page per row\<close>

lemma comes_before_trans: "comes_before a b \<Longrightarrow> comes_before b c \<Longrightarrow> comes_before a c"
  using str_less_trans by (fastforce simp: comes_before_def before_cursor_def)

lemma comes_before_total: "lg_id a \<noteq> lg_id b \<Longrightarrow> comes_before a b \<or> comes_before b a"
  using str_less_total [of "lg_id a" "lg_id b"] by (auto simp: comes_before_def before_cursor_def)

fun insert_row :: "logrow \<Rightarrow> logrow list \<Rightarrow> logrow list" where
  "insert_row x [] = [x]"
| "insert_row x (y # ys) = (if comes_before y x then y # insert_row x ys else x # y # ys)"

lemma set_insert_row [simp]: "set (insert_row x ys) = insert x (set ys)"
  by (induction ys) auto

lemma sorted_insert_row:
  "sorted_wrt comes_before ys \<Longrightarrow> lg_id x \<notin> lg_id ` set ys \<Longrightarrow> sorted_wrt comes_before (insert_row x ys)"
proof (induction ys)
  case (Cons y ys)
  have "comes_before y x \<or> comes_before x y" using Cons.prems(2) comes_before_total [of x y] by auto
  with Cons show ?case using comes_before_trans by auto
qed simp

abbreviation newest_first :: "logrow list \<Rightarrow> logrow list" where
  "newest_first rs \<equiv> foldr insert_row rs []"

lemma sorts_newest_first: "sorts_newest newest_first"
proof -
  have "set (newest_first rs) = set rs" for rs by (induction rs) auto
  moreover have "distinct (map lg_id rs) \<Longrightarrow> sorted_wrt comes_before (newest_first rs)" for rs
  proof (induction rs)
    case (Cons r rs)
    then show ?case using sorted_insert_row [of "newest_first rs" r] \<open>\<And>rs. set (newest_first rs) = set rs\<close> by simp
  qed simp
  ultimately show ?thesis by (simp add: sorts_newest_def)
qed

definition plain_log :: logrow where
  "plain_log = \<lparr>lg_id = [], lg_agent_id = ''a'', lg_ts = unix_epoch, lg_source = [], lg_unit = ''cron'', lg_level = ''info'',
     lg_message = ''m'', lg_fields = []\<rparr>"

definition twin_logs :: "logrow mem" where
  "twin_logs = \<lparr>m_rows = [(''x1'', plain_log), (''x2'', plain_log)], m_faults = []\<rparr>"

definition one_by_one :: log_query where
  "one_by_one = \<lparr>lq_agent_id = [], lq_level = [], lq_unit = [], lq_q = [], lq_since = [], lq_until = [], lq_limit = ''1'', lq_before = []\<rparr>"

lemma twin_rows_ok: "t_find mem_logs twin_logs i = Some r \<Longrightarrow> row_ok r"
  by (auto simp: mem_table_def mem_find_def twin_logs_def plain_log_def row_ok_def set_lg_id_def to_UnixMilli_def fmt_ts_def
      time_simps split: if_splits)

lemma twin_rows:
  "t_all mem_logs twin_logs (log_filter (\<lambda>_ _. True) one_by_one) = Some [set_lg_id ''x1'' plain_log, set_lg_id ''x2'' plain_log]"
  by (simp add: mem_table_def mem_all_def mem_find_def twin_logs_def map_filter_def log_filter_def one_by_one_def set_lg_id_def plain_log_def)

theorem log_pages_enumerate_witness:
  "map lr_ID (read_on 3 (\<lambda>_ _. True) newest_first mem_logs twin_logs one_by_one) = [''x2'', ''x1'']"
proof -
  have ps: "page_size one_by_one = 1" by code_simp
  have b: "lq_before one_by_one = []" by (simp add: one_by_one_def)
  have "read_on 3 (\<lambda>_ _. True) newest_first mem_logs twin_logs one_by_one =
      map log_response (newest_first [set_lg_id ''x1'' plain_log, set_lg_id ''x2'' plain_log])"
    by (rule log_pages_enumerate [OF logs.record_table_axioms sorts_newest_first mem_all_ok(3) twin_rows_ok _ twin_rows, THEN conjunct1])
      (simp_all add: ps b)
  moreover have "map lg_id (newest_first [set_lg_id ''x1'' plain_log, set_lg_id ''x2'' plain_log]) = [''x2'', ''x1'']"
    by (simp add: comes_before_def before_cursor_def set_lg_id_def plain_log_def)
  ultimately show ?thesis by (simp add: log_response_def comp_def)
qed

section \<open>The list of units\<close>

lemma set_insert_string [simp]: "set (insert_string x ys) = insert x (set ys)"
  by (induction ys) auto

lemma sorted_insert_string: "sorted_wrt str_less ys \<Longrightarrow> x \<notin> set ys \<Longrightarrow> sorted_wrt str_less (insert_string x ys)"
proof (induction ys)
  case (Cons y ys)
  have "str_less y x \<or> str_less x y" using Cons.prems(2) str_less_total [of x y] by auto
  with Cons show ?case using str_less_trans by auto
qed simp

lemma sort_strings_sorts: "distinct xs \<Longrightarrow> set (sort_strings xs) = set xs \<and> sorted_wrt str_less (sort_strings xs)"
proof (induction xs)
  case (Cons x xs)
  then show ?case using sorted_insert_string [of "sort_strings xs" x] by (simp add: sort_strings_def)
qed (simp add: sort_strings_def)

lemma distinct_units_spec:
  "distinct us \<Longrightarrow> distinct (distinct_units rs us) \<and> set (distinct_units rs us) = set us \<union> (lg_unit ` set rs - {[]})"
  by (induction rs us rule: distinct_units.induct) auto

text \<open>The units offered are, in order and without repetition, those of the newest 5000 rows of the last day.\<close>

lemma units_are_those_of_the_day:
  assumes "handleLogUnits by_ts L db now agentID = Inr us"
  shows "\<exists>rows. t_all L db (\<lambda>r. fmt_ts (now - logsUnitsLookback) \<le> lg_ts r \<and> (agentID = [] \<or> lg_agent_id r = agentID)) = Some rows
    \<and> set us = lg_unit ` set (take 5000 (by_ts rows)) - {[]} \<and> sorted_wrt str_less us"
  using assms distinct_units_spec [of "[]"] sort_strings_sorts
  by (auto simp: handleLogUnits_def logsUnitsScanCap_def split: option.splits)

end
