(* ===== verification/Schema.thy ===== *)
theory Schema
  imports Agent_Tokens "HOL-Library.Monad_Syntax"
begin

text \<open>
  The migrations of \<open>internal/hub/migrations\<close>, which create the collections the hub stores its data in
  and say who may reach them over the REST interface of PocketBase. A schema is an association list from
  names to collections; a relation names the collection it points to. Saving or deleting a collection may
  be refused by PocketBase, a parameter, and a migration that returns an error is \<open>None\<close>.
\<close>

section \<open>Collections\<close>

text \<open>Fields with their name, \<open>Required\<close> and \<open>Max\<close>, \<open>MaxSize\<close>, \<open>Values\<close>; \<open>MaxSelect\<close> of a select field is 1 everywhere.\<close>

datatype field =
    TextField string bool nat
  | NumberField string bool
  | BoolField string
  | DateField string bool
  | JSONField string nat
  | SelectField string bool "string list"
  | RelationField string bool string nat bool
  | AutodateField string bool bool

fun fd_name :: "field \<Rightarrow> string" where
  "fd_name (TextField n r m) = n"
| "fd_name (NumberField n r) = n"
| "fd_name (BoolField n) = n"
| "fd_name (DateField n r) = n"
| "fd_name (JSONField n m) = n"
| "fd_name (SelectField n r vs) = n"
| "fd_name (RelationField n r c m d) = n"
| "fd_name (AutodateField n c u) = n"

text \<open>An index: its name, whether it is unique, its columns and its condition.\<close>

type_synonym index = "string \<times> bool \<times> string list \<times> string"

text \<open>A rule is a filter expression; without one only superusers have access.\<close>

record coll =
  cl_name :: string
  cl_ListRule :: "string option"
  cl_ViewRule :: "string option"
  cl_CreateRule :: "string option"
  cl_UpdateRule :: "string option"
  cl_DeleteRule :: "string option"
  cl_fields :: "field list"
  cl_indexes :: "index list"
  cl_PasswordAuth :: bool

type_synonym schema = "(string \<times> coll) list"

definition NewBaseCollection :: "string \<Rightarrow> coll" where
  "NewBaseCollection n = \<lparr>cl_name = n, cl_ListRule = None, cl_ViewRule = None, cl_CreateRule = None,
     cl_UpdateRule = None, cl_DeleteRule = None, cl_fields = [], cl_indexes = [],
     cl_PasswordAuth = False\<rparr>"

text \<open>What PocketBase accepts, the auth collection it makes, and whether all records of a collection can be read.\<close>

record pb =
  pb_saves :: "schema \<Rightarrow> coll \<Rightarrow> bool"
  pb_deletes :: "schema \<Rightarrow> coll \<Rightarrow> bool"
  pb_NewAuthCollection :: "string \<Rightarrow> coll"
  pb_FindAll :: "schema \<Rightarrow> string \<Rightarrow> bool"

fun put :: "string \<Rightarrow> coll \<Rightarrow> schema \<Rightarrow> schema" where
  "put n c [] = [(n, c)]"
| "put n c ((m, d) # s) = (if m = n then (n, c) # s else (m, d) # put n c s)"

definition save_col :: "pb \<Rightarrow> coll \<Rightarrow> schema \<Rightarrow> schema option" where
  "save_col P c s = (if pb_saves P s c then Some (put (cl_name c) c s) else None)"

definition delete_col :: "pb \<Rightarrow> coll \<Rightarrow> schema \<Rightarrow> schema option" where
  "delete_col P c s = (if pb_deletes P s c then Some (filter (\<lambda>(m, d). m \<noteq> cl_name c) s) else None)"

text \<open>\<open>Fields.GetByName\<close>, \<open>Add\<close> (a field of the same name is replaced), \<open>RemoveByName\<close>.\<close>

definition field_of :: "string \<Rightarrow> coll \<Rightarrow> field option" where
  "field_of n c = find (\<lambda>f. fd_name f = n) (cl_fields c)"

fun put_field :: "field \<Rightarrow> field list \<Rightarrow> field list" where
  "put_field f [] = [f]"
| "put_field f (g # gs) = (if fd_name g = fd_name f then f # gs else g # put_field f gs)"

definition add_fields :: "field list \<Rightarrow> coll \<Rightarrow> coll" where
  "add_fields fs c = c\<lparr>cl_fields := fold put_field fs (cl_fields c)\<rparr>"

definition add_missing :: "field \<Rightarrow> coll \<Rightarrow> coll" where
  "add_missing f c =
     c\<lparr>cl_fields := (if field_of (fd_name f) c = None then put_field f (cl_fields c) else cl_fields c)\<rparr>"

definition remove_fields :: "string list \<Rightarrow> coll \<Rightarrow> coll" where
  "remove_fields ns c = c\<lparr>cl_fields := filter (\<lambda>f. fd_name f \<notin> set ns) (cl_fields c)\<rparr>"

text \<open>\<open>AddIndex\<close> replaces an index of the same name.\<close>

definition remove_index :: "string \<Rightarrow> coll \<Rightarrow> coll" where
  "remove_index n c = c\<lparr>cl_indexes := filter (\<lambda>i. fst i \<noteq> n) (cl_indexes c)\<rparr>"

definition add_index :: "index \<Rightarrow> coll \<Rightarrow> coll" where
  "add_index i c = (let c' = remove_index (fst i) c in c'\<lparr>cl_indexes := cl_indexes c' @ [i]\<rparr>)"

text \<open>The values of a select field.\<close>

definition is_select :: "string \<Rightarrow> coll \<Rightarrow> bool" where
  "is_select n c = (case field_of n c of Some (SelectField _ _ _) \<Rightarrow> True | _ \<Rightarrow> False)"

fun change_field :: "string \<Rightarrow> (string list \<Rightarrow> string list) \<Rightarrow> field \<Rightarrow> field" where
  "change_field n g (SelectField m r vs) = SelectField m r (if m = n then g vs else vs)"
| "change_field n g f = f"

definition change_values :: "string \<Rightarrow> (string list \<Rightarrow> string list) \<Rightarrow> coll \<Rightarrow> coll" where
  "change_values n g c = c\<lparr>cl_fields := map (change_field n g) (cl_fields c)\<rparr>"

definition add_value :: "string \<Rightarrow> string list \<Rightarrow> string list" where
  "add_value v vs = (if v \<in> set vs then vs else vs @ [v])"

definition add_values :: "string list \<Rightarrow> string list \<Rightarrow> string list" where
  "add_values new vs = fold add_value new vs"

definition drop_values :: "string list \<Rightarrow> string list \<Rightarrow> string list" where
  "drop_values old vs = filter (\<lambda>v. v \<notin> set old) vs"

text \<open>
  The two shapes a migration is made of: change a collection and save it, failing when it is missing, or
  leaving the schema alone then.
\<close>

definition edit :: "pb \<Rightarrow> string \<Rightarrow> (coll \<Rightarrow> coll) \<Rightarrow> schema \<Rightarrow> schema option" where
  "edit P n f s = do {c \<leftarrow> map_of s n; save_col P (f c) s}"

definition ensure_field :: "pb \<Rightarrow> string \<Rightarrow> field \<Rightarrow> schema \<Rightarrow> schema option" where
  "ensure_field P n f s =
     do {c \<leftarrow> map_of s n;
         if field_of (fd_name f) c = None then save_col P (add_fields [f] c) s else Some s}"

definition edit_found :: "pb \<Rightarrow> string \<Rightarrow> (coll \<Rightarrow> coll) \<Rightarrow> schema \<Rightarrow> schema option" where
  "edit_found P n f s = (case map_of s n of None \<Rightarrow> Some s | Some c \<Rightarrow> save_col P (f c) s)"

definition drop_found :: "pb \<Rightarrow> string \<Rightarrow> schema \<Rightarrow> schema option" where
  "drop_found P n s = (case map_of s n of None \<Rightarrow> Some s | Some c \<Rightarrow> delete_col P c s)"

fun each :: "('a \<Rightarrow> schema \<Rightarrow> schema option) \<Rightarrow> 'a list \<Rightarrow> schema \<Rightarrow> schema option" where
  "each f [] s = Some s"
| "each f (x # xs) s = do {s' \<leftarrow> f x s; each f xs s'}"


section \<open>Rules\<close>

definition authOnly :: string where "authOnly = ''@request.auth.id != '' @ [CHR 0x27, CHR 0x27]"

definition operatorOrAbove :: string where
  "operatorOrAbove = authOnly @ '' && @request.auth.role != '' @ [CHR 0x27] @ ''viewer'' @ [CHR 0x27]"

definition adminOnly :: string where
  "adminOnly = ''@request.auth.role = '' @ [CHR 0x27] @ ''admin'' @ [CHR 0x27]"

definition ownRow :: string where "ownRow = authOnly @ '' && user_id = @request.auth.id''"

definition ownRowCreate :: string where "ownRowCreate = authOnly @ '' && @request.auth.id = user_id''"

definition ownerRule :: string where "ownerRule = ''id = @request.auth.id''"

text \<open>\<open>readable\<close> sets the list and the view rule, \<open>writable\<close> those of create, update and delete.\<close>

definition readable :: "string option \<Rightarrow> coll \<Rightarrow> coll" where
  "readable r c = c\<lparr>cl_ListRule := r, cl_ViewRule := r\<rparr>"

definition writable :: "string option \<Rightarrow> coll \<Rightarrow> coll" where
  "writable r c = c\<lparr>cl_CreateRule := r, cl_UpdateRule := r, cl_DeleteRule := r\<rparr>"

definition with_indexes :: "index list \<Rightarrow> coll \<Rightarrow> coll" where
  "with_indexes ixs c = c\<lparr>cl_indexes := ixs\<rparr>"

section \<open>The base collections\<close>

definition notification_channels_col :: coll where
  "notification_channels_col =
     with_indexes [(''idx_notification_channels_type'', False, [''type''], [])]
     (add_fields [TextField ''name'' True 255,
        SelectField ''type'' True [''email'', ''webhook'', ''telegram'', ''discord''],
        JSONField ''config'' 10000, BoolField ''enabled'']
     (writable (Some authOnly) (readable (Some authOnly) (NewBaseCollection ''notification_channels''))))"

definition agents_col :: coll where
  "agents_col =
     with_indexes [(''idx_agents_token'', True, [''token''], []), (''idx_agents_status'', False, [''status''], []),
       (''idx_agents_hostname'', False, [''hostname''], [])]
     (add_fields [TextField ''hostname'' True 255, TextField ''os'' False 100, TextField ''ip'' False 45,
        TextField ''version'' False 50, SelectField ''status'' True [''online'', ''offline'', ''pending''],
        DateField ''last_seen'' False, TextField ''token'' True 255]
     (writable (Some authOnly) (readable (Some authOnly) (NewBaseCollection ''agents''))))"

definition agent_relation :: "bool \<Rightarrow> bool \<Rightarrow> field" where
  "agent_relation required cascade = RelationField ''agent_id'' required ''agents'' 1 cascade"

definition metrics_col :: coll where
  "metrics_col =
     with_indexes [(''idx_metrics_agent_type_ts'', False, [''agent_id'', ''type'', ''timestamp''], []),
       (''idx_metrics_resolution_ts'', False, [''resolution'', ''timestamp''], []), (''idx_metrics_ts'', False, [''timestamp''], [])]
     (add_fields [agent_relation True True,
        SelectField ''type'' True [''cpu'', ''memory'', ''disk'', ''network'', ''docker'', ''sysinfo'', ''ports'', ''processes'',
          ''hardening'', ''vulnerabilities'', ''diskio'', ''connections'', ''services'', ''oracle''],
        JSONField ''data'' 200000, DateField ''timestamp'' True,
        SelectField ''resolution'' True [''raw'', ''1m'', ''5m'', ''1h'']]
     (readable (Some authOnly) (NewBaseCollection ''metrics'')))"

definition docker_containers_col :: coll where
  "docker_containers_col =
     with_indexes [(''idx_docker_agent'', False, [''agent_id''], []),
       (''idx_docker_agent_container'', True, [''agent_id'', ''container_id''], [])]
     (add_fields [agent_relation True True, TextField ''container_id'' True 64, TextField ''name'' True 255,
        TextField ''image'' False 512, TextField ''status'' False 100, NumberField ''cpu_percent'' False,
        NumberField ''memory_usage'' False, NumberField ''memory_limit'' False, NumberField ''network_rx'' False,
        NumberField ''network_tx'' False, DateField ''updated_at'' False]
     (readable (Some authOnly) (NewBaseCollection ''docker_containers'')))"

definition originalAlertRuleMetricTypes :: "string list" where
  "originalAlertRuleMetricTypes = [''cpu'', ''memory'', ''disk'', ''network'', ''docker'', ''sysinfo'', ''ports'',
     ''processes'', ''hardening'', ''vulnerabilities'']"

definition alert_rules_col :: coll where
  "alert_rules_col =
     with_indexes [(''idx_alert_rules_enabled'', False, [''enabled''], []), (''idx_alert_rules_metric'', False, [''metric_type''], [])]
     (add_fields [TextField ''name'' True 255, SelectField ''metric_type'' True originalAlertRuleMetricTypes,
        SelectField ''condition'' True [''gt'', ''lt'', ''eq''], NumberField ''threshold'' True, NumberField ''duration'' True,
        SelectField ''severity'' True [''warning'', ''critical''], agent_relation False False, BoolField ''enabled'',
        RelationField ''notification_channels'' False ''notification_channels'' 10 False]
     (writable (Some authOnly) (readable (Some authOnly) (NewBaseCollection ''alert_rules''))))"

definition alerts_col :: coll where
  "alerts_col =
     with_indexes [(''idx_alerts_rule'', False, [''rule_id''], []), (''idx_alerts_agent'', False, [''agent_id''], []),
       (''idx_alerts_status'', False, [''status''], []), (''idx_alerts_fired'', False, [''fired_at''], [])]
     (add_fields [RelationField ''rule_id'' True ''alert_rules'' 1 True, agent_relation True True,
        SelectField ''status'' True [''firing'', ''resolved''], NumberField ''value'' False, TextField ''message'' False 1000,
        DateField ''fired_at'' True, DateField ''resolved_at'' False]
     (readable (Some authOnly) (NewBaseCollection ''alerts'')))"

definition settings_col :: coll where
  "settings_col =
     with_indexes [(''idx_settings_key'', True, [''key''], [])]
     (add_fields [TextField ''key'' True 255, JSONField ''value'' 50000]
     (writable (Some authOnly) (readable (Some authOnly) (NewBaseCollection ''settings''))))"

definition collections_up :: "pb \<Rightarrow> schema \<Rightarrow> schema option" where
  "collections_up P =
     each (save_col P) [notification_channels_col, agents_col, metrics_col, docker_containers_col, alert_rules_col,
       alerts_col, settings_col]"

definition collections_down :: "pb \<Rightarrow> schema \<Rightarrow> schema option" where
  "collections_down P =
     each (drop_found P) [''settings'', ''alerts'', ''alert_rules'', ''docker_containers'', ''metrics'', ''agents'',
       ''notification_channels'']"

section \<open>The other collections\<close>

definition audit_log_col :: coll where
  "audit_log_col =
     (with_indexes [(''idx_audit_log_created'', False, [''created''], []), (''idx_audit_log_action'', False, [''action''], []),
        (''idx_audit_log_actor'', False, [''actor_id''], []), (''idx_audit_log_agent'', False, [''agent_id''], [])]
     (add_fields [TextField ''actor_id'' False 255, TextField ''actor_email'' False 255, TextField ''actor_role'' False 50,
        TextField ''action'' True 255, TextField ''target_type'' False 100, TextField ''target_id'' False 255,
        TextField ''agent_id'' False 255, JSONField ''details'' 20000, SelectField ''result'' True [''success'', ''failure''],
        TextField ''ip'' False 64, TextField ''request_id'' False 64, AutodateField ''created'' True False]
     (readable (Some operatorOrAbove) (NewBaseCollection ''audit_log''))))"

definition audit_log_up :: "pb \<Rightarrow> schema \<Rightarrow> schema option" where
  "audit_log_up P = save_col P audit_log_col"

definition audit_log_down :: "pb \<Rightarrow> schema \<Rightarrow> schema option" where
  "audit_log_down P = drop_found P ''audit_log''"

definition checks_col :: coll where
  "checks_col =
     with_indexes [(''idx_checks_enabled'', False, [''enabled''], []), (''idx_checks_type'', False, [''type''], [])]
     (add_fields [TextField ''name'' True 255, SelectField ''type'' True [''http'', ''tcp'', ''icmp''], TextField ''target'' True 2048,
        NumberField ''interval_seconds'' False, NumberField ''timeout_seconds'' False, SelectField ''method'' False [''GET'', ''HEAD''],
        NumberField ''expected_status'' False, TextField ''expected_body_contains'' False 1000, BoolField ''verify_tls'',
        NumberField ''tls_expiry_warn_days'' False, NumberField ''failures_before_down'' False, BoolField ''enabled'',
        JSONField ''tags'' 2000, AutodateField ''created'' True False, AutodateField ''updated'' True True]
     (writable (Some operatorOrAbove) (readable (Some authOnly) (NewBaseCollection ''checks''))))"

definition check_results_col :: coll where
  "check_results_col =
     with_indexes [(''idx_check_results_check_checked'', False, [''check_id'', ''checked_at''], [])]
     (add_fields [RelationField ''check_id'' True ''checks'' 1 True, SelectField ''status'' True [''up'', ''down''],
        NumberField ''latency_ms'' False, NumberField ''status_code'' False, TextField ''error'' False 1000,
        DateField ''tls_expires_at'' False, DateField ''checked_at'' True]
     (readable (Some authOnly) (NewBaseCollection ''check_results'')))"

definition checks_up :: "pb \<Rightarrow> schema \<Rightarrow> schema option" where
  "checks_up P = each (save_col P) [checks_col, check_results_col]"

definition checks_down :: "pb \<Rightarrow> schema \<Rightarrow> schema option" where
  "checks_down P = each (drop_found P) [''check_results'', ''checks'']"

definition hub_secrets_col :: coll where
  "hub_secrets_col = with_indexes [(''idx_hub_secrets_key'', True, [''key''], [])]
     (add_fields [TextField ''key'' True 255, TextField ''value'' True 50000] (NewBaseCollection ''hub_secrets''))"

definition hub_secrets_up :: "pb \<Rightarrow> schema \<Rightarrow> schema option" where
  "hub_secrets_up P = save_col P hub_secrets_col"

definition hub_secrets_down :: "pb \<Rightarrow> schema \<Rightarrow> schema option" where
  "hub_secrets_down P = drop_found P ''hub_secrets''"

definition logs_col :: coll where
  "logs_col =
     with_indexes [(''idx_logs_agent_ts'', False, [''agent_id'', ''ts''], []), (''idx_logs_level_ts'', False, [''level'', ''ts''], []),
       (''idx_logs_unit'', False, [''unit''], [])]
     (add_fields [agent_relation True True, DateField ''ts'' True, TextField ''source'' False 255, TextField ''unit'' False 255,
        SelectField ''level'' True [''error'', ''warning'', ''info'', ''debug''], TextField ''message'' True 8192,
        JSONField ''fields'' 4000, AutodateField ''created'' True False]
     (readable (Some authOnly) (NewBaseCollection ''logs'')))"

definition logs_up :: "pb \<Rightarrow> schema \<Rightarrow> schema option" where
  "logs_up P s =
     do {_ \<leftarrow> map_of s ''agents'';
         s' \<leftarrow> save_col P logs_col s;
         ensure_field P ''agents'' (NumberField ''logs_lines_total'' False) s'}"

text \<open>An error of saving the agents is ignored.\<close>

definition logs_down :: "pb \<Rightarrow> schema \<Rightarrow> schema option" where
  "logs_down P s =
     (let s' = (case map_of s ''agents'' of
                  None \<Rightarrow> s
                | Some c \<Rightarrow>
                    if field_of ''logs_lines_total'' c = None then s
                    else case save_col P (remove_fields [''logs_lines_total''] c) s of None \<Rightarrow> s | Some t \<Rightarrow> t)
      in drop_found P ''logs'' s')"

definition push_subscriptions_col :: coll where
  "push_subscriptions_col =
     with_indexes [(''idx_push_subscriptions_endpoint'', True, [''endpoint''], []),
       (''idx_push_subscriptions_user'', False, [''user_id''], [])]
     (add_fields [RelationField ''user_id'' True ''users'' 1 True, TextField ''endpoint'' True 2000,
        TextField ''p256dh'' True 255, TextField ''auth'' True 255, TextField ''user_agent'' False 500,
        DateField ''last_seen'' False, AutodateField ''created'' True False]
     ((readable (Some ownRow) (NewBaseCollection ''push_subscriptions''))
        \<lparr>cl_CreateRule := Some ownRowCreate, cl_DeleteRule := Some ownRow\<rparr>))"

definition push_subscriptions_up :: "pb \<Rightarrow> schema \<Rightarrow> schema option" where
  "push_subscriptions_up P s = do {_ \<leftarrow> map_of s ''users''; save_col P push_subscriptions_col s}"

definition push_subscriptions_down :: "pb \<Rightarrow> schema \<Rightarrow> schema option" where
  "push_subscriptions_down P = drop_found P ''push_subscriptions''"

definition silences_col :: coll where
  "silences_col =
     with_indexes [(''idx_silences_ends_at'', False, [''ends_at''], []), (''idx_silences_agent'', False, [''agent_id''], [])]
     (add_fields [TextField ''name'' True 255, TextField ''reason'' False 1000, agent_relation False False, JSONField ''tags'' 2000,
        DateField ''starts_at'' True, DateField ''ends_at'' True, TextField ''created_by'' False 255,
        AutodateField ''created'' True False, AutodateField ''updated'' True True]
     (writable (Some operatorOrAbove) (readable (Some authOnly) (NewBaseCollection ''silences''))))"

definition silences_up :: "pb \<Rightarrow> schema \<Rightarrow> schema option" where
  "silences_up P s =
     do {_ \<leftarrow> map_of s ''agents'';
         s' \<leftarrow> save_col P silences_col s;
         ensure_field P ''alerts'' (BoolField ''silenced'') s'}"

definition silences_down :: "pb \<Rightarrow> schema \<Rightarrow> schema option" where
  "silences_down P s = do {s' \<leftarrow> edit_found P ''alerts'' (remove_fields [''silenced'']) s; drop_found P ''silences'' s'}"

definition thread_dumps_col :: coll where
  "thread_dumps_col =
     with_indexes [(''idx_thread_dumps_agent'', False, [''agent_id'', ''taken_at''], [])]
     (add_fields [agent_relation True True, NumberField ''pid'' True, TextField ''process_name'' False 255,
        TextField ''request_id'' True 64, TextField ''output'' False 5000000, TextField ''error'' False 2000,
        SelectField ''status'' True [''pending'', ''success'', ''error''], DateField ''taken_at'' True]
     ((writable (Some authOnly) (readable (Some authOnly) (NewBaseCollection ''thread_dumps'')))\<lparr>cl_UpdateRule := None\<rparr>))"

definition thread_dumps_up :: "pb \<Rightarrow> schema \<Rightarrow> schema option" where
  "thread_dumps_up P s =
     (if map_of s ''thread_dumps'' \<noteq> None then Some s
      else do {_ \<leftarrow> map_of s ''agents''; save_col P thread_dumps_col s})"

definition thread_dumps_down :: "pb \<Rightarrow> schema \<Rightarrow> schema option" where
  "thread_dumps_down P = drop_found P ''thread_dumps''"

section \<open>Changes to collections\<close>

definition agent_update_fields :: "field list" where
  "agent_update_fields = [TextField ''arch'' False 20, TextField ''platform'' False 20,
     SelectField ''update_status'' False [''idle'', ''started'', ''downloading'', ''verifying'', ''installing'', ''restarting'',
       ''failed'', ''done''],
     TextField ''update_error'' False 2000, TextField ''update_target_version'' False 50, DateField ''update_requested_at'' False,
     TextField ''update_requested_by'' False 255]"

definition agent_update_fields_up :: "pb \<Rightarrow> schema \<Rightarrow> schema option" where
  "agent_update_fields_up P = edit P ''agents'' (fold add_missing agent_update_fields)"

definition agent_update_fields_down :: "pb \<Rightarrow> schema \<Rightarrow> schema option" where
  "agent_update_fields_down P = edit_found P ''agents'' (remove_fields (map fd_name agent_update_fields))"

definition cve_scan_metric_type_up :: "pb \<Rightarrow> schema \<Rightarrow> schema option" where
  "cve_scan_metric_type_up P s =
     do {s' \<leftarrow> edit P ''metrics'' (change_values ''type'' (add_value ''cve_scan'')) s;
         edit P ''alert_rules'' (change_values ''metric_type'' (add_value ''cve_count'')) s'}"

definition cve_scan_metric_type_down :: "pb \<Rightarrow> schema \<Rightarrow> schema option" where
  "cve_scan_metric_type_down P s =
     do {s' \<leftarrow> edit P ''metrics'' (change_values ''type'' (drop_values [''cve_scan''])) s;
         edit P ''alert_rules'' (change_values ''metric_type'' (drop_values [''cve_count''])) s'}"

definition docker_update_fields_up :: "pb \<Rightarrow> schema \<Rightarrow> schema option" where
  "docker_update_fields_up P =
     edit P ''docker_containers'' (add_fields [TextField ''image_digest'' False 128, TextField ''remote_digest'' False 128,
       BoolField ''update_available''])"

definition docker_update_fields_down :: "pb \<Rightarrow> schema \<Rightarrow> schema option" where
  "docker_update_fields_down P =
     edit_found P ''docker_containers'' (remove_fields [''image_digest'', ''remote_digest'', ''update_available''])"

definition lifecycle_up :: "pb \<Rightarrow> schema \<Rightarrow> schema option" where
  "lifecycle_up P s =
     do {s1 \<leftarrow> edit P ''alerts'' (fold add_missing [DateField ''acknowledged_at'' False, TextField ''acknowledged_by'' False 255,
           DateField ''escalated_at'' False]) s;
         _ \<leftarrow> map_of s1 ''notification_channels'';
         edit P ''alert_rules'' (fold add_missing [RelationField ''escalation_channels'' False ''notification_channels'' 10 False,
           NumberField ''escalation_after'' False]) s1}"

definition lifecycle_down :: "pb \<Rightarrow> schema \<Rightarrow> schema option" where
  "lifecycle_down P s =
     do {s1 \<leftarrow> edit P ''alerts'' (remove_fields [''acknowledged_at'', ''acknowledged_by'', ''escalated_at'']) s;
         edit P ''alert_rules'' (remove_fields [''escalation_channels'', ''escalation_after'']) s1}"

definition newNotificationChannelTypes :: "string list" where
  "newNotificationChannelTypes = [''slack'', ''teams'', ''pagerduty'', ''ntfy'', ''gotify'']"

definition originalNotificationChannelTypes :: "string list" where
  "originalNotificationChannelTypes = [''email'', ''webhook'', ''telegram'', ''discord'']"

text \<open>A field that is not a select field is left alone, and nothing is saved.\<close>

definition extend_select :: "pb \<Rightarrow> string \<Rightarrow> string \<Rightarrow> (coll \<Rightarrow> coll) \<Rightarrow> schema \<Rightarrow> schema option" where
  "extend_select P n f g s =
     do {c \<leftarrow> map_of s n; if is_select f c then save_col P (g c) s else Some s}"

definition extra_types_up :: "pb \<Rightarrow> schema \<Rightarrow> schema option" where
  "extra_types_up P =
     extend_select P ''notification_channels'' ''type'' (change_values ''type'' (add_values newNotificationChannelTypes))"

definition extra_types_down :: "pb \<Rightarrow> schema \<Rightarrow> schema option" where
  "extra_types_down P =
     edit P ''notification_channels'' (change_values ''type'' (\<lambda>_. originalNotificationChannelTypes))"

definition webpush_type_up :: "pb \<Rightarrow> schema \<Rightarrow> schema option" where
  "webpush_type_up P =
     extend_select P ''notification_channels'' ''type'' (change_values ''type'' (add_value ''webpush''))"

definition webpush_type_down :: "pb \<Rightarrow> schema \<Rightarrow> schema option" where
  "webpush_type_down P = edit P ''notification_channels'' (change_values ''type'' (drop_values [''webpush'']))"

definition rule_agent_tags_up :: "pb \<Rightarrow> schema \<Rightarrow> schema option" where
  "rule_agent_tags_up P s =
     do {s' \<leftarrow> ensure_field P ''agents'' (JSONField ''tags'' 2000) s;
         ensure_field P ''alert_rules'' (JSONField ''target_tags'' 2000) s'}"

definition rule_agent_tags_down :: "pb \<Rightarrow> schema \<Rightarrow> schema option" where
  "rule_agent_tags_down P s =
     do {s' \<leftarrow> edit P ''agents'' (remove_fields [''tags'']) s; edit P ''alert_rules'' (remove_fields [''target_tags'']) s'}"

definition newCheckAlertRuleTypes :: "string list" where
  "newCheckAlertRuleTypes = [''check_down'', ''cert_expiry'']"

fun set_required :: "string \<Rightarrow> bool \<Rightarrow> field \<Rightarrow> field" where
  "set_required n b (RelationField m r c k d) = RelationField m (if m = n then b else r) c k d"
| "set_required n b f = f"

definition require_relation :: "string \<Rightarrow> bool \<Rightarrow> coll \<Rightarrow> coll" where
  "require_relation n b c = c\<lparr>cl_fields := map (set_required n b) (cl_fields c)\<rparr>"

definition rule_check_types_up :: "pb \<Rightarrow> schema \<Rightarrow> schema option" where
  "rule_check_types_up P s =
     do {_ \<leftarrow> map_of s ''checks'';
         s' \<leftarrow> edit P ''alert_rules'' (add_missing (RelationField ''check_id'' False ''checks'' 1 False)
                 \<circ> change_values ''metric_type'' (add_values newCheckAlertRuleTypes)) s;
         edit P ''alerts'' (add_missing (RelationField ''check_id'' False ''checks'' 1 True)
           \<circ> require_relation ''agent_id'' False) s'}"

definition rule_check_types_down :: "pb \<Rightarrow> schema \<Rightarrow> schema option" where
  "rule_check_types_down P s =
     do {s' \<leftarrow> edit P ''alert_rules'' (remove_fields [''check_id'']
                 \<circ> change_values ''metric_type'' (drop_values newCheckAlertRuleTypes)) s;
         edit P ''alerts'' (remove_fields [''check_id''] \<circ> require_relation ''agent_id'' True) s'}"

definition rule_log_match_up :: "pb \<Rightarrow> schema \<Rightarrow> schema option" where
  "rule_log_match_up P =
     extend_select P ''alert_rules'' ''metric_type'' (change_values ''metric_type'' (add_value ''log_match''))"

definition rule_log_match_down :: "pb \<Rightarrow> schema \<Rightarrow> schema option" where
  "rule_log_match_down P = edit P ''alert_rules'' (change_values ''metric_type'' (drop_values [''log_match'']))"

definition newAlertRuleTypes :: "string list" where
  "newAlertRuleTypes = [''process_down'', ''service_failed'', ''agent_offline'']"

definition rule_types_extension_up :: "pb \<Rightarrow> schema \<Rightarrow> schema option" where
  "rule_types_extension_up P =
     extend_select P ''alert_rules'' ''metric_type''
       (add_missing (TextField ''target'' False 255) \<circ> change_values ''metric_type'' (add_values newAlertRuleTypes))"

definition rule_types_extension_down :: "pb \<Rightarrow> schema \<Rightarrow> schema option" where
  "rule_types_extension_down P =
     edit P ''alert_rules'' (remove_fields [''target''] \<circ> change_values ''metric_type'' (\<lambda>_. originalAlertRuleMetricTypes))"

definition silences_check_ids_up :: "pb \<Rightarrow> schema \<Rightarrow> schema option" where
  "silences_check_ids_up P s =
     do {_ \<leftarrow> map_of s ''checks'';
         edit P ''silences'' (add_missing (RelationField ''check_ids'' False ''checks'' 999 False)) s}"

definition silences_check_ids_down :: "pb \<Rightarrow> schema \<Rightarrow> schema option" where
  "silences_check_ids_down P = edit_found P ''silences'' (remove_fields [''check_ids''])"

definition requested_by_up :: "pb \<Rightarrow> schema \<Rightarrow> schema option" where
  "requested_by_up P = ensure_field P ''thread_dumps'' (TextField ''requested_by'' False 255)"

definition requested_by_down :: "pb \<Rightarrow> schema \<Rightarrow> schema option" where
  "requested_by_down P = edit_found P ''thread_dumps'' (remove_fields [''requested_by''])"

definition autodateCollections :: "string list" where
  "autodateCollections = [''agents'', ''metrics'', ''docker_containers'', ''alert_rules'', ''alerts'', ''notification_channels'',
     ''settings'', ''thread_dumps'']"

definition created_index :: "string \<Rightarrow> index" where
  "created_index n = (''idx_'' @ n @ ''_created'', False, [''created''], [])"

definition add_dates :: "pb \<Rightarrow> string \<Rightarrow> schema \<Rightarrow> schema option" where
  "add_dates P n s =
     do {c \<leftarrow> map_of s n;
         if field_of ''created'' c \<noteq> None \<and> field_of ''updated'' c \<noteq> None then Some s
         else save_col P (add_index (created_index n)
                (add_missing (AutodateField ''updated'' True True) (add_missing (AutodateField ''created'' True False) c))) s}"

definition autodate_up :: "pb \<Rightarrow> schema \<Rightarrow> schema option" where
  "autodate_up P = each (add_dates P) autodateCollections"

definition autodate_down :: "pb \<Rightarrow> schema \<Rightarrow> schema option" where
  "autodate_down P =
     each (\<lambda>n. edit_found P n (remove_fields [''created'', ''updated''] \<circ> remove_index (fst (created_index n)))) autodateCollections"

definition restart_required_up :: "pb \<Rightarrow> schema \<Rightarrow> schema option" where
  "restart_required_up P = edit P ''agents'' (change_values ''update_status'' (add_value ''restart_required''))"

definition restart_required_down :: "pb \<Rightarrow> schema \<Rightarrow> schema option" where
  "restart_required_down P = edit_found P ''agents'' (change_values ''update_status'' (drop_values [''restart_required'']))"

definition dropped_messages_up :: "pb \<Rightarrow> schema \<Rightarrow> schema option" where
  "dropped_messages_up P = ensure_field P ''agents'' (NumberField ''dropped_messages'' False)"

definition dropped_messages_down :: "pb \<Rightarrow> schema \<Rightarrow> schema option" where
  "dropped_messages_down P = edit P ''agents'' (remove_fields [''dropped_messages''])"

section \<open>Roles\<close>

definition users_roles_up :: "pb \<Rightarrow> schema \<Rightarrow> schema option" where
  "users_roles_up P s =
     (let users = (case map_of s ''users'' of None \<Rightarrow> pb_NewAuthCollection P ''users'' | Some c \<Rightarrow> c);
          users = users\<lparr>cl_PasswordAuth := True\<rparr>;
          users = add_missing (TextField ''name'' False 255) users;
          users = add_missing (SelectField ''role'' True [''viewer'', ''operator'', ''admin'']) users
      in save_col P (writable (Some adminOnly) (readable (Some authOnly) users)) s)"

definition users_roles_down :: "pb \<Rightarrow> schema \<Rightarrow> schema option" where
  "users_roles_down P =
     edit_found P ''users'' ((\<lambda>c. c\<lparr>cl_CreateRule := Some []\<rparr>) \<circ> writable (Some ownerRule) \<circ> readable (Some ownerRule)
       \<circ> remove_fields [''role''])"

definition operatorManaged :: "string list" where
  "operatorManaged = [''agents'', ''alert_rules'', ''notification_channels'', ''alerts'', ''thread_dumps'']"

definition adminManaged :: "string list" where "adminManaged = [''settings'']"

definition serverOnly :: "string list" where "serverOnly = [''metrics'', ''docker_containers'']"

definition restrict :: "pb \<Rightarrow> string option \<Rightarrow> string \<Rightarrow> schema \<Rightarrow> schema option" where
  "restrict P r n = edit P n (writable r \<circ> readable (Some authOnly))"

definition rbac_up :: "pb \<Rightarrow> schema \<Rightarrow> schema option" where
  "rbac_up P s =
     do {s1 \<leftarrow> each (restrict P (Some operatorOrAbove)) operatorManaged s;
         s2 \<leftarrow> each (restrict P (Some adminOnly)) adminManaged s1;
         each (restrict P None) serverOnly s2}"

definition rbac_down :: "pb \<Rightarrow> schema \<Rightarrow> schema option" where
  "rbac_down P s =
     do {s1 \<leftarrow> each (\<lambda>n. edit_found P n (writable (Some authOnly) \<circ> readable (Some authOnly))) (operatorManaged @ adminManaged) s;
         s2 \<leftarrow> edit_found P ''thread_dumps'' (\<lambda>c. c\<lparr>cl_UpdateRule := None\<rparr>) s1;
         each (\<lambda>n. edit_found P n (writable None \<circ> readable (Some authOnly))) serverOnly s2}"

section \<open>From tokens to hashes\<close>

text \<open>
  The one migration that touches records. A record is seen through its id, its token and its hash; \<open>saves\<close>
  tells whether PocketBase accepts it. Removing the field deletes the tokens.
\<close>

record agent_token =
  at_id :: string
  at_token :: string
  at_token_hash :: string

fun backfill :: "(agent_token \<Rightarrow> bool) \<Rightarrow> (string \<Rightarrow> string) \<Rightarrow> agent_token list \<Rightarrow> agent_token list option" where
  "backfill saves hash [] = Some []"
| "backfill saves hash (r # rs) =
     (if at_token r = [] then map_option ((#) r) (backfill saves hash rs)
      else let r' = r\<lparr>at_token_hash := hash (at_token r)\<rparr>
           in if saves r' then map_option ((#) r') (backfill saves hash rs) else None)"

definition token_hash_field :: field where "token_hash_field = TextField ''token_hash'' False 128"

definition token_hash_up ::
  "pb \<Rightarrow> (agent_token \<Rightarrow> bool) \<Rightarrow> (string \<Rightarrow> string) \<Rightarrow> schema \<times> agent_token list \<Rightarrow> (schema \<times> agent_token list) option" where
  "token_hash_up P saves hash x =
     (case x of (s, rows) \<Rightarrow>
        do {s1 \<leftarrow> ensure_field P ''agents'' token_hash_field s;
            if pb_FindAll P s1 ''agents'' then do {
              rows' \<leftarrow> backfill saves hash rows;
              s2 \<leftarrow> edit P ''agents'' (add_index (''idx_agents_token_hash'', True, [''token_hash''], ''token_hash != '' @ [CHR 0x27, CHR 0x27])
                      \<circ> remove_index ''idx_agents_token'' \<circ> remove_fields [''token'']) s1;
              Some (s2, map (\<lambda>r. r\<lparr>at_token := []\<rparr>) rows')}
            else None})"

text \<open>The tokens do not come back.\<close>

definition token_hash_down :: "pb \<Rightarrow> schema \<Rightarrow> schema option" where
  "token_hash_down P =
     edit P ''agents'' (add_index (''idx_agents_token'', True, [''token''], []) \<circ> remove_index ''idx_agents_token_hash''
       \<circ> add_missing (TextField ''token'' False 255))"

section \<open>The migrations in order\<close>

text \<open>A fresh install runs them in the order of their file names, an upgrade those that are missing.\<close>

definition schema_ups :: "pb \<Rightarrow> (string \<times> (schema \<Rightarrow> schema option)) list" where
  "schema_ups P =
     [(''collections_agent_update_fields.go'', agent_update_fields_up P), (''cve_scan_metric_type.go'', cve_scan_metric_type_up P),
      (''docker_update_fields.go'', docker_update_fields_up P), (''hub_secrets.go'', hub_secrets_up P),
      (''lifecycle_ack_escalation.go'', lifecycle_up P), (''logs.go'', logs_up P),
      (''notification_channels_extra_types.go'', extra_types_up P), (''notification_channels_webpush_type.go'', webpush_type_up P),
      (''push_subscriptions.go'', push_subscriptions_up P), (''rule_agent_tags.go'', rule_agent_tags_up P),
      (''rule_check_types.go'', rule_check_types_up P), (''rule_log_match.go'', rule_log_match_up P),
      (''rule_types_extension.go'', rule_types_extension_up P), (''silences.go'', silences_up P),
      (''silences_check_ids.go'', silences_check_ids_up P), (''thread_dumps.go'', thread_dumps_up P),
      (''thread_dumps_requested_by.go'', requested_by_up P), (''timestamps_autodate_fields.go'', autodate_up P),
      (''update_status_restart_required.go'', restart_required_up P), (''users_roles.go'', users_roles_up P),
      (''users_roles_rbac.go'', rbac_up P), (''websocket_dropped_messages.go'', dropped_messages_up P)]"

definition first_ups :: "pb \<Rightarrow> (string \<times> (schema \<Rightarrow> schema option)) list" where
  "first_ups P = [(''audit_log.go'', audit_log_up P), (''checks.go'', checks_up P), (''collections.go'', collections_up P)]"

definition migrate ::
  "pb \<Rightarrow> (agent_token \<Rightarrow> bool) \<Rightarrow> (string \<Rightarrow> string) \<Rightarrow> schema \<times> agent_token list \<Rightarrow> (schema \<times> agent_token list) option" where
  "migrate P saves hash x =
     (case x of (s, rows) \<Rightarrow>
        do {s1 \<leftarrow> each snd (first_ups P) s;
            (s2, rows') \<leftarrow> token_hash_up P saves hash (s1, rows);
            s3 \<leftarrow> each snd (schema_ups P) s2;
            Some (s3, rows')})"

text \<open>The database before any migration of the hub: the users collection that PocketBase makes.\<close>

definition fresh :: "coll \<Rightarrow> schema" where
  "fresh users = [(''users'', users)]"

end
