(* ===== verification/Schema_Claims.thy ===== *)
theory Schema_Claims
  imports Schema Log_Search
begin

text \<open>
  What the migrations amount to: the effect of each, the schema of a fresh install, who may do what to a
  collection over REST, and how the schema fits the rest of the hub.
\<close>

section \<open>Effects\<close>

definition upd :: "string \<Rightarrow> (coll \<Rightarrow> coll) \<Rightarrow> schema \<Rightarrow> schema" where
  "upd n f s = (case map_of s n of None \<Rightarrow> s | Some c \<Rightarrow> put n (f c) s)"

definition named :: "schema \<Rightarrow> bool" where
  "named s \<longleftrightarrow> (\<forall>n c. map_of s n = Some c \<longrightarrow> cl_name c = n)"

definition keeps_name :: "(coll \<Rightarrow> coll) \<Rightarrow> bool" where
  "keeps_name f \<longleftrightarrow> (\<forall>c. cl_name (f c) = cl_name c)"

text \<open>A migration that succeeds does to the schema what \<open>F\<close> does.\<close>

definition effect :: "(schema \<Rightarrow> schema option) \<Rightarrow> (schema \<Rightarrow> schema) \<Rightarrow> bool" where
  "effect m F \<longleftrightarrow> (\<forall>s s'. named s \<longrightarrow> m s = Some s' \<longrightarrow> named s' \<and> s' = F s)"

named_theorems effects "effects of the shapes migrations are made of"

lemma effectD: "effect m F \<Longrightarrow> named s \<Longrightarrow> m s = Some s' \<Longrightarrow> named s' \<and> s' = F s"
  by (auto simp: effect_def)

lemma map_of_put [simp]: "map_of (put n c s) m = (if m = n then Some c else map_of s m)"
  by (induction n c s rule: put.induct) auto

lemma put_same: "map_of s n = Some c \<Longrightarrow> put n c s = s"
  by (induction n c s rule: put.induct) (auto split: if_splits)

lemma map_of_upd [simp]: "map_of (upd n f s) m = (if m = n then map_option f (map_of s n) else map_of s m)"
  by (auto simp: upd_def split: option.splits)

lemma named_put: "named s \<Longrightarrow> cl_name c = n \<Longrightarrow> named (put n c s)"
  by (auto simp: named_def)

lemma named_upd: "named s \<Longrightarrow> keeps_name f \<Longrightarrow> named (upd n f s)"
  by (auto simp: named_def keeps_name_def)

lemma cl_name_simps [simp]:
  "cl_name (add_missing f c) = cl_name c" "cl_name (change_values n g c) = cl_name c" "cl_name (remove_fields ns c) = cl_name c"
  "cl_name (add_fields fs c) = cl_name c" "cl_name (require_relation n b c) = cl_name c" "cl_name (remove_index n c) = cl_name c"
  "cl_name (add_index i c) = cl_name c" "cl_name (writable r c) = cl_name c" "cl_name (readable r c) = cl_name c"
  "cl_name (with_indexes ixs c) = cl_name c" "cl_name (NewBaseCollection n) = n"
  by (simp_all add: add_missing_def change_values_def remove_fields_def add_fields_def require_relation_def
      remove_index_def add_index_def writable_def readable_def with_indexes_def NewBaseCollection_def Let_def)

lemma effect_save [effects]: "effect (save_col P c) (put (cl_name c) c)"
  by (auto simp: effect_def save_col_def named_put split: if_splits)

lemma effect_edit [effects]: "keeps_name f \<Longrightarrow> effect (edit P n f) (upd n f)"
  by (auto simp: effect_def edit_def save_col_def upd_def named_def keeps_name_def split: if_splits bind_splits)

lemma effect_ensure [effects]: "effect (ensure_field P n f) (upd n (add_missing f))"
proof -
  have "add_missing f c = add_fields [f] c" if "field_of (fd_name f) c = None" for c
    using that by (simp add: add_missing_def add_fields_def)
  moreover have "add_missing f c = c" if "field_of (fd_name f) c \<noteq> None" for c
    using that by (auto simp: add_missing_def)
  ultimately show ?thesis
    by (auto simp: effect_def ensure_field_def save_col_def upd_def named_def put_same split: if_splits bind_splits)
qed

lemma effect_extend [effects]:
  "keeps_name g \<Longrightarrow> effect (extend_select P n f g) (upd n (\<lambda>c. if is_select f c then g c else c))"
  by (auto simp: effect_def extend_select_def save_col_def upd_def named_def keeps_name_def put_same split: if_splits bind_splits)

lemma effect_Nil [effects]: "effect (each f []) id"
  by (simp add: effect_def)

lemma effect_bind [effects]:
  assumes "effect m F" and "effect k G"
  shows "effect (\<lambda>s. m s \<bind> k) (G \<circ> F)"
  unfolding effect_def
proof (intro allI impI)
  fix s s' assume "named s" and "m s \<bind> k = Some s'"
  then obtain t where "m s = Some t" "k t = Some s'" by (cases "m s") simp_all
  with effectD [OF assms(1) \<open>named s\<close>] effectD [OF assms(2)] show "named s' \<and> s' = (G \<circ> F) s" by fastforce
qed

lemma effect_each [effects]:
  assumes "effect (f x) F" and "effect (each f xs) G"
  shows "effect (each f (x # xs)) (G \<circ> F)"
proof -
  have "each f (x # xs) = (\<lambda>s. f x s \<bind> each f xs)" by (rule ext) simp
  then show ?thesis by (simp only:) (rule effect_bind [OF assms])
qed

lemma effect_need [effects]:
  assumes "effect m F"
  shows "effect (\<lambda>s. map_of s n \<bind> (\<lambda>_. m s)) F"
  unfolding effect_def
proof (intro allI impI)
  fix s s' assume "named s" and "map_of s n \<bind> (\<lambda>_. m s) = Some s'"
  then show "named s' \<and> s' = F s" using effectD [OF assms \<open>named s\<close>] by (cases "map_of s n") auto
qed

lemma keeps_name_intros [effects]:
  "keeps_name (add_missing f)" "keeps_name (change_values n g)" "keeps_name (remove_fields ns)" "keeps_name (add_fields fs)"
  "keeps_name (require_relation n b)" "keeps_name (remove_index n)" "keeps_name (add_index i)" "keeps_name (writable r)"
  "keeps_name (readable r)" "keeps_name f1 \<Longrightarrow> keeps_name f2 \<Longrightarrow> keeps_name (f1 \<circ> f2)"
  by (simp_all add: keeps_name_def)

lemma keeps_name_fold [effects]: "keeps_name (fold add_missing fs)"
proof -
  have "cl_name (fold add_missing fs c) = cl_name c" for c
    by (induction fs arbitrary: c) simp_all
  then show ?thesis by (simp add: keeps_name_def)
qed

lemma effect_fold_edit [effects]: "effect (edit P n (fold add_missing fs)) (upd n (fold add_missing fs))"
  by (intro effects)

section \<open>The effect of each migration\<close>

definition dates :: "string \<Rightarrow> coll \<Rightarrow> coll" where
  "dates n c =
     (if field_of ''created'' c \<noteq> None \<and> field_of ''updated'' c \<noteq> None then c
      else add_index (created_index n)
             (add_missing (AutodateField ''updated'' True True) (add_missing (AutodateField ''created'' True False) c)))"

lemma effect_dates [effects]: "effect (add_dates P n) (upd n (dates n))"
  by (auto simp: effect_def add_dates_def save_col_def upd_def named_def dates_def put_same split: if_splits bind_splits)

definition ensure_dumps :: "schema \<Rightarrow> schema" where
  "ensure_dumps s = (if map_of s ''thread_dumps'' = None then put ''thread_dumps'' thread_dumps_col s else s)"

lemma map_of_ensure_dumps [simp]:
  "map_of (ensure_dumps s) m =
     (if m = ''thread_dumps'' then (case map_of s ''thread_dumps'' of None \<Rightarrow> Some thread_dumps_col | Some c \<Rightarrow> Some c) else map_of s m)"
  by (auto simp: ensure_dumps_def split: option.split)

lemma effect_thread_dumps [effects]: "effect (thread_dumps_up P) ensure_dumps"
proof -
  have n: "cl_name thread_dumps_col = ''thread_dumps''" by (simp add: thread_dumps_col_def)
  show ?thesis
    by (auto simp: effect_def thread_dumps_up_def ensure_dumps_def save_col_def named_put n split: if_splits bind_splits)
qed

definition with_roles :: "coll \<Rightarrow> coll" where
  "with_roles c = writable (Some adminOnly) (readable (Some authOnly)
     (add_missing (SelectField ''role'' True [''viewer'', ''operator'', ''admin'']) (add_missing (TextField ''name'' False 255)
       (c\<lparr>cl_PasswordAuth := True\<rparr>))))"

lemma effect_users_roles [effects]:
  "effect (users_roles_up P) (\<lambda>s. let c = (case map_of s ''users'' of None \<Rightarrow> pb_NewAuthCollection P ''users'' | Some c \<Rightarrow> c)
     in put (cl_name c) (with_roles c) s)"
  by (auto simp: effect_def users_roles_up_def with_roles_def save_col_def named_put Let_def split: if_splits)

definition on_metric_type :: "(coll \<Rightarrow> coll) \<Rightarrow> coll \<Rightarrow> coll" where
  "on_metric_type g c = (if is_select ''metric_type'' c then g c else c)"

definition on_type :: "(coll \<Rightarrow> coll) \<Rightarrow> coll \<Rightarrow> coll" where
  "on_type g c = (if is_select ''type'' c then g c else c)"

lemma effect_collections [effects]:
  "effect (audit_log_up P) (put ''audit_log'' audit_log_col)"
  "effect (checks_up P) (put ''check_results'' check_results_col \<circ> put ''checks'' checks_col)"
  "effect (collections_up P) (put ''settings'' settings_col \<circ> put ''alerts'' alerts_col \<circ> put ''alert_rules'' alert_rules_col
     \<circ> put ''docker_containers'' docker_containers_col \<circ> put ''metrics'' metrics_col \<circ> put ''agents'' agents_col
     \<circ> put ''notification_channels'' notification_channels_col)"
  "effect (hub_secrets_up P) (put ''hub_secrets'' hub_secrets_col)"
  "effect (logs_up P) (upd ''agents'' (add_missing (NumberField ''logs_lines_total'' False)) \<circ> put ''logs'' logs_col)"
  "effect (push_subscriptions_up P) (put ''push_subscriptions'' push_subscriptions_col)"
  "effect (silences_up P) (upd ''alerts'' (add_missing (BoolField ''silenced'')) \<circ> put ''silences'' silences_col)"
proof -
  have n: "cl_name audit_log_col = ''audit_log''" "cl_name checks_col = ''checks''" "cl_name check_results_col = ''check_results''"
    "cl_name settings_col = ''settings''" "cl_name alerts_col = ''alerts''" "cl_name alert_rules_col = ''alert_rules''"
    "cl_name docker_containers_col = ''docker_containers''" "cl_name metrics_col = ''metrics''" "cl_name agents_col = ''agents''"
    "cl_name notification_channels_col = ''notification_channels''" "cl_name hub_secrets_col = ''hub_secrets''"
    "cl_name logs_col = ''logs''" "cl_name push_subscriptions_col = ''push_subscriptions''" "cl_name silences_col = ''silences''"
    by (simp_all add: audit_log_col_def checks_col_def check_results_col_def settings_col_def alerts_col_def alert_rules_col_def
        docker_containers_col_def metrics_col_def agents_col_def notification_channels_col_def hub_secrets_col_def logs_col_def
        push_subscriptions_col_def silences_col_def)
  have each_save: "effect (each (save_col P) cs) (\<lambda>s. fold (\<lambda>c. put (cl_name c) c) cs s)" for cs
  proof (induction cs)
    case (Cons c cs)
    from effect_each [where f = "save_col P" and x = c, OF effect_save Cons] show ?case by (simp add: comp_def del: each.simps)
  qed (simp add: effect_def)
  have save: "effect (save_col P c) (put (cl_name c) c)" for c by (rule effect_save)
  show "effect (audit_log_up P) (put ''audit_log'' audit_log_col)" "effect (hub_secrets_up P) (put ''hub_secrets'' hub_secrets_col)"
    using save [of audit_log_col] save [of hub_secrets_col] by (simp_all only: n audit_log_up_def hub_secrets_up_def)
  show "effect (checks_up P) (put ''check_results'' check_results_col \<circ> put ''checks'' checks_col)"
    using each_save [of "[checks_col, check_results_col]"] by (simp add: n checks_up_def comp_def del: each.simps)
  show "effect (collections_up P) (put ''settings'' settings_col \<circ> put ''alerts'' alerts_col \<circ> put ''alert_rules'' alert_rules_col
     \<circ> put ''docker_containers'' docker_containers_col \<circ> put ''metrics'' metrics_col \<circ> put ''agents'' agents_col
     \<circ> put ''notification_channels'' notification_channels_col)"
    using each_save [of "[notification_channels_col, agents_col, metrics_col, docker_containers_col, alert_rules_col,
       alerts_col, settings_col]"] by (simp add: n collections_up_def comp_def del: each.simps)
  have need: "effect (\<lambda>s. map_of s k \<bind> (\<lambda>_. save_col P c s \<bind> ensure_field P a f)) (upd a (add_missing f) \<circ> put (cl_name c) c)" for k c a f
    by (rule effect_need [OF effect_bind [OF save effect_ensure]])
  show "effect (logs_up P) (upd ''agents'' (add_missing (NumberField ''logs_lines_total'' False)) \<circ> put ''logs'' logs_col)"
    using need [of "''agents''" logs_col "''agents''" "NumberField ''logs_lines_total'' False"] by (simp only: n logs_up_def [abs_def])
  show "effect (silences_up P) (upd ''alerts'' (add_missing (BoolField ''silenced'')) \<circ> put ''silences'' silences_col)"
    using need [of "''agents''" silences_col "''alerts''" "BoolField ''silenced''"] by (simp only: n silences_up_def [abs_def])
  show "effect (push_subscriptions_up P) (put ''push_subscriptions'' push_subscriptions_col)"
    using effect_need [OF save [of push_subscriptions_col], of "''users''"] by (simp only: n push_subscriptions_up_def [abs_def])
qed

lemma effect_changes [effects]:
  "effect (agent_update_fields_up P) (upd ''agents'' (fold add_missing agent_update_fields))"
  "effect (docker_update_fields_up P) (upd ''docker_containers'' (add_fields [TextField ''image_digest'' False 128,
     TextField ''remote_digest'' False 128, BoolField ''update_available'']))"
  "effect (extra_types_up P) (upd ''notification_channels''
     (on_type (change_values ''type'' (add_values newNotificationChannelTypes))))"
  "effect (webpush_type_up P) (upd ''notification_channels'' (on_type (change_values ''type'' (add_value ''webpush''))))"
  "effect (rule_log_match_up P) (upd ''alert_rules'' (on_metric_type (change_values ''metric_type'' (add_value ''log_match''))))"
  "effect (rule_types_extension_up P) (upd ''alert_rules'' (on_metric_type
     (add_missing (TextField ''target'' False 255) \<circ> change_values ''metric_type'' (add_values newAlertRuleTypes))))"
  "effect (requested_by_up P) (upd ''thread_dumps'' (add_missing (TextField ''requested_by'' False 255)))"
  "effect (restart_required_up P) (upd ''agents'' (change_values ''update_status'' (add_value ''restart_required'')))"
  "effect (dropped_messages_up P) (upd ''agents'' (add_missing (NumberField ''dropped_messages'' False)))"
  unfolding agent_update_fields_up_def docker_update_fields_up_def extra_types_up_def webpush_type_up_def rule_log_match_up_def
    rule_types_extension_up_def requested_by_up_def restart_required_up_def dropped_messages_up_def on_type_def [abs_def]
    on_metric_type_def [abs_def]
  by (intro effects)+

lemma effect_pairs [effects]:
  "effect (cve_scan_metric_type_up P) (upd ''alert_rules'' (change_values ''metric_type'' (add_value ''cve_count''))
     \<circ> upd ''metrics'' (change_values ''type'' (add_value ''cve_scan'')))"
  "effect (rule_agent_tags_up P) (upd ''alert_rules'' (add_missing (JSONField ''target_tags'' 2000))
     \<circ> upd ''agents'' (add_missing (JSONField ''tags'' 2000)))"
  unfolding cve_scan_metric_type_up_def [abs_def] rule_agent_tags_up_def [abs_def]
  by (intro effects)+

lemma effect_lifecycle [effects]:
  "effect (lifecycle_up P)
     (upd ''alert_rules'' (fold add_missing [RelationField ''escalation_channels'' False ''notification_channels'' 10 False,
        NumberField ''escalation_after'' False])
      \<circ> upd ''alerts'' (fold add_missing [DateField ''acknowledged_at'' False, TextField ''acknowledged_by'' False 255,
        DateField ''escalated_at'' False]))"
  unfolding lifecycle_up_def [abs_def]
  by (rule effect_bind [OF effect_fold_edit effect_need [OF effect_fold_edit]])

lemma effect_check_types [effects]:
  "effect (rule_check_types_up P)
     (upd ''alerts'' (add_missing (RelationField ''check_id'' False ''checks'' 1 True) \<circ> require_relation ''agent_id'' False)
      \<circ> upd ''alert_rules'' (add_missing (RelationField ''check_id'' False ''checks'' 1 False)
        \<circ> change_values ''metric_type'' (add_values newCheckAlertRuleTypes)))"
  unfolding rule_check_types_up_def [abs_def]
  by (intro effects)

lemma effect_check_ids [effects]:
  "effect (silences_check_ids_up P) (upd ''silences'' (add_missing (RelationField ''check_ids'' False ''checks'' 999 False)))"
  unfolding silences_check_ids_up_def [abs_def]
  by (intro effects)

definition dated :: "schema \<Rightarrow> schema" where
  "dated s = fold (\<lambda>n. upd n (dates n)) autodateCollections s"

lemma effect_autodate [effects]: "effect (autodate_up P) dated"
proof -
  have "effect (each (add_dates P) ns) (fold (\<lambda>n. upd n (dates n)) ns)" for ns
  proof (induction ns)
    case (Cons n ns)
    from effect_each [where f = "add_dates P" and x = n, OF effect_dates Cons] show ?case by (simp add: comp_def del: each.simps)
  qed (simp add: effect_def)
  then show ?thesis by (simp add: autodate_up_def dated_def [abs_def])
qed

definition restricted :: "string option \<Rightarrow> string list \<Rightarrow> schema \<Rightarrow> schema" where
  "restricted r ns s = fold (\<lambda>n. upd n (writable r \<circ> readable (Some authOnly))) ns s"

lemma effect_rbac [effects]:
  "effect (rbac_up P) (restricted None serverOnly \<circ> restricted (Some adminOnly) adminManaged
     \<circ> restricted (Some operatorOrAbove) operatorManaged)"
proof -
  have one: "effect (restrict P r n) (upd n (writable r \<circ> readable (Some authOnly)))" for r n
    unfolding restrict_def by (intro effects)
  have all: "effect (each (restrict P r) ns) (restricted r ns)" for r ns
  proof (induction ns)
    case (Cons n ns)
    from effect_each [where f = "restrict P r" and x = n, OF one Cons] show ?case
      by (simp add: restricted_def [abs_def] comp_def del: each.simps)
  qed (simp add: effect_def restricted_def)
  show ?thesis unfolding rbac_up_def [abs_def] by (rule effect_bind [OF all effect_bind [OF all all]])
qed

section \<open>The schema of a fresh install\<close>

definition hashed :: "schema \<Rightarrow> schema" where
  "hashed = upd ''agents'' (add_index (''idx_agents_token_hash'', True, [''token_hash''], ''token_hash != '' @ [CHR 0x27, CHR 0x27])
       \<circ> remove_index ''idx_agents_token'' \<circ> remove_fields [''token'']) \<circ> upd ''agents'' (add_missing token_hash_field)"

lemma token_hash_up_effect:
  assumes "named s" and "token_hash_up P saves hash (s, rows) = Some (s', rows')"
  shows "named s' \<and> s' = hashed s \<and> (\<exists>rs. backfill saves hash rows = Some rs \<and> rows' = map (\<lambda>r. r\<lparr>at_token := []\<rparr>) rs)"
proof -
  let ?f = "add_index (''idx_agents_token_hash'', True, [''token_hash''], ''token_hash != '' @ [CHR 0x27, CHR 0x27])
       \<circ> remove_index ''idx_agents_token'' \<circ> remove_fields [''token'']"
  from assms(2) obtain s1 rs where s1: "ensure_field P ''agents'' token_hash_field s = Some s1"
    and rs: "backfill saves hash rows = Some rs" and s': "edit P ''agents'' ?f s1 = Some s'"
    and rows': "rows' = map (\<lambda>r. r\<lparr>at_token := []\<rparr>) rs"
    by (auto simp: token_hash_up_def split: bind_splits if_splits)
  from effectD [OF effect_ensure assms(1) s1] have "named s1" and e1: "s1 = upd ''agents'' (add_missing token_hash_field) s" by blast+
  have "effect (edit P ''agents'' ?f) (upd ''agents'' ?f)" by (intro effects)
  from effectD [OF this \<open>named s1\<close> s'] have "named s'" and "s' = upd ''agents'' ?f s1" by blast+
  with e1 rs rows' show ?thesis by (auto simp: hashed_def)
qed

lemma effect_run:
  "list_all2 (\<lambda>p F. effect (snd p) F) ms Fs \<Longrightarrow> effect (each snd ms) (fold (\<lambda>F. F) Fs)"
proof (induction ms Fs rule: list_all2_induct)
  case (Cons p ms F Fs)
  from effect_each [where f = snd and x = p, OF Cons(1,3)] show ?case by (simp add: comp_def del: each.simps)
qed (simp add: effect_def)

lemma effect_runs [effects]:
  "list_all2 Q [] []" "Q x y \<Longrightarrow> list_all2 Q xs ys \<Longrightarrow> list_all2 Q (x # xs) (y # ys)"
  by simp_all

definition first_effects :: "(schema \<Rightarrow> schema) list" where
  "first_effects = [put ''audit_log'' audit_log_col, put ''check_results'' check_results_col \<circ> put ''checks'' checks_col,
     put ''settings'' settings_col \<circ> put ''alerts'' alerts_col \<circ> put ''alert_rules'' alert_rules_col
     \<circ> put ''docker_containers'' docker_containers_col \<circ> put ''metrics'' metrics_col \<circ> put ''agents'' agents_col
     \<circ> put ''notification_channels'' notification_channels_col]"

lemma effect_first: "effect (each snd (first_ups P)) (fold (\<lambda>F. F) first_effects)"
  unfolding first_ups_def first_effects_def
  by (rule effect_run) (simp only: list_all2_Cons list_all2_Nil snd_conv simp_thms, intro conjI effects)

text \<open>The collections of a fresh install; those not listed stay as they were created.\<close>

abbreviation by_operators :: "coll \<Rightarrow> coll" where
  "by_operators c \<equiv> writable (Some operatorOrAbove) (readable (Some authOnly) c)"

definition agents_final :: coll where
  "agents_final = add_missing (NumberField ''dropped_messages'' False) (by_operators
     (change_values ''update_status'' (add_value ''restart_required'') (dates ''agents'' (add_missing (JSONField ''tags'' 2000)
     (add_missing (NumberField ''logs_lines_total'' False) (fold add_missing agent_update_fields
     (add_index (''idx_agents_token_hash'', True, [''token_hash''], ''token_hash != '' @ [CHR 0x27, CHR 0x27])
     (remove_index ''idx_agents_token'' (remove_fields [''token''] (add_missing token_hash_field agents_col))))))))))"

definition alert_rules_final :: coll where
  "alert_rules_final = by_operators (dates ''alert_rules''
     (on_metric_type (add_missing (TextField ''target'' False 255) \<circ> change_values ''metric_type'' (add_values newAlertRuleTypes))
     (on_metric_type (change_values ''metric_type'' (add_value ''log_match''))
     (add_missing (RelationField ''check_id'' False ''checks'' 1 False)
     (change_values ''metric_type'' (add_values newCheckAlertRuleTypes)
     (add_missing (JSONField ''target_tags'' 2000)
     (fold add_missing [RelationField ''escalation_channels'' False ''notification_channels'' 10 False, NumberField ''escalation_after'' False]
     (change_values ''metric_type'' (add_value ''cve_count'') alert_rules_col))))))))"

definition alerts_final :: coll where
  "alerts_final = by_operators (dates ''alerts'' (add_missing (BoolField ''silenced'')
     (add_missing (RelationField ''check_id'' False ''checks'' 1 True) (require_relation ''agent_id'' False
     (fold add_missing [DateField ''acknowledged_at'' False, TextField ''acknowledged_by'' False 255, DateField ''escalated_at'' False]
       alerts_col)))))"

definition notification_channels_final :: coll where
  "notification_channels_final = by_operators (dates ''notification_channels''
     (on_type (change_values ''type'' (add_value ''webpush''))
     (on_type (change_values ''type'' (add_values newNotificationChannelTypes)) notification_channels_col)))"

definition metrics_final :: coll where
  "metrics_final = writable None (readable (Some authOnly) (dates ''metrics''
     (change_values ''type'' (add_value ''cve_scan'') metrics_col)))"

definition docker_containers_final :: coll where
  "docker_containers_final = writable None (readable (Some authOnly) (dates ''docker_containers''
     (add_fields [TextField ''image_digest'' False 128, TextField ''remote_digest'' False 128, BoolField ''update_available'']
       docker_containers_col)))"

definition settings_final :: coll where
  "settings_final = writable (Some adminOnly) (readable (Some authOnly) (dates ''settings'' settings_col))"

definition thread_dumps_final :: coll where
  "thread_dumps_final = by_operators (dates ''thread_dumps''
     (add_missing (TextField ''requested_by'' False 255) thread_dumps_col))"

definition silences_final :: coll where
  "silences_final = add_missing (RelationField ''check_ids'' False ''checks'' 999 False) silences_col"

definition early_effects :: "(schema \<Rightarrow> schema) list" where
  "early_effects =
     [upd ''agents'' (fold add_missing agent_update_fields),
      upd ''alert_rules'' (change_values ''metric_type'' (add_value ''cve_count''))
        \<circ> upd ''metrics'' (change_values ''type'' (add_value ''cve_scan'')),
      upd ''docker_containers'' (add_fields [TextField ''image_digest'' False 128,
        TextField ''remote_digest'' False 128, BoolField ''update_available'']),
      put ''hub_secrets'' hub_secrets_col,
      upd ''alert_rules'' (fold add_missing [RelationField ''escalation_channels'' False ''notification_channels'' 10 False,
        NumberField ''escalation_after'' False])
        \<circ> upd ''alerts'' (fold add_missing [DateField ''acknowledged_at'' False, TextField ''acknowledged_by'' False 255,
          DateField ''escalated_at'' False]),
      upd ''agents'' (add_missing (NumberField ''logs_lines_total'' False)) \<circ> put ''logs'' logs_col,
      upd ''notification_channels'' (on_type (change_values ''type'' (add_values newNotificationChannelTypes))),
      upd ''notification_channels'' (on_type (change_values ''type'' (add_value ''webpush''))),
      put ''push_subscriptions'' push_subscriptions_col,
      upd ''alert_rules'' (add_missing (JSONField ''target_tags'' 2000)) \<circ> upd ''agents'' (add_missing (JSONField ''tags'' 2000)),
      upd ''alerts'' (add_missing (RelationField ''check_id'' False ''checks'' 1 True) \<circ> require_relation ''agent_id'' False)
        \<circ> upd ''alert_rules'' (add_missing (RelationField ''check_id'' False ''checks'' 1 False)
          \<circ> change_values ''metric_type'' (add_values newCheckAlertRuleTypes)),
      upd ''alert_rules'' (on_metric_type (change_values ''metric_type'' (add_value ''log_match''))),
      upd ''alert_rules'' (on_metric_type
        (add_missing (TextField ''target'' False 255) \<circ> change_values ''metric_type'' (add_values newAlertRuleTypes))),
      upd ''alerts'' (add_missing (BoolField ''silenced'')) \<circ> put ''silences'' silences_col,
      upd ''silences'' (add_missing (RelationField ''check_ids'' False ''checks'' 999 False)),
      ensure_dumps,
      upd ''thread_dumps'' (add_missing (TextField ''requested_by'' False 255)),
      dated,
      upd ''agents'' (change_values ''update_status'' (add_value ''restart_required''))]"

definition late_effects :: "pb \<Rightarrow> (schema \<Rightarrow> schema) list" where
  "late_effects P =
     [\<lambda>s. let c = (case map_of s ''users'' of None \<Rightarrow> pb_NewAuthCollection P ''users'' | Some c \<Rightarrow> c)
           in put (cl_name c) (with_roles c) s,
      restricted None serverOnly \<circ> restricted (Some adminOnly) adminManaged \<circ> restricted (Some operatorOrAbove) operatorManaged,
      upd ''agents'' (add_missing (NumberField ''dropped_messages'' False))]"

lemma effect_schema: "effect (each snd (schema_ups P)) (fold (\<lambda>F. F) (early_effects @ late_effects P))"
  unfolding schema_ups_def early_effects_def late_effects_def append.simps
  by (rule effect_run) (simp only: list_all2_Cons list_all2_Nil snd_conv simp_thms, intro conjI effects)

lemma migrate_effect:
  assumes "cl_name u = ''users''" and "migrate P saves hash (fresh u, rows) = Some (s, rows')"
  shows "s = fold (\<lambda>F. F) (early_effects @ late_effects P) (hashed (fold (\<lambda>F. F) first_effects (fresh u)))
    \<and> (\<exists>rs. backfill saves hash rows = Some rs \<and> rows' = map (\<lambda>r. r\<lparr>at_token := []\<rparr>) rs)"
proof -
  from assms(2) obtain s1 s2 where m: "each snd (first_ups P) (fresh u) = Some s1"
    "token_hash_up P saves hash (s1, rows) = Some (s2, rows')" "each snd (schema_ups P) s2 = Some s"
    by (auto simp: migrate_def split: bind_splits prod.splits)
  have "named (fresh u)" using assms(1) by (simp add: named_def fresh_def)
  from effectD [OF effect_first this m(1)] have s1: "named s1" "s1 = fold (\<lambda>F. F) first_effects (fresh u)" by blast+
  from token_hash_up_effect [OF s1(1) m(2)] have s2: "named s2" "s2 = hashed s1"
    "\<exists>rs. backfill saves hash rows = Some rs \<and> rows' = map (\<lambda>r. r\<lparr>at_token := []\<rparr>) rs" by blast+
  from effectD [OF effect_schema s2(1) m(3)] s1(2) s2(2,3) show ?thesis by simp
qed

text \<open>Before roles are introduced.\<close>

definition before_roles :: "coll \<Rightarrow> schema" where
  "before_roles u = fold (\<lambda>F. F) early_effects (hashed (fold (\<lambda>F. F) first_effects (fresh u)))"

lemmas early_defs = early_effects_def first_effects_def hashed_def fresh_def dated_def autodateCollections_def

lemma before_roles_at:
  "map_of (before_roles u) ''users'' = Some u"
  "map_of (before_roles u) ''checks'' = Some checks_col"
  "map_of (before_roles u) ''check_results'' = Some check_results_col"
  "map_of (before_roles u) ''logs'' = Some logs_col"
  "map_of (before_roles u) ''audit_log'' = Some audit_log_col"
  "map_of (before_roles u) ''hub_secrets'' = Some hub_secrets_col"
  "map_of (before_roles u) ''push_subscriptions'' = Some push_subscriptions_col"
  "map_of (before_roles u) ''silences'' = Some silences_final"
  "map_of (before_roles u) ''settings'' = Some (dates ''settings'' settings_col)"
  by (simp_all add: before_roles_def early_defs silences_final_def)

lemma before_roles_agents:
  "map_of (before_roles u) ''agents'' = Some (change_values ''update_status'' (add_value ''restart_required'') (dates ''agents'' (add_missing (JSONField ''tags'' 2000)
     (add_missing (NumberField ''logs_lines_total'' False) (fold add_missing agent_update_fields
     (add_index (''idx_agents_token_hash'', True, [''token_hash''], ''token_hash != '' @ [CHR 0x27, CHR 0x27])
     (remove_index ''idx_agents_token'' (remove_fields [''token''] (add_missing token_hash_field agents_col)))))))))"
  by (simp add: before_roles_def early_defs)

lemma before_roles_alert_rules:
  "map_of (before_roles u) ''alert_rules'' = Some (dates ''alert_rules''
     (on_metric_type (add_missing (TextField ''target'' False 255) \<circ> change_values ''metric_type'' (add_values newAlertRuleTypes))
     (on_metric_type (change_values ''metric_type'' (add_value ''log_match''))
     (add_missing (RelationField ''check_id'' False ''checks'' 1 False)
     (change_values ''metric_type'' (add_values newCheckAlertRuleTypes)
     (add_missing (JSONField ''target_tags'' 2000)
     (fold add_missing [RelationField ''escalation_channels'' False ''notification_channels'' 10 False, NumberField ''escalation_after'' False]
     (change_values ''metric_type'' (add_value ''cve_count'') alert_rules_col))))))))"
  by (simp add: before_roles_def early_defs)

lemma before_roles_alerts:
  "map_of (before_roles u) ''alerts'' = Some (dates ''alerts'' (add_missing (BoolField ''silenced'')
     (add_missing (RelationField ''check_id'' False ''checks'' 1 True) (require_relation ''agent_id'' False
     (fold add_missing [DateField ''acknowledged_at'' False, TextField ''acknowledged_by'' False 255, DateField ''escalated_at'' False]
       alerts_col)))))"
  by (simp add: before_roles_def early_defs)

lemma before_roles_notification_channels:
  "map_of (before_roles u) ''notification_channels'' = Some (dates ''notification_channels''
     (on_type (change_values ''type'' (add_value ''webpush''))
     (on_type (change_values ''type'' (add_values newNotificationChannelTypes)) notification_channels_col)))"
  by (simp add: before_roles_def early_defs)

lemma before_roles_thread_dumps:
  "map_of (before_roles u) ''thread_dumps'' = Some (dates ''thread_dumps''
     (add_missing (TextField ''requested_by'' False 255) thread_dumps_col))"
  by (simp add: before_roles_def early_defs)

lemma before_roles_metrics:
  "map_of (before_roles u) ''metrics'' = Some (dates ''metrics''
     (change_values ''type'' (add_value ''cve_scan'') metrics_col))"
  by (simp add: before_roles_def early_defs)

lemma before_roles_docker_containers:
  "map_of (before_roles u) ''docker_containers'' = Some (dates ''docker_containers''
     (add_fields [TextField ''image_digest'' False 128, TextField ''remote_digest'' False 128, BoolField ''update_available'']
       docker_containers_col))"
  by (simp add: before_roles_def early_defs)

lemma final_collections:
  assumes "cl_name u = ''users''" and "migrate P saves hash (fresh u, rows) = Some (s, rows')"
  shows "map_of s ''agents'' = Some agents_final"
    and "map_of s ''alert_rules'' = Some alert_rules_final"
    and "map_of s ''alerts'' = Some alerts_final"
    and "map_of s ''notification_channels'' = Some notification_channels_final"
    and "map_of s ''metrics'' = Some metrics_final"
    and "map_of s ''docker_containers'' = Some docker_containers_final"
    and "map_of s ''settings'' = Some settings_final"
    and "map_of s ''thread_dumps'' = Some thread_dumps_final"
    and "map_of s ''silences'' = Some silences_final"
    and "map_of s ''users'' = Some (with_roles u)"
    and "map_of s ''checks'' = Some checks_col"
    and "map_of s ''check_results'' = Some check_results_col"
    and "map_of s ''logs'' = Some logs_col"
    and "map_of s ''audit_log'' = Some audit_log_col"
    and "map_of s ''hub_secrets'' = Some hub_secrets_col"
    and "map_of s ''push_subscriptions'' = Some push_subscriptions_col"
proof -
  have "s = fold (\<lambda>F. F) (late_effects P) (before_roles u)"
    using migrate_effect [OF assms, THEN conjunct1] by (simp only: fold_append comp_apply before_roles_def)
  then have s: "s = upd ''agents'' (add_missing (NumberField ''dropped_messages'' False))
      (restricted None serverOnly (restricted (Some adminOnly) adminManaged (restricted (Some operatorOrAbove) operatorManaged
        (put ''users'' (with_roles u) (before_roles u)))))"
    by (simp add: late_effects_def before_roles_at(1) assms(1))
  note d = s restricted_def operatorManaged_def adminManaged_def serverOnly_def
  show "map_of s ''agents'' = Some agents_final" by (simp add: d before_roles_agents agents_final_def)
  show "map_of s ''alert_rules'' = Some alert_rules_final" by (simp add: d before_roles_alert_rules alert_rules_final_def)
  show "map_of s ''alerts'' = Some alerts_final" by (simp add: d before_roles_alerts alerts_final_def)
  show "map_of s ''notification_channels'' = Some notification_channels_final" by (simp add: d before_roles_notification_channels notification_channels_final_def)
  show "map_of s ''metrics'' = Some metrics_final" by (simp add: d before_roles_metrics metrics_final_def)
  show "map_of s ''docker_containers'' = Some docker_containers_final" by (simp add: d before_roles_docker_containers docker_containers_final_def)
  show "map_of s ''settings'' = Some settings_final" by (simp add: d before_roles_at settings_final_def)
  show "map_of s ''thread_dumps'' = Some thread_dumps_final" by (simp add: d before_roles_thread_dumps thread_dumps_final_def)
  show "map_of s ''silences'' = Some silences_final" by (simp add: d before_roles_at)
  show "map_of s ''users'' = Some (with_roles u)" by (simp add: d)
  show "map_of s ''checks'' = Some checks_col" by (simp add: d before_roles_at)
  show "map_of s ''check_results'' = Some check_results_col" by (simp add: d before_roles_at)
  show "map_of s ''logs'' = Some logs_col" by (simp add: d before_roles_at)
  show "map_of s ''audit_log'' = Some audit_log_col" by (simp add: d before_roles_at)
  show "map_of s ''hub_secrets'' = Some hub_secrets_col" by (simp add: d before_roles_at)
  show "map_of s ''push_subscriptions'' = Some push_subscriptions_col" by (simp add: d before_roles_at)
qed

section \<open>A fresh install succeeds\<close>

text \<open>\<open>m\<close> succeeds on a schema that has the collections \<open>D\<close>, keeps what is there and adds \<open>E\<close>.\<close>

definition lives :: "(schema \<Rightarrow> schema option) \<Rightarrow> string set \<Rightarrow> string set \<Rightarrow> bool" where
  "lives m D E \<longleftrightarrow> (\<forall>s. D \<subseteq> dom (map_of s) \<longrightarrow> (\<exists>s'. m s = Some s' \<and> dom (map_of s) \<union> E \<subseteq> dom (map_of s')))"

definition accepting :: "pb \<Rightarrow> bool" where
  "accepting P \<longleftrightarrow> (\<forall>s c. pb_saves P s c) \<and> (\<forall>s n. pb_FindAll P s n)"

named_theorems living "which collections a migration needs and adds"

lemma livesD: "lives m D E \<Longrightarrow> D \<subseteq> dom (map_of s) \<Longrightarrow> \<exists>s'. m s = Some s' \<and> dom (map_of s) \<union> E \<subseteq> dom (map_of s')"
  by (simp add: lives_def)

lemma dom_put: "dom (map_of (put n c s)) = insert n (dom (map_of s))"
  by auto

lemma lives_save: "accepting P \<Longrightarrow> lives (save_col P c) D {cl_name c}"
  by (simp add: lives_def save_col_def accepting_def dom_put del: map_of_put) blast

lemma lives_at:
  assumes "n \<in> D" and "\<And>s c. map_of s n = Some c \<Longrightarrow> m s = Some s \<or> (\<exists>k c'. m s = Some (put k c' s))"
  shows "lives m D {}"
  unfolding lives_def
proof (intro allI impI)
  fix s :: schema assume "D \<subseteq> dom (map_of s)"
  with assms(1) obtain c where "map_of s n = Some c" by blast
  from assms(2) [OF this] show "\<exists>s'. m s = Some s' \<and> dom (map_of s) \<union> {} \<subseteq> dom (map_of s')"
  proof (elim disjE exE)
    fix k c' assume "m s = Some (put k c' s)"
    then show ?thesis by (simp add: dom_put subset_insertI del: map_of_put)
  qed simp
qed

lemma lives_edits [living]:
  assumes "accepting P" and "n \<in> D"
  shows "lives (edit P n f) D {}" "lives (ensure_field P n g) D {}" "lives (extend_select P n k f) D {}" "lives (add_dates P n) D {}"
proof -
  note ok = assms(1) [unfolded accepting_def, THEN conjunct1, rule_format]
  show "lives (edit P n f) D {}" by (rule lives_at [OF assms(2)]) (auto simp: edit_def save_col_def ok)
  show "lives (ensure_field P n g) D {}" by (rule lives_at [OF assms(2)]) (auto simp: ensure_field_def save_col_def ok)
  show "lives (extend_select P n k f) D {}" by (rule lives_at [OF assms(2)]) (auto simp: extend_select_def save_col_def ok)
  show "lives (add_dates P n) D {}" by (rule lives_at [OF assms(2)]) (auto simp: add_dates_def save_col_def ok)
qed

lemma lives_bind:
  assumes "lives m D E" and "lives k (D \<union> E) E'"
  shows "lives (\<lambda>s. m s \<bind> k) D (E \<union> E')"
  unfolding lives_def
proof (intro allI impI)
  fix s :: schema assume "D \<subseteq> dom (map_of s)"
  with livesD [OF assms(1)] obtain s1 where s1: "m s = Some s1" "dom (map_of s) \<union> E \<subseteq> dom (map_of s1)" by blast
  with \<open>D \<subseteq> dom (map_of s)\<close> have "D \<union> E \<subseteq> dom (map_of s1)" by blast
  from livesD [OF assms(2) this] obtain s2 where "k s1 = Some s2" "dom (map_of s1) \<union> E' \<subseteq> dom (map_of s2)" by blast
  moreover from this(2) s1(2) have "dom (map_of s) \<union> (E \<union> E') \<subseteq> dom (map_of s2)" by blast
  ultimately show "\<exists>s'. (m s \<bind> k) = Some s' \<and> dom (map_of s) \<union> (E \<union> E') \<subseteq> dom (map_of s')" using s1(1) by simp
qed

lemma lives_need:
  assumes "lives m D E" and "n \<in> D"
  shows "lives (\<lambda>s. map_of s n \<bind> (\<lambda>_. m s)) D E"
  unfolding lives_def
proof (intro allI impI)
  fix s :: schema assume D: "D \<subseteq> dom (map_of s)"
  with assms(2) obtain c where "map_of s n = Some c" by blast
  with livesD [OF assms(1) D] show "\<exists>s'. map_of s n \<bind> (\<lambda>_. m s) = Some s' \<and> dom (map_of s) \<union> E \<subseteq> dom (map_of s')" by simp
qed

lemma lives_Nil: "lives (each f []) D {}"
  by (simp add: lives_def)

lemma lives_each: "lives (f x) D E \<Longrightarrow> lives (each f xs) (D \<union> E) E' \<Longrightarrow> lives (each f (x # xs)) D (E \<union> E')"
proof -
  have "each f (x # xs) = (\<lambda>s. f x s \<bind> each f xs)" by (rule ext) simp
  then show "lives (f x) D E \<Longrightarrow> lives (each f xs) (D \<union> E) E' \<Longrightarrow> lives (each f (x # xs)) D (E \<union> E')"
    by (simp only:) (rule lives_bind)
qed

text \<open>Changes of present collections, one after the other.\<close>

lemma lives_changes: "(\<And>x. x \<in> set xs \<Longrightarrow> lives (f x) D {}) \<Longrightarrow> lives (each f xs) D {}"
proof (induction xs)
  case (Cons x xs)
  then show ?case using lives_each [of f x D "{}" xs "{}"] by (simp del: each.simps)
qed (rule lives_Nil)

lemma lives_two: "lives m D {} \<Longrightarrow> lives k D {} \<Longrightarrow> lives (\<lambda>s. m s \<bind> k) D {}"
  using lives_bind [of m D "{}" k "{}"] by simp

lemma lives_saves: "accepting P \<Longrightarrow> lives (each (save_col P) cs) D (cl_name ` set cs)"
proof (induction cs arbitrary: D)
  case (Cons c cs)
  from lives_each [where f = "save_col P" and x = c, OF lives_save [OF Cons.prems] Cons.IH [OF Cons.prems]]
  show ?case by (simp del: each.simps)
qed (simp add: lives_Nil del: each.simps)

lemma lives_stay: "lives (snd p) D {} \<Longrightarrow> lives (each snd ps) D {} \<Longrightarrow> lives (each snd (p # ps)) D {}"
  using lives_each [of snd p D "{}" ps "{}"] by (simp del: each.simps)

lemma lives_weaken: "lives m D E \<Longrightarrow> D \<subseteq> D' \<Longrightarrow> E' \<subseteq> E \<Longrightarrow> lives m D' E'"
  unfolding lives_def by (meson Un_mono order_refl subset_trans)

lemma lives_add: "lives (snd p) D {n} \<Longrightarrow> lives (each snd ps) (insert n D) {} \<Longrightarrow> lives (each snd (p # ps)) D {}"
  using lives_each [of snd p D "{n}" ps "{}"] lives_weaken [of "each snd (p # ps)" D "{n}" D "{}"]
  by (simp del: each.simps)

lemma lives_map: "lives m D E \<Longrightarrow> lives (\<lambda>s. m s) D E"
  by simp

definition base_collections :: "string set" where
  "base_collections = insert ''users'' ({''audit_log''} \<union> ({''checks'', ''check_results''} \<union>
      ({''notification_channels'', ''agents'', ''metrics'', ''docker_containers'', ''alert_rules'', ''alerts'', ''settings''} \<union> {})))"

lemma lives_insert: "lives m {n} E \<Longrightarrow> lives m {n} (insert n E)"
  unfolding lives_def by (metis Un_insert_left Un_insert_right insert_absorb insert_subset)

lemma lives_first: "accepting P \<Longrightarrow> lives (each snd (first_ups P)) {''users''} base_collections"
proof -
  assume ok: "accepting P"
  have n: "cl_name audit_log_col = ''audit_log''" "cl_name ` set [checks_col, check_results_col] = {''checks'', ''check_results''}"
    "cl_name ` set [notification_channels_col, agents_col, metrics_col, docker_containers_col, alert_rules_col, alerts_col, settings_col]
      = {''notification_channels'', ''agents'', ''metrics'', ''docker_containers'', ''alert_rules'', ''alerts'', ''settings''}"
    by (simp_all add: audit_log_col_def checks_col_def check_results_col_def settings_col_def alerts_col_def alert_rules_col_def
        docker_containers_col_def metrics_col_def agents_col_def notification_channels_col_def)
  have "lives (snd (''audit_log.go'', audit_log_up P)) {''users''} {''audit_log''}"
    using lives_save [OF ok, of audit_log_col] by (simp add: audit_log_up_def n)
  moreover have "lives (snd (''checks.go'', checks_up P)) D {''checks'', ''check_results''}" for D
    using lives_saves [OF ok, of "[checks_col, check_results_col]"] by (simp only: checks_up_def n snd_conv)
  moreover have "lives (snd (''collections.go'', collections_up P)) D
      {''notification_channels'', ''agents'', ''metrics'', ''docker_containers'', ''alert_rules'', ''alerts'', ''settings''}" for D
    using lives_saves [OF ok, of "[notification_channels_col, agents_col, metrics_col, docker_containers_col, alert_rules_col,
      alerts_col, settings_col]"] by (simp only: collections_up_def n snd_conv)
  ultimately have "lives (each snd (first_ups P)) {''users''} ({''audit_log''} \<union> ({''checks'', ''check_results''} \<union>
      ({''notification_channels'', ''agents'', ''metrics'', ''docker_containers'', ''alert_rules'', ''alerts'', ''settings''} \<union> {})))"
    unfolding first_ups_def by (intro lives_each lives_Nil)
  then show ?thesis unfolding base_collections_def by (rule lives_insert)
qed

lemma lives_users: "accepting P \<Longrightarrow> lives (users_roles_up P) D {}"
  by (simp add: lives_def users_roles_up_def save_col_def accepting_def Let_def dom_put subset_insertI del: map_of_put)

lemma in_base:
  "''agents'' \<in> base_collections" "''metrics'' \<in> base_collections" "''alert_rules'' \<in> base_collections"
  "''alerts'' \<in> base_collections" "''docker_containers'' \<in> base_collections" "''notification_channels'' \<in> base_collections"
  "''settings'' \<in> base_collections" "''checks'' \<in> base_collections" "''users'' \<in> base_collections"
  by (simp_all add: base_collections_def)

lemma lives_schema:
  assumes ok: "accepting P"
  shows "lives (each snd (schema_ups P)) base_collections {}"
proof -
  let ?B = base_collections and ?S = "insert ''silences'' base_collections"
  let ?T = "insert ''thread_dumps'' ?S"
  have n: "cl_name hub_secrets_col = ''hub_secrets''" "cl_name logs_col = ''logs''" "cl_name silences_col = ''silences''"
    "cl_name push_subscriptions_col = ''push_subscriptions''" "cl_name thread_dumps_col = ''thread_dumps''"
    by (simp_all add: hub_secrets_col_def logs_col_def silences_col_def push_subscriptions_col_def thread_dumps_col_def)
  note e = lives_edits [OF ok]
  have sv: "lives (save_col P c) D {}" for c D by (rule lives_weaken [where D = "{}", OF lives_save [OF ok]]) simp_all
  have logs: "lives (logs_up P) ?B {}" unfolding logs_up_def [abs_def]
    by (intro lives_need lives_two sv e in_base)
  have push: "lives (push_subscriptions_up P) ?B {}" unfolding push_subscriptions_up_def [abs_def]
    by (intro lives_need sv in_base)
  have sil: "lives (silences_up P) ?B {''silences''}"
  proof -
    have "lives (ensure_field P ''alerts'' (BoolField ''silenced'')) (?B \<union> {cl_name silences_col}) {}" by (rule e) (simp add: in_base)
    from lives_need [OF lives_bind [OF lives_save [OF ok] this] in_base(1)]
    show ?thesis unfolding silences_up_def [abs_def] by (simp only: n Un_empty_right)
  qed
  have td: "lives (thread_dumps_up P) ?S {''thread_dumps''}"
    unfolding lives_def
  proof (intro allI impI)
    fix s :: schema assume "?S \<subseteq> dom (map_of s)"
    with in_base(1) obtain c where c: "map_of s ''agents'' = Some c" by blast
    show "\<exists>s'. thread_dumps_up P s = Some s' \<and> dom (map_of s) \<union> {''thread_dumps''} \<subseteq> dom (map_of s')"
    proof (cases "map_of s ''thread_dumps''")
      case None
      then have "thread_dumps_up P s = Some (put ''thread_dumps'' thread_dumps_col s)"
        using ok by (simp add: thread_dumps_up_def c save_col_def accepting_def n)
      then show ?thesis by (simp only: option.inject ex_simps simp_thms dom_put) blast
    next
      case (Some d)
      then show ?thesis by (simp add: thread_dumps_up_def domI)
    qed
  qed
  have T: "m \<in> ?B \<Longrightarrow> m \<in> ?T" "''thread_dumps'' \<in> ?T" for m by simp_all
  have sub: "set autodateCollections \<subseteq> ?T" "set operatorManaged \<subseteq> ?T" "set adminManaged \<subseteq> ?T" "set serverOnly \<subseteq> ?T"
    by (simp_all only: autodateCollections_def operatorManaged_def adminManaged_def serverOnly_def list.set insert_subset
        empty_subsetI insert_iff in_base simp_thms)
  have dates: "lives (autodate_up P) ?T {}"
    unfolding autodate_up_def by (rule lives_changes, rule e) (rule subsetD [OF sub(1)])
  have r: "set ns \<subseteq> ?T \<Longrightarrow> lives (each (restrict P q) ns) ?T {}" for ns q
    unfolding restrict_def by (rule lives_changes, rule e) (rule subsetD)
  have rbac: "lives (rbac_up P) ?T {}"
    unfolding rbac_up_def [abs_def] by (rule lives_two [OF r lives_two [OF r r]]) (rule sub)+
  have late: "lives (each snd [(''thread_dumps_requested_by.go'', requested_by_up P), (''timestamps_autodate_fields.go'', autodate_up P),
      (''update_status_restart_required.go'', restart_required_up P), (''users_roles.go'', users_roles_up P),
      (''users_roles_rbac.go'', rbac_up P), (''websocket_dropped_messages.go'', dropped_messages_up P)]) ?T {}"
    unfolding requested_by_up_def restart_required_up_def dropped_messages_up_def
    by (intro lives_stay lives_Nil; simp only: snd_conv; (rule dates rbac lives_users [OF ok] e T in_base)+)
  have ids: "lives (silences_check_ids_up P) ?S {}" unfolding silences_check_ids_up_def [abs_def]
    by (intro lives_need e insertI1 insertI2 in_base)
  have mid: "lives (each snd [(''silences_check_ids.go'', silences_check_ids_up P), (''thread_dumps.go'', thread_dumps_up P),
      (''thread_dumps_requested_by.go'', requested_by_up P), (''timestamps_autodate_fields.go'', autodate_up P),
      (''update_status_restart_required.go'', restart_required_up P), (''users_roles.go'', users_roles_up P),
      (''users_roles_rbac.go'', rbac_up P), (''websocket_dropped_messages.go'', dropped_messages_up P)]) ?S {}"
    by (rule lives_stay, simp only: snd_conv, rule ids) (rule lives_add [OF _ late], simp only: snd_conv, rule td)
  have cve: "lives (cve_scan_metric_type_up P) ?B {}" unfolding cve_scan_metric_type_up_def [abs_def]
    by (rule lives_two [OF e(1) e(1)]) (rule in_base)+
  have lifecycle: "lives (lifecycle_up P) ?B {}" unfolding lifecycle_up_def [abs_def]
    by (rule lives_two [OF e(1) lives_need [OF e(1)]]) (rule in_base)+
  have tags: "lives (rule_agent_tags_up P) ?B {}" unfolding rule_agent_tags_up_def [abs_def]
    by (rule lives_two [OF e(2) e(2)]) (rule in_base)+
  have check_types: "lives (rule_check_types_up P) ?B {}" unfolding rule_check_types_up_def [abs_def]
    by (rule lives_need [OF lives_two [OF e(1) e(1)]]) (rule in_base)+
  have single: "lives (agent_update_fields_up P) ?B {}" "lives (docker_update_fields_up P) ?B {}" "lives (hub_secrets_up P) ?B {}"
    "lives (extra_types_up P) ?B {}" "lives (webpush_type_up P) ?B {}" "lives (rule_log_match_up P) ?B {}"
    "lives (rule_types_extension_up P) ?B {}"
    unfolding agent_update_fields_up_def docker_update_fields_up_def hub_secrets_up_def extra_types_up_def webpush_type_up_def
      rule_log_match_up_def rule_types_extension_up_def
    by (rule sv | rule e, rule in_base)+
  show ?thesis
    unfolding schema_ups_def
    by ((rule lives_stay, simp only: snd_conv, rule single cve lifecycle tags check_types logs push)+)
      (rule lives_add [OF _ mid], simp only: snd_conv, rule sil)
qed

text \<open>Run in the order of their file names, the migrations succeed on a fresh database if PocketBase accepts them.\<close>

lemma fresh_install_succeeds:
  assumes "accepting P" and "cl_name u = ''users''"
  shows "\<exists>s. migrate P saves hash (fresh u, []) = Some (s, [])"
proof -
  from livesD [OF lives_first [OF assms(1)], of "fresh u"]
  obtain s1 where s1: "each snd (first_ups P) (fresh u) = Some s1" "base_collections \<subseteq> dom (map_of s1)" by (auto simp: fresh_def)
  with in_base(1) have a: "''agents'' \<in> dom (map_of s1)" by blast
  from livesD [OF lives_edits(2) [OF assms(1)], of "''agents''" "{''agents''}" s1] a
  obtain s2 where s2: "ensure_field P ''agents'' token_hash_field s1 = Some s2" "dom (map_of s1) \<subseteq> dom (map_of s2)" by auto
  let ?f = "add_index (''idx_agents_token_hash'', True, [''token_hash''], ''token_hash != '' @ [CHR 0x27, CHR 0x27])
                      \<circ> remove_index ''idx_agents_token'' \<circ> remove_fields [''token'']"
  from livesD [OF lives_edits(1) [OF assms(1)], of "''agents''" "{''agents''}" s2 ?f] a s2
  obtain s3 where s3: "edit P ''agents'' ?f s2 = Some s3" "dom (map_of s2) \<subseteq> dom (map_of s3)" by auto
  have t: "token_hash_up P saves hash (s1, []) = Some (s3, [])"
    using assms(1) s3(1) by (simp add: token_hash_up_def s2 accepting_def)
  from s1 s2 s3 have "base_collections \<subseteq> dom (map_of s3)" by blast
  from livesD [OF lives_schema [OF assms(1)] this] obtain s4 where "each snd (schema_ups P) s3 = Some s4" by blast
  with s1 t show ?thesis by (simp add: migrate_def)
qed

text \<open>The order is that of the file names.\<close>

lemma migrations_sorted:
  "sorted_wrt str_less (map fst (first_ups P) @ [''collections_agent_token_hash.go''] @ map fst (schema_ups P))"
  by (simp add: first_ups_def schema_ups_def)

end
