(* ===== verification/Schema_Access.thy ===== *)
theory Schema_Access
  imports Schema_Claims Authz Agent_Main Check_Routes
begin

text \<open>
  What the schema of a fresh install means for the rest of the hub: who may do what to a collection through
  the REST interface of PocketBase, which values its select fields admit, and what its limits refuse.
\<close>

section \<open>The access rules of a collection\<close>

definition access :: "coll \<Rightarrow> string option \<times> string option \<times> string option \<times> string option \<times> string option" where
  "access c = (cl_ListRule c, cl_ViewRule c, cl_CreateRule c, cl_UpdateRule c, cl_DeleteRule c)"

lemma access_simps [simp]:
  "access (add_missing f c) = access c" "access (change_values n g c) = access c" "access (remove_fields ns c) = access c"
  "access (add_fields fs c) = access c" "access (require_relation n b c) = access c" "access (remove_index n c) = access c"
  "access (add_index i c) = access c" "access (with_indexes ixs c) = access c"
  "access (writable r (readable q c)) = (q, q, r, r, r)"
  "access (readable q (NewBaseCollection n)) = (q, q, None, None, None)"
  by (simp_all add: access_def add_missing_def change_values_def remove_fields_def add_fields_def require_relation_def
      remove_index_def add_index_def writable_def readable_def with_indexes_def NewBaseCollection_def Let_def)

lemma final_access:
  "access agents_final = (Some authOnly, Some authOnly, Some operatorOrAbove, Some operatorOrAbove, Some operatorOrAbove)"
  "access alert_rules_final = (Some authOnly, Some authOnly, Some operatorOrAbove, Some operatorOrAbove, Some operatorOrAbove)"
  "access alerts_final = (Some authOnly, Some authOnly, Some operatorOrAbove, Some operatorOrAbove, Some operatorOrAbove)"
  "access notification_channels_final = (Some authOnly, Some authOnly, Some operatorOrAbove, Some operatorOrAbove, Some operatorOrAbove)"
  "access thread_dumps_final = (Some authOnly, Some authOnly, Some operatorOrAbove, Some operatorOrAbove, Some operatorOrAbove)"
  "access silences_final = (Some authOnly, Some authOnly, Some operatorOrAbove, Some operatorOrAbove, Some operatorOrAbove)"
  "access checks_col = (Some authOnly, Some authOnly, Some operatorOrAbove, Some operatorOrAbove, Some operatorOrAbove)"
  "access settings_final = (Some authOnly, Some authOnly, Some adminOnly, Some adminOnly, Some adminOnly)"
  "access (with_roles u) = (Some authOnly, Some authOnly, Some adminOnly, Some adminOnly, Some adminOnly)"
  "access metrics_final = (Some authOnly, Some authOnly, None, None, None)"
  "access docker_containers_final = (Some authOnly, Some authOnly, None, None, None)"
  "access check_results_col = (Some authOnly, Some authOnly, None, None, None)"
  "access logs_col = (Some authOnly, Some authOnly, None, None, None)"
  "access audit_log_col = (Some operatorOrAbove, Some operatorOrAbove, None, None, None)"
  "access hub_secrets_col = (None, None, None, None, None)"
  "access push_subscriptions_col = (Some ownRow, Some ownRow, Some ownRowCreate, None, Some ownRow)"
proof -
  show "access push_subscriptions_col = (Some ownRow, Some ownRow, Some ownRowCreate, None, Some ownRow)"
    "access hub_secrets_col = (None, None, None, None, None)"
    by (simp_all add: push_subscriptions_col_def hub_secrets_col_def)
      (simp_all add: access_def readable_def NewBaseCollection_def)
qed (simp_all add: agents_final_def alert_rules_final_def alerts_final_def notification_channels_final_def thread_dumps_final_def
    silences_final_def silences_col_def checks_col_def settings_final_def with_roles_def metrics_final_def
    docker_containers_final_def check_results_col_def logs_col_def audit_log_col_def)

section \<open>Requests over REST\<close>

datatype rest_op = OpList | OpView | OpCreate | OpUpdate | OpDelete

fun rule_of :: "rest_op \<Rightarrow> coll \<Rightarrow> string option" where
  "rule_of OpList c = cl_ListRule c"
| "rule_of OpView c = cl_ViewRule c"
| "rule_of OpCreate c = cl_CreateRule c"
| "rule_of OpUpdate c = cl_UpdateRule c"
| "rule_of OpDelete c = cl_DeleteRule c"

fun rule_in :: "rest_op \<Rightarrow> 'r \<times> 'r \<times> 'r \<times> 'r \<times> 'r \<Rightarrow> 'r" where
  "rule_in OpList (l, v, c, u, d) = l"
| "rule_in OpView (l, v, c, u, d) = v"
| "rule_in OpCreate (l, v, c, u, d) = c"
| "rule_in OpUpdate (l, v, c, u, d) = u"
| "rule_in OpDelete (l, v, c, u, d) = d"

lemma rule_of_access: "rule_of op c = rule_in op (access c)"
  by (cases op) (simp_all add: access_def)

text \<open>
  PocketBase lets superusers do everything, asks the rule of the collection otherwise, and refuses where
  there is none. \<open>holds\<close> is its filter language, over the auth record and the \<open>user_id\<close> of the row; of it
  the documented meaning of the expressions used is assumed.
\<close>

definition rest_allows ::
  "(string \<Rightarrow> auth option \<Rightarrow> string \<Rightarrow> bool) \<Rightarrow> schema \<Rightarrow> auth option \<Rightarrow> string \<Rightarrow> rest_op \<Rightarrow> string \<Rightarrow> bool" where
  "rest_allows holds s who owner op n \<longleftrightarrow>
     (case who of None \<Rightarrow> False | Some a \<Rightarrow> au_superuser a) \<or>
     (case map_of s n of
        None \<Rightarrow> False
      | Some c \<Rightarrow> (case rule_of op c of None \<Rightarrow> False | Some r \<Rightarrow> holds r who owner))"

definition auth_field :: "(auth \<Rightarrow> string) \<Rightarrow> auth option \<Rightarrow> string" where
  "auth_field f who = (case who of None \<Rightarrow> [] | Some a \<Rightarrow> f a)"

definition filter_language :: "(string \<Rightarrow> auth option \<Rightarrow> string \<Rightarrow> bool) \<Rightarrow> bool" where
  "filter_language holds \<longleftrightarrow> (\<forall>who owner.
     holds authOnly who owner = (auth_field au_id who \<noteq> []) \<and>
     holds operatorOrAbove who owner = (auth_field au_id who \<noteq> [] \<and> auth_field au_role who \<noteq> ''viewer'') \<and>
     holds adminOnly who owner = (auth_field au_role who = ''admin'') \<and>
     holds ownRow who owner = (auth_field au_id who \<noteq> [] \<and> owner = auth_field au_id who) \<and>
     holds ownRowCreate who owner = (auth_field au_id who \<noteq> [] \<and> auth_field au_id who = owner))"

section \<open>The role matrix\<close>

definition hub_collections :: "string list" where
  "hub_collections = [''agents'', ''alert_rules'', ''alerts'', ''notification_channels'', ''thread_dumps'', ''silences'', ''checks'',
     ''settings'', ''users'', ''metrics'', ''docker_containers'', ''check_results'', ''logs'', ''audit_log'', ''hub_secrets'',
     ''push_subscriptions'']"

text \<open>The matrix in the comments of the migrations, for a user with a role; \<open>own\<close> says that the row is the user's.\<close>

definition role_matrix :: "Role \<Rightarrow> bool \<Rightarrow> rest_op \<Rightarrow> string \<Rightarrow> bool" where
  "role_matrix role own op n =
     (let reads = op \<in> {OpList, OpView} in
      if n \<in> {''agents'', ''alert_rules'', ''alerts'', ''notification_channels'', ''thread_dumps'', ''silences'', ''checks''}
        then reads \<or> RoleOperator \<le> role
      else if n \<in> {''settings'', ''users''} then reads \<or> role = RoleAdmin
      else if n \<in> {''metrics'', ''docker_containers'', ''check_results'', ''logs''} then reads
      else if n = ''audit_log'' then reads \<and> RoleOperator \<le> role
      else if n = ''push_subscriptions'' then own \<and> op \<noteq> OpUpdate
      else False)"

lemma rest_allows_access:
  assumes "map_of s n = Some c" and "case who of None \<Rightarrow> True | Some a \<Rightarrow> \<not> au_superuser a"
  shows "rest_allows holds s who owner op n =
    (case rule_in op (access c) of None \<Rightarrow> False | Some r \<Rightarrow> holds r who owner)"
  using assms by (auto simp: rest_allows_def rule_of_access split: option.splits)

lemma role_of_user:
  assumes "au_collection a = ''users''" and "\<not> au_superuser a" and "au_role a \<in> {''viewer'', ''operator'', ''admin''}"
  shows "RoleOperator \<le> RoleOf (Some (Some a)) \<longleftrightarrow> au_role a \<noteq> ''viewer''" "RoleOf (Some (Some a)) = RoleAdmin \<longleftrightarrow> au_role a = ''admin''"
  using assms by (auto simp: RoleOf_def RoleOfRecord_def ParseRole_def less_eq_Role_def)

text \<open>C38: the REST interface and the routes of the hub obey one matrix. On the schema that a fresh install ends
  with, a user may do to a collection exactly what the matrix grants the role the routes see in it: operators
  and admins manage agents, rules, channels, checks, silences and dumps, admins settings and users, nobody
  writes what the hub measures or audits or reads its secrets, and a push subscription belongs to its user. A
  request without a user may do nothing at all.\<close>

theorem rest_follows_roles:
  assumes "cl_name u = ''users''" and "migrate P saves hash (fresh u, rows) = Some (s, rows')" and "filter_language holds"
    and "au_collection a = ''users''" and "\<not> au_superuser a" and "au_id a \<noteq> []"
    and "au_role a \<in> {''viewer'', ''operator'', ''admin''}" and "n \<in> set hub_collections"
  shows "rest_allows holds s (Some a) owner op n = role_matrix (RoleOf (Some (Some a))) (owner = au_id a) op n
    \<and> \<not> rest_allows holds s None owner op n"
proof -
  note fl = assms(3) [unfolded filter_language_def, rule_format]
  note f = final_collections [OF assms(1,2)]
  from assms(8) show ?thesis
    unfolding hub_collections_def list.set
    by (elim insertE emptyE; hypsubst; cases op;
        simp add: rest_allows_access f final_access fl auth_field_def role_matrix_def assms(5,6) role_of_user [OF assms(4,5,7)] Let_def;
        auto)
qed

definition accept_all :: pb where
  "accept_all = \<lparr>pb_saves = \<lambda>_ _. True, pb_deletes = \<lambda>_ _. True, pb_NewAuthCollection = NewBaseCollection,
     pb_FindAll = \<lambda>_ _. True\<rparr>"

definition plain_filter :: "string \<Rightarrow> auth option \<Rightarrow> string \<Rightarrow> bool" where
  "plain_filter r who owner =
     (if r = authOnly then auth_field au_id who \<noteq> []
      else if r = operatorOrAbove then auth_field au_id who \<noteq> [] \<and> auth_field au_role who \<noteq> ''viewer''
      else if r = adminOnly then auth_field au_role who = ''admin''
      else (r = ownRow \<or> r = ownRowCreate) \<and> auth_field au_id who \<noteq> [] \<and> owner = auth_field au_id who)"

lemma plain_filter_ok: "filter_language plain_filter"
  by (auto simp: filter_language_def plain_filter_def authOnly_def operatorOrAbove_def adminOnly_def ownRow_def ownRowCreate_def)

lemma accept_all_accepts: "accepting accept_all"
  by (simp add: accepting_def accept_all_def)

definition an_operator :: auth where
  "an_operator = \<lparr>au_id = ''u1'', au_collection = ''users'', au_superuser = False, au_role = ''operator'', au_email = ''o@x''\<rparr>"

theorem rest_follows_roles_witness:
  "\<exists>s. migrate accept_all (\<lambda>_. True) (\<lambda>t. t) (fresh (NewBaseCollection ''users''), []) = Some (s, []) \<and>
     rest_allows plain_filter s (Some an_operator) [] OpUpdate ''alert_rules'' \<and>
     \<not> rest_allows plain_filter s (Some an_operator) [] OpUpdate ''settings'' \<and>
     \<not> rest_allows plain_filter s None [] OpView ''alert_rules''"
proof -
  have u: "cl_name (NewBaseCollection ''users'') = ''users''" by simp
  obtain s where s: "migrate accept_all (\<lambda>_. True) (\<lambda>t. t) (fresh (NewBaseCollection ''users''), []) = Some (s, [])"
    using fresh_install_succeeds [OF accept_all_accepts u] by blast
  note m = rest_follows_roles [OF u s plain_filter_ok, of an_operator]
  have "role_matrix (RoleOf (Some (Some an_operator))) False OpUpdate ''alert_rules''"
    "\<not> role_matrix (RoleOf (Some (Some an_operator))) False OpUpdate ''settings''"
    by (simp_all add: role_matrix_def an_operator_def RoleOf_def RoleOfRecord_def ParseRole_def less_eq_Role_def)
  with m [of "''alert_rules''" "[]" OpUpdate] m [of "''settings''" "[]" OpUpdate] m [of "''alert_rules''" "[]" OpView] s
  show ?thesis by (auto simp: an_operator_def hub_collections_def)
qed

text \<open>
  The rule \<open>role != 'viewer'\<close> also holds of a user whose role is not set, as of one that was there before the
  field was added: REST lets it change the alert rules and install a token hash, while the routes of the
  hub take it for a viewer.
\<close>

lemma roleless_user_is_an_operator:
  assumes "cl_name u = ''users''" and "migrate P saves hash (fresh u, rows) = Some (s, rows')" and "filter_language holds"
    and "au_id a \<noteq> []" and "au_role a = []" and "\<not> au_superuser a"
  shows "rest_allows holds s (Some a) owner OpUpdate ''alert_rules'' \<and> rest_allows holds s (Some a) owner OpUpdate ''agents''
    \<and> RoleOf (Some (Some a)) = RoleViewer"
  using assms(4-6) assms(3) [unfolded filter_language_def, rule_format]
  by (auto simp: rest_allows_access final_collections [OF assms(1,2)] final_access auth_field_def RoleOf_def RoleOfRecord_def
      ParseRole_def)

text \<open>Any user, viewers included, may read the channels, whose \<open>config\<close> holds their credentials.\<close>

lemma viewers_read_channel_credentials:
  assumes "cl_name u = ''users''" and "migrate P saves hash (fresh u, rows) = Some (s, rows')" and "filter_language holds"
    and "au_id a \<noteq> []"
  shows "rest_allows holds s (Some a) owner OpList ''notification_channels''
    \<and> field_of ''config'' notification_channels_col = Some (JSONField ''config'' 10000)"
proof -
  have "field_of ''config'' notification_channels_col = Some (JSONField ''config'' 10000)"
    by (simp add: notification_channels_col_def field_of_def with_indexes_def add_fields_def writable_def readable_def NewBaseCollection_def)
  then show ?thesis using assms(4) assms(3) [unfolded filter_language_def, rule_format]
    by (auto simp: rest_allows_def rule_of_access final_collections [OF assms(1,2)] final_access auth_field_def)
qed

section \<open>Fields\<close>

lemma field_of_simps [simp]:
  "field_of n (writable r c) = field_of n c" "field_of n (readable r c) = field_of n c" "field_of n (with_indexes ixs c) = field_of n c"
  "field_of n (remove_index k c) = field_of n c" "field_of n (add_index i c) = field_of n c" "field_of n (NewBaseCollection k) = None"
  by (simp_all add: field_of_def writable_def readable_def with_indexes_def remove_index_def add_index_def NewBaseCollection_def Let_def)

lemma find_put_field: "find (\<lambda>f. fd_name f = n) (put_field g fs) = (if fd_name g = n then Some g else find (\<lambda>f. fd_name f = n) fs)"
  by (induction g fs rule: put_field.induct) auto

lemma field_of_add_fields [simp]:
  "field_of n (add_fields [] c) = field_of n c"
  "field_of n (add_fields (f # fs) c) =
     (case find (\<lambda>g. fd_name g = n) (rev fs) of Some g \<Rightarrow> Some g | None \<Rightarrow> if fd_name f = n then Some f else field_of n c)"
proof -
  have "find (\<lambda>g. fd_name g = n) (fold put_field fs xs) =
      (case find (\<lambda>g. fd_name g = n) (rev fs) of Some g \<Rightarrow> Some g | None \<Rightarrow> find (\<lambda>g. fd_name g = n) xs)" for fs xs
    by (induction fs rule: rev_induct) (auto simp: find_put_field)
  then show "field_of n (add_fields (f # fs) c) =
     (case find (\<lambda>g. fd_name g = n) (rev fs) of Some g \<Rightarrow> Some g | None \<Rightarrow> if fd_name f = n then Some f else field_of n c)"
    by (simp add: field_of_def add_fields_def find_put_field split: option.split)
qed (simp add: add_fields_def)

lemma field_of_add_missing [simp]:
  "field_of n (add_missing f c) =
     (if fd_name f = n then (case field_of n c of None \<Rightarrow> Some f | Some g \<Rightarrow> Some g) else field_of n c)"
  by (auto simp: add_missing_def field_of_def find_put_field split: option.split)

lemma fd_name_change_field [simp]: "fd_name (change_field n g f) = fd_name f"
  by (cases f) simp_all

lemma field_of_change_values [simp]: "field_of n (change_values m g c) = map_option (change_field m g) (field_of n c)"
proof -
  have "find (\<lambda>f. fd_name f = n) (map (change_field m g) fs) = map_option (change_field m g) (find (\<lambda>f. fd_name f = n) fs)" for fs
    by (induction fs) simp_all
  then show ?thesis by (simp add: field_of_def change_values_def)
qed

lemma fd_name_set_required [simp]: "fd_name (set_required n b f) = fd_name f"
  by (cases f) simp_all

lemma field_of_require [simp]: "field_of n (require_relation m b c) = map_option (set_required m b) (field_of n c)"
proof -
  have "find (\<lambda>f. fd_name f = n) (map (set_required m b) fs) = map_option (set_required m b) (find (\<lambda>f. fd_name f = n) fs)" for fs
    by (induction fs) simp_all
  then show ?thesis by (simp add: field_of_def require_relation_def)
qed

lemma field_of_remove [simp]: "field_of n (remove_fields ns c) = (if n \<in> set ns then None else field_of n c)"
proof -
  have "find (\<lambda>f. fd_name f = n) (filter (\<lambda>f. fd_name f \<notin> set ns) fs) =
      (if n \<in> set ns then None else find (\<lambda>f. fd_name f = n) fs)" for fs
    by (induction fs) auto
  then show ?thesis by (simp add: field_of_def remove_fields_def)
qed

lemma field_of_dates: "n \<noteq> ''created'' \<Longrightarrow> n \<noteq> ''updated'' \<Longrightarrow> field_of n (dates k c) = field_of n c"
  by (simp add: dates_def)

section \<open>The values the hub writes\<close>

definition values_in :: "schema \<Rightarrow> string \<Rightarrow> string \<Rightarrow> string list" where
  "values_in s n f =
     (case map_of s n of
        None \<Rightarrow> []
      | Some c \<Rightarrow> (case field_of f c of Some (SelectField _ _ vs) \<Rightarrow> vs | _ \<Rightarrow> []))"

lemma metric_types:
  "field_of ''type'' metrics_final = Some (SelectField ''type'' True [''cpu'', ''memory'', ''disk'', ''network'', ''docker'', ''sysinfo'',
     ''ports'', ''processes'', ''hardening'', ''vulnerabilities'', ''diskio'', ''connections'', ''services'', ''oracle'', ''cve_scan''])"
  by (simp add: metrics_final_def field_of_dates metrics_col_def agent_relation_def add_value_def)

lemma metric_resolutions:
  "field_of ''resolution'' metrics_final = Some (SelectField ''resolution'' True [''raw'', ''1m'', ''5m'', ''1h''])"
  by (simp add: metrics_final_def field_of_dates metrics_col_def agent_relation_def)

lemma rule_types:
  "field_of ''metric_type'' alert_rules_final = Some (SelectField ''metric_type'' True (originalAlertRuleMetricTypes @
     [''cve_count'', ''check_down'', ''cert_expiry'', ''log_match'', ''process_down'', ''service_failed'', ''agent_offline'']))"
  by (simp add: alert_rules_final_def field_of_dates alert_rules_col_def agent_relation_def add_value_def add_values_def on_metric_type_def
      is_select_def newAlertRuleTypes_def newCheckAlertRuleTypes_def originalAlertRuleMetricTypes_def)

lemma channel_types:
  "field_of ''type'' notification_channels_final = Some (SelectField ''type'' True [''email'', ''webhook'', ''telegram'', ''discord'',
     ''slack'', ''teams'', ''pagerduty'', ''ntfy'', ''gotify'', ''webpush''])"
  by (simp add: notification_channels_final_def field_of_dates notification_channels_col_def add_value_def add_values_def on_type_def
      is_select_def newNotificationChannelTypes_def)

lemma other_values:
  "field_of ''level'' logs_col = Some (SelectField ''level'' True [''error'', ''warning'', ''info'', ''debug''])"
  "field_of ''status'' alerts_final = Some (SelectField ''status'' True [''firing'', ''resolved''])"
  "field_of ''status'' check_results_col = Some (SelectField ''status'' True [''up'', ''down''])"
  "field_of ''status'' thread_dumps_final = Some (SelectField ''status'' True [''pending'', ''success'', ''error''])"
  "field_of ''error'' check_results_col = Some (TextField ''error'' False 1000)"
  by (simp_all add: logs_col_def agent_relation_def alerts_final_def alerts_col_def field_of_dates check_results_col_def
      thread_dumps_final_def thread_dumps_col_def)

lemma agent_values:
  "field_of ''status'' agents_final = Some (SelectField ''status'' True [''online'', ''offline'', ''pending''])"
  "field_of ''update_status'' agents_final = Some (SelectField ''update_status'' False [''idle'', ''started'', ''downloading'',
     ''verifying'', ''installing'', ''restarting'', ''failed'', ''done'', ''restart_required''])"
  by (simp_all add: agents_final_def field_of_dates agents_col_def token_hash_field_def agent_update_fields_def add_value_def)

lemma role_values:
  "field_of ''role'' u = None \<Longrightarrow> field_of ''role'' (with_roles u) = Some (SelectField ''role'' True [''viewer'', ''operator'', ''admin''])"
proof -
  have "field_of ''role'' (u\<lparr>cl_PasswordAuth := True\<rparr>) = field_of ''role'' u" by (simp add: field_of_def)
  then show "field_of ''role'' u = None \<Longrightarrow> ?thesis" by (simp add: with_roles_def)
qed

section \<open>A limit that hides an outage\<close>

definition ascii :: "string \<Rightarrow> bool" where
  "ascii t \<longleftrightarrow> list_all (\<lambda>c. (of_char c :: nat) < 128) t"

text \<open>A text field holds at most \<open>Max\<close> characters; PocketBase refuses a row that exceeds it, which stores nothing.\<close>

definition error_limited :: "('db, check_result) table \<Rightarrow> schema \<Rightarrow> bool" where
  "error_limited T s \<longleftrightarrow> (\<forall>db r c required m.
     map_of s ''check_results'' = Some c \<longrightarrow> field_of ''error'' c = Some (TextField ''error'' required m) \<longrightarrow>
     ascii (cr_error r) \<longrightarrow> m < length (cr_error r) \<longrightarrow>
     (\<exists>db'. t_save T db r = (db', None) \<and> t_find T db' = t_find T db))"

text \<open>The client's error repeats the URL: \<open>Get "https://...": dial tcp ...\<close>.\<close>

definition unreachable :: "network \<Rightarrow> string \<Rightarrow> bool" where
  "unreachable net url \<longleftrightarrow> hn_request_err (nw_http net) = None \<and>
     (\<exists>before after. hn_result (nw_http net) = Inl (before @ url @ after) \<and> ascii (before @ url @ after))"

text \<open>C40: a URL may have 2048 characters and the error of a probe 1000. When a check with a URL of more than 1000
  characters becomes unreachable, the row of every failed probe is refused, so no result is stored and
  the check keeps the status it had, however often it fails: it is never reported down.\<close>

theorem unreachable_long_url_stays_up:
  assumes "cl_name u = ''users''" and "migrate P saves hash (fresh u, rows) = Some (s, rows')" and "error_limited T s"
    and "find_check c = Some check" and "ck_type check = ''http''" and "1000 < length (ck_target check)"
    and "\<And>net now d. (net, now, d) \<in> set probes \<Longrightarrow> d = c \<and> unreachable net (ck_target check)"
  shows "sc_latest (run_probes T find_check probes sch) = sc_latest sch
    \<and> t_find T (sc_db (run_probes T find_check probes sch)) = t_find T (sc_db sch)"
  using assms(7)
proof (induction probes arbitrary: sch)
  case (Cons p probes)
  obtain net now d where p: "p = (net, now, d)" by (cases p)
  from Cons.prems [of net now d] have d: "d = c" and un: "unreachable net (ck_target check)" by (simp_all add: p)
  from un obtain before after where err: "hn_request_err (nw_http net) = None"
    "hn_result (nw_http net) = Inl (before @ ck_target check @ after)" "ascii (before @ ck_target check @ after)"
    by (auto simp: unreachable_def)
  obtain sch1 status where db: "debounce sch c False (failuresBeforeDown check) = (sch1, status)" by fastforce
  then have sch1: "sc_latest sch1 = sc_latest sch" "sc_db sch1 = sc_db sch" by (auto simp: debounce_def split: prod.splits)
  let ?row = "check_row c status (execute net check) now"
  have ex: "pr_success (execute net check) = False" "pr_error (execute net check) = before @ ck_target check @ after"
    using assms(5) err by (simp_all add: execute_def execHTTP_def)
  have "ascii (cr_error ?row)" and "1000 < length (cr_error ?row)"
    using err(3) assms(6) by (simp_all add: check_row_def ex)
  from assms(3) [unfolded error_limited_def, rule_format, OF final_collections(12) [OF assms(1,2)] other_values(5) this, of "sc_db sch1"]
  obtain db' where sv: "t_save T (sc_db sch1) ?row = (db', None)" "t_find T db' = t_find T (sc_db sch1)" by (elim exE conjE)
  have "fst (RunOnce T find_check net now c sch) = sch1\<lparr>sc_db := db'\<rparr>"
    by (simp add: RunOnce_def assms(4) ex db sv Let_def)
  then have "run_probes T find_check (p # probes) sch = run_probes T find_check probes (sch1\<lparr>sc_db := db'\<rparr>)"
    by (simp add: p d run_probes_def)
  moreover have "sc_latest (run_probes T find_check probes (sch1\<lparr>sc_db := db'\<rparr>)) = sc_latest (sch1\<lparr>sc_db := db'\<rparr>)
      \<and> t_find T (sc_db (run_probes T find_check probes (sch1\<lparr>sc_db := db'\<rparr>))) = t_find T (sc_db (sch1\<lparr>sc_db := db'\<rparr>))"
    by (rule Cons.IH) (rule Cons.prems, rule list.set_intros(2))
  ultimately show ?case using sch1 sv(2) by simp
qed (simp add: run_probes_def)

definition strict_results :: "(check_result mem, check_result) table" where
  "strict_results = mem_check_results\<lparr>t_save := \<lambda>db r.
     if ascii (cr_error r) \<and> 1000 < length (cr_error r) then (db, None) else t_save mem_check_results db r\<rparr>"

definition no_results :: "check_result mem" where "no_results = \<lparr>m_rows = [], m_faults = []\<rparr>"

definition long_url :: string where "long_url = replicate 1001 CHR ''x''"

definition long_check :: check where
  "long_check = tcp_check\<lparr>ck_type := ''http'', ck_target := long_url\<rparr>"

definition refused_net :: network where
  "refused_net = (sample_net True)\<lparr>nw_http := \<lparr>hn_request_err = None, hn_result = Inl (''Get '' @ long_url @ '': refused''),
     hn_latency = millisecond\<rparr>\<rparr>"

theorem unreachable_long_url_stays_up_witness:
  "let probes = replicate 3 (refused_net, 1, ''c1'') in
   failuresBeforeDown long_check \<le> 3 \<and>
   sc_latest (run_probes strict_results (\<lambda>_. Some long_check) probes (NewScheduler no_results)) ''c1'' = None"
proof -
  have u: "cl_name (NewBaseCollection ''users'') = ''users''" by simp
  obtain s where s: "migrate accept_all (\<lambda>_. True) (\<lambda>t. t) (fresh (NewBaseCollection ''users''), []) = Some (s, [])"
    using fresh_install_succeeds [OF accept_all_accepts u] by blast
  have lim: "error_limited strict_results s"
    by (auto simp: error_limited_def final_collections(12) [OF u s] other_values(5) strict_results_def)
  have "ascii (''Get '' @ long_url @ '': refused'')" by (simp add: ascii_def long_url_def list_all_iff)
  then have un: "unreachable refused_net long_url"
    unfolding unreachable_def refused_net_def by (intro conjI exI [of _ "''Get ''"] exI [of _ "'': refused''"]) simp_all
  note w = unreachable_long_url_stays_up [OF u s lim, where find_check = "\<lambda>_. Some long_check" and c = "''c1''" and check = long_check
      and probes = "replicate 3 (refused_net, 1, ''c1'')" and sch = "NewScheduler no_results"]
  have "sc_latest (run_probes strict_results (\<lambda>_. Some long_check) (replicate 3 (refused_net, 1, ''c1'')) (NewScheduler no_results))
      = sc_latest (NewScheduler no_results)"
    by (rule w [THEN conjunct1]) (use un in \<open>auto simp: long_check_def long_url_def\<close>)
  then show ?thesis by (simp add: NewScheduler_def failuresBeforeDown_def long_check_def tcp_check_def)
qed

section \<open>Upgrades and downgrades\<close>

lemma backfill_hashes: "backfill saves hash rows = Some rs \<Longrightarrow>
  rs = map (\<lambda>r. if at_token r = [] then r else r\<lparr>at_token_hash := hash (at_token r)\<rparr>) rows"
  by (induction rows arbitrary: rs) (auto simp: Let_def split: if_splits)

text \<open>After the upgrade no token is left in the database, and what is left of a token is its hash.\<close>

lemma upgrade_hashes_tokens:
  assumes "named s" and "token_hash_up P saves hash (s, rows) = Some (s', rows')"
  shows "map at_token rows' = map (\<lambda>_. []) rows \<and> map at_id rows' = map at_id rows \<and>
    map at_token_hash rows' = map (\<lambda>r. if at_token r = [] then at_token_hash r else hash (at_token r)) rows"
proof -
  from token_hash_up_effect [OF assms] obtain rs where "backfill saves hash rows = Some rs" "rows' = map (\<lambda>r. r\<lparr>at_token := []\<rparr>) rs"
    by blast
  with backfill_hashes [OF this(1)] show ?thesis by (simp add: comp_def)
qed

text \<open>
  Undoing the extension of the rule types takes away the types of three other migrations that stay applied:
  it resets the list to the original one instead of dropping its own values.
\<close>

lemma downgrade_drops_other_types:
  assumes "map_of s ''alert_rules'' = Some c" and "field_of ''metric_type'' c = Some (SelectField ''metric_type'' r vs)"
    and "cl_name c = ''alert_rules''" and "rule_types_extension_down P s = Some s'"
  shows "values_in s' ''alert_rules'' ''metric_type'' = originalAlertRuleMetricTypes \<and>
    ''check_down'' \<notin> set (values_in s' ''alert_rules'' ''metric_type'') \<and>
    ''log_match'' \<notin> set (values_in s' ''alert_rules'' ''metric_type'') \<and>
    ''cve_count'' \<notin> set (values_in s' ''alert_rules'' ''metric_type'')"
proof -
  let ?c = "(remove_fields [''target''] \<circ> change_values ''metric_type'' (\<lambda>_. originalAlertRuleMetricTypes)) c"
  have "map_of s' ''alert_rules'' = Some ?c"
    using assms(1,3,4) by (auto simp: rule_types_extension_down_def edit_def save_col_def split: if_splits)
  then have "values_in s' ''alert_rules'' ''metric_type'' = originalAlertRuleMetricTypes" by (simp add: values_in_def assms(2))
  then show ?thesis by (simp add: originalAlertRuleMetricTypes_def)
qed

end
