(* ===== verification/Schema_Values.thy ===== *)
theory Schema_Values
  imports Schema_Access Update_Flow Alert_Claims Alert_Routes Downsampling Hub_Claims Agent_Tokens Process_Routes Web_Push
    Weekly_Report
begin

text \<open>
  The writers of the hub against the schema of a fresh install: the values each of them stores in a select
  field are values the field admits. A save of any other value is refused by PocketBase's validation.
\<close>

section \<open>Rows whose field is admitted\<close>

text \<open>\<open>rows_in\<close>: the field \<open>f\<close> of every row is in \<open>V\<close>; \<open>keeps\<close>: an operation leaves it so.\<close>

definition rows_in :: "('db \<Rightarrow> string \<Rightarrow> 'r option) \<Rightarrow> ('r \<Rightarrow> string) \<Rightarrow> string set \<Rightarrow> 'db \<Rightarrow> bool" where
  "rows_in look f V db \<longleftrightarrow> (\<forall>i r. look db i = Some r \<longrightarrow> f r \<in> V)"

definition keeps :: "('db \<Rightarrow> string \<Rightarrow> 'r option) \<Rightarrow> ('r \<Rightarrow> string) \<Rightarrow> string set \<Rightarrow> 'db \<Rightarrow> 'db \<Rightarrow> bool" where
  "keeps look f V db db' \<longleftrightarrow> (rows_in look f V db \<longrightarrow> rows_in look f V db')"

lemma keeps_refl [simp]: "keeps look f V db db"
  by (simp add: keeps_def)

lemma keeps_trans: "keeps look f V a b \<Longrightarrow> keeps look f V b c \<Longrightarrow> keeps look f V a c"
  by (simp add: keeps_def)

lemma keeps_fold:
  assumes "\<And>x d. x \<in> set xs \<Longrightarrow> keeps look f V d (g x d)"
  shows "keeps look f V d (fold g xs d)"
  using assms
proof (induction xs arbitrary: d)
  case (Cons x xs)
  have "keeps look f V (g x d) (fold g xs (g x d))" by (rule Cons.IH) (rule Cons.prems, simp)
  with Cons.prems [of x d] show ?case by (auto intro: keeps_trans)
qed simp

lemma rows_inD: "rows_in look f V db \<Longrightarrow> look db i = Some r \<Longrightarrow> f r \<in> V"
  by (auto simp: rows_in_def)

lemma save_keeps:
  assumes rt: "record_table T ident si" and f: "\<And>i x. f (si i x) = f x"
    and r: "rows_in (t_find T) f V db \<Longrightarrow> f r \<in> V"
  shows "keeps (t_find T) f V db (fst (t_save T db r))"
proof (cases "t_save T db r")
  case (Pair db' res)
  show ?thesis
  proof (cases res)
    case None
    with Pair record_table.save_err [OF rt, of db r db'] show ?thesis by (simp add: keeps_def rows_in_def)
  next
    case (Some j)
    with Pair record_table.save_find [OF rt, of db r db' j] r show ?thesis
      by (auto simp: keeps_def rows_in_def f split: if_splits)
  qed
qed

text \<open>A row that was found and is written back with the field as it was.\<close>

lemma resave_keeps:
  assumes "record_table T ident si" and "\<And>i x. f (si i x) = f x" and "t_find T db i = Some r0" and "f r = f r0"
  shows "keeps (t_find T) f V db (fst (t_save T db r))"
  using assms(2-4) by (intro save_keeps [OF assms(1)]) (auto dest: rows_inD)

lemma delete_keeps:
  assumes rt: "record_table T ident si"
  shows "keeps (t_find T) f V db (delete_all T ids db)"
  unfolding delete_all_def
proof (rule keeps_fold)
  fix i and d :: 'a
  show "keeps (t_find T) f V d (fst (t_del T d i))"
  proof (cases "t_del T d i")
    case (Pair d' b)
    with record_table.del_find [OF rt, of d i d'] record_table.del_err [OF rt, of d i d'] show ?thesis
      by (cases b) (auto simp: keeps_def rows_in_def split: if_splits)
  qed
qed

lemma id_fields [simp]:
  "al_status (set_al_id i a) = al_status a" "ag_status (set_ag_id i g) = ag_status g"
  "ag_update_status (set_ag_id i g) = ag_update_status g" "cr_status (set_cr_id i c) = cr_status c"
  "lg_level (set_lg_id i l) = lg_level l" "mt_resolution (set_mt_id i m) = mt_resolution m"
  "td_status (set_td_id i d) = td_status d"
  by (simp_all add: set_al_id_def set_ag_id_def set_cr_id_def set_lg_id_def set_mt_id_def set_td_id_def)

section \<open>Metrics and logs\<close>

lemma collected_types:
  "md \<in> set (snd (collect_all ts cs th)) \<Longrightarrow> md_Type md \<in> fst ` set cs"
proof (induction ts cs th rule: collect_all.induct)
  case (2 ts name now outcome cs th)
  then show ?case by (fastforce split: prod.splits bool.splits option.splits if_splits)
qed simp

lemma ingest_metric_keeps:
  assumes "record_table M mt_id set_mt_id" and "''raw'' \<in> V"
  shows "keeps (t_find M) mt_resolution V (fst d) (fst (ingest_metric M C stored now a m d))"
proof -
  have "keeps (t_find M) mt_resolution V (fst d) (fst (t_save M (fst d) (metric_row stored now a m)))"
    using assms(2) by (intro save_keeps [OF assms(1)]) (simp_all add: metric_row_def Let_def)
  then show ?thesis
    by (auto simp: ingest_metric_def split: prod.splits option.splits)
qed

lemma IngestMetrics_keeps:
  assumes "record_table M mt_id set_mt_id" and "''raw'' \<in> V"
  shows "keeps (t_find M) mt_resolution V (fst d) (fst (IngestMetrics M C stored now a p d))"
  unfolding IngestMetrics_def
proof (induction "mp_Metrics p" arbitrary: p d)
  case (Cons m ms)
  have "keeps (t_find M) mt_resolution V (fst (ingest_metric M C stored now a m d))
      (fst (fold (ingest_metric M C stored now a) ms (ingest_metric M C stored now a m d)))"
    using Cons.hyps(1) [of "p\<lparr>mp_Metrics := ms\<rparr>"] by simp
  with ingest_metric_keeps [OF assms, of d C stored now a m] show ?case
    unfolding Cons.hyps(2) [symmetric] by (simp add: keeps_trans)
qed simp

lemma process_bucket_keeps:
  assumes rt: "record_table T mt_id set_mt_id" and "tgt \<in> V"
  shows "keeps (t_find T) mt_resolution V db (process_bucket T tgt buckets key db)"
proof -
  have s: "keeps (t_find T) mt_resolution V db (fst (t_save T db (aggregate_row tgt key (buckets key))))"
    using assms(2) by (intro save_keeps [OF rt]) (auto simp: aggregate_row_def split: prod.split)
  show ?thesis
  proof (cases "t_save T db (aggregate_row tgt key (buckets key))")
    case (Pair db' res)
    with s keeps_trans [OF _ delete_keeps [OF rt], of mt_resolution V db db'] delete_keeps [OF rt, of mt_resolution V db]
    show ?thesis by (auto simp: process_bucket_def Let_def split: option.split)
  qed
qed

lemma downsample_keeps:
  assumes "record_table T mt_id set_mt_id" and "tgt \<in> V"
  shows "keeps (t_find T) mt_resolution V db (downsample order iter T src tgt d cutoff db)"
  unfolding downsample_def Let_def by (intro keeps_fold process_bucket_keeps assms)

lemma aggregateMetrics_keeps:
  assumes "record_table T mt_id set_mt_id" and "''1m'' \<in> V" and "''5m'' \<in> V" and "''1h'' \<in> V"
  shows "keeps (t_find T) mt_resolution V db (aggregateMetrics order iter T now db)"
  unfolding aggregateMetrics_def Let_def
  by (rule keeps_trans [OF downsample_keeps [OF assms(1,2)] keeps_trans [OF downsample_keeps [OF assms(1,3)]
      downsample_keeps [OF assms(1,4)]]])

lemma save_entry_keeps:
  assumes "record_table L lg_id set_lg_id" and "{''error'', ''warning'', ''info'', ''debug''} \<subseteq> V"
  shows "keeps (t_find L) lg_level V (fst d) (fst (save_entry L now a e d))"
proof -
  have "keeps (t_find L) lg_level V (fst d) (fst (t_save L (fst d) (log_row now a e)))"
    using assms(2) by (intro save_keeps [OF assms(1)]) (auto simp: log_row_def normalizeLevel_def)
  then show ?thesis by (auto simp: save_entry_def split: prod.splits option.splits)
qed

lemma IngestLogs_keeps:
  assumes "record_table L lg_id set_lg_id" and "{''error'', ''warning'', ''info'', ''debug''} \<subseteq> V"
  shows "keeps (t_find L) lg_level V l (fst (IngestLogs L A commits now a p (l, ad)))"
proof -
  have f: "keeps (t_find L) lg_level V (fst d) (fst (fold (save_entry L now a) es d))" for es d
  proof (induction es arbitrary: d)
    case (Cons e es)
    from keeps_trans [OF save_entry_keeps [OF assms] Cons.IH] show ?case by simp
  qed simp
  have "keeps (t_find L) lg_level V l l'" if "fold (save_entry L now a) es (l, 0) = (l', n)" for es l' n
    using f [of "(l, 0)" es] that by simp
  then show ?thesis by (auto simp: IngestLogs_def split: option.split prod.split)
qed

section \<open>Checks\<close>

text \<open>The rows, and the snapshots the debouncing starts from.\<close>

definition checks_in :: "('db, check_result) table \<Rightarrow> string set \<Rightarrow> 'db scheduler \<Rightarrow> bool" where
  "checks_in T V s \<longleftrightarrow> rows_in (t_find T) cr_status V (sc_db s) \<and>
     (\<forall>c sn. sc_latest s c = Some sn \<longrightarrow> sn_status sn \<in> V)"

lemma RunOnce_keeps:
  assumes rt: "record_table T cr_id set_cr_id" and up: "''up'' \<in> V" "''down'' \<in> V" and inv: "checks_in T V s"
  shows "checks_in T V (fst (RunOnce T find_check net now c s))"
proof (cases "find_check c")
  case (Some check)
  let ?res = "execute net check"
  obtain s1 status where db: "debounce s c (pr_success ?res) (failuresBeforeDown check) = (s1, status)" by fastforce
  then have s1: "sc_latest s1 = sc_latest s" "sc_db s1 = sc_db s" by (auto simp: debounce_def split: prod.splits)
  have "latest_status s c = [] \<or> latest_status s c \<in> V"
    using inv by (auto simp: latest_status_def checks_in_def split: option.split)
  then have st: "status \<in> V"
    using db up by (auto simp: debounce_def nextDebouncedState_def Let_def split: prod.splits if_splits)
  have k: "keeps (t_find T) cr_status V (sc_db s) (fst (t_save T (sc_db s) (check_row c status ?res now)))"
    using st by (intro save_keeps [OF rt]) (simp_all add: check_row_def)
  show ?thesis
  proof (cases "t_save T (sc_db s) (check_row c status ?res now)")
    case (Pair db' res)
    with k inv have "rows_in (t_find T) cr_status V db'" by (simp add: keeps_def checks_in_def)
    with Pair Some db s1 inv st show ?thesis
      by (cases res) (auto simp: RunOnce_def checks_in_def Let_def split: if_splits)
  qed
qed (use inv in \<open>simp add: RunOnce_def\<close>)

section \<open>Alerts\<close>

text \<open>A save that answers, whatever it answers, keeps the rows admitted; the tables of the lemmas below.\<close>

lemma save_in:
  assumes "record_table T ident si" and "\<And>i x. f (si i x) = f x" and "rows_in (t_find T) f V db" and "f r \<in> V"
    and "t_save T db r = (db', res)"
  shows "rows_in (t_find T) f V db'"
proof -
  have "keeps (t_find T) f V db (fst (t_save T db r))" by (rule save_keeps [where f = f and si = si, OF assms(1)]) (rule assms(2,4))+
  then have "keeps (t_find T) f V db db'" by (simp only: assms(5) fst_conv)
  with assms(3) show ?thesis by (simp only: keeps_def)
qed

abbreviation alerts_in :: "'db engine_cfg \<Rightarrow> string set \<Rightarrow> 'db engine \<Rightarrow> bool" where
  "alerts_in cfg V e \<equiv> rows_in (t_find (ec_alerts cfg)) al_status V (en_db e)"

lemma en_db_simps [simp]: "en_db (dispatch cfg e a rule) = en_db e" "en_db (put_state e k st) = en_db e"
  by (simp_all add: dispatch_def put_state_def)

lemma fireAlert_in:
  assumes rt: "record_table (ec_alerts cfg) al_id set_al_id" and "''firing'' \<in> V" and "alerts_in cfg V e"
    and "fireAlert cfg v e rule subj val sev sil = (e', i)"
  shows "alerts_in cfg V e'"
proof -
  have sv: "rows_in (t_find (ec_alerts cfg)) al_status V db'"
    if "t_save (ec_alerts cfg) (en_db e) r = (db', res)" "al_status r = ''firing''" for r db' res
    using save_in [OF rt _ assms(3) _ that(1)] that(2) assms(2) by simp
  from assms(3,4) show ?thesis
    by (auto simp: fireAlert_def Let_def split: if_splits prod.splits option.splits dest!: sv)
qed

lemma refresh_in:
  assumes rt: "record_table (ec_alerts cfg) al_id set_al_id" and "alerts_in cfg V e"
    and "refreshFiringAlert cfg v e i rule subj val sev sil = (e', r)"
  shows "alerts_in cfg V e' \<and> (\<forall>a. r = Some a \<longrightarrow> al_status a \<in> V)"
proof (cases "t_find (ec_alerts cfg) (en_db e) i")
  case (Some a)
  let ?a = "a\<lparr>al_value := val, al_message := buildMessage v rule subj val sev, al_silenced := sil\<rparr>"
  have a: "al_status ?a \<in> V" using rows_inD [OF assms(2) Some] by simp
  obtain db' res where s: "t_save (ec_alerts cfg) (en_db e) ?a = (db', res)" by fastforce
  have "rows_in (t_find (ec_alerts cfg)) al_status V db'" by (rule save_in [OF rt _ assms(2) a s]) simp
  with s a Some assms(3) show ?thesis by (cases res) (auto simp: refreshFiringAlert_def Let_def)
qed (use assms in \<open>simp add: refreshFiringAlert_def\<close>)

lemma resolve_in:
  assumes rt: "record_table (ec_alerts cfg) al_id set_al_id" and "''resolved'' \<in> V" and "alerts_in cfg V e"
  shows "alerts_in cfg V (resolveAlert cfg v e i rule)"
proof (cases "t_find (ec_alerts cfg) (en_db e) i")
  case (Some a)
  let ?a = "a\<lparr>al_status := ''resolved'', al_resolved_at := fmt_ts (v_now v)\<rparr>"
  obtain db' res where s: "t_save (ec_alerts cfg) (en_db e) ?a = (db', res)" by fastforce
  have "rows_in (t_find (ec_alerts cfg)) al_status V db'" by (rule save_in [OF rt _ assms(3) _ s]) (simp_all add: assms(2))
  with s Some show ?thesis by (cases res) (auto simp: resolveAlert_def Let_def)
qed (use assms in \<open>simp add: resolveAlert_def\<close>)

lemma escalate_in:
  assumes rt: "record_table (ec_alerts cfg) al_id set_al_id" and "alerts_in cfg V e" and "al_status a \<in> V"
  shows "alerts_in cfg V (maybeEscalate cfg e rule a st now)"
proof -
  let ?a = "a\<lparr>al_escalated_at := fmt_ts now\<rparr>"
  obtain db' res where s: "t_save (ec_alerts cfg) (en_db e) ?a = (db', res)" by fastforce
  have "rows_in (t_find (ec_alerts cfg)) al_status V db'" by (rule save_in [OF rt _ assms(2) _ s]) (simp_all add: assms(3))
  with s assms(2) show ?thesis by (cases res) (auto simp: maybeEscalate_def Let_def)
qed

lemma keep_firing_in:
  assumes rt: "record_table (ec_alerts cfg) al_id set_al_id" and "alerts_in cfg V e"
  shows "alerts_in cfg V (keep_firing cfg v e ob st)"
proof -
  obtain e1 r where run: "refreshFiringAlert cfg v e (rs_active_alert_id st) (o_rule ob) (o_subject ob) (o_value ob) (o_severity ob)
      (o_silenced ob) = (e1, r)" by fastforce
  note R = refresh_in [OF assms run]
  have esc: "alerts_in cfg V (maybeEscalate cfg (put_state e2 k s2) rule a s3 t)"
    if "alerts_in cfg V e2" "al_status a \<in> V" for e2 k s2 rule a s3 t
    using escalate_in [OF rt, of V "put_state e2 k s2" a rule s3 t] that by simp
  show ?thesis
  proof (cases r)
    case None
    with R assms(2) show ?thesis by (simp add: keep_firing_def run)
  next
    case (Some a)
    with R have "alerts_in cfg V e1" "al_status a \<in> V" by simp_all
    with Some assms(2) show ?thesis by (simp add: keep_firing_def run Let_def esc renotify_def)
  qed
qed

lemma updateState_in:
  assumes rt: "record_table (ec_alerts cfg) al_id set_al_id" and "''firing'' \<in> V" and "''resolved'' \<in> V"
  shows "keeps (t_find (ec_alerts cfg)) al_status V (en_db e) (en_db (updateState cfg v e ob))"
  unfolding keeps_def
proof
  assume e: "alerts_in cfg V e"
  let ?st = "state_of e (obs_key ob)"
  let ?e = "put_state e (obs_key ob) ?st"
  have e': "alerts_in cfg V ?e" using e by simp
  have "alerts_in cfg V (stop_breach cfg v ?e ob ?st)"
    using resolve_in [OF rt assms(3) e'] e' by (simp add: stop_breach_def)
  moreover have "alerts_in cfg V (start_breach v ?e ob ?st)" using e' by (simp add: start_breach_def)
  moreover have "alerts_in cfg V (pending_breach cfg v ?e ob ?st)"
    using fireAlert_in [OF rt assms(2) e'] e' by (auto simp: pending_breach_def Let_def split: prod.splits)
  moreover note keep_firing_in [OF rt e', of v ob ?st]
  ultimately show "alerts_in cfg V (updateState cfg v e ob)" by (simp add: updateState_def Let_def)
qed

lemma ack_in:
  assumes rt: "record_table T al_id set_al_id"
  shows "keeps (t_find T) al_status V db (fst (handleAckAlert w T db i auth now))"
    "keeps (t_find T) al_status V db (fst (handleUnackAlert w T db i))"
proof -
  have resave: "keeps (t_find T) al_status V db (fst (t_save T db r))" if "t_find T db i = Some a" "al_status r = al_status a" for a r
    by (rule resave_keeps [OF rt _ that]) simp
  show "keeps (t_find T) al_status V db (fst (handleUnackAlert w T db i))"
  proof (cases "t_find T db i")
    case (Some a)
    obtain db' res where s: "t_save T db (a\<lparr>al_acknowledged_at := 0, al_acknowledged_by := []\<rparr>) = (db', res)" by fastforce
    with resave [OF Some, of "a\<lparr>al_acknowledged_at := 0, al_acknowledged_by := []\<rparr>"] Some show ?thesis
      by (cases res; cases "i = []"; cases w) (auto simp: handleUnackAlert_def findAlertOrNotFound_def Let_def)
  qed (cases "i = []"; cases w; simp add: handleUnackAlert_def findAlertOrNotFound_def)
  show "keeps (t_find T) al_status V db (fst (handleAckAlert w T db i auth now))"
  proof (cases "t_find T db i")
    case (Some a)
    let ?a = "a\<lparr>al_acknowledged_at := fmt_ts now, al_acknowledged_by := ack_by auth\<rparr>"
    obtain db' res where s: "t_save T db ?a = (db', res)" by fastforce
    with resave [OF Some, of ?a] Some show ?thesis
      by (cases res; cases "i = []"; cases w) (auto simp: handleAckAlert_def findAlertOrNotFound_def Let_def)
  qed (cases "i = []"; cases w; simp add: handleAckAlert_def findAlertOrNotFound_def)
qed

section \<open>Thread dumps\<close>

lemma RequestDump_keeps:
  assumes rt: "record_table D td_id set_td_id" and "''pending'' \<in> V" and "''error'' \<in> V"
  shows "keeps (t_find D) td_status V db (fst (RequestDump D sender ms now a pid name who db))"
proof -
  let ?r = "\<lparr>td_id = [], td_agent_id = a, td_pid = pid, td_process_name = name, td_request_id = dump_request_id ms pid,
    td_requested_by = who, td_status = ''pending'', td_error = [], td_output = [], td_taken_at = fmt_ts now\<rparr>"
  have k: "keeps (t_find D) td_status V d (fst (t_save D d x))" if "td_status x \<in> V" for d x
    by (rule save_keeps [OF rt]) (simp_all add: that)
  obtain db' res where s: "t_save D db ?r = (db', res)" by fastforce
  have 1: "keeps (t_find D) td_status V db db'" using k [of ?r db] s assms(2) by simp
  have 2: "keeps (t_find D) td_status V db' (fst (t_save D db' (?r\<lparr>td_id := i, td_status := ''error'', td_error := e\<rparr>)))" for i e
    by (rule k) (simp add: assms(3))
  show ?thesis
    using 1 keeps_trans [OF 1 2] s by (auto simp: RequestDump_def Let_def split: option.splits)
qed

lemma dump_HandleResponse_keeps:
  assumes rt: "record_table D td_id set_td_id" and "''error'' \<in> V" and "''success'' \<in> V"
  shows "keeps (t_find D) td_status V db (dump_HandleResponse newest D p db)"
  unfolding dump_HandleResponse_def
  by (auto intro!: save_keeps [OF rt] simp: assms(2,3) split: option.split list.split)

lemma thread_dump_route_keeps:
  assumes "record_table D td_id set_td_id" and "''pending'' \<in> V" and "''error'' \<in> V"
  shows "keeps (t_find D) td_status V db (fst (handleRequestThreadDump D sender snap newest M mdb ms now auth body a db))"
proof -
  have "keeps (t_find D) td_status V db db'" if "RequestDump D sender ms now a pid name who db = (db', r)" for pid name who db' r
    using RequestDump_keeps [OF assms, of db sender ms now a pid name who] that by simp
  then show ?thesis
    by (auto simp: handleRequestThreadDump_def split: option.splits prod.splits sum.splits if_splits)
qed

section \<open>Agents\<close>

lemma agent_resave:
  assumes rt: "record_table A ag_id set_ag_id" and r: "t_find A db i = Some r0"
  shows "ag_status r = ag_status r0 \<or> ag_status r \<in> V \<Longrightarrow> keeps (t_find A) ag_status V db (fst (t_save A db r))"
    and "ag_update_status r = ag_update_status r0 \<or> ag_update_status r \<in> V \<Longrightarrow>
      keeps (t_find A) ag_update_status V db (fst (t_save A db r))"
  using r by (auto intro!: save_keeps [OF rt] dest: rows_inD)

lemma apply_register_status [simp]: "ag_status (apply_register now p a) = ''online''"
  by (simp add: apply_register_def go_online_def Let_def)

lemma apply_register_stage: "ag_update_status (apply_register now p a) \<in> {ag_update_status a, ''done''}"
  by (simp add: apply_register_def go_online_def Let_def)

lemma apply_stage_status [simp]: "ag_status (apply_stage p a) = ag_status a" "ag_update_status (apply_stage p a) = update_stage p"
  by (simp_all add: apply_stage_def Let_def)

text \<open>The writers of \<open>agents\<close> on a connection.\<close>

lemma agent_status_kept:
  assumes rt: "record_table A ag_id set_ag_id" and "''online'' \<in> V"
  shows "keeps (t_find A) ag_status V db (updateLastSeen A now i db)"
    and "keeps (t_find A) ag_status V db (recordHeartbeat A now i w db)"
    and "keeps (t_find A) ag_status V db (bumpLinesTotal A i n db)"
    and "keeps (t_find A) ag_status V db (update_HandleResponse A p db)"
proof -
  show "keeps (t_find A) ag_status V db (updateLastSeen A now i db)"
    by (auto simp: updateLastSeen_def go_online_def assms(2) intro!: agent_resave [OF rt] split: option.split)
  show "keeps (t_find A) ag_status V db (recordHeartbeat A now i w db)"
    by (auto simp: recordHeartbeat_def go_online_def assms(2) intro!: agent_resave [OF rt] split: option.split)
  show "keeps (t_find A) ag_status V db (bumpLinesTotal A i n db)"
    by (auto simp: bumpLinesTotal_def intro!: agent_resave [OF rt] split: option.split)
  show "keeps (t_find A) ag_status V db (update_HandleResponse A p db)"
    by (auto simp: update_HandleResponse_def intro!: agent_resave [OF rt] split: option.split)
qed

lemma hub_receives_keeps:
  assumes rt: "record_table A ag_id set_ag_id"
  shows "''online'' \<in> V \<Longrightarrow> keeps (t_find A) ag_status V db (hub_receives A i rs db)"
    and "\<forall>r \<in> set rs. update_stage r \<in> V \<Longrightarrow> keeps (t_find A) ag_update_status V db (hub_receives A i rs db)"
proof -
  show "''online'' \<in> V \<Longrightarrow> keeps (t_find A) ag_status V db (hub_receives A i rs db)"
    unfolding hub_receives_def by (rule keeps_fold) (rule agent_status_kept [OF rt])
  have "keeps (t_find A) ag_update_status V d (update_HandleResponse A (r\<lparr>rs_AgentID := i\<rparr>) d)" if "update_stage r \<in> V" for r d
    using that by (auto simp: update_HandleResponse_def intro!: agent_resave(2) [OF rt] split: option.split)
  then show "\<forall>r \<in> set rs. update_stage r \<in> V \<Longrightarrow> keeps (t_find A) ag_update_status V db (hub_receives A i rs db)"
    unfolding hub_receives_def by (intro keeps_fold) blast
qed

text \<open>The update route stores the record it loaded before the responses came in.\<close>

lemma update_history_keeps:
  assumes rt: "record_table A ag_id set_ag_id"
    and f: "\<And>d. keeps (t_find A) f V d (hub_receives A i (take k rs) d)" "\<And>d. keeps (t_find A) f V d (hub_receives A i (drop k rs) d)"
    and g: "\<And>j a. f (set_ag_id j a) = f a"
    and w: "\<And>v a out. f a \<in> V \<Longrightarrow> f (request_fields now who v out a) \<in> V"
  shows "keeps (t_find A) f V db (update_history A send ms now who base raw i k rs db)"
proof -
  let ?d = "hub_receives A i (take k rs) db"
  have "keeps (t_find A) f V db (fst (handleAgentUpdate A send (hub_receives A i (take k rs)) ms now who base (Some raw) i db))"
  proof (cases "normalizeVersion raw")
    case (Some v)
    note v = Some
    show ?thesis
    proof (cases "t_find A db i")
      case (Some a)
      let ?out = "dispatchUpdateCommand send ms a v base"
      have "keeps (t_find A) f V db (recordUpdateRequest A now who a v ?out ?d)"
        unfolding keeps_def
      proof
        assume d: "rows_in (t_find A) f V db"
        have a: "f (request_fields now who v ?out a) \<in> V" by (rule w) (rule rows_inD [OF d Some])
        have "keeps (t_find A) f V ?d (recordUpdateRequest A now who a v ?out ?d)"
          unfolding recordUpdateRequest_def by (rule save_keeps [OF rt g a])
        with f(1) [of db] d show "rows_in (t_find A) f V (recordUpdateRequest A now who a v ?out ?d)"
          by (simp add: keeps_def)
      qed
      with Some v show ?thesis by (simp add: handleAgentUpdate_def Let_def)
    qed (simp add: handleAgentUpdate_def v)
  qed (simp add: handleAgentUpdate_def)
  from keeps_trans [OF this f(2)] show ?thesis by (simp add: update_history_def)
qed

lemma sent_stages:
  assumes "handleUpdateCommand H version cfg args m = (m', rs, restarted)" and "r \<in> set rs"
  shows "update_stage r \<in> {''started'', ''downloading'', ''verifying'', ''installing'', ''restarting'', ''restart_required'', ''failed''}"
proof -
  let ?S = "{''started'', ''downloading'', ''verifying'', ''installing'', ''restarting'', ''restart_required'', ''failed''}"
  from update_run [OF assms(1)] have "\<forall>r \<in> set rs. rs_Stage r \<in> ?S"
  proof (elim disjE exE conjE)
    fix stages result pre final
    assume "rs = pre @ [final]" and "list_all (\<lambda>r. rs_Command r = ''update'' \<and>
        rs_Stage r \<in> {''started'', ''downloading'', ''verifying'', ''installing''}) pre"
      and "rs_Stage final = (if \<not> re_OK result then ''failed'' else if re_RestartRequired result then ''restart_required''
        else ''restarting'')"
    then show ?thesis by (auto simp: list_all_iff)
  qed simp
  with assms(2) have "rs_Stage r \<in> ?S" by blast
  then have "update_stage r = rs_Stage r" by (auto simp: update_stage_def)
  with \<open>rs_Stage r \<in> ?S\<close> show ?thesis by (simp only:)
qed

lemma token_routes_keep:
  assumes rt: "record_table A ag_id set_ag_id" and "''pending'' \<in> V"
  shows "keeps (t_find A) ag_status V db (fst (handleGenerateAgentToken A hash random i db))"
    and "keeps (t_find A) ag_status V db (fst (BootstrapAgent A hash col token db))"
proof -
  have new: "keeps (t_find A) ag_status V db db'"
    if "t_save A db r = (db', res)" "ag_status r \<in> V" for r db' res
    using save_keeps [OF rt, of ag_status V db r] that by simp
  have old: "keeps (t_find A) ag_status V db db'"
    if "t_find A db i = Some a" "t_save A db (with_token h a) = (db', res)" for a h db' res
    using agent_resave(1) [OF rt that(1), of "with_token h a" V] that(2) assms(2) by (simp add: with_token_def)
  show "keeps (t_find A) ag_status V db (fst (handleGenerateAgentToken A hash random i db))"
    by (auto simp: handleGenerateAgentToken_def old split: option.split prod.split)
  show "keeps (t_find A) ag_status V db (fst (BootstrapAgent A hash col token db))"
    using assms(2) by (auto simp: BootstrapAgent_def intro: new split: option.split prod.split list.split)
qed

section \<open>The connections\<close>

text \<open>
  The rows an agent's connection writes, of four collections. \<open>adm n f\<close> is the set of admitted values of
  field \<open>f\<close> of collection \<open>n\<close>.
\<close>

definition hub_in :: "(string \<Rightarrow> string \<Rightarrow> string set) \<Rightarrow> ('a, 'm, 'c, 'l, 'd) hub_env \<Rightarrow> ('a, 'm, 'c, 'l, 'd) hub \<Rightarrow> bool" where
  "hub_in adm E h \<longleftrightarrow>
     rows_in (t_find (he_agents E)) ag_status (adm ''agents'' ''status'') (db_agents h) \<and>
     rows_in (t_find (he_metrics E)) mt_resolution (adm ''metrics'' ''resolution'') (db_metrics h) \<and>
     rows_in (t_find (he_logs E)) lg_level (adm ''logs'' ''level'') (db_logs h) \<and>
     rows_in (t_find (he_dumps E)) td_status (adm ''thread_dumps'' ''status'') (db_dumps h)"

definition hub_admits :: "(string \<Rightarrow> string \<Rightarrow> string set) \<Rightarrow> bool" where
  "hub_admits adm \<longleftrightarrow> {''online'', ''offline'', ''pending''} \<subseteq> adm ''agents'' ''status'' \<and>
     ''raw'' \<in> adm ''metrics'' ''resolution'' \<and> {''error'', ''warning'', ''info'', ''debug''} \<subseteq> adm ''logs'' ''level'' \<and>
     {''error'', ''success''} \<subseteq> adm ''thread_dumps'' ''status''"

text \<open>\<open>hub_keeps\<close>: each of the four tables goes from one state to another that is admitted if the first is.\<close>

definition hub_keeps ::
  "(string \<Rightarrow> string \<Rightarrow> string set) \<Rightarrow> ('a, 'm, 'c, 'l, 'd) hub_env \<Rightarrow> ('a, 'm, 'c, 'l, 'd) hub \<Rightarrow> ('a, 'm, 'c, 'l, 'd) hub \<Rightarrow> bool" where
  "hub_keeps adm E h h' \<longleftrightarrow>
     keeps (t_find (he_agents E)) ag_status (adm ''agents'' ''status'') (db_agents h) (db_agents h') \<and>
     keeps (t_find (he_metrics E)) mt_resolution (adm ''metrics'' ''resolution'') (db_metrics h) (db_metrics h') \<and>
     keeps (t_find (he_logs E)) lg_level (adm ''logs'' ''level'') (db_logs h) (db_logs h') \<and>
     keeps (t_find (he_dumps E)) td_status (adm ''thread_dumps'' ''status'') (db_dumps h) (db_dumps h')"

lemma hub_keepsD: "hub_keeps adm E h h' \<Longrightarrow> hub_in adm E h \<longrightarrow> hub_in adm E h'"
  by (simp add: hub_keeps_def hub_in_def keeps_def)

lemma hub_keeps_agents:
  "keeps (t_find (he_agents E)) ag_status (adm ''agents'' ''status'') (db_agents h) db' \<Longrightarrow> hub_keeps adm E h (h\<lparr>db_agents := db'\<rparr>)"
  by (simp add: hub_keeps_def)

lemma hub_keeps_refl [simp]: "hub_keeps adm E h h"
  by (simp add: hub_keeps_def)

lemma hub_keeps_trans: "hub_keeps adm E a b \<Longrightarrow> hub_keeps adm E b c \<Longrightarrow> hub_keeps adm E a c"
  unfolding hub_keeps_def by (blast intro: keeps_trans)

lemma hub_keeps_conns [simp]:
  "hub_keeps adm E (h\<lparr>hb_conns := cs\<rparr>) h' = hub_keeps adm E h h'" "hub_keeps adm E h (h'\<lparr>hb_agents := as\<rparr>) = hub_keeps adm E h h'"
  "hub_keeps adm E h (h'\<lparr>hb_conns := cs\<rparr>) = hub_keeps adm E h h'"
  by (simp_all add: hub_keeps_def)

lemma removeAgent_keeps:
  assumes ok: "env_ok E" and adm: "hub_admits adm"
  shows "hub_keeps adm E h (removeAgent E i h)"
proof (cases "t_find (he_agents E) (db_agents h) i")
  case (Some r)
  have A: "record_table (he_agents E) ag_id set_ag_id" using ok by (simp add: env_ok_def)
  have "keeps (t_find (he_agents E)) ag_status (adm ''agents'' ''status'') (db_agents h)
      (fst (t_save (he_agents E) (db_agents h) (r\<lparr>ag_status := ''offline''\<rparr>)))"
    using adm by (intro agent_resave(1) [OF A Some]) (simp add: hub_admits_def)
  then show ?thesis using Some by (simp add: removeAgent_def hub_keeps_def Let_def)
qed (simp add: removeAgent_def)

lemma connection_keeps:
  assumes ok: "env_ok E" and adm: "hub_admits adm"
  shows "hub_keeps adm E h (fst (HandleWebSocket E qt ah up now h))"
    and "hub_keeps adm E h (pump_exit E c h)" and "hub_keeps adm E h (check_heartbeat E timeout now key h)"
proof -
  have A: "record_table (he_agents E) ag_id set_ag_id" using ok by (simp add: env_ok_def)
  have on: "keeps (t_find (he_agents E)) ag_status (adm ''agents'' ''status'') db (fst (t_save (he_agents E) db (go_online now r)))" for db r
    using adm by (intro save_keeps [OF A]) (simp_all add: go_online_def hub_admits_def)
  show "hub_keeps adm E h (fst (HandleWebSocket E qt ah up now h))"
    by (auto simp: HandleWebSocket_def hub_keeps_def Let_def on split: option.split)
  note rm = removeAgent_keeps [OF ok adm]
  show "hub_keeps adm E h (pump_exit E c h)"
    using rm [of "h\<lparr>hb_conns := (hb_conns h)(c := None)\<rparr>"] by (auto simp: pump_exit_def split: option.split)
  show "hub_keeps adm E h (check_heartbeat E timeout now key h)"
    using rm [of "h\<lparr>hb_conns := cs\<rparr>" for cs] by (auto simp: check_heartbeat_def split: option.split)
qed

lemma routeMessage_keeps:
  assumes ok: "env_ok E" and adm: "hub_admits adm"
  shows "hub_keeps adm E h (fst (routeMessage E now ms a msg h))"
proof -
  have A: "record_table (he_agents E) ag_id set_ag_id" and M: "record_table (he_metrics E) mt_id set_mt_id"
    and L: "record_table (he_logs E) lg_id set_lg_id" and D: "record_table (he_dumps E) td_id set_td_id"
    using ok by (simp_all add: env_ok_def)
  have on: "''online'' \<in> adm ''agents'' ''status''" using adm by (simp add: hub_admits_def)
  note W = agent_status_kept [OF A on]
  have "hub_keeps adm E h (fst (handleRegister E now ms a msg h))"
  proof (cases "decode_register (he_codec E) (msg_Payload msg)")
    case (Some p)
    note p = Some
    show ?thesis
    proof (cases "t_find (he_agents E) (db_agents h) a")
      case (Some r)
      obtain db' res where s: "t_save (he_agents E) (db_agents h) (apply_register now p r) = (db', res)" by fastforce
      have "keeps (t_find (he_agents E)) ag_status (adm ''agents'' ''status'') (db_agents h) db'"
        using agent_resave(1) [OF A Some, of "apply_register now p r" "adm ''agents'' ''status''"] s on by simp
      with p Some s show ?thesis by (cases res) (simp_all add: handleRegister_def hub_keeps_agents)
    qed (simp add: handleRegister_def p)
  qed (simp add: handleRegister_def)
  moreover have "hub_keeps adm E h (handleMetrics E now a msg h)"
  proof (cases "decode_metrics (he_codec E) (msg_Payload msg)")
    case (Some p)
    have r: "''raw'' \<in> adm ''metrics'' ''resolution''" using adm by (simp add: hub_admits_def)
    note IngestMetrics_keeps [OF M r, of "(db_metrics h, db_containers h)" "he_containers E" "he_stored E" now a "p\<lparr>mp_AgentID := a\<rparr>"]
    with Some W(1) show ?thesis by (auto simp: handleMetrics_def hub_keeps_def split: prod.splits)
  qed (simp add: handleMetrics_def)
  moreover have "hub_keeps adm E h (handleLogs E now a msg h)"
  proof (cases "decode_logs (he_codec E) (msg_Payload msg)")
    case (Some p)
    have r: "{''error'', ''warning'', ''info'', ''debug''} \<subseteq> adm ''logs'' ''level''" using adm by (simp add: hub_admits_def)
    obtain l' a' where run: "IngestLogs (he_logs E) (he_agents E) (he_commits E) now a (Some (p\<lparr>lp_AgentID := a\<rparr>))
        (db_logs h, db_agents h) = (l', a')" by fastforce
    have l: "keeps (t_find (he_logs E)) lg_level (adm ''logs'' ''level'') (db_logs h) l'"
      using IngestLogs_keeps [OF L r, of "db_logs h" "he_agents E" "he_commits E" now a "Some (p\<lparr>lp_AgentID := a\<rparr>)" "db_agents h"] run
      by simp
    have "keeps (t_find (he_agents E)) ag_status (adm ''agents'' ''status'') (db_agents h) a'"
      using run W(3) by (auto simp: IngestLogs_def split: if_splits prod.splits)
    with Some run l keeps_trans [OF _ W(1)] show ?thesis by (simp add: handleLogs_def hub_keeps_def)
  qed (simp add: handleLogs_def)
  moreover have "hub_keeps adm E h (handleHeartbeat E now a msg h)"
    using W(2) by (auto simp: handleHeartbeat_def hub_keeps_def split: option.split)
  moreover have "hub_keeps adm E h (handleCommandResponse E a msg h)"
    using W(4) dump_HandleResponse_keeps [OF D, of "adm ''thread_dumps'' ''status''"] adm
    by (auto simp: handleCommandResponse_def hub_keeps_def hub_admits_def Let_def split: option.split)
  ultimately show ?thesis by (cases "msg_Type msg") (simp_all add: routeMessage_def)
qed

lemma receive_keeps:
  assumes "env_ok E" and "hub_admits adm"
  shows "hub_keeps adm E h (fst (receive E now ms c data h))"
  using routeMessage_keeps [OF assms, of "h\<lparr>hb_conns := cs\<rparr>" for cs]
  by (auto simp: receive_def Let_def split: option.split)

section \<open>The audit log\<close>

text \<open>The results of the entries the routes hand to \<open>audit.Record\<close>, and the rows of the hooks.\<close>

lemma serve_crud_in:
  assumes "''success'' \<in> V" and "aw_result ` set ls \<subseteq> V"
  shows "aw_result ` set (snd (fst (serve_crud json enc col sav q nxt (db, ls)))) \<subseteq> V"
proof -
  obtain db' after ok where n: "nxt db = (db', after, ok)" by (metis prod_cases3)
  show ?thesis
  proof (cases "audited_spec json q")
    case (Some spec)
    with n assms show ?thesis
      by (auto simp: serve_crud_def hook_def Record_entry_def audit_row_of_def hook_entry_def Let_def)
  qed (use n assms in \<open>simp add: serve_crud_def\<close>)
qed

lemma entry_results:
  "entry \<in> set_option (snd (snd (snd (handleGenerateAgentToken A hash random i db)))) \<Longrightarrow> ey_Result entry = ''success''"
  "entry \<in> set_option (snd (snd (snd (handleGeneratePrometheusToken hash random store st)))) \<Longrightarrow> ey_Result entry = ''success''"
  "entry \<in> set_option (snd (snd (snd (handleRequestThreadDump D sender snap newest M mdb ms now auth body a d)))) \<Longrightarrow>
     ey_Result entry \<in> {''success'', ''failure''}"
  "ey_Result (send_entry results) \<in> {''success'', ''failure''}"
  "rp_audit (handleDockerAction send ms a c act) = Some (what, target, res) \<Longrightarrow> res \<in> {''success'', ''failure''}"
  "snd (snd (snd (handleSendTestPush P ms caller ps))) = Some (res, counts) \<Longrightarrow> res \<in> {''success'', ''failure''}"
proof -
  show "entry \<in> set_option (snd (snd (snd (handleGenerateAgentToken A hash random i db)))) \<Longrightarrow> ey_Result entry = ''success''"
    by (auto simp: handleGenerateAgentToken_def token_entry_def split: if_splits option.splits prod.splits)
  show "entry \<in> set_option (snd (snd (snd (handleGeneratePrometheusToken hash random store st)))) \<Longrightarrow> ey_Result entry = ''success''"
    by (auto simp: handleGeneratePrometheusToken_def split: option.splits prod.splits bool.splits)
  show "entry \<in> set_option (snd (snd (snd (handleRequestThreadDump D sender snap newest M mdb ms now auth body a d)))) \<Longrightarrow>
     ey_Result entry \<in> {''success'', ''failure''}"
    by (auto simp: handleRequestThreadDump_def dump_entry_def split: option.splits prod.splits sum.splits if_splits)
  show "ey_Result (send_entry results) \<in> {''success'', ''failure''}"
    by (simp add: send_entry_def resultLabel_def Let_def)
  show "rp_audit (handleDockerAction send ms a c act) = Some (what, target, res) \<Longrightarrow> res \<in> {''success'', ''failure''}"
    by (auto simp: handleDockerAction_def docker_outcome_def Let_def split: if_splits prod.splits sum.splits SendError.splits)
  show "snd (snd (snd (handleSendTestPush P ms caller ps))) = Some (res, counts) \<Longrightarrow> res \<in> {''success'', ''failure''}"
    by (auto simp: handleSendTestPush_def Let_def split: option.splits prod.splits if_splits)
qed

section \<open>The writers and the fields\<close>

definition admitted :: "schema \<Rightarrow> string \<Rightarrow> string \<Rightarrow> string set" where
  "admitted s n f = set (values_in s n f)"

lemma admitted_values:
  assumes "cl_name u = ''users''" and "field_of ''role'' u = None"
    and "migrate P saves hash (fresh u, old) = Some (s, old')"
  shows "set known_collectors \<subseteq> admitted s ''metrics'' ''type''"
    and "admitted s ''metrics'' ''resolution'' = {''raw'', ''1m'', ''5m'', ''1h''}"
    and "admitted s ''logs'' ''level'' = {''error'', ''warning'', ''info'', ''debug''}"
    and "admitted s ''check_results'' ''status'' = {''up'', ''down''}"
    and "admitted s ''alerts'' ''status'' = {''firing'', ''resolved''}"
    and "admitted s ''agents'' ''status'' = {''online'', ''offline'', ''pending''}"
    and "admitted s ''agents'' ''update_status'' = {''idle'', ''started'', ''downloading'', ''verifying'', ''installing'', ''restarting'',
      ''failed'', ''done'', ''restart_required''}"
    and "admitted s ''thread_dumps'' ''status'' = {''pending'', ''success'', ''error''}"
    and "admitted s ''audit_log'' ''result'' = {''success'', ''failure''}"
    and "admitted s ''users'' ''role'' = {''viewer'', ''operator'', ''admin''}"
proof -
  note f = final_collections [OF assms(1,3)]
  show "set known_collectors \<subseteq> admitted s ''metrics'' ''type''"
    by (simp add: admitted_def values_in_def f metric_types known_collectors_def)
  show "admitted s ''metrics'' ''resolution'' = {''raw'', ''1m'', ''5m'', ''1h''}"
    by (simp add: admitted_def values_in_def f metric_resolutions)
  show "admitted s ''logs'' ''level'' = {''error'', ''warning'', ''info'', ''debug''}"
    by (simp add: admitted_def values_in_def f other_values)
  show "admitted s ''check_results'' ''status'' = {''up'', ''down''}"
    by (simp add: admitted_def values_in_def f other_values)
  show "admitted s ''alerts'' ''status'' = {''firing'', ''resolved''}"
    by (simp add: admitted_def values_in_def f other_values)
  show "admitted s ''agents'' ''status'' = {''online'', ''offline'', ''pending''}"
    by (simp add: admitted_def values_in_def f agent_values)
  show "admitted s ''agents'' ''update_status'' = {''idle'', ''started'', ''downloading'', ''verifying'', ''installing'', ''restarting'',
      ''failed'', ''done'', ''restart_required''}"
    by (simp only: admitted_def values_in_def f agent_values option.case field.case list.set)
  show "admitted s ''thread_dumps'' ''status'' = {''pending'', ''success'', ''error''}"
    by (simp add: admitted_def values_in_def f other_values)
  have "field_of ''result'' audit_log_col = Some (SelectField ''result'' True [''success'', ''failure''])"
    by (simp add: audit_log_col_def)
  then show "admitted s ''audit_log'' ''result'' = {''success'', ''failure''}"
    by (simp add: admitted_def values_in_def f)
  show "admitted s ''users'' ''role'' = {''viewer'', ''operator'', ''admin''}"
    by (simp add: admitted_def values_in_def f role_values [OF assms(2)])
qed

lemma hub_admitted:
  assumes "cl_name u = ''users''" and "field_of ''role'' u = None"
    and "migrate P saves hash (fresh u, old) = Some (s, old')"
  shows "hub_admits (admitted s)"
  unfolding hub_admits_def admitted_values [OF assms] by simp

lemma update_stages_admitted:
  assumes rt: "record_table A ag_id set_ag_id" and "handleUpdateCommand H version acfg args m = (m', rs, restarted)"
    and V: "{''started'', ''downloading'', ''verifying'', ''installing'', ''restarting'', ''restart_required'', ''failed''} \<subseteq> V"
  shows "keeps (t_find A) ag_update_status V db (update_history A send ms now who base raw i k rs db)"
proof (rule update_history_keeps [OF rt])
  have st: "\<forall>r \<in> set rs. update_stage r \<in> V" using sent_stages [OF assms(2)] V by blast
  show "keeps (t_find A) ag_update_status V d (hub_receives A i (take k rs) d)" for d
    using st by (intro hub_receives_keeps(2) [OF rt]) (auto dest: in_set_takeD)
  show "keeps (t_find A) ag_update_status V d (hub_receives A i (drop k rs) d)" for d
    using st by (intro hub_receives_keeps(2) [OF rt]) (auto dest: in_set_dropD)
  show "ag_update_status (request_fields now who v out a) \<in> V" for v a out
    using V by (simp add: request_fields_def)
qed simp

lemma update_status_untouched:
  assumes rt: "record_table A ag_id set_ag_id" and "''online'' \<in> V"
  shows "keeps (t_find A) ag_status V db (update_history A send ms now who base raw i k rs db)"
  by (rule update_history_keeps [OF rt])
    (simp_all add: hub_receives_keeps(1) [OF rt] assms(2) request_fields_def)

text \<open>C39: On a fresh install each of these writers stores only values that the select field admits, whatever
  calls fail: if the rows had admitted values before, they have afterwards. The type of every metric a
  collection cycle of the agent sends; the resolution of the metrics, the level of the logs, the
  status of agents and of thread dumps for everything that can happen on an agent connection (a
  message, a connection, its end, a missed heartbeat); the resolution under the downsampler; the status of
  check results; of alerts under the engine and the acknowledgement routes; of agents under the
  token route, the bootstrap and the update route; the update status over an update of an agent whose
  responses come from the agent's update command (or empty: the field is not required); the status of
  the dumps under the dump route; the result of the audit rows of the hooks, and of the entries of the
  token, thread dump, report, Docker and test push routes; the name of every role.\<close>

theorem hub_values_fit_schema:
  assumes "cl_name u = ''users''" and "field_of ''role'' u = None"
    and "migrate P saves hash (fresh u, old) = Some (s, old')"
    and "env_ok E" and "record_table (ec_alerts cfg) al_id set_al_id" and "record_table R cr_id set_cr_id"
    and "map fst cs = fst (registerCollectors goos acfg)"
    and "handleUpdateCommand H version acfg args mach = (mach', rs, restarted)"
  shows "(\<forall>md \<in> set (snd (collect_all ts cs th)). md_Type md \<in> admitted s ''metrics'' ''type'')
    \<and> (hub_in (admitted s) E h \<longrightarrow> hub_in (admitted s) E (fst (receive E now ms c data h))
        \<and> hub_in (admitted s) E (fst (HandleWebSocket E qt ah up now h))
        \<and> hub_in (admitted s) E (pump_exit E c h) \<and> hub_in (admitted s) E (check_heartbeat E timeout now key h))
    \<and> keeps (t_find (he_metrics E)) mt_resolution (admitted s ''metrics'' ''resolution'') (db_metrics h)
        (aggregateMetrics order iter (he_metrics E) now (db_metrics h))
    \<and> (checks_in R (admitted s ''check_results'' ''status'') sch \<longrightarrow>
        checks_in R (admitted s ''check_results'' ''status'') (fst (RunOnce R find_check net now ck sch)))
    \<and> keeps (t_find (ec_alerts cfg)) al_status (admitted s ''alerts'' ''status'') (en_db e) (en_db (updateState cfg v e ob))
    \<and> keeps (t_find (ec_alerts cfg)) al_status (admitted s ''alerts'' ''status'') (en_db e)
        (fst (handleAckAlert w (ec_alerts cfg) (en_db e) ai auth now))
    \<and> keeps (t_find (ec_alerts cfg)) al_status (admitted s ''alerts'' ''status'') (en_db e)
        (fst (handleUnackAlert w (ec_alerts cfg) (en_db e) ai))
    \<and> keeps (t_find (he_agents E)) ag_status (admitted s ''agents'' ''status'') (db_agents h)
        (fst (handleGenerateAgentToken (he_agents E) sha random i (db_agents h)))
    \<and> keeps (t_find (he_agents E)) ag_status (admitted s ''agents'' ''status'') (db_agents h)
        (fst (BootstrapAgent (he_agents E) sha col token (db_agents h)))
    \<and> keeps (t_find (he_agents E)) ag_status (admitted s ''agents'' ''status'') (db_agents h)
        (update_history (he_agents E) send ms now who base raw i k rs (db_agents h))
    \<and> keeps (t_find (he_agents E)) ag_update_status (insert [] (admitted s ''agents'' ''update_status'')) (db_agents h)
        (update_history (he_agents E) send ms now who base raw i k rs (db_agents h))
    \<and> ag_update_status (apply_register now reg a) \<in> insert (ag_update_status a) (admitted s ''agents'' ''update_status'')
    \<and> keeps (t_find (he_dumps E)) td_status (admitted s ''thread_dumps'' ''status'') (db_dumps h)
        (fst (handleRequestThreadDump (he_dumps E) sender snap newest (he_metrics E) (db_metrics h) ms now auth body i (db_dumps h)))
    \<and> (aw_result ` set audit \<subseteq> admitted s ''audit_log'' ''result'' \<longrightarrow>
        aw_result ` set (snd (fst (serve_crud json enc has sav q nxt (d, audit)))) \<subseteq> admitted s ''audit_log'' ''result'')
    \<and> (\<forall>entry \<in> set_option (snd (snd (snd (handleGenerateAgentToken (he_agents E) sha random i (db_agents h))))). ey_Result entry \<in> admitted s ''audit_log'' ''result'')
    \<and> (\<forall>entry \<in> set_option (snd (snd (snd (handleGeneratePrometheusToken sha random store st)))). ey_Result entry \<in> admitted s ''audit_log'' ''result'')
    \<and> (\<forall>entry \<in> set_option (snd (snd (snd (handleRequestThreadDump (he_dumps E) sender snap newest (he_metrics E) (db_metrics h) ms now
          auth body i (db_dumps h))))).
          ey_Result entry \<in> admitted s ''audit_log'' ''result'')
    \<and> ey_Result (send_entry results) \<in> admitted s ''audit_log'' ''result''
    \<and> (\<forall>what target res. rp_audit (handleDockerAction command ms i ctr act) = Some (what, target, res) \<longrightarrow> res \<in> admitted s ''audit_log'' ''result'')
    \<and> (\<forall>res counts. snd (snd (snd (handleSendTestPush PE ms caller ps))) = Some (res, counts) \<longrightarrow> res \<in> admitted s ''audit_log'' ''result'')
    \<and> Role_String role \<in> admitted s ''users'' ''role''"
proof -
  note A = admitted_values [OF assms(1-3)] and hub = hub_admitted [OF assms(1-3)]
  have T: "record_table (he_agents E) ag_id set_ag_id" "record_table (he_metrics E) mt_id set_mt_id" "record_table (he_dumps E) td_id set_td_id"
    using assms(4) by (simp_all add: env_ok_def)
  have types: "md_Type md \<in> admitted s ''metrics'' ''type''" if "md \<in> set (snd (collect_all ts cs th))" for md
  proof -
    have "md_Type md \<in> set (fst (registerCollectors goos acfg))"
      using collected_types [OF that] by (simp add: assms(7) [symmetric])
    then show ?thesis using A(1) by (auto simp: registerCollectors_def Let_def)
  qed
  have hubs: "hub_in (admitted s) E h \<longrightarrow> hub_in (admitted s) E (fst (receive E now ms c data h))
        \<and> hub_in (admitted s) E (fst (HandleWebSocket E qt ah up now h))
        \<and> hub_in (admitted s) E (pump_exit E c h) \<and> hub_in (admitted s) E (check_heartbeat E timeout now key h)"
    using hub_keepsD [OF receive_keeps [OF assms(4) hub]] hub_keepsD [OF connection_keeps(1) [OF assms(4) hub]]
      hub_keepsD [OF connection_keeps(2) [OF assms(4) hub]] hub_keepsD [OF connection_keeps(3) [OF assms(4) hub]] by blast
  have update: "keeps (t_find (he_agents E)) ag_update_status (insert [] (admitted s ''agents'' ''update_status'')) (db_agents h)
      (update_history (he_agents E) send ms now who base raw i k rs (db_agents h))"
    by (rule update_stages_admitted [OF T(1) assms(8)]) (simp only: A(7) insert_subset empty_subsetI insert_iff simp_thms)
  have register: "ag_update_status (apply_register now reg a) \<in> insert (ag_update_status a) (admitted s ''agents'' ''update_status'')"
    using apply_register_stage [of now reg a] by (auto simp only: A(7) insert_iff empty_iff)
  have in_A: "''raw'' \<in> admitted s ''metrics'' ''resolution''" "''1m'' \<in> admitted s ''metrics'' ''resolution''"
    "''5m'' \<in> admitted s ''metrics'' ''resolution''" "''1h'' \<in> admitted s ''metrics'' ''resolution''"
    "''up'' \<in> admitted s ''check_results'' ''status''" "''down'' \<in> admitted s ''check_results'' ''status''"
    "''firing'' \<in> admitted s ''alerts'' ''status''" "''resolved'' \<in> admitted s ''alerts'' ''status''"
    "''pending'' \<in> admitted s ''agents'' ''status''" "''online'' \<in> admitted s ''agents'' ''status''"
    "''pending'' \<in> admitted s ''thread_dumps'' ''status''" "''error'' \<in> admitted s ''thread_dumps'' ''status''"
    "''success'' \<in> admitted s ''audit_log'' ''result''"
    by (simp_all only: A(2-10) insert_iff simp_thms)
  have checks: "checks_in R (admitted s ''check_results'' ''status'') sch \<longrightarrow>
        checks_in R (admitted s ''check_results'' ''status'') (fst (RunOnce R find_check net now ck sch))"
    by (intro impI RunOnce_keeps [OF assms(6) in_A(5,6)])
  have hooks: "aw_result ` set audit \<subseteq> admitted s ''audit_log'' ''result'' \<longrightarrow>
        aw_result ` set (snd (fst (serve_crud json enc has sav q nxt (d, audit)))) \<subseteq> admitted s ''audit_log'' ''result''"
    by (intro impI serve_crud_in [OF in_A(13)])
  have roles: "Role_String role \<in> admitted s ''users'' ''role''"
    by (cases role) (simp_all only: A(10) Role_String.simps insert_iff simp_thms)
  have results: "r \<in> {''success'', ''failure''} \<Longrightarrow> r \<in> admitted s ''audit_log'' ''result''" for r
    by (simp only: A(9))
  show ?thesis
    apply (intro conjI)
                      apply (rule ballI, rule types, assumption)
                     apply (rule hubs)
                    apply (rule aggregateMetrics_keeps [OF T(2) in_A(2-4)])
                   apply (rule checks)
                  apply (rule updateState_in [OF assms(5) in_A(7,8)])
                 apply (rule ack_in [OF assms(5)])+
               apply (rule token_routes_keep [OF T(1) in_A(9)])+
             apply (rule update_status_untouched [OF T(1) in_A(10)])
            apply (rule update)
           apply (rule register)
          apply (rule thread_dump_route_keeps [OF T(3) in_A(11,12)])
         apply (rule hooks)
        apply (rule ballI, drule entry_results(1), simp only: in_A)
       apply (rule ballI, drule entry_results(2), simp only: in_A)
      apply (rule ballI, drule entry_results(3), erule results)
     apply (rule results [OF entry_results(4)])
    apply (intro allI impI, drule entry_results(5), erule results)
   apply (intro allI impI, drule entry_results(6), erule results)
  apply (rule roles)
  done
qed


theorem hub_values_fit_schema_witness:
  "\<exists>s. migrate accept_all (\<lambda>_. True) (\<lambda>t. t) (fresh (NewBaseCollection ''users''), []) = Some (s, []) \<and>
     (\<forall>md \<in> set (snd (collect_all 0 [(''cpu'', 0, Some [])] (\<lambda>_. None))). md_Type md \<in> admitted s ''metrics'' ''type'') \<and>
     keeps (t_find sure_alerts) al_status (admitted s ''alerts'' ''status'') (sample_db [])
       (en_db (updateState (sure_cfg 0) (sample_view 0) (NewEngine (sample_db [])) (sample_ob True False)))"
proof -
  have u: "cl_name (NewBaseCollection ''users'') = ''users''" "field_of ''role'' (NewBaseCollection ''users'') = None" by simp_all
  obtain s where s: "migrate accept_all (\<lambda>_. True) (\<lambda>t. t) (fresh (NewBaseCollection ''users''), []) = Some (s, [])"
    using fresh_install_succeeds [OF accept_all_accepts u(1)] by blast
  let ?cfg = "plain_config\<lparr>cf_CollectorsEnabled := [''cpu'']\<rparr>"
  obtain m' rs restarted where run: "handleUpdateCommand (sample_host False) ''1.0.0'' ?cfg [] sample_machine = (m', rs, restarted)"
    by (metis prod_cases3)
  have c: "map fst [(''cpu'', 0 :: time, Some ([] :: obj))] = fst (registerCollectors ''linux'' ?cfg)"
    by (simp add: registerCollectors_def known_collectors_def Supported_def Let_def)
  have e: "record_table (ec_alerts (sure_cfg 0)) al_id set_al_id" by (simp add: sure_cfg_def sure.record_table_axioms)
  note fit = hub_values_fit_schema [OF u s sample_ok(1) e check_results.record_table_axioms c run]
  have "\<forall>md \<in> set (snd (collect_all 0 [(''cpu'', 0, Some [])] (\<lambda>_. None))). md_Type md \<in> admitted s ''metrics'' ''type''"
    by (rule fit [THEN conjunct1])
  moreover have "ec_alerts (sure_cfg 0) = sure_alerts" "en_db (NewEngine (sample_db [])) = sample_db []"
    by (simp_all add: sure_cfg_def NewEngine_def)
  with fit [where e = "NewEngine (sample_db [])" and v = "sample_view 0" and ob = "sample_ob True False",
      THEN conjunct2, THEN conjunct2, THEN conjunct2, THEN conjunct2, THEN conjunct1]
  have "keeps (t_find sure_alerts) al_status (admitted s ''alerts'' ''status'') (sample_db [])
      (en_db (updateState (sure_cfg 0) (sample_view 0) (NewEngine (sample_db [])) (sample_ob True False)))"
    by (simp only:)
  ultimately show ?thesis using s by (intro exI [of _ s] conjI)
qed

end
