(* ===== verification/Transport_Life.thy ===== *)
theory Transport_Life
  imports Nexwatch_Prelude
begin

text \<open>
  The goroutines of the agent's transport (\<open>internal/agent/transport/ws.go\<close>): \<open>Start\<close> with its
  cancelling goroutine, the read and the write pump of the current connection, and the callers of
  \<open>Stop\<close> and \<open>Wait\<close> (\<open>runAgent\<close> and \<open>reexecOrExit\<close> of \<open>cmd/agent/main.go\<close>). A state holds the
  program counter of each; an action is one atomic step of one of them, or of the outside: the
  peer, the network, the context of the caller. What the queue carries is the subject of
  \<open>Agent_Transport\<close>; here only its length matters. Connections are numbered in the order they
  are opened.
\<close>

section \<open>State\<close>

datatype start_pc = AtTop | Dialing | Dialed | InBackoff | Connected | Pumping | Returned
datatype read_pc = ReadOff | ReadStart | ReadTop nat | ReadBlocked nat | ReadDone
datatype write_pc = WriteOff | WriteStart | WriteTop nat | WriteDone
datatype stop_pc = StopIdle | StopSawOpen | StopCloseConn | StopWaiting | StopDone

record life =
  lf_start :: start_pc
  lf_read :: read_pc
  lf_write :: write_pc
  lf_callers :: "stop_pc list"
  lf_conn :: "nat option"
  lf_next :: nat
  lf_closed :: "nat set"
  lf_gone :: "nat set"
  lf_inbox :: "nat \<Rightarrow> nat"
  lf_queue :: nat
  lf_bye :: "nat set"
  lf_stopCh :: bool
  lf_ctx :: bool
  lf_pumpCtx :: bool
  lf_panic :: bool

text \<open>\<open>Start\<close> at its first iteration, \<open>n\<close> goroutines that may call \<open>Stop\<close>, \<open>q\<close> messages queued.\<close>

definition life_init :: "nat \<Rightarrow> nat \<Rightarrow> life" where
  "life_init n q = \<lparr>lf_start = AtTop, lf_read = ReadOff, lf_write = WriteOff, lf_callers = replicate n StopIdle,
     lf_conn = None, lf_next = 0, lf_closed = {}, lf_gone = {}, lf_inbox = (\<lambda>_. 0), lf_queue = q, lf_bye = {},
     lf_stopCh = False, lf_ctx = False, lf_pumpCtx = False, lf_panic = False\<rparr>"

text \<open>The atomic actions of each participant.\<close>

datatype start_action =
  TopDone | TopDial | DialFails | DialOk | StoreConn | BackoffOver | BackoffDone | SpawnPumps | PumpsJoined | Cancel
datatype read_action = ReadLoad | ReadCheck | ReadMsg | ReadErr
datatype write_action = WriteLoad | WriteCtx | WriteMsg | WriteFails | Heartbeat | HeartbeatFails | WriteStop
datatype stop_action = StopCheck nat | StopClose nat | StopConn nat | StopWait nat
datatype network_action = CtxCancel | PeerSends nat | PeerCloses nat

datatype action =
  Starter start_action | Reader read_action | Writer write_action | Caller stop_action | Network network_action

text \<open>The actions of the outside; a caller decides when it calls \<open>Stop\<close>.\<close>

fun outside :: "action \<Rightarrow> bool" where
  "outside (Caller (StopCheck i)) = True"
| "outside (Network a) = True"
| "outside _ = False"

section \<open>Steps\<close>

definition close_conn :: "life \<Rightarrow> life" where
  "close_conn s = (case lf_conn s of None \<Rightarrow> s | Some c \<Rightarrow> s\<lparr>lf_closed := insert c (lf_closed s), lf_conn := None\<rparr>)"

text \<open>\<open>Start\<close> returns: \<open>done\<close> is closed and the derived context released by the deferred \<open>cancel\<close>.\<close>

definition start_returns :: "life \<Rightarrow> life" where
  "start_returns s = s\<lparr>lf_start := Returned, lf_ctx := True\<rparr>"

fun start_step :: "start_action \<Rightarrow> life \<Rightarrow> life option" where
  "start_step TopDone s =
     (if lf_start s = AtTop \<and> (lf_ctx s \<or> lf_stopCh s) then Some (start_returns (close_conn s)) else None)"
| "start_step TopDial s =
     (if lf_start s = AtTop \<and> \<not> lf_ctx s \<and> \<not> lf_stopCh s then Some (s\<lparr>lf_start := Dialing\<rparr>) else None)"
| "start_step DialFails s = (if lf_start s = Dialing then Some (s\<lparr>lf_start := InBackoff\<rparr>) else None)"
| "start_step DialOk s = (if lf_start s = Dialing \<and> \<not> lf_ctx s then Some (s\<lparr>lf_start := Dialed\<rparr>) else None)"
| "start_step StoreConn s =
     (if lf_start s = Dialed
      then Some (s\<lparr>lf_start := Connected, lf_conn := Some (lf_next s), lf_next := Suc (lf_next s)\<rparr>) else None)"
| "start_step BackoffOver s = (if lf_start s = InBackoff then Some (s\<lparr>lf_start := AtTop\<rparr>) else None)"
| "start_step BackoffDone s =
     (if lf_start s = InBackoff \<and> (lf_ctx s \<or> lf_stopCh s) then Some (start_returns s) else None)"
| "start_step SpawnPumps s =
     (if lf_start s = Connected
      then Some (s\<lparr>lf_start := Pumping, lf_read := ReadStart, lf_write := WriteStart, lf_pumpCtx := False\<rparr>) else None)"
| "start_step PumpsJoined s =
     (if lf_start s = Pumping \<and> lf_read s = ReadDone \<and> lf_write s = WriteDone
      then Some (close_conn (s\<lparr>lf_start := AtTop, lf_read := ReadOff, lf_write := WriteOff\<rparr>)) else None)"
| "start_step Cancel s = (if lf_stopCh s \<and> \<not> lf_ctx s then Some (s\<lparr>lf_ctx := True\<rparr>) else None)"

text \<open>The context of the pumps is derived from that of \<open>Start\<close>.\<close>

definition pumps_cancelled :: "life \<Rightarrow> bool" where
  "pumps_cancelled s \<longleftrightarrow> lf_ctx s \<or> lf_pumpCtx s"

definition read_exits :: "life \<Rightarrow> life" where
  "read_exits s = s\<lparr>lf_read := ReadDone, lf_pumpCtx := True\<rparr>"

text \<open>
  \<open>ReadMessage\<close> has no deadline: it returns a frame that has arrived, or an error once the
  connection is closed on this side or the network has reported its end.
\<close>

fun readPump_step :: "read_action \<Rightarrow> life \<Rightarrow> life option" where
  "readPump_step ReadLoad s =
     (if lf_read s = ReadStart
      then Some (case lf_conn s of None \<Rightarrow> read_exits s | Some c \<Rightarrow> s\<lparr>lf_read := ReadTop c\<rparr>) else None)"
| "readPump_step ReadCheck s =
     (case lf_read s of
        ReadTop c \<Rightarrow> Some (if pumps_cancelled s then read_exits s else s\<lparr>lf_read := ReadBlocked c\<rparr>)
      | _ \<Rightarrow> None)"
| "readPump_step ReadMsg s =
     (case lf_read s of
        ReadBlocked c \<Rightarrow>
          if 0 < lf_inbox s c
          then Some (s\<lparr>lf_read := ReadTop c, lf_inbox := (lf_inbox s)(c := lf_inbox s c - 1)\<rparr>) else None
      | _ \<Rightarrow> None)"
| "readPump_step ReadErr s =
     (case lf_read s of
        ReadBlocked c \<Rightarrow>
          if c \<in> lf_closed s \<or> c \<in> lf_gone s \<and> lf_inbox s c = 0 then Some (read_exits s) else None
      | _ \<Rightarrow> None)"

definition write_exits :: "life \<Rightarrow> life" where
  "write_exits s = s\<lparr>lf_write := WriteDone, lf_pumpCtx := True\<rparr>"

text \<open>A write may fail at any time, since it has a deadline; on a connection closed here it always does.\<close>

fun writePump_step :: "write_action \<Rightarrow> life \<Rightarrow> life option" where
  "writePump_step WriteLoad s =
     (if lf_write s = WriteStart
      then Some (case lf_conn s of None \<Rightarrow> write_exits s | Some c \<Rightarrow> s\<lparr>lf_write := WriteTop c\<rparr>) else None)"
| "writePump_step WriteCtx s =
     (case lf_write s of
        WriteTop c \<Rightarrow>
          if pumps_cancelled s
          then Some (write_exits (if c \<in> lf_closed s then s else s\<lparr>lf_bye := insert c (lf_bye s)\<rparr>)) else None
      | _ \<Rightarrow> None)"
| "writePump_step WriteMsg s =
     (case lf_write s of
        WriteTop c \<Rightarrow> if 0 < lf_queue s \<and> c \<notin> lf_closed s then Some (s\<lparr>lf_queue := lf_queue s - 1\<rparr>) else None
      | _ \<Rightarrow> None)"
| "writePump_step WriteFails s =
     (case lf_write s of
        WriteTop c \<Rightarrow> if 0 < lf_queue s then Some (write_exits (s\<lparr>lf_queue := lf_queue s - 1\<rparr>)) else None
      | _ \<Rightarrow> None)"
| "writePump_step Heartbeat s =
     (case lf_write s of WriteTop c \<Rightarrow> if c \<notin> lf_closed s then Some s else None | _ \<Rightarrow> None)"
| "writePump_step HeartbeatFails s = (case lf_write s of WriteTop c \<Rightarrow> Some (write_exits s) | _ \<Rightarrow> None)"
| "writePump_step WriteStop s =
     (case lf_write s of WriteTop c \<Rightarrow> if lf_stopCh s then Some (write_exits s) else None | _ \<Rightarrow> None)"

text \<open>\<open>Stop\<close> and then \<open>Wait\<close>, by caller \<open>i\<close>; closing a closed channel panics.\<close>

definition caller :: "life \<Rightarrow> nat \<Rightarrow> stop_pc option" where
  "caller s i = (if i < length (lf_callers s) then Some (lf_callers s ! i) else None)"

definition caller_to :: "nat \<Rightarrow> stop_pc \<Rightarrow> life \<Rightarrow> life" where
  "caller_to i pc s = s\<lparr>lf_callers := (lf_callers s)[i := pc]\<rparr>"

fun stop_step :: "stop_action \<Rightarrow> life \<Rightarrow> life option" where
  "stop_step (StopCheck i) s =
     (if caller s i = Some StopIdle then Some (caller_to i (if lf_stopCh s then StopCloseConn else StopSawOpen) s)
      else None)"
| "stop_step (StopClose i) s =
     (if caller s i = Some StopSawOpen
      then Some (if lf_stopCh s then s\<lparr>lf_panic := True\<rparr> else caller_to i StopCloseConn (s\<lparr>lf_stopCh := True\<rparr>))
      else None)"
| "stop_step (StopConn i) s =
     (if caller s i = Some StopCloseConn then Some (caller_to i StopWaiting (close_conn s)) else None)"
| "stop_step (StopWait i) s =
     (if caller s i = Some StopWaiting \<and> lf_start s = Returned then Some (caller_to i StopDone s) else None)"

text \<open>The outside: the caller's context ends, a frame arrives, the network reports the end of a connection.\<close>

fun network_step :: "network_action \<Rightarrow> life \<Rightarrow> life option" where
  "network_step CtxCancel s = Some (s\<lparr>lf_ctx := True\<rparr>)"
| "network_step (PeerSends c) s =
     (if c < lf_next s \<and> c \<notin> lf_closed s \<and> c \<notin> lf_gone s
      then Some (s\<lparr>lf_inbox := (lf_inbox s)(c := Suc (lf_inbox s c))\<rparr>) else None)"
| "network_step (PeerCloses c) s =
     (if c < lf_next s then Some (s\<lparr>lf_gone := insert c (lf_gone s)\<rparr>) else None)"

text \<open>A panic ends the process.\<close>

definition life_step :: "action \<Rightarrow> life \<Rightarrow> life option" where
  "life_step a s =
     (if lf_panic s then None
      else (case a of
              Starter b \<Rightarrow> start_step b s
            | Reader b \<Rightarrow> readPump_step b s
            | Writer b \<Rightarrow> writePump_step b s
            | Caller b \<Rightarrow> stop_step b s
            | Network b \<Rightarrow> network_step b s))"

fun life_run :: "action list \<Rightarrow> life \<Rightarrow> life option" where
  "life_run [] s = Some s"
| "life_run (a # as) s = (case life_step a s of None \<Rightarrow> None | Some t \<Rightarrow> life_run as t)"

text \<open>The actions of the program that can happen in a state.\<close>

definition program_actions :: "nat \<Rightarrow> action list" where
  "program_actions n =
     map Starter [TopDone, TopDial, DialFails, DialOk, StoreConn, BackoffOver, BackoffDone, SpawnPumps, PumpsJoined, Cancel] @
     map Reader [ReadLoad, ReadCheck, ReadMsg, ReadErr] @
     map Writer [WriteLoad, WriteCtx, WriteMsg, WriteFails, Heartbeat, HeartbeatFails, WriteStop] @
     map Caller (map StopClose [0..<n] @ map StopConn [0..<n] @ map StopWait [0..<n])"

definition enabled :: "life \<Rightarrow> action list" where
  "enabled s = filter (\<lambda>a. life_step a s \<noteq> None) (program_actions (length (lf_callers s)))"

section \<open>What every reachable state satisfies\<close>

text \<open>
  Every connection ever opened is closed or is the current one, there is no current one while
  \<open>Start\<close> dials, waits or has returned, and the pumps live exactly while \<open>Start\<close> waits for them.
\<close>

definition inv_conns :: "life \<Rightarrow> bool" where
  "inv_conns s \<longleftrightarrow> {..<lf_next s} \<subseteq> lf_closed s \<union> set_option (lf_conn s) \<and> set_option (lf_conn s) \<subseteq> {..<lf_next s}"

definition inv_start :: "life \<Rightarrow> bool" where
  "inv_start s \<longleftrightarrow>
     (lf_read s \<noteq> ReadOff) = (lf_start s = Pumping) \<and> (lf_write s \<noteq> WriteOff) = (lf_start s = Pumping) \<and>
     (lf_conn s = None \<or> lf_start s = Connected \<or> lf_start s = Pumping) \<and> (lf_start s \<noteq> Returned \<or> lf_ctx s)"

fun read_conn :: "read_pc \<Rightarrow> nat set" where
  "read_conn (ReadTop c) = {c}" | "read_conn (ReadBlocked c) = {c}" | "read_conn _ = {}"

fun write_conn :: "write_pc \<Rightarrow> nat set" where
  "write_conn (WriteTop c) = {c}" | "write_conn _ = {}"

definition inv_pumps :: "life \<Rightarrow> bool" where
  "inv_pumps s \<longleftrightarrow> read_conn (lf_read s) \<union> write_conn (lf_write s) \<subseteq> {..<lf_next s}"

definition life_inv :: "life \<Rightarrow> bool" where
  "life_inv s \<longleftrightarrow> inv_conns s \<and> inv_start s \<and> inv_pumps s"

lemmas inv_defs = life_inv_def inv_conns_def inv_start_def inv_pumps_def

lemma inv_init: "life_inv (life_init n q)"
  by (simp add: inv_defs life_init_def)

lemmas life_updates = close_conn_def start_returns_def read_exits_def write_exits_def caller_to_def

lemma close_conn_conns: "inv_conns s \<Longrightarrow> inv_conns (close_conn s)"
  by (auto simp: inv_conns_def close_conn_def split: option.splits)

lemma close_conn_simps [simp]:
  "lf_conn (close_conn s) = None" "lf_start (close_conn s) = lf_start s" "lf_read (close_conn s) = lf_read s"
  "lf_write (close_conn s) = lf_write s" "lf_ctx (close_conn s) = lf_ctx s" "lf_next (close_conn s) = lf_next s"
  "lf_stopCh (close_conn s) = lf_stopCh s" "lf_inbox (close_conn s) = lf_inbox s"
  "lf_callers (close_conn s) = lf_callers s" "lf_panic (close_conn s) = lf_panic s"
  by (simp_all add: close_conn_def split: option.splits)

lemma conns_frame [simp]:
  "inv_conns (s\<lparr>lf_start := a\<rparr>) = inv_conns s" "inv_conns (s\<lparr>lf_read := b\<rparr>) = inv_conns s"
  "inv_conns (s\<lparr>lf_write := c\<rparr>) = inv_conns s" "inv_conns (s\<lparr>lf_callers := d\<rparr>) = inv_conns s"
  "inv_conns (s\<lparr>lf_gone := e\<rparr>) = inv_conns s" "inv_conns (s\<lparr>lf_inbox := f\<rparr>) = inv_conns s"
  "inv_conns (s\<lparr>lf_queue := g\<rparr>) = inv_conns s" "inv_conns (s\<lparr>lf_bye := h\<rparr>) = inv_conns s"
  "inv_conns (s\<lparr>lf_stopCh := i\<rparr>) = inv_conns s" "inv_conns (s\<lparr>lf_ctx := j\<rparr>) = inv_conns s"
  "inv_conns (s\<lparr>lf_pumpCtx := k\<rparr>) = inv_conns s" "inv_conns (s\<lparr>lf_panic := l\<rparr>) = inv_conns s"
  by (simp_all add: inv_conns_def)

lemma conns_store [simp]:
  "inv_conns s \<Longrightarrow> lf_conn s = None \<Longrightarrow> inv_conns (s\<lparr>lf_start := pc, lf_conn := Some (lf_next s), lf_next := Suc (lf_next s)\<rparr>)"
  by (auto simp: inv_conns_def less_Suc_eq)

lemma conns_bound: "inv_conns s \<Longrightarrow> lf_conn s = Some c \<Longrightarrow> c < lf_next s"
  by (simp add: inv_conns_def)

text \<open>An invariant is lifted to a step by cases on the action; most cases change one program counter.\<close>

lemmas inv_unfold = life_inv_def inv_start_def inv_pumps_def

lemma start_step_inv: "life_inv s \<Longrightarrow> start_step a s = Some t \<Longrightarrow> life_inv t"
  by (cases a) (auto simp: inv_unfold start_returns_def close_conn_conns split: if_splits)

lemma inv_frame [simp]:
  "life_inv (s\<lparr>lf_queue := q\<rparr>) = life_inv s" "life_inv (s\<lparr>lf_bye := b\<rparr>) = life_inv s"
  "life_inv (s\<lparr>lf_inbox := f\<rparr>) = life_inv s" "life_inv (s\<lparr>lf_pumpCtx := p\<rparr>) = life_inv s"
  by (simp_all add: inv_unfold)

lemma read_moves_inv:
  "life_inv s \<Longrightarrow> lf_read s \<noteq> ReadOff \<Longrightarrow> pc \<noteq> ReadOff \<Longrightarrow> read_conn pc \<subseteq> {..<lf_next s} \<Longrightarrow> life_inv (s\<lparr>lf_read := pc\<rparr>)"
  by (simp add: inv_unfold)

lemma write_moves_inv:
  "life_inv s \<Longrightarrow> lf_write s \<noteq> WriteOff \<Longrightarrow> pc \<noteq> WriteOff \<Longrightarrow> write_conn pc \<subseteq> {..<lf_next s} \<Longrightarrow> life_inv (s\<lparr>lf_write := pc\<rparr>)"
  by (simp add: inv_unfold)

lemma inv_bounds:
  "life_inv s \<Longrightarrow> lf_conn s = Some c \<Longrightarrow> c < lf_next s"
  "life_inv s \<Longrightarrow> lf_read s = ReadTop c \<Longrightarrow> c < lf_next s"
  "life_inv s \<Longrightarrow> lf_read s = ReadBlocked c \<Longrightarrow> c < lf_next s"
  "life_inv s \<Longrightarrow> lf_write s = WriteTop c \<Longrightarrow> c < lf_next s"
  by (simp_all add: life_inv_def inv_conns_def inv_pumps_def)

lemma read_exits_inv: "life_inv s \<Longrightarrow> lf_read s \<noteq> ReadOff \<Longrightarrow> life_inv (read_exits s)"
  by (simp add: read_exits_def read_moves_inv)

lemma write_exits_inv: "life_inv s \<Longrightarrow> lf_write s \<noteq> WriteOff \<Longrightarrow> life_inv (write_exits s)"
  by (simp add: write_exits_def write_moves_inv)

lemma readPump_step_inv:
  assumes "life_inv s" and "readPump_step a s = Some t"
  shows "life_inv t"
  using assms(2) inv_bounds [OF assms(1)]
  by (cases a; cases "lf_read s")
    (auto intro!: read_exits_inv read_moves_inv simp: assms(1) split: if_splits option.splits)

lemma writePump_step_inv:
  assumes "life_inv s" and "writePump_step a s = Some t"
  shows "life_inv t"
  using assms inv_bounds [OF assms(1)]
  by (cases a; cases "lf_write s")
    (auto intro!: write_exits_inv write_moves_inv split: if_splits option.splits)

lemma stop_step_inv: "life_inv s \<Longrightarrow> stop_step a s = Some t \<Longrightarrow> life_inv t"
  by (cases a) (auto simp: inv_unfold caller_to_def close_conn_conns split: if_splits)

lemma network_step_inv: "life_inv s \<Longrightarrow> network_step a s = Some t \<Longrightarrow> life_inv t"
  by (cases a) (auto simp: inv_unfold split: if_splits)

lemma life_stepE:
  assumes "life_step a s = Some t"
  obtains b where "a = Starter b" "\<not> lf_panic s" "start_step b s = Some t"
    | b where "a = Reader b" "\<not> lf_panic s" "readPump_step b s = Some t"
    | b where "a = Writer b" "\<not> lf_panic s" "writePump_step b s = Some t"
    | b where "a = Caller b" "\<not> lf_panic s" "stop_step b s = Some t"
    | b where "a = Network b" "\<not> lf_panic s" "network_step b s = Some t"
  using assms by (cases a) (simp_all add: life_step_def split: if_splits)

lemma life_step_inv: "life_inv s \<Longrightarrow> life_step a s = Some t \<Longrightarrow> life_inv t"
  by (erule life_stepE)
    (blast intro: start_step_inv readPump_step_inv writePump_step_inv stop_step_inv network_step_inv)+

lemma life_run_inv: "life_inv s \<Longrightarrow> life_run as s = Some t \<Longrightarrow> life_inv t"
  by (induction as arbitrary: s) (auto split: option.splits dest: life_step_inv)

lemma life_run_append: "life_run (as @ bs) s = Option.bind (life_run as s) (life_run bs)"
  by (induction as arbitrary: s) (simp_all split: option.splits)

lemmas reachable_inv = life_run_inv [OF inv_init]

section \<open>When nothing can happen\<close>

definition callers_among :: "stop_pc set \<Rightarrow> life \<Rightarrow> bool" where
  "callers_among ps s \<longleftrightarrow> set (lf_callers s) \<subseteq> ps"

definition finished :: "life \<Rightarrow> bool" where
  "finished s \<longleftrightarrow> lf_start s = Returned \<and> callers_among {StopIdle, StopDone} s"

text \<open>
  The writer has gone, and the reader waits for a frame on a connection that nobody has closed and
  whose peer is silent.
\<close>

definition waits_for_peer :: "life \<Rightarrow> nat \<Rightarrow> bool" where
  "waits_for_peer s c \<longleftrightarrow>
     lf_start s = Pumping \<and> lf_write s = WriteDone \<and> lf_read s = ReadBlocked c \<and>
     c \<notin> lf_closed s \<and> c \<notin> lf_gone s \<and> lf_inbox s c = 0 \<and>
     (lf_stopCh s \<longrightarrow> lf_ctx s) \<and> callers_among {StopIdle, StopWaiting, StopDone} s"

definition caller_of :: "action \<Rightarrow> nat option" where
  "caller_of a = (case a of Caller b \<Rightarrow> (case b of StopClose i \<Rightarrow> Some i | StopConn i \<Rightarrow> Some i | StopWait i \<Rightarrow> Some i
     | StopCheck i \<Rightarrow> None) | _ \<Rightarrow> None)"

lemma program_actions_inside: "a \<in> set (program_actions n) \<Longrightarrow> \<not> outside a"
  by (auto simp: program_actions_def)

lemma inside_listed:
  assumes "\<not> outside a" and "\<And>i. caller_of a = Some i \<Longrightarrow> i < n"
  shows "a \<in> set (program_actions n)"
proof (cases a)
  case (Starter b) then show ?thesis by (cases b) (simp_all add: program_actions_def)
next
  case (Reader b) then show ?thesis by (cases b) (simp_all add: program_actions_def)
next
  case (Writer b) then show ?thesis by (cases b) (simp_all add: program_actions_def)
next
  case (Caller b)
  with assms show ?thesis by (cases b) (auto simp: program_actions_def caller_of_def)
qed (use assms in simp)

lemma caller_of_bounded: "life_step a s \<noteq> None \<Longrightarrow> caller_of a = Some i \<Longrightarrow> i < length (lf_callers s)"
  by (auto simp: life_step_def caller_of_def caller_def split: if_splits action.splits stop_action.splits)

lemma enabled_iff: "enabled s = [] \<longleftrightarrow> (\<forall>a. \<not> outside a \<longrightarrow> life_step a s = None)"
proof
  assume e: "enabled s = []"
  show "\<forall>a. \<not> outside a \<longrightarrow> life_step a s = None"
  proof (intro allI impI, rule ccontr)
    fix a assume a: "\<not> outside a" "life_step a s \<noteq> None"
    have "a \<in> set (program_actions (length (lf_callers s)))"
      using inside_listed [OF a(1)] caller_of_bounded [OF a(2)] by blast
    with e a(2) show False by (simp add: enabled_def filter_empty_conv)
  qed
next
  assume "\<forall>a. \<not> outside a \<longrightarrow> life_step a s = None"
  then show "enabled s = []" by (auto simp: enabled_def filter_empty_conv dest: program_actions_inside)
qed

lemma not_enabled: "enabled s = [] \<Longrightarrow> \<not> outside a \<Longrightarrow> life_step a s = None"
  by (simp add: enabled_iff)

lemma stop_action_blocked:
  assumes "\<not> lf_panic s"
  shows "life_step (Caller (StopClose i)) s = None \<longleftrightarrow> caller s i \<noteq> Some StopSawOpen"
    and "life_step (Caller (StopConn i)) s = None \<longleftrightarrow> caller s i \<noteq> Some StopCloseConn"
    and "life_step (Caller (StopWait i)) s = None \<longleftrightarrow> caller s i \<noteq> Some StopWaiting \<or> lf_start s \<noteq> Returned"
  using assms by (simp_all add: life_step_def split: option.splits)

lemma callers_among_iff:
  "callers_among ps s \<longleftrightarrow> (\<forall>i pc. caller s i = Some pc \<longrightarrow> pc \<in> ps)"
  by (auto simp: callers_among_def caller_def in_set_conv_nth subset_iff)

lemma quiet_callers:
  assumes "enabled s = []" and "\<not> lf_panic s"
  shows "callers_among {StopIdle, StopWaiting, StopDone} s"
    and "lf_start s = Returned \<Longrightarrow> callers_among {StopIdle, StopDone} s"
proof -
  have pc: "pc \<noteq> StopSawOpen \<and> pc \<noteq> StopCloseConn \<and> (lf_start s = Returned \<longrightarrow> pc \<noteq> StopWaiting)"
    if "caller s i = Some pc" for i pc
    using that not_enabled [OF assms(1), of "Caller (StopClose i)"] not_enabled [OF assms(1), of "Caller (StopConn i)"]
      not_enabled [OF assms(1), of "Caller (StopWait i)"] by (auto simp: stop_action_blocked [OF assms(2)])
  show "callers_among {StopIdle, StopWaiting, StopDone} s"
    unfolding callers_among_iff by (metis pc insert_iff stop_pc.exhaust)
  show "callers_among {StopIdle, StopDone} s" if "lf_start s = Returned"
    unfolding callers_among_iff by (metis pc that insert_iff stop_pc.exhaust)
qed

lemma start_action_blocked:
  assumes "\<not> lf_panic s"
  shows "life_step (Starter TopDone) s = None \<longleftrightarrow> lf_start s \<noteq> AtTop \<or> \<not> lf_ctx s \<and> \<not> lf_stopCh s"
    and "life_step (Starter TopDial) s = None \<longleftrightarrow> lf_start s \<noteq> AtTop \<or> lf_ctx s \<or> lf_stopCh s"
    and "life_step (Starter DialFails) s = None \<longleftrightarrow> lf_start s \<noteq> Dialing"
    and "life_step (Starter DialOk) s = None \<longleftrightarrow> lf_start s \<noteq> Dialing \<or> lf_ctx s"
    and "life_step (Starter StoreConn) s = None \<longleftrightarrow> lf_start s \<noteq> Dialed"
    and "life_step (Starter BackoffOver) s = None \<longleftrightarrow> lf_start s \<noteq> InBackoff"
    and "life_step (Starter BackoffDone) s = None \<longleftrightarrow> lf_start s \<noteq> InBackoff \<or> \<not> lf_ctx s \<and> \<not> lf_stopCh s"
    and "life_step (Starter SpawnPumps) s = None \<longleftrightarrow> lf_start s \<noteq> Connected"
    and "life_step (Starter PumpsJoined) s = None \<longleftrightarrow> lf_start s \<noteq> Pumping \<or> lf_read s \<noteq> ReadDone \<or> lf_write s \<noteq> WriteDone"
    and "life_step (Starter Cancel) s = None \<longleftrightarrow> \<not> lf_stopCh s \<or> lf_ctx s"
  using assms by (auto simp: life_step_def)

lemma read_action_blocked:
  assumes "\<not> lf_panic s"
  shows "life_step (Reader ReadLoad) s = None \<longleftrightarrow> lf_read s \<noteq> ReadStart"
    and "life_step (Reader ReadCheck) s = None \<longleftrightarrow> (\<forall>c. lf_read s \<noteq> ReadTop c)"
    and "life_step (Reader ReadMsg) s = None \<longleftrightarrow> (\<forall>c. lf_read s = ReadBlocked c \<longrightarrow> lf_inbox s c = 0)"
    and "life_step (Reader ReadErr) s = None \<longleftrightarrow>
      (\<forall>c. lf_read s = ReadBlocked c \<longrightarrow> c \<notin> lf_closed s \<and> (c \<in> lf_gone s \<longrightarrow> 0 < lf_inbox s c))"
  using assms by (cases "lf_read s"; simp add: life_step_def)+

lemma write_action_blocked:
  assumes "\<not> lf_panic s"
  shows "life_step (Writer WriteLoad) s = None \<longleftrightarrow> lf_write s \<noteq> WriteStart"
    and "life_step (Writer HeartbeatFails) s = None \<longleftrightarrow> (\<forall>c. lf_write s \<noteq> WriteTop c)"
    and "lf_write s = WriteDone \<Longrightarrow> life_step (Writer b) s = None"
    and "lf_write s = WriteOff \<Longrightarrow> life_step (Writer b) s = None"
  using assms by (cases b; cases "lf_write s"; auto simp: life_step_def)+

lemmas action_blocked = start_action_blocked read_action_blocked write_action_blocked stop_action_blocked

lemma stuck_shape:
  assumes "life_inv s" and "\<not> lf_panic s" and "enabled s = []"
  shows "finished s \<or> (\<exists>c. waits_for_peer s c)"
proof -
  note off = not_enabled [OF assms(3)] and blocked = action_blocked [OF assms(2)]
  note inv = assms(1) [unfolded life_inv_def inv_start_def]
  note start = off [of "Starter TopDone"] off [of "Starter TopDial"] off [of "Starter DialFails"] off [of "Starter StoreConn"] off [of "Starter BackoffOver"]
    off [of "Starter SpawnPumps"] off [of "Starter PumpsJoined"] off [of "Starter Cancel"]
  from start have at: "lf_start s = Returned \<or> lf_start s = Pumping"
    by (cases "lf_start s") (auto simp: blocked)
  show ?thesis
  proof (cases "lf_start s = Returned")
    case True
    then show ?thesis using quiet_callers(2) [OF assms(3,2)] by (simp add: finished_def)
  next
    case False
    with at have p: "lf_start s = Pumping" by simp
    have w: "lf_write s = WriteDone" using inv p off [of "Writer WriteLoad"] off [of "Writer HeartbeatFails"]
      by (cases "lf_write s") (auto simp: blocked)
    have "lf_read s \<noteq> ReadDone" using start p w by (simp add: blocked)
    then obtain c where r: "lf_read s = ReadBlocked c" using inv p off [of "Reader ReadLoad"] off [of "Reader ReadCheck"]
      by (cases "lf_read s") (auto simp: blocked)
    have "lf_inbox s c = 0" "c \<notin> lf_closed s" "c \<notin> lf_gone s" using r off [of "Reader ReadMsg"] off [of "Reader ReadErr"]
      by (auto simp: blocked)
    moreover have "lf_stopCh s \<longrightarrow> lf_ctx s" using start by (simp add: blocked)
    ultimately show ?thesis using p w r quiet_callers(1) [OF assms(3,2)] by (auto simp: waits_for_peer_def)
  qed
qed

lemma callers_amongD: "callers_among ps s \<Longrightarrow> caller s i = Some pc \<Longrightarrow> pc \<in> ps"
  by (simp add: callers_among_iff)

lemma finished_stuck:
  assumes "life_inv s" and "finished s"
  shows "enabled s = []"
proof (cases "lf_panic s")
  case True
  then show ?thesis by (simp add: enabled_iff life_step_def)
next
  case False
  from assms have s: "lf_start s = Returned" "lf_read s = ReadOff" "lf_write s = WriteOff" "lf_ctx s"
    and c: "callers_among {StopIdle, StopDone} s"
    by (auto simp: finished_def life_inv_def inv_start_def)
  show ?thesis unfolding enabled_iff
  proof (intro allI impI)
    fix a assume "\<not> outside a"
    then show "life_step a s = None"
    proof (cases a)
      case (Starter b)
      then show ?thesis using s by (cases b) (simp_all add: start_action_blocked [OF False])
    next
      case (Reader b)
      then show ?thesis using s by (cases b) (simp_all add: read_action_blocked [OF False])
    next
      case (Writer b)
      then show ?thesis using s by (simp add: write_action_blocked [OF False])
    next
      case (Caller b)
      with \<open>\<not> outside a\<close> s show ?thesis using callers_amongD [OF c]
        by (cases b) (auto simp: stop_action_blocked [OF False])
    qed simp
  qed
qed

lemma waiting_stuck:
  assumes "waits_for_peer s c"
  shows "enabled s = []"
proof (cases "lf_panic s")
  case True
  then show ?thesis by (simp add: enabled_iff life_step_def)
next
  case False
  from assms have s: "lf_start s = Pumping" "lf_read s = ReadBlocked c" "lf_write s = WriteDone"
      "lf_inbox s c = 0" "c \<notin> lf_closed s" "c \<notin> lf_gone s" "lf_stopCh s \<longrightarrow> lf_ctx s"
    and c: "callers_among {StopIdle, StopWaiting, StopDone} s"
    by (auto simp: waits_for_peer_def)
  show ?thesis unfolding enabled_iff
  proof (intro allI impI)
    fix a assume "\<not> outside a"
    then show "life_step a s = None"
    proof (cases a)
      case (Starter b)
      then show ?thesis using s by (cases b) (simp_all add: start_action_blocked [OF False])
    next
      case (Reader b)
      then show ?thesis using s by (cases b) (simp_all add: read_action_blocked [OF False])
    next
      case (Writer b)
      then show ?thesis using s by (simp add: write_action_blocked [OF False])
    next
      case (Caller b)
      with \<open>\<not> outside a\<close> s show ?thesis using callers_amongD [OF c]
        by (cases b) (auto simp: stop_action_blocked [OF False])
    qed simp
  qed
qed

section \<open>Once Stop has closed the connection\<close>

text \<open>
  A bound on the steps the program can still take after \<open>Stop\<close>: program counters count down, and
  every frame that is still to be read costs one round of the read pump.
\<close>

fun start_rank :: "start_pc \<Rightarrow> nat" where
  "start_rank Returned = 0" | "start_rank AtTop = 1" | "start_rank InBackoff = 2" | "start_rank Pumping = 2"
| "start_rank _ = 8"

fun read_rank :: "read_pc \<Rightarrow> nat" where
  "read_rank ReadStart = 3" | "read_rank (ReadTop c) = 2" | "read_rank (ReadBlocked c) = 1" | "read_rank _ = 0"

fun write_rank :: "write_pc \<Rightarrow> nat" where
  "write_rank WriteStart = 2" | "write_rank (WriteTop c) = 1" | "write_rank _ = 0"

fun caller_rank :: "stop_pc \<Rightarrow> nat" where
  "caller_rank StopIdle = 4" | "caller_rank StopSawOpen = 3" | "caller_rank StopCloseConn = 2"
| "caller_rank StopWaiting = 1" | "caller_rank StopDone = 0"

definition unread :: "life \<Rightarrow> nat" where
  "unread s = (\<Sum>c < lf_next s. lf_inbox s c)"

definition life_rank :: "life \<Rightarrow> nat" where
  "life_rank s = start_rank (lf_start s) + read_rank (lf_read s) + write_rank (lf_write s) + 2 * unread s +
     sum_list (map caller_rank (lf_callers s)) + (if lf_ctx s then 0 else 1) + (if lf_panic s then 0 else 1)"

text \<open>\<open>Stop\<close> has closed the channel and the connection, and did not run between a dial and its result.\<close>

definition stopping :: "life \<Rightarrow> bool" where
  "stopping s \<longleftrightarrow> lf_stopCh s \<and> lf_conn s = None \<and> lf_start s \<noteq> Dialing \<and> lf_start s \<noteq> Dialed"

lemma stopping_closed: "life_inv s \<Longrightarrow> stopping s \<Longrightarrow> c < lf_next s \<Longrightarrow> c \<in> lf_closed s"
  by (auto simp: life_inv_def inv_conns_def stopping_def)

lemma stopping_holds:
  assumes "life_inv s" and "lf_read s = ReadTop c \<or> lf_read s = ReadBlocked c \<or> lf_write s = WriteTop c"
  shows "c < lf_next s"
  using assms by (auto simp: life_inv_def inv_pumps_def)

lemma unread_read:
  assumes "c < lf_next s" and "0 < lf_inbox s c"
  shows "unread s = Suc (unread (s\<lparr>lf_read := r, lf_inbox := (lf_inbox s)(c := lf_inbox s c - 1)\<rparr>))"
proof -
  have "unread s = lf_inbox s c + sum (lf_inbox s) ({..<lf_next s} - {c})"
    using assms(1) by (simp add: unread_def sum.remove)
  moreover have "sum ((lf_inbox s)(c := lf_inbox s c - 1)) {..<lf_next s} =
      (lf_inbox s c - 1) + sum (lf_inbox s) ({..<lf_next s} - {c})"
    using assms(1) by (subst sum.remove [of _ c]) auto
  ultimately show ?thesis using assms(2) by (simp add: unread_def)
qed

lemma caller_moves:
  assumes "caller s i = Some pc"
  shows "sum_list (map caller_rank ((lf_callers s)[i := pc'])) + caller_rank pc =
    sum_list (map caller_rank (lf_callers s)) + caller_rank pc'"
proof -
  have i: "i < length (lf_callers s)" "lf_callers s ! i = pc"
    using assms by (simp_all add: caller_def split: if_splits)
  then show ?thesis
    using id_take_nth_drop [OF i(1)] by (simp add: upd_conv_take_nth_drop) (metis (no_types, lifting) add.commute add.left_commute list.simps(9) map_append sum_list.Cons sum_list.append)
qed

lemma caller_down:
  assumes "caller s i = Some pc" and "caller_rank pc' < caller_rank pc"
  shows "sum_list (map caller_rank ((lf_callers s)[i := pc'])) < sum_list (map caller_rank (lf_callers s))"
  using caller_moves [OF assms(1), of pc'] assms(2) by simp

lemmas callers_down =
  caller_down [of _ _ StopIdle StopCloseConn, simplified] caller_down [of _ _ StopCloseConn StopWaiting, simplified]
  caller_down [of _ _ StopWaiting StopDone, simplified]

lemma close_conn_none: "lf_conn s = None \<Longrightarrow> close_conn s = s"
  by (simp add: close_conn_def)

lemma start_step_rank:
  assumes "stopping s" and "start_step a s = Some t"
  shows "stopping t \<and> life_rank t < life_rank s"
  using assms
  by (cases a) (auto simp: stopping_def life_rank_def start_returns_def close_conn_none unread_def split: if_splits)

lemma rank_frame [simp]:
  "stopping (s\<lparr>lf_bye := b\<rparr>) = stopping s" "life_rank (s\<lparr>lf_bye := b\<rparr>) = life_rank s"
  "stopping (s\<lparr>lf_queue := q\<rparr>) = stopping s" "life_rank (s\<lparr>lf_queue := q\<rparr>) = life_rank s"
  by (simp_all add: stopping_def life_rank_def unread_def)

lemma read_moves_rank:
  "stopping (s\<lparr>lf_read := pc\<rparr>) = stopping s"
  "read_rank pc < read_rank (lf_read s) \<Longrightarrow> life_rank (s\<lparr>lf_read := pc\<rparr>) < life_rank s"
  by (simp_all add: stopping_def life_rank_def unread_def)

lemma read_exits_rank:
  "stopping (read_exits s) = stopping s"
  "0 < read_rank (lf_read s) \<Longrightarrow> life_rank (read_exits s) < life_rank s"
  by (simp_all add: read_exits_def stopping_def life_rank_def unread_def)

lemma write_moves_rank:
  "stopping (s\<lparr>lf_write := pc\<rparr>) = stopping s"
  "write_rank pc < write_rank (lf_write s) \<Longrightarrow> life_rank (s\<lparr>lf_write := pc\<rparr>) < life_rank s"
  by (simp_all add: stopping_def life_rank_def unread_def)

lemma write_exits_rank:
  "stopping (write_exits s) = stopping s"
  "0 < write_rank (lf_write s) \<Longrightarrow> life_rank (write_exits s) < life_rank s"
  by (simp_all add: write_exits_def stopping_def life_rank_def unread_def)

lemmas moves_rank = read_moves_rank read_exits_rank write_moves_rank write_exits_rank

lemma readPump_step_rank:
  assumes "life_inv s" and "stopping s" and "readPump_step a s = Some t" and "\<not> lf_panic s"
  shows "stopping t \<and> life_rank t < life_rank s"
proof (cases "a = ReadMsg")
  case True
  with assms(3) obtain c where c: "lf_read s = ReadBlocked c" "0 < lf_inbox s c"
      "t = s\<lparr>lf_read := ReadTop c, lf_inbox := (lf_inbox s)(c := lf_inbox s c - 1)\<rparr>"
    by (auto split: read_pc.splits if_splits)
  have "c < lf_next s" using stopping_holds [OF assms(1)] c(1) by blast
  from unread_read [OF this c(2), of "ReadTop c"] c assms(2) show ?thesis
    by (simp add: stopping_def life_rank_def)
next
  case False
  with assms(2,3) show ?thesis
    by (cases a; cases "lf_read s") (auto simp: moves_rank split: if_splits option.splits)
qed

lemma writePump_step_rank:
  assumes "life_inv s" and "stopping s" and "writePump_step a s = Some t"
  shows "stopping t \<and> life_rank t < life_rank s"
proof -
  have w: "c \<in> lf_closed s" if "lf_write s = WriteTop c" for c
    using stopping_closed [OF assms(1,2)] stopping_holds [OF assms(1)] that by blast
  have q: "life_rank (write_exits (s\<lparr>lf_queue := q\<rparr>)) < life_rank s \<and> life_rank (write_exits (s\<lparr>lf_bye := b\<rparr>)) < life_rank s"
    if "lf_write s = WriteTop c" for c q b
    using write_exits_rank(2) [of "s\<lparr>lf_queue := q\<rparr>"] write_exits_rank(2) [of "s\<lparr>lf_bye := b\<rparr>"] that by simp
  show ?thesis using assms(2,3) w q
    by (cases a; cases "lf_write s") (auto simp: moves_rank split: if_splits option.splits)
qed

lemma stop_step_rank:
  assumes "stopping s" and "stop_step a s = Some t" and "\<not> lf_panic s"
  shows "stopping t \<and> life_rank t < life_rank s"
  using assms
  by (cases a) (auto simp: stopping_def life_rank_def caller_to_def close_conn_none unread_def
      intro: callers_down split: if_splits)

lemma network_step_rank:
  assumes "life_inv s" and "stopping s" and "network_step a s = Some t"
  shows "stopping t \<and> life_rank t \<le> life_rank s"
  using assms(2,3) stopping_closed [OF assms(1,2)]
  by (cases a) (auto simp: stopping_def life_rank_def unread_def split: if_splits)

lemma life_step_rank:
  assumes "life_inv s" and "stopping s" and "life_step a s = Some t"
  shows "stopping t \<and> life_rank t + (if outside a then 0 else 1) \<le> life_rank s"
  using assms(3)
proof (rule life_stepE)
  fix b assume "start_step b s = Some t"
  with start_step_rank [OF assms(2)] show ?thesis by fastforce
next
  fix b assume "readPump_step b s = Some t" and "\<not> lf_panic s"
  with readPump_step_rank [OF assms(1,2)] show ?thesis by fastforce
next
  fix b assume "writePump_step b s = Some t"
  with writePump_step_rank [OF assms(1,2)] show ?thesis by fastforce
next
  fix b assume "stop_step b s = Some t" and "\<not> lf_panic s"
  with stop_step_rank [OF assms(2)] show ?thesis by fastforce
next
  fix b assume n: "network_step b s = Some t" and "a = Network b"
  with network_step_rank [OF assms(1,2) n] show ?thesis by simp
qed

lemma life_run_rank:
  assumes "life_inv s" and "stopping s" and "life_run as s = Some t"
  shows "stopping t \<and> length (filter (\<lambda>a. \<not> outside a) as) + life_rank t \<le> life_rank s"
  using assms
proof (induction as arbitrary: s)
  case (Cons a as)
  then obtain u where u: "life_step a s = Some u" "life_run as u = Some t" by (auto split: option.splits)
  have r: "stopping u \<and> life_rank u + (if outside a then 0 else 1) \<le> life_rank s"
    using life_step_rank [OF Cons.prems(1,2) u(1)] .
  have "stopping t \<and> length (filter (\<lambda>a. \<not> outside a) as) + life_rank t \<le> life_rank u"
    using Cons.IH [OF life_step_inv [OF Cons.prems(1) u(1)] _ u(2)] r by blast
  with r show ?case by (auto split: if_splits)
qed simp

section \<open>One caller never panics\<close>

definition one_caller :: "life \<Rightarrow> bool" where
  "one_caller s \<longleftrightarrow> length (lf_callers s) \<le> 1 \<and> \<not> lf_panic s \<and>
     (\<forall>pc. caller s 0 = Some pc \<longrightarrow> lf_stopCh s = (pc \<noteq> StopIdle \<and> pc \<noteq> StopSawOpen)) \<and>
     (lf_callers s = [] \<longrightarrow> \<not> lf_stopCh s)"

definition same_callers :: "life \<Rightarrow> life \<Rightarrow> bool" where
  "same_callers s t \<longleftrightarrow> lf_callers t = lf_callers s \<and> lf_stopCh t = lf_stopCh s \<and> lf_panic t = lf_panic s"

lemma same_callers_one: "same_callers s t \<Longrightarrow> one_caller s \<Longrightarrow> one_caller t"
  by (simp add: same_callers_def one_caller_def caller_def)

lemma start_same_callers: "start_step b s = Some t \<Longrightarrow> same_callers s t"
  by (cases b) (auto simp: same_callers_def start_returns_def split: if_splits)

lemma read_same_callers: "readPump_step b s = Some t \<Longrightarrow> same_callers s t"
  by (cases b; cases "lf_read s") (auto simp: same_callers_def read_exits_def split: if_splits option.splits)

lemma write_same_callers: "writePump_step b s = Some t \<Longrightarrow> same_callers s t"
  by (cases b; cases "lf_write s") (auto simp: same_callers_def write_exits_def split: if_splits option.splits)

lemma network_same_callers: "network_step b s = Some t \<Longrightarrow> same_callers s t"
  by (cases b) (auto simp: same_callers_def split: if_splits)

lemma stop_step_one_caller: "one_caller s \<Longrightarrow> stop_step a s = Some t \<Longrightarrow> one_caller t"
  by (cases a; cases "lf_callers s") (auto simp: one_caller_def caller_to_def caller_def split: if_splits)

lemma life_run_one_caller: "one_caller s \<Longrightarrow> life_run as s = Some t \<Longrightarrow> one_caller t"
proof (induction as arbitrary: s)
  case (Cons a as)
  then obtain u where u: "life_step a s = Some u" "life_run as u = Some t" by (auto split: option.splits)
  have "one_caller u" using u(1)
  proof (rule life_stepE)
  qed (blast intro: Cons.prems(1) same_callers_one stop_step_one_caller start_same_callers read_same_callers
      write_same_callers network_same_callers)+
  then show ?case using Cons.IH u(2) by blast
qed simp

lemma single_caller_safe:
  assumes "life_run as (life_init n q) = Some s" and "n \<le> 1"
  shows "\<not> lf_panic s"
proof -
  have "one_caller (life_init n q)" using assms(2) by (auto simp: one_caller_def life_init_def caller_def)
  from life_run_one_caller [OF this assms(1)] show ?thesis by (simp add: one_caller_def)
qed

section \<open>Three runs\<close>

text \<open>A write runs into its deadline while the peer stays connected and silent: no reconnection.\<close>

definition half_open_run :: "action list" where
  "half_open_run = [Starter TopDial, Starter DialOk, Starter StoreConn, Starter SpawnPumps, Reader ReadLoad, Reader ReadCheck, Writer WriteLoad, Writer WriteFails]"

text \<open>\<open>Stop\<close> runs between the end of the handshake and the store of the connection.\<close>

definition missed_run :: "action list" where
  "missed_run =
     [Starter TopDial, Starter DialOk, Caller (StopCheck 0), Caller (StopClose 0), Caller (StopConn 0), Starter StoreConn, Starter SpawnPumps,
      Reader ReadLoad, Reader ReadCheck, Writer WriteLoad, Writer WriteStop, Starter Cancel]"

text \<open>The signal handler and the updater call \<open>Stop\<close> at the same time.\<close>

definition double_stop_run :: "action list" where
  "double_stop_run = [Caller (StopCheck 0), Caller (StopCheck 1), Caller (StopClose 0), Caller (StopClose 1)]"

lemmas run_defs = life_init_def life_step_def caller_def caller_to_def close_conn_def
  pumps_cancelled_def write_exits_def read_exits_def start_returns_def

lemma half_open_stuck:
  "\<exists>s. life_run half_open_run (life_init 1 1) = Some s \<and> waits_for_peer s 0 \<and> \<not> lf_stopCh s \<and> \<not> lf_ctx s \<and> \<not> lf_panic s"
  by (simp add: half_open_run_def run_defs waits_for_peer_def callers_among_def)

lemma missed_stuck:
  "\<exists>s. life_run missed_run (life_init 1 0) = Some s \<and> waits_for_peer s 0 \<and> lf_callers s = [StopWaiting] \<and>
     lf_bye s = {} \<and> \<not> lf_panic s"
  by (simp add: missed_run_def run_defs waits_for_peer_def callers_among_def)

lemma double_stop_panics:
  "\<exists>s. life_run double_stop_run (life_init 2 0) = Some s \<and> lf_panic s"
  by (simp add: double_stop_run_def run_defs numeral_2_eq_2)

section \<open>Properties\<close>

text \<open>The goroutines of the transport never block each other for good. In a reachable state
  without a panic nothing is left to do for the program exactly when \<open>Start\<close> has returned and every
  caller of \<open>Stop\<close> with it, or when the write pump has gone and the read pump waits for a frame on
  a connection that nobody has closed. Every connection opened before the current one is closed, and
  so are all of them once \<open>Start\<close> has returned.\<close>

theorem transport_waits_only_for_a_silent_peer:
  assumes "life_run as (life_init n q) = Some s" and "\<not> lf_panic s"
  shows "(enabled s = [] \<longleftrightarrow> finished s \<or> (\<exists>c. waits_for_peer s c)) \<and>
    {..<lf_next s} \<subseteq> lf_closed s \<union> (if lf_start s = Returned then {} else set_option (lf_conn s))"
proof -
  note inv = reachable_inv [OF assms(1)]
  have "enabled s = [] \<longleftrightarrow> finished s \<or> (\<exists>c. waits_for_peer s c)"
    using stuck_shape [OF inv assms(2)] finished_stuck [OF inv] waiting_stuck by blast
  with inv show ?thesis by (auto simp: inv_unfold inv_conns_def)
qed

theorem transport_waits_only_for_a_silent_peer_witness:
  "\<exists>s. life_run missed_run (life_init 1 0) = Some s \<and> lf_callers s = [StopWaiting] \<and> enabled s = []"
  using transport_waits_only_for_a_silent_peer [of missed_run 1 0] missed_stuck by blast

text \<open>Once \<open>Stop\<close> has closed the channel and the current connection, and unless it came between
  a dial and its result, the transport ends: whatever the peer and the other callers do, the program
  takes at most \<open>life_rank\<close> further steps, and when none is left \<open>Start\<close> has returned, every caller
  of \<open>Stop\<close> has been released and every connection is closed. With a single caller of \<open>Stop\<close> there
  is no panic either.\<close>

theorem stop_ends_the_transport:
  assumes "life_run as (life_init n q) = Some s" and "stopping s" and "life_run bs s = Some t"
  shows "length (filter (\<lambda>a. \<not> outside a) bs) \<le> life_rank s \<and>
    (enabled t = [] \<longrightarrow> lf_panic t \<or> finished t \<and> {..<lf_next t} \<subseteq> lf_closed t) \<and> (lf_panic t \<longrightarrow> 2 \<le> n)"
proof -
  note inv = reachable_inv [OF assms(1)]
  note inv_t = life_run_inv [OF inv assms(3)] and rank = life_run_rank [OF inv assms(2,3)]
  have closed: "{..<lf_next t} \<subseteq> lf_closed t" using stopping_closed [OF inv_t] rank by blast
  then have "\<not> waits_for_peer t c" for c
    using stopping_holds [OF inv_t] by (auto simp: waits_for_peer_def)
  then have "lf_panic t \<or> finished t" if "enabled t = []"
    using stuck_shape [OF inv_t _ that] by blast
  moreover have "life_run (as @ bs) (life_init n q) = Some t"
    using assms(1,3) by (simp add: life_run_append)
  then have "lf_panic t \<longrightarrow> 2 \<le> n" using single_caller_safe [of "as @ bs" n q t] by linarith
  ultimately show ?thesis using rank closed by linarith
qed

definition stopped_in_service :: "action list" where
  "stopped_in_service =
     [Starter TopDial, Starter DialOk, Starter StoreConn, Starter SpawnPumps, Reader ReadLoad, Reader ReadCheck, Writer WriteLoad, Writer WriteMsg, Caller (StopCheck 0), Caller (StopClose 0), Caller (StopConn 0)]"

definition shutdown_run :: "action list" where
  "shutdown_run = [Reader ReadErr, Writer WriteCtx, Starter PumpsJoined, Starter TopDone, Caller (StopWait 0)]"

theorem stop_ends_the_transport_witness:
  "\<exists>s t. life_run stopped_in_service (life_init 1 1) = Some s \<and> stopping s \<and> life_run shutdown_run s = Some t \<and>
     finished t \<and> {..<lf_next t} \<subseteq> lf_closed t"
proof -
  obtain s where s: "life_run stopped_in_service (life_init 1 1) = Some s" "stopping s"
    and run: "\<exists>t. life_run shutdown_run s = Some t \<and> finished t"
    by (simp add: stopped_in_service_def shutdown_run_def run_defs stopping_def finished_def callers_among_def)
  from run obtain t where t: "life_run shutdown_run s = Some t" "finished t" by blast
  have "\<not> lf_panic t" using stop_ends_the_transport [OF s t(1)] by simp
  moreover have "enabled t = []"
    using finished_stuck [OF life_run_inv [OF reachable_inv [OF s(1)] t(1)] t(2)] .
  ultimately show ?thesis using stop_ends_the_transport [OF s t(1)] s t by blast
qed
end
