(* ===== verification/Spec2Isabelle.thy ===== *)
theory Spec2Isabelle
  imports Alert_Claims Uptime Retention Check_Routes Public_Status Downsampling Agent_Transport Hub_Claims
    Command_Routes Self_Update Agent_Logs Update_Flow Web_Push Audit_Log Prometheus Monitoring Vulnerabilities
    Agent_Tokens Dashboard Process_Routes Cve_Scan Docker_Collector Oracle_Collector Weekly_Report Aggregates Log_Search Schema_Values Transport_Life
begin

text \<open>
  NexWatch is a monitoring system in Go: a hub (\<open>cmd/hub\<close>, \<open>internal/hub\<close>) that stores its data in
  PocketBase, and agents (\<open>cmd/agent\<close>, \<open>internal/agent\<close>) that connect to it over a websocket, send
  metrics and logs, and obey commands. This development models the code of both in Isabelle and proves
  what makes it correct, or exhibits where it is not.

  How the parts interact. An agent registers, collects metrics from its collectors at an interval,
  tails logs, and sends both in MessagePack frames (\<open>internal/shared/protocol\<close>). The hub's handler
  authenticates the connection, ingests the frames into the collections \<open>metrics\<close>,
  \<open>docker_containers\<close> and \<open>logs\<close>, and routes command responses to the broker that waits for them. The
  alert engine evaluates the rules on what is stored, keeps a state machine per rule and subject, writes
  rows of \<open>alerts\<close> and hands notifications to the notification service. Checks are probed by the
  hub itself. Retention jobs and the downsampler delete and aggregate old rows. The routes read all of
  this for the user interface, the status page and Prometheus.

  Conventions. A collection is a record of operations on an unknown database state
  (\<open>Record_Table\<close>, locale \<open>record_table\<close>: \<open>FindRecordById\<close>, \<open>Save\<close>, \<open>FindRecordsByFilter\<close>,
  \<open>Delete\<close>); a save, query or deletion may fail, while finding by id is a function of the rows, so
  its transient failures are not expressed. An in-memory table with scheduled faults obeys the contract and
  runs the witnesses. Where a function only reads, its view of the database is a record of query
  results. A handler is a function from its inputs and state to the new state and its outputs; errors
  are values of a sum or option type. Times are nanoseconds as integers, with \<open>int64\<close> wrap-around and
  the saturation of \<open>Time.Sub\<close> written out; a \<open>float64\<close> is a rational, its rounding is not modelled;
  sized integers that wrap are words. \<open>sort.Slice\<close>, the iteration order of Go maps, random numbers,
  hashes, the JSON and MessagePack codecs, the network, Docker and the operating system are parameters
  (the sort of a query by descending timestamp is the function \<open>newest\<close> on the rows it yields),
  and the properties hold for all of them, or for all that meet a hypothesis stating documented
  behaviour. Loops are recursions on lists; the purge loop that need not end is a
  \<open>partial_function (option)\<close>, and its properties say when it returns. No fuel is used.

  The theories, with the code each models.
  \<^item> \<open>Nexwatch_Prelude\<close>: clocks, byte strings, number formatting, decoded values. \<open>Record_Table\<close>,
    \<open>Hub_Records\<close>: the collections of \<open>internal/hub/migrations\<close> and their contract.
  \<^item> \<open>Alert_Eval\<close>, \<open>Alert_Engine\<close> (\<open>internal/hub/alerts/engine.go\<close>): what a rule observes, and the
    state machine \<open>updateState\<close> with the rows and notifications it writes. \<open>Alert_Safety\<close>,
    \<open>Alert_Props\<close>, \<open>Alert_Tracking\<close>, \<open>Alert_Life\<close>, \<open>Alert_Timing\<close> prove the invariants in the locale
    \<open>alert_engine\<close> and over all reachable states (evaluations, acknowledgements, restarts; a restart
    always happens, and a history may be restricted to those that could load all firing rows);
    \<open>Alert_Claims\<close> states the properties. \<open>Alert_Routes\<close>: \<open>alerts_routes.go\<close>.
  \<^item> \<open>Authz\<close> (\<open>authz.go\<close>): roles, a linear order. \<open>Audit_Log\<close> (\<open>internal/hub/audit\<close>): audited requests.
  \<^item> \<open>Uptime\<close> (\<open>uptime.go\<close>): merging of intervals, against the set of covered instants.
    \<open>Public_Status\<close> (\<open>public_status.go\<close>): rate limiter and status page.
  \<^item> \<open>Settings\<close>, \<open>Retention\<close>, \<open>Downsampling\<close>: \<open>settings.go\<close>, the purge jobs, \<open>downsampler.go\<close>.
  \<^item> \<open>Checks\<close>, \<open>Check_Routes\<close>: \<open>internal/hub/checks\<close> and \<open>checks_routes.go\<close>, probes, debouncing, the
    scheduler of runners, whose histories interleave the critical sections of its mutex and the
    calls of the cancel functions outside it.
  \<^item> \<open>Wire\<close> (\<open>message.go\<close>), \<open>Agent_Transport\<close> (\<open>transport/ws.go\<close>): the queue and the reconnecting
    client, refining an abstract link. \<open>Transport_Life\<close>: its goroutines (\<open>Start\<close>, the pumps, \<open>Stop\<close>,
    \<open>Wait\<close>) with their program counters, and where they can wait for each other. \<open>Ingest\<close>: \<open>metrics/service.go\<close> and \<open>logs/service.go\<close>.
    \<open>Broker\<close>, \<open>Command_Services\<close>, \<open>Command_Routes\<close>: commands and their answers. \<open>Agent_Hub\<close>,
    \<open>Hub_Claims\<close> (\<open>ws/handler.go\<close>): connections, authentication, message routing.
  \<^item> \<open>Self_Update\<close> (\<open>agent/update\<close>), \<open>Agent_Config\<close>, \<open>Agent_Logs\<close>, \<open>Agent_Main\<close> (\<open>cmd/agent/main.go\<close>,
    \<open>agent/command\<close>), \<open>Update_Flow\<close>: the agent, and an update from the route to the machine and back,
    with the responses recorded before and after the route's own write.
  \<^item> \<open>Notify_Service\<close>, \<open>Notify_Channels\<close>, \<open>Web_Push\<close>: delivery of alerts. \<open>Prometheus\<close>: the exposition.
  \<^item> \<open>Host_Collectors\<close>, \<open>Service_Collectors\<close>, \<open>Hardening\<close>, \<open>Vulnerabilities\<close>,
    \<open>Docker_Collector\<close>, \<open>Oracle_Collector\<close>, \<open>Cve_Scan\<close> (\<open>internal/agent/collector\<close>): what the agent
    reports. \<open>Monitoring\<close>, and the second parts of \<open>Cve_Scan\<close> and \<open>Docker_Collector\<close>: those reports
    under the rules of the alert engine and in the inventory of the hub.
  \<^item> \<open>Dashboard\<close>, \<open>Process_Routes\<close> (\<open>routes.go\<close>, \<open>threaddump_validate.go\<close>): the routes that read
    metrics and request thread dumps. \<open>Agent_Tokens\<close> (\<open>routes.go\<close>, \<open>agenttoken\<close>): the life of a token.
  \<^item> \<open>Weekly_Report\<close> (\<open>internal/hub/report\<close>, \<open>reports_routes.go\<close>): the settings, every section, the
    text body and the delivery of the report. \<open>Aggregates\<close> composes the downsampler with the readers of
    its rows: charts, rules and the report.
  \<^item> \<open>Log_Search\<close> (\<open>logs_routes.go\<close>): the search in the logs and its paging.
  \<^item> \<open>Schema\<close> (\<open>internal/hub/migrations\<close>): every migration, up and down. \<open>Schema_Claims\<close> gives the
    effect of each and the schema of a fresh install, \<open>Schema_Access\<close> what it means for the REST interface
    and for rows that exceed a limit, \<open>Schema_Values\<close> that the writers of the other theories store only
    values the select fields admit.

  Not modelled. PocketBase and the database; HTTP, TLS and websocket
  transport; gopsutil, the Docker daemon and the programs the agent runs; process start-up and
  service registration; log rotation and formatting; the HTML templates of the report. The rounding of
  floating point numbers and Unicode case mapping outside ASCII are not modelled.
\<close>

end
